(* ===== verification/Prelude.thy ===== *)
theory Prelude
  imports Main
begin

text \<open>
  Shared vocabulary of the development: results of code that may raise, transactions over a
  database value, operations that keep their effects when they raise, tables with a key column,
  loops that stop at the first error, and the two contracts several components share (a
  life cycle that only moves forward, and a guard that lets an external effect happen once).
\<close>

named_theorems op_defs \<open>definitions of the effect combinators\<close>
named_theorems table_simps \<open>how lookups read a changed table\<close>

section \<open>Results and operations\<close>

text \<open>
  A Python function that may raise returns a sum, \<open>Inl\<close> the exception. A database transaction
  returns the new database only when it commits: an exception rolls back, so \<open>Inl\<close> carries no
  database. An operation made of several transactions and calls keeps what it already did when it
  raises, so it returns the state on both branches.
\<close>

type_synonym ('e, 'a) result = "'e + 'a"
type_synonym ('s, 'e, 'a) txn = "'s \<Rightarrow> 'e + 'a \<times> 's"
type_synonym ('s, 'e, 'a) op = "'s \<Rightarrow> ('e + 'a) \<times> 's"

definition ret :: "'a \<Rightarrow> ('s, 'e, 'a) op" where
  [op_defs]: "ret x s = (Inr x, s)"

definition raise :: "'e \<Rightarrow> ('s, 'e, 'a) op" where
  [op_defs]: "raise e s = (Inl e, s)"

definition seq :: "('s, 'e, 'a) op \<Rightarrow> ('a \<Rightarrow> ('s, 'e, 'b) op) \<Rightarrow> ('s, 'e, 'b) op" where
  [op_defs]: "seq m f s = (case m s of (Inl e, t) \<Rightarrow> (Inl e, t) | (Inr x, t) \<Rightarrow> f x t)"

definition catch :: "('s, 'e, 'a) op \<Rightarrow> ('e \<Rightarrow> ('s, 'e, 'a) op) \<Rightarrow> ('s, 'e, 'a) op" where
  [op_defs]: "catch m h s = (case m s of (Inl e, t) \<Rightarrow> h e t | (Inr x, t) \<Rightarrow> (Inr x, t))"

definition commit :: "('s, 'e, 'a) txn \<Rightarrow> ('s, 'e, 'a) op" where
  [op_defs]: "commit m s = (case m s of Inl e \<Rightarrow> (Inl e, s) | Inr (x, t) \<Rightarrow> (Inr x, t))"

definition lift :: "('e + 'a) \<Rightarrow> ('s, 'e, 'a) op" where
  [op_defs]: "lift r s = (r, s)"

definition demand :: "bool \<Rightarrow> 'e \<Rightarrow> ('s, 'e, unit) op" where
  [op_defs]: "demand b e = (if b then ret () else raise e)"

lemma seq_Inr: "seq m f s = (Inr y, t) \<longleftrightarrow> (\<exists>x u. m s = (Inr x, u) \<and> f x u = (Inr y, t))"
  by (auto simp: seq_def split: prod.splits sum.splits)

text \<open>A result passed on to the next computation, an exception ends it.\<close>

definition bind :: "('e + 'a) \<Rightarrow> ('a \<Rightarrow> 'e + 'b) \<Rightarrow> 'e + 'b" where
  [op_defs]: "bind r f = (case r of Inl e \<Rightarrow> Inl e | Inr x \<Rightarrow> f x)"

lemma bind_simps [simp]: "bind (Inl e) f = Inl e" "bind (Inr x) f = f x"
  by (simp_all add: bind_def)

lemma bind_Inr_iff: "bind r f = Inr y \<longleftrightarrow> (\<exists>x. r = Inr x \<and> f x = Inr y)"
  by (cases r) auto

lemma bind_Inl_iff:
  "bind r f = Inl e \<longleftrightarrow> r = Inl e \<or> (\<exists>x. r = Inr x \<and> f x = Inl e)"
  by (cases r) auto

definition map_error :: "('e \<Rightarrow> 'f) \<Rightarrow> 'e + 'a \<Rightarrow> 'f + 'a" where
  "map_error f r = (case r of Inl e \<Rightarrow> Inl (f e) | Inr x \<Rightarrow> Inr x)"

lemma map_error_simps [simp]: "map_error f (Inl e) = Inl (f e)" "map_error f (Inr x) = Inr x"
  by (simp_all add: map_error_def)

lemma map_error_Inr_iff [simp]: "map_error f r = Inr x \<longleftrightarrow> r = Inr x"
  by (cases r) auto

definition ok :: "'e + 'a \<Rightarrow> bool" where
  "ok r = (case r of Inl _ \<Rightarrow> False | Inr _ \<Rightarrow> True)"

lemma ok_simps [simp]: "\<not> ok (Inl e)" "ok (Inr x)"
  by (simp_all add: ok_def)

lemma ok_iff: "ok r \<longleftrightarrow> (\<exists>x. r = Inr x)"
  by (cases r) auto

lemma ok_bind: "ok (bind r f) \<longleftrightarrow> (\<exists>x. r = Inr x \<and> ok (f x))"
  by (cases r) auto

lemma ok_bind_const [simp]: "ok (bind r (\<lambda>_. q)) \<longleftrightarrow> ok r \<and> ok q"
  by (cases r) auto

lemma ok_map_error [simp]: "ok (map_error f r) = ok r"
  by (cases r) auto

lemma ok_if [simp]:
  "ok (if b then Inl e else r) \<longleftrightarrow> \<not> b \<and> ok r"
  "ok (if b then r else Inl e) \<longleftrightarrow> b \<and> ok r"
  by simp_all

section \<open>Loops that raise at the first bad element\<close>

fun each :: "('a \<Rightarrow> 'e + 'b) \<Rightarrow> 'a list \<Rightarrow> 'e + unit" where
  "each f [] = Inr ()"
| "each f (x # xs) = bind (f x) (\<lambda>_. each f xs)"

fun collect :: "('a \<Rightarrow> 'e + 'b) \<Rightarrow> 'a list \<Rightarrow> 'e + 'b list" where
  "collect f [] = Inr []"
| "collect f (x # xs) = bind (f x) (\<lambda>y. bind (collect f xs) (\<lambda>ys. Inr (y # ys)))"

lemma ok_each: "ok (each f xs) \<longleftrightarrow> (\<forall>x\<in>set xs. ok (f x))"
  by (induction xs) auto

lemma each_Inr: "each f xs = Inr u \<longleftrightarrow> (\<forall>x\<in>set xs. ok (f x))"
  by (metis (full_types) ok_each ok_iff old.unit.exhaust)

lemma each_Inl:
  "each f xs = Inl e \<longleftrightarrow>
     (\<exists>us x vs. xs = us @ x # vs \<and> f x = Inl e \<and> (\<forall>u\<in>set us. ok (f u)))"
proof (induction xs)
  case Nil
  then show ?case by simp
next
  case (Cons x xs)
  show ?case
  proof (cases "f x")
    case (Inl e')
    then show ?thesis by (force simp: Cons_eq_append_conv)
  next
    case (Inr y)
    have "each f (x # xs) = Inl e \<longleftrightarrow>
        (\<exists>us z vs. xs = us @ z # vs \<and> f z = Inl e \<and> (\<forall>u\<in>set us. ok (f u)))"
      using Inr Cons by simp
    also have "\<dots> \<longleftrightarrow>
        (\<exists>us z vs. x # xs = us @ z # vs \<and> f z = Inl e \<and> (\<forall>u\<in>set us. ok (f u)))"
    proof
      assume "\<exists>us z vs. xs = us @ z # vs \<and> f z = Inl e \<and> (\<forall>u\<in>set us. ok (f u))"
      then obtain us z vs where "xs = us @ z # vs" "f z = Inl e" "\<forall>u\<in>set us. ok (f u)"
        by blast
      with Inr have "x # xs = (x # us) @ z # vs \<and> f z = Inl e \<and> (\<forall>u\<in>set (x # us). ok (f u))"
        by simp
      then show "\<exists>us z vs. x # xs = us @ z # vs \<and> f z = Inl e \<and> (\<forall>u\<in>set us. ok (f u))"
        by blast
    next
      assume "\<exists>us z vs. x # xs = us @ z # vs \<and> f z = Inl e \<and> (\<forall>u\<in>set us. ok (f u))"
      then obtain us z vs where *: "x # xs = us @ z # vs" "f z = Inl e" "\<forall>u\<in>set us. ok (f u)"
        by blast
      with Inr obtain us' where "us = x # us'" by (cases us) auto
      with * have "xs = us' @ z # vs \<and> f z = Inl e \<and> (\<forall>u\<in>set us'. ok (f u))"
        by simp
      then show "\<exists>us z vs. xs = us @ z # vs \<and> f z = Inl e \<and> (\<forall>u\<in>set us. ok (f u))"
        by blast
    qed
    finally show ?thesis .
  qed
qed

lemma collect_Inr: "collect f xs = Inr ys \<longleftrightarrow> map f xs = map Inr ys"
proof (induction xs arbitrary: ys)
  case Nil
  then show ?case by auto
next
  case (Cons x xs)
  show ?case by (cases ys) (auto simp: bind_Inr_iff Cons.IH)
qed

lemma ok_collect: "ok (collect f xs) \<longleftrightarrow> (\<forall>x\<in>set xs. ok (f x))"
proof (induction xs)
  case (Cons x xs)
  have "ok (collect f (x # xs)) \<longleftrightarrow> ok (f x) \<and> ok (collect f xs)"
    by (cases "f x"; cases "collect f xs") auto
  with Cons show ?case by simp
qed simp

lemma collect_length: "collect f xs = Inr ys \<Longrightarrow> length ys = length xs"
  by (metis collect_Inr length_map)

section \<open>Tables with a key column\<close>

definition lookup_row :: "('r \<Rightarrow> 'k) \<Rightarrow> 'k \<Rightarrow> 'r list \<Rightarrow> 'r option" where
  "lookup_row key k rows = find (\<lambda>r. key r = k) rows"

definition update_rows :: "('r \<Rightarrow> 'k) \<Rightarrow> 'k \<Rightarrow> ('r \<Rightarrow> 'r) \<Rightarrow> 'r list \<Rightarrow> 'r list" where
  "update_rows key k f rows = map (\<lambda>r. if key r = k then f r else r) rows"

lemma lookup_row_Nil [simp]: "lookup_row key k [] = None"
  by (simp add: lookup_row_def)

lemma lookup_row_Cons [simp]:
  "lookup_row key k (r # rows) = (if key r = k then Some r else lookup_row key k rows)"
  by (simp add: lookup_row_def)

lemma lookup_row_Some: "lookup_row key k rows = Some r \<Longrightarrow> r \<in> set rows \<and> key r = k"
  by (induction rows) (auto split: if_splits)

lemma lookup_row_None: "lookup_row key k rows = None \<longleftrightarrow> k \<notin> key ` set rows"
  by (induction rows) auto

lemma lookup_row_in:
  "distinct (map key rows) \<Longrightarrow> r \<in> set rows \<Longrightarrow> lookup_row key (key r) rows = Some r"
  by (induction rows) auto

lemma lookup_row_append [table_simps]:
  "lookup_row key k (xs @ ys) =
     (case lookup_row key k xs of None \<Rightarrow> lookup_row key k ys | Some r \<Rightarrow> Some r)"
  by (induction xs) auto

lemma lookup_update_rows [table_simps]:
  assumes "\<And>r. key r = k \<Longrightarrow> key (f r) = k"
  shows "lookup_row key j (update_rows key k f rows) =
    (if j = k then map_option f (lookup_row key k rows) else lookup_row key j rows)"
  using assms by (induction rows) (auto simp: update_rows_def)

lemma keys_update_rows [table_simps]:
  assumes "\<And>r. key r = k \<Longrightarrow> col (f r) = col r"
  shows "map col (update_rows key k f rows) = map col rows"
  using assms by (induction rows) (auto simp: update_rows_def)

lemma set_update_rows:
  "r \<in> set (update_rows key k f rows) \<longleftrightarrow>
     (\<exists>q\<in>set rows. r = (if key q = k then f q else q))"
  by (force simp: update_rows_def)

lemma update_rows_absent: "k \<notin> key ` set rows \<Longrightarrow> update_rows key k f rows = rows"
  by (induction rows) (auto simp: update_rows_def)

lemma lookup_row_map:
  "(\<And>q. key (g q) = key q) \<Longrightarrow> lookup_row key k (map g rows) = map_option g (lookup_row key k rows)"
  by (induction rows) auto

lemma length_filter_update_rows:
  assumes "distinct (map key rows)" and "r \<in> set rows"
  shows "length (filter P (update_rows key (key r) f rows)) + (if P r then 1 else 0)
    = length (filter P rows) + (if P (f r) then 1 else 0)"
  using assms
proof (induction rows)
  case (Cons q rows)
  show ?case
  proof (cases "q = r")
    case True
    with Cons.prems have "update_rows key (key r) f rows = rows"
      by (intro update_rows_absent) auto
    with True have "update_rows key (key r) f (q # rows) = f r # rows" by (simp add: update_rows_def)
    with True show ?thesis by simp
  next
    case False
    with Cons.prems have "r \<in> set rows" "key q \<noteq> key r" by (auto simp: rev_image_eqI)
    with Cons show ?thesis by (auto simp: update_rows_def)
  qed
qed simp

section \<open>Small facts on lists\<close>

lemma distinct_card_eq: "card (set xs) = length xs \<longleftrightarrow> distinct xs"
  by (metis card_distinct distinct_card)

lemma count_list_append [simp]: "count_list (xs @ ys) x = count_list xs x + count_list ys x"
  by (induction xs) auto

section \<open>Contract: a life cycle that only moves forward\<close>

text \<open>
  The stores of the program keep a state column per key and every operation either leaves a key's
  state alone or moves it to a state of greater rank. Whatever the operations are, a terminal
  state is then final and no state is entered twice.
\<close>

locale lifecycle =
  fixes status :: "'db \<Rightarrow> 'k \<Rightarrow> 'st option"
    and rank :: "'st \<Rightarrow> nat"
    and step :: "'db \<Rightarrow> 'db \<Rightarrow> bool"
  assumes forward:
    "step d d' \<Longrightarrow> status d k = Some a \<Longrightarrow>
       \<exists>b. status d' k = Some b \<and> (b = a \<or> rank a < rank b)"
begin

lemma run_forward:
  assumes "step\<^sup>*\<^sup>* d d'" and "status d k = Some a"
  shows "\<exists>b. status d' k = Some b \<and> (b = a \<or> rank a < rank b)"
  using assms(1)
proof (induction rule: rtranclp_induct)
  case base
  with assms(2) show ?case by simp
next
  case (step y z)
  then obtain b where "status y k = Some b" "b = a \<or> rank a < rank b" by blast
  with forward [OF step.hyps(2)] show ?case by (metis order_less_trans)
qed

lemma terminal_final:
  assumes "step\<^sup>*\<^sup>* d d'" and "status d k = Some a" and "\<And>b. rank b \<le> rank a"
  shows "status d' k = Some a"
  using run_forward [OF assms(1,2)] assms(3) by (metis leD)

lemma never_back:
  assumes "step\<^sup>*\<^sup>* d d'" and "status d k = Some a" and "status d' k = Some b"
  shows "rank a \<le> rank b"
  using run_forward [OF assms(1,2)] assms(3) by auto

end

section \<open>Contract: an external effect that happens at most once\<close>

text \<open>
  A durable store guards an external effect (creating a document, submitting a print job): an
  operation may cause the effect for a key only while the store has not recorded the crossing, and
  leaves the crossing recorded when it does; no operation erases the record.
\<close>

locale once_guard =
  fixes crossed :: "'s \<Rightarrow> 'k \<Rightarrow> bool"
    and effects :: "'s \<Rightarrow> 'k \<Rightarrow> nat"
    and step :: "'s \<Rightarrow> 's \<Rightarrow> bool"
  assumes crossed_stays: "step s t \<Longrightarrow> crossed s k \<Longrightarrow> crossed t k"
    and effect_guarded: "step s t \<Longrightarrow> crossed s k \<Longrightarrow> effects t k = effects s k"
    and effect_single: "step s t \<Longrightarrow> effects t k \<le> Suc (effects s k)"
    and effect_crosses: "step s t \<Longrightarrow> effects t k \<noteq> effects s k \<Longrightarrow> crossed t k"
begin

definition guarded :: "'s \<Rightarrow> 'k \<Rightarrow> bool" where
  "guarded s k \<longleftrightarrow> effects s k \<le> 1 \<and> (effects s k = 1 \<longrightarrow> crossed s k)"

lemma guarded_step: "step s t \<Longrightarrow> guarded s k \<Longrightarrow> guarded t k"
  unfolding guarded_def
  by (metis crossed_stays effect_crosses effect_guarded effect_single le_antisym not_less_eq_eq
      One_nat_def le_SucE le_zero_eq)

lemma guarded_run: "step\<^sup>*\<^sup>* s t \<Longrightarrow> guarded s k \<Longrightarrow> guarded t k"
  by (induction rule: rtranclp_induct) (auto intro: guarded_step)

lemma at_most_once: "step\<^sup>*\<^sup>* s t \<Longrightarrow> effects s k = 0 \<Longrightarrow> effects t k \<le> 1"
  using guarded_run [of s t k] by (simp add: guarded_def)

lemma no_more: "step\<^sup>*\<^sup>* s t \<Longrightarrow> crossed s k \<Longrightarrow> effects t k = effects s k \<and> crossed t k"
  by (induction rule: rtranclp_induct) (auto simp: effect_guarded crossed_stays)

end

end
