(* ===== verification/PyText.thy ===== *)
theory PyText
  imports Prelude "HOL-Library.Char_ord" "HOL-Library.List_Lexorder"
begin

text \<open>
  Python strings as the code uses them. A string is a list of code points U+0000 to U+00FF, the
  eight-bit \<open>char\<close>; the protocol texts of the program (codes, identifiers, states, reasons,
  hashes) are ASCII. The methods keep Python's behaviour on the whole of that range: \<open>isdigit\<close>
  accepts the superscript digits, \<open>strip\<close> and \<open>isspace\<close> the no-break space. Bytes are the same
  eight-bit type under the name \<open>byte\<close>.
\<close>

type_synonym pystr = string
type_synonym byte = char
type_synonym bytes = "byte list"

section \<open>Character classes\<close>

definition code :: "char \<Rightarrow> nat" where
  "code c = of_char c"

lemma code_less [simp]: "code c < 256"
  by (simp add: code_def)

definition digit_char :: "char \<Rightarrow> bool" where
  "digit_char c \<longleftrightarrow> 48 \<le> code c \<and> code c \<le> 57"

definition isdigit_char :: "char \<Rightarrow> bool" where
  "isdigit_char c \<longleftrightarrow> digit_char c \<or> code c = 178 \<or> code c = 179 \<or> code c = 185"

definition space_char :: "char \<Rightarrow> bool" where
  "space_char c \<longleftrightarrow>
     (9 \<le> code c \<and> code c \<le> 13) \<or> (28 \<le> code c \<and> code c \<le> 32) \<or> code c = 133 \<or> code c = 160"

definition upper_char :: "char \<Rightarrow> bool" where
  "upper_char c \<longleftrightarrow> 65 \<le> code c \<and> code c \<le> 90"

definition lower_char :: "char \<Rightarrow> bool" where
  "lower_char c \<longleftrightarrow> 97 \<le> code c \<and> code c \<le> 122"

text \<open>The class \<open>[A-Za-z0-9._:-]\<close> of the identifier patterns.\<close>

definition id_char :: "char \<Rightarrow> bool" where
  "id_char c \<longleftrightarrow> digit_char c \<or> upper_char c \<or> lower_char c \<or> c \<in> set ''._:-''"

definition hex_char :: "char \<Rightarrow> bool" where
  "hex_char c \<longleftrightarrow> digit_char c \<or> (97 \<le> code c \<and> code c \<le> 102)"

section \<open>String methods\<close>

definition isascii :: "pystr \<Rightarrow> bool" where
  "isascii s \<longleftrightarrow> list_all (\<lambda>c. code c < 128) s"

definition isdigit :: "pystr \<Rightarrow> bool" where
  "isdigit s \<longleftrightarrow> s \<noteq> [] \<and> list_all isdigit_char s"

text \<open>\<open>\d{n}\<close> matches decimal digits only, not the superscripts that \<open>isdigit\<close> accepts.\<close>

definition digits :: "nat \<Rightarrow> pystr \<Rightarrow> bool" where
  "digits n s \<longleftrightarrow> length s = n \<and> list_all digit_char s"

definition strip :: "pystr \<Rightarrow> pystr" where
  "strip s = rev (dropWhile space_char (rev (dropWhile space_char s)))"

definition has_space :: "pystr \<Rightarrow> bool" where
  "has_space s \<longleftrightarrow> list_ex space_char s"

text \<open>
  \<open>str.upper\<close>: ASCII and Latin-1 letters move by 32, sharp s becomes two letters. The two letters
  whose upper case lies above U+00FF stay as they are.
\<close>

definition upper_of :: "char \<Rightarrow> pystr" where
  "upper_of c =
     (if lower_char c \<or> (224 \<le> code c \<and> code c \<le> 254 \<and> code c \<noteq> 247)
      then [char_of (code c - 32)]
      else if code c = 223 then ''SS'' else [c])"

definition upper :: "pystr \<Rightarrow> pystr" where
  "upper s = concat (map upper_of s)"

definition fold_of :: "char \<Rightarrow> pystr" where
  "fold_of c =
     (if upper_char c \<or> (192 \<le> code c \<and> code c \<le> 222 \<and> code c \<noteq> 215)
      then [char_of (code c + 32)]
      else if code c = 223 then ''ss'' else [c])"

definition casefold :: "pystr \<Rightarrow> pystr" where
  "casefold s = concat (map fold_of s)"

definition startswith :: "pystr \<Rightarrow> pystr \<Rightarrow> bool" where
  "startswith s p \<longleftrightarrow> take (length p) s = p"

text \<open>Truthiness of an optional string: \<open>None\<close> and the empty string are both false.\<close>

definition truthy :: "pystr option \<Rightarrow> bool" where
  "truthy v = (case v of None \<Rightarrow> False | Some s \<Rightarrow> s \<noteq> [])"

text \<open>The test \<open>value in (None, "")\<close>.\<close>

abbreviation blank :: "pystr option \<Rightarrow> bool" where
  "blank v \<equiv> \<not> truthy v"

definition or_else :: "pystr option \<Rightarrow> pystr \<Rightarrow> pystr" where
  "or_else v d = (case v of None \<Rightarrow> d | Some s \<Rightarrow> if s = [] then d else s)"

lemma truthy_simps [simp]: "\<not> truthy None" "truthy (Some s) \<longleftrightarrow> s \<noteq> []"
  by (simp_all add: truthy_def)

lemma blank_iff: "blank v \<longleftrightarrow> v = None \<or> v = Some []"
  by (cases v) auto

definition startswith_char :: "pystr \<Rightarrow> char \<Rightarrow> bool" where
  "startswith_char s c = (case s of [] \<Rightarrow> False | x # _ \<Rightarrow> x = c)"

section \<open>Numbers as text\<close>

fun show_nat :: "nat \<Rightarrow> pystr" where
  "show_nat n = (if n < 10 then [char_of (48 + n)] else show_nat (n div 10) @ [char_of (48 + n mod 10)])"

declare show_nat.simps [simp del]

definition show_int :: "int \<Rightarrow> pystr" where
  "show_int i = (if i < 0 then ''-'' @ show_nat (nat (- i)) else show_nat (nat i))"

definition pad :: "nat \<Rightarrow> nat \<Rightarrow> pystr" where
  "pad w n = (let s = show_nat n in replicate (w - length s) (CHR ''0'') @ s)"

definition hex_digit :: "nat \<Rightarrow> char" where
  "hex_digit n = char_of (if n < 10 then 48 + n else 87 + n)"

section \<open>Facts the components use\<close>

lemma dropWhile_id_iff: "dropWhile p xs = xs \<longleftrightarrow> xs = [] \<or> \<not> p (hd xs)"
proof (cases xs)
  case (Cons x ys)
  show ?thesis
  proof (cases "p x")
    case True
    with Cons have "length (dropWhile p xs) < length xs"
      by (simp add: le_imp_less_Suc length_dropWhile_le)
    with True Cons show ?thesis by auto
  qed (use Cons in simp)
qed simp

lemma length_strip_le: "length (strip s) \<le> length s"
  unfolding strip_def by (metis length_dropWhile_le length_rev order_trans)

lemma strip_id_iff:
  "strip s = s \<longleftrightarrow> s = [] \<or> (\<not> space_char (hd s) \<and> \<not> space_char (last s))"
proof
  assume *: "strip s = s"
  have "length (dropWhile space_char s) = length s"
  proof (rule antisym)
    show "length s \<le> length (dropWhile space_char s)"
      using * unfolding strip_def by (metis length_dropWhile_le length_rev)
  qed (rule length_dropWhile_le)
  then have d: "dropWhile space_char s = s"
    by (metis append_self_conv2 length_append add_cancel_left_left length_0_conv takeWhile_dropWhile_id)
  with * have "rev (dropWhile space_char (rev s)) = s" by (simp add: strip_def)
  then have "dropWhile space_char (rev s) = rev s" by (metis rev_rev_ident)
  with d show "s = [] \<or> (\<not> space_char (hd s) \<and> \<not> space_char (last s))"
    by (auto simp: dropWhile_id_iff hd_rev)
next
  assume "s = [] \<or> (\<not> space_char (hd s) \<and> \<not> space_char (last s))"
  then show "strip s = s"
  proof
    assume s: "\<not> space_char (hd s) \<and> \<not> space_char (last s)"
    then have "dropWhile space_char s = s" by (simp add: dropWhile_id_iff)
    moreover from s have "dropWhile space_char (rev s) = rev s"
      by (simp add: dropWhile_id_iff hd_rev)
    ultimately show ?thesis by (simp add: strip_def)
  qed (simp add: strip_def)
qed

lemma strip_Nil [simp]: "strip [] = []"
  by (simp add: strip_def)

lemma strip_idem [simp]: "strip (strip s) = strip s"
proof (cases "strip s = []")
  case False
  let ?d = "dropWhile space_char s"
  have ne: "?d \<noteq> []"
  proof
    assume "?d = []"
    then have "strip s = []" by (simp only: strip_def rev.simps dropWhile.simps)
    with False show False by simp
  qed
  have h: "\<not> space_char (hd ?d)" using ne by (rule hd_dropWhile)
  have r: "strip s = rev (dropWhile space_char (rev ?d))" by (simp add: strip_def)
  then obtain t where t: "?d = strip s @ t"
    by (metis rev_append rev_rev_ident takeWhile_dropWhile_id)
  with False h have "\<not> space_char (hd (strip s))" by simp
  moreover have "\<not> space_char (last (strip s))"
    using False r by (metis hd_dropWhile hd_rev rev_is_Nil_conv rev_rev_ident)
  ultimately show ?thesis by (simp add: strip_id_iff)
qed simp

lemma show_nat_not_Nil [simp]: "show_nat n \<noteq> []"
  by (subst show_nat.simps) simp

lemma code_char_of [simp]: "n < 256 \<Longrightarrow> code (char_of n) = n"
  by (simp add: code_def)

lemma digit_char_of [simp]: "k < 10 \<Longrightarrow> digit_char (char_of (48 + k :: nat))"
  by (simp add: digit_char_def)

lemma show_nat_digits: "list_all digit_char (show_nat n)"
proof (induction n rule: show_nat.induct)
  case (1 n)
  then show ?case
    by (subst show_nat.simps) simp
qed

lemma digits_isdigit: "digits n s \<Longrightarrow> 0 < n \<Longrightarrow> isdigit s"
  by (auto simp: digits_def isdigit_def isdigit_char_def list_all_iff)

end
