(* ===== verification/Codecs.thy ===== *)
theory Codecs
  imports PyText "HOL-Library.Word"
begin

unbundle bit_operations_syntax

text \<open>
  The standard-library encodings the program relies on, as functions: UTF-8 of a text,
  \<open>base64.b64encode\<close> and the strict \<open>base64.b64decode(..., validate=True)\<close>, and
  \<open>hashlib.sha256(...).hexdigest()\<close> with its 32-bit wrap-around arithmetic.
\<close>

section \<open>UTF-8\<close>

definition utf8_char :: "char \<Rightarrow> bytes" where
  "utf8_char c =
     (if code c < 128 then [c]
      else [char_of (192 + code c div 64), char_of (128 + code c mod 64)])"

definition utf8 :: "pystr \<Rightarrow> bytes" where
  "utf8 s = concat (map utf8_char s)"

lemma utf8_append [simp]: "utf8 (s @ t) = utf8 s @ utf8 t"
  by (simp add: utf8_def)

lemma utf8_Nil [simp]: "utf8 [] = []"
  by (simp add: utf8_def)

lemma utf8_Cons: "utf8 (c # s) = utf8_char c @ utf8 s"
  by (simp add: utf8_def)

lemma utf8_ascii: "isascii s \<Longrightarrow> utf8 s = s"
  by (induction s) (auto simp: isascii_def utf8_Cons utf8_char_def)

section \<open>Base64\<close>

definition b64_char :: "nat \<Rightarrow> char" where
  "b64_char i =
     (if i < 26 then char_of (65 + i) else if i < 52 then char_of (71 + i)
      else if i < 62 then char_of (i - 4) else if i = 62 then CHR ''+'' else CHR ''/'')"

definition b64_index :: "char \<Rightarrow> nat option" where
  "b64_index c =
     (if upper_char c then Some (code c - 65)
      else if lower_char c then Some (code c - 71)
      else if digit_char c then Some (code c + 4)
      else if c = CHR ''+'' then Some 62
      else if c = CHR ''/'' then Some 63
      else None)"

fun b64encode :: "bytes \<Rightarrow> pystr" where
  "b64encode [] = []"
| "b64encode [a] =
     [b64_char (code a div 4), b64_char (code a mod 4 * 16), CHR ''='', CHR ''='']"
| "b64encode [a, b] =
     [b64_char (code a div 4), b64_char (code a mod 4 * 16 + code b div 16),
      b64_char (code b mod 16 * 4), CHR ''='']"
| "b64encode (a # b # c # bs) =
     [b64_char (code a div 4), b64_char (code a mod 4 * 16 + code b div 16),
      b64_char (code b mod 16 * 4 + code c div 64), b64_char (code c mod 64)] @ b64encode bs"

text \<open>
  The strict decoder, character by character as the C implementation reads it: the position in the
  quad, the bits left over from the last character, the number of pads, and whether padding began.
  Non-zero left-over bits are accepted, and one pad too many after a whole quad is ignored.
\<close>

fun b64_scan :: "pystr \<Rightarrow> nat \<Rightarrow> nat \<Rightarrow> nat \<Rightarrow> bool \<Rightarrow> bytes option" where
  "b64_scan [] quad lo pads padding = (if quad = 0 then Some [] else None)"
| "b64_scan (c # cs) quad lo pads padding =
     (if c = CHR ''='' then
        (if 2 \<le> quad \<and> 4 \<le> quad + Suc pads then (if cs \<noteq> [] then None else Some [])
         else b64_scan cs quad lo (if 2 \<le> quad then Suc pads else pads) True)
      else
        (case b64_index c of
           None \<Rightarrow> None
         | Some v \<Rightarrow>
             if padding then None
             else if quad = 0 then b64_scan cs 1 v 0 False
             else if quad = 1 then
               map_option (Cons (char_of (lo * 4 + v div 16))) (b64_scan cs 2 (v mod 16) 0 False)
             else if quad = 2 then
               map_option (Cons (char_of (lo * 16 + v div 4))) (b64_scan cs 3 (v mod 4) 0 False)
             else
               map_option (Cons (char_of (lo * 64 + v))) (b64_scan cs 0 0 0 False)))"

definition b64decode :: "pystr \<Rightarrow> bytes option" where
  "b64decode s =
     (case s of c # _ \<Rightarrow> if c = CHR ''='' then None else b64_scan s 0 0 0 False
      | [] \<Rightarrow> Some [])"

lemma b64_char_not_pad: "i < 64 \<Longrightarrow> b64_char i \<noteq> CHR ''=''"
proof -
  assume "i < 64"
  then have "code (b64_char i) \<noteq> 61" by (auto simp: b64_char_def) (simp_all add: code_def)
  then show ?thesis by (auto simp: code_def)
qed

lemma b64_index_char [simp]: "i < 64 \<Longrightarrow> b64_index (b64_char i) = Some i"
proof -
  assume i: "i < 64"
  consider "i < 26" | "26 \<le> i" "i < 52" | "52 \<le> i" "i < 62" | "i = 62" | "i = 63"
    using i by linarith
  then show ?thesis
  proof cases
    case 4
    then show ?thesis
      by (simp add: b64_char_def b64_index_def upper_char_def lower_char_def digit_char_def code_def)
  next
    case 5
    then show ?thesis
      by (simp add: b64_char_def b64_index_def upper_char_def lower_char_def digit_char_def code_def)
  qed (auto simp: b64_char_def b64_index_def upper_char_def lower_char_def digit_char_def)
qed

lemma char_of_code [simp]: "char_of (code c) = c"
  by (simp add: code_def)

lemma split_base:
  "(y::nat) < k \<Longrightarrow> (x * k + y) div k = x"
  "(y::nat) < k \<Longrightarrow> (x * k + y) mod k = y"
  by simp_all

lemma byte_parts:
  "code c div 4 < 64" "code c mod 4 * 16 < 64" "code c div 16 < 16" "code c mod 16 * 4 < 64"
  "code c div 64 < 4" "code c mod 64 < 64"
  using code_less [of c] by linarith+

lemma byte_sums:
  "code a mod 4 * 16 + code b div 16 < 64" "code b mod 16 * 4 + code c div 64 < 64"
  using code_less [of b] code_less [of c] by linarith+

lemma b64_scan_encode: "b64_scan (b64encode bs) 0 lo pads False = Some bs"
proof (induction bs arbitrary: lo pads rule: b64encode.induct)
  case 1
  show ?case by simp
next
  case (2 a)
  show ?case using byte_parts [of a] by (simp add: b64_char_not_pad)
next
  case (3 a b)
  show ?case
    using byte_parts [of a] byte_parts [of b] byte_sums [of a b]
    by (simp add: b64_char_not_pad split_base)
next
  case (4 a b c bs)
  have "b64_scan (b64encode bs) 0 0 0 False = Some bs" by (rule "4.IH")
  then show ?case
    using byte_parts [of a] byte_parts [of b] byte_parts [of c] byte_sums [of a b] byte_sums [of b c]
    by (simp add: b64_char_not_pad split_base)
qed

lemma b64decode_encode [simp]: "b64decode (b64encode bs) = Some bs"
proof -
  have "startswith_char (b64encode bs) (CHR ''='') = False"
  proof -
    have "code (hd bs) div 4 < 64" using code_less [of "hd bs"] by linarith
    then show ?thesis
      by (cases bs rule: b64encode.cases) (auto simp: startswith_char_def b64_char_not_pad)
  qed
  then show ?thesis
    using b64_scan_encode [of bs 0 0]
    by (auto simp: b64decode_def startswith_char_def split: list.splits)
qed

lemma b64encode_inject: "b64encode xs = b64encode ys \<Longrightarrow> xs = ys"
  by (metis b64decode_encode option.inject)

lemma b64decode_Nil [simp]: "b64decode [] = Some []"
  by (simp add: b64decode_def)

lemma b64encode_Nil_iff [simp]: "b64encode bs = [] \<longleftrightarrow> bs = []"
  by (metis b64encode.simps(1) b64encode_inject)

section \<open>SHA-256\<close>

type_synonym u32 = "32 word"

definition rotr :: "nat \<Rightarrow> u32 \<Rightarrow> u32" where
  "rotr n x = drop_bit n x OR push_bit (32 - n) x"

text \<open>
  The constants are the first 32 bits of the fractional parts of the cube roots of the first 64
  primes and of the square roots of the first eight. The root is found bit by bit.
\<close>

fun root_bits :: "nat \<Rightarrow> nat \<Rightarrow> nat \<Rightarrow> nat \<Rightarrow> nat" where
  "root_bits 0 k n r = r"
| "root_bits (Suc b) k n r = root_bits b k n (if (r + 2 ^ b) ^ k \<le> n then r + 2 ^ b else r)"

definition root_word :: "nat \<Rightarrow> nat \<Rightarrow> u32" where
  "root_word k p = word_of_nat (root_bits 38 k (p * 2 ^ (32 * k)) 0)"

definition primes_below :: "nat \<Rightarrow> nat list" where
  "primes_below n = filter (\<lambda>p. list_all (\<lambda>d. p mod d \<noteq> 0) [2..<p]) [2..<n]"

definition sha_k :: "u32 list" where
  "sha_k = map (root_word 3) (primes_below 312)"

definition sha_h :: "u32 list" where
  "sha_h = map (root_word 2) (primes_below 20)"

fun be32 :: "nat list \<Rightarrow> u32 list" where
  "be32 (a # b # c # d # ns) =
     word_of_nat (((a * 256 + b) * 256 + c) * 256 + d) # be32 ns"
| "be32 _ = []"

text \<open>Padding to a multiple of 64 bytes: the bit 1, zeros, the message length in 64 bits.\<close>

definition sha_pad :: "nat list \<Rightarrow> nat list" where
  "sha_pad m =
     (let n = length m; z = (55 + 64 - n mod 64) mod 64
      in m @ [128] @ replicate z 0 @ map (\<lambda>i. (8 * n) div 256 ^ i mod 256) (rev [0..<8]))"

text \<open>The message schedule, newest word first, and one round over the eight working words.\<close>

fun sha_extend :: "nat \<Rightarrow> u32 list \<Rightarrow> u32 list" where
  "sha_extend 0 w = w"
| "sha_extend (Suc n) w =
     (let x = w ! 14; y = w ! 1;
          s0 = rotr 7 x XOR rotr 18 x XOR drop_bit 3 x;
          s1 = rotr 17 y XOR rotr 19 y XOR drop_bit 10 y
      in sha_extend n ((w ! 15 + s0 + w ! 6 + s1) # w))"

fun sha_round :: "u32 list \<Rightarrow> u32 \<times> u32 \<Rightarrow> u32 list" where
  "sha_round [a, b, c, d, e, f, g, h] (k, w) =
     (let s1 = rotr 6 e XOR rotr 11 e XOR rotr 25 e;
          ch = (e AND f) XOR (NOT e AND g);
          t1 = h + s1 + ch + k + w;
          s0 = rotr 2 a XOR rotr 13 a XOR rotr 22 a;
          maj = (a AND b) XOR (a AND c) XOR (b AND c)
      in [t1 + s0 + maj, a, b, c, d + t1, e, f, g])"
| "sha_round s _ = s"

definition sha_block :: "u32 list \<Rightarrow> u32 list \<Rightarrow> u32 list" where
  "sha_block h blk = map2 (+) h (foldl sha_round h (zip sha_k (rev (sha_extend 48 (rev blk)))))"

fun sha_blocks :: "nat \<Rightarrow> u32 list \<Rightarrow> u32 list \<Rightarrow> u32 list" where
  "sha_blocks 0 h ws = h"
| "sha_blocks (Suc n) h ws = sha_blocks n (sha_block h (take 16 ws)) (drop 16 ws)"

definition hex32 :: "u32 \<Rightarrow> pystr" where
  "hex32 w = map (\<lambda>i. hex_digit (unat w div 16 ^ i mod 16)) (rev [0..<8])"

definition sha256_hex :: "bytes \<Rightarrow> pystr" where
  "sha256_hex m =
     (let p = sha_pad (map code m)
      in concat (map hex32 (sha_blocks (length p div 64) sha_h (be32 p))))"

lemma length_sha_h: "length sha_h = 8"
proof -
  have "length (primes_below 20) = 8" by code_simp
  then show ?thesis by (simp add: sha_h_def)
qed

lemma length_sha_round: "length (sha_round s x) = length s"
  by (cases "(s, x)" rule: sha_round.cases) (auto simp: Let_def)

lemma length_sha_foldl: "length (foldl sha_round s xs) = length s"
  by (induction xs arbitrary: s) (auto simp: length_sha_round)

lemma length_sha_blocks: "length (sha_blocks n h ws) = length h"
  by (induction n h ws rule: sha_blocks.induct) (auto simp: sha_block_def length_sha_foldl)

lemma length_hex32 [simp]: "length (hex32 w) = 8"
  by (simp add: hex32_def)

lemma length_concat_hex32: "length (concat (map hex32 ws)) = 8 * length ws"
  by (induction ws) auto

lemma sha256_length: "length (sha256_hex m) = 64"
  by (simp add: sha256_hex_def Let_def length_concat_hex32 length_sha_blocks length_sha_h)

lemma hex_digit_hex: "n < 16 \<Longrightarrow> hex_char (hex_digit n)"
  by (auto simp: hex_digit_def hex_char_def digit_char_def)

lemma sha256_hex_chars: "list_all hex_char (sha256_hex m)"
  by (auto simp: sha256_hex_def Let_def list_all_iff hex32_def intro!: hex_digit_hex)

lemma sha256_not_Nil [simp]: "sha256_hex m \<noteq> []"
  using sha256_length [of m] by auto

end
