(* ===== verification/Json.thy ===== *)
theory Json
  imports Codecs
begin

text \<open>
  JSON values, the canonical serialisation of \<open>models.canonical_json\<close> (sorted keys, no blanks,
  no ASCII escaping), and what \<open>bytes.decode("utf-8")\<close> followed by \<open>json.loads\<close> accepts. The
  code looks only at whether the parsed root is an object, so reading is a recogniser over bytes
  that returns the kind of the value and the rest of the input. The kinds it does not
  distinguish are numbers, strings, literals and arrays.
\<close>

section \<open>Values and canonical text\<close>

text \<open>A float is kept as the text \<open>repr\<close> gives it.\<close>

datatype json =
    JNull
  | JBool bool
  | JInt int
  | JFloat pystr
  | JStr pystr
  | JList "json list"
  | JObj "(pystr \<times> json) list"

definition join :: "pystr \<Rightarrow> pystr list \<Rightarrow> pystr" where
  "join sep xs = (case xs of [] \<Rightarrow> [] | x # ys \<Rightarrow> x @ concat (map (\<lambda>y. sep @ y) ys))"

definition quote_mark :: char where "quote_mark = CHR 0x22"

definition backslash :: char where "backslash = CHR 0x5C"

definition escape_char :: "char \<Rightarrow> pystr" where
  "escape_char c =
     (if c = quote_mark \<or> c = backslash then [backslash, c]
      else if code c = 10 then [backslash, CHR ''n'']
      else if code c = 13 then [backslash, CHR ''r'']
      else if code c = 9 then [backslash, CHR ''t'']
      else if code c = 8 then [backslash, CHR ''b'']
      else if code c = 12 then [backslash, CHR ''f'']
      else if code c < 32 then
        [backslash, CHR ''u'', CHR ''0'', CHR ''0'', hex_digit (code c div 16), hex_digit (code c mod 16)]
      else [c])"

definition quote :: "pystr \<Rightarrow> pystr" where
  "quote s = [quote_mark] @ concat (map escape_char s) @ [quote_mark]"

fun canonical_json :: "json \<Rightarrow> pystr" where
  "canonical_json JNull = ''null''"
| "canonical_json (JBool b) = (if b then ''true'' else ''false'')"
| "canonical_json (JInt i) = show_int i"
| "canonical_json (JFloat r) = r"
| "canonical_json (JStr s) = quote s"
| "canonical_json (JList xs) = ''['' @ join '','' (map canonical_json xs) @ '']''"
| "canonical_json (JObj kvs) =
     ''{'' @ join '','' (map (\<lambda>p. quote (fst p) @ '':'' @ snd p)
       (sort_key fst (map (\<lambda>p. (fst p, canonical_json (snd p))) kvs))) @ ''}''"

fun float_free :: "json \<Rightarrow> bool" where
  "float_free (JFloat r) = False"
| "float_free (JList xs) = (\<forall>x\<in>set xs. float_free x)"
| "float_free (JObj kvs) = (\<forall>p\<in>set kvs. float_free (snd p))"
| "float_free _ = True"

text \<open>
  What \<open>repr\<close> gives a finite float: a sign, an integer part without leading zeros, then a fraction, an
  exponent, or both. The others are \<open>nan\<close>, \<open>inf\<close> and \<open>-inf\<close>, which \<open>allow_nan=False\<close> refuses.
\<close>

definition digit_text :: "pystr \<Rightarrow> bool" where
  "digit_text s \<longleftrightarrow> s \<noteq> [] \<and> list_all digit_char s"

definition exponent_text :: "pystr \<Rightarrow> bool" where
  "exponent_text s = (case s of c # d # ds \<Rightarrow> c = CHR ''e'' \<and> d \<in> {CHR ''+'', CHR ''-''} \<and> digit_text ds | _ \<Rightarrow> False)"

definition float_tail :: "pystr \<Rightarrow> bool" where
  "float_tail s = (case s of [] \<Rightarrow> False
   | c # ds \<Rightarrow> if c = CHR ''.'' then takeWhile digit_char ds \<noteq> []
         \<and> (dropWhile digit_char ds = [] \<or> exponent_text (dropWhile digit_char ds))
       else exponent_text s)"

definition finite_float :: "pystr \<Rightarrow> bool" where
  "finite_float r =
     (let s = (case r of c # t \<Rightarrow> if c = CHR ''-'' then t else r | [] \<Rightarrow> r); i = takeWhile digit_char s in
      i \<noteq> [] \<and> (i = ''0'' \<or> hd i \<noteq> CHR ''0'') \<and> float_tail (dropWhile digit_char s))"

fun finite_json :: "json \<Rightarrow> bool" where
  "finite_json (JFloat r) = finite_float r"
| "finite_json (JList xs) = (\<forall>x\<in>set xs. finite_json x)"
| "finite_json (JObj kvs) = (\<forall>p\<in>set kvs. finite_json (snd p))"
| "finite_json _ = True"

lemma float_free_finite: "float_free v \<Longrightarrow> finite_json v"
  by (induction v rule: finite_json.induct) auto

definition opt_str :: "pystr option \<Rightarrow> json" where
  "opt_str v = (case v of None \<Rightarrow> JNull | Some s \<Rightarrow> JStr s)"

definition opt_int :: "int option \<Rightarrow> json" where
  "opt_int v = (case v of None \<Rightarrow> JNull | Some i \<Rightarrow> JInt i)"

lemma float_free_opt [simp]: "float_free (opt_str v)" "float_free (opt_int w)"
  by (simp_all add: opt_str_def opt_int_def split: option.splits)

text \<open>\<open>dict.get\<close> on the pairs of an object.\<close>

definition get_key :: "pystr \<Rightarrow> (pystr \<times> json) list \<Rightarrow> json" where
  "get_key k kvs = (case map_of kvs k of None \<Rightarrow> JNull | Some v \<Rightarrow> v)"

text \<open>\<open>not v\<close>, and \<open>str(v)\<close> given what \<open>repr\<close> says of floats, arrays and objects.\<close>

definition falsy :: "json \<Rightarrow> bool" where
  "falsy v \<longleftrightarrow> v \<in> {JNull, JBool False, JInt 0, JStr [], JList [], JObj [], JFloat ''0.0'', JFloat ''-0.0''}"

definition py_str :: "(json \<Rightarrow> pystr) \<Rightarrow> json \<Rightarrow> pystr" where
  "py_str repr v = (case v of
     JStr s \<Rightarrow> s | JInt n \<Rightarrow> show_int n | JNull \<Rightarrow> ''None'' | JBool b \<Rightarrow> (if b then ''True'' else ''False'')
   | _ \<Rightarrow> repr v)"

section \<open>Well-formed UTF-8\<close>

definition cont_byte :: "byte \<Rightarrow> bool" where
  "cont_byte b \<longleftrightarrow> 128 \<le> code b \<and> code b \<le> 191"

definition second_of_three :: "byte \<Rightarrow> byte \<Rightarrow> bool" where
  "second_of_three a b \<longleftrightarrow> cont_byte b \<and> (code a = 224 \<longrightarrow> 160 \<le> code b)
     \<and> (code a = 237 \<longrightarrow> code b \<le> 159)"

definition second_of_four :: "byte \<Rightarrow> byte \<Rightarrow> bool" where
  "second_of_four a b \<longleftrightarrow> cont_byte b \<and> (code a = 240 \<longrightarrow> 144 \<le> code b)
     \<and> (code a = 244 \<longrightarrow> code b \<le> 143)"

fun utf8_valid :: "bytes \<Rightarrow> bool" where
  "utf8_valid [] = True"
| "utf8_valid (a # bs) =
     (if code a < 128 then utf8_valid bs
      else if 194 \<le> code a \<and> code a \<le> 223 then
        (case bs of b # r \<Rightarrow> cont_byte b \<and> utf8_valid r | _ \<Rightarrow> False)
      else if 224 \<le> code a \<and> code a \<le> 239 then
        (case bs of b # c # r \<Rightarrow> second_of_three a b \<and> cont_byte c \<and> utf8_valid r | _ \<Rightarrow> False)
      else if 240 \<le> code a \<and> code a \<le> 244 then
        (case bs of b # c # d # r \<Rightarrow>
           second_of_four a b \<and> cont_byte c \<and> cont_byte d \<and> utf8_valid r | _ \<Rightarrow> False)
      else False)"

lemma utf8_valid_encode: "utf8_valid (utf8 s)"
proof (induction s)
  case (Cons c s)
  show ?case
  proof (cases "code c < 128")
    case False
    have "194 \<le> 192 + code c div 64" "192 + code c div 64 \<le> 223" "code c mod 64 < 64"
      using False code_less [of c] by linarith+
    with Cons False show ?thesis by (simp add: utf8_Cons utf8_char_def cont_byte_def)
  qed (use Cons in \<open>simp add: utf8_Cons utf8_char_def\<close>)
qed simp

section \<open>The recogniser of \<open>json.loads\<close>\<close>

definition ws_char :: "char \<Rightarrow> bool" where
  "ws_char c \<longleftrightarrow> code c = 32 \<or> code c = 9 \<or> code c = 10 \<or> code c = 13"

definition skip_ws :: "bytes \<Rightarrow> bytes" where
  "skip_ws bs = dropWhile ws_char bs"

definition any_hex :: "char \<Rightarrow> bool" where
  "any_hex c \<longleftrightarrow> hex_char c \<or> (65 \<le> code c \<and> code c \<le> 70)"

text \<open>The rest of the input after the closing quote of a string.\<close>

fun scan_str :: "bytes \<Rightarrow> bytes option" where
  "scan_str [] = None"
| "scan_str (c # cs) =
     (if c = quote_mark then Some cs
      else if c = backslash then
        (case cs of
           [] \<Rightarrow> None
         | e # r \<Rightarrow>
             if e = CHR ''u'' then
               (case r of h1 # h2 # h3 # h4 # r' \<Rightarrow>
                  if any_hex h1 \<and> any_hex h2 \<and> any_hex h3 \<and> any_hex h4 then scan_str r' else None
                | _ \<Rightarrow> None)
             else if e = quote_mark \<or> e = backslash \<or> e \<in> set ''/bfnrt'' then scan_str r
             else None)
      else if code c < 32 then None
      else scan_str cs)"

text \<open>A number: an integer part without leading zeros, then fraction and exponent if complete.\<close>

definition scan_int :: "bytes \<Rightarrow> bytes option" where
  "scan_int bs =
     (case bs of
        [] \<Rightarrow> None
      | c # cs \<Rightarrow>
          if c = CHR ''0'' then Some cs
          else if digit_char c then Some (dropWhile digit_char cs)
          else None)"

definition scan_frac :: "bytes \<Rightarrow> bytes" where
  "scan_frac bs =
     (case bs of c # d # r \<Rightarrow> if c = CHR ''.'' \<and> digit_char d then dropWhile digit_char r else bs
      | _ \<Rightarrow> bs)"

definition scan_exp :: "bytes \<Rightarrow> bytes" where
  "scan_exp bs =
     (case bs of
        c # r \<Rightarrow>
          if c = CHR ''e'' \<or> c = CHR ''E'' then
            (let r' = (case r of s # t \<Rightarrow> if s = CHR ''+'' \<or> s = CHR ''-'' then t else r | _ \<Rightarrow> r)
             in case r' of d # t \<Rightarrow> if digit_char d then dropWhile digit_char t else bs | _ \<Rightarrow> bs)
          else bs
      | _ \<Rightarrow> bs)"

definition scan_num :: "bytes \<Rightarrow> bytes option" where
  "scan_num bs =
     (let r = (case bs of c # cs \<Rightarrow> if c = CHR ''-'' then cs else bs | [] \<Rightarrow> bs)
      in map_option (\<lambda>t. scan_exp (scan_frac t)) (scan_int r))"

definition scan_lit :: "bytes \<Rightarrow> bytes option" where
  "scan_lit bs =
     (case find (startswith bs)
        [''null'', ''true'', ''false'', ''NaN'', ''Infinity'', ''-Infinity''] of
        None \<Rightarrow> None
      | Some l \<Rightarrow> Some (drop (length l) bs))"

datatype jkind = K_OBJECT | K_OTHER

fun scan_value :: "nat \<Rightarrow> bytes \<Rightarrow> (jkind \<times> bytes) option"
  and scan_pairs :: "nat \<Rightarrow> bytes \<Rightarrow> bytes option"
  and scan_elems :: "nat \<Rightarrow> bytes \<Rightarrow> bytes option"
where
  "scan_value 0 bs = None"
| "scan_value (Suc n) bs =
     (case bs of
        [] \<Rightarrow> None
      | c # cs \<Rightarrow>
          if c = quote_mark then map_option (Pair K_OTHER) (scan_str cs)
          else if c = CHR ''{'' then
            (let r = skip_ws cs in
             if startswith_char r (CHR ''}'') then Some (K_OBJECT, tl r)
             else map_option (Pair K_OBJECT) (scan_pairs n r))
          else if c = CHR ''['' then
            (let r = skip_ws cs in
             if startswith_char r (CHR '']'') then Some (K_OTHER, tl r)
             else map_option (Pair K_OTHER) (scan_elems n r))
          else (case scan_lit bs of
             Some r \<Rightarrow> Some (K_OTHER, r)
           | None \<Rightarrow> map_option (Pair K_OTHER) (scan_num bs)))"
| "scan_pairs 0 bs = None"
| "scan_pairs (Suc n) bs =
     (case bs of
        [] \<Rightarrow> None
      | q # cs \<Rightarrow>
          if q \<noteq> quote_mark then None
          else case scan_str cs of
            None \<Rightarrow> None
          | Some r \<Rightarrow>
             (case skip_ws r of
                [] \<Rightarrow> None
              | d # r1 \<Rightarrow>
                  if d \<noteq> CHR '':'' then None
                  else case scan_value n (skip_ws r1) of
                    None \<Rightarrow> None
                  | Some (_, r2) \<Rightarrow>
                     (case skip_ws r2 of
                        [] \<Rightarrow> None
                      | e # r3 \<Rightarrow>
                          if e = CHR ''}'' then Some r3
                          else if e = CHR '','' then scan_pairs n (skip_ws r3)
                          else None)))"
| "scan_elems 0 bs = None"
| "scan_elems (Suc n) bs =
     (case scan_value n bs of
        None \<Rightarrow> None
      | Some (_, r2) \<Rightarrow>
         (case skip_ws r2 of
            [] \<Rightarrow> None
          | e # r3 \<Rightarrow>
              if e = CHR '']'' then Some r3
              else if e = CHR '','' then scan_elems n (skip_ws r3)
              else None))"

text \<open>
  The fuel is twice the input's length: a call at each depth consumes at least one byte, but an
  element of an array takes two calls.
\<close>

definition json_loads :: "bytes \<Rightarrow> jkind option" where
  "json_loads bs =
     (case scan_value (2 * length bs + 2) (skip_ws bs) of
        None \<Rightarrow> None
      | Some (k, r) \<Rightarrow> if skip_ws r = [] then Some k else None)"

section \<open>Canonical text is accepted\<close>

lemma utf8_ascii_Cons: "code c < 128 \<Longrightarrow> utf8 (c # s) = c # utf8 s"
  by (simp add: utf8_Cons utf8_char_def)

lemma utf8_concat: "utf8 (concat xss) = concat (map utf8 xss)"
  by (induction xss) auto

lemma hex_digit_code: "n < 16 \<Longrightarrow> code (hex_digit n) < 128 \<and> any_hex (hex_digit n)"
  using hex_digit_hex [of n] by (auto simp: any_hex_def hex_char_def digit_char_def)

lemma mark_codes [simp]: "code quote_mark = 34" "code backslash = 92"
  by (simp_all add: quote_mark_def backslash_def code_def)

lemma mark_neq [simp]:
  "quote_mark \<noteq> backslash" "backslash \<noteq> quote_mark" "quote_mark \<noteq> CHR ''u''"
  "backslash \<noteq> CHR ''u''" "CHR ''{'' \<noteq> quote_mark" "CHR ''['' \<noteq> quote_mark"
  by (simp_all add: quote_mark_def backslash_def)

lemma code_eq_iff: "code a = code b \<longleftrightarrow> a = b"
  by (metis char_of_code)

lemma digit_facts:
  assumes "digit_char c"
  shows "c \<noteq> quote_mark" "c \<noteq> CHR ''{''" "c \<noteq> CHR ''[''" "c \<noteq> CHR ''-''" "c \<noteq> CHR ''n''"
    "c \<noteq> CHR ''t''" "c \<noteq> CHR ''f''" "c \<noteq> CHR ''N''" "c \<noteq> CHR ''I''" "\<not> ws_char c"
    "c \<noteq> CHR '']''" "c \<noteq> CHR ''}''" "code c < 128"
  using assms by (auto simp: digit_char_def ws_char_def quote_mark_def code_def)

lemma high_not_mark: "128 \<le> code c \<Longrightarrow> c \<noteq> quote_mark \<and> c \<noteq> backslash"
  by auto

lemma scan_str_plain:
  "code c \<ge> 32 \<Longrightarrow> c \<noteq> quote_mark \<Longrightarrow> c \<noteq> backslash \<Longrightarrow> scan_str (c # cs) = scan_str cs"
  by simp

lemma scan_str_escape: "scan_str (utf8 (escape_char c) @ cs) = scan_str cs"
proof -
  let ?e = "utf8 (escape_char c)"
  have two: "utf8 [backslash, x] = [backslash, x]" if "code x < 128" for x
    using that by (simp add: utf8_ascii_Cons)
  consider "c = quote_mark \<or> c = backslash"
    | "code c \<in> {8, 9, 10, 12, 13}"
    | "code c < 32" "code c \<notin> {8, 9, 10, 12, 13}"
    | "32 \<le> code c" "c \<noteq> quote_mark" "c \<noteq> backslash"
    by fastforce
  then show ?thesis
  proof cases
    case 1
    then show ?thesis by (auto simp: escape_char_def two)
  next
    case 2
    then have "c \<noteq> quote_mark" "c \<noteq> backslash" by auto
    with 2 show ?thesis
      by (auto simp: escape_char_def two code_def)
  next
    case 3
    then have c: "c \<noteq> quote_mark" "c \<noteq> backslash" by auto
    let ?a = "hex_digit (code c div 16)" and ?b = "hex_digit (code c mod 16)"
    have h: "code ?a < 128" "code ?b < 128" "any_hex ?a" "any_hex ?b"
      using 3 hex_digit_code [of "code c div 16"] hex_digit_code [of "code c mod 16"] by auto
    have z: "any_hex (CHR ''0'')" by (simp add: any_hex_def hex_char_def digit_char_def code_def)
    have "?e = [backslash, CHR ''u'', CHR ''0'', CHR ''0'', ?a, ?b]"
      using 3 c h by (simp add: escape_char_def utf8_ascii_Cons) (simp add: code_def utf8_ascii_Cons)
    moreover have "backslash \<noteq> quote_mark" by (simp add: quote_mark_def backslash_def)
    ultimately show ?thesis using h z by simp
  next
    case 4
    then have e: "?e = utf8_char c" by (simp add: escape_char_def utf8_Cons)
    show ?thesis
    proof (cases "code c < 128")
      case True
      with 4 e show ?thesis by (simp add: utf8_char_def)
    next
      case False
      let ?x = "char_of (192 + code c div 64) :: char" and ?y = "char_of (128 + code c mod 64) :: char"
      have b: "code ?x = 192 + code c div 64" "code ?y = 128 + code c mod 64"
        using byte_parts(5,6) [of c] by simp_all
      then have "128 \<le> code ?x" "128 \<le> code ?y" by linarith+
      then have "?x \<noteq> quote_mark \<and> ?x \<noteq> backslash" "?y \<noteq> quote_mark \<and> ?y \<noteq> backslash"
        by (simp_all only: high_not_mark not_False_eq_True conj_absorb)
      with False e b show ?thesis by (simp add: utf8_char_def)
    qed
  qed
qed

lemma scan_str_escapes: "scan_str (utf8 (concat (map escape_char s)) @ cs) = scan_str cs"
  by (induction s) (simp_all add: scan_str_escape del: scan_str.simps)

lemma scan_str_quote: "scan_str (utf8 (concat (map escape_char s)) @ quote_mark # cs) = Some cs"
  by (simp add: scan_str_escapes del: scan_str.simps) simp

lemma utf8_quote: "utf8 (quote s) = quote_mark # utf8 (concat (map escape_char s)) @ [quote_mark]"
  by (simp add: quote_def utf8_ascii_Cons)

text \<open>What may follow a value inside canonical text.\<close>

definition stop :: "bytes \<Rightarrow> bool" where
  "stop r \<longleftrightarrow> (case r of [] \<Rightarrow> True | c # _ \<Rightarrow> c \<in> set '',]}'')"

lemma stop_simps [simp]: "stop []" "stop (CHR '','' # r)" "stop (CHR '']'' # r)" "stop (CHR ''}'' # r)"
  by (simp_all add: stop_def)

lemma stop_cases:
  "stop r \<Longrightarrow> r = [] \<or> (\<exists>t. r = CHR '','' # t \<or> r = CHR '']'' # t \<or> r = CHR ''}'' # t)"
  by (cases r) (auto simp: stop_def)

lemma stop_digits: "stop r \<Longrightarrow> dropWhile digit_char r = r"
  by (drule stop_cases) (auto simp: digit_char_def code_def)

lemma stop_tail: "stop r \<Longrightarrow> scan_exp (scan_frac r) = r"
  by (drule stop_cases) (auto simp: scan_exp_def scan_frac_def split: list.splits)

lemma dropWhile_all: "list_all p xs \<Longrightarrow> dropWhile p (xs @ ys) = dropWhile p ys"
  by (induction xs) auto

lemma show_nat_head: "0 < n \<Longrightarrow> \<exists>d ds. show_nat n = d # ds \<and> digit_char d \<and> d \<noteq> CHR ''0'' \<and> list_all digit_char ds"
proof (induction n rule: show_nat.induct)
  case (1 n)
  show ?case
  proof (cases "n < 10")
    case True
    with 1 have "code (char_of (48 + n)) \<noteq> 48" by simp
    moreover have "code (CHR ''0'') = 48" by (simp add: code_def)
    ultimately have "(char_of (48 + n) :: char) \<noteq> CHR ''0''" by metis
    with True show ?thesis by (subst show_nat.simps) simp
  next
    case False
    then have "0 < n div 10" by simp
    with False 1 show ?thesis by (subst show_nat.simps) auto
  qed
qed

lemma isascii_show_nat: "isascii (show_nat n)"
  using show_nat_digits [of n] by (auto simp: isascii_def list_all_iff digit_char_def)

lemma scan_lit_digit: "digit_char d \<Longrightarrow> scan_lit (d # r) = None"
  using digit_facts [of d] by (simp add: scan_lit_def startswith_def)

lemma scan_lit_minus: "digit_char d \<Longrightarrow> scan_lit (CHR ''-'' # d # r) = None"
  using digit_facts [of d] by (simp add: scan_lit_def startswith_def)

lemma scan_int_show: "stop r \<Longrightarrow> scan_int (show_nat n @ r) = Some r"
proof (cases "n = 0")
  case True
  have "code (CHR ''0'') = 48" by (simp add: code_def)
  then have "char_of (48 :: nat) = CHR ''0''" by (metis char_of_code)
  with True show ?thesis by (subst show_nat.simps) (simp add: scan_int_def)
next
  case False
  assume r: "stop r"
  from False obtain d ds where "show_nat n = d # ds" "digit_char d" "d \<noteq> CHR ''0''"
    "list_all digit_char ds" using show_nat_head by blast
  with r show ?thesis by (simp add: scan_int_def dropWhile_all stop_digits)
qed

lemma show_nat_digit: "\<exists>d ds. show_nat n = d # ds \<and> digit_char d"
  using show_nat_digits [of n] by (cases "show_nat n") auto

lemma scan_value_int:
  assumes "stop r" shows "scan_value (Suc m) (utf8 (show_int i) @ r) = Some (K_OTHER, r)"
proof -
  obtain d ds where n: "show_nat (nat \<bar>i\<bar>) = d # ds" "digit_char d"
    using show_nat_digit by blast
  have u: "utf8 (show_nat (nat \<bar>i\<bar>)) = show_nat (nat \<bar>i\<bar>)"
    by (rule utf8_ascii) (rule isascii_show_nat)
  have s: "scan_int (d # ds @ r) = Some r"
    using scan_int_show [OF assms, of "nat \<bar>i\<bar>"] n by simp
  show ?thesis
  proof (cases "i < 0")
    case True
    then have e: "utf8 (show_int i) = CHR ''-'' # d # ds"
      using n u by (simp add: show_int_def utf8_ascii_Cons code_def)
    have "CHR ''-'' \<noteq> quote_mark" by (simp add: quote_mark_def)
    with e s n show ?thesis
      by (simp add: scan_lit_minus scan_num_def stop_tail assms)
  next
    case False
    then have e: "utf8 (show_int i) = d # ds" using n u by (simp add: show_int_def)
    with s n digit_facts [of d] show ?thesis
      by (simp add: scan_lit_digit scan_num_def stop_tail assms)
  qed
qed

text \<open>A float's text in its parts, and what the scanners make of each.\<close>

definition no_digit_head :: "bytes \<Rightarrow> bool" where
  "no_digit_head t \<longleftrightarrow> (case t of [] \<Rightarrow> True | c # _ \<Rightarrow> \<not> digit_char c)"

lemma no_digit_drop: "no_digit_head t \<Longrightarrow> dropWhile digit_char t = t"
  by (cases t) (auto simp: no_digit_head_def)

lemma stop_nondigit_head: "stop r \<Longrightarrow> no_digit_head r"
  by (drule stop_cases) (auto simp: no_digit_head_def digit_char_def code_def)

lemma digit_marks [simp]: "\<not> digit_char (CHR ''.'')" "\<not> digit_char (CHR ''e'')" "\<not> digit_char (CHR ''-'')"
    "\<not> digit_char (CHR ''+'')"
  by (simp_all add: digit_char_def code_def)

lemma scan_int_digits:
  assumes "digit_text i" and "i = ''0'' \<or> hd i \<noteq> CHR ''0''" and "no_digit_head t"
  shows "scan_int (i @ t) = Some t"
proof -
  obtain d ds where i: "i = d # ds" "digit_char d" "list_all digit_char ds"
    using assms(1) by (cases i) (auto simp: digit_text_def)
  with assms(2,3) show ?thesis
    by (auto simp: scan_int_def dropWhile_all no_digit_drop)
qed

lemma scan_exp_text:
  assumes "exponent_text e" and "stop r" shows "scan_exp (e @ r) = r"
proof -
  obtain d x ds where e: "e = CHR ''e'' # d # x # ds" "d \<in> {CHR ''+'', CHR ''-''}" "digit_char x" "list_all digit_char ds"
    using assms(1) by (auto simp: exponent_text_def digit_text_def neq_Nil_conv split: list.splits)
  with assms(2) show ?thesis by (simp add: scan_exp_def Let_def dropWhile_all stop_digits)
qed

lemma exponent_head: "exponent_text e \<Longrightarrow> \<exists>t. e = CHR ''e'' # t"
  by (auto simp: exponent_text_def split: list.splits)

lemma scan_frac_exponent: "exponent_text e \<Longrightarrow> scan_frac (e @ r) = e @ r"
  by (drule exponent_head) (auto simp: scan_frac_def split: list.splits)

lemma scan_frac_text:
  assumes "digit_text ds" and "no_digit_head t" shows "scan_frac (CHR ''.'' # ds @ t) = t"
  using assms by (cases ds) (auto simp: digit_text_def scan_frac_def dropWhile_all no_digit_drop)

lemma stop_exp: "stop r \<Longrightarrow> scan_exp r = r"
  by (drule stop_cases) (auto simp: scan_exp_def)

lemma float_tail_scan:
  assumes "float_tail s" and "stop r" shows "scan_exp (scan_frac (s @ r)) = r \<and> no_digit_head (s @ r)"
proof (cases "exponent_text s")
  case True
  then show ?thesis using exponent_head [OF True] assms(2)
    by (auto simp: scan_frac_exponent scan_exp_text no_digit_head_def)
next
  case False
  with assms(1) obtain ds where s: "s = CHR ''.'' # ds" "takeWhile digit_char ds \<noteq> []"
      "dropWhile digit_char ds = [] \<or> exponent_text (dropWhile digit_char ds)"
    by (auto simp: float_tail_def split: list.splits if_splits)
  let ?i = "takeWhile digit_char ds" and ?e = "dropWhile digit_char ds"
  have i: "digit_text ?i" using s(2) by (simp add: digit_text_def list_all_iff) (meson set_takeWhileD)
  have "no_digit_head (?e @ r) \<and> scan_exp (?e @ r) = r"
  proof (cases "exponent_text ?e")
    case True
    then show ?thesis using exponent_head [OF True] assms(2) by (auto simp: scan_exp_text no_digit_head_def)
  next
    case False
    then have "?e = []" using s(3) by blast
    then show ?thesis unfolding \<open>?e = []\<close> using stop_nondigit_head [OF assms(2)] stop_exp [OF assms(2)] by simp
  qed
  moreover have sr: "s @ r = CHR ''.'' # ?i @ (?e @ r)" by (simp add: s(1))
  ultimately show ?thesis using scan_frac_text [OF i, of "?e @ r"] unfolding sr by (simp add: no_digit_head_def)
qed

text \<open>A sign, a first digit, and the rest.\<close>

lemma finite_float_parts:
  assumes "finite_float r"
  obtains sign i t where "r = sign @ i @ t" "sign \<in> {[], ''-''}" "digit_text i" "i = ''0'' \<or> hd i \<noteq> CHR ''0''"
    "float_tail t"
proof -
  let ?s = "case r of c # t \<Rightarrow> if c = CHR ''-'' then t else r | [] \<Rightarrow> r"
  define sign where "sign = (if take 1 r = ''-'' then ''-'' else [])"
  then have sign: "r = sign @ ?s" "sign \<in> {[], ''-''}" by (cases r; simp)+
  have f: "takeWhile digit_char ?s \<noteq> []" "takeWhile digit_char ?s = ''0'' \<or> hd (takeWhile digit_char ?s) \<noteq> CHR ''0''"
    "float_tail (dropWhile digit_char ?s)"
    using assms unfolding finite_float_def Let_def by blast+
  have "digit_text (takeWhile digit_char ?s)"
    using f(1) unfolding digit_text_def list_all_iff by (meson set_takeWhileD)
  moreover have "r = sign @ takeWhile digit_char ?s @ dropWhile digit_char ?s" using sign(1) by simp
  ultimately show thesis using f(2,3) sign(2) by (intro that [of sign "takeWhile digit_char ?s" "dropWhile digit_char ?s"])
qed

lemma float_char:
  assumes "finite_float r" and "c \<in> set r"
  shows "digit_char c \<or> c \<in> set ''-+.e''"
proof -
  have e: "digit_char c \<or> c \<in> set ''-+.e''" if "exponent_text s" "c \<in> set s" for s
    using that by (auto simp: exponent_text_def digit_text_def list_all_iff split: list.splits)
  have t: "digit_char c \<or> c \<in> set ''-+.e''" if "float_tail s" "c \<in> set s" for s
  proof (cases "exponent_text s")
    case False
    with that(1) obtain ds where s: "s = CHR ''.'' # ds"
        "dropWhile digit_char ds = [] \<or> exponent_text (dropWhile digit_char ds)"
      by (auto simp: float_tail_def split: list.splits if_splits)
    have "set ds = set (takeWhile digit_char ds) \<union> set (dropWhile digit_char ds)"
      by (metis set_append takeWhile_dropWhile_id)
    with that(2) s e [of "dropWhile digit_char ds"] show ?thesis by (auto dest: set_takeWhileD)
  qed (use that e in blast)
  from assms(1) show ?thesis
    by (rule finite_float_parts) (use assms(2) t in \<open>auto simp: digit_text_def list_all_iff\<close>)
qed

lemma isascii_float: "finite_float r \<Longrightarrow> isascii r"
proof -
  assume r: "finite_float r"
  have "code c < 128" if "c \<in> set r" for c
    using float_char [OF r that] digit_facts(13) [of c] by (auto simp: code_def)
  then show ?thesis by (auto simp: isascii_def list_all_iff)
qed

lemma scan_value_float:
  assumes "finite_float r" and "stop t" shows "scan_value (Suc m) (utf8 r @ t) = Some (K_OTHER, t)"
proof -
  obtain sign i u where r: "r = sign @ i @ u" "sign \<in> {[], ''-''}" "digit_text i" "i = ''0'' \<or> hd i \<noteq> CHR ''0''" "float_tail u"
    using finite_float_parts [OF assms(1)] .
  obtain d ds where i: "i = d # ds" "digit_char d" using r(3) by (cases i) (auto simp: digit_text_def)
  have u: "scan_exp (scan_frac (u @ t)) = t" "no_digit_head (u @ t)" using float_tail_scan [OF r(5) assms(2)] by simp_all
  have s: "scan_int (d # ds @ u @ t) = Some (u @ t)" using scan_int_digits [OF r(3,4) u(2)] i(1) by simp
  have v: "utf8 r @ t = sign @ d # ds @ u @ t" using utf8_ascii [OF isascii_float [OF assms(1)]] r(1) i(1) by simp
  show ?thesis
  proof (cases "sign = []")
    case True
    with v s u(1) digit_facts [OF i(2)] i(2) show ?thesis by (simp add: scan_lit_digit scan_num_def)
  next
    case False
    then have "sign = ''-''" using r(2) by auto
    moreover have "CHR ''-'' \<noteq> quote_mark" by (simp add: quote_mark_def)
    ultimately show ?thesis using v s u(1) i(2) by (simp add: scan_lit_minus scan_num_def)
  qed
qed

definition jkind_of :: "json \<Rightarrow> jkind" where
  "jkind_of v = (case v of JObj _ \<Rightarrow> K_OBJECT | _ \<Rightarrow> K_OTHER)"

lemma canonical_head:
  assumes "finite_json v"
  shows "\<exists>c cs. utf8 (canonical_json v) = c # cs \<and> \<not> ws_char c \<and> c \<noteq> CHR '']'' \<and> c \<noteq> CHR ''}''"
proof (cases v)
  case (JInt i)
  obtain d ds where n: "show_nat (nat \<bar>i\<bar>) = d # ds" "digit_char d"
    using show_nat_digit by blast
  have "utf8 (show_nat (nat \<bar>i\<bar>)) = show_nat (nat \<bar>i\<bar>)"
    by (rule utf8_ascii) (rule isascii_show_nat)
  with JInt n digit_facts [of d] show ?thesis
    by (auto simp: show_int_def utf8_ascii_Cons code_def ws_char_def)
next
  case (JFloat r)
  with assms have f: "finite_float r" by simp
  then obtain sign i u where r: "r = sign @ i @ u" "sign \<in> {[], ''-''}" "digit_text i" by (rule finite_float_parts)
  obtain d ds where i: "i = d # ds" "digit_char d" using r(3) by (cases i) (auto simp: digit_text_def)
  have "utf8 r = r" by (rule utf8_ascii) (rule isascii_float [OF f])
  with JFloat r(1,2) i digit_facts [of d] show ?thesis by (auto simp: ws_char_def code_def)
qed (use assms in \<open>auto simp: utf8_ascii_Cons code_def ws_char_def utf8_quote quote_mark_def\<close>)

lemma skip_ws_head: "\<not> ws_char c \<Longrightarrow> skip_ws (c # cs) = c # cs"
  by (simp add: skip_ws_def)

definition elems_text :: "json list \<Rightarrow> bytes" where
  "elems_text xs = utf8 (join '','' (map canonical_json xs) @ '']'')"

lemma elems_text_simps:
  "elems_text [x] = utf8 (canonical_json x) @ '']''"
  "elems_text (x # y # ys) = utf8 (canonical_json x) @ CHR '','' # elems_text (y # ys)"
  by (simp_all add: elems_text_def join_def utf8_ascii_Cons code_def)

definition pair_text :: "pystr \<times> pystr \<Rightarrow> pystr" where
  "pair_text p = quote (fst p) @ '':'' @ snd p"

definition pairs_text :: "(pystr \<times> pystr) list \<Rightarrow> bytes" where
  "pairs_text ps = utf8 (join '','' (map pair_text ps) @ ''}'')"

lemma pairs_text_simps:
  "pairs_text [p] = quote_mark # utf8 (concat (map escape_char (fst p))) @ quote_mark # CHR '':''
     # utf8 (snd p) @ ''}''"
  "pairs_text (p # q # ps) = quote_mark # utf8 (concat (map escape_char (fst p))) @ quote_mark
     # CHR '':'' # utf8 (snd p) @ CHR '','' # pairs_text (q # ps)"
  by (simp_all add: pairs_text_def pair_text_def join_def utf8_ascii_Cons code_def utf8_quote)

text \<open>One element or pair at a time, given that every value below is read back.\<close>

definition reads :: "json \<Rightarrow> bool" where
  "reads v \<longleftrightarrow> (\<forall>n r. stop r \<longrightarrow> 2 * length (utf8 (canonical_json v)) < n \<longrightarrow>
     scan_value n (utf8 (canonical_json v) @ r) = Some (jkind_of v, r))"

lemma sep_head [simp]: "\<not> ws_char (CHR '','')" "\<not> ws_char (CHR '']'')" "\<not> ws_char (CHR ''}'')"
  "\<not> ws_char (CHR '':'')" "\<not> ws_char quote_mark"
  by (simp_all add: ws_char_def code_def quote_mark_def)

lemma scan_elems_text:
  assumes "xs \<noteq> []" and "\<forall>x\<in>set xs. reads x \<and> finite_json x" and "2 * length (elems_text xs) < n"
  shows "scan_elems n (elems_text xs @ r) = Some r"
  using assms
proof (induction xs arbitrary: n)
  case (Cons x ys)
  from Cons.prems obtain m where n: "n = Suc m" by (cases n) auto
  show ?case
  proof (cases ys)
    case Nil
    with Cons.prems n have "scan_value m (utf8 (canonical_json x) @ CHR '']'' # r)
        = Some (jkind_of x, CHR '']'' # r)"
      by (simp add: reads_def elems_text_simps)
    with Nil n show ?thesis by (simp add: elems_text_simps skip_ws_head)
  next
    case (Cons y zs)
    let ?rest = "elems_text ys @ r"
    have v: "scan_value m (utf8 (canonical_json x) @ CHR '','' # ?rest)
        = Some (jkind_of x, CHR '','' # ?rest)"
      using Cons.prems n Cons by (simp add: reads_def elems_text_simps)
    obtain c cs where h: "utf8 (canonical_json y) = c # cs" "\<not> ws_char c"
      using canonical_head [of y] Cons.prems Cons by auto
    then have w: "skip_ws ?rest = ?rest"
      using Cons by (cases zs) (simp_all add: elems_text_simps skip_ws_head)
    have "scan_elems m ?rest = Some r"
      by (rule Cons.IH) (use Cons.prems n Cons in \<open>simp_all add: elems_text_simps\<close>)
    with v w n Cons show ?thesis by (simp add: elems_text_simps skip_ws_head)
  qed
qed simp

lemma scan_pairs_text:
  assumes "ps \<noteq> []"
    and "\<forall>p\<in>set ps. \<exists>v. snd p = canonical_json v \<and> reads v \<and> finite_json v"
    and "2 * length (pairs_text ps) < n"
  shows "scan_pairs n (pairs_text ps @ r) = Some r"
  using assms
proof (induction ps arbitrary: n)
  case (Cons p qs)
  from Cons.prems obtain m where n: "n = Suc m" by (cases n) auto
  from Cons.prems obtain v where v: "snd p = canonical_json v" "reads v" "finite_json v" by auto
  obtain c cs where h: "utf8 (canonical_json v) = c # cs" "\<not> ws_char c"
    using canonical_head [OF v(3)] by auto
  have w: "skip_ws (utf8 (canonical_json v) @ t) = utf8 (canonical_json v) @ t" for t
    using h by (simp add: skip_ws_head)
  show ?case
  proof (cases qs)
    case Nil
    have "scan_value m (utf8 (canonical_json v) @ CHR ''}'' # r) = Some (jkind_of v, CHR ''}'' # r)"
      using v(1,2) Cons.prems n Nil by (simp add: reads_def pairs_text_simps)
    with Nil n v w show ?thesis
      by (simp add: pairs_text_simps skip_ws_head scan_str_quote)
  next
    case (Cons q zs)
    let ?rest = "pairs_text qs @ r"
    have s: "scan_value m (utf8 (canonical_json v) @ CHR '','' # ?rest)
        = Some (jkind_of v, CHR '','' # ?rest)"
      using v(1,2) Cons.prems n Cons by (simp add: reads_def pairs_text_simps)
    have k: "skip_ws ?rest = ?rest"
      using Cons by (cases zs) (simp_all add: pairs_text_simps skip_ws_head)
    have "scan_pairs m ?rest = Some r"
      by (rule Cons.IH) (use Cons.prems n Cons in \<open>simp_all add: pairs_text_simps\<close>)
    with s k n Cons v w show ?thesis
      by (simp add: pairs_text_simps skip_ws_head scan_str_quote)
  qed
qed simp

definition object_pairs :: "(pystr \<times> json) list \<Rightarrow> (pystr \<times> pystr) list" where
  "object_pairs kvs = sort_key fst (map (\<lambda>p. (fst p, canonical_json (snd p))) kvs)"

lemma utf8_list: "utf8 (canonical_json (JList xs)) = CHR ''['' # elems_text xs"
  by (simp add: elems_text_def utf8_ascii_Cons code_def)

lemma pair_text_eta: "(\<lambda>p. quote (fst p) @ '':'' @ snd p) = pair_text"
  by (rule ext) (simp add: pair_text_def)

lemma utf8_object: "utf8 (canonical_json (JObj kvs)) = CHR ''{'' # pairs_text (object_pairs kvs)"
  by (simp only: canonical_json.simps pair_text_eta)
    (simp add: pairs_text_def object_pairs_def utf8_ascii_Cons code_def)

lemma pairs_text_Nil: "pairs_text [] = ''}''" and elems_text_Nil: "elems_text [] = '']''"
  by (simp_all add: pairs_text_def elems_text_def join_def utf8_ascii_Cons code_def)

lemma elems_text_head:
  "xs \<noteq> [] \<Longrightarrow> \<forall>x\<in>set xs. finite_json x \<Longrightarrow>
     \<exists>c cs. elems_text xs = c # cs \<and> \<not> ws_char c \<and> c \<noteq> CHR '']''"
proof (cases xs)
  case (Cons x ys)
  assume "\<forall>x\<in>set xs. finite_json x"
  with Cons obtain c cs where "utf8 (canonical_json x) = c # cs" "\<not> ws_char c" "c \<noteq> CHR '']''"
    using canonical_head [of x] by auto
  with Cons show ?thesis by (cases ys) (simp_all add: elems_text_simps)
qed simp

lemma pairs_text_head: "ps \<noteq> [] \<Longrightarrow> \<exists>cs. pairs_text ps = quote_mark # cs"
  by (cases ps; cases "tl ps") (auto simp: pairs_text_simps)

lemma reads_object:
  assumes "\<forall>p\<in>set kvs. reads (snd p) \<and> finite_json (snd p)"
  shows "reads (JObj kvs)"
  unfolding reads_def
proof (intro allI impI)
  fix n r assume "stop r" and len: "2 * length (utf8 (canonical_json (JObj kvs))) < n"
  then obtain m where n: "n = Suc m" by (cases n) auto
  let ?ps = "object_pairs kvs"
  show "scan_value n (utf8 (canonical_json (JObj kvs)) @ r) = Some (jkind_of (JObj kvs), r)"
  proof (cases "?ps = []")
    case True
    then show ?thesis
      using n by (simp add: utf8_object pairs_text_Nil skip_ws_head startswith_char_def jkind_of_def
          del: canonical_json.simps)
  next
    case False
    then obtain cs where h: "pairs_text ?ps = quote_mark # cs" using pairs_text_head by blast
    have "\<forall>p\<in>set ?ps. \<exists>v. snd p = canonical_json v \<and> reads v \<and> finite_json v"
      using assms by (auto simp: object_pairs_def)
    then have "scan_pairs m (pairs_text ?ps @ r) = Some r"
      using False len n by (intro scan_pairs_text) (simp_all add: utf8_object del: canonical_json.simps)
    moreover have "quote_mark \<noteq> CHR ''}''" by (simp add: quote_mark_def)
    ultimately show ?thesis
      using n h by (simp add: utf8_object skip_ws_head startswith_char_def jkind_of_def
          del: canonical_json.simps)
  qed
qed

lemma reads_list:
  assumes "\<forall>x\<in>set xs. reads x \<and> finite_json x"
  shows "reads (JList xs)"
  unfolding reads_def
proof (intro allI impI)
  fix n r assume "stop r" and len: "2 * length (utf8 (canonical_json (JList xs))) < n"
  then obtain m where n: "n = Suc m" by (cases n) auto
  have ne: "CHR ''['' \<noteq> quote_mark" by (simp add: quote_mark_def)
  show "scan_value n (utf8 (canonical_json (JList xs)) @ r) = Some (jkind_of (JList xs), r)"
  proof (cases "xs = []")
    case True
    then show ?thesis
      using n ne by (simp add: utf8_list elems_text_Nil skip_ws_head startswith_char_def jkind_of_def
          del: canonical_json.simps)
  next
    case False
    then obtain c cs where h: "elems_text xs = c # cs" "\<not> ws_char c" "c \<noteq> CHR '']''"
      using elems_text_head assms by blast
    have "scan_elems m (elems_text xs @ r) = Some r"
      using False len n assms by (intro scan_elems_text) (simp_all add: utf8_list del: canonical_json.simps)
    with n h ne show ?thesis
      by (simp add: utf8_list skip_ws_head startswith_char_def jkind_of_def del: canonical_json.simps)
  qed
qed

lemma reads_canonical: "finite_json v \<Longrightarrow> reads v"
proof (induction v)
  case (JList xs)
  then show ?case by (intro reads_list) auto
next
  case (JObj kvs)
  then show ?case by (intro reads_object) (fastforce simp: snds.simps)
next
  case (JInt i)
  show ?case unfolding reads_def
  proof (intro allI impI)
    fix n r assume "stop r" "2 * length (utf8 (canonical_json (JInt i))) < n"
    then show "scan_value n (utf8 (canonical_json (JInt i)) @ r) = Some (jkind_of (JInt i), r)"
      by (cases n) (simp_all add: scan_value_int jkind_of_def del: scan_value.simps(2))
  qed
next
  case (JFloat s)
  then have "finite_float s" by simp
  show ?case unfolding reads_def
  proof (intro allI impI)
    fix n r assume "stop r" "2 * length (utf8 (canonical_json (JFloat s))) < n"
    with scan_value_float [OF \<open>finite_float s\<close>]
    show "scan_value n (utf8 (canonical_json (JFloat s)) @ r) = Some (jkind_of (JFloat s), r)"
      by (cases n) (simp_all add: jkind_of_def del: scan_value.simps(2))
  qed
next
  case (JStr s)
  show ?case unfolding reads_def
  proof (intro allI impI)
    fix n r assume "2 * length (utf8 (canonical_json (JStr s))) < n"
    then show "scan_value n (utf8 (canonical_json (JStr s)) @ r) = Some (jkind_of (JStr s), r)"
      by (cases n) (simp_all add: utf8_quote scan_str_quote jkind_of_def)
  qed
next
  case (JBool b)
  show ?case unfolding reads_def
  proof (intro allI impI)
    fix n r assume "2 * length (utf8 (canonical_json (JBool b))) < n"
    then show "scan_value n (utf8 (canonical_json (JBool b)) @ r) = Some (jkind_of (JBool b), r)"
      by (cases n; cases b)
        (simp_all add: utf8_ascii_Cons code_def scan_lit_def startswith_def jkind_of_def quote_mark_def)
  qed
next
  case JNull
  show ?case unfolding reads_def
  proof (intro allI impI)
    fix n r assume "2 * length (utf8 (canonical_json JNull)) < n"
    then show "scan_value n (utf8 (canonical_json JNull) @ r) = Some (jkind_of JNull, r)"
      by (cases n)
        (simp_all add: utf8_ascii_Cons code_def scan_lit_def startswith_def jkind_of_def quote_mark_def)
  qed
qed

lemma json_loads_canonical:
  assumes "finite_json v" shows "json_loads (utf8 (canonical_json v)) = Some (jkind_of v)"
proof -
  let ?t = "utf8 (canonical_json v)"
  obtain c cs where "?t = c # cs" "\<not> ws_char c" using canonical_head [OF assms] by blast
  then have "skip_ws ?t = ?t" by (simp add: skip_ws_head)
  moreover have "scan_value (2 * length ?t + 2) (?t @ []) = Some (jkind_of v, [])"
    using reads_canonical [OF assms] unfolding reads_def by (metis add_2_eq_Suc' less_Suc_eq lessI stop_simps(1))
  ultimately show ?thesis by (simp add: json_loads_def skip_ws_def)
qed

end
