(* ===== verification/Models.thy ===== *)
theory Models
  imports Json
begin

text \<open>
  The data model of \<open>wbcz/models.py\<close>: the enumerations, the imported event with its constructor
  checks and canonical identity, the normalised state of a marking code, decisions and outcomes.
  Times are microseconds since the epoch; a naive time carries no zone.
\<close>

section \<open>Enumerations\<close>

datatype operation = SALE | RETURN

datatype decision =
    READY_TO_WITHDRAW | READY_TO_RETURN | ALREADY_DONE | NO_ACTION | MANUAL_REVIEW | ERROR

datatype document_status =
    DS_ACCEPTED | DS_PROCESSING | DS_SUCCEEDED | DS_REJECTED | DS_VERIFICATION_ERROR

definition decision_value :: "decision \<Rightarrow> pystr" where
  "decision_value d = (case d of
     READY_TO_WITHDRAW \<Rightarrow> ''READY_TO_WITHDRAW'' | READY_TO_RETURN \<Rightarrow> ''READY_TO_RETURN''
   | ALREADY_DONE \<Rightarrow> ''ALREADY_DONE'' | NO_ACTION \<Rightarrow> ''NO_ACTION''
   | MANUAL_REVIEW \<Rightarrow> ''MANUAL_REVIEW'' | ERROR \<Rightarrow> ''ERROR'')"

definition document_status_value :: "document_status \<Rightarrow> pystr" where
  "document_status_value d = (case d of
     DS_ACCEPTED \<Rightarrow> ''ACCEPTED'' | DS_PROCESSING \<Rightarrow> ''PROCESSING''
   | DS_SUCCEEDED \<Rightarrow> ''SUCCEEDED'' | DS_REJECTED \<Rightarrow> ''REJECTED''
   | DS_VERIFICATION_ERROR \<Rightarrow> ''VERIFICATION_ERROR'')"

text \<open>The operation's value is Cyrillic, so it is given as the UTF-8 bytes it is written with.\<close>

definition operation_bytes :: "operation \<Rightarrow> bytes" where
  "operation_bytes p = (case p of
     SALE \<Rightarrow> map char_of [208, 159, 209, 128, 208, 190, 208, 180, 208, 176, 208, 182, 208, 176 :: nat]
   | RETURN \<Rightarrow> map char_of
       [208, 146, 208, 190, 208, 183, 208, 178, 209, 128, 208, 176, 209, 130 :: nat])"

section \<open>Times\<close>

datatype py_datetime = Naive int | Aware int

definition aware :: "py_datetime option \<Rightarrow> bool" where
  "aware t = (case t of Some (Aware _) \<Rightarrow> True | _ \<Rightarrow> False)"

text \<open>Year, month and day of a day number counted from 1970-01-01, proleptic Gregorian.\<close>

definition civil :: "int \<Rightarrow> int \<times> int \<times> int" where
  "civil days =
     (let z = days + 719468; era = z div 146097; doe = z mod 146097;
          yoe = (doe - doe div 1460 + doe div 36524 - doe div 146096) div 365;
          doy = doe - (365 * yoe + yoe div 4 - yoe div 100);
          mp = (5 * doy + 2) div 153;
          d = doy - (153 * mp + 2) div 5 + 1;
          m = (if mp < 10 then mp + 3 else mp - 9)
      in (yoe + era * 400 + (if m \<le> 2 then 1 else 0), m, d))"

definition iso_day :: "int \<Rightarrow> pystr" where
  "iso_day days = (case civil days of (y, m, d) \<Rightarrow>
     pad 4 (nat y) @ ''-'' @ pad 2 (nat m) @ ''-'' @ pad 2 (nat d))"

text \<open>\<open>astimezone(utc).isoformat(timespec="microseconds")\<close> of an aware time.\<close>

definition iso_utc :: "int \<Rightarrow> pystr" where
  "iso_utc us =
     (let secs = us div 1000000; tod = secs mod 86400
      in iso_day (secs div 86400) @ ''T'' @ pad 2 (nat (tod div 3600)) @ '':''
         @ pad 2 (nat (tod div 60 mod 60)) @ '':'' @ pad 2 (nat (tod mod 60)) @ ''.''
         @ pad 6 (nat (us mod 1000000)) @ ''+00:00'')"

section \<open>Decimal amounts\<close>

text \<open>A decimal is a sign, a coefficient and a power of ten, or not a finite number.\<close>

datatype decimal = Finite bool nat int | Infinite | NaN

definition is_finite :: "decimal \<Rightarrow> bool" where
  "is_finite a = (case a of Finite _ _ _ \<Rightarrow> True | _ \<Rightarrow> False)"

definition too_big :: "nat \<Rightarrow> int \<Rightarrow> bool" where
  "too_big c e \<longleftrightarrow>
     (if 0 \<le> e then 999999999999999 < c * 10 ^ nat e
      else 999999999999999 * 10 ^ nat (- e) < c)"

text \<open>Equal to its own rounding to two places.\<close>

definition whole_cents :: "nat \<Rightarrow> int \<Rightarrow> bool" where
  "whole_cents c e \<longleftrightarrow> - 2 \<le> e \<or> 10 ^ nat (- 2 - e) dvd c"

definition cents :: "nat \<Rightarrow> int \<Rightarrow> nat" where
  "cents c e = (if - 2 \<le> e then c * 10 ^ nat (e + 2) else c div 10 ^ nat (- 2 - e))"

definition amount_text :: "decimal \<Rightarrow> pystr" where
  "amount_text a = (case a of
     Finite neg c e \<Rightarrow> (if neg then ''-'' else '''') @ show_nat (cents c e div 100) @ ''.''
       @ pad 2 (cents c e mod 100)
   | _ \<Rightarrow> ''nan'')"

section \<open>Events\<close>

record event =
  kiz :: pystr
  task_number :: pystr
  sticker :: pystr
  operation :: operation
  occurred_at :: "py_datetime option"
  receipt_number :: "pystr option"
  fiscal_drive_number :: "pystr option"
  amount :: decimal
  currency :: pystr
  legal_entity_sale :: "bool option"

datatype event_error =
    RequiredFieldMissing | NaiveDate | AmountNotFinite | AmountTooBig | AmountNotInCents

definition event_post_init :: "event \<Rightarrow> event_error + event" where
  "event_post_init v =
     (if kiz v = [] \<or> task_number v = [] \<or> sticker v = [] then Inl RequiredFieldMissing
      else if occurred_at v \<noteq> None \<and> \<not> aware (occurred_at v) then Inl NaiveDate
      else case amount v of
        Finite neg c e \<Rightarrow>
          if too_big c e then Inl AmountTooBig
          else if \<not> whole_cents c e then Inl AmountNotInCents
          else Inr v
      | _ \<Rightarrow> Inl AmountNotFinite)"

text \<open>
  \<open>canonical_json(self.to_dict()).encode("utf-8")\<close>, keys in sorted order. Every value but the
  operation is a text, null or a truth value.
\<close>

definition occurred_json :: "event \<Rightarrow> json" where
  "occurred_json v = (case occurred_at v of Some (Aware us) \<Rightarrow> JStr (iso_utc us) | _ \<Rightarrow> JNull)"

definition legal_json :: "event \<Rightarrow> json" where
  "legal_json v = (case legal_entity_sale v of None \<Rightarrow> JNull | Some b \<Rightarrow> JBool b)"

definition member_text :: "pystr \<Rightarrow> json \<Rightarrow> bytes" where
  "member_text k v = utf8 (quote k @ '':'' @ canonical_json v)"

definition event_canonical :: "event \<Rightarrow> bytes" where
  "event_canonical v =
     ''{'' @ join '','' [
       member_text ''amount'' (JStr (amount_text (amount v))),
       member_text ''currency'' (JStr (currency v)),
       member_text ''fiscal_drive_number'' (opt_str (fiscal_drive_number v)),
       member_text ''kiz'' (JStr (kiz v)),
       member_text ''legal_entity_sale'' (legal_json v),
       member_text ''occurred_at'' (occurred_json v),
       utf8 (quote ''operation'') @ '':'' @ [quote_mark] @ operation_bytes (operation v) @ [quote_mark],
       member_text ''receipt_number'' (opt_str (receipt_number v)),
       member_text ''sticker'' (JStr (sticker v)),
       member_text ''task_number'' (JStr (task_number v))] @ ''}''"

definition event_id :: "event \<Rightarrow> pystr" where
  "event_id v = sha256_hex (''wb-event:v1:'' @ event_canonical v)"

section \<open>Code states, outcomes, reports\<close>

record ki_state =
  status :: pystr
  statusEx :: "pystr option"
  withdrawReason :: "pystr option"
  ownerInn :: "pystr option"
  productGroup :: "pystr option"

record outcome =
  decision :: decision
  reason :: pystr
  outcome_error :: "pystr option"

definition outcome_of :: "decision \<Rightarrow> pystr \<Rightarrow> outcome" where
  "outcome_of d r = \<lparr>decision = d, reason = r, outcome_error = None\<rparr>"

record document_report =
  report_status :: document_status
  report_error :: "pystr option"

definition successful :: "document_report \<Rightarrow> bool" where
  "successful r \<longleftrightarrow> report_status r = DS_SUCCEEDED"

end
