(* ===== verification/ControlEngine.thy ===== *)
theory ControlEngine
  imports Models
begin

text \<open>
  The decision of \<open>wbcz/control_engine.py\<close>: a pure function of an imported event, the current
  state of its marking code and the own taxpayer number. The lemmas say exactly when it
  recommends a document, and that every other input falls to review or no action.
\<close>

definition validate_owner_inn :: "pystr \<Rightarrow> pystr + unit" where
  "validate_owner_inn v =
     (if \<not> isascii v \<or> \<not> isdigit v \<or> \<not> (length v = 10 \<or> length v = 12)
      then Inl ''ValueError'' else Inr ())"

definition has_sale_receipt_evidence :: "event \<Rightarrow> bool" where
  "has_sale_receipt_evidence v \<longleftrightarrow> truthy (receipt_number v) \<and> occurred_at v \<noteq> None"

text \<open>The part of \<open>decide\<close> after the taxpayer number is accepted.\<close>

definition decide_state :: "event \<Rightarrow> ki_state \<Rightarrow> pystr \<Rightarrow> outcome" where
  "decide_state v s own =
     (let verified_lp = productGroup s \<noteq> None in
      if verified_lp \<and> map_option casefold (productGroup s) \<noteq> Some ''lp''
      then outcome_of MANUAL_REVIEW ''WRONG_PRODUCT_GROUP''
      else if \<not> truthy (ownerInn s) then outcome_of MANUAL_REVIEW ''OWNER_UNKNOWN''
      else if ownerInn s \<noteq> Some own then outcome_of MANUAL_REVIEW ''OWNER_MISMATCH''
      else if status s \<notin> {''IN_CIRCULATION'', ''WITHDRAWN''}
      then outcome_of MANUAL_REVIEW ''UNKNOWN_CHZ_STATUS''
      else if statusEx s \<notin> {None, Some [], Some (status s)}
      then outcome_of MANUAL_REVIEW ''UNKNOWN_CHZ_STATUS''
      else if status s = ''IN_CIRCULATION'' then
        (if withdrawReason s \<notin> {None, Some []} then outcome_of MANUAL_REVIEW ''UNKNOWN_CHZ_STATUS''
         else if operation v = RETURN then outcome_of ALREADY_DONE ''RETURN_ALREADY_IN_CIRCULATION''
         else if legal_entity_sale v \<noteq> Some False
         then outcome_of MANUAL_REVIEW ''LEGAL_ENTITY_RULES_UNDEFINED''
         else if verified_lp \<and> \<not> has_sale_receipt_evidence v
         then outcome_of MANUAL_REVIEW ''SALE_RECEIPT_MISSING''
         else outcome_of READY_TO_WITHDRAW ''SALE_IN_CIRCULATION'')
      else if withdrawReason s \<noteq> Some ''DISTANCE''
      then outcome_of MANUAL_REVIEW ''NON_DISTANCE_OR_UNKNOWN_WITHDRAWAL''
      else if operation v = SALE then outcome_of ALREADY_DONE ''SALE_ALREADY_WITHDRAWN_DISTANCE''
      else outcome_of READY_TO_RETURN ''RETURN_WITHDRAWN_DISTANCE'')"

definition decide :: "event \<Rightarrow> ki_state \<Rightarrow> pystr \<Rightarrow> pystr + outcome" where
  "decide v s own = bind (validate_owner_inn own) (\<lambda>_. Inr (decide_state v s own))"

section \<open>What a recommendation needs\<close>

text \<open>The state is ours, in the product group if one is given, and not in a special state.\<close>

definition clean_state :: "ki_state \<Rightarrow> pystr \<Rightarrow> pystr \<Rightarrow> bool" where
  "clean_state s own st \<longleftrightarrow>
     status s = st \<and> ownerInn s = Some own \<and> own \<noteq> [] \<and> statusEx s \<in> {None, Some [], Some st}
     \<and> (productGroup s = None \<or> map_option casefold (productGroup s) = Some ''lp'')"

lemma outcome_simps [simp]:
  "decision (outcome_of d r) = d" "reason (outcome_of d r) = r" "outcome_error (outcome_of d r) = None"
  by (simp_all add: outcome_of_def)

lemma valid_inn_not_Nil: "validate_owner_inn own = Inr u \<Longrightarrow> own \<noteq> []"
  by (auto simp: validate_owner_inn_def split: if_splits)

lemma decide_state_withdraw:
  "decision (decide_state v s own) = READY_TO_WITHDRAW \<longleftrightarrow>
     clean_state s own ''IN_CIRCULATION'' \<and> withdrawReason s \<in> {None, Some []}
     \<and> operation v = SALE \<and> legal_entity_sale v = Some False
     \<and> (productGroup s \<noteq> None \<longrightarrow> has_sale_receipt_evidence v)"
  by (cases "operation v"; cases "ownerInn s")
    (auto simp: decide_state_def clean_state_def Let_def)

lemma decide_state_return:
  "decision (decide_state v s own) = READY_TO_RETURN \<longleftrightarrow>
     clean_state s own ''WITHDRAWN'' \<and> withdrawReason s = Some ''DISTANCE'' \<and> operation v = RETURN"
  by (cases "operation v"; cases "ownerInn s")
    (auto simp: decide_state_def clean_state_def Let_def)

lemma decide_state_done:
  "decision (decide_state v s own) = ALREADY_DONE \<longleftrightarrow>
     (clean_state s own ''IN_CIRCULATION'' \<and> withdrawReason s \<in> {None, Some []} \<and> operation v = RETURN)
     \<or> (clean_state s own ''WITHDRAWN'' \<and> withdrawReason s = Some ''DISTANCE'' \<and> operation v = SALE)"
  by (cases "operation v"; cases "ownerInn s")
    (auto simp: decide_state_def clean_state_def Let_def)

lemma decide_state_range:
  "decision (decide_state v s own) \<in> {READY_TO_WITHDRAW, READY_TO_RETURN, ALREADY_DONE, MANUAL_REVIEW}"
  by (simp add: decide_state_def Let_def)

lemma decide_Inr_iff:
  "decide v s own = Inr r \<longleftrightarrow> validate_owner_inn own = Inr () \<and> r = decide_state v s own"
  by (auto simp: decide_def bind_Inr_iff)

section \<open>Properties\<close>

text \<open>C39: a withdrawal is recommended exactly for a sale that is known not to be to a legal entity, of
  a code that is ours, in circulation, in no special state and without a withdrawal reason, with a
  receipt number and date when the product group was verified; and only for a well-formed own number.\<close>

theorem withdraw_recommended_iff:
  "(\<exists>r. decide v s own = Inr r \<and> decision r = READY_TO_WITHDRAW) \<longleftrightarrow>
     validate_owner_inn own = Inr () \<and> clean_state s own ''IN_CIRCULATION''
     \<and> withdrawReason s \<in> {None, Some []} \<and> operation v = SALE \<and> legal_entity_sale v = Some False
     \<and> (productGroup s = None \<or> has_sale_receipt_evidence v)"
  by (auto simp: decide_Inr_iff decide_state_withdraw)

text \<open>A return is recommended exactly for a return of a code that is ours and withdrawn for a
  distance sale.\<close>

theorem return_recommended_iff:
  "(\<exists>r. decide v s own = Inr r \<and> decision r = READY_TO_RETURN) \<longleftrightarrow>
     validate_owner_inn own = Inr () \<and> clean_state s own ''WITHDRAWN''
     \<and> withdrawReason s = Some ''DISTANCE'' \<and> operation v = RETURN"
  by (auto simp: decide_Inr_iff decide_state_return)

end
