(* ===== verification/WriteAdapter.thy ===== *)
theory WriteAdapter
  imports ControlEngine
begin

text \<open>
  The first half of \<open>wbcz/write_pipeline.py\<close>: the write states, the exact document whose bytes are
  frozen once, and the two adapters that talk to the remote service. The transport and the
  envelope parsers are supplied to the adapters, so they are arguments; an exception they raise is
  known by the name of its class, which is all the pipeline records of it.
\<close>

section \<open>States and categories\<close>

datatype write_state =
    W_PREPARED | W_AWAITING_SIGNATURE | W_SIGNED | W_SUBMITTING | W_SUBMITTED | W_PROCESSING
  | W_RECONCILIATION_REQUIRED | W_SUCCEEDED | W_FAILED | W_MANUAL_REVIEW | W_ERROR

datatype poll_classification =
    P_INTERMEDIATE | P_TERMINAL_SUCCESS | P_TERMINAL_FAILURE | P_MANUAL_REVIEW

datatype create_category =
    C_SUCCESS_WITH_ID | C_SUCCESS_CONTRACT_UNCONFIRMED | C_BAD_REQUEST | C_UNAUTHORIZED
  | C_FORBIDDEN | C_UNPROCESSABLE | C_SERVER_ERROR | C_HTTP_ERROR

definition write_state_value :: "write_state \<Rightarrow> pystr" where
  "write_state_value s = (case s of
     W_PREPARED \<Rightarrow> ''PREPARED'' | W_AWAITING_SIGNATURE \<Rightarrow> ''AWAITING_SIGNATURE''
   | W_SIGNED \<Rightarrow> ''SIGNED'' | W_SUBMITTING \<Rightarrow> ''SUBMITTING'' | W_SUBMITTED \<Rightarrow> ''SUBMITTED''
   | W_PROCESSING \<Rightarrow> ''PROCESSING'' | W_RECONCILIATION_REQUIRED \<Rightarrow> ''RECONCILIATION_REQUIRED''
   | W_SUCCEEDED \<Rightarrow> ''SUCCEEDED'' | W_FAILED \<Rightarrow> ''FAILED'' | W_MANUAL_REVIEW \<Rightarrow> ''MANUAL_REVIEW''
   | W_ERROR \<Rightarrow> ''ERROR'')"

definition poll_value :: "poll_classification \<Rightarrow> pystr" where
  "poll_value c = (case c of
     P_INTERMEDIATE \<Rightarrow> ''INTERMEDIATE'' | P_TERMINAL_SUCCESS \<Rightarrow> ''TERMINAL_SUCCESS''
   | P_TERMINAL_FAILURE \<Rightarrow> ''TERMINAL_FAILURE'' | P_MANUAL_REVIEW \<Rightarrow> ''MANUAL_REVIEW'')"

definition category_value :: "create_category \<Rightarrow> pystr" where
  "category_value c = (case c of
     C_SUCCESS_WITH_ID \<Rightarrow> ''SUCCESS_WITH_ID''
   | C_SUCCESS_CONTRACT_UNCONFIRMED \<Rightarrow> ''SUCCESS_CONTRACT_UNCONFIRMED''
   | C_BAD_REQUEST \<Rightarrow> ''BAD_REQUEST'' | C_UNAUTHORIZED \<Rightarrow> ''UNAUTHORIZED''
   | C_FORBIDDEN \<Rightarrow> ''FORBIDDEN'' | C_UNPROCESSABLE \<Rightarrow> ''UNPROCESSABLE''
   | C_SERVER_ERROR \<Rightarrow> ''SERVER_ERROR'' | C_HTTP_ERROR \<Rightarrow> ''HTTP_ERROR'')"

datatype write_error =
    WriteDisabled
  | InvalidWrite pystr
  | ReplayConflict
  | DuplicateSubmitBlocked
  | OperationMissing
  | WriteValueError pystr
  | IntegrityError
  | AssertionError

definition allowed_document_types :: "pystr list" where
  "allowed_document_types = [''LK_RECEIPT'', ''LP_RETURN'']"

definition decision_document :: "decision \<Rightarrow> (pystr \<times> pystr) option" where
  "decision_document d = (case d of
     READY_TO_WITHDRAW \<Rightarrow> Some (''LK_RECEIPT'', ''DISTANCE'')
   | READY_TO_RETURN \<Rightarrow> Some (''LP_RETURN'', ''REMOTE_SALE_RETURN'')
   | _ \<Rightarrow> None)"

section \<open>The exact document\<close>

record exact_document =
  payload :: bytes
  sha256 :: pystr
  product_document_base64 :: pystr

definition bytes_for_signature :: "exact_document \<Rightarrow> bytes" where
  "bytes_for_signature v = payload v"

definition from_utf8_json_bytes :: "bytes \<Rightarrow> write_error + exact_document" where
  "from_utf8_json_bytes bs =
     (if bs = [] then Inl (WriteValueError ''document payload must be non-empty bytes'')
      else case json_loads bs of
        None \<Rightarrow> Inl (WriteValueError ''document payload must be valid UTF-8 JSON'')
      | Some K_OTHER \<Rightarrow> Inl (WriteValueError ''document payload JSON root must be an object'')
      | Some K_OBJECT \<Rightarrow>
          Inr \<lparr>payload = bs, sha256 = sha256_hex bs, product_document_base64 = b64encode bs\<rparr>)"

text \<open>\<open>canonical_json\<close> refuses a float that is not finite (\<open>allow_nan=False\<close>).\<close>

definition from_json_value :: "(pystr \<times> json) list \<Rightarrow> write_error + exact_document" where
  "from_json_value kvs =
     (if finite_json (JObj kvs) then from_utf8_json_bytes (utf8 (canonical_json (JObj kvs)))
      else Inl (WriteValueError ''Out of range float values are not JSON compliant''))"

text \<open>The bytes, their hash and their Base64 text belong together.\<close>

definition exact :: "exact_document \<Rightarrow> bool" where
  "exact v \<longleftrightarrow> b64decode (product_document_base64 v) = Some (payload v)
     \<and> sha256 v = sha256_hex (payload v)"

lemma from_utf8_exact: "from_utf8_json_bytes bs = Inr v \<Longrightarrow> exact v \<and> payload v = bs"
  by (auto simp: from_utf8_json_bytes_def exact_def split: if_splits option.splits jkind.splits)

lemma canonical_object_not_Nil: "utf8 (canonical_json (JObj kvs)) \<noteq> []"
  unfolding utf8_object by simp

lemma freeze_finite:
  assumes "finite_json (JObj kvs)"
  shows "\<exists>v. from_json_value kvs = Inr v \<and> exact v \<and> payload v = utf8 (canonical_json (JObj kvs))"
proof -
  have "json_loads (utf8 (canonical_json (JObj kvs))) = Some K_OBJECT"
    using json_loads_canonical [OF assms] by (simp add: jkind_of_def)
  then show ?thesis
    using canonical_object_not_Nil [of kvs] assms
    by (auto simp: from_json_value_def from_utf8_json_bytes_def exact_def
        simp del: canonical_json.simps finite_json.simps)
qed

lemmas freeze_object = freeze_finite [OF float_free_finite]

lemma from_json_exact:
  "from_json_value kvs = Inr v \<Longrightarrow> exact v \<and> payload v = utf8 (canonical_json (JObj kvs))"
  using from_utf8_exact [of "utf8 (canonical_json (JObj kvs))" v]
  by (simp add: from_json_value_def del: canonical_json.simps finite_json.simps split: if_splits)

section \<open>Base64 and identifiers at the boundary\<close>

definition validate_base64_ascii :: "pystr \<Rightarrow> pystr \<Rightarrow> write_error + pystr" where
  "validate_base64_ascii v name =
     (if v = [] \<or> CHR 0x0D \<in> set v \<or> CHR 0x0A \<in> set v
      then Inl (WriteValueError (name @ '' must be non-empty Base64 without CR/LF''))
      else case b64decode v of
        None \<Rightarrow> Inl (WriteValueError (name @ '' is not valid Base64''))
      | Some raw \<Rightarrow>
          if raw = [] then Inl (WriteValueError (name @ '' decodes to empty bytes''))
          else Inr (b64encode raw))"

definition safe_document_id :: "pystr option \<Rightarrow> write_error + pystr option" where
  "safe_document_id v = (case v of
     None \<Rightarrow> Inr None
   | Some s \<Rightarrow>
       let t = strip s in
       if t = [] \<or> 512 < length t \<or> list_ex (\<lambda>c. code c < 32) t
       then Inl (WriteValueError ''unsafe document identifier from parser'')
       else Inr (Some t))"

lemma b64_char_code: "43 \<le> code (b64_char i)"
proof -
  have "code (CHR ''+'') = 43" "code (CHR ''/'') = 47" by (simp_all add: code_def)
  then show ?thesis by (auto simp: b64_char_def)
qed

lemma code_pad: "code (CHR ''='') = 61"
  by (simp add: code_def)

lemma b64encode_codes: "c \<in> set (b64encode bs) \<Longrightarrow> 43 \<le> code c"
proof (induction bs rule: b64encode.induct)
  case 1
  then show ?case by simp
qed (auto simp: b64_char_code code_pad)

lemma b64encode_no_breaks: "CHR 0x0D \<notin> set (b64encode bs)" "CHR 0x0A \<notin> set (b64encode bs)"
proof -
  have "code (CHR 0x0D) = 13" "code (CHR 0x0A) = 10" by (simp_all add: code_def)
  then show "CHR 0x0D \<notin> set (b64encode bs)" "CHR 0x0A \<notin> set (b64encode bs)"
    using b64encode_codes by fastforce+
qed

text \<open>What the boundary accepts is what decodes to something, normalised.\<close>

lemma validate_base64_Inr_iff:
  "validate_base64_ascii v name = Inr w \<longleftrightarrow>
     CHR 0x0D \<notin> set v \<and> CHR 0x0A \<notin> set v \<and> (\<exists>raw. raw \<noteq> [] \<and> b64decode v = Some raw \<and> w = b64encode raw)"
  by (auto simp: validate_base64_ascii_def split: option.splits)

lemma validate_base64_encoded:
  "raw \<noteq> [] \<Longrightarrow> validate_base64_ascii (b64encode raw) name = Inr (b64encode raw)"
  by (simp add: validate_base64_Inr_iff b64encode_no_breaks)

lemma validate_base64_idem:
  "validate_base64_ascii v name = Inr w \<Longrightarrow> validate_base64_ascii w name' = Inr w \<and> w \<noteq> []"
  by (auto simp: validate_base64_Inr_iff b64encode_no_breaks)

lemma safe_document_id_Some:
  "safe_document_id v = Inr (Some t) \<Longrightarrow>
     t \<noteq> [] \<and> length t \<le> 512 \<and> strip t = t \<and> list_all (\<lambda>c. 32 \<le> code c) t"
  by (auto simp: safe_document_id_def Let_def list_all_iff list_ex_iff not_less
      split: option.splits if_splits)

section \<open>The write adapter\<close>

record http_response =
  status_code :: int
  body :: bytes
  headers :: "(pystr \<times> pystr) list option"

record create_result =
  category :: create_category
  http_status :: int
  result_document_id :: "pystr option"
  body_sha256 :: pystr
  content_type :: "pystr option"

record poll_result =
  poll_http_status :: int
  raw_status :: "pystr option"
  poll_body_sha256 :: pystr

text \<open>What an adapter raises: one of the errors above or an exception from outside, by its name.\<close>

type_synonym exception_name = pystr
type_synonym post_json =
  "pystr \<Rightarrow> (pystr \<times> pystr) list \<Rightarrow> (pystr \<times> pystr) list \<Rightarrow> exception_name + http_response"
type_synonym get_json = "pystr \<Rightarrow> (pystr \<times> pystr) list \<Rightarrow> exception_name + http_response"
type_synonym envelope_parser = "http_response \<Rightarrow> exception_name + pystr option"

definition error_class :: "write_error \<Rightarrow> exception_name" where
  "error_class e = (case e of
     WriteDisabled \<Rightarrow> ''ProductionWriteDisabled'' | InvalidWrite _ \<Rightarrow> ''InvalidWriteOperation''
   | ReplayConflict \<Rightarrow> ''ReplayConflict'' | DuplicateSubmitBlocked \<Rightarrow> ''DuplicateSubmitBlocked''
   | OperationMissing \<Rightarrow> ''KeyError'' | WriteValueError _ \<Rightarrow> ''ValueError''
   | IntegrityError \<Rightarrow> ''IntegrityError'' | AssertionError \<Rightarrow> ''AssertionError'')"

definition unconfirmed_parser :: envelope_parser where
  "unconfirmed_parser r = Inr None"

definition rstrip_slash :: "pystr \<Rightarrow> pystr" where
  "rstrip_slash s = rev (dropWhile (\<lambda>c. c = CHR ''/'') (rev s))"

record write_adapter =
  base_url :: pystr
  authorization :: pystr
  transport :: post_json
  success_parser :: envelope_parser

definition create_path :: pystr where
  "create_path = ''/api/v3/true-api/lk/documents/create?pg=lp''"

definition create_body :: "pystr \<Rightarrow> pystr \<Rightarrow> pystr \<Rightarrow> (pystr \<times> pystr) list" where
  "create_body t document signature =
     [(''document_format'', ''MANUAL''), (''product_document'', document), (''type'', t),
      (''signature'', signature)]"

definition header_content_type :: "(pystr \<times> pystr) list option \<Rightarrow> pystr option" where
  "header_content_type h = (case h of
     None \<Rightarrow> None
   | Some [] \<Rightarrow> None
   | Some kvs \<Rightarrow>
       if truthy (map_of kvs ''Content-Type'') then map_of kvs ''Content-Type''
       else map_of kvs ''content-type'')"

definition failure_category :: "int \<Rightarrow> create_category" where
  "failure_category n =
     (if n = 400 then C_BAD_REQUEST else if n = 401 then C_UNAUTHORIZED
      else if n = 403 then C_FORBIDDEN else if n = 422 then C_UNPROCESSABLE
      else if 500 \<le> n then C_SERVER_ERROR else C_HTTP_ERROR)"

text \<open>What \<open>create\<close> does with the response of the remote service.\<close>

definition read_create_response :: "write_adapter \<Rightarrow> http_response \<Rightarrow> exception_name + create_result" where
  "read_create_response a r =
     (if status_code r \<in> {200, 201} then
        bind (success_parser a r) (\<lambda>parsed.
        bind (map_error error_class (safe_document_id parsed)) (\<lambda>doc.
          Inr \<lparr>category = (if doc \<noteq> None then C_SUCCESS_WITH_ID else C_SUCCESS_CONTRACT_UNCONFIRMED),
               http_status = status_code r, result_document_id = doc,
               body_sha256 = sha256_hex (body r), content_type = header_content_type (headers r)\<rparr>))
      else
        Inr \<lparr>category = failure_category (status_code r), http_status = status_code r,
             result_document_id = None, body_sha256 = sha256_hex (body r),
             content_type = header_content_type (headers r)\<rparr>)"

text \<open>The request \<open>create\<close> sends, or the exception it raises before it sends one.\<close>

definition create_request ::
  "pystr \<Rightarrow> pystr \<Rightarrow> pystr \<Rightarrow> exception_name + (pystr \<times> pystr) list" where
  "create_request t document signature =
     (if t \<notin> set allowed_document_types
      then Inl (error_class (InvalidWrite ''unsupported document_type''))
      else bind (map_error error_class (validate_base64_ascii document ''product_document'')) (\<lambda>pd.
           bind (map_error error_class (validate_base64_ascii signature ''signature'')) (\<lambda>sg.
             Inr (create_body t pd sg))))"

definition create ::
  "write_adapter \<Rightarrow> pystr \<Rightarrow> pystr \<Rightarrow> pystr \<Rightarrow> exception_name + create_result" where
  "create a t document signature =
     bind (create_request t document signature) (\<lambda>req.
     bind (transport a (rstrip_slash (base_url a) @ create_path)
             [(''Authorization'', authorization a), (''Content-Type'', ''application/json'')] req)
          (read_create_response a))"

lemma create_request_Inr:
  "create_request t document signature = Inr req \<Longrightarrow>
     t \<in> set allowed_document_types \<and>
     (\<exists>d s. b64decode document = Some d \<and> b64decode signature = Some s \<and> d \<noteq> [] \<and> s \<noteq> []
        \<and> req = create_body t (b64encode d) (b64encode s))"
  by (auto simp: create_request_def bind_Inr_iff validate_base64_Inr_iff split: if_splits)

text \<open>Only a parsed, safe identifier makes a success; every other answer carries none.\<close>

lemma create_with_id:
  assumes "create a t document signature = Inr r"
  shows "(category r = C_SUCCESS_WITH_ID) = (result_document_id r \<noteq> None)"
    and "result_document_id r = Some i \<Longrightarrow>
      i \<noteq> [] \<and> length i \<le> 512 \<and> strip i = i \<and> list_all (\<lambda>c. 32 \<le> code c) i"
    and "result_document_id r \<noteq> None \<Longrightarrow> http_status r \<in> {200, 201}"
  using assms
  by (auto simp: create_def bind_Inr_iff read_create_response_def failure_category_def
      dest!: safe_document_id_Some split: if_splits)

section \<open>The polling adapter\<close>

record poll_adapter =
  poll_base_url :: pystr
  poll_authorization :: pystr
  poll_transport :: get_json
  status_parser :: envelope_parser

definition poll :: "poll_adapter \<Rightarrow> pystr \<Rightarrow> exception_name + poll_result" where
  "poll a doc =
     bind (map_error error_class (safe_document_id (Some doc))) (\<lambda>safe.
       case safe of
         None \<Rightarrow> Inl (error_class AssertionError)
       | Some i \<Rightarrow>
           bind (poll_transport a (rstrip_slash (poll_base_url a) @ ''/api/v4/true-api/doc/'' @ i @ ''/info'')
                   [(''Authorization'', poll_authorization a)]) (\<lambda>r.
           bind (status_parser a r) (\<lambda>parsed.
             Inr \<lparr>poll_http_status = status_code r, raw_status = map_option strip parsed,
                  poll_body_sha256 = sha256_hex (body r)\<rparr>)))"

definition classify_poll_status :: "pystr option \<Rightarrow> poll_classification" where
  "classify_poll_status s =
     (if s \<in> {Some ''IN_PROGRESS'', Some ''WAIT_FOR_CONTINUATION''} then P_INTERMEDIATE
      else if s = Some ''CHECKED_OK'' then P_TERMINAL_SUCCESS
      else if s \<in> {Some ''CHECKED_NOT_OK'', Some ''PARSE_ERROR'', Some ''PROCESSING_ERROR''}
      then P_TERMINAL_FAILURE
      else P_MANUAL_REVIEW)"

lemma classify_success_iff: "classify_poll_status s = P_TERMINAL_SUCCESS \<longleftrightarrow> s = Some ''CHECKED_OK''"
  by (auto simp: classify_poll_status_def)

section \<open>Properties\<close>

text \<open>C27: a JSON object is frozen exactly when its floats are finite, at any depth; the document keeps the
  canonical UTF-8 bytes, their SHA-256 and a Base64 text that decodes to exactly those bytes.\<close>

theorem freeze_json_document:
  "(\<exists>v. from_json_value kvs = Inr v \<and> payload v = utf8 (canonical_json (JObj kvs))
     \<and> b64decode (product_document_base64 v) = Some (payload v) \<and> sha256 v = sha256_hex (payload v))
   \<longleftrightarrow> finite_json (JObj kvs)"
proof (cases "finite_json (JObj kvs)")
  case True
  then show ?thesis using freeze_finite [OF True] by (auto simp: exact_def)
next
  case False
  then show ?thesis by (simp add: from_json_value_def del: finite_json.simps)
qed

lemma freeze_json_document_witness:
  "\<exists>v. from_json_value [(''inn'', JStr ''7707083893''), (''n'', JInt 1), (''share'', JFloat ''-1.5e-07'')] = Inr v
     \<and> b64decode (product_document_base64 v) = Some (payload v)"
proof -
  have "finite_float ''-1.5e-07''" by code_simp
  then have "finite_json (JObj [(''inn'', JStr ''7707083893''), (''n'', JInt 1), (''share'', JFloat ''-1.5e-07'')])"
    by simp
  from this [folded freeze_json_document] show ?thesis by blast
qed

end
