(* ===== verification/AggregationModel.thy ===== *)
theory AggregationModel
  imports WriteAdapter
begin

text \<open>
  The first part of \<open>wbcz/aggregation.py\<close>: package types and operation kinds, the validators of
  texts, numbers, codes and aggregate identifiers, the parent/child table of the product group, the
  seven document types with their wire form, and the preparation of an exact document.
\<close>

section \<open>Vocabulary\<close>

datatype agg_error =
    AggContract pystr
  | AggManual pystr
  | AggForeign pystr

type_synonym 'a agg = "agg_error + 'a"

datatype package_type = PK_UNIT | PK_GROUP | PK_BUNDLE | PK_SET | PK_BOX | PK_ATK

definition package_value :: "package_type \<Rightarrow> pystr" where
  "package_value t = (case t of PK_UNIT \<Rightarrow> ''UNIT'' | PK_GROUP \<Rightarrow> ''GROUP'' | PK_BUNDLE \<Rightarrow> ''BUNDLE''
     | PK_SET \<Rightarrow> ''SET'' | PK_BOX \<Rightarrow> ''BOX'' | PK_ATK \<Rightarrow> ''ATK'')"

datatype unit_serial_type = US_BOX | US_GROUP | US_PRODUCT_SET

definition unit_serial_value :: "unit_serial_type \<Rightarrow> pystr" where
  "unit_serial_value t = (case t of US_BOX \<Rightarrow> ''BOX'' | US_GROUP \<Rightarrow> ''GROUP''
     | US_PRODUCT_SET \<Rightarrow> ''PRODUCT_SET'')"

datatype aggregation_kind =
    FORM_TRANSPORT_PACKAGE | FORM_MULTIPRODUCT_TRANSPORT_PACKAGE | FORM_SET
  | FORM_SET_GENERIC_COMPATIBILITY | TRANSFORM_PACKAGE_ADD | TRANSFORM_PACKAGE_REMOVE
  | DISAGGREGATE_PACKAGE | FORM_ATK | TRANSFORM_ATK_ADD | TRANSFORM_ATK_REMOVE | DISAGGREGATE_ATK
  | READ_AGGREGATE_TREE | READ_AGGREGATION_HISTORY | RECONCILE_AGGREGATION_OPERATION
  | AUTO_DISAGGREGATION_KIND

definition aggregation_kind_value :: "aggregation_kind \<Rightarrow> pystr" where
  "aggregation_kind_value k = (case k of
     FORM_TRANSPORT_PACKAGE \<Rightarrow> ''FORM_TRANSPORT_PACKAGE''
   | FORM_MULTIPRODUCT_TRANSPORT_PACKAGE \<Rightarrow> ''FORM_MULTIPRODUCT_TRANSPORT_PACKAGE''
   | FORM_SET \<Rightarrow> ''FORM_SET''
   | FORM_SET_GENERIC_COMPATIBILITY \<Rightarrow> ''FORM_SET_GENERIC_COMPATIBILITY''
   | TRANSFORM_PACKAGE_ADD \<Rightarrow> ''TRANSFORM_PACKAGE_ADD''
   | TRANSFORM_PACKAGE_REMOVE \<Rightarrow> ''TRANSFORM_PACKAGE_REMOVE''
   | DISAGGREGATE_PACKAGE \<Rightarrow> ''DISAGGREGATE_PACKAGE''
   | FORM_ATK \<Rightarrow> ''FORM_ATK'' | TRANSFORM_ATK_ADD \<Rightarrow> ''TRANSFORM_ATK_ADD''
   | TRANSFORM_ATK_REMOVE \<Rightarrow> ''TRANSFORM_ATK_REMOVE'' | DISAGGREGATE_ATK \<Rightarrow> ''DISAGGREGATE_ATK''
   | READ_AGGREGATE_TREE \<Rightarrow> ''READ_AGGREGATE_TREE''
   | READ_AGGREGATION_HISTORY \<Rightarrow> ''READ_AGGREGATION_HISTORY''
   | RECONCILE_AGGREGATION_OPERATION \<Rightarrow> ''RECONCILE_AGGREGATION_OPERATION''
   | AUTO_DISAGGREGATION_KIND \<Rightarrow> ''AUTO_DISAGGREGATION'')"

definition aggregation_kinds :: "aggregation_kind list" where
  "aggregation_kinds =
     [FORM_TRANSPORT_PACKAGE, FORM_MULTIPRODUCT_TRANSPORT_PACKAGE, FORM_SET,
      FORM_SET_GENERIC_COMPATIBILITY, TRANSFORM_PACKAGE_ADD, TRANSFORM_PACKAGE_REMOVE,
      DISAGGREGATE_PACKAGE, FORM_ATK, TRANSFORM_ATK_ADD, TRANSFORM_ATK_REMOVE, DISAGGREGATE_ATK,
      READ_AGGREGATE_TREE, READ_AGGREGATION_HISTORY, RECONCILE_AGGREGATION_OPERATION,
      AUTO_DISAGGREGATION_KIND]"

definition aggregation_kind_of :: "pystr \<Rightarrow> aggregation_kind option" where
  "aggregation_kind_of s = find (\<lambda>k. aggregation_kind_value k = s) aggregation_kinds"

text \<open>The registry: the document type of a kind (none for kinds that are not submitted), whether
  it is executable, its capability label.\<close>

definition m6_registry :: "aggregation_kind \<Rightarrow> pystr option \<times> bool \<times> pystr" where
  "m6_registry k = (case k of
     FORM_TRANSPORT_PACKAGE \<Rightarrow> (Some ''AGGREGATION_DOCUMENT'', True, ''BOX_SINGLE_PG'')
   | FORM_MULTIPRODUCT_TRANSPORT_PACKAGE \<Rightarrow> (Some ''AGGREGATION_DOCUMENT'', True, ''BOX_MULTI_PG'')
   | FORM_SET \<Rightarrow> (Some ''SETS_AGGREGATION'', True, ''DEDICATED_SET'')
   | FORM_SET_GENERIC_COMPATIBILITY \<Rightarrow>
       (Some ''AGGREGATION_DOCUMENT'', True, ''EXPLICIT_COMPATIBILITY_ONLY'')
   | TRANSFORM_PACKAGE_ADD \<Rightarrow> (Some ''REAGGREGATION_DOCUMENT'', True, ''ADDING'')
   | TRANSFORM_PACKAGE_REMOVE \<Rightarrow> (Some ''REAGGREGATION_DOCUMENT'', True, ''REMOVING'')
   | DISAGGREGATE_PACKAGE \<Rightarrow> (Some ''DISAGGREGATION_DOCUMENT'', True, ''EXPLICIT_DISAGGREGATION'')
   | FORM_ATK \<Rightarrow> (Some ''ATK_AGGREGATION'', True, ''IMPORTER_ONLY'')
   | TRANSFORM_ATK_ADD \<Rightarrow> (Some ''ATK_TRANSFORMATION'', True, ''ADDING'')
   | TRANSFORM_ATK_REMOVE \<Rightarrow> (Some ''ATK_TRANSFORMATION'', True, ''REMOVING'')
   | DISAGGREGATE_ATK \<Rightarrow> (Some ''ATK_DISAGGREGATION'', True, ''IMPORTER_ONLY'')
   | READ_AGGREGATE_TREE \<Rightarrow> (None, False, ''READ_ONLY'')
   | READ_AGGREGATION_HISTORY \<Rightarrow> (None, False, ''READ_ONLY'')
   | RECONCILE_AGGREGATION_OPERATION \<Rightarrow> (None, False, ''RECONCILIATION_ONLY'')
   | AUTO_DISAGGREGATION_KIND \<Rightarrow> (None, False, ''EVENT_ONLY_NOT_SUBMITTABLE''))"

definition m6_document_types :: "pystr list" where
  "m6_document_types = remdups (List.map_filter (\<lambda>k. fst (m6_registry k)) aggregation_kinds)"

definition lp_parent_children :: "package_type \<Rightarrow> package_type list option" where
  "lp_parent_children p = (case p of
     PK_SET \<Rightarrow> Some [PK_UNIT, PK_BUNDLE]
   | PK_BOX \<Rightarrow> Some [PK_UNIT, PK_BUNDLE, PK_SET, PK_BOX]
   | PK_ATK \<Rightarrow> Some [PK_UNIT, PK_BUNDLE, PK_SET, PK_BOX]
   | _ \<Rightarrow> None)"

section \<open>Validators\<close>

definition agg_text :: "pystr \<Rightarrow> pystr \<Rightarrow> nat \<Rightarrow> pystr agg" where
  "agg_text v name max_len =
     (if v = [] \<or> strip v \<noteq> v \<or> max_len < length v
      then Inl (AggContract (name @ '' must be a non-empty trimmed string'')) else Inr v)"

definition agg_inn :: "pystr \<Rightarrow> pystr \<Rightarrow> pystr agg" where
  "agg_inn v name = bind (agg_text v name 12) (\<lambda>t.
     if isdigit t \<and> (length t = 10 \<or> length t = 12) then Inr t
     else Inl (AggContract (name @ '' must be 10 or 12 digits'')))"

definition agg_code :: "pystr \<Rightarrow> pystr \<Rightarrow> pystr agg" where
  "agg_code v name = bind (agg_text v name 74) (\<lambda>t.
     if \<not> (18 \<le> length t \<and> length t \<le> 74) \<or> has_space t
     then Inl (AggContract (name @ '' must be 18..74 non-whitespace chars'')) else Inr t)"

definition aggregate_identifier_char :: "char \<Rightarrow> bool" where
  "aggregate_identifier_char c \<longleftrightarrow>
     digit_char c \<or> upper_char c \<or> lower_char c
     \<or> c \<in> set (CHR 0x27 # CHR 0x22 # ''%&()*+,-_./:;<=>?!'')"

definition validate_aggregate_identifier :: "pystr \<Rightarrow> pystr \<Rightarrow> pystr agg" where
  "validate_aggregate_identifier v name = bind (agg_text v name 74) (\<lambda>t.
     if \<not> (18 \<le> length t \<and> length t \<le> 74)
     then Inl (AggContract (name @ '' must be 18..74 chars''))
     else if list_ex (\<lambda>c. \<not> aggregate_identifier_char c) t
     then Inl (AggContract (name @ '' contains a character outside the official aggregate identifier set''))
     else Inr t)"

definition validate_lp_relation :: "package_type \<Rightarrow> package_type \<Rightarrow> pystr \<Rightarrow> bool \<Rightarrow> unit agg" where
  "validate_lp_relation parent child child_pg mixed_pg =
     (if child = PK_BUNDLE \<and> child_pg \<noteq> ''lp''
      then Inl (AggContract ''BUNDLE/KIK is supported only for lp'')
      else if parent = PK_GROUP then Inl (AggManual ''GROUP_PARENT_NOT_EXPOSED_FOR_LP'')
      else if parent = PK_SET \<and> child \<notin> set (the (lp_parent_children PK_SET))
      then Inl (AggContract ''SET permits only UNIT or BUNDLE direct children for lp'')
      else if parent = PK_BOX \<and> child = PK_GROUP \<and> (\<not> mixed_pg \<or> child_pg = ''lp'')
      then Inl (AggContract ''GROUP child requires legitimate non-lp mixed-PG KITU'')
      else if parent = PK_BOX \<and> child \<noteq> PK_GROUP \<and> child \<notin> set (the (lp_parent_children PK_BOX))
      then Inl (AggContract ''incompatible BOX child'')
      else if parent = PK_ATK \<and> child = PK_GROUP \<and> child_pg = ''lp''
      then Inl (AggContract ''lp GROUP must not be fabricated'')
      else if parent = PK_ATK \<and> child \<noteq> PK_GROUP \<and> child \<notin> set (the (lp_parent_children PK_ATK))
      then Inl (AggContract ''incompatible ATK child'')
      else Inr ())"

definition unique_codes :: "pystr list \<Rightarrow> pystr \<Rightarrow> pystr list agg" where
  "unique_codes vs name =
     (if vs = [] then Inl (AggContract (name @ '' must be non-empty''))
      else bind (collect (\<lambda>v. agg_code v name) vs) (\<lambda>out.
        if \<not> distinct out then Inl (AggContract (name @ '' must be unique'')) else Inr out))"

section \<open>Documents and their wire form\<close>

text \<open>A wire form is the list of members of a JSON object. Validators return the text they checked,
  so a document's own fields are the values its wire form carries.\<close>

type_synonym wire = "(pystr \<times> json) list"

definition str_list :: "pystr list \<Rightarrow> json" where
  "str_list vs = JList (map JStr vs)"

definition keyed_list :: "pystr \<Rightarrow> pystr list \<Rightarrow> json" where
  "keyed_list k vs = JList (map (\<lambda>v. JObj [(k, JStr v)]) vs)"

record aggregation_unit =
  unit_serial_number :: pystr
  unit_type :: unit_serial_type
  sntins :: "pystr list"
  part_number :: "pystr option"

definition check_children :: "pystr list \<Rightarrow> pystr list agg" where
  "check_children vs =
     (if vs = [] then Inl (AggContract ''sntins must be non-empty'')
      else bind (collect (\<lambda>v. agg_code v ''sntins[]'') vs) (\<lambda>cs.
        if \<not> distinct cs then Inl (AggContract ''sntins must be unique'') else Inr cs))"

definition unit_wire :: "aggregation_unit \<Rightarrow> wire agg" where
  "unit_wire u =
     bind (validate_aggregate_identifier (unit_serial_number u) ''unitSerialNumber'') (\<lambda>parent.
     bind (check_children (sntins u)) (\<lambda>cs.
       if part_number u \<noteq> None then Inl (AggManual ''PART_NUMBER_NOT_ENABLED_FOR_LP'')
       else Inr [(''unitSerialNumber'', JStr parent),
                 (''unitSerialNumberType'', JStr (unit_serial_value (unit_type u))),
                 (''aggregationType'', JStr ''AGGREGATION''), (''sntins'', str_list cs)]))"

definition aggregation_wire :: "pystr \<Rightarrow> aggregation_unit list \<Rightarrow> wire agg" where
  "aggregation_wire participant us =
     (if us = [] then Inl (AggContract ''aggregationUnits must be non-empty'')
      else bind (collect unit_wire us) (\<lambda>wires.
        if length (remdups (map (length \<circ> unit_serial_number) us)) \<noteq> 1
           \<or> length (remdups (map unit_type us)) \<noteq> 1
        then Inl (AggContract ''parents in one document must share code length and package type'')
        else if \<not> distinct (concat (map sntins us))
        then Inl (AggContract ''a direct child may occur only once in an aggregation document'')
        else bind (agg_inn participant ''participantId'') (\<lambda>inn.
          Inr [(''participantId'', JStr inn), (''aggregationUnits'', JList (map JObj wires))])))"

record set_unit =
  set_serial_number :: pystr
  set_sntins :: "pystr list"

definition set_unit_wire :: "set_unit \<Rightarrow> wire agg" where
  "set_unit_wire u =
     bind (check_children (set_sntins u)) (\<lambda>cs.
     bind (validate_aggregate_identifier (set_serial_number u) ''unitSerialNumber'') (\<lambda>parent.
       Inr [(''unitSerialNumber'', JStr parent), (''sntins'', str_list cs)]))"

definition sets_wire :: "pystr \<Rightarrow> set_unit list \<Rightarrow> wire agg" where
  "sets_wire participant us =
     (if us = [] then Inl (AggContract ''aggregationUnits must be non-empty'')
      else bind (agg_inn participant ''participantId'') (\<lambda>inn.
        bind (collect set_unit_wire us) (\<lambda>wires.
          Inr [(''participantId'', JStr inn), (''aggregationUnits'', JList (map JObj wires))])))"

record reaggregation_item =
  uit_uitu :: "pystr option"
  kitu :: "pystr option"

definition item_wire :: "reaggregation_item \<Rightarrow> (pystr \<times> pystr) agg" where
  "item_wire x = (case (uit_uitu x, kitu x) of
     (Some u, None) \<Rightarrow> bind (agg_code u ''uit_uitu'') (\<lambda>v. Inr (''uit_uitu'', v))
   | (None, Some k) \<Rightarrow> bind (validate_aggregate_identifier k ''kitu'') (\<lambda>v. Inr (''kitu'', v))
   | _ \<Rightarrow> Inl (AggContract ''reaggregation item requires exactly one of uit_uitu or kitu''))"

definition reaggregation_wire ::
  "pystr \<Rightarrow> pystr \<Rightarrow> pystr \<Rightarrow> reaggregation_item list \<Rightarrow> wire agg" where
  "reaggregation_wire participant kind parent items =
     bind (agg_text kind ''reaggregation_type'' 16) (\<lambda>k.
       if k \<notin> {''ADDING'', ''REMOVING''}
       then Inl (AggContract ''reaggregation_type must be ADDING or REMOVING'')
       else if items = [] then Inl (AggContract ''uit_uitu_list must be non-empty'')
       else bind (collect item_wire items) (\<lambda>ws.
         if \<not> distinct (map snd ws) then Inl (AggContract ''uit_uitu_list must be unique'')
         else bind (agg_inn participant ''participant_inn'') (\<lambda>inn.
           bind (validate_aggregate_identifier parent ''uitu'') (\<lambda>p.
             Inr [(''participant_inn'', JStr inn), (''reaggregation_type'', JStr k), (''uitu'', JStr p),
                  (''uit_uitu_list'', JList (map (\<lambda>w. JObj [(fst w, JStr (snd w))]) ws))]))))"

definition disaggregation_wire :: "pystr \<Rightarrow> pystr list \<Rightarrow> wire agg" where
  "disaggregation_wire participant products =
     (if products = [] then Inl (AggContract ''products_list must be non-empty'')
      else bind (collect (\<lambda>v. validate_aggregate_identifier v ''products_list[].uitu'') products) (\<lambda>cs.
        if \<not> distinct cs then Inl (AggContract ''products_list[].uitu must be unique'')
        else bind (agg_inn participant ''participant_inn'') (\<lambda>inn.
          Inr [(''participant_inn'', JStr inn), (''products_list'', keyed_list ''uitu'' cs)])))"

definition atk_aggregation_wire :: "pystr \<Rightarrow> pystr list \<Rightarrow> wire agg" where
  "atk_aggregation_wire participant products =
     bind (unique_codes products ''products_list[].ki'') (\<lambda>cs.
     bind (agg_inn participant ''trade_participant_inn'') (\<lambda>inn.
       Inr [(''trade_participant_inn'', JStr inn), (''products_list'', keyed_list ''ki'' cs)]))"

definition atk_transformation_wire :: "pystr \<Rightarrow> pystr \<Rightarrow> pystr \<Rightarrow> pystr list \<Rightarrow> wire agg" where
  "atk_transformation_wire participant parent kind products =
     bind (agg_text kind ''transformation_type'' 16) (\<lambda>k.
       if k \<notin> {''ADDING'', ''REMOVING''}
       then Inl (AggContract ''transformation_type must be ADDING or REMOVING'')
       else bind (unique_codes products ''products_list[].ki'') (\<lambda>cs.
         bind (agg_inn participant ''trade_participant_inn'') (\<lambda>inn.
         bind (agg_code parent ''atk'') (\<lambda>a.
           Inr [(''trade_participant_inn'', JStr inn), (''atk'', JStr a),
                (''transformation_type'', JStr k), (''products_list'', keyed_list ''ki'' cs)]))))"

definition atk_disaggregation_wire :: "pystr \<Rightarrow> pystr list \<Rightarrow> wire agg" where
  "atk_disaggregation_wire participant products =
     bind (unique_codes products ''products_list[].atk'') (\<lambda>cs.
     bind (agg_inn participant ''trade_participant_inn'') (\<lambda>inn.
       Inr [(''trade_participant_inn'', JStr inn), (''products_list'', keyed_list ''atk'' cs)]))"

datatype m6_document =
    AggregationDocument pystr "aggregation_unit list"
  | SetsAggregationDocument pystr "set_unit list"
  | ReaggregationDocument pystr pystr pystr "reaggregation_item list"
  | DisaggregationDocument pystr "pystr list"
  | AtkAggregationDocument pystr "pystr list"
  | AtkTransformationDocument pystr pystr pystr "pystr list"
  | AtkDisaggregationDocument pystr "pystr list"

fun m6_wire :: "m6_document \<Rightarrow> wire agg" where
  "m6_wire (AggregationDocument p us) = aggregation_wire p us"
| "m6_wire (SetsAggregationDocument p us) = sets_wire p us"
| "m6_wire (ReaggregationDocument p k u items) = reaggregation_wire p k u items"
| "m6_wire (DisaggregationDocument p cs) = disaggregation_wire p cs"
| "m6_wire (AtkAggregationDocument p cs) = atk_aggregation_wire p cs"
| "m6_wire (AtkTransformationDocument p a k cs) = atk_transformation_wire p a k cs"
| "m6_wire (AtkDisaggregationDocument p cs) = atk_disaggregation_wire p cs"

fun m6_document_type :: "m6_document \<Rightarrow> pystr" where
  "m6_document_type (AggregationDocument _ _) = ''AGGREGATION_DOCUMENT''"
| "m6_document_type (SetsAggregationDocument _ _) = ''SETS_AGGREGATION''"
| "m6_document_type (ReaggregationDocument _ _ _ _) = ''REAGGREGATION_DOCUMENT''"
| "m6_document_type (DisaggregationDocument _ _) = ''DISAGGREGATION_DOCUMENT''"
| "m6_document_type (AtkAggregationDocument _ _) = ''ATK_AGGREGATION''"
| "m6_document_type (AtkTransformationDocument _ _ _ _) = ''ATK_TRANSFORMATION''"
| "m6_document_type (AtkDisaggregationDocument _ _) = ''ATK_DISAGGREGATION''"

section \<open>Preparation\<close>

text \<open>The document class an operation expects, none when it cannot be submitted.\<close>

definition expected_document_type :: "aggregation_kind \<Rightarrow> pystr option" where
  "expected_document_type k = (case k of
     FORM_TRANSPORT_PACKAGE \<Rightarrow> Some ''AGGREGATION_DOCUMENT''
   | FORM_MULTIPRODUCT_TRANSPORT_PACKAGE \<Rightarrow> Some ''AGGREGATION_DOCUMENT''
   | FORM_SET_GENERIC_COMPATIBILITY \<Rightarrow> Some ''AGGREGATION_DOCUMENT''
   | FORM_SET \<Rightarrow> Some ''SETS_AGGREGATION''
   | TRANSFORM_PACKAGE_ADD \<Rightarrow> Some ''REAGGREGATION_DOCUMENT''
   | TRANSFORM_PACKAGE_REMOVE \<Rightarrow> Some ''REAGGREGATION_DOCUMENT''
   | DISAGGREGATE_PACKAGE \<Rightarrow> Some ''DISAGGREGATION_DOCUMENT''
   | FORM_ATK \<Rightarrow> Some ''ATK_AGGREGATION''
   | TRANSFORM_ATK_ADD \<Rightarrow> Some ''ATK_TRANSFORMATION''
   | TRANSFORM_ATK_REMOVE \<Rightarrow> Some ''ATK_TRANSFORMATION''
   | DISAGGREGATE_ATK \<Rightarrow> Some ''ATK_DISAGGREGATION''
   | _ \<Rightarrow> None)"

record prepared_aggregation =
  prepared_kind :: aggregation_kind
  prepared_type :: pystr
  prepared_format :: pystr
  prepared_pg :: pystr
  prepared_document :: exact_document

definition wrong_unit_type :: "aggregation_kind \<Rightarrow> m6_document \<Rightarrow> bool" where
  "wrong_unit_type k v = (case v of
     AggregationDocument _ us \<Rightarrow>
       list_ex (\<lambda>u. unit_type u \<noteq>
         (if k = FORM_SET_GENERIC_COMPATIBILITY then US_PRODUCT_SET else US_BOX)) us
   | _ \<Rightarrow> False)"

definition wire_direction :: "wire \<Rightarrow> json" where
  "wire_direction w =
     (case map_of w ''reaggregation_type'' of Some v \<Rightarrow> v | None \<Rightarrow> get_key ''transformation_type'' w)"

definition check_direction :: "aggregation_kind list \<Rightarrow> pystr \<Rightarrow> pystr \<Rightarrow> aggregation_kind \<Rightarrow> m6_document
    \<Rightarrow> unit agg" where
  "check_direction kinds wanted message k v =
     (if k \<in> set kinds then bind (m6_wire v) (\<lambda>w.
        if wire_direction w \<noteq> JStr wanted then Inl (AggContract message) else Inr ())
      else Inr ())"

definition prepare_aggregation_document ::
  "aggregation_kind \<Rightarrow> m6_document \<Rightarrow> prepared_aggregation agg" where
  "prepare_aggregation_document k v =
     (case expected_document_type k of
        None \<Rightarrow> Inl (AggManual ''M6_OPERATION_NOT_SUBMITTABLE'')
      | Some t \<Rightarrow>
          if m6_document_type v \<noteq> t then Inl (AggContract ''operation/document DTO mismatch'')
          else if Some (m6_document_type v) \<noteq> fst (m6_registry k)
          then Inl (AggContract ''operation/document type mismatch'')
          else if wrong_unit_type k v
          then Inl (AggContract (aggregation_kind_value k @ '' requires unitSerialNumberType=''
            @ unit_serial_value (if k = FORM_SET_GENERIC_COMPATIBILITY then US_PRODUCT_SET else US_BOX)))
          else
            bind (check_direction [TRANSFORM_PACKAGE_ADD, TRANSFORM_ATK_ADD] ''ADDING''
                    ''ADD operation requires ADDING wire type'' k v) (\<lambda>_.
            bind (check_direction [TRANSFORM_PACKAGE_REMOVE, TRANSFORM_ATK_REMOVE] ''REMOVING''
                    ''REMOVE operation requires REMOVING wire type'' k v) (\<lambda>_.
            bind (m6_wire v) (\<lambda>w.
            bind (map_error (\<lambda>e. AggForeign (error_class e)) (from_json_value w)) (\<lambda>d.
              Inr \<lparr>prepared_kind = k, prepared_type = m6_document_type v,
                   prepared_format = ''MANUAL'', prepared_pg = ''lp'', prepared_document = d\<rparr>)))))"

definition prepare_aggregation_by_name ::
  "pystr \<Rightarrow> m6_document \<Rightarrow> prepared_aggregation agg" where
  "prepare_aggregation_by_name name v = (case aggregation_kind_of name of
     None \<Rightarrow> Inl (AggContract ''unsupported M6 operation'')
   | Some k \<Rightarrow> prepare_aggregation_document k v)"

section \<open>What the validators accept\<close>

lemma agg_text_Inr [simp]:
  "agg_text v name n = Inr t \<longleftrightarrow> t = v \<and> v \<noteq> [] \<and> strip v = v \<and> length v \<le> n"
  by (auto simp: agg_text_def)

lemma agg_inn_Inr:
  "agg_inn v name = Inr t \<longleftrightarrow>
     t = v \<and> strip v = v \<and> isdigit v \<and> (length v = 10 \<or> length v = 12)"
  by (auto simp: agg_inn_def bind_Inr_iff isdigit_def)

lemma agg_code_Inr:
  "agg_code v name = Inr t \<longleftrightarrow>
     t = v \<and> 18 \<le> length v \<and> length v \<le> 74 \<and> \<not> has_space v"
proof -
  have "strip v = v" if "\<not> has_space v"
    using that by (cases "v = []") (auto simp: has_space_def strip_id_iff list_ex_iff)
  then show ?thesis by (auto simp: agg_code_def bind_Inr_iff)
qed

lemma identifier_char_not_space: "aggregate_identifier_char c \<Longrightarrow> \<not> space_char c"
  by (auto simp: aggregate_identifier_char_def space_char_def digit_char_def upper_char_def
      lower_char_def code_def)

lemma aggregate_identifier_Inr:
  "validate_aggregate_identifier v name = Inr t \<longleftrightarrow>
     t = v \<and> 18 \<le> length v \<and> length v \<le> 74 \<and> list_all aggregate_identifier_char v"
proof -
  have "strip v = v" if "list_all aggregate_identifier_char v"
    using that identifier_char_not_space
    by (cases "v = []") (auto simp: strip_id_iff list_all_iff)
  then show ?thesis
    by (auto simp: validate_aggregate_identifier_def bind_Inr_iff list_all_iff list_ex_iff)
qed

text \<open>An identifier is a code: what the stricter validator accepts, the other accepts too.\<close>

lemma identifier_is_code: "validate_aggregate_identifier v name = Inr t \<Longrightarrow> agg_code v n = Inr t"
  using identifier_char_not_space
  by (auto simp: aggregate_identifier_Inr agg_code_Inr has_space_def list_all_iff list_ex_iff)

lemma collect_same:
  assumes "\<And>v t. f v = Inr t \<Longrightarrow> t = v"
  shows "collect f vs = Inr ws \<longleftrightarrow> ws = vs \<and> (\<forall>v\<in>set vs. f v = Inr v)"
proof (induction vs arbitrary: ws)
  case (Cons v vs)
  then show ?case using assms by (auto simp: bind_Inr_iff)
qed auto

lemma unique_codes_Inr:
  "unique_codes vs name = Inr ws \<longleftrightarrow>
     ws = vs \<and> vs \<noteq> [] \<and> distinct vs \<and> (\<forall>v\<in>set vs. agg_code v name = Inr v)"
  using collect_same [of "\<lambda>v. agg_code v name" vs] by (auto simp: unique_codes_def bind_Inr_iff agg_code_Inr)

lemma check_children_Inr:
  "check_children vs = Inr ws \<longleftrightarrow>
     ws = vs \<and> vs \<noteq> [] \<and> distinct vs \<and> (\<forall>v\<in>set vs. agg_code v ''sntins[]'' = Inr v)"
  using collect_same [of "\<lambda>v. agg_code v ''sntins[]''" vs] by (auto simp: check_children_def bind_Inr_iff agg_code_Inr)

text \<open>Every wire form is a JSON object without floats, so freezing it succeeds.\<close>

lemma float_free_lists [simp]:
  "float_free (str_list vs)" "float_free (keyed_list k vs)"
  by (simp_all add: str_list_def keyed_list_def)

lemma unit_wire_float_free: "unit_wire u = Inr w \<Longrightarrow> float_free (JObj w)"
  by (auto simp: unit_wire_def bind_Inr_iff split: if_splits)

lemma set_unit_wire_float_free: "set_unit_wire u = Inr w \<Longrightarrow> float_free (JObj w)"
  by (auto simp: set_unit_wire_def bind_Inr_iff)

lemma collect_all:
  "collect f xs = Inr ys \<Longrightarrow> (\<And>x y. f x = Inr y \<Longrightarrow> P y) \<Longrightarrow> y \<in> set ys \<Longrightarrow> P y"
  by (induction xs arbitrary: ys) (auto simp: bind_Inr_iff)

lemma m6_wire_float_free:
  assumes "m6_wire v = Inr w" shows "float_free (JObj w)"
proof (cases v)
  case (AggregationDocument p us)
  with assms obtain ws where ws: "collect unit_wire us = Inr ws"
    and w: "map_of w ''aggregationUnits'' = Some (JList (map JObj ws))" "set (map snd w) \<subseteq> {JStr p, JList (map JObj ws)}"
    by (auto simp: aggregation_wire_def bind_Inr_iff agg_inn_Inr split: if_splits)
  have "\<forall>x\<in>set ws. float_free (JObj x)"
    using collect_all [OF ws, of "\<lambda>x. float_free (JObj x)"] unit_wire_float_free by blast
  with w(2) show ?thesis by (fastforce simp del: float_free.simps(2) simp: float_free.simps)
next
  case (SetsAggregationDocument p us)
  with assms obtain ws where ws: "collect set_unit_wire us = Inr ws"
    and w: "set (map snd w) \<subseteq> {JStr p, JList (map JObj ws)}"
    by (auto simp: sets_wire_def bind_Inr_iff agg_inn_Inr split: if_splits)
  have "\<forall>x\<in>set ws. float_free (JObj x)"
    using collect_all [OF ws, of "\<lambda>x. float_free (JObj x)"] set_unit_wire_float_free by blast
  with w show ?thesis by fastforce
qed (use assms in \<open>auto simp: reaggregation_wire_def disaggregation_wire_def atk_aggregation_wire_def
  atk_transformation_wire_def atk_disaggregation_wire_def bind_Inr_iff split: if_splits\<close>)

section \<open>Properties\<close>

lemma freeze_wire:
  assumes "m6_wire v = Inr w"
  shows "\<exists>d. from_json_value w = Inr d \<and> exact d \<and> payload d = utf8 (canonical_json (JObj w))"
  using freeze_object [OF m6_wire_float_free [OF assms]] .

text \<open>Preparing an aggregation document succeeds exactly for the document class of the operation,
  the right unit type, a valid wire form and the direction the operation names.\<close>

theorem prepare_aggregation_iff:
  "(\<exists>p. prepare_aggregation_document k v = Inr p) \<longleftrightarrow>
     expected_document_type k = Some (m6_document_type v) \<and> \<not> wrong_unit_type k v
     \<and> (\<exists>w. m6_wire v = Inr w
          \<and> (wire_direction w = JStr ''ADDING'' \<or> k \<notin> {TRANSFORM_PACKAGE_ADD, TRANSFORM_ATK_ADD})
          \<and> (wire_direction w = JStr ''REMOVING'' \<or> k \<notin> {TRANSFORM_PACKAGE_REMOVE, TRANSFORM_ATK_REMOVE}))"
proof -
  have registry: "fst (m6_registry k) = expected_document_type k"
    by (cases k) (simp_all add: m6_registry_def expected_document_type_def)
  show ?thesis
    using freeze_wire [of v]
    by (auto simp: prepare_aggregation_document_def registry bind_Inr_iff check_direction_def
        split: option.splits if_splits)
qed

text \<open>A prepared aggregation document freezes the canonical bytes of its wire form.\<close>

theorem prepared_aggregation_is_exact:
  assumes "prepare_aggregation_document k v = Inr p"
  shows "prepared_kind p = k \<and> Some (prepared_type p) = fst (m6_registry k)
    \<and> exact (prepared_document p)
    \<and> (\<exists>w. m6_wire v = Inr w \<and> payload (prepared_document p) = utf8 (canonical_json (JObj w)))"
  using assms freeze_wire [of v]
  by (auto simp: prepare_aggregation_document_def bind_Inr_iff split: option.splits if_splits)

definition demo_atk :: m6_document where
  "demo_atk = AtkAggregationDocument ''7707083893'' [''010460043993125621'']"

lemma demo_atk_wire: "m6_wire demo_atk = Inr
    [(''trade_participant_inn'', JStr ''7707083893''),
     (''products_list'', keyed_list ''ki'' [''010460043993125621''])]"
  by code_simp

lemma prepare_aggregation_iff_witness:
  "(\<exists>p. prepare_aggregation_document FORM_ATK demo_atk = Inr p)"
  unfolding prepare_aggregation_iff using demo_atk_wire
  by (simp add: expected_document_type_def demo_atk_def wrong_unit_type_def)

lemma prepared_aggregation_is_exact_witness:
  "\<exists>p. prepare_aggregation_document FORM_ATK demo_atk = Inr p \<and> exact (prepared_document p)"
proof -
  have "\<exists>p. prepare_aggregation_document FORM_ATK demo_atk = Inr p"
    using demo_atk_wire freeze_wire [OF demo_atk_wire]
    by (auto simp: prepare_aggregation_document_def expected_document_type_def m6_registry_def
        demo_atk_def wrong_unit_type_def check_direction_def)
  then obtain p where "prepare_aggregation_document FORM_ATK demo_atk = Inr p" ..
  with prepared_aggregation_is_exact [OF this] show ?thesis by blast
qed

end
