(* ===== verification/AggregationChecks.thy ===== *)
theory AggregationChecks
  imports AggregationModel
begin

text \<open>
  The preconditions of \<open>wbcz/aggregation.py\<close>: what the fresh snapshots of codes must satisfy
  before a document is prepared. Every check is a loop or a chain of guards that raises at the
  first violation; the lemmas give the conjunction that a successful check amounts to.
\<close>

section \<open>Snapshots\<close>

record snapshot =
  cis :: pystr
  package_type :: "package_type option"
  product_group :: "pystr option"
  status_raw :: "pystr option"
  status_ex_raw :: "pystr option"
  owner_inn :: "pystr option"
  emission_type :: "pystr option"
  parent :: "pystr option"
  direct_children :: "pystr list"
  gtin :: "pystr option"
  tnved :: "pystr option"
  fetched_at :: "py_datetime option"
  nested_tnveds :: "pystr list"

text \<open>A guard: raise \<open>e\<close> when the condition holds.\<close>

definition refuse :: "bool \<Rightarrow> agg_error \<Rightarrow> unit agg" where
  "refuse b e = (if b then Inl e else Inr ())"

fun guards :: "(bool \<times> agg_error) list \<Rightarrow> unit agg" where
  "guards [] = Inr ()"
| "guards ((b, e) # gs) = (if b then Inl e else guards gs)"

lemma ok_refuse [simp]: "ok (refuse b e) \<longleftrightarrow> \<not> b"
  by (simp add: refuse_def)

lemma ok_guards: "ok (guards gs) \<longleftrightarrow> (\<forall>g\<in>set gs. \<not> fst g)"
  by (induction gs rule: guards.induct) auto

abbreviation manual :: "pystr \<Rightarrow> agg_error" where "manual \<equiv> AggManual"

abbreviation contract :: "pystr \<Rightarrow> agg_error" where "contract \<equiv> AggContract"

section \<open>Freshness and ownership\<close>

text \<open>Times in microseconds: a minute of clock skew forward, \<open>max_age\<close> backward.\<close>

definition check_fresh :: "int \<Rightarrow> int \<Rightarrow> snapshot \<Rightarrow> unit agg" where
  "check_fresh current max_age s =
     bind (agg_code (cis s) ''cis'') (\<lambda>_.
       case fetched_at s of
         Some (Aware ts) \<Rightarrow>
           refuse (current + 60000000 < ts \<or> max_age < current - ts)
             (manual ''STALE_AGGREGATION_SNAPSHOT'')
       | _ \<Rightarrow> Inl (manual ''FRESH_M1_M2_SNAPSHOT_REQUIRED''))"

definition require_fresh :: "int \<Rightarrow> int \<Rightarrow> snapshot list \<Rightarrow> unit agg" where
  "require_fresh current max_age ss =
     (if ss = [] then Inl (manual ''FRESH_M1_M2_SNAPSHOT_REQUIRED'')
      else each (check_fresh current max_age) ss)"

definition require_owner :: "pystr \<Rightarrow> snapshot list \<Rightarrow> unit agg" where
  "require_owner inn ss =
     each (\<lambda>s. refuse (owner_inn s \<noteq> Some inn) (manual ''LEGACY_NON_OWNER_FLOW_NOT_ENABLED'')) ss"

section \<open>Sets\<close>

record set_composition =
  gtin_quantities :: "(pystr \<times> int) list option"
  marked_quantity :: "int option"
  published :: bool

text \<open>The values the codes have in a column, each once; \<open>len({...}) == 1\<close> is \<open>one_value\<close>.\<close>

definition column :: "(snapshot \<Rightarrow> 'a) \<Rightarrow> snapshot list \<Rightarrow> 'a list" where
  "column f ss = remdups (map f ss)"

definition one_value :: "(snapshot \<Rightarrow> 'a) \<Rightarrow> snapshot list \<Rightarrow> bool" where
  "one_value f ss \<longleftrightarrow> length (column f ss) = 1"

definition check_set_child :: "pystr \<Rightarrow> snapshot \<Rightarrow> unit agg" where
  "check_set_child owner c = guards
     [(package_type c \<notin> {Some PK_UNIT, Some PK_BUNDLE}, contract ''KIN accepts only UNIT/BUNDLE''),
      (product_group c \<noteq> Some ''lp'', manual ''KIN_CHILD_PRODUCT_GROUP_MUST_BE_LP''),
      (owner_inn c \<noteq> Some owner, manual ''LEGACY_NON_OWNER_FLOW_NOT_ENABLED''),
      (truthy (parent c), manual ''KIN_CHILD_ALREADY_AGGREGATED'')]"

definition set_emissions :: "snapshot \<Rightarrow> snapshot list \<Rightarrow> unit agg" where
  "set_emissions p cs =
     (if status_raw (hd cs) = Some ''APPLIED'' then guards
        [(\<not> one_value emission_type cs \<or> emission_type p \<notin> set (column emission_type cs),
            manual ''KIN_APPLIED_EMISSION_MISMATCH''),
         (emission_type p \<in> {Some ''REMARK'', Some ''REAPPLY''}
            \<or> list_ex (\<lambda>c. emission_type c \<in> {Some ''REMARK'', Some ''REAPPLY''}) cs,
            manual ''KIN_APPLIED_REMARK_REAPPLY_FORBIDDEN'')]
      else guards
        [(emission_type p \<notin> {Some ''LOCAL'', Some ''REMAINS''},
            manual ''KIN_INTRODUCED_PARENT_EMISSION_NOT_SUPPORTED''),
         (emission_type p = Some ''REMAINS'' \<and> list_ex (\<lambda>c. emission_type c \<noteq> Some ''REMAINS'') cs,
            manual ''KIN_REMAINS_CHILD_EMISSION_MISMATCH'')])"

text \<open>The counts of the children's numbers against the required ones, as dictionaries.\<close>

definition same_counts :: "snapshot list \<Rightarrow> (pystr \<times> int) list \<Rightarrow> bool" where
  "same_counts cs qs \<longleftrightarrow>
     list_all (\<lambda>c. map_of qs (the (gtin c))
        = Some (int (count_list (map (\<lambda>c. the (gtin c)) cs) (the (gtin c))))) cs
     \<and> list_all (\<lambda>q. fst q \<in> set (map (\<lambda>c. the (gtin c)) cs)) qs"

definition set_composition_check :: "set_composition \<Rightarrow> snapshot list \<Rightarrow> unit agg" where
  "set_composition_check compo cs =
     (case (gtin_quantities compo, marked_quantity compo) of
        (Some (q # qs), _) \<Rightarrow>
          bind (each (\<lambda>c. refuse (\<not> truthy (gtin c)) (manual ''KIN_GTIN_REQUIRED_BY_NKMT'')) cs) (\<lambda>_.
            refuse (\<not> same_counts cs (q # qs)) (manual ''KIN_NKMT_COMPOSITION_MISMATCH''))
      | (_, Some n) \<Rightarrow>
          refuse (int (length cs) \<noteq> n) (manual ''KIN_MARKED_PRODUCTS_QUANTITY_MISMATCH'')
      | _ \<Rightarrow> Inl (manual ''KIN_COMPOSITION_REFERENCE_REQUIRED''))"

definition validate_set_preconditions ::
  "snapshot \<Rightarrow> snapshot list \<Rightarrow> set_composition \<Rightarrow> pystr \<Rightarrow> unit agg" where
  "validate_set_preconditions p cs compo inn =
     bind (agg_inn inn ''participant_inn'') (\<lambda>owner.
     bind (guards
       [(package_type p \<noteq> Some PK_SET, contract ''FORM_SET requires SET parent''),
        (product_group p \<noteq> Some ''lp'', manual ''KIN_PARENT_PRODUCT_GROUP_MUST_BE_LP''),
        (owner_inn p \<noteq> Some owner, manual ''LEGACY_NON_OWNER_FLOW_NOT_ENABLED''),
        (truthy (status_ex_raw p), manual ''KIN_PARENT_SPECIAL_STATE_NOT_ALLOWED''),
        (\<not> published compo, manual ''SET_PRODUCT_CARD_NOT_PUBLISHED''),
        (cs = [], contract ''set children required'')]) (\<lambda>_.
     bind (each (check_set_child owner) cs) (\<lambda>_.
     bind (guards
       [(\<not> one_value status_raw cs \<or> status_raw (hd cs) \<notin> {Some ''APPLIED'', Some ''INTRODUCED''},
           manual ''KIN_CHILD_STATUS_NOT_SUPPORTED''),
        (list_ex (\<lambda>c. truthy (status_ex_raw c) \<and> status_ex_raw c \<noteq> Some ''WAIT_TRANSFER_TO_OWNER'') cs,
           manual ''KIN_CHILD_STATUS_EX_NOT_SUPPORTED''),
        (status_raw p \<noteq> Some ''APPLIED'', manual ''KIN_PARENT_MUST_BE_APPLIED'')]) (\<lambda>_.
     bind (set_emissions p cs) (\<lambda>_. set_composition_check compo cs)))))"

section \<open>Boxes\<close>

definition quiet_or_waiting :: "pystr option \<Rightarrow> bool" where
  "quiet_or_waiting v \<longleftrightarrow> \<not> truthy v \<or> v = Some ''WAIT_TRANSFER_TO_OWNER''"

definition confirmed_status :: "pystr list \<Rightarrow> pystr option \<Rightarrow> bool" where
  "confirmed_status formed v \<longleftrightarrow> v = Some ''INTRODUCED'' \<or> (\<exists>s\<in>set formed. v = Some s)"

definition box_statuses :: "bool \<Rightarrow> pystr list \<Rightarrow> snapshot list \<Rightarrow> unit agg" where
  "box_statuses mixed formed cs =
     (if mixed then each (\<lambda>c. guards
        [(\<not> confirmed_status formed (status_raw c), manual ''MULTIPRODUCT_KITU_CHILD_STATUS_NOT_CONFIRMED''),
         (\<not> quiet_or_waiting (status_ex_raw c), manual ''MULTIPRODUCT_KITU_CHILD_STATUS_EX_NOT_SUPPORTED'')]) cs
      else guards
        [(\<not> one_value status_raw cs, manual ''KITU_CHILD_STATUSES_MUST_MATCH''),
         (status_raw (hd cs) \<notin> {Some ''APPLIED'', Some ''INTRODUCED''}, manual ''KITU_CHILD_STATUS_NOT_SUPPORTED''),
         (list_ex (\<lambda>c. \<not> quiet_or_waiting (status_ex_raw c)) cs, manual ''KITU_CHILD_STATUS_EX_NOT_SUPPORTED'')])"

definition check_relation :: "package_type \<Rightarrow> bool \<Rightarrow> snapshot \<Rightarrow> unit agg" where
  "check_relation p mixed c = (case package_type c of
     None \<Rightarrow> Inl (manual ''UNKNOWN_RAW_PACKAGE_TYPE'')
   | Some t \<Rightarrow> validate_lp_relation p t (or_else (product_group c) ''lp'') mixed)"

definition check_box_child :: "pystr \<Rightarrow> bool \<Rightarrow> snapshot \<Rightarrow> unit agg" where
  "check_box_child owner mixed c =
     bind (guards
       [(owner_inn c \<noteq> Some owner, manual ''LEGACY_NON_OWNER_FLOW_NOT_ENABLED''),
        (truthy (parent c), manual ''CHILD_ALREADY_AGGREGATED''),
        (package_type c = None, manual ''UNKNOWN_RAW_PACKAGE_TYPE''),
        (mixed \<and> \<not> truthy (product_group c), manual ''KITU_CHILD_PRODUCT_GROUP_REQUIRED'')]) (\<lambda>_.
     check_relation PK_BOX mixed c)"

definition validate_box_preconditions ::
  "snapshot option \<Rightarrow> snapshot list \<Rightarrow> pystr \<Rightarrow> pystr \<Rightarrow> bool \<Rightarrow> pystr list \<Rightarrow> unit agg" where
  "validate_box_preconditions p cs inn leading_pg mixed formed =
     bind (agg_inn inn ''participant_inn'') (\<lambda>owner.
     bind (guards
       [(p \<noteq> None, manual ''KITU_PARENT_IDENTIFIER_ALREADY_PRESENT_IN_CRPT''),
        (cs = [], contract ''KITU children required'')]) (\<lambda>_.
     bind (box_statuses mixed formed cs) (\<lambda>_.
     bind (each (check_box_child owner mixed) cs) (\<lambda>_.
     guards
       [(\<not> mixed \<and> status_raw (hd cs) = Some ''APPLIED'' \<and> \<not> one_value emission_type cs,
           manual ''KITU_APPLIED_EMISSION_MISMATCH''),
        (mixed \<and> \<not> list_ex (\<lambda>c. product_group c = Some leading_pg) cs,
           manual ''KITU_LEADING_PG_CHILD_REQUIRED'')]))))"

section \<open>Changing a package\<close>

definition reaggregation_parent :: "snapshot \<Rightarrow> bool \<Rightarrow> pystr list \<Rightarrow> unit agg" where
  "reaggregation_parent p mixed formed =
     (if mixed then guards
        [(package_type p \<noteq> Some PK_BOX, manual ''MULTIPRODUCT_REAGGREGATION_REQUIRES_BOX_PARENT''),
         (\<not> list_ex (\<lambda>s. status_raw p = Some s) formed,
            manual ''MULTIPRODUCT_KITU_PARENT_STATUS_RUNTIME_CONFIRMATION_REQUIRED''),
         (truthy (status_ex_raw p), manual ''MULTIPRODUCT_KITU_PARENT_STATUS_EX_NOT_SUPPORTED'')]
      else guards
        [(status_raw p \<notin> {Some ''APPLIED'', Some ''INTRODUCED''},
            manual ''REAGGREGATION_PARENT_STATUS_NOT_SUPPORTED''),
         (truthy (status_ex_raw p), manual ''REAGGREGATION_PARENT_STATUS_EX_NOT_SUPPORTED'')])"

definition reaggregation_child :: "snapshot \<Rightarrow> pystr \<Rightarrow> pystr \<Rightarrow> pystr list \<Rightarrow> bool \<Rightarrow> pystr list
    \<Rightarrow> snapshot \<Rightarrow> unit agg" where
  "reaggregation_child p kind owner nested mixed formed c =
     bind (refuse (owner_inn c \<noteq> Some owner) (manual ''LEGACY_NON_OWNER_FLOW_NOT_ENABLED'')) (\<lambda>_.
     bind (if mixed then guards
         [(\<not> confirmed_status formed (status_raw c), manual ''MULTIPRODUCT_KITU_CHILD_STATUS_NOT_CONFIRMED''),
          (\<not> quiet_or_waiting (status_ex_raw c), manual ''MULTIPRODUCT_KITU_CHILD_STATUS_EX_NOT_SUPPORTED''),
          (\<not> truthy (product_group c), manual ''KITU_CHILD_PRODUCT_GROUP_REQUIRED'')]
       else guards
         [(status_raw c \<noteq> status_raw p, manual ''REAGGREGATION_STATUS_MISMATCH''),
          (truthy (status_ex_raw c) \<and>
             \<not> (cis c \<in> set nested \<and> status_ex_raw c = Some ''WAIT_TRANSFER_TO_OWNER''),
             manual ''REAGGREGATION_STATUS_EX_NOT_SUPPORTED''),
          (status_raw p = Some ''APPLIED'' \<and> emission_type c \<in> {Some ''REMARK'', Some ''REAPPLY''},
             manual ''REAGGREGATION_APPLIED_REMARK_REAPPLY_FORBIDDEN'')]) (\<lambda>_.
     bind (refuse (cis c \<in> set nested \<and> (package_type c \<noteq> Some PK_BOX \<or> package_type p \<noteq> Some PK_BOX))
       (contract ''kitu item is only valid for BOX inside BOX'')) (\<lambda>_.
     bind (check_relation (the (package_type p)) mixed c) (\<lambda>_.
     guards
       [(kind = ''ADDING'' \<and> truthy (parent c), manual ''ADDING_CHILD_ALREADY_AGGREGATED''),
        (kind = ''REMOVING'' \<and> parent c \<noteq> Some (cis p), manual ''REMOVING_CHILD_NOT_IN_PARENT'')]))))"

text \<open>The loop over the children remembers the codes it has seen.\<close>

fun reaggregation_children :: "(snapshot \<Rightarrow> unit agg) \<Rightarrow> pystr list \<Rightarrow> snapshot list \<Rightarrow> unit agg" where
  "reaggregation_children f seen [] = Inr ()"
| "reaggregation_children f seen (c # cs) =
     (if cis c \<in> set seen then Inl (contract ''reaggregation children must be unique'')
      else bind (f c) (\<lambda>_. reaggregation_children f (cis c # seen) cs))"

definition check_remaining :: "pystr \<Rightarrow> pystr list \<Rightarrow> snapshot \<Rightarrow> unit agg" where
  "check_remaining owner formed c = guards
     [(owner_inn c \<noteq> Some owner, manual ''LEGACY_NON_OWNER_FLOW_NOT_ENABLED''),
      (\<not> confirmed_status formed (status_raw c), manual ''MULTIPRODUCT_KITU_REMAINING_CHILD_STATUS_NOT_CONFIRMED''),
      (\<not> quiet_or_waiting (status_ex_raw c), manual ''MULTIPRODUCT_KITU_REMAINING_STATUS_EX_NOT_SUPPORTED''),
      (\<not> truthy (product_group c), manual ''KITU_CHILD_PRODUCT_GROUP_REQUIRED'')]"

definition validate_reaggregation_preconditions ::
  "snapshot \<Rightarrow> snapshot list \<Rightarrow> pystr \<Rightarrow> pystr \<Rightarrow> pystr list \<Rightarrow> snapshot list \<Rightarrow> pystr \<Rightarrow> bool
    \<Rightarrow> pystr list \<Rightarrow> unit agg" where
  "validate_reaggregation_preconditions p cs kind inn nested remaining leading_pg mixed formed =
     bind (agg_inn inn ''participant_inn'') (\<lambda>owner.
     bind (guards
       [(package_type p \<notin> {Some PK_BOX, Some PK_SET}, manual ''REAGGREGATION_PARENT_NOT_SUPPORTED_FOR_LP''),
        (owner_inn p \<noteq> Some owner, manual ''LEGACY_NON_OWNER_FLOW_NOT_ENABLED''),
        (kind \<notin> {''ADDING'', ''REMOVING''}, contract ''reaggregation_type must be ADDING or REMOVING''),
        (cs = [], contract ''reaggregation children required'')]) (\<lambda>_.
     bind (reaggregation_parent p mixed formed) (\<lambda>_.
     bind (reaggregation_children (reaggregation_child p kind owner nested mixed formed) [] cs) (\<lambda>_.
     bind (refuse (package_type p = Some PK_SET
           \<and> list_ex (\<lambda>c. package_type c \<notin> {Some PK_UNIT, Some PK_BUNDLE}) cs)
         (contract ''SET transformation permits only UNIT/BUNDLE'')) (\<lambda>_.
     if package_type p = Some PK_BOX \<and> mixed \<and> remaining \<noteq> [] then
       bind (each (check_remaining owner formed) remaining) (\<lambda>_.
         refuse (\<not> list_ex (\<lambda>c. product_group c = Some leading_pg) remaining)
           (manual ''KITU_LEADING_PG_CHILD_REQUIRED_AFTER_REMOVAL''))
     else Inr ())))))"

section \<open>Disaggregation\<close>

definition disaggregation_parent :: "pystr \<Rightarrow> pystr list \<Rightarrow> snapshot \<Rightarrow> unit agg" where
  "disaggregation_parent owner formed p = guards
     [(package_type p = Some PK_GROUP, manual ''GROUP_PARENT_NOT_EXPOSED_FOR_LP''),
      (package_type p \<notin> {Some PK_BOX, Some PK_SET},
         contract ''DISAGGREGATION_DOCUMENT supports BOX/SET for lp''),
      (owner_inn p \<noteq> Some owner, manual ''LEGACY_NON_OWNER_FLOW_NOT_ENABLED''),
      (status_raw p \<notin> {Some ''APPLIED'', Some ''INTRODUCED''} \<and> \<not> list_ex (\<lambda>s. status_raw p = Some s) formed,
         manual ''DISAGGREGATION_PARENT_STATUS_NOT_CONFIRMED''),
      (\<not> quiet_or_waiting (status_ex_raw p), manual ''DISAGGREGATION_STATUS_EX_NOT_SUPPORTED''),
      (package_type p = Some PK_SET \<and> status_raw p = Some ''APPLIED'' \<and> truthy (status_ex_raw p),
         manual ''APPLIED_SET_SPECIAL_STATE_FORBIDDEN'')]"

definition validate_disaggregation_preconditions ::
  "snapshot list \<Rightarrow> pystr \<Rightarrow> pystr list \<Rightarrow> unit agg" where
  "validate_disaggregation_preconditions ps inn formed =
     bind (agg_inn inn ''participant_inn'') (\<lambda>owner.
     bind (refuse (ps = []) (contract ''disaggregation parents required'')) (\<lambda>_.
       each (disaggregation_parent owner formed) ps))"

section \<open>Packages of an importer\<close>

definition tnved_short :: "pystr option \<Rightarrow> bool" where
  "tnved_short v \<longleftrightarrow> (case v of None \<Rightarrow> True | Some s \<Rightarrow> length s < 4)"

definition atk_child :: "pystr \<Rightarrow> bool \<Rightarrow> snapshot \<Rightarrow> unit agg" where
  "atk_child owner allow_fts c =
     bind (guards
       [(owner_inn c \<noteq> Some owner, manual ''ATK_OWNER_REQUIRED''),
        (status_raw c \<noteq> Some ''APPLIED'' \<or> emission_type c \<noteq> Some ''FOREIGN'',
           manual ''ATK_CHILD_MUST_BE_APPLIED_FOREIGN''),
        (truthy (status_ex_raw c) \<and> status_ex_raw c \<noteq> Some ''FTS_RESPOND_NOT_OK''
           \<and> \<not> (allow_fts \<and> status_ex_raw c = Some ''FTS_CONTROL''), manual ''ATK_STATUS_EX_NOT_ALLOWED'')]) (\<lambda>_.
     bind (check_relation PK_ATK False c) (\<lambda>_.
     guards
       [(package_type c \<in> {Some PK_SET, Some PK_BOX, Some PK_GROUP} \<and> direct_children c = [],
           manual ''ATK_AGGREGATE_CHILD_MUST_BE_NONEMPTY''),
        (tnved_short (tnved c), manual ''ATK_TNVED_REQUIRED''),
        (package_type c = Some PK_SET \<and> nested_tnveds c = [],
           manual ''ATK_KIN_NESTED_TNVED_EVIDENCE_REQUIRED''),
        (package_type c = Some PK_SET \<and> list_ex (\<lambda>v. Some v \<noteq> tnved c) (nested_tnveds c),
           manual ''ATK_KIN_NESTED_TNVED_MISMATCH'')]))"

definition tnved4 :: "snapshot \<Rightarrow> pystr" where
  "tnved4 c = take 4 (the (tnved c))"

definition validate_atk_preconditions ::
  "pystr \<Rightarrow> pystr \<Rightarrow> snapshot list \<Rightarrow> bool \<Rightarrow> unit agg" where
  "validate_atk_preconditions role inn cs allow_fts =
     (if role \<noteq> ''IMPORTER'' then Inl (manual ''ATK_IMPORTER_ROLE_REQUIRED'')
      else bind (agg_inn inn ''participant_inn'') (\<lambda>owner.
        bind (guards
          [(cs = [], contract ''ATK children required''),
           (\<not> one_value product_group cs \<or> \<not> truthy (product_group (hd cs)),
              manual ''ATK_SINGLE_PRODUCT_GROUP_REQUIRED'')]) (\<lambda>_.
        bind (each (\<lambda>c. bind (atk_child owner allow_fts c) (\<lambda>_.
            refuse (truthy (parent c)) (manual ''ATK_CHILD_ALREADY_AGGREGATED''))) cs) (\<lambda>_.
        refuse (\<not> one_value tnved4 cs) (manual ''ATK_TNVED_FIRST4_MUST_MATCH'')))))"

definition validate_atk_transformation_preconditions ::
  "pystr \<Rightarrow> pystr \<Rightarrow> snapshot \<Rightarrow> snapshot list \<Rightarrow> pystr \<Rightarrow> unit agg" where
  "validate_atk_transformation_preconditions role inn p cs kind =
     (if role \<noteq> ''IMPORTER'' then Inl (manual ''ATK_IMPORTER_ROLE_REQUIRED'')
      else bind (agg_inn inn ''participant_inn'') (\<lambda>owner.
        bind (guards
          [(package_type p \<noteq> Some PK_ATK \<or> owner_inn p \<noteq> Some owner \<or> status_raw p \<noteq> Some ''APPLIED'',
              manual ''ATK_PARENT_PRECONDITION_FAILED''),
           (emission_type p \<noteq> Some ''FOREIGN'' \<or> \<not> truthy (product_group p) \<or> tnved_short (tnved p),
              manual ''ATK_PARENT_FOREIGN_PG_TNVED_REQUIRED''),
           (truthy (status_ex_raw p) \<and> status_ex_raw p \<noteq> Some ''FTS_RESPOND_NOT_OK'',
              manual ''ATK_PARENT_STATUS_EX_NOT_ALLOWED''),
           (kind \<notin> {''ADDING'', ''REMOVING''}, contract ''transformation_type must be ADDING or REMOVING''),
           (cs = [], contract ''ATK transformation children required'')]) (\<lambda>_.
        bind (each (\<lambda>c. bind (atk_child owner False c) (\<lambda>_. guards
            [(kind = ''ADDING'' \<and> truthy (parent c), manual ''ATK_ADD_CHILD_ALREADY_AGGREGATED''),
             (kind = ''REMOVING'' \<and> parent c \<noteq> Some (cis p), manual ''ATK_REMOVE_CHILD_NOT_IN_PARENT'')])) cs) (\<lambda>_.
        guards
          [(\<not> one_value product_group cs \<or> \<not> truthy (product_group (hd cs)) \<or> \<not> one_value tnved4 cs,
              manual ''ATK_SINGLE_PG_TNVED_REQUIRED''),
           (product_group (hd cs) \<noteq> product_group p \<or> tnved4 (hd cs) \<noteq> tnved4 p,
              manual ''ATK_CHILDREN_MUST_MATCH_PARENT_PG_TNVED'')]))))"

definition validate_atk_disaggregation_preconditions ::
  "pystr \<Rightarrow> pystr \<Rightarrow> snapshot list \<Rightarrow> unit agg" where
  "validate_atk_disaggregation_preconditions role inn ps =
     (if role \<noteq> ''IMPORTER'' then Inl (manual ''ATK_IMPORTER_ROLE_REQUIRED'')
      else bind (agg_inn inn ''participant_inn'') (\<lambda>owner.
        bind (refuse (ps = []) (contract ''ATK parents required'')) (\<lambda>_.
        bind (each (\<lambda>p. guards
          [(package_type p \<noteq> Some PK_ATK \<or> owner_inn p \<noteq> Some owner \<or> status_raw p \<noteq> Some ''APPLIED'',
              manual ''ATK_PARENT_PRECONDITION_FAILED''),
           (truthy (status_ex_raw p) \<and> status_ex_raw p \<notin> {Some ''FTS_RESPOND_NOT_OK'', Some ''FTS_CONTROL''},
              manual ''ATK_DISAGGREGATION_STATUS_EX_NOT_ALLOWED''),
           (\<not> truthy (product_group p), manual ''ATK_DISAGGREGATION_PRODUCT_GROUP_REQUIRED'')]) ps) (\<lambda>_.
        refuse (\<not> one_value product_group ps) (manual ''ATK_DISAGGREGATION_SINGLE_PG_REQUIRED'')))))"

section \<open>What a successful check says\<close>

lemma ok_agg_inn [simp]:
  "ok (agg_inn v name) \<longleftrightarrow> strip v = v \<and> isdigit v \<and> (length v = 10 \<or> length v = 12)"
  by (auto simp: ok_iff agg_inn_Inr)

lemma ok_bind_inn:
  "ok (bind (agg_inn v name) f) \<longleftrightarrow> ok (agg_inn v name) \<and> ok (f v)"
proof (cases "agg_inn v name")
  case (Inr t)
  then have "t = v" using agg_inn_Inr by blast
  with Inr show ?thesis by (simp del: ok_agg_inn)
qed (simp del: ok_agg_inn)

lemma one_value_iff: "one_value f ss \<longleftrightarrow> ss \<noteq> [] \<and> (\<forall>s\<in>set ss. f s = f (hd ss))"
proof (cases ss)
  case Nil
  then show ?thesis by (simp add: one_value_def column_def)
next
  case (Cons s ts)
  have "length (remdups (map f ss)) = card (set (map f ss))" by (simp add: length_remdups_card_conv)
  moreover have "card (f ` set ss) = 1 \<longleftrightarrow> (\<forall>t\<in>set ss. f t = f s)"
  proof
    assume "card (f ` set ss) = 1"
    then obtain x where "f ` set ss = {x}" by (rule card_1_singletonE)
    with Cons show "\<forall>t\<in>set ss. f t = f s" by auto
  next
    assume "\<forall>t\<in>set ss. f t = f s"
    with Cons have "f ` set ss = {f s}" by auto
    then show "card (f ` set ss) = 1" by simp
  qed
  ultimately show ?thesis using Cons by (simp add: one_value_def column_def)
qed

text \<open>The children a parent type may have: the table, and groups of other product groups.\<close>

lemma lp_relation_iff:
  "ok (validate_lp_relation p c child_pg mixed) \<longleftrightarrow>
     (c = PK_BUNDLE \<longrightarrow> child_pg = ''lp'') \<and> p \<noteq> PK_GROUP
     \<and> (p = PK_SET \<longrightarrow> c \<in> {PK_UNIT, PK_BUNDLE})
     \<and> (p = PK_BOX \<longrightarrow> c \<in> {PK_UNIT, PK_BUNDLE, PK_SET, PK_BOX} \<or> (c = PK_GROUP \<and> mixed \<and> child_pg \<noteq> ''lp''))
     \<and> (p = PK_ATK \<longrightarrow> c \<in> {PK_UNIT, PK_BUNDLE, PK_SET, PK_BOX} \<or> (c = PK_GROUP \<and> child_pg \<noteq> ''lp''))"
  by (cases p; cases c) (auto simp: validate_lp_relation_def lp_parent_children_def)

lemma ok_check_relation:
  "ok (check_relation p mixed c) \<longleftrightarrow>
     (\<exists>t. package_type c = Some t \<and> ok (validate_lp_relation p t (or_else (product_group c) ''lp'') mixed))"
  by (simp add: check_relation_def split: option.splits)

lemma reaggregation_children_ok:
  "ok (reaggregation_children f seen cs) \<longleftrightarrow>
     distinct (map cis cs) \<and> set (map cis cs) \<inter> set seen = {} \<and> (\<forall>c\<in>set cs. ok (f c))"
  by (induction f seen cs rule: reaggregation_children.induct) auto

lemma count_list_map_Some: "count_list (map Some xs) (Some g) = count_list xs g"
  by (induction xs) auto

text \<open>Counting as dictionaries do: the same numbers with the same positive counts.\<close>

lemma same_counts_iff:
  assumes "\<forall>c\<in>set cs. truthy (gtin c)"
  shows "same_counts cs qs \<longleftrightarrow>
    (\<forall>g. map_of qs g = (let n = count_list (map gtin cs) (Some g) in if n = 0 then None else Some (int n)))"
proof -
  let ?g = "\<lambda>c. the (gtin c)"
  have some: "gtin c = Some (?g c)" if "c \<in> set cs" for c
    using assms that by (cases "gtin c") auto
  have "map gtin cs = map Some (map ?g cs)"
    using some by (induction cs) auto
  then have count: "count_list (map gtin cs) (Some g) = count_list (map ?g cs) g" for g
    by (simp only: count_list_map_Some)
  have zero: "count_list (map ?g cs) g = 0 \<longleftrightarrow> g \<notin> set (map ?g cs)" for g
    by (simp add: count_list_0_iff)
  have keys: "(\<exists>v. map_of qs g = Some v) \<longleftrightarrow> g \<in> fst ` set qs" for g
    by (metis domD domI dom_map_of_conv_image_fst)
  show ?thesis
  proof
    assume s: "same_counts cs qs"
    show "\<forall>g. map_of qs g = (let n = count_list (map gtin cs) (Some g) in if n = 0 then None else Some (int n))"
    proof
      fix g
      show "map_of qs g = (let n = count_list (map gtin cs) (Some g) in if n = 0 then None else Some (int n))"
      proof (cases "g \<in> set (map ?g cs)")
        case True
        with s zero show ?thesis by (fastforce simp: same_counts_def list_all_iff count Let_def)
      next
        case False
        with s have "g \<notin> fst ` set qs" by (auto simp: same_counts_def list_all_iff)
        with False zero show ?thesis by (simp add: count map_of_eq_None_iff)
      qed
    qed
  next
    assume a: "\<forall>g. map_of qs g = (let n = count_list (map gtin cs) (Some g) in if n = 0 then None else Some (int n))"
    show "same_counts cs qs"
      unfolding same_counts_def list_all_iff
    proof (intro conjI ballI)
      fix c assume "c \<in> set cs"
      with zero [of "?g c"] show "map_of qs (?g c) = Some (int (count_list (map ?g cs) (?g c)))"
        by (simp add: a count Let_def)
    next
      fix q assume "q \<in> set qs"
      with keys [of "fst q"] obtain v where "map_of qs (fst q) = Some v" by auto
      with a zero [of "fst q"] show "fst q \<in> set (map ?g cs)"
        by (auto simp: count Let_def split: if_splits)
    qed
  qed
qed

section \<open>Properties\<close>

text \<open>C15: a box of a single product group may be formed exactly when its identifier is not yet known,
  the children are ours, in no package, of a permitted type and state, all applied with one emission
  type or all introduced.\<close>

theorem single_group_box_iff:
  "ok (validate_box_preconditions p cs inn pg False formed) \<longleftrightarrow>
     p = None \<and> cs \<noteq> [] \<and> ok (agg_inn inn ''participant_inn'')
     \<and> (\<forall>c\<in>set cs. owner_inn c = Some inn \<and> blank (parent c) \<and> quiet_or_waiting (status_ex_raw c)
          \<and> (package_type c \<in> {Some PK_UNIT, Some PK_SET, Some PK_BOX}
             \<or> package_type c = Some PK_BUNDLE \<and> or_else (product_group c) ''lp'' = ''lp''))
     \<and> ((\<forall>c\<in>set cs. status_raw c = Some ''INTRODUCED'')
        \<or> (\<forall>c\<in>set cs. status_raw c = Some ''APPLIED'' \<and> emission_type c = emission_type (hd cs)))"
proof -
  have rel: "ok (check_relation PK_BOX False c) \<longleftrightarrow> package_type c \<in> {Some PK_UNIT, Some PK_SET, Some PK_BOX}
      \<or> package_type c = Some PK_BUNDLE \<and> or_else (product_group c) ''lp'' = ''lp''" for c
    by (auto simp: ok_check_relation lp_relation_iff)
  have st: "one_value status_raw cs \<and> status_raw (hd cs) \<in> {Some ''APPLIED'', Some ''INTRODUCED''}
      \<and> (status_raw (hd cs) = Some ''APPLIED'' \<longrightarrow> one_value emission_type cs) \<longleftrightarrow>
      cs \<noteq> [] \<and> ((\<forall>c\<in>set cs. status_raw c = Some ''INTRODUCED'')
        \<or> (\<forall>c\<in>set cs. status_raw c = Some ''APPLIED'' \<and> emission_type c = emission_type (hd cs)))"
    by (cases cs) (auto simp: one_value_iff)
  have "ok (validate_box_preconditions p cs inn pg False formed) \<longleftrightarrow>
      ok (agg_inn inn ''participant_inn'') \<and> p = None \<and> cs \<noteq> []
      \<and> (one_value status_raw cs \<and> status_raw (hd cs) \<in> {Some ''APPLIED'', Some ''INTRODUCED''}
      \<and> (status_raw (hd cs) = Some ''APPLIED'' \<longrightarrow> one_value emission_type cs))
      \<and> (\<forall>c\<in>set cs. quiet_or_waiting (status_ex_raw c) \<and> owner_inn c = Some inn \<and> blank (parent c)
           \<and> ok (check_relation PK_BOX False c))"
    by (auto simp: validate_box_preconditions_def ok_bind_inn ok_guards box_statuses_def ok_each
        check_box_child_def list_ex_iff ok_check_relation simp del: ok_agg_inn)
  then show ?thesis unfolding st rel by blast
qed

definition demo_child :: snapshot where
  "demo_child = \<lparr>cis = ''010460043993125621'', package_type = Some PK_UNIT, product_group = Some ''lp'',
     status_raw = Some ''INTRODUCED'', status_ex_raw = None, owner_inn = Some ''7707083893'',
     emission_type = Some ''LOCAL'', parent = None, direct_children = [], gtin = None, tnved = None,
     fetched_at = None, nested_tnveds = []\<rparr>"

lemma single_group_box_iff_witness:
  "ok (validate_box_preconditions None [demo_child] ''7707083893'' ''lp'' False [])"
proof -
  have "ok (agg_inn ''7707083893'' ''participant_inn'')" by code_simp
  then show ?thesis
    unfolding single_group_box_iff by (simp add: demo_child_def quiet_or_waiting_def del: ok_agg_inn)
qed

text \<open>C29: codes may be added to or removed from a package only if they are all different, and each is
  ours, of a type the package may contain, outside every package when it is added and directly in
  this one when it is removed.\<close>

theorem reaggregation_children_checked:
  assumes "ok (validate_reaggregation_preconditions p cs kind inn nested remaining pg mixed formed)"
  shows "distinct (map cis cs) \<and> cs \<noteq> [] \<and> owner_inn p = Some inn \<and> kind \<in> {''ADDING'', ''REMOVING''}
    \<and> (\<forall>c\<in>set cs. owner_inn c = Some inn
         \<and> (\<exists>t u. package_type p = Some t \<and> package_type c = Some u
              \<and> ok (validate_lp_relation t u (or_else (product_group c) ''lp'') mixed))
         \<and> (kind = ''ADDING'' \<longrightarrow> blank (parent c)) \<and> (kind = ''REMOVING'' \<longrightarrow> parent c = Some (cis p)))"
proof -
  let ?f = "reaggregation_child p kind inn nested mixed formed"
  have head: "package_type p \<in> {Some PK_BOX, Some PK_SET} \<and> owner_inn p = Some inn
      \<and> kind \<in> {''ADDING'', ''REMOVING''} \<and> cs \<noteq> []"
    and kids: "ok (reaggregation_children ?f [] cs)"
    using assms by (auto simp: validate_reaggregation_preconditions_def ok_bind_inn ok_guards
        simp del: ok_agg_inn split: if_splits)
  have "owner_inn c = Some inn \<and> ok (check_relation (the (package_type p)) mixed c)
      \<and> (kind = ''ADDING'' \<longrightarrow> blank (parent c)) \<and> (kind = ''REMOVING'' \<longrightarrow> parent c = Some (cis p))"
    if "c \<in> set cs" for c
    using kids that by (auto simp: reaggregation_children_ok reaggregation_child_def ok_guards)
  with head kids show ?thesis
    by (fastforce simp: reaggregation_children_ok ok_check_relation)
qed

definition demo_parent :: snapshot where
  "demo_parent = demo_child\<lparr>cis := ''BOX000000000000001'', package_type := Some PK_BOX\<rparr>"

lemma demo_reaggregation:
  "ok (validate_reaggregation_preconditions demo_parent [demo_child] ''ADDING'' ''7707083893'' [] [] ''lp'' False [])"
  by code_simp

lemma reaggregation_children_checked_witness:
  "distinct (map cis [demo_child]) \<and> owner_inn demo_parent = Some ''7707083893'' \<and> blank (parent demo_child)"
  using reaggregation_children_checked [OF demo_reaggregation] by simp

end
