(* ===== verification/AggregationTree.thy ===== *)
theory AggregationTree
  imports AggregationChecks
begin

text \<open>
  The walk of \<open>build_aggregate_tree\<close> (\<open>wbcz/aggregation.py\<close>) over the relation of codes to their
  direct children. The relation and the package types are read from outside, so they are arguments.
  The recursion is on the depth that is left below the safety limit.
\<close>

datatype aggregate_tree =
  Node (node_cis: pystr) (node_type: "pystr option") (node_children: "aggregate_tree list")

record walk_state =
  warnings :: "pystr list"
  truncated :: bool
  incomplete :: bool
  visiting :: "pystr list"
  seen_edges :: "(pystr \<times> pystr) list"

record tree_result =
  tree_root :: aggregate_tree
  tree_complete :: bool
  tree_truncated :: bool
  tree_warnings :: "pystr list"

definition known_types :: "pystr list" where
  "known_types = map package_value [PK_UNIT, PK_GROUP, PK_BUNDLE, PK_SET, PK_BOX, PK_ATK]"

definition show_type :: "pystr option \<Rightarrow> pystr" where
  "show_type v = (case v of None \<Rightarrow> ''None'' | Some s \<Rightarrow> s)"

definition known_type :: "pystr option \<Rightarrow> bool" where
  "known_type v = (case v of None \<Rightarrow> False | Some s \<Rightarrow> s \<in> set known_types)"

definition warn :: "pystr \<Rightarrow> walk_state \<Rightarrow> walk_state" where
  "warn w st = st\<lparr>warnings := warnings st @ [w], incomplete := True\<rparr>"

definition note_type :: "pystr option \<Rightarrow> walk_state \<Rightarrow> walk_state" where
  "note_type t st =
     (if known_type t then st else warn (''UNKNOWN_RAW_PACKAGE_TYPE:'' @ show_type t) st)"

text \<open>\<open>walk n c\<close> visits \<open>c\<close> with \<open>n\<close> levels left; at zero the code is beyond the limit.\<close>

fun walk :: "(pystr \<Rightarrow> pystr list) \<Rightarrow> (pystr \<Rightarrow> pystr option) \<Rightarrow> nat \<Rightarrow> pystr \<Rightarrow> walk_state
    \<Rightarrow> aggregate_tree \<times> walk_state"
  and walk_children :: "(pystr \<Rightarrow> pystr list) \<Rightarrow> (pystr \<Rightarrow> pystr option) \<Rightarrow> nat \<Rightarrow> pystr
    \<Rightarrow> pystr list \<Rightarrow> walk_state \<Rightarrow> aggregate_tree list \<times> walk_state" where
  "walk kids type_of 0 c st =
     (Node c (type_of c) [], (warn ''INTERNAL_SAFETY_LIMIT'' (note_type (type_of c) st))\<lparr>truncated := True\<rparr>)"
| "walk kids type_of (Suc n) c st =
     (let st1 = note_type (type_of c) st in
      if c \<in> set (visiting st1) then (Node c (type_of c) [], warn ''CYCLE_DETECTED'' st1)
      else
        (case walk_children kids type_of n c (kids c) (st1\<lparr>visiting := c # visiting st1\<rparr>) of
           (ts, st2) \<Rightarrow> (Node c (type_of c) ts, st2\<lparr>visiting := remove1 c (visiting st2)\<rparr>)))"
| "walk_children kids type_of n c [] st = ([], st)"
| "walk_children kids type_of n c (k # ks) st =
     (if (c, k) \<in> set (seen_edges st)
      then walk_children kids type_of n c ks (warn ''DUPLICATE_EDGE_DROPPED'' st)
      else
        (case walk kids type_of n k (st\<lparr>seen_edges := (c, k) # seen_edges st\<rparr>) of
           (t, st1) \<Rightarrow>
             (case walk_children kids type_of n c ks st1 of (ts, st2) \<Rightarrow> (t # ts, st2))))"

definition start_walk :: walk_state where
  "start_walk = \<lparr>warnings = [], truncated = False, incomplete = False, visiting = [], seen_edges = []\<rparr>"

definition build_aggregate_tree :: "pystr \<Rightarrow> (pystr \<Rightarrow> pystr list) \<Rightarrow> (pystr \<Rightarrow> pystr option) \<Rightarrow> int
    \<Rightarrow> tree_result agg" where
  "build_aggregate_tree root kids type_of max_depth =
     bind (agg_code root ''root_cis'') (\<lambda>c.
       case walk kids type_of (nat (max_depth + 1)) c start_walk of
         (t, st) \<Rightarrow> Inr \<lparr>tree_root = t, tree_complete = (\<not> incomplete st \<and> \<not> truncated st),
           tree_truncated = truncated st, tree_warnings = warnings st\<rparr>)"

section \<open>What the walk returns\<close>

text \<open>A tree that unfolds the relation: each node has exactly the children of its code, in order.\<close>

fun unfolds :: "(pystr \<Rightarrow> pystr list) \<Rightarrow> (pystr \<Rightarrow> pystr option) \<Rightarrow> aggregate_tree \<Rightarrow> bool" where
  "unfolds kids type_of (Node c t ts) \<longleftrightarrow>
     t = type_of c \<and> known_type t \<and> map node_cis ts = kids c \<and> (\<forall>u\<in>set ts. unfolds kids type_of u)"

text \<open>No code occurs below itself, starting from codes \<open>anc\<close>.\<close>

fun acyclic_below :: "pystr set \<Rightarrow> aggregate_tree \<Rightarrow> bool" where
  "acyclic_below anc (Node c t ts) \<longleftrightarrow> c \<notin> anc \<and> (\<forall>u\<in>set ts. acyclic_below (insert c anc) u)"

fun height :: "aggregate_tree \<Rightarrow> nat" where
  "height (Node c t ts) = Suc (fold (\<lambda>u m. max (height u) m) ts 0)"

lemma fold_max_le:
  "fold (\<lambda>u m. max (f u) m) ts (a :: nat) \<le> b \<longleftrightarrow> a \<le> b \<and> (\<forall>u\<in>set ts. f u \<le> b)"
  by (induction ts arbitrary: a) auto

lemma height_le: "height (Node c t ts) \<le> Suc b \<longleftrightarrow> (\<forall>u\<in>set ts. height u \<le> b)"
  by (simp add: fold_max_le)

lemma warn_simps [simp]:
  "incomplete (warn w st)" "visiting (warn w st) = visiting st" "truncated (warn w st) = truncated st"
  "seen_edges (warn w st) = seen_edges st"
  by (simp_all add: warn_def)

lemma note_type_simps [simp]:
  "visiting (note_type t st) = visiting st" "truncated (note_type t st) = truncated st"
  "incomplete (note_type t st) \<longleftrightarrow> incomplete st \<or> \<not> known_type t"
  by (simp_all add: note_type_def)

text \<open>The flags only rise, the codes being visited are restored, and the root is the code asked for.\<close>

lemma walk_frame:
  "walk kids type_of n c st = (t, st') \<Longrightarrow>
     visiting st' = visiting st \<and> (incomplete st \<longrightarrow> incomplete st') \<and> (truncated st \<longrightarrow> truncated st')
     \<and> node_cis t = c"
  "walk_children kids type_of n c ks st = (ts, st') \<Longrightarrow>
     visiting st' = visiting st \<and> (incomplete st \<longrightarrow> incomplete st') \<and> (truncated st \<longrightarrow> truncated st')"
proof (induction kids type_of n c st and kids type_of n c ks st arbitrary: t st' and ts st'
    rule: walk_walk_children.induct)
  case (2 kids type_of n c st)
  let ?st1 = "note_type (type_of c) st"
  obtain ts st2 where w: "walk_children kids type_of n c (kids c) (?st1\<lparr>visiting := c # visiting ?st1\<rparr>) = (ts, st2)"
    by force
  show ?case
  proof (cases "c \<in> set (visiting ?st1)")
    case True
    with 2(2) show ?thesis by (auto simp: Let_def)
  next
    case False
    with 2(2) w have "t = Node c (type_of c) ts" "st' = st2\<lparr>visiting := remove1 c (visiting st2)\<rparr>"
      by (auto simp: Let_def)
    with 2(1) [OF refl False w] show ?thesis by auto
  qed
next
  case (4 kids type_of n c k ks st)
  let ?st = "st\<lparr>seen_edges := (c, k) # seen_edges st\<rparr>"
  obtain u st1 where u: "walk kids type_of n k ?st = (u, st1)" by force
  obtain us st2 where us: "walk_children kids type_of n c ks st1 = (us, st2)" by force
  show ?case
  proof (cases "(c, k) \<in> set (seen_edges st)")
    case True
    with 4(1,4) show ?thesis by fastforce
  next
    case False
    with 4(4) u us have "ts = u # us" "st' = st2" by auto
    with 4(2) [OF False u] 4(3) [OF False u [symmetric] us] show ?thesis by auto
  qed
qed (auto simp: warn_def)

lemma walk_height:
  "walk kids type_of n c st = (t, st') \<Longrightarrow> height t \<le> Suc n"
  "walk_children kids type_of n c ks st = (ts, st') \<Longrightarrow> \<forall>t\<in>set ts. height t \<le> Suc n"
proof (induction kids type_of n c st and kids type_of n c ks st arbitrary: t st' and ts st'
    rule: walk_walk_children.induct)
  case (2 kids type_of n c st)
  then show ?case
    by (force simp: Let_def height_le simp del: height.simps split: if_splits prod.splits)
next
  case (4 kids type_of n c k ks st)
  then show ?case by (fastforce split: if_splits prod.splits)
qed auto

lemma walk_exact:
  "walk kids type_of n c st = (t, st') \<Longrightarrow> \<not> incomplete st' \<Longrightarrow>
     unfolds kids type_of t \<and> acyclic_below (set (visiting st)) t"
  "walk_children kids type_of n c ks st = (ts, st') \<Longrightarrow> \<not> incomplete st' \<Longrightarrow>
     map node_cis ts = ks \<and> (\<forall>t\<in>set ts. unfolds kids type_of t \<and> acyclic_below (set (visiting st)) t)"
proof (induction kids type_of n c st and kids type_of n c ks st arbitrary: t st' and ts st'
    rule: walk_walk_children.induct)
  case (1 kids type_of c st)
  then show ?case by (auto simp: warn_def)
next
  case (2 kids type_of n c st)
  let ?st1 = "note_type (type_of c) st"
  have fresh: "c \<notin> set (visiting ?st1)" using 2 by (auto simp: Let_def split: if_splits)
  obtain ts st2 where w: "walk_children kids type_of n c (kids c) (?st1\<lparr>visiting := c # visiting ?st1\<rparr>) = (ts, st2)"
    by force
  with 2(2) fresh have t: "t = Node c (type_of c) ts" "st' = st2\<lparr>visiting := remove1 c (visiting st2)\<rparr>"
    by (auto simp: Let_def)
  with 2(3) have ok: "\<not> incomplete st2" by simp
  have "known_type (type_of c)" using walk_frame(2) [OF w] ok by auto
  with 2(1) [OF refl fresh w ok] t fresh show ?case by simp
next
  case (3 kids type_of n c st)
  then show ?case by auto
next
  case (4 kids type_of n c k ks st)
  have new: "(c, k) \<notin> set (seen_edges st)"
  proof
    assume "(c, k) \<in> set (seen_edges st)"
    with 4(4) have "walk_children kids type_of n c ks (warn ''DUPLICATE_EDGE_DROPPED'' st) = (ts, st')" by simp
    from walk_frame(2) [OF this] 4(5) show False by simp
  qed
  let ?st = "st\<lparr>seen_edges := (c, k) # seen_edges st\<rparr>"
  obtain u st1 where u: "walk kids type_of n k ?st = (u, st1)" by force
  obtain us st2 where us: "walk_children kids type_of n c ks st1 = (us, st2)" by force
  have eq: "ts = u # us" "st' = st2" using 4(4) new u us by auto
  have ok2: "\<not> incomplete st2" and ok1: "\<not> incomplete st1"
    using 4(5) eq walk_frame(2) [OF us] by auto
  have "visiting st1 = visiting st" "node_cis u = k" using walk_frame(1) [OF u] by auto
  with 4(2) [OF new u ok1] 4(3) [OF new u [symmetric] us ok2] eq show ?case by simp
qed

section \<open>A demonstration\<close>

text \<open>A box with one unit in it.\<close>

definition demo_box :: pystr where "demo_box = ''BOX000000000000001''"

definition demo_unit :: pystr where "demo_unit = ''UNIT00000000000001''"

definition demo_kids :: "pystr \<Rightarrow> pystr list" where
  "demo_kids c = (if c = demo_box then [demo_unit] else [])"

definition demo_type :: "pystr \<Rightarrow> pystr option" where
  "demo_type c = Some (if c = demo_box then ''BOX'' else ''UNIT'')"

definition demo_tree :: aggregate_tree where
  "demo_tree = Node demo_box (Some ''BOX'') [Node demo_unit (Some ''UNIT'') []]"

lemma demo_build: "build_aggregate_tree demo_box demo_kids demo_type 32
    = Inr \<lparr>tree_root = demo_tree, tree_complete = True, tree_truncated = False, tree_warnings = []\<rparr>"
  by code_simp

section \<open>The walk ends by itself\<close>

fun tree_nodes :: "aggregate_tree \<Rightarrow> nat" where
  "tree_nodes (Node c t ts) = Suc (sum_list (map tree_nodes ts))"

definition edges_of :: "(pystr \<Rightarrow> pystr list) \<Rightarrow> pystr set \<Rightarrow> (pystr \<times> pystr) set" where
  "edges_of kids V = {(a, b). a \<in> V \<and> b \<in> set (kids a)}"

lemma edges_of_finite: "finite V \<Longrightarrow> finite (edges_of kids V)"
proof -
  assume "finite V"
  moreover have "edges_of kids V = (\<Union>a\<in>V. Pair a ` set (kids a))" by (auto simp: edges_of_def)
  ultimately show ?thesis by simp
qed

lemma seen_warn [simp]: "seen_edges (note_type t st) = seen_edges st"
  by (simp add: note_type_def)

text \<open>Each node but the root comes with an edge that was not seen before.\<close>

lemma walk_edges:
  "walk kids type_of n c st = (t, st') \<Longrightarrow> distinct (seen_edges st) \<Longrightarrow>
     distinct (seen_edges st') \<and> length (seen_edges st') + 1 = length (seen_edges st) + tree_nodes t"
  "walk_children kids type_of n c ks st = (ts, st') \<Longrightarrow> distinct (seen_edges st) \<Longrightarrow>
     distinct (seen_edges st') \<and> length (seen_edges st') = length (seen_edges st) + sum_list (map tree_nodes ts)"
proof (induction kids type_of n c st and kids type_of n c ks st arbitrary: t st' and ts st'
    rule: walk_walk_children.induct)
  case (2 kids type_of n c st)
  let ?st1 = "note_type (type_of c) st"
  obtain ts st2 where w: "walk_children kids type_of n c (kids c) (?st1\<lparr>visiting := c # visiting ?st1\<rparr>) = (ts, st2)"
    by force
  show ?case
  proof (cases "c \<in> set (visiting ?st1)")
    case True
    with 2(2,3) show ?thesis by (auto simp: Let_def)
  next
    case False
    with 2(2) w have "t = Node c (type_of c) ts" "st' = st2\<lparr>visiting := remove1 c (visiting st2)\<rparr>"
      by (auto simp: Let_def)
    with 2(1) [OF refl False w] 2(3) show ?thesis by simp
  qed
next
  case (4 kids type_of n c k ks st)
  let ?st = "st\<lparr>seen_edges := (c, k) # seen_edges st\<rparr>"
  obtain u st1 where u: "walk kids type_of n k ?st = (u, st1)" by force
  obtain us st2 where us: "walk_children kids type_of n c ks st1 = (us, st2)" by force
  show ?case
  proof (cases "(c, k) \<in> set (seen_edges st)")
    case True
    with 4(1,4,5) show ?thesis by simp
  next
    case False
    with 4(4) u us have "ts = u # us" "st' = st2" by auto
    with 4(2) [OF False u] 4(3) [OF False u [symmetric] us] 4(5) False show ?thesis by simp
  qed
qed auto

text \<open>The codes and the edges of a tree, and the codes that can be reached from one.\<close>

fun tree_codes :: "aggregate_tree \<Rightarrow> pystr list" where
  "tree_codes (Node c t ts) = c # concat (map tree_codes ts)"

fun tree_edges :: "aggregate_tree \<Rightarrow> (pystr \<times> pystr) list" where
  "tree_edges (Node c t ts) = concat (map (\<lambda>u. (c, node_cis u) # tree_edges u) ts)"

definition below :: "(pystr \<Rightarrow> pystr list) \<Rightarrow> pystr \<Rightarrow> pystr \<Rightarrow> bool" where
  "below kids = (\<lambda>a b. b \<in> set (kids a))\<^sup>*\<^sup>*"

lemma walk_seen:
  "walk kids type_of n c st = (t, st') \<Longrightarrow> seen_edges st' = rev (tree_edges t) @ seen_edges st"
  "walk_children kids type_of n c ks st = (ts, st') \<Longrightarrow>
     seen_edges st' = rev (concat (map (\<lambda>u. (c, node_cis u) # tree_edges u) ts)) @ seen_edges st"
proof (induction kids type_of n c st and kids type_of n c ks st arbitrary: t st' and ts st'
    rule: walk_walk_children.induct)
  case (2 kids type_of n c st)
  let ?st1 = "note_type (type_of c) st"
  obtain ts st2 where w: "walk_children kids type_of n c (kids c) (?st1\<lparr>visiting := c # visiting ?st1\<rparr>) = (ts, st2)"
    by force
  show ?case
  proof (cases "c \<in> set (visiting ?st1)")
    case True
    with 2(2) show ?thesis by (auto simp: Let_def)
  next
    case False
    with 2(2) w have "t = Node c (type_of c) ts" "st' = st2\<lparr>visiting := remove1 c (visiting st2)\<rparr>"
      by (auto simp: Let_def)
    with 2(1) [OF refl False w] show ?thesis by simp
  qed
next
  case (4 kids type_of n c k ks st)
  let ?st = "st\<lparr>seen_edges := (c, k) # seen_edges st\<rparr>"
  obtain u st1 where u: "walk kids type_of n k ?st = (u, st1)" by force
  obtain us st2 where us: "walk_children kids type_of n c ks st1 = (us, st2)" by force
  show ?case
  proof (cases "(c, k) \<in> set (seen_edges st)")
    case True
    with 4(1,4) show ?thesis by simp
  next
    case False
    with 4(4) u us have "ts = u # us" "st' = st2" by auto
    with 4(2) [OF False u] 4(3) [OF False u [symmetric] us] walk_frame(1) [OF u] show ?thesis by simp
  qed
qed auto

lemma unfolds_codes:
  "unfolds kids type_of t \<Longrightarrow> a \<in> set (tree_codes t) \<Longrightarrow> below kids (node_cis t) a"
proof (induction t)
  case (Node c ty ts)
  show ?case
  proof (cases "a = c")
    case False
    with Node.prems(2) obtain u where u: "u \<in> set ts" "a \<in> set (tree_codes u)" by auto
    with Node.prems(1) have "below kids (node_cis u) a" "node_cis u \<in> set (kids c)"
      using Node.IH [OF u(1)] by auto (metis image_eqI list.set_map)
    then show ?thesis by (simp add: below_def converse_rtranclp_into_rtranclp)
  qed (simp add: below_def)
qed

lemma node_in_codes: "node_cis t \<in> set (tree_codes t)"
  by (cases t) simp

lemma unfolds_edges:
  "unfolds kids type_of t \<Longrightarrow> (a, b) \<in> set (tree_edges t) \<longleftrightarrow> a \<in> set (tree_codes t) \<and> b \<in> set (kids a)"
proof (induction t)
  case (Node c ty ts)
  then have "kids c = map node_cis ts" "\<forall>u\<in>set ts. unfolds kids type_of u" by simp_all
  with Node.IH show ?case by auto
qed

lemma edges_stay: "(a, b) \<in> set (tree_edges t) \<Longrightarrow> b \<in> set (tree_codes t)"
proof (induction t)
  case (Node c ty ts)
  from Node.prems obtain u where u: "u \<in> set ts" "(a, b) = (c, node_cis u) \<or> (a, b) \<in> set (tree_edges u)" by auto
  then have "b \<in> set (tree_codes u)" using Node.IH [OF u(1)] node_in_codes [of u] by auto
  with u(1) show ?case by auto
qed

lemma unfolds_reaches:
  assumes "unfolds kids type_of t" and "below kids (node_cis t) a"
  shows "a \<in> set (tree_codes t)"
  using assms(2) unfolding below_def
proof (induction rule: rtranclp_induct)
  case (step x y)
  then have "(x, y) \<in> set (tree_edges t)" using unfolds_edges [OF assms(1)] by blast
  then show ?case by (rule edges_stay)
qed (rule node_in_codes)

text \<open>C11: the walk always ends within the safety depth. A tree reported complete unfolds the relation: every
  node has exactly the children of its code, in order and of known types, and no code is below itself; its
  codes are exactly those that can be reached from the root, and it holds every edge between them exactly
  once. A code with two parents and no children occurs under each of them.\<close>

theorem complete_tree_is_exact:
  assumes "build_aggregate_tree root kids type_of max_depth = Inr r"
  shows "height (tree_root r) \<le> nat (max_depth + 1) + 1 \<and> node_cis (tree_root r) = root
    \<and> (tree_complete r \<longrightarrow>
        unfolds kids type_of (tree_root r) \<and> acyclic_below {} (tree_root r)
        \<and> set (tree_codes (tree_root r)) = {a. below kids root a}
        \<and> distinct (tree_edges (tree_root r))
        \<and> set (tree_edges (tree_root r)) = {(a, b). below kids root a \<and> b \<in> set (kids a)})"
proof -
  obtain t st where w: "walk kids type_of (nat (max_depth + 1)) root start_walk = (t, st)" by force
  have r: "r = \<lparr>tree_root = t, tree_complete = (\<not> incomplete st \<and> \<not> truncated st),
      tree_truncated = truncated st, tree_warnings = warnings st\<rparr>"
    using assms w by (auto simp: build_aggregate_tree_def bind_Inr_iff agg_code_Inr)
  have root: "node_cis t = root" and high: "height t \<le> nat (max_depth + 1) + 1"
    using walk_frame(1) [OF w] walk_height(1) [OF w] by simp_all
  have "distinct (tree_edges t)"
    using walk_seen(1) [OF w] walk_edges(1) [OF w] by (simp add: start_walk_def)
  moreover have "unfolds kids type_of t \<and> acyclic_below {} t" if "\<not> incomplete st"
    using walk_exact(1) [OF w that] by (simp add: start_walk_def)
  moreover have "set (tree_codes t) = {a. below kids root a}" if "unfolds kids type_of t"
    using unfolds_codes [OF that] unfolds_reaches [OF that] root by blast
  moreover from this have "set (tree_edges t) = {(a, b). below kids root a \<and> b \<in> set (kids a)}"
    if "unfolds kids type_of t" using unfolds_edges [OF that] that by auto
  ultimately show ?thesis using root high by (auto simp: r)
qed

lemma complete_tree_is_exact_witness:
  "height demo_tree \<le> 34 \<and> unfolds demo_kids demo_type demo_tree \<and> acyclic_below {} demo_tree
    \<and> set (tree_codes demo_tree) = {demo_box, demo_unit} \<and> {a. below demo_kids demo_box a} = {demo_box, demo_unit}"
proof -
  have "set (tree_codes demo_tree) = {demo_box, demo_unit}" by (auto simp: demo_tree_def)
  with complete_tree_is_exact [OF demo_build] show ?thesis by simp
qed

lemma walk_inside:
  "walk kids type_of n c st = (t, st') \<Longrightarrow> \<forall>a\<in>V. set (kids a) \<subseteq> V \<Longrightarrow> c \<in> V \<Longrightarrow>
     set (seen_edges st) \<subseteq> edges_of kids V \<Longrightarrow> set (seen_edges st') \<subseteq> edges_of kids V"
  "walk_children kids type_of n c ks st = (ts, st') \<Longrightarrow> \<forall>a\<in>V. set (kids a) \<subseteq> V \<Longrightarrow> c \<in> V \<Longrightarrow>
     set ks \<subseteq> set (kids c) \<Longrightarrow> set (seen_edges st) \<subseteq> edges_of kids V \<Longrightarrow> set (seen_edges st') \<subseteq> edges_of kids V"
proof (induction kids type_of n c st and kids type_of n c ks st arbitrary: t st' and ts st'
    rule: walk_walk_children.induct)
  case (2 kids type_of n c st)
  let ?st1 = "note_type (type_of c) st"
  obtain ts st2 where w: "walk_children kids type_of n c (kids c) (?st1\<lparr>visiting := c # visiting ?st1\<rparr>) = (ts, st2)"
    by force
  show ?case
  proof (cases "c \<in> set (visiting ?st1)")
    case True
    with 2 show ?thesis by (auto simp: Let_def)
  next
    case False
    with 2(2) w have "st' = st2\<lparr>visiting := remove1 c (visiting st2)\<rparr>" by (auto simp: Let_def)
    with 2(1) [OF refl False w 2(3,4) subset_refl] 2(5) show ?thesis by simp
  qed
next
  case (4 kids type_of n c k ks st)
  let ?st = "st\<lparr>seen_edges := (c, k) # seen_edges st\<rparr>"
  obtain u st1 where u: "walk kids type_of n k ?st = (u, st1)" by force
  obtain us st2 where us: "walk_children kids type_of n c ks st1 = (us, st2)" by force
  have k: "k \<in> V" "(c, k) \<in> edges_of kids V" using 4(5,6,7) by (auto simp: edges_of_def)
  show ?case
  proof (cases "(c, k) \<in> set (seen_edges st)")
    case True
    with 4(1,4-8) show ?thesis by simp
  next
    case False
    with 4(4) u us have "st' = st2" by auto
    with 4(2) [OF False u 4(5) k(1)] 4(3) [OF False u [symmetric] us 4(5,6)] 4(7,8) k(2) show ?thesis by simp
  qed
qed auto

text \<open>The codes being visited are a path without repetition, so the limit is not reached on a small graph.\<close>

lemma walk_not_cut:
  "walk kids type_of n c st = (t, st') \<Longrightarrow> finite V \<Longrightarrow> \<forall>a\<in>V. set (kids a) \<subseteq> V \<Longrightarrow> c \<in> V \<Longrightarrow>
     distinct (visiting st) \<Longrightarrow> set (visiting st) \<subseteq> V \<Longrightarrow> card V < n + length (visiting st) \<Longrightarrow>
     truncated st' = truncated st"
  "walk_children kids type_of n c ks st = (ts, st') \<Longrightarrow> finite V \<Longrightarrow> \<forall>a\<in>V. set (kids a) \<subseteq> V \<Longrightarrow> set ks \<subseteq> V \<Longrightarrow>
     distinct (visiting st) \<Longrightarrow> set (visiting st) \<subseteq> V \<Longrightarrow> card V < n + length (visiting st) \<Longrightarrow>
     truncated st' = truncated st"
proof (induction kids type_of n c st and kids type_of n c ks st arbitrary: t st' and ts st'
    rule: walk_walk_children.induct)
  case (1 kids type_of c st)
  have "length (visiting st) \<le> card V" using 1(2,5,6) by (metis card_mono distinct_card)
  with 1(7) show ?case by simp
next
  case (2 kids type_of n c st)
  let ?st1 = "note_type (type_of c) st"
  obtain ts st2 where w: "walk_children kids type_of n c (kids c) (?st1\<lparr>visiting := c # visiting ?st1\<rparr>) = (ts, st2)"
    by force
  show ?case
  proof (cases "c \<in> set (visiting ?st1)")
    case True
    with 2(2) show ?thesis by (auto simp: Let_def)
  next
    case False
    with 2(2) w have "st' = st2\<lparr>visiting := remove1 c (visiting st2)\<rparr>" by (auto simp: Let_def)
    with 2(1) [OF refl False w 2(3,4)] 2(4-8) False show ?thesis by simp
  qed
next
  case (4 kids type_of n c k ks st)
  let ?st = "st\<lparr>seen_edges := (c, k) # seen_edges st\<rparr>"
  obtain u st1 where u: "walk kids type_of n k ?st = (u, st1)" by force
  obtain us st2 where us: "walk_children kids type_of n c ks st1 = (us, st2)" by force
  show ?case
  proof (cases "(c, k) \<in> set (seen_edges st)")
    case True
    with 4(1,4-10) show ?thesis by simp
  next
    case False
    with 4(4) u us have "st' = st2" by auto
    moreover have "visiting st1 = visiting st" using walk_frame(1) [OF u] by simp
    ultimately show ?thesis
      using 4(2) [OF False u 4(5,6)] 4(3) [OF False u [symmetric] us 4(5,6)] 4(7-10) by simp
  qed
qed auto

text \<open>C25: On a graph with no more codes than the safety limit the walk ends by itself, cycles and shared children
  included: nothing is cut at the limit, and the tree has at most one node for every edge and one for the root.\<close>

theorem walk_ends_by_itself:
  assumes "build_aggregate_tree root kids type_of max_depth = Inr r" and "finite V" and "root \<in> V"
    and "\<forall>a\<in>V. set (kids a) \<subseteq> V" and "int (card V) \<le> max_depth"
  shows "\<not> tree_truncated r \<and> tree_nodes (tree_root r) \<le> Suc (card (edges_of kids V))"
proof -
  obtain t st where w: "walk kids type_of (nat (max_depth + 1)) root start_walk = (t, st)" by force
  have r: "r = \<lparr>tree_root = t, tree_complete = (\<not> incomplete st \<and> \<not> truncated st),
      tree_truncated = truncated st, tree_warnings = warnings st\<rparr>"
    using assms(1) w by (auto simp: build_aggregate_tree_def bind_Inr_iff agg_code_Inr)
  have "truncated st = truncated start_walk"
    using assms(5) by (intro walk_not_cut(1) [OF w assms(2,4,3)]) (auto simp: start_walk_def)
  moreover have "distinct (seen_edges st)" "length (seen_edges st) + 1 = tree_nodes t"
    using walk_edges(1) [OF w] by (simp_all add: start_walk_def)
  moreover have "set (seen_edges st) \<subseteq> edges_of kids V"
    by (rule walk_inside(1) [OF w assms(4,3)]) (simp add: start_walk_def)
  then have "card (set (seen_edges st)) \<le> card (edges_of kids V)"
    by (rule card_mono [OF edges_of_finite [OF assms(2)]])
  ultimately show ?thesis by (simp add: r start_walk_def distinct_card)
qed

lemma walk_ends_by_itself_witness: "tree_nodes demo_tree \<le> Suc (card (edges_of demo_kids {demo_box, demo_unit}))"
  using walk_ends_by_itself [OF demo_build, of "{demo_box, demo_unit}"]
  by (auto simp: demo_kids_def demo_box_def demo_unit_def)

end
