(* ===== verification/AggregationReconcile.thy ===== *)
theory AggregationReconcile
  imports AggregationTree
begin

text \<open>
  Reading back what a document did (\<open>wbcz/aggregation.py\<close>): history events, the reconciliation of
  each operation against the relation of codes, and the aggregation side effects of turnover
  operations. Python sets are lists here, compared as sets; a mapping \<open>code -> parent\<close> is a
  function whose \<open>None\<close> is both a missing key and a known absence, as \<open>dict.get\<close> makes them.
\<close>

section \<open>History events\<close>

datatype history_semantic =
  H_AGGREGATION | H_DISAGGREGATION | H_AUTO_DISAGGREGATION | H_TRANSFORMATION | H_UNKNOWN

record history_event =
  semantic :: history_semantic
  raw_operation_type :: json
  raw_operation_date :: json
  raw_parent :: json
  raw_package_type :: json
  raw_extended_package_type :: json
  raw_document_id :: json
  parsed_operation_date :: "py_datetime option"

definition json_truthy :: "json \<Rightarrow> bool" where
  "json_truthy v = (case v of JNull \<Rightarrow> False | JBool b \<Rightarrow> b | JInt i \<Rightarrow> i \<noteq> 0
     | JFloat r \<Rightarrow> r \<notin> {''0.0'', ''-0.0''} | JStr s \<Rightarrow> s \<noteq> [] | JList xs \<Rightarrow> xs \<noteq> [] | JObj ps \<Rightarrow> ps \<noteq> [])"

definition history_semantic_of :: "json \<Rightarrow> history_semantic" where
  "history_semantic_of v =
     (if v = JStr ''AGGREGATION'' then H_AGGREGATION
      else if v = JStr ''DISAGGREGATION'' then H_DISAGGREGATION
      else if v \<in> {JStr ''AUTODISAGGREGATED'', JStr ''AUTODISAGGREGATION''} then H_AUTO_DISAGGREGATION
      else if v = JStr ''TRANSFORMATION'' then H_TRANSFORMATION
      else H_UNKNOWN)"

text \<open>The date parser of the standard library is an argument.\<close>

definition normalize_history_event :: "(json \<Rightarrow> py_datetime option) \<Rightarrow> wire \<Rightarrow> history_event" where
  "normalize_history_event parse_date raw =
     \<lparr>semantic = history_semantic_of (get_key ''operationType'' raw),
      raw_operation_type = get_key ''operationType'' raw,
      raw_operation_date = get_key ''operationDate'' raw,
      raw_parent = get_key ''parent'' raw,
      raw_package_type = get_key ''packageType'' raw,
      raw_extended_package_type = get_key ''extendedPackageType'' raw,
      raw_document_id = (if json_truthy (get_key ''docId'' raw) then get_key ''docId'' raw
                         else get_key ''documentId'' raw),
      parsed_operation_date = parse_date (get_key ''operationDate'' raw)\<rparr>"

definition has_semantic :: "history_semantic list \<Rightarrow> history_event list \<Rightarrow> bool" where
  "has_semantic ss hs \<longleftrightarrow> list_ex (\<lambda>h. semantic h \<in> set ss) hs"

section \<open>Reconciliation of one operation\<close>

datatype reconciliation_state = R_PENDING | R_RECONCILED | R_MANUAL_REVIEW

record reconciliation =
  rec_result :: reconciliation_state
  rec_why :: pystr
  discovered_parent :: "pystr option"

definition reconciliation_of :: "reconciliation_state \<Rightarrow> pystr \<Rightarrow> pystr option \<Rightarrow> reconciliation" where
  "reconciliation_of s why p = \<lparr>rec_result = s, rec_why = why, discovered_parent = p\<rparr>"

type_synonym parents = "pystr \<Rightarrow> pystr option"

definition all_in :: "parents \<Rightarrow> pystr option \<Rightarrow> pystr list \<Rightarrow> bool" where
  "all_in ps p cs \<longleftrightarrow> list_all (\<lambda>c. ps c = p) cs"

definition none_in :: "parents \<Rightarrow> pystr option \<Rightarrow> pystr list \<Rightarrow> bool" where
  "none_in ps p cs \<longleftrightarrow> list_all (\<lambda>c. ps c \<noteq> p) cs"

definition form_kinds :: "aggregation_kind list" where
  "form_kinds = [FORM_TRANSPORT_PACKAGE, FORM_MULTIPRODUCT_TRANSPORT_PACKAGE, FORM_SET,
     FORM_SET_GENERIC_COMPATIBILITY]"

record relation_evidence =
  document_status :: "pystr option"
  expected_parent :: "pystr option"
  expected_children :: "pystr list"
  actual_children :: "pystr list"
  removed_children :: "pystr list"
  child_parents :: "parents option"
  history_events :: "history_event list"
  parent_status_observed :: "pystr option"

definition parents_are :: "relation_evidence \<Rightarrow> (parents \<Rightarrow> bool) \<Rightarrow> bool" where
  "parents_are v p = (case child_parents v of None \<Rightarrow> False | Some ps \<Rightarrow> p ps)"

definition same_children :: "relation_evidence \<Rightarrow> bool" where
  "same_children v \<longleftrightarrow> set (actual_children v) = set (expected_children v)
     \<and> parents_are v (\<lambda>ps. all_in ps (expected_parent v) (expected_children v))"

text \<open>The reason of a confirmed relation, none when the evidence does not confirm it.\<close>

definition relation_reason :: "aggregation_kind \<Rightarrow> relation_evidence \<Rightarrow> pystr option" where
  "relation_reason k v =
     (if k \<in> set form_kinds then
        (if same_children v then Some ''EXACT_RELATION_CONFIRMED'' else None)
      else if k = TRANSFORM_PACKAGE_ADD then
        (if same_children v then Some ''ADD_RELATION_CONFIRMED'' else None)
      else if k = TRANSFORM_PACKAGE_REMOVE then
        (let removed_ok = parents_are v (\<lambda>ps. none_in ps (expected_parent v) (removed_children v)) in
         if expected_children v = [] then
           (if actual_children v = [] \<and> removed_ok \<and> has_semantic [H_AUTO_DISAGGREGATION] (history_events v)
               \<and> parent_status_observed v \<noteq> None
            then Some ''REMOVE_ALL_AUTO_DISAGGREGATION_CONFIRMED'' else None)
         else if same_children v \<and> set (removed_children v) \<inter> set (actual_children v) = {} \<and> removed_ok
         then Some ''REMOVE_RELATION_CONFIRMED'' else None)
      else if k = DISAGGREGATE_PACKAGE then
        (if actual_children v = []
            \<and> parents_are v (\<lambda>ps. none_in ps (expected_parent v) (expected_children v @ removed_children v))
            \<and> has_semantic [H_DISAGGREGATION, H_AUTO_DISAGGREGATION] (history_events v)
            \<and> parent_status_observed v \<noteq> None
         then Some ''DISAGGREGATION_RELATION_HISTORY_STATE_READBACK_CONFIRMED'' else None)
      else None)"

definition reconcile_relation :: "aggregation_kind \<Rightarrow> relation_evidence \<Rightarrow> reconciliation" where
  "reconcile_relation k v =
     (if document_status v \<noteq> Some ''CHECKED_OK''
      then reconciliation_of R_PENDING ''DOCUMENT_NOT_CONFIRMED_SUCCESS'' None
      else case relation_reason k v of
        Some why \<Rightarrow> reconciliation_of R_RECONCILED why (expected_parent v)
      | None \<Rightarrow> reconciliation_of R_MANUAL_REVIEW ''RELATION_STATE_MISMATCH'' (expected_parent v))"

definition reconcile_auto_disaggregation ::
  "pystr \<Rightarrow> pystr list \<Rightarrow> pystr list \<Rightarrow> parents \<Rightarrow> history_event list \<Rightarrow> reconciliation" where
  "reconcile_auto_disaggregation p former actual ps hs =
     (if actual = [] \<and> none_in ps (Some p) former \<and> has_semantic [H_AUTO_DISAGGREGATION] hs
      then reconciliation_of R_RECONCILED ''AUTO_DISAGGREGATION_GRAPH_AND_HISTORY_CONFIRMED'' (Some p)
      else if hs = [] then reconciliation_of R_PENDING ''AUTO_DISAGGREGATION_HISTORY_PENDING'' (Some p)
      else reconciliation_of R_MANUAL_REVIEW ''AUTO_DISAGGREGATION_MISMATCH'' (Some p))"

definition discovered_parents :: "parents \<Rightarrow> pystr list \<Rightarrow> pystr list" where
  "discovered_parents ps cs = remdups (List.map_filter ps cs)"

definition reconcile_atk_formation :: "pystr option \<Rightarrow> pystr list \<Rightarrow> parents \<Rightarrow> (pystr \<Rightarrow> pystr option)
    \<Rightarrow> (pystr \<Rightarrow> pystr list) \<Rightarrow> reconciliation" where
  "reconcile_atk_formation doc_status submitted ps types kids =
     (if doc_status \<noteq> Some ''CHECKED_OK''
      then reconciliation_of R_PENDING ''DOCUMENT_NOT_CONFIRMED_SUCCESS'' None
      else case discovered_parents ps submitted of
        [p] \<Rightarrow>
          if types p \<noteq> Some (package_value PK_ATK)
          then reconciliation_of R_MANUAL_REVIEW ''DISCOVERED_PARENT_NOT_ATK'' None
          else if set (kids p) \<noteq> set submitted
          then reconciliation_of R_MANUAL_REVIEW ''ATK_RELATION_MISMATCH'' (Some p)
          else reconciliation_of R_RECONCILED ''ATK_PARENT_DISCOVERED_AND_RELATION_CONFIRMED'' (Some p)
      | _ \<Rightarrow> reconciliation_of R_MANUAL_REVIEW ''ATK_PARENT_DISCOVERY_AMBIGUOUS'' None)"

definition reconcile_atk_transformation :: "pystr option \<Rightarrow> pystr \<Rightarrow> pystr list \<Rightarrow> pystr list \<Rightarrow> pystr list
    \<Rightarrow> pystr \<Rightarrow> parents \<Rightarrow> reconciliation" where
  "reconcile_atk_transformation doc_status p expected actual changed kind ps =
     (if doc_status \<noteq> Some ''CHECKED_OK''
      then reconciliation_of R_PENDING ''DOCUMENT_NOT_CONFIRMED_SUCCESS'' (Some p)
      else if set actual \<noteq> set expected
      then reconciliation_of R_MANUAL_REVIEW ''ATK_RELATION_MISMATCH'' (Some p)
      else if kind \<notin> {''ADDING'', ''REMOVING''}
      then reconciliation_of R_MANUAL_REVIEW ''ATK_TRANSFORMATION_TYPE_UNKNOWN'' (Some p)
      else if all_in ps (Some p) expected \<and> (kind = ''ADDING'' \<or> none_in ps (Some p) changed)
      then reconciliation_of R_RECONCILED ''ATK_TRANSFORMATION_RELATION_CONFIRMED'' (Some p)
      else reconciliation_of R_MANUAL_REVIEW ''ATK_CHILD_PARENT_MISMATCH'' (Some p))"

definition reconcile_atk_disaggregation :: "pystr option \<Rightarrow> pystr \<Rightarrow> pystr list \<Rightarrow> pystr list \<Rightarrow> parents
    \<Rightarrow> history_event list \<Rightarrow> reconciliation" where
  "reconcile_atk_disaggregation doc_status p actual former ps hs =
     (if doc_status \<noteq> Some ''CHECKED_OK''
      then reconciliation_of R_PENDING ''DOCUMENT_NOT_CONFIRMED_SUCCESS'' (Some p)
      else if actual = [] \<and> none_in ps (Some p) former \<and> has_semantic [H_DISAGGREGATION] hs
      then reconciliation_of R_RECONCILED ''ATK_DISAGGREGATION_RELATION_AND_HISTORY_CONFIRMED'' (Some p)
      else reconciliation_of R_MANUAL_REVIEW ''ATK_DISAGGREGATION_MISMATCH'' (Some p))"

section \<open>Aggregation side effects of turnover operations\<close>

record m5_observation =
  obs_cis :: pystr
  pre_parent :: "pystr option"
  pre_parent_type :: "package_type option"
  post_parent :: "pystr option"
  target_type :: "package_type option"
  relation_read :: bool
  relation_preserved :: "bool option"
  history_semantics :: "history_semantic list"
  old_status :: "pystr option"
  remark_confirmed :: bool
  fts_color_size :: bool

definition introduction_kinds :: "pystr list" where
  "introduction_kinds = [''INTRODUCE_DOMESTIC'', ''INTRODUCE_FROM_INDIVIDUAL'',
     ''INTRODUCE_IMPORT_PRE_MANDATORY'', ''INTRODUCE_EAEU'', ''INTRODUCE_REMAINS'',
     ''INTRODUCE_CONTRACT'', ''INTRODUCE_FTS'']"

text \<open>The code left its package and the history says the package was taken apart.\<close>

definition disaggregated :: "m5_observation \<Rightarrow> bool" where
  "disaggregated v \<longleftrightarrow> post_parent v \<noteq> pre_parent v
     \<and> list_ex (\<lambda>h. h \<in> {H_DISAGGREGATION, H_AUTO_DISAGGREGATION}) (history_semantics v)"

text \<open>One turn of the loop: why it ends in a review, or none when it goes on.\<close>

definition m5_review :: "pystr \<Rightarrow> m5_observation \<Rightarrow> pystr option" where
  "m5_review k v =
     (if pre_parent v = None then None
      else if k = ''CANCEL_WITHDRAWAL'' then None
      else if k = ''WITHDRAW_DISTANCE'' \<or> k \<in> set introduction_kinds then
        (if k = ''INTRODUCE_FTS'' \<and> fts_color_size v then
           (if post_parent v \<noteq> pre_parent v
            then Some ''FTS_COLOR_SIZE_RELATION_UNEXPECTEDLY_CHANGED'' else None)
         else if \<not> disaggregated v then Some ''EXPECTED_AUTO_DISAGGREGATION_NOT_CONFIRMED'' else None)
      else if k \<in> {''RETURN_TO_CIRCULATION'', ''RETURN_REMOTE_SALE''} then
        (if target_type v \<in> {Some PK_SET, Some PK_GROUP} then
           (if relation_preserved v \<noteq> Some True
            then Some ''AGGREGATE_RETURN_RELATION_NOT_PRESERVED'' else None)
         else if \<not> disaggregated v then Some ''NESTED_RETURN_AUTO_DISAGGREGATION_NOT_CONFIRMED'' else None)
      else if k = ''WRITE_OFF'' then
        (if pre_parent_type v = Some PK_SET then Some ''WRITE_OFF_KIN_EFFECT_NOT_DOCUMENTED''
         else if pre_parent_type v \<in> {Some PK_BOX, Some PK_ATK} \<and> \<not> disaggregated v
         then Some ''WRITE_OFF_AUTO_DISAGGREGATION_NOT_CONFIRMED'' else None)
      else if k = ''REMARK'' then
        (if pre_parent_type v = Some PK_SET then
           (if old_status v = Some ''INTRODUCED'' then
              (if \<not> remark_confirmed v \<or> post_parent v \<noteq> pre_parent v
               then Some ''KIN_INTRODUCED_REMARK_REPLACEMENT_NOT_CONFIRMED'' else None)
            else if old_status v = Some ''RETIRED'' then
              (if \<not> disaggregated v then Some ''KIN_RETIRED_REMARK_DISAGGREGATION_NOT_CONFIRMED'' else None)
            else Some ''KIN_REMARK_SOURCE_STATE_UNKNOWN'')
         else if pre_parent_type v = Some PK_BOX \<and> \<not> disaggregated v
         then Some ''KITU_REMARK_AUTO_DISAGGREGATION_NOT_CONFIRMED'' else None)
      else Some ''M5_AGGREGATION_EFFECT_NOT_MODELLED'')"

definition m5_turn :: "pystr \<Rightarrow> m5_observation \<Rightarrow> reconciliation option" where
  "m5_turn k v =
     (if \<not> relation_read v
      then Some (reconciliation_of R_PENDING ''M5_AGGREGATION_RELATION_REREAD_REQUIRED'' (pre_parent v))
      else map_option (\<lambda>why. reconciliation_of R_MANUAL_REVIEW why (pre_parent v)) (m5_review k v))"

fun m5_loop :: "pystr \<Rightarrow> m5_observation list \<Rightarrow> reconciliation" where
  "m5_loop k [] = reconciliation_of R_RECONCILED ''M5_AGGREGATION_EFFECT_CONFIRMED'' None"
| "m5_loop k (v # vs) = (case m5_turn k v of Some r \<Rightarrow> r | None \<Rightarrow> m5_loop k vs)"

definition reconcile_m5_aggregation_side_effect :: "pystr \<Rightarrow> m5_observation list \<Rightarrow> reconciliation" where
  "reconcile_m5_aggregation_side_effect k vs =
     (if vs = [] then reconciliation_of R_PENDING ''M5_AGGREGATION_READBACK_REQUIRED'' None
      else m5_loop k vs)"

definition operation_evidence_hash :: "wire \<Rightarrow> pystr" where
  "operation_evidence_hash v = sha256_hex (utf8 (canonical_json (JObj v)))"

section \<open>When a result is \<open>RECONCILED\<close>\<close>

lemma reconciliation_of_simps [simp]:
  "rec_result (reconciliation_of s w p) = s" "rec_why (reconciliation_of s w p) = w"
  "discovered_parent (reconciliation_of s w p) = p"
  by (simp_all add: reconciliation_of_def)

lemma m5_turn_not_reconciled: "m5_turn k v = Some r \<Longrightarrow> rec_result r \<noteq> R_RECONCILED"
  by (auto simp: m5_turn_def split: if_splits)

lemma m5_loop_reconciled:
  "rec_result (m5_loop k vs) = R_RECONCILED \<longleftrightarrow> (\<forall>v\<in>set vs. m5_turn k v = None)"
  by (induction k vs rule: m5_loop.induct) (auto dest: m5_turn_not_reconciled split: option.splits)

lemma set_map_filter: "set (List.map_filter f xs) = {y. \<exists>x\<in>set xs. f x = Some y}"
  by (induction xs) (auto simp: List.map_filter_simps split: option.splits)

lemma discovered_single:
  "discovered_parents ps cs = [p] \<Longrightarrow> (\<exists>c\<in>set cs. ps c = Some p) \<and> (\<forall>c\<in>set cs. ps c \<in> {None, Some p})"
proof -
  assume d: "discovered_parents ps cs = [p]"
  have "set (discovered_parents ps cs) = {q. \<exists>c\<in>set cs. ps c = Some q}"
    by (auto simp: discovered_parents_def set_map_filter)
  with d have "{q. \<exists>c\<in>set cs. ps c = Some q} = {p}" by simp
  then show ?thesis by (auto simp: set_eq_iff) (metis not_None_eq)+
qed

section \<open>Properties\<close>

text \<open>Forming a package, or adding to it, is confirmed exactly when the document was accepted, the
  package has exactly the expected children, and every expected child names the package as parent.\<close>

theorem formation_reconciled_iff:
  assumes "k \<in> set (TRANSFORM_PACKAGE_ADD # form_kinds)"
  shows "rec_result (reconcile_relation k v) = R_RECONCILED \<longleftrightarrow>
     document_status v = Some ''CHECKED_OK'' \<and> set (actual_children v) = set (expected_children v)
     \<and> (\<exists>ps. child_parents v = Some ps \<and> (\<forall>c\<in>set (expected_children v). ps c = expected_parent v))"
  using assms
  by (auto simp: reconcile_relation_def relation_reason_def same_children_def
      parents_are_def all_in_def list_all_iff split: option.splits)

definition demo_evidence :: "pystr list \<Rightarrow> pystr list \<Rightarrow> parents \<Rightarrow> history_event list \<Rightarrow> relation_evidence" where
  "demo_evidence expected actual ps hs =
     \<lparr>document_status = Some ''CHECKED_OK'', expected_parent = Some ''P'', expected_children = expected,
      actual_children = actual, removed_children = [], child_parents = Some ps, history_events = hs,
      parent_status_observed = Some ''DISAGGREGATED''\<rparr>"

lemma formation_reconciled_iff_witness:
  "rec_result (reconcile_relation FORM_SET
     (demo_evidence [''A'', ''B''] [''B'', ''A''] (\<lambda>_. Some ''P'') [])) = R_RECONCILED"
  by (subst formation_reconciled_iff) (auto simp: form_kinds_def demo_evidence_def)

text \<open>A disaggregation is confirmed only with an accepted document, no child left, no former
  child still naming the package, a history event that says so and an observed state.\<close>

theorem disaggregation_reconciled_iff:
  "rec_result (reconcile_relation DISAGGREGATE_PACKAGE v) = R_RECONCILED \<longleftrightarrow>
     document_status v = Some ''CHECKED_OK'' \<and> actual_children v = []
     \<and> (\<exists>ps. child_parents v = Some ps
          \<and> (\<forall>c\<in>set (expected_children v) \<union> set (removed_children v). ps c \<noteq> expected_parent v))
     \<and> (\<exists>h\<in>set (history_events v). semantic h \<in> {H_DISAGGREGATION, H_AUTO_DISAGGREGATION})
     \<and> parent_status_observed v \<noteq> None"
  by (auto simp: reconcile_relation_def relation_reason_def form_kinds_def parents_are_def none_in_def
      has_semantic_def list_all_iff list_ex_iff split: option.splits)

lemma disaggregation_reconciled_iff_witness:
  "rec_result (reconcile_relation DISAGGREGATE_PACKAGE
     (demo_evidence [''A''] [] (\<lambda>_. None)
       [normalize_history_event (\<lambda>_. None) [(''operationType'', JStr ''DISAGGREGATION'')]])) = R_RECONCILED"
  unfolding disaggregation_reconciled_iff
  by (simp add: demo_evidence_def normalize_history_event_def history_semantic_of_def get_key_def)

text \<open>The aggregation effect of a turnover operation is confirmed exactly when there is an
  observation and the check of every observation passes; for a distance withdrawal that means each
  code that was in a package was read again, left it, and its history shows the disaggregation.\<close>

theorem withdrawal_side_effect_iff:
  "rec_result (reconcile_m5_aggregation_side_effect ''WITHDRAW_DISTANCE'' vs) = R_RECONCILED \<longleftrightarrow>
     vs \<noteq> [] \<and> (\<forall>v\<in>set vs. relation_read v \<and> (pre_parent v = None \<or> disaggregated v))"
  by (simp add: reconcile_m5_aggregation_side_effect_def m5_loop_reconciled)
    (auto simp: m5_turn_def m5_review_def split: if_splits)

definition demo_observation :: m5_observation where
  "demo_observation = \<lparr>obs_cis = ''A'', pre_parent = Some ''P'', pre_parent_type = Some PK_BOX,
     post_parent = None, target_type = None, relation_read = True, relation_preserved = None,
     history_semantics = [H_AUTO_DISAGGREGATION], old_status = None, remark_confirmed = False,
     fts_color_size = False\<rparr>"

lemma withdrawal_side_effect_iff_witness:
  "rec_result (reconcile_m5_aggregation_side_effect ''WITHDRAW_DISTANCE'' [demo_observation]) = R_RECONCILED"
  unfolding withdrawal_side_effect_iff by (simp add: demo_observation_def disaggregated_def)

text \<open>An importer package is confirmed even when a submitted child names no parent: the children
  without one are left out of the discovery, and the package's own list decides.\<close>

theorem atk_formation_reconciled_iff:
  "rec_result (reconcile_atk_formation doc_status submitted ps types kids) = R_RECONCILED \<longleftrightarrow>
     doc_status = Some ''CHECKED_OK'' \<and>
     (\<exists>p. (\<exists>c\<in>set submitted. ps c = Some p) \<and> (\<forall>c\<in>set submitted. ps c \<in> {None, Some p})
        \<and> types p = Some ''ATK'' \<and> set (kids p) = set submitted)"
proof
  assume "rec_result (reconcile_atk_formation doc_status submitted ps types kids) = R_RECONCILED"
  then obtain p where "doc_status = Some ''CHECKED_OK''" "discovered_parents ps submitted = [p]"
    "types p = Some ''ATK''" "set (kids p) = set submitted"
    by (auto simp: reconcile_atk_formation_def package_value_def split: list.splits if_splits)
  with discovered_single [of ps submitted p] show "doc_status = Some ''CHECKED_OK'' \<and>
     (\<exists>p. (\<exists>c\<in>set submitted. ps c = Some p) \<and> (\<forall>c\<in>set submitted. ps c \<in> {None, Some p})
        \<and> types p = Some ''ATK'' \<and> set (kids p) = set submitted)" by blast
next
  assume r: "doc_status = Some ''CHECKED_OK'' \<and>
     (\<exists>p. (\<exists>c\<in>set submitted. ps c = Some p) \<and> (\<forall>c\<in>set submitted. ps c \<in> {None, Some p})
        \<and> types p = Some ''ATK'' \<and> set (kids p) = set submitted)"
  then obtain p where p: "\<exists>c\<in>set submitted. ps c = Some p" "\<forall>c\<in>set submitted. ps c \<in> {None, Some p}"
    "types p = Some ''ATK''" "set (kids p) = set submitted" by blast
  have s: "set (discovered_parents ps submitted) = {p}"
    using p(1,2) by (force simp: discovered_parents_def set_map_filter)
  have "distinct (discovered_parents ps submitted)" by (simp add: discovered_parents_def)
  with s have "discovered_parents ps submitted = [p]"
    by (cases "discovered_parents ps submitted"; cases "tl (discovered_parents ps submitted)")
      (auto simp: insert_eq_iff split: if_splits)
  with r p show "rec_result (reconcile_atk_formation doc_status submitted ps types kids) = R_RECONCILED"
    by (simp add: reconcile_atk_formation_def package_value_def)
qed

lemma atk_formation_reconciled_iff_witness:
  "rec_result (reconcile_atk_formation (Some ''CHECKED_OK'') [''A'', ''B'']
     (\<lambda>c. if c = ''A'' then Some ''P'' else None) (\<lambda>_. Some ''ATK'') (\<lambda>_. [''A'', ''B''])) = R_RECONCILED"
  unfolding atk_formation_reconciled_iff by auto

end
