(* ===== verification/TurnoverText.thy ===== *)
theory TurnoverText
  imports AggregationReconcile
begin

text \<open>
  The validators of \<open>wbcz/turnover.py\<close>: texts, numbers, codes, declarations, identifiers of
  addresses, calendar days and UTC times, with the parts of the standard library they use (dates,
  \<open>strptime\<close> on one format, \<open>UUID\<close>). Days are counted from 1970-01-01, times are microseconds.
\<close>

datatype turn_error = TurnContract pystr | TurnManual pystr | TurnForeign pystr

type_synonym 'a turn = "turn_error + 'a"

section \<open>Texts and numbers\<close>

definition nonempty :: "pystr option \<Rightarrow> pystr \<Rightarrow> nat \<Rightarrow> pystr turn" where
  "nonempty v name max_len = (case v of
     None \<Rightarrow> Inl (TurnContract (name @ '' must be a string''))
   | Some s \<Rightarrow>
       if strip s \<noteq> s \<or> \<not> (1 \<le> length (strip s) \<and> length (strip s) \<le> max_len)
       then Inl (TurnContract (name @ '' must be 1..'' @ show_nat max_len
              @ '' chars without outer whitespace''))
       else Inr (strip s))"

definition matching :: "(pystr \<Rightarrow> bool) \<Rightarrow> nat \<Rightarrow> pystr \<Rightarrow> pystr \<Rightarrow> pystr \<Rightarrow> pystr turn" where
  "matching p max_len message v name =
     bind (nonempty (Some v) name max_len) (\<lambda>t.
       if p t then Inr t else Inl (TurnContract (name @ message)))"

definition turn_inn :: "pystr \<Rightarrow> pystr \<Rightarrow> pystr turn" where
  "turn_inn = matching (\<lambda>t. digits 10 t \<or> digits 12 t) 12 '' must be a 10 or 12 digit INN''"

definition turn_kpp :: "pystr \<Rightarrow> pystr \<Rightarrow> pystr turn" where
  "turn_kpp = matching (digits 9) 9 '' must be 9 digits''"

definition turn_cis :: "pystr \<Rightarrow> pystr \<Rightarrow> pystr turn" where
  "turn_cis = matching (\<lambda>t. 18 \<le> length t \<and> length t \<le> 74 \<and> \<not> has_space t) 74
     '' must be 18..74 non-whitespace chars''"

definition turn_tnved :: "pystr \<Rightarrow> pystr \<Rightarrow> pystr turn" where
  "turn_tnved = matching (digits 10) 10 '' must be a 10 digit TN VED code''"

definition turn_country :: "pystr \<Rightarrow> pystr \<Rightarrow> pystr turn" where
  "turn_country = matching (digits 3) 3 '' must be a three digit country code''"

text \<open>\<open>\d{n}/\d{6}/\d{7}\<close> for a prefix of one of the given lengths.\<close>

definition declaration_text :: "nat list \<Rightarrow> pystr \<Rightarrow> bool" where
  "declaration_text ns t \<longleftrightarrow> list_ex (\<lambda>n.
     digits n (take n t) \<and> take 1 (drop n t) = ''/'' \<and> digits 6 (take 6 (drop (n + 1) t))
     \<and> take 1 (drop (n + 7) t) = ''/'' \<and> digits 7 (drop (n + 8) t)) ns"

definition turn_declaration :: "pystr \<Rightarrow> pystr \<Rightarrow> bool \<Rightarrow> pystr turn" where
  "turn_declaration v name flexible =
     matching (declaration_text (if flexible then [2, 5, 8] else [8])) 23
       '' has invalid customs declaration format'' v name"

definition unique_cises :: "pystr list \<Rightarrow> pystr \<Rightarrow> pystr list turn" where
  "unique_cises vs name =
     (if vs = [] then Inl (TurnContract (name @ '' must be non-empty''))
      else bind (collect (\<lambda>(i, v). turn_cis v (name @ ''['' @ show_nat i @ '']'')) (enumerate 0 vs)) (\<lambda>cs.
        if \<not> distinct cs then Inl (TurnContract (name @ '' must contain unique codes'')) else Inr cs))"

section \<open>Address identifiers\<close>

fun replace_all :: "pystr \<Rightarrow> pystr \<Rightarrow> pystr" where
  "replace_all p [] = []"
| "replace_all p (c # cs) =
     (if p \<noteq> [] \<and> take (length p) (c # cs) = p then replace_all p (drop (length p - 1) cs)
      else c # replace_all p cs)"

text \<open>\<open>int(s, 16)\<close>: outer blanks, a sign, a \<open>0x\<close> prefix, hexadecimal digits with single underscores.\<close>

definition hex_value :: "char \<Rightarrow> nat" where
  "hex_value c = (if digit_char c then code c - 48 else if 97 \<le> code c then code c - 87 else code c - 55)"

fun hex_digits_value :: "nat \<Rightarrow> pystr \<Rightarrow> nat option" where
  "hex_digits_value n [] = None"
| "hex_digits_value n (c # cs) =
     (if \<not> any_hex c then None
      else (case cs of
        [] \<Rightarrow> Some (16 * n + hex_value c)
      | d # ds \<Rightarrow> hex_digits_value (16 * n + hex_value c) (if d = CHR ''_'' then ds else cs)))"

definition int_base16 :: "pystr \<Rightarrow> nat option" where
  "int_base16 s =
     (let t = strip s; u = (if startswith t ''+'' then tl t else t) in
      if startswith u ''0x'' \<or> startswith u ''0X''
      then hex_digits_value 0 (if startswith (drop 2 u) ''_'' then drop 3 u else drop 2 u)
      else hex_digits_value 0 u)"

definition hex_pad :: "nat \<Rightarrow> nat \<Rightarrow> pystr" where
  "hex_pad w n = map (\<lambda>i. hex_digit (n div 16 ^ i mod 16)) (rev [0..<w])"

definition uuid_text :: "pystr \<Rightarrow> pystr option" where
  "uuid_text s =
     (let h1 = replace_all ''uuid:'' (replace_all ''urn:'' s);
          h2 = rev (dropWhile (\<lambda>c. c \<in> set ''{}'') (rev (dropWhile (\<lambda>c. c \<in> set ''{}'') h1)));
          h = filter (\<lambda>c. c \<noteq> CHR ''-'') h2 in
      if length h \<noteq> 32 then None
      else map_option (\<lambda>n. let x = hex_pad 32 n in
        take 8 x @ ''-'' @ take 4 (drop 8 x) @ ''-'' @ take 4 (drop 12 x) @ ''-''
        @ take 4 (drop 16 x) @ ''-'' @ drop 20 x) (int_base16 h))"

definition turn_fias :: "pystr \<Rightarrow> pystr \<Rightarrow> pystr turn" where
  "turn_fias v name = bind (nonempty (Some v) name 36) (\<lambda>t. case uuid_text t of
     None \<Rightarrow> Inl (TurnContract (name @ '' must be UUID'')) | Some u \<Rightarrow> Inr u)"

section \<open>Calendar days\<close>

definition leap :: "int \<Rightarrow> bool" where
  "leap y \<longleftrightarrow> y mod 4 = 0 \<and> (y mod 100 \<noteq> 0 \<or> y mod 400 = 0)"

definition days_in_month :: "int \<Rightarrow> int \<Rightarrow> int" where
  "days_in_month y m =
     (if m = 2 then (if leap y then 29 else 28) else if m \<in> {4, 6, 9, 11} then 30 else 31)"

definition valid_date :: "int \<Rightarrow> int \<Rightarrow> int \<Rightarrow> bool" where
  "valid_date y m d \<longleftrightarrow> 1 \<le> y \<and> y \<le> 9999 \<and> 1 \<le> m \<and> m \<le> 12 \<and> 1 \<le> d \<and> d \<le> days_in_month y m"

definition days_of_civil :: "int \<Rightarrow> int \<Rightarrow> int \<Rightarrow> int" where
  "days_of_civil y m d =
     (let y' = (if m \<le> 2 then y - 1 else y); yoe = y' mod 400; mp = (m + 9) mod 12;
          doy = (153 * mp + 2) div 5 + d - 1
      in y' div 400 * 146097 + yoe * 365 + yoe div 4 - yoe div 100 + doy - 719468)"

definition digits_value :: "pystr \<Rightarrow> int" where
  "digits_value s = foldl (\<lambda>n c. 10 * n + int (code c - 48)) 0 s"

text \<open>A text that \<open>date.fromisoformat\<close> reads and \<open>isoformat\<close> gives back unchanged.\<close>

definition parse_iso_day :: "pystr \<Rightarrow> int option" where
  "parse_iso_day s =
     (let y = digits_value (take 4 s); m = digits_value (take 2 (drop 5 s)); d = digits_value (drop 8 s) in
      if length s = 10 \<and> digits 4 (take 4 s) \<and> s ! 4 = CHR ''-'' \<and> digits 2 (take 2 (drop 5 s))
         \<and> s ! 7 = CHR ''-'' \<and> digits 2 (drop 8 s) \<and> valid_date y m d
      then Some (days_of_civil y m d) else None)"

text \<open>
  A day is given as a date (a \<open>datetime\<close> stands for its calendar day) or as a text. The code words
  an unreadable text and one that is not canonical differently; here both have the second message.
\<close>

datatype day_value = DayDate int | DayText pystr

definition turn_day :: "day_value \<Rightarrow> pystr \<Rightarrow> pystr turn" where
  "turn_day v name = (case v of
     DayDate d \<Rightarrow> Inr (iso_day d)
   | DayText s \<Rightarrow> (case parse_iso_day s of
       None \<Rightarrow> Inl (TurnContract (name @ '' must be canonical yyyy-MM-dd'')) | Some _ \<Rightarrow> Inr s))"

definition day_number :: "day_value \<Rightarrow> int" where
  "day_number v = (case v of DayDate d \<Rightarrow> d | DayText s \<Rightarrow> the (parse_iso_day s))"

definition shift_year :: "int \<Rightarrow> int \<Rightarrow> int" where
  "shift_year day years = (case civil day of (y, m, d) \<Rightarrow>
     days_of_civil (y + years) m (if valid_date (y + years) m d then d else 28))"

definition bounded_day :: "day_value \<Rightarrow> pystr \<Rightarrow> int \<Rightarrow> int \<Rightarrow> pystr turn" where
  "bounded_day v name min_day max_day =
     bind (turn_day v name) (\<lambda>t.
       if day_number v < min_day then Inl (TurnContract (name @ '' is earlier than the official range''))
       else if max_day < day_number v then Inl (TurnContract (name @ '' is later than the official range''))
       else Inr t)"

section \<open>UTC times in milliseconds\<close>

text \<open>
  \<open>strptime(value, "%Y-%m-%dT%H:%M:%S.%fZ")\<close>: four digits of year, one or two of the others (a day
  may have a leading blank), one to six of the fraction, the letters in either case.
\<close>

definition split_at :: "char list \<Rightarrow> pystr \<Rightarrow> (pystr \<times> pystr) option" where
  "split_at cs s = (case dropWhile (\<lambda>c. c \<notin> set cs) s of
     [] \<Rightarrow> None | _ # r \<Rightarrow> Some (takeWhile (\<lambda>c. c \<notin> set cs) s, r))"

definition short_number :: "pystr \<Rightarrow> bool" where
  "short_number s \<longleftrightarrow> digits 1 s \<or> digits 2 s"

definition day_digits :: "pystr \<Rightarrow> pystr" where
  "day_digits s = (if length s = 2 \<and> hd s = CHR '' '' then tl s else s)"

definition fraction_micros :: "pystr \<Rightarrow> int" where
  "fraction_micros s = digits_value (s @ replicate (6 - length s) (CHR ''0''))"

definition assemble_time :: "pystr \<Rightarrow> pystr \<Rightarrow> pystr \<Rightarrow> pystr \<Rightarrow> pystr \<Rightarrow> pystr \<Rightarrow> pystr \<Rightarrow> int option" where
  "assemble_time y m d h mi s f =
     (if digits 4 y \<and> short_number m \<and> short_number (day_digits d) \<and> short_number h \<and> short_number mi
         \<and> short_number s \<and> 1 \<le> length f \<and> length f \<le> 6 \<and> list_all digit_char f
         \<and> valid_date (digits_value y) (digits_value m) (digits_value (day_digits d))
         \<and> digits_value h \<le> 23 \<and> digits_value mi \<le> 59 \<and> digits_value s \<le> 59
      then Some (((days_of_civil (digits_value y) (digits_value m) (digits_value (day_digits d)) * 24
             + digits_value h) * 60 + digits_value mi) * 60000000
             + digits_value s * 1000000 + fraction_micros f)
      else None)"

definition parse_millis_text :: "pystr \<Rightarrow> int option" where
  "parse_millis_text v =
     (case split_at ''-'' v of None \<Rightarrow> None | Some (y, r1) \<Rightarrow>
     (case split_at ''-'' r1 of None \<Rightarrow> None | Some (m, r2) \<Rightarrow>
     (case split_at ''Tt'' r2 of None \<Rightarrow> None | Some (d, r3) \<Rightarrow>
     (case split_at '':'' r3 of None \<Rightarrow> None | Some (h, r4) \<Rightarrow>
     (case split_at '':'' r4 of None \<Rightarrow> None | Some (mi, r5) \<Rightarrow>
     (case split_at ''.'' r5 of None \<Rightarrow> None | Some (s, r6) \<Rightarrow>
     (case split_at ''Zz'' r6 of None \<Rightarrow> None | Some (f, r7) \<Rightarrow>
       if r7 \<noteq> [] then None else assemble_time y m d h mi s f)))))))"

datatype time_value = TimeValue py_datetime | TimeText pystr

definition millis_text :: "int \<Rightarrow> pystr" where
  "millis_text us = take 23 (iso_utc us) @ ''Z''"

definition utc_millis :: "time_value \<Rightarrow> pystr \<Rightarrow> pystr turn" where
  "utc_millis v name = (case v of
     TimeText s \<Rightarrow> (case parse_millis_text s of
       None \<Rightarrow> Inl (TurnContract (name @ '' must be yyyy-MM-ddTHH:mm:ss.SSSZ''))
     | Some us \<Rightarrow> Inr (millis_text us))
   | TimeValue (Aware us) \<Rightarrow> Inr (millis_text us)
   | TimeValue (Naive _) \<Rightarrow> Inl (TurnContract (name @ '' must be timezone-aware datetime'')))"

section \<open>What the validators accept\<close>

lemma nonempty_Inr [simp]:
  "nonempty v name n = Inr t \<longleftrightarrow> v = Some t \<and> strip t = t \<and> t \<noteq> [] \<and> length t \<le> n"
  by (cases v) (auto simp: nonempty_def Suc_le_eq)

lemma matching_Inr [simp]:
  "matching p n message v name = Inr t \<longleftrightarrow> t = v \<and> strip v = v \<and> v \<noteq> [] \<and> length v \<le> n \<and> p v"
  by (auto simp: matching_def bind_Inr_iff)

lemma no_space_strip: "\<not> has_space v \<Longrightarrow> strip v = v"
  by (cases "v = []") (auto simp: has_space_def strip_id_iff list_ex_iff)

lemma turn_cis_Inr:
  "turn_cis v name = Inr t \<longleftrightarrow> t = v \<and> 18 \<le> length v \<and> length v \<le> 74 \<and> \<not> has_space v"
  using no_space_strip [of v] by (auto simp: turn_cis_def)

lemma digit_not_space: "digit_char c \<Longrightarrow> \<not> space_char c"
  by (auto simp: digit_char_def space_char_def)

lemma digits_no_space: "digits n v \<Longrightarrow> \<not> has_space v"
  by (auto simp: digits_def has_space_def list_all_iff list_ex_iff digit_not_space)

lemma turn_inn_Inr: "turn_inn v name = Inr t \<longleftrightarrow> t = v \<and> (digits 10 v \<or> digits 12 v)"
  using digits_no_space [of 10 v] digits_no_space [of 12 v] no_space_strip [of v]
  by (auto simp: turn_inn_def digits_def)

text \<open>The two modules agree on codes, and differ on numbers: this one takes decimal digits only.\<close>

lemma turn_cis_agg_code: "turn_cis v n = Inr t \<longleftrightarrow> agg_code v m = Inr t"
  by (auto simp: turn_cis_Inr agg_code_Inr)

lemma turn_inn_agg_inn: "turn_inn v n = Inr t \<Longrightarrow> agg_inn v m = Inr t"
  using digits_isdigit [of 10 v] digits_isdigit [of 12 v] digits_no_space [of 10 v]
    digits_no_space [of 12 v] no_space_strip [of v]
  by (auto simp: turn_inn_Inr agg_inn_Inr) (auto simp: digits_def)

lemma turn_day_Inr:
  "turn_day v name = Inr t \<longleftrightarrow> (\<exists>d. v = DayDate d \<and> t = iso_day d) \<or> (v = DayText t \<and> parse_iso_day t \<noteq> None)"
  by (cases v) (auto simp: turn_day_def split: option.splits)

end
