(* ===== verification/TurnoverModel.thy ===== *)
theory TurnoverModel
  imports TurnoverText
begin

text \<open>
  The turnover documents of \<open>wbcz/turnover.py\<close>: the operation kinds and their registry, the twelve
  document types with their wire form, and the preparation of an exact document. A wire form is the
  list of members of a JSON object, built in the order the code evaluates it, so that the first
  member that is refused is the error raised. The current day is an argument.
\<close>

section \<open>Operation kinds and their registry\<close>

datatype turnover_kind =
    INTRODUCE_DOMESTIC | INTRODUCE_FROM_INDIVIDUAL | INTRODUCE_IMPORT_PRE_MANDATORY
  | INTRODUCE_EAEU | INTRODUCE_REMAINS | INTRODUCE_CONTRACT | INTRODUCE_FTS | WITHDRAW
  | WITHDRAW_DISTANCE | RETURN_TO_CIRCULATION | RETURN_REMOTE_SALE | REMARK | WRITE_OFF
  | CANCEL_WITHDRAWAL

definition turnover_value :: "turnover_kind \<Rightarrow> pystr" where
  "turnover_value k = (case k of
     INTRODUCE_DOMESTIC \<Rightarrow> ''INTRODUCE_DOMESTIC''
   | INTRODUCE_FROM_INDIVIDUAL \<Rightarrow> ''INTRODUCE_FROM_INDIVIDUAL''
   | INTRODUCE_IMPORT_PRE_MANDATORY \<Rightarrow> ''INTRODUCE_IMPORT_PRE_MANDATORY''
   | INTRODUCE_EAEU \<Rightarrow> ''INTRODUCE_EAEU'' | INTRODUCE_REMAINS \<Rightarrow> ''INTRODUCE_REMAINS''
   | INTRODUCE_CONTRACT \<Rightarrow> ''INTRODUCE_CONTRACT'' | INTRODUCE_FTS \<Rightarrow> ''INTRODUCE_FTS''
   | WITHDRAW \<Rightarrow> ''WITHDRAW'' | WITHDRAW_DISTANCE \<Rightarrow> ''WITHDRAW_DISTANCE''
   | RETURN_TO_CIRCULATION \<Rightarrow> ''RETURN_TO_CIRCULATION''
   | RETURN_REMOTE_SALE \<Rightarrow> ''RETURN_REMOTE_SALE'' | REMARK \<Rightarrow> ''REMARK''
   | WRITE_OFF \<Rightarrow> ''WRITE_OFF'' | CANCEL_WITHDRAWAL \<Rightarrow> ''CANCEL_WITHDRAWAL'')"

definition turnover_kinds :: "turnover_kind list" where
  "turnover_kinds =
     [INTRODUCE_DOMESTIC, INTRODUCE_FROM_INDIVIDUAL, INTRODUCE_IMPORT_PRE_MANDATORY,
      INTRODUCE_EAEU, INTRODUCE_REMAINS, INTRODUCE_CONTRACT, INTRODUCE_FTS, WITHDRAW,
      WITHDRAW_DISTANCE, RETURN_TO_CIRCULATION, RETURN_REMOTE_SALE, REMARK, WRITE_OFF,
      CANCEL_WITHDRAWAL]"

definition turnover_kind_of :: "pystr \<Rightarrow> turnover_kind option" where
  "turnover_kind_of s = find (\<lambda>k. turnover_value k = s) turnover_kinds"

record turnover_definition =
  def_document_type :: pystr
  def_formats :: "pystr list"
  def_pg :: "pystr list"
  def_reasons :: "pystr list"
  def_precondition :: pystr
  def_postcondition :: pystr
  def_cancellation :: "pystr option"
  def_source_version :: pystr
  def_capability :: pystr

definition manual_lp :: "pystr \<Rightarrow> pystr list \<Rightarrow> pystr \<Rightarrow> pystr \<Rightarrow> pystr option \<Rightarrow> turnover_definition" where
  "manual_lp t reasons pre post cancel =
     \<lparr>def_document_type = t, def_formats = [''MANUAL''], def_pg = [''lp''], def_reasons = reasons,
      def_precondition = pre, def_postcondition = post, def_cancellation = cancel,
      def_source_version = ''true-api-v726.0'', def_capability = ''IMPLEMENTED''\<rparr>"

definition known_lp_return_types :: "pystr list" where
  "known_lp_return_types = [''NOT_FOR_SALE_RETURN'', ''OWN_USE_RETURN'', ''REMOTE_SALE_RETURN'',
     ''RETAIL_RETURN'', ''STATE_CONTRACT_RETURN'']"

definition unsupported_lp_return_types :: "pystr list" where
  "unsupported_lp_return_types = [''VENDING_RETURN'']"

definition turnover_registry :: "turnover_kind \<Rightarrow> turnover_definition" where
  "turnover_registry k = (case k of
     INTRODUCE_DOMESTIC \<Rightarrow>
       manual_lp ''LP_INTRODUCE_GOODS'' [] ''DOMESTIC_INTRODUCTION'' ''INTRODUCED'' None
   | INTRODUCE_FROM_INDIVIDUAL \<Rightarrow>
       manual_lp ''LK_INDI_COMMISSIONING'' [] ''INDIVIDUAL_COMMISSIONING'' ''INTRODUCED'' None
   | INTRODUCE_IMPORT_PRE_MANDATORY \<Rightarrow>
       manual_lp ''LP_GOODS_IMPORT'' [] ''IMPORT_PRE_MANDATORY'' ''INTRODUCED'' None
   | INTRODUCE_EAEU \<Rightarrow> manual_lp ''CROSSBORDER'' [] ''EAEU_INTRODUCTION'' ''INTRODUCED'' None
   | INTRODUCE_REMAINS \<Rightarrow>
       manual_lp ''LP_INTRODUCE_OST'' [''REMAINS''] ''REMAINS_INTRODUCTION'' ''INTRODUCED'' None
   | INTRODUCE_CONTRACT \<Rightarrow> manual_lp ''LK_CONTRACT_COMMISSIONING'' [''CONTRACT_PRODUCTION'']
       ''CONTRACT_INTRODUCTION'' ''INTRODUCED'' None
   | INTRODUCE_FTS \<Rightarrow> manual_lp ''LP_FTS_INTRODUCE'' [] ''FTS_INTRODUCTION'' ''INTRODUCED'' None
   | WITHDRAW \<Rightarrow>
       (manual_lp ''LK_RECEIPT'' [] ''WITHDRAWAL_REFERENCE_ONLY'' ''UNKNOWN'' (Some ''LK_RECEIPT_CANCEL''))
       \<lparr>def_capability := ''NOT_EXECUTABLE_EXACT_REASON_CONTRACTS_UNAVAILABLE''\<rparr>
   | WITHDRAW_DISTANCE \<Rightarrow> manual_lp ''LK_RECEIPT'' [''DISTANCE''] ''DISTANCE_WITHDRAWAL''
       ''RETIRED:DISTANCE'' (Some ''LK_RECEIPT_CANCEL'')
   | RETURN_TO_CIRCULATION \<Rightarrow>
       (manual_lp ''LP_RETURN'' known_lp_return_types ''RETURN_REASON_MATRIX'' ''INTRODUCED'' None)
       \<lparr>def_capability := ''FAIL_CLOSED_MATRIX_GATED''\<rparr>
   | RETURN_REMOTE_SALE \<Rightarrow>
       manual_lp ''LP_RETURN'' [''REMOTE_SALE_RETURN''] ''REMOTE_SALE_RETURN'' ''INTRODUCED'' None
   | REMARK \<Rightarrow> manual_lp ''LK_REMARK''
       [''DESCRIPTION_ERRORS'', ''RETAIL_RETURN'', ''REMOTE_SALE_RETURN'', ''KM_SPOILED'']
       ''REMARK'' ''INTRODUCED'' None
   | WRITE_OFF \<Rightarrow> manual_lp ''WRITE_OFF'' [] ''WRITE_OFF'' ''WRITTEN_OFF'' None
   | CANCEL_WITHDRAWAL \<Rightarrow> manual_lp ''LK_RECEIPT_CANCEL'' [] ''CANCEL_ELIGIBLE_LK_RECEIPT''
       ''RESTORE_FROM_ORIGINAL'' (Some ''LK_RECEIPT''))"

definition m5_document_types :: "pystr list" where
  "m5_document_types = remdups (map (\<lambda>k. def_document_type (turnover_registry k)) turnover_kinds)"

definition document_type_for_operation :: "pystr \<Rightarrow> pystr turn" where
  "document_type_for_operation name = (case turnover_kind_of name of
     None \<Rightarrow> Inl (TurnContract ''unsupported turnover operation'')
   | Some k \<Rightarrow> Inr (def_document_type (turnover_registry k)))"

section \<open>Members of a wire form\<close>

fun members :: "wire turn list \<Rightarrow> wire turn" where
  "members [] = Inr []"
| "members (m # ms) = bind m (\<lambda>a. bind (members ms) (\<lambda>b. Inr (a @ b)))"

definition text_member :: "pystr \<Rightarrow> pystr turn \<Rightarrow> wire turn" where
  "text_member k r = bind r (\<lambda>t. Inr [(k, JStr t)])"

definition list_member :: "pystr \<Rightarrow> wire list turn \<Rightarrow> wire turn" where
  "list_member k r = bind r (\<lambda>ws. Inr [(k, JList (map JObj ws))])"

definition given :: "'a option \<Rightarrow> ('a \<Rightarrow> wire turn) \<Rightarrow> wire turn" where
  "given v f = (case v of None \<Rightarrow> Inr [] | Some x \<Rightarrow> f x)"

definition contract :: "bool \<Rightarrow> pystr \<Rightarrow> wire turn" where
  "contract b message = (if b then Inr [] else Inl (TurnContract message))"

definition review :: "bool \<Rightarrow> pystr \<Rightarrow> wire turn" where
  "review b message = (if b then Inr [] else Inl (TurnManual message))"

text \<open>The value of a key in a wire form, the empty text when it is not a text.\<close>

definition wire_text :: "pystr \<Rightarrow> wire \<Rightarrow> pystr" where
  "wire_text k w = (case get_key k w of JStr t \<Rightarrow> t | _ \<Rightarrow> [])"

lemma members_Inr_Cons:
  "members (m # ms) = Inr w \<longleftrightarrow> (\<exists>a b. m = Inr a \<and> members ms = Inr b \<and> w = a @ b)"
  by (auto simp: bind_Inr_iff)

lemma ok_members [simp]: "ok (members ms) \<longleftrightarrow> (\<forall>m\<in>set ms. ok m)"
proof (induction ms)
  case (Cons m ms)
  then show ?case by (cases m; cases "members ms") auto
qed simp

declare members.simps(2) [simp del]

lemma ok_contract [simp]: "ok (contract b m) = b" "ok (review b m) = b"
  by (simp_all add: contract_def review_def)

lemma ok_text_member [simp]: "ok (text_member k r) = ok r"
  by (cases r) (simp_all add: text_member_def)

lemma ok_list_member [simp]: "ok (list_member k r) = ok r"
  by (cases r) (simp_all add: list_member_def)

lemma ok_given [simp]: "ok (given v f) \<longleftrightarrow> (\<forall>x. v = Some x \<longrightarrow> ok (f x))"
  by (cases v) (simp_all add: given_def)

section \<open>Shared parts of documents\<close>

record permit =
  certificate_type :: pystr
  certificate_number :: pystr
  certificate_date :: day_value

definition permit_wire :: "permit \<Rightarrow> wire turn" where
  "permit_wire p = members
     [text_member ''certificate_type'' (nonempty (Some (certificate_type p)) ''certificate_type'' 64),
      text_member ''certificate_number'' (nonempty (Some (certificate_number p)) ''certificate_number'' 255),
      text_member ''certificate_date'' (turn_day (certificate_date p) ''certificate_date'')]"

record primary_document =
  primary_type :: pystr
  primary_number :: pystr
  primary_date :: day_value
  custom_name :: "pystr option"

definition primary_common :: "primary_document \<Rightarrow> pystr \<Rightarrow> pystr \<Rightarrow> pystr \<Rightarrow> pystr list \<Rightarrow> wire turn" where
  "primary_common v kind_name number_name date_name allowed =
     bind (nonempty (Some (primary_type v)) kind_name 32) (\<lambda>t.
       let kind = upper t in members
         [contract (kind \<in> set allowed) (''unsupported '' @ kind_name),
          text_member kind_name (Inr kind),
          text_member number_name (nonempty (Some (primary_number v)) number_name 255),
          text_member date_name (turn_day (primary_date v) date_name),
          (if kind = ''OTHER''
           then text_member ''primary_document_custom_name''
                  (nonempty (custom_name v) ''primary_document_custom_name'' 255)
           else contract (blank (custom_name v))
                  ''primary_document_custom_name must be absent unless type=OTHER'')])"

definition return_primary_types :: "pystr list" where
  "return_primary_types = [''RECEIPT'', ''SALES_RECEIPT'', ''OTHER'']"

definition return_primary_types_of :: "pystr \<Rightarrow> pystr list" where
  "return_primary_types_of t =
     (if t \<in> {''REMOTE_SALE_RETURN'', ''RETAIL_RETURN''} then return_primary_types
      else if t = ''NOT_FOR_SALE_RETURN'' then [''OTHER''] else [])"

definition withdraw_distance_primary_types :: "pystr list" where
  "withdraw_distance_primary_types =
     [''RECEIPT'', ''SALES_RECEIPT'', ''OTHER'', ''CONSIGNMENT_NOTE'', ''UTD'']"

definition primary_return_wire :: "pystr list \<Rightarrow> primary_document \<Rightarrow> wire turn" where
  "primary_return_wire allowed v = primary_common v ''primary_document_type''
     ''primary_document_number'' ''primary_document_date'' allowed"

definition primary_withdrawal_wire :: "primary_document \<Rightarrow> wire turn" where
  "primary_withdrawal_wire v = primary_common v ''document_type'' ''document_number'' ''document_date''
     withdraw_distance_primary_types"

definition primary_remark_wire :: "pystr \<Rightarrow> primary_document \<Rightarrow> wire turn" where
  "primary_remark_wire cause v = members
     [contract (cause \<in> {''RETAIL_RETURN'', ''REMOTE_SALE_RETURN''})
        ''primary document is unsupported for this M5 remarking cause'',
      primary_return_wire return_primary_types v]"

record mod_location =
  mod_fias :: pystr
  legal_entity :: bool
  mod_kpp :: "pystr option"

definition mod_wire :: "mod_location \<Rightarrow> wire turn" where
  "mod_wire v = members
     [text_member ''fias_id'' (turn_fias (mod_fias v) ''fias_id''),
      (if legal_entity v then (case mod_kpp v of
         None \<Rightarrow> Inl (TurnContract ''legal entity MOD requires kpp'')
       | Some k \<Rightarrow> text_member ''kpp'' (turn_kpp k ''kpp''))
       else contract (mod_kpp v = None) ''individual entrepreneur MOD must not contain kpp'')]"

text \<open>Four product classes differ only in the name of the code's key.\<close>

record coded_product =
  product_code :: pystr
  product_tnved :: pystr
  permits :: "permit list"

definition permits_wire :: "permit list \<Rightarrow> wire turn" where
  "permits_wire ps =
     (if ps = [] then Inr [] else list_member ''certificate_document_data'' (collect permit_wire ps))"

definition coded_product_wire :: "pystr \<Rightarrow> coded_product \<Rightarrow> wire turn" where
  "coded_product_wire key p = members
     [text_member key (turn_cis (product_code p) key),
      text_member ''tnved_code'' (turn_tnved (product_tnved p) ''tnved_code''),
      permits_wire (permits p)]"

definition introduce_product_wire :: "coded_product \<Rightarrow> wire turn" where
  "introduce_product_wire = coded_product_wire ''uit_code''"

definition import_product_wire :: "coded_product \<Rightarrow> wire turn" where
  "import_product_wire = coded_product_wire ''uit_code''"

definition crossborder_product_wire :: "coded_product \<Rightarrow> wire turn" where
  "crossborder_product_wire = coded_product_wire ''ki''"

definition contract_product_wire :: "coded_product \<Rightarrow> wire turn" where
  "contract_product_wire = coded_product_wire ''uit''"

section \<open>Introduction documents\<close>

record introduce_goods =
  ig_participant :: pystr
  ig_producer :: pystr
  ig_owner :: pystr
  ig_products :: "coded_product list"
  ig_production_date :: "day_value option"
  ig_production_type :: pystr

definition introduce_goods_wire :: "introduce_goods \<Rightarrow> wire turn" where
  "introduce_goods_wire d = members
     [contract (ig_production_type d = ''OWN_PRODUCTION'')
        ''LP_INTRODUCE_GOODS production_type must be OWN_PRODUCTION'',
      contract (ig_products d \<noteq> []) ''products must be non-empty'',
      text_member ''participant_inn'' (turn_inn (ig_participant d) ''participant_inn''),
      text_member ''producer_inn'' (turn_inn (ig_producer d) ''producer_inn''),
      text_member ''owner_inn'' (turn_inn (ig_owner d) ''owner_inn''),
      text_member ''production_type'' (Inr ''OWN_PRODUCTION''),
      list_member ''products'' (collect introduce_product_wire (ig_products d)),
      given (ig_production_date d) (\<lambda>v. text_member ''production_date'' (turn_day v ''production_date''))]"

datatype individual_product = IndividualProduct (ip_uit: "pystr option") (ip_uitu: "pystr option")
  (ip_received: "time_value option") (ip_name: "pystr option") (ip_children: "individual_product list")

lemma collect_cong [fundef_cong]:
  "xs = ys \<Longrightarrow> (\<And>x. x \<in> set ys \<Longrightarrow> f x = g x) \<Longrightarrow> collect f xs = collect g ys"
  by (induction xs arbitrary: ys) auto

definition individual_code :: "pystr option \<Rightarrow> pystr option \<Rightarrow> wire turn" where
  "individual_code uit uitu = (case (uit, uitu) of
     (Some c, None) \<Rightarrow> text_member ''uit'' (turn_cis c ''uit'')
   | (None, Some c) \<Rightarrow> text_member ''uitu'' (turn_cis c ''uitu'')
   | _ \<Rightarrow> Inl (TurnContract ''individual product requires exactly one of uit/uitu''))"

fun individual_wire :: "individual_product \<Rightarrow> wire turn" where
  "individual_wire (IndividualProduct uit uitu received name children) = members
     [individual_code uit uitu,
      given received (\<lambda>t. text_member ''product_receiving_date'' (utc_millis t ''product_receiving_date'')),
      given name (\<lambda>n. text_member ''productName'' (nonempty (Some n) ''productName'' 255)),
      (if children = [] then Inr [] else list_member ''children'' (collect individual_wire children))]"

record individual_commissioning =
  ic_participant :: pystr
  ic_products :: "individual_product list"
  ic_received :: "time_value option"

definition individual_commissioning_wire :: "individual_commissioning \<Rightarrow> wire turn" where
  "individual_commissioning_wire d = members
     [contract (ic_products d \<noteq> []) ''products_list must be non-empty'',
      text_member ''participant_inn'' (turn_inn (ic_participant d) ''participant_inn''),
      list_member ''products_list'' (collect individual_wire (ic_products d)),
      given (ic_received d)
        (\<lambda>t. text_member ''product_receiving_date'' (utc_millis t ''product_receiving_date''))]"

record goods_import =
  gi_participant :: pystr
  gi_declaration_date :: day_value
  gi_declaration_number :: pystr
  gi_customs_code :: pystr
  gi_decision_code :: pystr
  gi_products :: "coded_product list"

text \<open>\<open>isdigit\<close> of exactly \<open>n\<close> characters; \<open>int\<close> then raises on a superscript digit.\<close>

definition n_isdigit :: "nat list \<Rightarrow> pystr \<Rightarrow> bool" where
  "n_isdigit ns t \<longleftrightarrow> isdigit t \<and> length t \<in> set ns"

definition python_int :: "pystr \<Rightarrow> int turn" where
  "python_int t = (if list_all digit_char t then Inr (digits_value t) else Inl (TurnForeign ''ValueError''))"

definition goods_import_wire :: "goods_import \<Rightarrow> wire turn" where
  "goods_import_wire d = members
     [contract (gi_products d \<noteq> []) ''products must be non-empty'',
      bind (nonempty (Some (gi_customs_code d)) ''customs_code'' 8) (\<lambda>c.
        contract (n_isdigit [8] c) ''customs_code must be 8 digits''),
      bind (nonempty (Some (gi_decision_code d)) ''decision_code'' 2) (\<lambda>c.
        contract (n_isdigit [2] c) ''decision_code must be a two digit classifier code''),
      text_member ''participant_inn'' (turn_inn (gi_participant d) ''participant_inn''),
      text_member ''declaration_date'' (turn_day (gi_declaration_date d) ''declaration_date''),
      text_member ''declaration_number''
        (turn_declaration (gi_declaration_number d) ''declaration_number'' False),
      text_member ''customs_code'' (Inr (gi_customs_code d)),
      bind (python_int (gi_decision_code d)) (\<lambda>i. Inr [(''decision_code'', JInt i)]),
      list_member ''products'' (collect import_product_wire (gi_products d))]"

record crossborder =
  cb_participant :: pystr
  cb_sender :: pystr
  cb_exporter :: pystr
  cb_country :: pystr
  cb_import_date :: day_value
  cb_primary_number :: pystr
  cb_primary_date :: day_value
  cb_products :: "coded_product list"

definition crossborder_wire :: "crossborder \<Rightarrow> wire turn" where
  "crossborder_wire d = members
     [contract (cb_products d \<noteq> []) ''products_list must be non-empty'',
      bind (nonempty (Some (cb_sender d)) ''sender_tax_number'' 14) (\<lambda>s.
        contract (n_isdigit [8, 9, 12, 14] s) ''sender_tax_number must contain 8, 9, 12 or 14 digits''),
      bind (turn_country (cb_country d) ''country_oksm'') (\<lambda>c.
        contract (c \<in> {''051'', ''112'', ''398'', ''417''})
          ''country_oksm is not a supported EAEU source country''),
      text_member ''trade_participant_inn'' (turn_inn (cb_participant d) ''trade_participant_inn''),
      text_member ''sender_tax_number'' (Inr (cb_sender d)),
      text_member ''exporter_name'' (nonempty (Some (cb_exporter d)) ''exporter_name'' 255),
      text_member ''country_oksm'' (Inr (cb_country d)),
      text_member ''import_date'' (turn_day (cb_import_date d) ''import_date''),
      text_member ''primary_document_number''
        (nonempty (Some (cb_primary_number d)) ''primary_document_number'' 255),
      text_member ''primary_document_date'' (turn_day (cb_primary_date d) ''primary_document_date''),
      list_member ''products_list'' (collect crossborder_product_wire (cb_products d))]"

record remains_product =
  rp_ki :: pystr
  rp_country :: pystr
  rp_declaration_number :: pystr
  rp_declaration_date :: day_value
  rp_permits :: "permit list"

definition remains_product_wire :: "remains_product \<Rightarrow> wire turn" where
  "remains_product_wire p = members
     [text_member ''ki'' (turn_cis (rp_ki p) ''ki''),
      text_member ''country'' (turn_country (rp_country p) ''country''),
      text_member ''declaration_number''
        (turn_declaration (rp_declaration_number p) ''declaration_number'' True),
      text_member ''declaration_date'' (turn_day (rp_declaration_date p) ''declaration_date''),
      permits_wire (rp_permits p)]"

text \<open>The loop over products followed by the test that a key's values differ.\<close>

definition distinct_products :: "pystr \<Rightarrow> pystr \<Rightarrow> ('a \<Rightarrow> wire turn) \<Rightarrow> 'a list \<Rightarrow> wire list turn" where
  "distinct_products key message f xs = bind (collect f xs) (\<lambda>ws.
     if distinct (map (wire_text key) ws) then Inr ws else Inl (TurnContract message))"

record introduce_ost =
  io_participant :: pystr
  io_products :: "remains_product list"

definition introduce_ost_wire :: "introduce_ost \<Rightarrow> wire turn" where
  "introduce_ost_wire d = bind (contract (io_products d \<noteq> []) ''products_list must be non-empty'') (\<lambda>_.
     bind (distinct_products ''ki'' ''products_list[].ki must be unique''
             remains_product_wire (io_products d)) (\<lambda>ws. members
       [text_member ''trade_participant_inn'' (turn_inn (io_participant d) ''trade_participant_inn''),
        list_member ''products_list'' (Inr ws)]))"

record contract_commissioning =
  cc_producer :: pystr
  cc_owner :: pystr
  cc_products :: "coded_product list"
  cc_production_date :: "day_value option"

definition contract_commissioning_wire :: "contract_commissioning \<Rightarrow> wire turn" where
  "contract_commissioning_wire d = members
     [contract (cc_products d \<noteq> []) ''products_list must be non-empty'',
      text_member ''producer_inn'' (turn_inn (cc_producer d) ''producer_inn''),
      text_member ''owner_inn'' (turn_inn (cc_owner d) ''owner_inn''),
      text_member ''production_order'' (Inr ''CONTRACT_PRODUCTION''),
      list_member ''products_list'' (collect contract_product_wire (cc_products d)),
      given (cc_production_date d) (\<lambda>v. text_member ''production_date'' (turn_day v ''production_date''))]"

record fts_product =
  fts_cis :: pystr
  fts_color :: pystr
  fts_size :: pystr

definition fts_product_wire :: "fts_product \<Rightarrow> wire turn" where
  "fts_product_wire p = members
     [text_member ''cis'' (turn_cis (fts_cis p) ''cis''),
      text_member ''color'' (nonempty (Some (fts_color p)) ''color'' 1024),
      text_member ''productSize'' (nonempty (Some (fts_size p)) ''productSize'' 1024)]"

record fts_introduce =
  fi_participant :: pystr
  fi_declaration_number :: pystr
  fi_declaration_date :: day_value
  fi_products :: "fts_product list"

definition fts_introduce_wire :: "fts_introduce \<Rightarrow> wire turn" where
  "fts_introduce_wire d = members
     [contract (fi_products d \<noteq> []) ''products_list must be non-empty'',
      text_member ''trade_participant_inn'' (turn_inn (fi_participant d) ''trade_participant_inn''),
      text_member ''declaration_number''
        (turn_declaration (fi_declaration_number d) ''declaration_number'' False),
      text_member ''declaration_date'' (turn_day (fi_declaration_date d) ''declaration_date''),
      list_member ''products_list'' (collect fts_product_wire (fi_products d))]"

end
