(* ===== verification/TurnoverDocuments.thy ===== *)
theory TurnoverDocuments
  imports TurnoverModel
begin

text \<open>
  The withdrawal, return, re-marking, write-off and cancellation documents of
  \<open>wbcz/turnover.py\<close>, the union of all twelve document types, and the preparation of an exact
  document. The properties say when a return document is accepted and what a preparation freezes.
\<close>

section \<open>Withdrawal\<close>

record withdrawal_product =
  wp_cis :: pystr
  wp_cost :: int

definition withdrawal_product_wire :: "withdrawal_product \<Rightarrow> wire turn" where
  "withdrawal_product_wire p = members
     [contract (0 \<le> wp_cost p \<and> wp_cost p \<le> 99999999999999999)
        ''product_cost must be integer kopecks in official 0..99999999999999999 range'',
      text_member ''cis'' (turn_cis (wp_cis p) ''cis''),
      Inr [(''product_cost'', JInt (wp_cost p))]]"

record receipt_distance =
  rd_inn :: pystr
  rd_action_date :: day_value
  rd_products :: "withdrawal_product list"
  rd_mod :: mod_location
  rd_primary :: "primary_document option"

definition receipt_distance_wire :: "int \<Rightarrow> receipt_distance \<Rightarrow> wire turn" where
  "receipt_distance_wire today d =
     bind (contract (rd_products d \<noteq> []) ''products must be non-empty'') (\<lambda>_.
     bind (distinct_products ''cis'' ''products[].cis must be unique''
             withdrawal_product_wire (rd_products d)) (\<lambda>ws. members
       [text_member ''inn'' (turn_inn (rd_inn d) ''inn''),
        text_member ''action'' (Inr ''DISTANCE''),
        text_member ''action_date''
          (bounded_day (rd_action_date d) ''action_date'' (shift_year today (-5)) today),
        mod_wire (rd_mod d),
        list_member ''products'' (Inr ws),
        given (rd_primary d) primary_withdrawal_wire]))"

section \<open>Return\<close>

record return_product =
  rt_ki :: pystr
  rt_paid :: "bool option"
  rt_primary :: "primary_document option"
  rt_permit :: "permit option"

definition return_product_wire :: "pystr list \<Rightarrow> return_product \<Rightarrow> wire turn" where
  "return_product_wire allowed p = members
     [text_member ''ki'' (turn_cis (rt_ki p) ''ki''),
      given (rt_paid p) (\<lambda>b. Inr [(''paid'', JBool b)]),
      given (rt_primary p) (primary_return_wire allowed),
      given (rt_permit p) permit_wire]"

record lp_return =
  lr_participant :: pystr
  lr_products :: "return_product list"
  lr_paid :: "bool option"
  lr_primary :: "primary_document option"
  lr_permit :: "permit option"
  lr_contract_id :: "pystr option"
  lr_type :: pystr

definition validated_state_contract_id :: "pystr \<Rightarrow> pystr turn" where
  "validated_state_contract_id v = bind (nonempty (Some v) ''state_contract_id'' 25) (\<lambda>t.
     if \<not> digits 25 t then Inl (TurnContract ''state_contract_id must contain exactly 25 digits'')
     else if t ! 12 \<notin> {CHR ''1'', CHR ''2'', CHR ''3''}
     then Inl (TurnContract ''state_contract_id 13th character must be 1, 2, or 3'')
     else Inr t)"

definition effective :: "'a option \<Rightarrow> 'a option \<Rightarrow> 'a option" where
  "effective item root = (case item of None \<Rightarrow> root | Some x \<Rightarrow> Some x)"

definition return_type_checks :: "lp_return \<Rightarrow> wire turn" where
  "return_type_checks d = members
     [review (lr_type d \<notin> set unsupported_lp_return_types) ''RETURN_TYPE_NOT_APPLICABLE_TO_LP'',
      review (lr_type d \<in> set known_lp_return_types) ''RETURN_TYPE_MATRIX_NOT_CONFIRMED_FOR_LP'',
      contract (lr_products d \<noteq> []) ''products_list must be non-empty'',
      contract (lr_type d = ''REMOTE_SALE_RETURN''
          \<or> (lr_paid d = None \<and> list_all (\<lambda>p. rt_paid p = None) (lr_products d)))
        ''paid must be absent unless return_type=REMOTE_SALE_RETURN'']"

definition contract_id_member :: "lp_return \<Rightarrow> wire turn" where
  "contract_id_member d =
     (if lr_type d = ''STATE_CONTRACT_RETURN''
      then (case lr_contract_id d of
          None \<Rightarrow> Inl (TurnManual ''STATE_CONTRACT_ID_REQUIRED'')
        | Some c \<Rightarrow> text_member ''state_contract_id'' (validated_state_contract_id c))
      else contract (lr_contract_id d = None)
             ''state_contract_id must be absent unless return_type=STATE_CONTRACT_RETURN'')"

definition bare_return :: "pystr \<Rightarrow> bool" where
  "bare_return t \<longleftrightarrow> t \<in> {''OWN_USE_RETURN'', ''STATE_CONTRACT_RETURN''}"

definition return_evidence_checks :: "lp_return \<Rightarrow> wire turn" where
  "return_evidence_checks d = members
     [contract (\<not> bare_return (lr_type d)
          \<or> (lr_primary d = None \<and> list_all (\<lambda>p. rt_primary p = None) (lr_products d)))
        (''primary document must be absent for '' @ lr_type d),
      contract (\<not> bare_return (lr_type d)
          \<or> (lr_permit d = None \<and> list_all (\<lambda>p. rt_permit p = None) (lr_products d)))
        (''certificate data must be absent for '' @ lr_type d),
      contract (lr_permit d = None \<or> list_all (\<lambda>p. rt_permit p = None) (lr_products d))
        ''certificate data must be root-level or item-level, not both'']"

definition return_item_wire :: "lp_return \<Rightarrow> return_product \<Rightarrow> wire turn" where
  "return_item_wire d p =
     (let primary = effective (rt_primary p) (lr_primary d);
          paid = effective (rt_paid p) (lr_paid d) in members
      [(if lr_type d = ''REMOTE_SALE_RETURN'' then members
          [review (paid \<noteq> None) ''LP_RETURN_PAID_REQUIRED'',
           review (\<not> (paid = Some True \<and> primary = None)) ''LP_RETURN_PRIMARY_DOCUMENT_REQUIRED'',
           contract (\<not> (paid = Some False \<and> primary \<noteq> None))
             ''primary document must be absent when REMOTE_SALE_RETURN effective paid=false'']
        else if lr_type d \<in> {''RETAIL_RETURN'', ''NOT_FOR_SALE_RETURN''}
        then review (primary \<noteq> None) ''LP_RETURN_PRIMARY_DOCUMENT_REQUIRED''
        else Inr []),
       return_product_wire (return_primary_types_of (lr_type d)) p])"

definition lp_return_wire :: "lp_return \<Rightarrow> wire turn" where
  "lp_return_wire d =
     bind (return_type_checks d) (\<lambda>_.
     bind (contract_id_member d) (\<lambda>contract_id.
     bind (return_evidence_checks d) (\<lambda>_.
     bind (given (lr_primary d) (primary_return_wire (return_primary_types_of (lr_type d)))) (\<lambda>primary.
     bind (distinct_products ''ki'' ''products_list[].ki must be unique''
             (return_item_wire d) (lr_products d)) (\<lambda>ws. members
       [text_member ''trade_participant_inn'' (turn_inn (lr_participant d) ''trade_participant_inn''),
        text_member ''return_type'' (Inr (lr_type d)),
        list_member ''products_list'' (Inr ws),
        (if lr_type d = ''REMOTE_SALE_RETURN''
         then given (lr_paid d) (\<lambda>b. Inr [(''paid'', JBool b)]) else Inr []),
        Inr primary,
        given (lr_permit d) permit_wire,
        Inr contract_id])))))"

section \<open>Re-marking\<close>

record remark_product =
  rm_new :: pystr
  rm_last :: "pystr option"
  rm_tnved :: "pystr option"
  rm_primary :: "primary_document option"
  rm_permits :: "permit list"

definition remark_product_wire :: "pystr \<Rightarrow> remark_product \<Rightarrow> wire turn" where
  "remark_product_wire cause p = members
     [text_member ''new_uin'' (turn_cis (rm_new p) ''new_uin''),
      given (rm_last p) (\<lambda>c. text_member ''last_uin'' (turn_cis c ''last_uin'')),
      (case rm_tnved p of
         Some t \<Rightarrow> text_member ''tnved_10'' (turn_tnved t ''tnved_10'')
       | None \<Rightarrow> contract (rm_last p \<noteq> None) ''tnved_10 is required when last_uin is absent''),
      contract (\<not> (cause = ''DESCRIPTION_ERRORS'' \<and> rm_last p = None))
        ''DESCRIPTION_ERRORS requires last_uin'',
      given (rm_primary p) (primary_remark_wire cause),
      permits_wire (rm_permits p)]"

record lk_remark =
  lm_participant :: pystr
  lm_date :: day_value
  lm_cause :: pystr
  lm_products :: "remark_product list"

definition lk_remark_wire :: "int \<Rightarrow> lk_remark \<Rightarrow> wire turn" where
  "lk_remark_wire today d = bind (nonempty (Some (lm_cause d)) ''remarking_cause'' 64) (\<lambda>cause. members
     [contract (lm_products d \<noteq> []) ''products must be non-empty'',
      text_member ''participant_inn'' (turn_inn (lm_participant d) ''participant_inn''),
      text_member ''remarking_date''
        (bounded_day (lm_date d) ''remarking_date'' (shift_year today (-5)) today),
      text_member ''remarking_cause'' (Inr cause),
      list_member ''products'' (collect (remark_product_wire cause) (lm_products d))])"

section \<open>Write-off and cancellation\<close>

record write_off =
  wo_participant :: pystr
  wo_reason :: pystr
  wo_source_type :: pystr
  wo_source_num :: pystr
  wo_source_date :: day_value
  wo_sntins :: "pystr list"
  wo_source_name :: "pystr option"
  wo_country :: "pystr option"
  wo_buyer :: "pystr option"
  wo_fias :: "pystr option"
  wo_kpp :: "pystr option"
  wo_with_child :: "bool option"

definition export_reason :: "pystr \<Rightarrow> bool" where
  "export_reason r \<longleftrightarrow> r \<in> {''EAS_TRADE'', ''BEYOND_EEC_EXPORT''}"

definition write_off_sources :: "pystr \<Rightarrow> pystr \<Rightarrow> wire turn" where
  "write_off_sources why source = members
     [contract (source \<in> {''DESTRUCTION_ACT'', ''CUSTOMS_DECLARATION'', ''OTHER''})
        ''unsupported sourceDocType'',
      (if export_reason why
       then contract (source \<in> {''CUSTOMS_DECLARATION'', ''OTHER''})
              ''export write-off sourceDocType must be CUSTOMS_DECLARATION or OTHER''
       else contract (source \<noteq> ''CUSTOMS_DECLARATION'')
              ''CUSTOMS_DECLARATION is only accepted for export write-off reasons''),
      contract (\<not> (source = ''DESTRUCTION_ACT'' \<and> why \<noteq> ''DESTRUCTION''))
        ''DESTRUCTION_ACT requires dropoutReason=DESTRUCTION'']"

definition eas_trade_wire :: "pystr option \<Rightarrow> pystr option \<Rightarrow> wire turn" where
  "eas_trade_wire country buyer = (case (country, buyer) of
     (Some c, Some b) \<Rightarrow> members
       [text_member ''destinationCountryCode'' (turn_country c ''destinationCountryCode''),
        text_member ''buyerId'' (nonempty (Some b) ''buyerId'' 64)]
   | _ \<Rightarrow> Inl (TurnContract ''EAS_TRADE requires destinationCountryCode and buyerId''))"

definition write_off_wire :: "int \<Rightarrow> write_off \<Rightarrow> wire turn" where
  "write_off_wire today d =
     bind (unique_cises (wo_sntins d) ''sntins'') (\<lambda>codes.
     bind (nonempty (Some (wo_reason d)) ''dropoutReason'' 64) (\<lambda>reason.
     bind (nonempty (Some (wo_source_type d)) ''sourceDocType'' 64) (\<lambda>s.
       let source = upper s in members
       [write_off_sources reason source,
        text_member ''participantId'' (turn_inn (wo_participant d) ''participantId''),
        text_member ''dropoutReason'' (Inr reason),
        text_member ''sourceDocType'' (Inr source),
        text_member ''sourceDocNum'' (nonempty (Some (wo_source_num d)) ''sourceDocNum'' 255),
        text_member ''sourceDocDate''
          (bounded_day (wo_source_date d) ''sourceDocDate'' (shift_year today (-5)) (today + 30)),
        Inr [(''sntins'', str_list codes)],
        (if source = ''OTHER''
         then text_member ''sourceDocName'' (nonempty (wo_source_name d) ''sourceDocName'' 255)
         else contract (blank (wo_source_name d))
                ''sourceDocName must be absent unless sourceDocType=OTHER''),
        (if reason = ''EAS_TRADE'' then eas_trade_wire (wo_country d) (wo_buyer d)
         else contract (wo_country d = None \<and> wo_buyer d = None)
                ''destinationCountryCode/buyerId are only accepted for EAS_TRADE''),
        given (wo_fias d) (\<lambda>f. text_member ''fiasId'' (turn_fias f ''fiasId'')),
        given (wo_kpp d) (\<lambda>k. text_member ''kpp'' (turn_kpp k ''kpp'')),
        given (wo_with_child d) (\<lambda>b. Inr [(''withChild'', JBool b)])])))"

definition receipt_cancel_wire :: "pystr \<Rightarrow> pystr \<Rightarrow> wire turn" where
  "receipt_cancel_wire inn receipt_id = members
     [text_member ''inn'' (turn_inn inn ''inn''),
      text_member ''lk_receipt_id'' (nonempty (Some receipt_id) ''lk_receipt_id'' 512)]"

section \<open>The documents together\<close>

datatype turnover_document =
    LpIntroduceGoods introduce_goods
  | LkIndiCommissioning individual_commissioning
  | LpGoodsImport goods_import
  | Crossborder crossborder
  | LpIntroduceOst introduce_ost
  | LkContractCommissioning contract_commissioning
  | LpFtsIntroduce fts_introduce
  | LkReceiptDistance receipt_distance
  | LpReturn lp_return
  | LkRemark lk_remark
  | WriteOff write_off
  | LkReceiptCancel pystr pystr

fun turnover_wire :: "int \<Rightarrow> turnover_document \<Rightarrow> wire turn" where
  "turnover_wire today (LpIntroduceGoods d) = introduce_goods_wire d"
| "turnover_wire today (LkIndiCommissioning d) = individual_commissioning_wire d"
| "turnover_wire today (LpGoodsImport d) = goods_import_wire d"
| "turnover_wire today (Crossborder d) = crossborder_wire d"
| "turnover_wire today (LpIntroduceOst d) = introduce_ost_wire d"
| "turnover_wire today (LkContractCommissioning d) = contract_commissioning_wire d"
| "turnover_wire today (LpFtsIntroduce d) = fts_introduce_wire d"
| "turnover_wire today (LkReceiptDistance d) = receipt_distance_wire today d"
| "turnover_wire today (LpReturn d) = lp_return_wire d"
| "turnover_wire today (LkRemark d) = lk_remark_wire today d"
| "turnover_wire today (WriteOff d) = write_off_wire today d"
| "turnover_wire today (LkReceiptCancel i r) = receipt_cancel_wire i r"

fun turnover_document_type :: "turnover_document \<Rightarrow> pystr" where
  "turnover_document_type (LpIntroduceGoods _) = ''LP_INTRODUCE_GOODS''"
| "turnover_document_type (LkIndiCommissioning _) = ''LK_INDI_COMMISSIONING''"
| "turnover_document_type (LpGoodsImport _) = ''LP_GOODS_IMPORT''"
| "turnover_document_type (Crossborder _) = ''CROSSBORDER''"
| "turnover_document_type (LpIntroduceOst _) = ''LP_INTRODUCE_OST''"
| "turnover_document_type (LkContractCommissioning _) = ''LK_CONTRACT_COMMISSIONING''"
| "turnover_document_type (LpFtsIntroduce _) = ''LP_FTS_INTRODUCE''"
| "turnover_document_type (LkReceiptDistance _) = ''LK_RECEIPT''"
| "turnover_document_type (LpReturn _) = ''LP_RETURN''"
| "turnover_document_type (LkRemark _) = ''LK_REMARK''"
| "turnover_document_type (WriteOff _) = ''WRITE_OFF''"
| "turnover_document_type (LkReceiptCancel _ _) = ''LK_RECEIPT_CANCEL''"

section \<open>Preparation\<close>

text \<open>A document class is known by its document type: the twelve classes have different ones.\<close>

definition expected_class :: "turnover_kind \<Rightarrow> pystr option" where
  "expected_class k = (case k of
     INTRODUCE_DOMESTIC \<Rightarrow> Some ''LP_INTRODUCE_GOODS''
   | INTRODUCE_FROM_INDIVIDUAL \<Rightarrow> Some ''LK_INDI_COMMISSIONING''
   | INTRODUCE_IMPORT_PRE_MANDATORY \<Rightarrow> Some ''LP_GOODS_IMPORT''
   | INTRODUCE_EAEU \<Rightarrow> Some ''CROSSBORDER''
   | INTRODUCE_REMAINS \<Rightarrow> Some ''LP_INTRODUCE_OST''
   | INTRODUCE_CONTRACT \<Rightarrow> Some ''LK_CONTRACT_COMMISSIONING''
   | INTRODUCE_FTS \<Rightarrow> Some ''LP_FTS_INTRODUCE''
   | WITHDRAW \<Rightarrow> None
   | WITHDRAW_DISTANCE \<Rightarrow> Some ''LK_RECEIPT''
   | RETURN_TO_CIRCULATION \<Rightarrow> Some ''LP_RETURN''
   | RETURN_REMOTE_SALE \<Rightarrow> Some ''LP_RETURN''
   | REMARK \<Rightarrow> Some ''LK_REMARK''
   | WRITE_OFF \<Rightarrow> Some ''WRITE_OFF''
   | CANCEL_WITHDRAWAL \<Rightarrow> Some ''LK_RECEIPT_CANCEL'')"

record prepared_turnover =
  pt_kind :: turnover_kind
  pt_type :: pystr
  pt_format :: pystr
  pt_pg :: pystr
  pt_document :: exact_document
  pt_reason :: "pystr option"
  pt_postcondition :: pystr

definition other_return :: "turnover_document \<Rightarrow> bool" where
  "other_return v = (case v of LpReturn d \<Rightarrow> lr_type d \<noteq> ''REMOTE_SALE_RETURN'' | _ \<Rightarrow> False)"

definition business_reason :: "turnover_document \<Rightarrow> pystr option" where
  "business_reason v = (case v of
     LkReceiptDistance _ \<Rightarrow> Some ''DISTANCE''
   | LpReturn d \<Rightarrow> Some (lr_type d)
   | LkRemark d \<Rightarrow> Some (lm_cause d)
   | WriteOff d \<Rightarrow> Some (wo_reason d)
   | _ \<Rightarrow> None)"

definition prepare_turnover_document ::
  "int \<Rightarrow> turnover_kind \<Rightarrow> turnover_document \<Rightarrow> prepared_turnover turn" where
  "prepare_turnover_document today k v = (case expected_class k of
     None \<Rightarrow> Inl (TurnManual ''OPERATION_NOT_EXECUTABLE'')
   | Some c \<Rightarrow>
       if turnover_document_type v \<noteq> c then Inl (TurnContract ''operation/document DTO mismatch'')
       else if k = RETURN_REMOTE_SALE \<and> other_return v
       then Inl (TurnContract ''RETURN_REMOTE_SALE requires return_type=REMOTE_SALE_RETURN'')
       else if turnover_document_type v \<noteq> def_document_type (turnover_registry k)
       then Inl (TurnContract ''operation/document type registry mismatch'')
       else bind (turnover_wire today v) (\<lambda>w.
         bind (map_error (\<lambda>e. TurnForeign (error_class e)) (from_json_value w)) (\<lambda>x.
           Inr \<lparr>pt_kind = k, pt_type = def_document_type (turnover_registry k), pt_format = ''MANUAL'',
                pt_pg = ''lp'', pt_document = x, pt_reason = business_reason v,
                pt_postcondition = def_postcondition (turnover_registry k)\<rparr>)))"

definition prepare_turnover_by_name ::
  "int \<Rightarrow> pystr \<Rightarrow> turnover_document \<Rightarrow> prepared_turnover turn" where
  "prepare_turnover_by_name today name v = (case turnover_kind_of name of
     None \<Rightarrow> Inl (TurnContract ''unsupported turnover operation'')
   | Some k \<Rightarrow> prepare_turnover_document today k v)"

section \<open>Wire forms hold no floats\<close>

text \<open>So freezing one always succeeds. The rules follow the structure of the wire forms.\<close>

definition plain :: "wire turn \<Rightarrow> bool" where
  "plain r \<longleftrightarrow> (\<forall>w. r = Inr w \<longrightarrow> float_free (JObj w))"

named_theorems plain_intros \<open>how a wire form without floats is built\<close>

lemma plain_members [plain_intros]: "(\<And>m. m \<in> set ms \<Longrightarrow> plain m) \<Longrightarrow> plain (members ms)"
  unfolding plain_def
proof (induction ms)
  case (Cons m ms)
  show ?case
  proof (intro allI impI)
    fix w assume "members (m # ms) = Inr w"
    then obtain a b where "m = Inr a" "members ms = Inr b" "w = a @ b"
      by (auto simp: members_Inr_Cons)
    with Cons show "float_free (JObj w)" by fastforce
  qed
qed simp

lemma plain_text_member [simp]: "plain (text_member k r)"
  by (auto simp: plain_def text_member_def bind_Inr_iff)

lemma plain_contract [simp]: "plain (contract b m)" "plain (review b m)"
  by (simp_all add: plain_def contract_def review_def)

lemma plain_single [simp]: "float_free v \<Longrightarrow> plain (Inr [(k, v)])" "plain (Inr [])" "plain (Inl e)"
  by (simp_all add: plain_def)

lemma plain_given [plain_intros]: "(\<And>x. v = Some x \<Longrightarrow> plain (f x)) \<Longrightarrow> plain (given v f)"
  by (cases v) (simp_all add: given_def)

lemma plain_bind [plain_intros]: "(\<And>x. r = Inr x \<Longrightarrow> plain (f x)) \<Longrightarrow> plain (bind r f)"
  by (cases r) simp_all

lemma plain_list_member [plain_intros]:
  "(\<And>ws w. r = Inr ws \<Longrightarrow> w \<in> set ws \<Longrightarrow> float_free (JObj w)) \<Longrightarrow> plain (list_member k r)"
  by (cases r) (auto simp: plain_def list_member_def)

lemma plain_collect:
  assumes "\<And>x. x \<in> set xs \<Longrightarrow> plain (f x)" and "collect f xs = Inr ws" and "w \<in> set ws"
  shows "float_free (JObj w)"
proof -
  have "map f xs = map Inr ws" using assms(2) by (simp add: collect_Inr)
  then have "Inr w \<in> set (map f xs)" using assms(3) by simp
  then obtain x where "x \<in> set xs" "f x = Inr w" by auto
  with assms(1) [of x] show ?thesis by (simp add: plain_def)
qed

lemma plain_list_collect [plain_intros]:
  "(\<And>x. x \<in> set xs \<Longrightarrow> plain (f x)) \<Longrightarrow> plain (list_member k (collect f xs))"
  by (rule plain_list_member) (rule plain_collect)

lemma plain_distinct_products:
  assumes "distinct_products k m f xs = Inr ws" and "\<And>x. plain (f x)"
  shows "plain (list_member n (Inr ws))"
  using assms(1) plain_collect [of xs f ws, OF assms(2)]
  by (auto simp: distinct_products_def bind_Inr_iff plain_def list_member_def split: if_splits)

lemma plain_given_Inr: "given v f = Inr w \<Longrightarrow> (\<And>x. plain (f x)) \<Longrightarrow> plain (Inr w)"
  using plain_given [of v f] by simp

lemma plain_permit [simp, intro]: "plain (permit_wire p)"
  unfolding permit_wire_def by (rule plain_members) auto

lemma plain_primary_common: "plain (primary_common v k n d allowed)"
  unfolding primary_common_def Let_def by (intro plain_intros) auto

lemma plain_primary [simp, intro]:
  "plain (primary_return_wire allowed v)" "plain (primary_withdrawal_wire v)"
  unfolding primary_return_wire_def primary_withdrawal_wire_def by (rule plain_primary_common)+

lemma plain_primary_remark [simp]: "plain (primary_remark_wire cause v)"
  unfolding primary_remark_wire_def by (rule plain_members) auto

lemma plain_mod [simp]: "plain (mod_wire v)"
  unfolding mod_wire_def by (rule plain_members) (auto split: option.splits)

lemma plain_permits [simp]: "plain (permits_wire ps)"
  unfolding permits_wire_def by (auto intro: plain_intros)

lemma plain_coded [simp]: "plain (coded_product_wire k p)"
  unfolding coded_product_wire_def by (rule plain_members) auto

lemma plain_coded_products [simp]:
  "plain (introduce_product_wire p)" "plain (import_product_wire p)"
  "plain (crossborder_product_wire p)" "plain (contract_product_wire p)"
  by (simp_all add: introduce_product_wire_def import_product_wire_def crossborder_product_wire_def
      contract_product_wire_def)

lemma plain_individual_code [simp]: "plain (individual_code a b)"
  by (simp add: individual_code_def split: option.splits)

lemma plain_individual [simp]: "plain (individual_wire p)"
proof (induction p rule: individual_wire.induct)
  case (1 uit uitu received name children)
  then show ?case by (auto intro!: plain_intros)
qed

lemma plain_products [simp, intro]:
  "plain (remains_product_wire r)" "plain (fts_product_wire f)" "plain (withdrawal_product_wire w)"
  "plain (return_product_wire allowed t)" "plain (remark_product_wire cause m)"
  unfolding remains_product_wire_def fts_product_wire_def withdrawal_product_wire_def
    return_product_wire_def remark_product_wire_def
  by (auto intro!: plain_intros split: option.splits)

lemma plain_return_item [simp, intro]: "plain (return_item_wire d p)"
  unfolding return_item_wire_def Let_def by (auto intro!: plain_intros)

lemma plain_introductions [simp]:
  "plain (introduce_goods_wire a)" "plain (individual_commissioning_wire b)" "plain (goods_import_wire c)"
  "plain (crossborder_wire d)" "plain (contract_commissioning_wire e)" "plain (fts_introduce_wire f)"
  unfolding introduce_goods_wire_def individual_commissioning_wire_def goods_import_wire_def
    crossborder_wire_def contract_commissioning_wire_def fts_introduce_wire_def
  by (auto intro!: plain_intros)

lemma plain_ost [simp]: "plain (introduce_ost_wire d)"
  unfolding introduce_ost_wire_def
  by (auto intro!: plain_bind plain_members) (erule plain_distinct_products, rule plain_products)

lemma plain_distance [simp]: "plain (receipt_distance_wire today d)"
  unfolding receipt_distance_wire_def
  by (auto intro!: plain_bind plain_members plain_given)
    (erule plain_distinct_products, rule plain_products)

lemma plain_contract_id: "contract_id_member d = Inr w \<Longrightarrow> plain (Inr w)"
proof -
  have "plain (contract_id_member d)" by (simp add: contract_id_member_def split: option.splits)
  then show "contract_id_member d = Inr w \<Longrightarrow> plain (Inr w)" by simp
qed

lemma plain_lp_return [simp]: "plain (lp_return_wire d)"
  unfolding lp_return_wire_def
  by (auto intro!: plain_bind plain_members plain_given)
    (erule plain_contract_id
     | (erule plain_distinct_products plain_given_Inr, rule plain_return_item plain_primary))+

lemma plain_others [simp]:
  "plain (lk_remark_wire today m)" "plain (receipt_cancel_wire i r)"
  unfolding lk_remark_wire_def receipt_cancel_wire_def by (auto intro!: plain_intros)

lemma plain_write_off [simp]: "plain (write_off_wire today d)"
  unfolding write_off_wire_def write_off_sources_def eas_trade_wire_def Let_def
  by (auto intro!: plain_intros simp: plain_def [of "Inr [(''sntins'', _)]"] split: option.splits)

lemma turnover_plain: "plain (turnover_wire today v)"
  by (cases v) simp_all

lemma freeze_turnover:
  "turnover_wire today v = Inr w \<Longrightarrow>
     \<exists>x. from_json_value w = Inr x \<and> exact x \<and> payload x = utf8 (canonical_json (JObj w))"
  using turnover_plain [of today v] by (simp only: plain_def freeze_object)

section \<open>When a return document is accepted\<close>

lemma contract_Inr [simp]:
  "contract b m = Inr w \<longleftrightarrow> b \<and> w = []" "review b m = Inr w \<longleftrightarrow> b \<and> w = []"
  by (auto simp: contract_def review_def)

lemma text_member_Inr: "text_member k r = Inr w \<longleftrightarrow> (\<exists>t. r = Inr t \<and> w = [(k, JStr t)])"
  by (auto simp: text_member_def bind_Inr_iff)

lemma ok_bind_uniform:
  "(\<And>x. r = Inr x \<Longrightarrow> ok (f x) = q) \<Longrightarrow> ok (bind r f) \<longleftrightarrow> ok r \<and> q"
  by (cases r) auto

lemma ok_distinct_products:
  assumes "\<And>x w. f x = Inr w \<Longrightarrow> wire_text k w = g x"
  shows "ok (distinct_products k m f xs) \<longleftrightarrow> (\<forall>x\<in>set xs. ok (f x)) \<and> distinct (map g xs)"
proof (cases "collect f xs")
  case (Inl e)
  then have "\<not> (\<forall>x\<in>set xs. ok (f x))" using ok_collect [of f xs] by simp
  with Inl show ?thesis by (simp add: distinct_products_def)
next
  case (Inr ws)
  then have m: "map f xs = map Inr ws" by (simp add: collect_Inr)
  then have l: "length xs = length ws" by (metis length_map)
  have "map (wire_text k) ws = map g xs"
  proof (rule nth_equalityI)
    fix i assume "i < length (map (wire_text k) ws)"
    then have "i < length ws" by simp
    with m l have "f (xs ! i) = Inr (ws ! i)" by (metis nth_map)
    with assms l \<open>i < length ws\<close> show "map (wire_text k) ws ! i = map g xs ! i" by simp
  qed (simp add: l)
  moreover have "\<forall>x\<in>set xs. ok (f x)" using Inr ok_collect [of f xs] by simp
  ultimately show ?thesis using Inr by (simp add: distinct_products_def)
qed

lemma return_item_ki: "return_item_wire d p = Inr w \<Longrightarrow> wire_text ''ki'' w = rt_ki p"
  by (auto simp: return_item_wire_def return_product_wire_def Let_def members_Inr_Cons text_member_Inr
      wire_text_def get_key_def turn_cis_Inr split: if_splits)

text \<open>The policy of a return type for one product, on the values in force for it: its own, or those of
  the whole document.\<close>

definition return_policy :: "pystr \<Rightarrow> bool option \<Rightarrow> primary_document option \<Rightarrow> permit option \<Rightarrow> bool" where
  "return_policy t paid primary permit =
     (if t = ''REMOTE_SALE_RETURN'' then paid = Some (primary \<noteq> None)
      else paid = None \<and>
        (if t \<in> {''RETAIL_RETURN'', ''NOT_FOR_SALE_RETURN''} then primary \<noteq> None
         else primary = None \<and> permit = None))"

definition item_policy :: "lp_return \<Rightarrow> return_product \<Rightarrow> bool" where
  "item_policy d p = return_policy (lr_type d) (effective (rt_paid p) (lr_paid d))
     (effective (rt_primary p) (lr_primary d)) (effective (rt_permit p) (lr_permit d))"

lemma effective_None [simp]: "effective a b = None \<longleftrightarrow> a = None \<and> b = None"
  by (cases a) (simp_all add: effective_def)

lemma known_return_cases:
  "t \<in> set known_lp_return_types \<longleftrightarrow> t = ''REMOTE_SALE_RETURN'' \<or> t = ''RETAIL_RETURN''
     \<or> t = ''NOT_FOR_SALE_RETURN'' \<or> bare_return t"
  by (auto simp: known_lp_return_types_def bare_return_def)

lemma ok_return_item:
  "ok (return_item_wire d p) \<longleftrightarrow> ok (return_product_wire (return_primary_types_of (lr_type d)) p) \<and>
     (if lr_type d = ''REMOTE_SALE_RETURN''
      then effective (rt_paid p) (lr_paid d) = Some (effective (rt_primary p) (lr_primary d) \<noteq> None)
      else lr_type d \<in> {''RETAIL_RETURN'', ''NOT_FOR_SALE_RETURN''} \<longrightarrow>
             effective (rt_primary p) (lr_primary d) \<noteq> None)"
proof -
  have "(v \<noteq> None \<and> \<not> (v = Some True \<and> \<not> b) \<and> \<not> (v = Some False \<and> b)) = (v = Some b)"
    for v :: "bool option" and b by (cases v) auto
  from this [of "effective (rt_paid p) (lr_paid d)" "effective (rt_primary p) (lr_primary d) \<noteq> None"]
  show ?thesis by (auto simp: return_item_wire_def Let_def)
qed

definition return_texts_valid :: "lp_return \<Rightarrow> bool" where
  "return_texts_valid d \<longleftrightarrow>
     ok (turn_inn (lr_participant d) ''trade_participant_inn'') \<and> ok (contract_id_member d)
     \<and> ok (given (lr_primary d) (primary_return_wire (return_primary_types_of (lr_type d))))
     \<and> ok (given (lr_permit d) permit_wire)
     \<and> (\<forall>p\<in>set (lr_products d). ok (return_product_wire (return_primary_types_of (lr_type d)) p))"

lemma ok_lp_return:
  "ok (lp_return_wire d) \<longleftrightarrow>
     ok (return_type_checks d) \<and> ok (contract_id_member d) \<and> ok (return_evidence_checks d)
     \<and> ok (given (lr_primary d) (primary_return_wire (return_primary_types_of (lr_type d))))
     \<and> (\<forall>p\<in>set (lr_products d). ok (return_item_wire d p)) \<and> distinct (map rt_ki (lr_products d))
     \<and> ok (turn_inn (lr_participant d) ''trade_participant_inn'') \<and> ok (given (lr_permit d) permit_wire)"
proof -
  have "ok (lp_return_wire d) \<longleftrightarrow> ok (return_type_checks d) \<and> ok (contract_id_member d)
      \<and> ok (return_evidence_checks d)
      \<and> ok (given (lr_primary d) (primary_return_wire (return_primary_types_of (lr_type d))))
      \<and> ok (distinct_products ''ki'' ''products_list[].ki must be unique'' (return_item_wire d) (lr_products d))
      \<and> ok (turn_inn (lr_participant d) ''trade_participant_inn'') \<and> ok (given (lr_permit d) permit_wire)"
    unfolding lp_return_wire_def by (intro ok_bind_uniform) auto
  with ok_distinct_products [where f = "return_item_wire d" and k = "''ki''" and g = rt_ki, OF return_item_ki]
  show ?thesis by auto
qed

text \<open>C28: a return document is accepted exactly when its type is a known one, its codes differ, its texts
  are valid, the certificate is given at one level only, and every product meets the policy of the
  type on the paid flag, the primary document and the certificate in force for it.\<close>

theorem return_accepted_iff:
  "ok (lp_return_wire d) \<longleftrightarrow>
     lr_type d \<in> set known_lp_return_types \<and> lr_products d \<noteq> [] \<and> distinct (map rt_ki (lr_products d))
     \<and> return_texts_valid d
     \<and> (lr_permit d = None \<or> list_all (\<lambda>p. rt_permit p = None) (lr_products d))
     \<and> (\<forall>p\<in>set (lr_products d). item_policy d p)"
proof (cases "lr_type d \<in> set known_lp_return_types \<and> lr_products d \<noteq> []")
  case False
  then show ?thesis by (auto simp: ok_lp_return return_type_checks_def)
next
  case True
  then have supported: "lr_type d \<notin> set unsupported_lp_return_types"
    by (auto simp: known_lp_return_types_def unsupported_lp_return_types_def)
  from True obtain p where p: "p \<in> set (lr_products d)" by (cases "lr_products d") auto
  have some: "(\<forall>p\<in>set (lr_products d). a \<and> q p) \<longleftrightarrow> a \<and> (\<forall>p\<in>set (lr_products d). q p)" for a q
    using p by auto
  note rules = ok_lp_return return_type_checks_def return_evidence_checks_def ok_return_item
    item_policy_def return_policy_def return_texts_valid_def ball_conj_distrib
  consider "lr_type d = ''REMOTE_SALE_RETURN''" | "lr_type d = ''RETAIL_RETURN''"
    | "lr_type d = ''NOT_FOR_SALE_RETURN''" | "lr_type d = ''OWN_USE_RETURN''"
    | "lr_type d = ''STATE_CONTRACT_RETURN''"
    using True by (auto simp: known_lp_return_types_def)
  then show ?thesis
  proof cases
    case 1
    with True supported show ?thesis by (simp add: rules bare_return_def) blast
  next
    case 2
    with True supported p show ?thesis by (simp add: rules bare_return_def list_all_iff some) blast
  next
    case 3
    with True supported p show ?thesis by (simp add: rules bare_return_def list_all_iff some) blast
  next
    case 4
    with True supported p show ?thesis by (simp add: rules bare_return_def list_all_iff some) blast
  next
    case 5
    with True supported p show ?thesis by (simp add: rules bare_return_def list_all_iff some) blast
  qed
qed

definition demo_return :: lp_return where
  "demo_return = \<lparr>lr_participant = ''7707083893'',
     lr_products = [\<lparr>rt_ki = ''010460043993125621'', rt_paid = None, rt_primary = None, rt_permit = None\<rparr>],
     lr_paid = Some True,
     lr_primary = Some \<lparr>primary_type = ''receipt'', primary_number = ''17'',
        primary_date = DayText ''2024-02-29'', custom_name = None\<rparr>,
     lr_permit = None, lr_contract_id = None, lr_type = ''REMOTE_SALE_RETURN''\<rparr>"

lemma demo_return_wire: "lp_return_wire demo_return = Inr
    [(''trade_participant_inn'', JStr ''7707083893''), (''return_type'', JStr ''REMOTE_SALE_RETURN''),
     (''products_list'', JList [JObj [(''ki'', JStr ''010460043993125621'')]]), (''paid'', JBool True),
     (''primary_document_type'', JStr ''RECEIPT''), (''primary_document_number'', JStr ''17''),
     (''primary_document_date'', JStr ''2024-02-29'')]"
  by code_simp

lemma return_accepted_iff_witness:
  "return_texts_valid demo_return \<and> list_all (item_policy demo_return) (lr_products demo_return)"
  using return_accepted_iff [of demo_return] demo_return_wire by (simp add: list_all_iff)

section \<open>What a preparation freezes\<close>

lemma expected_registry:
  "expected_class k = Some c \<Longrightarrow> def_document_type (turnover_registry k) = c"
  by (cases k) (auto simp: expected_class_def turnover_registry_def manual_lp_def)

text \<open>A preparation succeeds exactly when the document is of the class the operation expects, is not
  another kind of return for a remote-sale return, and has a valid wire form: freezing never fails.\<close>

theorem prepare_turnover_iff:
  "ok (prepare_turnover_document today k v) \<longleftrightarrow>
     expected_class k = Some (turnover_document_type v)
     \<and> \<not> (k = RETURN_REMOTE_SALE \<and> other_return v) \<and> ok (turnover_wire today v)"
proof -
  have frozen: "ok (bind (turnover_wire today v) (\<lambda>w.
      bind (map_error (\<lambda>e. TurnForeign (error_class e)) (from_json_value w)) (\<lambda>x. Inr (f x))))
      = ok (turnover_wire today v)" for f :: "exact_document \<Rightarrow> prepared_turnover"
  proof (cases "turnover_wire today v")
    case (Inr w)
    with freeze_turnover [OF Inr] show ?thesis by fastforce
  qed simp
  show ?thesis
    by (auto simp: prepare_turnover_document_def frozen expected_registry split: option.splits)
qed

text \<open>A prepared turnover document carries the type the registry gives its operation and freezes the
  canonical bytes of its wire form, with their hash and Base64 text.\<close>

theorem prepared_turnover_is_exact:
  assumes "prepare_turnover_document today k v = Inr p"
  shows "pt_kind p = k \<and> pt_type p = turnover_document_type v
    \<and> pt_type p = def_document_type (turnover_registry k) \<and> exact (pt_document p)
    \<and> (\<exists>w. turnover_wire today v = Inr w \<and> payload (pt_document p) = utf8 (canonical_json (JObj w)))"
  using assms freeze_turnover [of today v]
  by (auto simp: prepare_turnover_document_def bind_Inr_iff split: option.splits if_splits)

lemma prepared_turnover_is_exact_witness:
  "\<exists>p. prepare_turnover_document 20000 RETURN_REMOTE_SALE (LpReturn demo_return) = Inr p
     \<and> pt_type p = ''LP_RETURN'' \<and> exact (pt_document p)"
proof -
  have "\<exists>p. prepare_turnover_document 20000 RETURN_REMOTE_SALE (LpReturn demo_return) = Inr p"
    using freeze_turnover [of 20000 "LpReturn demo_return"] demo_return_wire
    by (auto simp: prepare_turnover_document_def expected_class_def turnover_registry_def manual_lp_def
        other_return_def demo_return_def)
  then obtain p where "prepare_turnover_document 20000 RETURN_REMOTE_SALE (LpReturn demo_return) = Inr p" ..
  with prepared_turnover_is_exact [OF this] show ?thesis by auto
qed

end
