(* ===== verification/TurnoverChecks.thy ===== *)
theory TurnoverChecks
  imports TurnoverDocuments
begin

text \<open>
  The second half of \<open>wbcz/turnover.py\<close>: snapshots of codes and products, the preconditions an
  operation checks before it is prepared and the evidence it records, the return-reason matrix, and
  the reconciliation of a finished operation with what the codes show afterwards. The service's clock
  is read once per call; times are microseconds.
\<close>

section \<open>Snapshots and evidence\<close>

record cis_snapshot =
  sn_cis :: pystr
  sn_status :: "pystr option"
  sn_status_ex :: "pystr option"
  sn_owner :: "pystr option"
  sn_reason :: "pystr option"
  sn_emission :: "pystr option"
  sn_individual :: "bool option"
  sn_fetched :: "py_datetime option"
  sn_parent :: "pystr option"
  sn_package :: "pystr option"
  sn_children :: "pystr list"

definition need :: "bool \<Rightarrow> pystr \<Rightarrow> unit turn" where
  "need b message = (if b then Inr () else Inl (TurnManual message))"

definition cis_validated :: "cis_snapshot \<Rightarrow> unit turn" where
  "cis_validated s =
     bind (turn_cis (sn_cis s) ''cis'') (\<lambda>_.
     bind (case sn_owner s of None \<Rightarrow> Inr [] | Some i \<Rightarrow> turn_inn i ''owner_inn'') (\<lambda>_.
       need (aware (sn_fetched s)) ''FRESH_CIS_SNAPSHOT_REQUIRED''))"

record product_reference =
  pr_gtin :: pystr
  pr_tnved :: "pystr option"
  pr_product_ready :: bool
  pr_mod_ready :: bool
  pr_rd_ready :: "bool option"
  pr_fetched :: "py_datetime option"

definition reference_validated :: "product_reference \<Rightarrow> unit turn" where
  "reference_validated r =
     (if pr_gtin r = [] then Inl (TurnContract ''gtin required'')
      else bind (case pr_tnved r of None \<Rightarrow> Inr [] | Some t \<Rightarrow> turn_tnved t ''tnved_code'') (\<lambda>_.
        need (aware (pr_fetched r)) ''FRESH_REFERENCE_SNAPSHOT_REQUIRED''))"

record precondition_evidence =
  ev_kind :: turnover_kind
  ev_cises :: "pystr list"
  ev_observed :: "wire list"
  ev_verified_at :: pystr

definition evidence_ledger :: "precondition_evidence \<Rightarrow> wire" where
  "evidence_ledger v =
     [(''operation_kind'', JStr (turnover_value (ev_kind v))), (''checked_cises'', str_list (ev_cises v)),
      (''observed'', JList (map JObj (ev_observed v))), (''verified_at'', JStr (ev_verified_at v)),
      (''verified_fresh'', JBool True)]"

text \<open>\<open>isoformat()\<close> leaves out a fraction of zero microseconds.\<close>

definition iso_short :: "int \<Rightarrow> pystr" where
  "iso_short us = (if us mod 1000000 = 0 then take 19 (iso_utc us) @ ''+00:00'' else iso_utc us)"

section \<open>The return-reason matrix\<close>

definition return_reason_matrix :: "(pystr \<times> pystr \<times> pystr \<times> pystr) list" where
  "return_reason_matrix = map (\<lambda>(reason, t). (''lp'', ''RETIRED'', reason, t))
     [(''DISTANCE'', ''REMOTE_SALE_RETURN''), (''BY_SAMPLES'', ''REMOTE_SALE_RETURN''),
      (''RETAIL'', ''RETAIL_RETURN''), (''BY_SAMPLES'', ''RETAIL_RETURN''), (''DISTANCE'', ''RETAIL_RETURN''),
      (''OWN_USE'', ''OWN_USE_RETURN''), (''PRODUCTION_USE'', ''OWN_USE_RETURN''),
      (''MEDICAL_USE'', ''OWN_USE_RETURN''), (''VETERINARY_USE'', ''OWN_USE_RETURN''),
      (''STATE_SECRET'', ''STATE_CONTRACT_RETURN''),
      (''DONATION'', ''NOT_FOR_SALE_RETURN''), (''OWN_USE'', ''NOT_FOR_SALE_RETURN''),
      (''PRODUCTION_USE'', ''NOT_FOR_SALE_RETURN''), (''STATE_CONTRACT'', ''NOT_FOR_SALE_RETURN'')]"

definition validate_return_reason_matrix ::
  "pystr \<Rightarrow> pystr option \<Rightarrow> pystr option \<Rightarrow> pystr \<Rightarrow> unit turn" where
  "validate_return_reason_matrix pg st withdraw t =
     bind (need (t \<notin> set unsupported_lp_return_types) ''RETURN_TYPE_NOT_APPLICABLE_TO_LP'') (\<lambda>_.
       need ((pg, or_else st [], or_else withdraw [], t) \<in> set return_reason_matrix)
         ''RETURN_REASON_MATRIX_NO_CONFIRMED_CELL'')"

section \<open>The precondition service\<close>

record service =
  sv_inn :: pystr
  sv_now :: int
  sv_max_age :: int

definition precondition_service :: "pystr \<Rightarrow> int \<Rightarrow> int \<Rightarrow> service turn" where
  "precondition_service inn current max_age =
     bind (turn_inn inn ''participant_inn'') (\<lambda>i.
       Inr \<lparr>sv_inn = i, sv_now = current, sv_max_age = max_age\<rparr>)"

definition snapshot_age_check :: "service \<Rightarrow> py_datetime option \<Rightarrow> unit turn" where
  "snapshot_age_check v fetched = (case fetched of
     Some (Aware f) \<Rightarrow>
       need (\<not> (sv_now v + 60000000 < f \<or> sv_max_age v < sv_now v - f)) ''STALE_PRECONDITION_SNAPSHOT''
   | _ \<Rightarrow> Inl (TurnForeign ''AssertionError''))"

definition fresh_cis :: "service \<Rightarrow> cis_snapshot \<Rightarrow> unit turn" where
  "fresh_cis v s = bind (cis_validated s) (\<lambda>_. snapshot_age_check v (sn_fetched s))"

definition fresh_reference :: "service \<Rightarrow> product_reference \<Rightarrow> unit turn" where
  "fresh_reference v r = bind (reference_validated r) (\<lambda>_. snapshot_age_check v (pr_fetched r))"

definition owned :: "service \<Rightarrow> cis_snapshot \<Rightarrow> unit turn" where
  "owned v s = need (sn_owner s = Some (sv_inn v)) ''CIS_NOT_OWNED_BY_PARTICIPANT''"

definition no_special_state :: "cis_snapshot \<Rightarrow> unit turn" where
  "no_special_state s = need (blank (sn_status_ex s)) ''SPECIAL_STATE_NOT_ALLOWED''"

definition observed_snapshot :: "cis_snapshot \<Rightarrow> wire" where
  "observed_snapshot s =
     [(''cis'', JStr (sn_cis s)), (''status'', opt_str (sn_status s)),
      (''statusEx'', opt_str (sn_status_ex s)), (''ownerInn'', opt_str (sn_owner s)),
      (''withdrawReason'', opt_str (sn_reason s)), (''emissionType'', opt_str (sn_emission s)),
      (''parent'', opt_str (sn_parent s)), (''packageType'', opt_str (sn_package s)),
      (''directChildren'', str_list (sn_children s))]"

definition evidence_of :: "service \<Rightarrow> turnover_kind \<Rightarrow> cis_snapshot list \<Rightarrow> precondition_evidence" where
  "evidence_of v k ss = \<lparr>ev_kind = k, ev_cises = map sn_cis ss, ev_observed = map observed_snapshot ss,
     ev_verified_at = iso_short (sv_now v)\<rparr>"

definition validate_product_references ::
  "service \<Rightarrow> product_reference list \<Rightarrow> bool \<Rightarrow> unit turn" where
  "validate_product_references v rs require_mod =
     bind (need (rs \<noteq> []) ''FRESH_PRODUCT_REFERENCE_REQUIRED'') (\<lambda>_. each (\<lambda>r.
       bind (fresh_reference v r) (\<lambda>_.
       bind (need (pr_product_ready r \<and> pr_tnved r \<noteq> None) ''PRODUCT_NOT_READY_FOR_MARKING_TURNOVER'') (\<lambda>_.
       bind (need (\<not> (require_mod \<and> \<not> pr_mod_ready r)) ''PARTICIPANT_MOD_NOT_READY'') (\<lambda>_.
         need (pr_rd_ready r \<noteq> Some False) ''PERMIT_REFERENCE_NOT_READY'')))) rs)"

text \<open>The shape the checks of codes share: a non-empty list, each code checked in turn, the evidence.\<close>

definition checked :: "pystr \<Rightarrow> (cis_snapshot \<Rightarrow> unit turn) \<Rightarrow> service \<Rightarrow> turnover_kind
    \<Rightarrow> cis_snapshot list \<Rightarrow> precondition_evidence turn" where
  "checked message f v k ss =
     (if ss = [] then Inl (TurnContract message)
      else bind (each f ss) (\<lambda>_. Inr (evidence_of v k ss)))"

text \<open>Fresh, ours and in no special state.\<close>

definition fresh_owned_plain :: "service \<Rightarrow> cis_snapshot \<Rightarrow> unit turn" where
  "fresh_owned_plain v s =
     bind (fresh_cis v s) (\<lambda>_. bind (owned v s) (\<lambda>_. no_special_state s))"

definition introduced_from_applied ::
  "service \<Rightarrow> turnover_kind \<Rightarrow> pystr \<Rightarrow> cis_snapshot list \<Rightarrow> precondition_evidence turn" where
  "introduced_from_applied v k emission = checked ''operation requires CIS snapshots'' (\<lambda>s.
     bind (fresh_owned_plain v s) (\<lambda>_.
       need (sn_status s = Some ''APPLIED'' \<and> sn_emission s = Some emission)
         (turnover_value k @ ''_PRECONDITION_FAILED''))) v k"

definition validate_domestic :: "service \<Rightarrow> cis_snapshot list \<Rightarrow> precondition_evidence turn" where
  "validate_domestic v = introduced_from_applied v INTRODUCE_DOMESTIC ''LOCAL''"

definition validate_individual :: "service \<Rightarrow> cis_snapshot list \<Rightarrow> precondition_evidence turn" where
  "validate_individual v = checked ''individual commissioning requires CIS snapshots'' (\<lambda>s.
     bind (fresh_owned_plain v s) (\<lambda>_.
       need (sn_status s = Some ''APPLIED'' \<and> sn_individual s = Some True)
         ''INDIVIDUAL_COMMISSIONING_PRECONDITION_FAILED'')) v INTRODUCE_FROM_INDIVIDUAL"

definition validate_import_pre_mandatory ::
  "service \<Rightarrow> cis_snapshot list \<Rightarrow> precondition_evidence turn" where
  "validate_import_pre_mandatory v = introduced_from_applied v INTRODUCE_IMPORT_PRE_MANDATORY ''FOREIGN''"

definition validate_crossborder :: "service \<Rightarrow> cis_snapshot list \<Rightarrow> precondition_evidence turn" where
  "validate_crossborder v = introduced_from_applied v INTRODUCE_EAEU ''FOREIGN''"

definition validate_remains :: "service \<Rightarrow> cis_snapshot list \<Rightarrow> precondition_evidence turn" where
  "validate_remains v = introduced_from_applied v INTRODUCE_REMAINS ''REMAINS''"

definition validate_contract :: "service \<Rightarrow> cis_snapshot list \<Rightarrow> precondition_evidence turn" where
  "validate_contract v = introduced_from_applied v INTRODUCE_CONTRACT ''LOCAL''"

definition validate_fts :: "service \<Rightarrow> cis_snapshot list \<Rightarrow> precondition_evidence turn" where
  "validate_fts v = checked ''FTS introduction requires CIS snapshots'' (\<lambda>s.
     bind (fresh_cis v s) (\<lambda>_. bind (owned v s) (\<lambda>_.
     bind (need (sn_status s = Some ''APPLIED'' \<and> sn_emission s = Some ''FOREIGN'')
             ''FTS_INTRODUCTION_PRECONDITION_FAILED'') (\<lambda>_.
       need (sn_status_ex s \<in> {None, Some [], Some ''FTS_RESPOND_NOT_OK'', Some ''FTS_CONTROL''})
         ''FTS_INTRODUCTION_SPECIAL_STATE_INVALID'')))) v INTRODUCE_FTS"

definition validate_distance :: "service \<Rightarrow> cis_snapshot list \<Rightarrow> precondition_evidence turn" where
  "validate_distance v = checked ''distance requires CIS snapshots'' (\<lambda>s.
     bind (fresh_owned_plain v s) (\<lambda>_.
       need (sn_status s = Some ''INTRODUCED'') ''DISTANCE_REQUIRES_INTRODUCED'')) v WITHDRAW_DISTANCE"

definition return_check :: "service \<Rightarrow> pystr \<Rightarrow> cis_snapshot \<Rightarrow> unit turn" where
  "return_check v t s =
     bind (fresh_owned_plain v s) (\<lambda>_.
     bind (need (sn_status s = Some ''RETIRED'') ''RETURN_REQUIRES_RETIRED'') (\<lambda>_.
       validate_return_reason_matrix ''lp'' (sn_status s) (sn_reason s) t))"

definition validate_return ::
  "service \<Rightarrow> pystr \<Rightarrow> turnover_kind \<Rightarrow> cis_snapshot list \<Rightarrow> precondition_evidence turn" where
  "validate_return v t k ss =
     (if ss = [] then Inl (TurnContract ''return requires CIS snapshots'')
      else
        bind (need (t \<notin> set unsupported_lp_return_types) ''RETURN_TYPE_NOT_APPLICABLE_TO_LP'') (\<lambda>_.
        bind (need (t \<in> set known_lp_return_types) ''RETURN_TYPE_MATRIX_NOT_CONFIRMED_FOR_LP'') (\<lambda>_.
        bind (each (return_check v t) ss) (\<lambda>_. Inr (evidence_of v k ss)))))"

definition validate_remote_sale_return ::
  "service \<Rightarrow> cis_snapshot list \<Rightarrow> precondition_evidence turn" where
  "validate_remote_sale_return v = validate_return v ''REMOTE_SALE_RETURN'' RETURN_REMOTE_SALE"

definition remark_new_check :: "service \<Rightarrow> cis_snapshot \<Rightarrow> unit turn" where
  "remark_new_check v s =
     bind (fresh_cis v s) (\<lambda>_. bind (no_special_state s) (\<lambda>_.
       need (sn_status s = Some ''APPLIED'' \<and> sn_emission s \<in> {Some ''REMARK'', Some ''REAPPLY''})
         ''REMARK_NEW_CODE_PRECONDITION_FAILED''))"

definition remark_old_check :: "service \<Rightarrow> pystr \<Rightarrow> cis_snapshot \<Rightarrow> unit turn" where
  "remark_old_check v cause s =
     bind (fresh_owned_plain v s) (\<lambda>_.
     bind (need (sn_status s \<in> {Some ''INTRODUCED'', Some ''RETIRED''}) ''REMARK_OLD_CODE_STATE_INVALID'') (\<lambda>_.
       need (\<not> (cause \<in> {''REMOTE_SALE_RETURN'', ''RETAIL_RETURN''} \<and> sn_status s \<noteq> Some ''RETIRED''))
         ''RETURN_REMARK_OLD_CODE_REQUIRES_RETIRED''))"

definition validate_remark ::
  "service \<Rightarrow> cis_snapshot list \<Rightarrow> cis_snapshot list \<Rightarrow> pystr \<Rightarrow> precondition_evidence turn" where
  "validate_remark v new_codes old_codes cause =
     (if new_codes = [] then Inl (TurnContract ''remark requires new code snapshots'')
      else
        bind (each (remark_new_check v) new_codes) (\<lambda>_.
        bind (each (remark_old_check v cause) old_codes) (\<lambda>_.
        bind (need (\<not> (cause = ''DESCRIPTION_ERRORS'' \<and> old_codes = []))
                ''DESCRIPTION_ERRORS_REQUIRES_OLD_CODE'') (\<lambda>_.
          Inr (evidence_of v REMARK (new_codes @ old_codes))))))"

definition write_off_start_states :: "pystr list" where
  "write_off_start_states = [''EMITTED'', ''APPLIED'', ''INTRODUCED'', ''APPLIED_NOT_PAID'']"

definition validate_write_off :: "service \<Rightarrow> cis_snapshot list \<Rightarrow> precondition_evidence turn" where
  "validate_write_off v = checked ''write-off requires CIS snapshots'' (\<lambda>s.
     bind (fresh_cis v s) (\<lambda>_. bind (owned v s) (\<lambda>_.
     bind (need (sn_status s \<in> Some ` set write_off_start_states) ''WRITE_OFF_START_STATE_NOT_ALLOWED'') (\<lambda>_.
       need (sn_status_ex s \<in> {None, Some [], Some ''IN_GRAY_ZONE''})
         ''WRITE_OFF_SPECIAL_STATE_NOT_ALLOWED'')))) v WRITE_OFF"

definition observed_target :: "cis_snapshot \<Rightarrow> wire" where
  "observed_target s = filter (\<lambda>p. fst p \<noteq> ''emissionType'') (observed_snapshot s)"

definition validate_cancel_withdrawal :: "service \<Rightarrow> pystr option \<Rightarrow> pystr option \<Rightarrow> bool
    \<Rightarrow> cis_snapshot list \<Rightarrow> precondition_evidence turn" where
  "validate_cancel_withdrawal v original_status sender latest ss =
     bind (need (original_status = Some ''CHECKED_OK'') ''CANCEL_REQUIRES_CHECKED_OK_SOURCE'') (\<lambda>_.
     bind (need (sender = Some (sv_inn v)) ''CANCEL_SOURCE_SENDER_MISMATCH'') (\<lambda>_.
     bind (need latest ''CANCEL_SOURCE_NOT_LATEST_ELIGIBLE_OPERATION'') (\<lambda>_.
     bind (each (fresh_cis v) ss) (\<lambda>_.
       Inr \<lparr>ev_kind = CANCEL_WITHDRAWAL, ev_cises = map sn_cis ss,
            ev_observed = [(''sourceDocumentStatus'', opt_str original_status),
                           (''sourceSenderInn'', opt_str sender)] # map observed_target ss,
            ev_verified_at = iso_short (sv_now v)\<rparr>))))"

section \<open>Reconciliation\<close>

record turnover_reconciliation =
  tr_state :: reconciliation_state
  tr_document :: "pystr option"
  tr_why :: pystr
  tr_observed :: "wire list"

definition reconciled_as :: "reconciliation_state \<Rightarrow> pystr option \<Rightarrow> pystr \<Rightarrow> wire list
    \<Rightarrow> turnover_reconciliation" where
  "reconciled_as s d why obs = \<lparr>tr_state = s, tr_document = d, tr_why = why, tr_observed = obs\<rparr>"

definition observed_outcome :: "cis_snapshot \<Rightarrow> wire" where
  "observed_outcome s =
     filter (\<lambda>p. fst p \<notin> {''emissionType'', ''directChildren''}) (observed_snapshot s)"

text \<open>The mappings the caller gives are lists of pairs with different keys.\<close>

type_synonym restore_map = "(pystr \<times> pystr option \<times> pystr option) list"
type_synonym parent_map = "(pystr \<times> pystr option) list"

definition introducing_kinds :: "turnover_kind list" where
  "introducing_kinds = [RETURN_TO_CIRCULATION, RETURN_REMOTE_SALE, INTRODUCE_DOMESTIC,
     INTRODUCE_FROM_INDIVIDUAL, INTRODUCE_IMPORT_PRE_MANDATORY, INTRODUCE_EAEU, INTRODUCE_REMAINS,
     INTRODUCE_CONTRACT, INTRODUCE_FTS, REMARK]"

definition postcondition_holds :: "turnover_kind \<Rightarrow> restore_map \<Rightarrow> cis_snapshot list \<Rightarrow> bool" where
  "postcondition_holds k restore ss =
     (if k = WITHDRAW_DISTANCE
      then list_all (\<lambda>s. sn_status s = Some ''RETIRED'' \<and> sn_reason s = Some ''DISTANCE'') ss
      else if k \<in> set introducing_kinds
      then list_all (\<lambda>s. sn_status s = Some ''INTRODUCED'' \<and> blank (sn_status_ex s)) ss
      else if k = WRITE_OFF
      then list_all (\<lambda>s. sn_status s = Some ''WRITTEN_OFF'' \<and> blank (sn_status_ex s)) ss
      else if k = CANCEL_WITHDRAWAL
      then ss \<noteq> [] \<and> list_all (\<lambda>s. map_of restore (sn_cis s) = Some (sn_status s, sn_reason s)) ss
      else False)"

definition had_parents :: "parent_map \<Rightarrow> bool" where
  "had_parents ps \<longleftrightarrow> list_ex (\<lambda>p. truthy (snd p)) ps"

text \<open>The verdict of the aggregation side effect, none when it does not stop the reconciliation.\<close>

definition aggregation_side_effect :: "turnover_kind \<Rightarrow> m5_observation list
    \<Rightarrow> (reconciliation_state \<times> pystr) option" where
  "aggregation_side_effect k obs =
     (if obs = [] then Some (R_PENDING, ''AGGREGATION_RECONCILIATION_REQUIRED'')
      else let r = reconcile_m5_aggregation_side_effect (turnover_value k) obs in
        if rec_result r \<noteq> R_RECONCILED
        then Some (if rec_result r = R_PENDING then R_PENDING else R_MANUAL_REVIEW, rec_why r)
        else None)"

definition reconcile_turnover :: "turnover_kind \<Rightarrow> pystr option \<Rightarrow> cis_snapshot list \<Rightarrow> restore_map
    \<Rightarrow> parent_map \<Rightarrow> m5_observation list \<Rightarrow> turnover_reconciliation" where
  "reconcile_turnover k doc ss restore ps obs =
     (let seen = map observed_outcome ss; holds = postcondition_holds k restore ss in
      if doc \<noteq> Some ''CHECKED_OK'' then
        (if doc \<in> {Some ''CHECKED_NOT_OK'', Some ''PARSE_ERROR'', Some ''PROCESSING_ERROR''}
         then reconciled_as R_MANUAL_REVIEW doc ''DOCUMENT_TERMINAL_FAILURE'' seen
         else reconciled_as R_PENDING doc ''DOCUMENT_NOT_CONFIRMED_SUCCESS'' seen)
      else if k = WITHDRAW then reconciled_as R_MANUAL_REVIEW doc ''OPERATION_NOT_EXECUTABLE'' seen
      else if ss = [] \<and> k \<noteq> CANCEL_WITHDRAWAL
      then reconciled_as R_PENDING doc ''FRESH_CIS_POSTCONDITION_REQUIRED'' seen
      else if k = CANCEL_WITHDRAWAL \<and> restore = []
      then reconciled_as R_MANUAL_REVIEW doc ''CANCEL_RESTORE_EXPECTATION_REQUIRED'' seen
      else case (if holds \<and> had_parents ps then aggregation_side_effect k obs else None) of
        Some (state, why) \<Rightarrow> reconciled_as state doc why seen
      | None \<Rightarrow> reconciled_as (if holds then R_RECONCILED else R_PENDING) doc
          (if holds then ''POSTCONDITION_CONFIRMED'' else ''POSTCONDITION_MISMATCH'') seen)"

definition reconcile_turnover_by_name :: "pystr \<Rightarrow> pystr option \<Rightarrow> cis_snapshot list \<Rightarrow> restore_map
    \<Rightarrow> parent_map \<Rightarrow> m5_observation list \<Rightarrow> turnover_reconciliation" where
  "reconcile_turnover_by_name name doc ss restore ps obs = (case turnover_kind_of name of
     None \<Rightarrow> reconciled_as R_MANUAL_REVIEW doc ''UNKNOWN_OPERATION_KIND'' []
   | Some k \<Rightarrow> reconcile_turnover k doc ss restore ps obs)"

definition remark_reason_readback_matches :: "pystr \<Rightarrow> pystr option \<Rightarrow> bool" where
  "remark_reason_readback_matches submitted observed \<longleftrightarrow>
     observed = Some submitted \<or> (submitted = ''KM_SPOILED'' \<and> observed = Some ''KM_SPOILED_OR_LOST'')"

section \<open>What the checks accept\<close>

lemma ok_need [simp]: "ok (need b m) = b" and need_Inr [simp]: "need b m = Inr u \<longleftrightarrow> b"
  by (simp_all add: need_def)

text \<open>A snapshot is usable: a well-formed code and owner, read with its zone, neither from the future
  (beyond a minute) nor older than the service allows.\<close>

definition usable :: "service \<Rightarrow> cis_snapshot \<Rightarrow> bool" where
  "usable v s \<longleftrightarrow> ok (turn_cis (sn_cis s) ''cis'')
     \<and> (case sn_owner s of None \<Rightarrow> True | Some i \<Rightarrow> ok (turn_inn i ''owner_inn''))
     \<and> (case sn_fetched s of
          Some (Aware f) \<Rightarrow> f \<le> sv_now v + 60000000 \<and> sv_now v - f \<le> sv_max_age v
        | _ \<Rightarrow> False)"

lemma ok_fresh [simp]: "ok (fresh_cis v s) = usable v s"
proof (cases "sn_fetched s")
  case (Some t)
  then show ?thesis
    by (cases t) (auto simp: fresh_cis_def cis_validated_def snapshot_age_check_def usable_def aware_def
        ok_bind ok_iff bind_Inr_iff split: option.splits)
qed (simp add: fresh_cis_def cis_validated_def usable_def aware_def)

lemma ok_owned [simp]: "ok (owned v s) \<longleftrightarrow> sn_owner s = Some (sv_inn v)"
  by (simp add: owned_def)

lemma ok_plain [simp]: "ok (no_special_state s) = blank (sn_status_ex s)"
  by (simp add: no_special_state_def)

lemma ok_fresh_owned_plain [simp]: "ok (fresh_owned_plain v s) \<longleftrightarrow>
    usable v s \<and> sn_owner s = Some (sv_inn v) \<and> blank (sn_status_ex s)"
  by (simp add: fresh_owned_plain_def)

lemma ok_matrix [simp]: "ok (validate_return_reason_matrix pg st w t) \<longleftrightarrow>
    t \<notin> set unsupported_lp_return_types \<and> (pg, or_else st [], or_else w [], t) \<in> set return_reason_matrix"
  by (simp add: validate_return_reason_matrix_def)

lemma checked_Inr: "checked m f v k ss = Inr e \<longleftrightarrow>
    ss \<noteq> [] \<and> (\<forall>s\<in>set ss. ok (f s)) \<and> e = evidence_of v k ss"
  by (auto simp: checked_def bind_Inr_iff each_Inr)

lemma known_is_supported: "t \<in> set known_lp_return_types \<Longrightarrow> t \<notin> set unsupported_lp_return_types"
  by (auto simp: known_lp_return_types_def unsupported_lp_return_types_def)

section \<open>Properties\<close>

text \<open>Codes may be returned exactly when each snapshot is usable, ours, in no special state and
  retired for a reason the matrix pairs with the return type; the evidence then holds all of them.\<close>

theorem validate_return_iff:
  "validate_return v t k ss = Inr e \<longleftrightarrow>
     ss \<noteq> [] \<and> t \<in> set known_lp_return_types \<and> e = evidence_of v k ss
     \<and> (\<forall>s\<in>set ss. usable v s \<and> sn_owner s = Some (sv_inn v) \<and> blank (sn_status_ex s)
          \<and> sn_status s = Some ''RETIRED''
          \<and> (''lp'', ''RETIRED'', or_else (sn_reason s) [], t) \<in> set return_reason_matrix)"
  using known_is_supported [of t]
  by (auto simp: validate_return_def bind_Inr_iff each_Inr return_check_def or_else_def)

text \<open>Codes may be withdrawn for a distance sale exactly when each snapshot is usable, ours, in no
  special state and in circulation.\<close>

theorem validate_distance_iff:
  "validate_distance v ss = Inr e \<longleftrightarrow>
     ss \<noteq> [] \<and> e = evidence_of v WITHDRAW_DISTANCE ss
     \<and> (\<forall>s\<in>set ss. usable v s \<and> sn_owner s = Some (sv_inn v) \<and> blank (sn_status_ex s)
          \<and> sn_status s = Some ''INTRODUCED'')"
  by (auto simp: validate_distance_def checked_Inr)

text \<open>What the contract expects of a code and of its former package, kind by kind.\<close>

definition expected_code :: "turnover_kind \<Rightarrow> restore_map \<Rightarrow> cis_snapshot \<Rightarrow> bool" where
  "expected_code k restore s = (case k of
     WITHDRAW \<Rightarrow> False
   | WITHDRAW_DISTANCE \<Rightarrow> sn_status s = Some ''RETIRED'' \<and> sn_reason s = Some ''DISTANCE''
   | WRITE_OFF \<Rightarrow> sn_status s = Some ''WRITTEN_OFF'' \<and> sn_status_ex s \<in> {None, Some []}
   | CANCEL_WITHDRAWAL \<Rightarrow> map_of restore (sn_cis s) = Some (sn_status s, sn_reason s)
   | _ \<Rightarrow> sn_status s = Some ''INTRODUCED'' \<and> sn_status_ex s \<in> {None, Some []})"

definition left_package :: "m5_observation \<Rightarrow> bool" where
  "left_package v \<longleftrightarrow> post_parent v \<noteq> pre_parent v
     \<and> (H_DISAGGREGATION \<in> set (history_semantics v) \<or> H_AUTO_DISAGGREGATION \<in> set (history_semantics v))"

definition expected_remark :: "m5_observation \<Rightarrow> bool" where
  "expected_remark v =
     (if pre_parent_type v = Some PK_SET
      then (old_status v = Some ''INTRODUCED'' \<and> remark_confirmed v \<and> post_parent v = pre_parent v)
         \<or> (old_status v = Some ''RETIRED'' \<and> left_package v)
      else pre_parent_type v = Some PK_BOX \<longrightarrow> left_package v)"

definition expected_package :: "turnover_kind \<Rightarrow> m5_observation \<Rightarrow> bool" where
  "expected_package k v = (case k of
     WITHDRAW \<Rightarrow> False
   | CANCEL_WITHDRAWAL \<Rightarrow> True
   | INTRODUCE_FTS \<Rightarrow> if fts_color_size v then post_parent v = pre_parent v else left_package v
   | RETURN_TO_CIRCULATION \<Rightarrow> if target_type v = Some PK_SET \<or> target_type v = Some PK_GROUP
       then relation_preserved v = Some True else left_package v
   | RETURN_REMOTE_SALE \<Rightarrow> if target_type v = Some PK_SET \<or> target_type v = Some PK_GROUP
       then relation_preserved v = Some True else left_package v
   | WRITE_OFF \<Rightarrow> pre_parent_type v \<noteq> Some PK_SET
       \<and> (pre_parent_type v = Some PK_BOX \<or> pre_parent_type v = Some PK_ATK \<longrightarrow> left_package v)
   | REMARK \<Rightarrow> expected_remark v
   | _ \<Rightarrow> left_package v)"

lemma postcondition_expected:
  "ss \<noteq> [] \<Longrightarrow> postcondition_holds k restore ss \<longleftrightarrow> (\<forall>s\<in>set ss. expected_code k restore s)"
  using hd_in_set [of ss]
  by (cases k) (auto simp: postcondition_holds_def introducing_kinds_def expected_code_def list_all_iff blank_iff)

lemma left_disaggregated: "left_package v = disaggregated v"
  by (auto simp: left_package_def disaggregated_def list_ex_iff)

lemma review_expected:
  "k \<noteq> WITHDRAW \<Longrightarrow> m5_review (turnover_value k) v = None \<longleftrightarrow> pre_parent v = None \<or> expected_package k v"
  by (cases k) (auto simp: m5_review_def turnover_value_def introduction_kinds_def expected_package_def
      expected_remark_def left_disaggregated)

lemma side_effect_expected:
  "k \<noteq> WITHDRAW \<Longrightarrow> rec_result (reconcile_m5_aggregation_side_effect (turnover_value k) obs) = R_RECONCILED
     \<longleftrightarrow> obs \<noteq> [] \<and> (\<forall>v\<in>set obs. relation_read v \<and> (pre_parent v = None \<or> expected_package k v))"
  by (auto simp: reconcile_m5_aggregation_side_effect_def m5_loop_reconciled m5_turn_def review_expected)

lemma reconciled_verdict:
  "tr_state (reconcile_turnover k doc ss restore ps obs) = R_RECONCILED \<longleftrightarrow>
     doc = Some ''CHECKED_OK'' \<and> ss \<noteq> [] \<and> k \<noteq> WITHDRAW \<and> postcondition_holds k restore ss
     \<and> (had_parents ps \<longrightarrow> rec_result (reconcile_m5_aggregation_side_effect (turnover_value k) obs) = R_RECONCILED)"
proof -
  have withdraw: "\<not> postcondition_holds WITHDRAW restore ss"
    by (simp add: postcondition_holds_def introducing_kinds_def)
  have cancel: "\<not> postcondition_holds CANCEL_WITHDRAWAL [] ss"
    by (cases ss) (simp_all add: postcondition_holds_def introducing_kinds_def)
  have none: "\<not> (k = CANCEL_WITHDRAWAL \<and> postcondition_holds k restore [])"
    by (auto simp: postcondition_holds_def introducing_kinds_def)
  have empty: "rec_result (reconcile_m5_aggregation_side_effect (turnover_value k) []) \<noteq> R_RECONCILED"
    by (simp add: reconcile_m5_aggregation_side_effect_def)
  show ?thesis
    using withdraw cancel none empty
    by (auto simp: reconcile_turnover_def reconciled_as_def aggregation_side_effect_def Let_def
        split: option.splits if_splits prod.splits)
qed

text \<open>C14: an operation is reconciled exactly when its document was accepted, at least one code was read
  back, every code read back shows what its kind expects (retired for the reason \<open>DISTANCE\<close>, written off,
  back in circulation, or exactly the status and reason to restore), and, when one of the codes was in a
  package, the packages were read again and each shows what the kind expects of it. For a cancellation only
  the codes read back are compared, not every code to restore.\<close>

theorem turnover_reconciled_iff:
  "tr_state (reconcile_turnover k doc ss restore ps obs) = R_RECONCILED \<longleftrightarrow>
     doc = Some ''CHECKED_OK'' \<and> ss \<noteq> [] \<and> (\<forall>s\<in>set ss. expected_code k restore s)
     \<and> ((\<exists>p\<in>set ps. snd p \<notin> {None, Some []}) \<longrightarrow>
          obs \<noteq> [] \<and> (\<forall>v\<in>set obs. relation_read v \<and> (pre_parent v = None \<or> expected_package k v)))"
proof (cases "k = WITHDRAW")
  case True
  then have "\<not> (\<forall>s\<in>set ss. expected_code k restore s)" if "ss \<noteq> []"
    using hd_in_set [OF that] by (auto simp: expected_code_def)
  with True show ?thesis by (auto simp: reconciled_verdict)
next
  case False
  have "had_parents ps \<longleftrightarrow> (\<exists>p\<in>set ps. snd p \<notin> {None, Some []})"
    by (auto simp: had_parents_def list_ex_iff truthy_def split: option.splits)
  with False show ?thesis
    by (auto simp: reconciled_verdict side_effect_expected postcondition_expected)
qed

definition demo_service :: service where
  "demo_service = \<lparr>sv_inn = ''7707083893'', sv_now = 1700000000000000, sv_max_age = 300000000\<rparr>"

definition demo_snapshot :: "pystr \<Rightarrow> pystr option \<Rightarrow> cis_snapshot" where
  "demo_snapshot st why = \<lparr>sn_cis = ''010460043993125621'', sn_status = Some st, sn_status_ex = None,
     sn_owner = Some ''7707083893'', sn_reason = why, sn_emission = None, sn_individual = None,
     sn_fetched = Some (Aware 1699999990000000), sn_parent = None, sn_package = None, sn_children = []\<rparr>"

lemma demo_usable: "usable demo_service (demo_snapshot st why)"
proof -
  have "ok (turn_cis ''010460043993125621'' ''cis'') \<and> ok (turn_inn ''7707083893'' ''owner_inn'')"
    by code_simp
  then show ?thesis by (simp add: usable_def demo_service_def demo_snapshot_def)
qed

lemma validate_return_iff_witness:
  "validate_return demo_service ''REMOTE_SALE_RETURN'' RETURN_REMOTE_SALE
       [demo_snapshot ''RETIRED'' (Some ''DISTANCE'')]
     = Inr (evidence_of demo_service RETURN_REMOTE_SALE [demo_snapshot ''RETIRED'' (Some ''DISTANCE'')])"
proof -
  have "sn_owner (demo_snapshot a b) = Some (sv_inn demo_service)" "sn_status_ex (demo_snapshot a b) = None"
    "sn_status (demo_snapshot a b) = Some a" "sn_reason (demo_snapshot a b) = b" for a b
    by (simp_all add: demo_snapshot_def demo_service_def)
  moreover have "''REMOTE_SALE_RETURN'' \<in> set known_lp_return_types"
    "(''lp'', ''RETIRED'', ''DISTANCE'', ''REMOTE_SALE_RETURN'') \<in> set return_reason_matrix"
    by code_simp+
  ultimately show ?thesis
    unfolding validate_return_iff using demo_usable by (simp add: or_else_def)
qed

lemma validate_distance_iff_witness:
  "validate_distance demo_service [demo_snapshot ''INTRODUCED'' None]
     = Inr (evidence_of demo_service WITHDRAW_DISTANCE [demo_snapshot ''INTRODUCED'' None])"
  unfolding validate_distance_iff using demo_usable
  by (simp add: demo_snapshot_def demo_service_def)

text \<open>A distance withdrawal is reconciled with the reason \<open>DISTANCE\<close> and not with another; a write-off with
  \<open>WRITTEN_OFF\<close> and not with \<open>RETIRED\<close>; a cancellation that should restore two codes is reconciled when
  one of them was read back.\<close>

lemma turnover_reconciled_iff_witness:
  "tr_state (reconcile_turnover WITHDRAW_DISTANCE (Some ''CHECKED_OK'') [demo_snapshot ''RETIRED'' (Some ''DISTANCE'')]
     [] [] []) = R_RECONCILED
   \<and> tr_state (reconcile_turnover WITHDRAW_DISTANCE (Some ''CHECKED_OK'') [demo_snapshot ''RETIRED'' (Some ''OTHER'')]
     [] [] []) \<noteq> R_RECONCILED
   \<and> tr_state (reconcile_turnover WRITE_OFF (Some ''CHECKED_OK'') [demo_snapshot ''WRITTEN_OFF'' None] [] [] []) = R_RECONCILED
   \<and> tr_state (reconcile_turnover WRITE_OFF (Some ''CHECKED_OK'') [demo_snapshot ''RETIRED'' None] [] [] []) \<noteq> R_RECONCILED
   \<and> tr_state (reconcile_turnover CANCEL_WITHDRAWAL (Some ''CHECKED_OK'') [demo_snapshot ''INTRODUCED'' None]
     [(''010460043993125621'', Some ''INTRODUCED'', None), (''010460043993125622'', Some ''INTRODUCED'', None)]
     [] []) = R_RECONCILED"
  unfolding turnover_reconciled_iff
  by (simp add: expected_code_def demo_snapshot_def)

end
