(* ===== verification/AgentJobs.thy ===== *)
theory AgentJobs
  imports TurnoverChecks
begin

text \<open>
  The jobs of \<open>wbcz/windows_agent.py\<close>: what the server asks the Windows agent to do, the validation of
  a job on both sides, results, the machine token, and the durable outbox of jobs on the server
  (\<open>VpsAgentJobStore\<close>). \<open>StrEnum\<close> members are their texts. The payload validators of the read jobs
  (\<open>cis_inventory\<close>, \<open>reference_products\<close>, \<open>document_lifecycle\<close>, \<open>edo_lite\<close>, \<open>m11_reports\<close>) are one
  argument, a function of the job type and the payload.
\<close>

section \<open>Errors and job types\<close>

datatype agent_error =
    AgentSecurity pystr
  | AgentAuth
  | AgentReplay pystr
  | AgentUnresolved
  | AgentWriteDisabled
  | AgentKeyMissing
  | AgentValue pystr
  | AgentAssertion
  | AgentIntegrity
  | AgentStore write_error
  | AgentForeign pystr

type_synonym job_type = pystr

definition m1_read_job_types :: "job_type list" where
  "m1_read_job_types = [''CIS_INFO'', ''CIS_SEARCH'', ''CIS_HISTORY'', ''CIS_AGGREGATED_LIST'',
     ''CIS_AGGREGATION_HISTORY'', ''PRODUCT_INFO'', ''CIS_TO_PRODUCT'']"

definition m2_read_job_types :: "job_type list" where
  "m2_read_job_types = [''PARTICIPANTS'', ''MODS_LIST'', ''TN_VED_SEARCH'', ''PRODUCT_GTIN_LIST'', ''RD_LIST'']"

definition m4_read_job_types :: "job_type list" where
  "m4_read_job_types = [''DOCUMENT_LIST'', ''DOCUMENT_INFO'', ''DOCUMENT_CISES'']"

definition m7_read_job_types :: "job_type list" where
  "m7_read_job_types = [''EDO_PARTICIPANT'', ''EDO_OUTGOING_LIST'', ''EDO_INCOMING_LIST'',
     ''EDO_OUTGOING_CONTENT'', ''EDO_INCOMING_CONTENT'', ''EDO_OUTGOING_PRINT'', ''EDO_INCOMING_PRINT'',
     ''EDO_OUTGOING_LEGAL_ZIP'', ''EDO_INCOMING_LEGAL_ZIP'', ''EDO_OUTGOING_UNSIGNED_EVENTS'',
     ''EDO_INCOMING_UNSIGNED_EVENTS'', ''EDO_EVENT_CONTENT'', ''EDO_OUTGOING_RECEIPT'',
     ''EDO_INCOMING_RECEIPT'', ''EDO_OUTGOING_MCHD'', ''EDO_INCOMING_MCHD'', ''EDO_GIS_PROCESSING'']"

definition m11_agent_job_types :: "job_type list" where
  "m11_agent_job_types = [''REPORT_CREATE'', ''REPORT_TASK_GET'', ''REPORT_TASK_LIST'', ''REPORT_RESULTS'',
     ''REPORT_DOWNLOAD'', ''REPORT_QUOTA_TYPE'', ''REPORT_QUOTA_ID'']"

text \<open>The document types of the turnover and aggregation operations are the write jobs.\<close>

definition write_job_types :: "job_type list" where
  "write_job_types = m5_document_types @ m6_document_types"

definition agent_job_types :: "job_type list" where
  "agent_job_types =
     [''CIS_CHECK'', ''LK_RECEIPT'', ''LP_RETURN'', ''LP_INTRODUCE_GOODS'', ''LK_INDI_COMMISSIONING'',
      ''LP_GOODS_IMPORT'', ''CROSSBORDER'', ''LP_INTRODUCE_OST'', ''LK_CONTRACT_COMMISSIONING'',
      ''LP_FTS_INTRODUCE'', ''LK_REMARK'', ''WRITE_OFF'', ''LK_RECEIPT_CANCEL'', ''AGGREGATION_DOCUMENT'',
      ''SETS_AGGREGATION'', ''REAGGREGATION_DOCUMENT'', ''DISAGGREGATION_DOCUMENT'', ''ATK_AGGREGATION'',
      ''ATK_TRANSFORMATION'', ''ATK_DISAGGREGATION'', ''POLL_DOCUMENT'']
     @ m1_read_job_types @ m2_read_job_types @ m4_read_job_types @ m7_read_job_types
     @ m11_agent_job_types @ [''INTEGRATION_HEALTH'']"

section \<open>Jobs\<close>

record agent_job =
  job_id :: pystr
  job_type :: job_type
  job_operation :: pystr
  job_pg :: pystr
  job_inn :: pystr
  job_document_type :: "pystr option"
  job_sha256 :: "pystr option"
  job_base64 :: "pystr option"
  job_cises :: "pystr list"
  job_document_id :: "pystr option"
  job_payload :: "wire option"

definition opt_obj :: "wire option \<Rightarrow> json" where
  "opt_obj v = (case v of None \<Rightarrow> JNull | Some w \<Rightarrow> JObj w)"

text \<open>\<open>_payload\<close>: the canonical text of the job, and its digest.\<close>

definition job_json :: "agent_job \<Rightarrow> wire" where
  "job_json j =
     [(''job_id'', JStr (job_id j)), (''job_type'', JStr (job_type j)),
      (''operation_id'', JStr (job_operation j)), (''pg'', JStr (job_pg j)),
      (''expected_inn'', JStr (job_inn j)), (''document_type'', opt_str (job_document_type j)),
      (''document_sha256'', opt_str (job_sha256 j)),
      (''product_document_base64'', opt_str (job_base64 j)), (''cises'', str_list (job_cises j)),
      (''document_id'', opt_str (job_document_id j)), (''read_payload'', opt_obj (job_payload j))]"

definition job_sha :: "agent_job \<Rightarrow> pystr" where
  "job_sha j = sha256_hex (utf8 (canonical_json (JObj (job_json j))))"

definition normalize_cis :: "pystr \<Rightarrow> pystr + pystr" where
  "normalize_cis v = (let t = strip v in
     if 18 \<le> length t \<and> length t \<le> 74 then Inr t else Inl ''CIS length must be 18..74 characters'')"

definition normalize_cises :: "pystr list \<Rightarrow> pystr + pystr list" where
  "normalize_cises vs = bind (collect normalize_cis vs) (\<lambda>cs.
     if 1 \<le> length cs \<and> length cs \<le> 1000 then Inr cs
     else Inl ''cises/info batch must contain 1..1000 cises'')"

definition safe_id :: "nat \<Rightarrow> pystr \<Rightarrow> bool" where
  "safe_id n s \<longleftrightarrow> 1 \<le> length s \<and> length s \<le> n \<and> list_all id_char s"

type_synonym agent_check = "agent_error + unit"
type_synonym payload_validator = "job_type \<Rightarrow> wire \<Rightarrow> pystr + wire"

definition secure :: "bool \<Rightarrow> pystr \<Rightarrow> agent_check" where
  "secure b message = (if b then Inr () else Inl (AgentSecurity message))"

text \<open>\<open>any((document_type, document_sha256, product_document_base64, cises, document_id))\<close>\<close>

definition write_fields :: "agent_job \<Rightarrow> bool" where
  "write_fields j \<longleftrightarrow> truthy (job_document_type j) \<or> truthy (job_sha256 j) \<or> truthy (job_base64 j)
     \<or> job_cises j \<noteq> [] \<or> truthy (job_document_id j)"

definition check_write_job :: "agent_job \<Rightarrow> agent_check" where
  "check_write_job j =
     bind (secure (job_document_type j = Some (job_type j)) ''job/document type mismatch'') (\<lambda>_.
     bind (secure (truthy (job_sha256 j) \<and> truthy (job_base64 j))
             ''write job misses immutable document fields'') (\<lambda>_.
     case b64decode (the (job_base64 j)) of
       None \<Rightarrow> Inl (AgentSecurity ''product_document is invalid Base64'')
     | Some raw \<Rightarrow>
         bind (secure (Some (sha256_hex raw) = job_sha256 j) ''document_sha256 mismatch'') (\<lambda>_.
         bind (secure (json_loads raw \<noteq> None) ''document bytes are not UTF-8 JSON'') (\<lambda>_.
           secure (\<not> (job_cises j \<noteq> [] \<or> truthy (job_document_id j) \<or> job_payload j \<noteq> None))
             ''write job contains unrelated fields''))))"

definition check_cis_job :: "agent_job \<Rightarrow> agent_check" where
  "check_cis_job j =
     bind (map_error AgentSecurity (normalize_cises (job_cises j))) (\<lambda>cs.
     bind (secure (cs = job_cises j) ''CIS_CHECK cises must already be normalized'') (\<lambda>_.
       secure (\<not> (truthy (job_document_type j) \<or> truthy (job_sha256 j) \<or> truthy (job_base64 j)
                  \<or> truthy (job_document_id j) \<or> job_payload j \<noteq> None))
         ''CIS_CHECK contains write/poll/read fields''))"

definition check_poll_job :: "agent_job \<Rightarrow> agent_check" where
  "check_poll_job j =
     bind (secure (case job_document_id j of None \<Rightarrow> False | Some d \<Rightarrow> safe_id 256 d) ''invalid document_id'') (\<lambda>_.
       secure (\<not> (truthy (job_document_type j) \<or> truthy (job_sha256 j) \<or> truthy (job_base64 j)
                  \<or> job_cises j \<noteq> [] \<or> job_payload j \<noteq> None))
         ''POLL_DOCUMENT contains unrelated fields'')"

text \<open>The five families of read jobs differ in their messages. Payloads are compared by their canonical
  text: equal dictionaries whatever the order of their keys.\<close>

definition same_payload :: "wire \<Rightarrow> wire \<Rightarrow> bool" where
  "same_payload a b \<longleftrightarrow> canonical_json (JObj a) = canonical_json (JObj b)"

definition check_read_job :: "pystr \<Rightarrow> pystr \<Rightarrow> pystr \<Rightarrow> payload_validator \<Rightarrow> agent_job
    \<Rightarrow> agent_error + wire" where
  "check_read_job misses mixed canonical validator j = (case job_payload j of
     None \<Rightarrow> Inl (AgentSecurity misses)
   | Some w \<Rightarrow>
       bind (secure (\<not> write_fields j) mixed) (\<lambda>_.
       bind (map_error AgentSecurity (validator (job_type j) w)) (\<lambda>normalized.
       bind (secure (same_payload normalized w) canonical) (\<lambda>_. Inr normalized))))"

definition check_health_job :: "agent_job \<Rightarrow> agent_check" where
  "check_health_job j = (case job_payload j of
     None \<Rightarrow> Inl (AgentSecurity ''M14 health job misses typed read_payload'')
   | Some w \<Rightarrow>
       bind (secure (fst ` set w \<subseteq> {''check_id'', ''check_kind'', ''read_probe''})
               ''M14 health job contains unsupported fields'') (\<lambda>_.
       bind (secure (case get_key ''check_id'' w of JStr s \<Rightarrow> safe_id 128 s | _ \<Rightarrow> False)
               ''M14 health check_id is invalid'') (\<lambda>_.
       bind (secure (get_key ''check_kind'' w = JStr ''TRUE_API'')
               ''M14 health check_kind is unsupported'') (\<lambda>_.
       bind (secure (map_of w ''read_probe'' \<in> {None, Some (JStr ''NOT_TESTED'')})
               ''M14 optional read probe is not enabled'') (\<lambda>_.
         secure (\<not> write_fields j) ''M14 health job contains write/business fields'')))))"

definition report_participant :: "agent_job \<Rightarrow> wire \<Rightarrow> bool" where
  "report_participant j w = (case get_key ''filters'' w of
     JObj f \<Rightarrow> get_key ''participant_inn'' f = JStr (job_inn j) | _ \<Rightarrow> False)"

definition check_report_job :: "payload_validator \<Rightarrow> agent_job \<Rightarrow> agent_check" where
  "check_report_job validator j =
     bind (check_read_job ''M11 report job misses typed read_payload''
             ''M11 report job contains unrelated P0/write fields''
             ''M11 report read_payload must already be canonical'' validator j) (\<lambda>normalized.
       secure (job_type j = ''REPORT_CREATE'' \<longrightarrow> report_participant j normalized)
         ''M11 report participant does not match expected_inn'')"

definition forget :: "agent_error + 'a \<Rightarrow> agent_check" where
  "forget r = bind r (\<lambda>_. Inr ())"

definition validate_job :: "payload_validator \<Rightarrow> agent_job \<Rightarrow> agent_check" where
  "validate_job validator j =
     bind (secure (job_id j \<noteq> [] \<and> job_operation j \<noteq> []) ''job_id and operation_id are required'') (\<lambda>_.
     bind (secure (job_pg j = ''lp'') ''P0 agent allows only pg=lp'') (\<lambda>_.
     bind (secure (job_inn j \<noteq> []) ''expected_inn is required'') (\<lambda>_.
       if job_type j \<in> set write_job_types then check_write_job j
       else if job_type j = ''CIS_CHECK'' then check_cis_job j
       else if job_type j = ''POLL_DOCUMENT'' then check_poll_job j
       else if job_type j \<in> set m1_read_job_types
       then forget (check_read_job ''M1 read job misses read_payload''
              ''M1 read job contains P0/write fields'' ''M1 read_payload must already be canonical'' validator j)
       else if job_type j \<in> set m2_read_job_types
       then forget (check_read_job ''M2 read job misses read_payload''
              ''M2 read job contains P0/write fields'' ''M2 read_payload must already be canonical'' validator j)
       else if job_type j \<in> set m4_read_job_types
       then forget (check_read_job ''M4 document read job misses read_payload''
              ''M4 document read job contains P0/write fields''
              ''M4 read_payload must already be canonical'' validator j)
       else if job_type j \<in> set m7_read_job_types
       then forget (check_read_job ''M7 EDO read job misses read_payload''
              ''M7 EDO read job contains P0/write fields''
              ''M7 EDO read_payload must already be canonical'' validator j)
       else if job_type j = ''INTEGRATION_HEALTH'' then check_health_job j
       else if job_type j \<in> set m11_agent_job_types then check_report_job validator j
       else Inl (AgentSecurity ''unsupported agent job type''))))"

end
