(* ===== verification/AgentStore.thy ===== *)
theory AgentStore
  imports AgentJobs "HOL-Library.AList"
begin

text \<open>
  Results, the machine token and the two durable stores of the agent: the server's outbox of jobs
  (\<open>VpsAgentJobStore\<close> of \<open>wbcz/windows_agent.py\<close>) and the agent's own guard against a second create
  (\<open>WindowsAgentReplayStore\<close> of \<open>wbcz/windows_agent_runtime.py\<close>) with its rate windows. A row holds
  the job or result that its JSON text denotes, beside the digest of that text. Each method is one
  transaction: an exception leaves the table as it was.
\<close>

section \<open>Results and the machine token\<close>

record agent_result =
  res_job :: pystr
  res_operation :: pystr
  res_outcome :: pystr
  res_sha256 :: "pystr option"
  res_signature :: "pystr option"
  res_thumbprint :: "pystr option"
  res_subject :: "pystr option"
  res_inn :: "pystr option"
  res_valid_from :: "pystr option"
  res_valid_to :: "pystr option"
  res_http :: "int option"
  res_category :: "pystr option"
  res_document_id :: "pystr option"
  res_remote_status :: "pystr option"
  res_body_sha256 :: "pystr option"
  res_cises :: "wire list"
  res_error_code :: "pystr option"
  res_error_message :: "pystr option"
  res_content_type :: "pystr option"
  res_read :: "json option"
  res_create_response :: "wire option"

definition plain_result :: "agent_job \<Rightarrow> pystr \<Rightarrow> agent_result" where
  "plain_result j out =
     \<lparr>res_job = job_id j, res_operation = job_operation j, res_outcome = out, res_sha256 = None,
      res_signature = None, res_thumbprint = None, res_subject = None, res_inn = None,
      res_valid_from = None, res_valid_to = None, res_http = None, res_category = None,
      res_document_id = None, res_remote_status = None, res_body_sha256 = None, res_cises = [],
      res_error_code = None, res_error_message = None, res_content_type = None, res_read = None,
      res_create_response = None\<rparr>"

definition result_json :: "agent_result \<Rightarrow> wire" where
  "result_json r =
     [(''job_id'', JStr (res_job r)), (''operation_id'', JStr (res_operation r)),
      (''outcome'', JStr (res_outcome r)), (''document_sha256'', opt_str (res_sha256 r)),
      (''signature_base64'', opt_str (res_signature r)),
      (''certificate_thumbprint'', opt_str (res_thumbprint r)),
      (''certificate_subject'', opt_str (res_subject r)), (''certificate_inn'', opt_str (res_inn r)),
      (''certificate_valid_from'', opt_str (res_valid_from r)),
      (''certificate_valid_to'', opt_str (res_valid_to r)), (''http_status'', opt_int (res_http r)),
      (''create_category'', opt_str (res_category r)), (''document_id'', opt_str (res_document_id r)),
      (''remote_status'', opt_str (res_remote_status r)), (''body_sha256'', opt_str (res_body_sha256 r)),
      (''cises'', JList (map JObj (res_cises r))), (''error_code'', opt_str (res_error_code r)),
      (''error_message'', opt_str (res_error_message r)), (''content_type'', opt_str (res_content_type r)),
      (''read_result'', (case res_read r of None \<Rightarrow> JNull | Some v \<Rightarrow> v)),
      (''create_response'', opt_obj (res_create_response r))]"

definition result_sha :: "agent_result \<Rightarrow> pystr" where
  "result_sha r = sha256_hex (utf8 (canonical_json (JObj (result_json r))))"

definition machine_token :: "pystr \<Rightarrow> agent_error + pystr" where
  "machine_token token =
     (if length token < 16
      then Inl (AgentValue ''agent machine token must be a runtime secret >=16 chars'')
      else Inr token)"

text \<open>\<open>hmac.compare_digest\<close> compares two texts only when both are ASCII.\<close>

definition verify_token :: "pystr \<Rightarrow> pystr option \<Rightarrow> agent_error + unit" where
  "verify_token token supplied =
     (if \<not> truthy supplied then Inl AgentAuth
      else if \<not> isascii token \<or> \<not> isascii (the supplied) then Inl (AgentForeign ''TypeError'')
      else if supplied \<noteq> Some token then Inl AgentAuth
      else Inr ())"

lemma verify_token_Inr: "verify_token token supplied = Inr u \<Longrightarrow> supplied = Some token"
  by (simp add: verify_token_def split: if_splits)

section \<open>The server's outbox of jobs\<close>

datatype job_state = J_PENDING | J_LEASED | J_COMPLETED

record job_row =
  row_job :: agent_job
  row_job_sha :: pystr
  row_job_state :: job_state
  row_result :: "agent_result option"
  row_created :: pystr
  row_changed :: pystr

type_synonym job_table = "job_row list"
type_synonym 'a job_txn = "(job_table, agent_error, 'a) txn"

definition row_id :: "job_row \<Rightarrow> pystr" where
  "row_id r = job_id (row_job r)"

text \<open>The column pair of \<open>UNIQUE(job_type, operation_id)\<close>.\<close>

definition row_operation :: "job_row \<Rightarrow> job_type \<times> pystr" where
  "row_operation r = (job_type (row_job r), job_operation (row_job r))"

definition pending_row :: "agent_job \<Rightarrow> pystr \<Rightarrow> job_row" where
  "pending_row j t = \<lparr>row_job = j, row_job_sha = job_sha j, row_job_state = J_PENDING,
     row_result = None, row_created = t, row_changed = t\<rparr>"

definition enqueue :: "payload_validator \<Rightarrow> pystr \<Rightarrow> agent_job \<Rightarrow> agent_job job_txn" where
  "enqueue validator now j d = bind (validate_job validator j) (\<lambda>_.
     case lookup_row row_operation (job_type j, job_operation j) d of
       Some r \<Rightarrow>
         if row_job_sha r \<noteq> job_sha j
         then Inl (AgentReplay ''same agent operation has different payload'')
         else Inr (row_job r, d)
     | None \<Rightarrow>
         if job_id j \<in> row_id ` set d then Inl AgentIntegrity
         else Inr (j, d @ [pending_row j now]))"

text \<open>\<open>ORDER BY created_at, job_id LIMIT 1\<close> over the rows that are not completed.\<close>

definition row_before :: "job_row \<Rightarrow> job_row \<Rightarrow> bool" where
  "row_before a b \<longleftrightarrow> row_created a < row_created b \<or> (row_created a = row_created b \<and> row_id a < row_id b)"

fun first_row :: "job_row list \<Rightarrow> job_row option" where
  "first_row [] = None"
| "first_row (r # rs) = (case first_row rs of
     None \<Rightarrow> Some r | Some q \<Rightarrow> Some (if row_before q r then q else r))"

definition open_rows :: "job_table \<Rightarrow> job_row list" where
  "open_rows d = filter (\<lambda>r. row_job_state r \<noteq> J_COMPLETED) d"

definition fetch_job :: "pystr \<Rightarrow> agent_job option job_txn" where
  "fetch_job now d = (case first_row (open_rows d) of
     None \<Rightarrow> Inr (None, d)
   | Some r \<Rightarrow> Inr (Some (row_job r),
       if row_job_state r = J_PENDING
       then update_rows row_id (row_id r) (\<lambda>q. q\<lparr>row_job_state := J_LEASED, row_changed := now\<rparr>) d
       else d))"

definition finish_row :: "pystr \<Rightarrow> agent_result \<Rightarrow> job_row \<Rightarrow> job_row" where
  "finish_row now r q = q\<lparr>row_job_state := J_COMPLETED, row_result := Some r, row_changed := now\<rparr>"

definition complete_job :: "pystr \<Rightarrow> agent_result \<Rightarrow> unit job_txn" where
  "complete_job now r d = (case lookup_row row_id (res_job r) d of
     None \<Rightarrow> Inl AgentKeyMissing
   | Some q \<Rightarrow>
       if job_operation (row_job q) \<noteq> res_operation r
       then Inl (AgentReplay ''result operation_id mismatch'')
       else if row_job_state q = J_COMPLETED then
         (if map_option result_sha (row_result q) \<noteq> Some (result_sha r)
          then Inl (AgentReplay ''incompatible duplicate agent result'')
          else Inr ((), d))
       else Inr ((), update_rows row_id (res_job r) (finish_row now r) d))"

definition job_status :: "pystr \<Rightarrow> job_table \<Rightarrow> agent_error + job_state" where
  "job_status i d = (case lookup_row row_id i d of
     None \<Rightarrow> Inl AgentKeyMissing | Some r \<Rightarrow> Inr (row_job_state r))"

section \<open>The agent's guard against a second create\<close>

record replay_row =
  guard_operation :: pystr
  guard_sha256 :: pystr
  guard_result :: "agent_result option"
  guard_created :: pystr
  guard_changed :: pystr

text \<open>A row is \<open>RESERVED\<close> while it holds no result and \<open>COMPLETED\<close> once it does.\<close>

type_synonym replay_table = "replay_row list"
type_synonym 'a replay_txn = "(replay_table, agent_error, 'a) txn"

definition guard_verdict :: "pystr \<Rightarrow> replay_row \<Rightarrow> agent_error + agent_result" where
  "guard_verdict sha r =
     (if guard_sha256 r \<noteq> sha
      then Inl (AgentReplay ''operation replay with different immutable document hash'')
      else case guard_result r of Some v \<Rightarrow> Inr v | None \<Rightarrow> Inl AgentUnresolved)"

definition inspect :: "pystr \<Rightarrow> pystr \<Rightarrow> replay_table \<Rightarrow> agent_error + agent_result option" where
  "inspect i sha d = (case lookup_row guard_operation i d of
     None \<Rightarrow> Inr None
   | Some r \<Rightarrow> bind (guard_verdict sha r) (\<lambda>v. Inr (Some v)))"

definition claim :: "pystr \<Rightarrow> pystr \<Rightarrow> pystr \<Rightarrow> agent_result option replay_txn" where
  "claim now i sha d =
     (if i = [] \<or> sha = []
      then Inl (AgentValue ''operation_id and document_sha256 are required'')
      else case lookup_row guard_operation i d of
        None \<Rightarrow> Inr (None, d @ [\<lparr>guard_operation = i, guard_sha256 = sha, guard_result = None,
                  guard_created = now, guard_changed = now\<rparr>])
      | Some r \<Rightarrow> bind (guard_verdict sha r) (\<lambda>v. Inr (Some v, d)))"

definition complete_guard :: "pystr \<Rightarrow> pystr \<Rightarrow> pystr \<Rightarrow> agent_result \<Rightarrow> unit replay_txn" where
  "complete_guard now i sha v d = (case lookup_row guard_operation i d of
     None \<Rightarrow> Inl (AgentReplay ''write operation was not reserved'')
   | Some r \<Rightarrow>
       if guard_sha256 r \<noteq> sha then Inl (AgentReplay ''write result hash mismatch'')
       else (case guard_result r of
           Some w \<Rightarrow> if result_sha w \<noteq> result_sha v
             then Inl (AgentReplay ''incompatible duplicate local result'') else Inr ((), d)
         | None \<Rightarrow> Inr ((), update_rows guard_operation i
             (\<lambda>q. q\<lparr>guard_result := Some v, guard_changed := now\<rparr>) d)))"

definition guard_state :: "pystr \<Rightarrow> replay_table \<Rightarrow> pystr option" where
  "guard_state i d = map_option
     (\<lambda>r. if guard_result r = None then ''RESERVED'' else ''COMPLETED'') (lookup_row guard_operation i d)"

section \<open>The life of a job\<close>

inductive job_step :: "job_table \<Rightarrow> job_table \<Rightarrow> bool" where
  job_enqueue: "enqueue validator now j d = Inr (v, d') \<Longrightarrow> job_step d d'"
| job_fetch: "fetch_job now d = Inr (v, d') \<Longrightarrow> job_step d d'"
| job_complete: "complete_job now r d = Inr (u, d') \<Longrightarrow> job_step d d'"

definition job_row_ok :: "job_row \<Rightarrow> bool" where
  "job_row_ok r \<longleftrightarrow> row_job_sha r = job_sha (row_job r)
     \<and> (row_job_state r = J_COMPLETED \<longleftrightarrow> row_result r \<noteq> None)"

definition jobs_ok :: "job_table \<Rightarrow> bool" where
  "jobs_ok d \<longleftrightarrow> distinct (map row_id d) \<and> distinct (map row_operation d) \<and> (\<forall>r\<in>set d. job_row_ok r)"

definition job_rank :: "job_state \<Rightarrow> nat" where
  "job_rank s = (case s of J_PENDING \<Rightarrow> 0 | J_LEASED \<Rightarrow> 1 | J_COMPLETED \<Rightarrow> 2)"

definition job_state_at :: "job_table \<Rightarrow> pystr \<Rightarrow> job_state option" where
  "job_state_at d i = map_option row_job_state (lookup_row row_id i d)"

lemma first_row_in: "first_row rs = Some r \<Longrightarrow> r \<in> set rs"
  by (induction rs arbitrary: r) (auto split: option.splits if_splits)

lemma first_row_None: "first_row rs = None \<longleftrightarrow> rs = []"
  by (cases rs) (auto split: option.splits)

text \<open>What each operation does to a table, in one of three forms.\<close>

lemma job_step_cases:
  assumes "job_step d d'"
  obtains (same) "d' = d"
  | (added) j now where "d' = d @ [pending_row j now]" "job_id j \<notin> row_id ` set d"
      "(job_type j, job_operation j) \<notin> row_operation ` set d"
  | (leased) r now where "r \<in> set d" "row_job_state r = J_PENDING"
      "d' = update_rows row_id (row_id r) (\<lambda>q. q\<lparr>row_job_state := J_LEASED, row_changed := now\<rparr>) d"
  | (finished) q now r where "lookup_row row_id (res_job r) d = Some q" "row_job_state q \<noteq> J_COMPLETED"
      "job_operation (row_job q) = res_operation r"
      "d' = update_rows row_id (res_job r) (finish_row now r) d"
  using assms
proof cases
  case (job_enqueue validator now j v)
  then have "d' = d \<or> d' = d @ [pending_row j now] \<and> job_id j \<notin> row_id ` set d
      \<and> lookup_row row_operation (job_type j, job_operation j) d = None"
    by (auto simp: enqueue_def bind_Inr_iff split: option.splits if_splits)
  with same added show ?thesis by (auto simp: lookup_row_None)
next
  case (job_fetch now v)
  have "d' = d \<or> (\<exists>r. first_row (open_rows d) = Some r \<and> row_job_state r = J_PENDING
      \<and> d' = update_rows row_id (row_id r) (\<lambda>q. q\<lparr>row_job_state := J_LEASED, row_changed := now\<rparr>) d)"
    using job_fetch by (cases "first_row (open_rows d)") (auto simp: fetch_job_def split: if_splits)
  moreover have "r \<in> set d" if "first_row (open_rows d) = Some r" for r
    using first_row_in [OF that] by (simp add: open_rows_def)
  ultimately show ?thesis using same leased by blast
next
  case (job_complete now r u)
  then have "d' = d \<or> (\<exists>q. lookup_row row_id (res_job r) d = Some q \<and> row_job_state q \<noteq> J_COMPLETED
      \<and> job_operation (row_job q) = res_operation r \<and> d' = update_rows row_id (res_job r) (finish_row now r) d)"
    by (cases "lookup_row row_id (res_job r) d") (auto simp: complete_job_def split: if_splits)
  with same finished show ?thesis by blast
qed

lemma row_keys_changed [simp]:
  "row_id (q\<lparr>row_job_state := s, row_changed := t\<rparr>) = row_id q"
  "row_operation (q\<lparr>row_job_state := s, row_changed := t\<rparr>) = row_operation q"
  "row_id (finish_row t r q) = row_id q" "row_operation (finish_row t r q) = row_operation q"
  by (simp_all add: row_id_def row_operation_def finish_row_def)

lemma lookup_changed:
  "lookup_row row_id i (update_rows row_id k (finish_row t r) d) =
     (if i = k then map_option (finish_row t r) (lookup_row row_id k d) else lookup_row row_id i d)"
  "lookup_row row_id i (update_rows row_id k (\<lambda>q. q\<lparr>row_job_state := s, row_changed := t\<rparr>) d) =
     (if i = k then map_option (\<lambda>q. q\<lparr>row_job_state := s, row_changed := t\<rparr>) (lookup_row row_id k d)
      else lookup_row row_id i d)"
  by (simp_all add: lookup_update_rows)

lemma row_keys_pending [simp]: "row_id (pending_row j t) = job_id j"
  "row_operation (pending_row j t) = (job_type j, job_operation j)" "job_row_ok (pending_row j t)"
  by (simp_all add: row_id_def row_operation_def pending_row_def job_row_ok_def)

lemma row_ok_changed: "job_row_ok (finish_row t r q) = (row_job_sha q = job_sha (row_job q))"
  by (simp add: job_row_ok_def finish_row_def)

lemma jobs_ok_same_id:
  "jobs_ok d \<Longrightarrow> r \<in> set d \<Longrightarrow> q \<in> set d \<Longrightarrow> row_id q = row_id r \<Longrightarrow> q = r"
  by (auto simp: jobs_ok_def distinct_map dest: inj_onD)

lemma job_step_ok:
  assumes "job_step d d'" and d: "jobs_ok d"
  shows "jobs_ok d'"
  using assms(1)
proof (cases rule: job_step_cases)
  case (added j now)
  with d show ?thesis by (auto simp: jobs_ok_def)
next
  case (leased r now)
  have "job_row_ok (q\<lparr>row_job_state := J_LEASED, row_changed := now\<rparr>)" if "q \<in> set d" "row_id q = row_id r" for q
    using jobs_ok_same_id [OF d leased(1) that] leased(1,2) d
    by (auto simp: job_row_ok_def jobs_ok_def)
  with d leased(3) show ?thesis
    by (auto simp: jobs_ok_def keys_update_rows set_update_rows)
next
  case (finished q now r)
  with d show ?thesis
    by (auto simp: jobs_ok_def keys_update_rows set_update_rows row_ok_changed) (auto simp: job_row_ok_def)
qed (use d in simp)

lemma job_run_ok: "job_step\<^sup>*\<^sup>* d d' \<Longrightarrow> jobs_ok d \<Longrightarrow> jobs_ok d'"
  by (induction rule: rtranclp_induct) (auto intro: job_step_ok)

lemma job_row_kept:
  assumes "job_step d d'" and d: "jobs_ok d" and q: "lookup_row row_id i d = Some q"
  shows "\<exists>p. lookup_row row_id i d' = Some p \<and> row_job p = row_job q
    \<and> (p = q \<or> job_rank (row_job_state q) < job_rank (row_job_state p))"
  using assms(1)
proof (cases rule: job_step_cases)
  case (added j now)
  with q show ?thesis by (simp add: lookup_row_append)
next
  case (leased r now)
  have "q = r" if "i = row_id r"
    using that jobs_ok_same_id [OF d leased(1), of q] lookup_row_Some [OF q] by simp
  with leased q show ?thesis by (auto simp: lookup_changed job_rank_def)
next
  case (finished p now r)
  have "job_rank (row_job_state p) < job_rank J_COMPLETED"
    using finished(2) by (cases "row_job_state p") (simp_all add: job_rank_def)
  with q finished show ?thesis by (auto simp: lookup_changed) (simp add: finish_row_def)+
qed (use q in simp)

interpretation jl: lifecycle job_state_at job_rank "\<lambda>d d'. jobs_ok d \<and> job_step d d'"
proof
  fix d d' k a
  assume "jobs_ok d \<and> job_step d d'" and "job_state_at d k = Some a"
  then obtain q where "lookup_row row_id k d = Some q" "a = row_job_state q" "jobs_ok d" "job_step d d'"
    by (auto simp: job_state_at_def)
  then show "\<exists>b. job_state_at d' k = Some b \<and> (b = a \<or> job_rank a < job_rank b)"
    using job_row_kept [of d d' k q] by (auto simp: job_state_at_def)
qed

lemma job_run_guarded:
  "job_step\<^sup>*\<^sup>* d d' \<Longrightarrow> jobs_ok d \<Longrightarrow> (\<lambda>d d'. jobs_ok d \<and> job_step d d')\<^sup>*\<^sup>* d d'"
proof (induction rule: rtranclp_induct)
  case (step y z)
  then show ?case using job_run_ok [OF step.hyps(1)] by (auto intro: rtranclp.rtrancl_into_rtrancl)
qed simp

lemma rank_completed: "job_rank s \<le> job_rank J_COMPLETED"
  by (cases s) (simp_all add: job_rank_def)

lemma job_completed_stays:
  assumes "job_step\<^sup>*\<^sup>* d d'" and "jobs_ok d"
    and "lookup_row row_id i d = Some q" and "row_job_state q = J_COMPLETED"
  shows "lookup_row row_id i d' = Some q"
  using assms(1)
proof (induction rule: rtranclp_induct)
  case (step y z)
  have "jobs_ok y" using step.hyps(1) assms(2) by (rule job_run_ok)
  from job_row_kept [OF step.hyps(2) this step.IH] show ?case
    using assms(4) rank_completed by (metis leD)
qed (use assms(3) in simp)

lemma job_row_run:
  assumes "job_step\<^sup>*\<^sup>* d d'" and "jobs_ok d" and "lookup_row row_id i d = Some q"
  shows "\<exists>p. lookup_row row_id i d' = Some p \<and> row_job p = row_job q"
  using assms(1)
proof (induction rule: rtranclp_induct)
  case (step y z)
  then obtain p where p: "lookup_row row_id i y = Some p" "row_job p = row_job q" by blast
  have "jobs_ok y" using step.hyps(1) assms(2) by (rule job_run_ok)
  from job_row_kept [OF step.hyps(2) this p(1)] p(2) show ?case by metis
qed (use assms(3) in simp)

lemma jobs_ok_Nil [simp]: "jobs_ok []"
  by (simp add: jobs_ok_def)

text \<open>C23: In every table the operations can reach a job keeps its payload for ever, its state never moves
  back, and once it is completed its row, the stored result included, never changes.\<close>

theorem job_life_cycle:
  assumes "job_step\<^sup>*\<^sup>* [] d" and "job_step\<^sup>*\<^sup>* d d'" and "lookup_row row_id i d = Some q"
  shows "\<exists>p. lookup_row row_id i d' = Some p \<and> row_job p = row_job q
    \<and> job_rank (row_job_state q) \<le> job_rank (row_job_state p) \<and> (row_job_state q = J_COMPLETED \<longrightarrow> p = q)"
proof -
  have d: "jobs_ok d" using job_run_ok [OF assms(1)] by simp
  obtain p where p: "lookup_row row_id i d' = Some p" "row_job p = row_job q"
    using job_row_run [OF assms(2) d assms(3)] by blast
  have "job_rank (row_job_state q) \<le> job_rank (row_job_state p)"
    by (rule jl.never_back [OF job_run_guarded [OF assms(2) d], of i])
      (simp_all add: job_state_at_def assms(3) p(1))
  moreover have "p = q" if "row_job_state q = J_COMPLETED"
    using job_completed_stays [OF assms(2) d assms(3) that] p(1) by simp
  ultimately show ?thesis using p by blast
qed

definition demo_poll_job :: agent_job where
  "demo_poll_job = \<lparr>job_id = ''job_1'', job_type = ''POLL_DOCUMENT'', job_operation = ''op'', job_pg = ''lp'',
     job_inn = ''7707083893'', job_document_type = None, job_sha256 = None, job_base64 = None, job_cises = [],
     job_document_id = Some ''doc'', job_payload = None\<rparr>"

lemma job_life_cycle_witness:
  "\<exists>d. lookup_row row_id ''job_1'' d =
     Some (finish_row ''t1'' (plain_result demo_poll_job ''FAILED'') (pending_row demo_poll_job ''t0''))
     \<and> (\<forall>d'. job_step\<^sup>*\<^sup>* d d' \<longrightarrow> lookup_row row_id ''job_1'' d' = lookup_row row_id ''job_1'' d)"
proof -
  let ?p = "pending_row demo_poll_job ''t0''" and ?r = "plain_result demo_poll_job ''FAILED''"
  let ?d = "[finish_row ''t1'' ?r ?p]"
  have "validate_job (\<lambda>t w. Inr w) demo_poll_job = Inr ()" by code_simp
  then have "enqueue (\<lambda>t w. Inr w) ''t0'' demo_poll_job [] = Inr (demo_poll_job, [?p])"
    by (simp add: enqueue_def)
  then have one: "job_step [] [?p]" by (rule job_enqueue)
  have "complete_job ''t1'' ?r [?p] = Inr ((), ?d)"
    by (simp add: complete_job_def plain_result_def demo_poll_job_def pending_row_def update_rows_def row_id_def)
  then have "job_step [?p] ?d" by (rule job_complete)
  with one have run: "job_step\<^sup>*\<^sup>* [] ?d" by (rule converse_rtranclp_into_rtranclp [OF _ r_into_rtranclp])
  have q: "lookup_row row_id ''job_1'' ?d = Some (finish_row ''t1'' ?r ?p)"
    "row_job_state (finish_row ''t1'' ?r ?p) = J_COMPLETED"
    by (simp_all add: demo_poll_job_def finish_row_def row_id_def pending_row_def)
  from job_life_cycle [OF run _ q(1)] q show ?thesis by (intro exI [of _ ?d]) metis
qed

section \<open>Rate windows\<close>

text \<open>
  The times at which a participant used an endpoint family, in microseconds (the code keeps floats
  of seconds). The in-memory limiter and the durable one keep the same window.
\<close>

record dispenser_capability =
  cap_name :: pystr
  cap_limit :: nat
  cap_family :: pystr
  cap_enabled :: bool
  cap_reason :: "pystr option"

datatype rate_error = RateSecurity pystr | RateContract pystr

type_synonym rate_windows = "((pystr \<times> pystr) \<times> int list) list"

definition history_of :: "pystr \<times> pystr \<Rightarrow> rate_windows \<Rightarrow> int list" where
  "history_of k d = (case map_of d k of None \<Rightarrow> [] | Some h \<Rightarrow> h)"

text \<open>The verdict of one use at a time: none when it is granted, else how long to wait.\<close>

definition admit :: "nat \<Rightarrow> int \<Rightarrow> int list \<Rightarrow> int option \<times> int list" where
  "admit limit now h =
     (let kept = filter (\<lambda>t. now - 60000000 < t) h in
      if limit \<le> length kept then (Some (max 0 (60000000 - (now - hd kept))), h)
      else (None, kept @ [now]))"

definition consume_m11_rate :: "dispenser_capability \<Rightarrow> pystr \<Rightarrow> int \<Rightarrow> rate_windows
    \<Rightarrow> rate_error + int option \<times> rate_windows" where
  "consume_m11_rate c scope now d =
     (if \<not> cap_enabled c then Inl (RateSecurity (or_else (cap_reason c) ''capability disabled''))
      else if scope = [] then Inl (RateContract ''rate scope key required'')
      else let k = (scope, cap_family c); r = admit (cap_limit c) now (history_of k d) in
        Inr (fst r, if fst r = None then AList.update k (snd r) d else d))"

text \<open>The in-memory limiter of \<open>wbcz/m11_reports.py\<close> drops the expired times from the front of a queue,
  and keeps the shortened queue on a refusal too.\<close>

definition memory_admit :: "nat \<Rightarrow> int \<Rightarrow> int list \<Rightarrow> int option \<times> int list" where
  "memory_admit limit now h =
     (let kept = dropWhile (\<lambda>t. t \<le> now - 60000000) h in
      if limit \<le> length kept then (Some (max 0 (60000000 - (now - hd kept))), kept)
      else (None, kept @ [now]))"

text \<open>The times that are granted when uses are asked for one after another.\<close>

fun granted :: "(int \<Rightarrow> int list \<Rightarrow> int option \<times> int list) \<Rightarrow> int list \<Rightarrow> int list \<Rightarrow> int list" where
  "granted f h [] = []"
| "granted f h (t # ts) = (case f t h of
     (None, h') \<Rightarrow> t # granted f h' ts | (Some _, h') \<Rightarrow> granted f h' ts)"

section \<open>A window never holds more than the limit\<close>

definition in_window :: "int \<Rightarrow> int list \<Rightarrow> int list" where
  "in_window t gs = filter (\<lambda>g. t - 60000000 < g \<and> g \<le> t) gs"

lemma filter_later:
  "a \<le> (b :: int) \<Longrightarrow> filter (\<lambda>t. a < t) g = filter (\<lambda>t. a < t) h \<Longrightarrow> filter (\<lambda>t. b < t) g = filter (\<lambda>t. b < t) h"
proof -
  assume ab: "a \<le> b" and e: "filter (\<lambda>t. a < t) g = filter (\<lambda>t. a < t) h"
  have "filter (\<lambda>t. b < t) xs = filter (\<lambda>t. b < t) (filter (\<lambda>t. a < t) xs)" for xs
    using ab by (induction xs) auto
  with e show ?thesis by metis
qed

lemma granted_bounded:
  assumes "sorted (now # ts)" and "\<And>t. length (in_window t past) \<le> limit" and "\<forall>g\<in>set past. g \<le> now"
    and "filter (\<lambda>g. now - 60000000 < g) past = filter (\<lambda>g. now - 60000000 < g) h"
  shows "length (in_window t (past @ granted (admit limit) h ts)) \<le> limit"
  using assms
proof (induction ts arbitrary: now past h t)
  case Nil
  then show ?case by simp
next
  case (Cons u ts)
  have le: "now \<le> u" and s: "sorted (u # ts)" using Cons.prems(1) by auto
  have same: "filter (\<lambda>g. u - 60000000 < g) past = filter (\<lambda>g. u - 60000000 < g) h"
    using filter_later [OF _ Cons.prems(4), of "u - 60000000"] le by simp
  have past: "\<forall>g\<in>set past. g \<le> u" using Cons.prems(3) le by force
  let ?kept = "filter (\<lambda>g. u - 60000000 < g) h"
  show ?case
  proof (cases "limit \<le> length ?kept")
    case True
    then have "granted (admit limit) h (u # ts) = granted (admit limit) h ts"
      by (simp add: admit_def Let_def)
    with Cons.IH [OF s Cons.prems(2) past same] show ?thesis by simp
  next
    case False
    then have g: "granted (admit limit) h (u # ts) = u # granted (admit limit) (?kept @ [u]) ts"
      by (simp add: admit_def Let_def)
    have bound: "length (in_window v (past @ [u])) \<le> limit" for v
    proof (cases "u \<le> v \<and> v - 60000000 < u")
      case True
      have "length (filter (\<lambda>g. v - 60000000 < g \<and> g \<le> v) past) \<le> length (filter (\<lambda>g. u - 60000000 < g) past)"
        using True by (induction past) auto
      with False same show ?thesis by (simp add: in_window_def)
    qed (use Cons.prems(2) [of v] in \<open>auto simp: in_window_def\<close>)
    have "length (in_window t ((past @ [u]) @ granted (admit limit) (?kept @ [u]) ts)) \<le> limit"
      using past by (intro Cons.IH [OF s bound]) (auto simp: same)
    with g show ?thesis by simp
  qed
qed

text \<open>C24: whatever uses of an endpoint family are asked for, in order of time, at most the family's limit
  of them is granted in any sixty seconds.\<close>

theorem rate_window_bound:
  assumes "sorted ts"
  shows "length (in_window t (granted (admit limit) [] ts)) \<le> limit"
proof (cases ts)
  case (Cons u us)
  with assms granted_bounded [of u ts "[]" limit "[]" t] show ?thesis
    by (simp add: in_window_def)
qed (simp add: in_window_def)

lemma rate_window_bound_witness:
  "length (in_window 70000000 (granted (admit 2) [] [0, 1, 2, 60000001, 60000002])) \<le> 2
     \<and> granted (admit 2) [] [0, 1, 2, 60000001, 60000002] = [0, 1, 60000001, 60000002]"
  using rate_window_bound [of "[0, 1, 2, 60000001, 60000002]" 70000000 2]
  by (simp add: admit_def Let_def)

lemma dropWhile_sorted: "sorted h \<Longrightarrow> dropWhile (\<lambda>t. t \<le> (a :: int)) h = filter (\<lambda>t. a < t) h"
  by (induction h) (auto intro!: filter_True [symmetric])

lemma memory_granted:
  assumes "sorted (now # ts)" and "sorted m" and "\<forall>g\<in>set m. g \<le> now"
    and "filter (\<lambda>g. now - 60000000 < g) m = filter (\<lambda>g. now - 60000000 < g) h"
  shows "granted (memory_admit limit) m ts = granted (admit limit) h ts"
  using assms
proof (induction ts arbitrary: now m h)
  case (Cons u ts)
  have le: "now \<le> u" and s: "sorted (u # ts)" using Cons.prems(1) by auto
  have same: "filter (\<lambda>g. u - 60000000 < g) m = filter (\<lambda>g. u - 60000000 < g) h"
    using filter_later [OF _ Cons.prems(4), of "u - 60000000"] le by simp
  let ?kept = "filter (\<lambda>g. u - 60000000 < g) m"
  have k: "dropWhile (\<lambda>t. t \<le> u - 60000000) m = ?kept" by (rule dropWhile_sorted [OF Cons.prems(2)])
  have sk: "sorted ?kept" using Cons.prems(2) by (rule sorted_wrt_filter)
  have lek: "\<forall>g\<in>set ?kept. g \<le> u" using Cons.prems(3) le by force
  show ?case
  proof (cases "limit \<le> length ?kept")
    case True
    with Cons.IH [OF s sk lek, of h] same k show ?thesis
      by (simp add: memory_admit_def admit_def Let_def)
  next
    case False
    have "sorted (?kept @ [u])" using sk lek by (simp add: sorted_append)
    with Cons.IH [OF s, of "?kept @ [u]" "?kept @ [u]"] lek False same k show ?thesis
      by (simp add: memory_admit_def admit_def Let_def)
  qed
qed simp

text \<open>The in-memory limiter and the durable one grant the same uses when time does not run back.\<close>

theorem rate_limiters_agree:
  assumes "sorted ts"
  shows "granted (memory_admit limit) [] ts = granted (admit limit) [] ts"
proof (cases ts)
  case (Cons u us)
  with assms memory_granted [of u ts "[]" "[]" limit] show ?thesis by simp
qed simp

lemma rate_limiters_agree_witness:
  "granted (memory_admit 2) [] [0, 1, 2, 60000001] = [0, 1, 60000001]"
  using rate_limiters_agree [of "[0, 1, 2, 60000001]" 2] by (simp add: admit_def Let_def)

end
