(* ===== verification/AgentExecutor.thy ===== *)
theory AgentExecutor
  imports AgentStore
begin

text \<open>
  What the Windows agent does with a job (\<open>WindowsAgentExecutor\<close> of \<open>wbcz/windows_agent.py\<close>, with the
  durable subclass of \<open>wbcz/windows_agent_runtime.py\<close>): sign a document, claim the local guard, send
  one create request, record the result; poll; create a report. The CryptoPro tools, the session, the
  network and the parsers of remote answers are arguments, as are the handlers of the read jobs. The
  small steps let any number of agent processes share the guard and stop anywhere.
\<close>

section \<open>Signing\<close>

record signer =
  sg_thumbprint :: pystr
  sg_inn :: pystr
  sg_inspect :: "agent_error + (pystr option \<times> pystr option \<times> pystr option)"
  sg_cryptcp :: "bytes \<Rightarrow> agent_error + bytes"

record certificate =
  ct_thumbprint :: "pystr option"
  ct_subject :: "pystr option"
  ct_inn :: "pystr option"
  ct_from :: "pystr option"
  ct_to :: "pystr option"

definition sign_checks :: "signer \<Rightarrow> agent_job \<Rightarrow> bytes \<Rightarrow> agent_check" where
  "sign_checks g j raw =
     bind (secure (job_operation j \<noteq> []) ''operation_id is required'') (\<lambda>_.
     bind (secure (the (job_document_type j) \<in> set write_job_types) ''unsupported document type'') (\<lambda>_.
     bind (secure (job_pg j = ''lp'') ''document signing allows only pg=lp'') (\<lambda>_.
     bind (secure (job_inn j = sg_inn g) ''expected_inn mismatch'') (\<lambda>_.
     bind (secure (sha256_hex raw = the (job_sha256 j)) ''document hash mismatch'') (\<lambda>_.
     bind (secure (json_loads raw \<noteq> None) ''document bytes are not UTF-8 JSON'') (\<lambda>_.
       secure (json_loads raw = Some K_OBJECT) ''document JSON root must be an object''))))))"

text \<open>The certificate is read before the tool runs; an empty signature is an error of the transport's class.\<close>

definition sign_document :: "signer \<Rightarrow> agent_job \<Rightarrow> bytes \<Rightarrow> agent_error + (pystr \<times> certificate)" where
  "sign_document g j raw =
     bind (sign_checks g j raw) (\<lambda>_.
     bind (sg_inspect g) (\<lambda>(subject, valid_from, valid_to).
     bind (sg_cryptcp g raw) (\<lambda>sig.
       if sig = [] then Inl (AgentForeign ''TrueApiError'')
       else Inr (b64encode sig, \<lparr>ct_thumbprint = Some (sg_thumbprint g), ct_subject = subject,
              ct_inn = Some (sg_inn g), ct_from = valid_from, ct_to = valid_to\<rparr>))))"

section \<open>The agent\<close>

datatype report_reply =
    RateLimited pystr pystr
  | ReportTransportError
  | ReportRaised agent_error
  | ReportReply "agent_error + agent_result"

record agent_config =
  ag_inn :: pystr
  ag_write :: bool
  ag_validator :: payload_validator
  ag_signer :: signer
  ag_bearer :: "agent_error + pystr"
  ag_post :: "(pystr \<times> pystr) list \<Rightarrow> agent_error + http_response"
  ag_get :: "pystr \<Rightarrow> agent_error + http_response"
  ag_parse_id :: "http_response \<Rightarrow> agent_error + pystr option"
  ag_parse_status :: "http_response \<Rightarrow> agent_error + pystr option"
  ag_other :: "agent_job \<Rightarrow> agent_error + agent_result"
  ag_report :: "agent_job \<Rightarrow> report_reply"
  ag_download :: "agent_job \<Rightarrow> agent_error + agent_result"

record agent_world =
  guards :: replay_table
  creates :: "(pystr \<times> (pystr \<times> pystr) list) list"
  report_calls :: "pystr list"

type_synonym 'a agent_op = "(agent_world, agent_error, 'a) op"

definition on_guards :: "'a replay_txn \<Rightarrow> 'a agent_op" where
  "on_guards m w = (case m (guards w) of Inl e \<Rightarrow> (Inl e, w) | Inr (x, d) \<Rightarrow> (Inr x, w\<lparr>guards := d\<rparr>))"

text \<open>\<open>create_document\<close>: the checks, then the request leaves the process.\<close>

definition single_line_base64 :: "pystr \<Rightarrow> pystr \<Rightarrow> agent_check" where
  "single_line_base64 name v =
     bind (secure (v \<noteq> [] \<and> CHR 0x0D \<notin> set v \<and> CHR 0x0A \<notin> set v) (name @ '' must be single-line Base64'')) (\<lambda>_.
       secure (b64decode v \<noteq> None) (name @ '' is invalid Base64''))"

definition create_call :: "pystr \<Rightarrow> pystr \<Rightarrow> pystr \<Rightarrow> pystr \<Rightarrow> agent_error + (pystr \<times> pystr) list" where
  "create_call t document signature token =
     bind (secure (t \<in> set write_job_types) ''unsupported document type'') (\<lambda>_.
     bind (secure (token \<noteq> []) ''True API bearer token is required'') (\<lambda>_.
     bind (single_line_base64 ''product_document'' document) (\<lambda>_.
     bind (single_line_base64 ''signature'' signature) (\<lambda>_.
       Inr (create_body t document signature)))))"

definition send_create :: "agent_config \<Rightarrow> pystr \<Rightarrow> (pystr \<times> pystr) list \<Rightarrow> http_response agent_op" where
  "send_create c i req w = (ag_post c req, w\<lparr>creates := creates w @ [(i, req)]\<rparr>)"

text \<open>The category and the outcome a create response gives the result.\<close>

definition create_outcome :: "int \<Rightarrow> pystr option \<Rightarrow> create_category \<times> pystr" where
  "create_outcome http doc =
     (if http \<in> {200, 201} then
        (if truthy doc then (C_SUCCESS_WITH_ID, ''SUBMITTED'')
         else (C_SUCCESS_CONTRACT_UNCONFIRMED, ''MANUAL_REVIEW''))
      else (failure_category http, if 500 \<le> http then ''MANUAL_REVIEW'' else ''FAILED''))"

definition write_result :: "agent_job \<Rightarrow> pystr \<Rightarrow> certificate \<Rightarrow> http_response \<Rightarrow> pystr option \<Rightarrow> agent_result" where
  "write_result j sig cert r doc =
     (plain_result j (snd (create_outcome (status_code r) doc)))
       \<lparr>res_sha256 := job_sha256 j, res_signature := Some sig, res_http := Some (status_code r),
        res_category := Some (category_value (fst (create_outcome (status_code r) doc))),
        res_document_id := doc, res_body_sha256 := Some (sha256_hex (body r)),
        res_thumbprint := ct_thumbprint cert, res_subject := ct_subject cert, res_inn := ct_inn cert,
        res_valid_from := ct_from cert, res_valid_to := ct_to cert\<rparr>"

definition parse_created :: "agent_config \<Rightarrow> http_response \<Rightarrow> agent_error + pystr option" where
  "parse_created c r = (if status_code r \<in> {200, 201} then ag_parse_id c r else Inr None)"

text \<open>The part of \<open>_write\<close> after the guard was claimed: whatever fails here leaves it reserved.\<close>

definition create_claimed :: "agent_config \<Rightarrow> (nat \<Rightarrow> pystr) \<Rightarrow> agent_job \<Rightarrow> pystr \<Rightarrow> certificate
    \<Rightarrow> agent_result agent_op" where
  "create_claimed c now j sig cert =
     seq (lift (ag_bearer c)) (\<lambda>token.
     seq (lift (create_call (the (job_document_type j)) (the (job_base64 j)) sig token)) (\<lambda>req.
     seq (send_create c (job_operation j) req) (\<lambda>r.
     seq (lift (parse_created c r)) (\<lambda>doc.
       let v = write_result j sig cert r doc in
       seq (on_guards (complete_guard (now 1) (job_operation j) (the (job_sha256 j)) v)) (\<lambda>_. ret v)))))"

definition durable_write :: "agent_config \<Rightarrow> (nat \<Rightarrow> pystr) \<Rightarrow> agent_job \<Rightarrow> agent_result agent_op" where
  "durable_write c now j =
     (if \<not> ag_write c then raise AgentWriteDisabled
      else if \<not> (truthy (job_sha256 j) \<and> truthy (job_base64 j) \<and> truthy (job_document_type j))
      then raise AgentAssertion
      else
        seq (\<lambda>w. (inspect (job_operation j) (the (job_sha256 j)) (guards w), w)) (\<lambda>previous.
        case previous of Some v \<Rightarrow> ret v | None \<Rightarrow>
        (case b64decode (the (job_base64 j)) of
           None \<Rightarrow> raise (AgentForeign ''Error'')
         | Some raw \<Rightarrow>
             seq (lift (sign_document (ag_signer c) j raw)) (\<lambda>(sig, cert).
             seq (on_guards (claim (now 0) (job_operation j) (the (job_sha256 j)))) (\<lambda>claimed.
             case claimed of Some v \<Rightarrow> ret v | None \<Rightarrow> create_claimed c now j sig cert)))))"

section \<open>Polling\<close>

definition poll_outcome :: "poll_classification \<Rightarrow> pystr" where
  "poll_outcome p = (case p of P_INTERMEDIATE \<Rightarrow> ''INTERMEDIATE''
     | P_TERMINAL_SUCCESS \<Rightarrow> ''RECONCILIATION_REQUIRED''
     | P_TERMINAL_FAILURE \<Rightarrow> ''FAILED'' | P_MANUAL_REVIEW \<Rightarrow> ''MANUAL_REVIEW'')"

definition agent_poll :: "agent_config \<Rightarrow> agent_job \<Rightarrow> agent_error + agent_result" where
  "agent_poll c j = (case job_document_id j of
     None \<Rightarrow> Inl AgentAssertion
   | Some doc \<Rightarrow>
       bind (ag_bearer c) (\<lambda>_.
       bind (secure (safe_id 256 doc) ''invalid document_id'') (\<lambda>_.
       bind (ag_get c (''/api/v4/true-api/doc/'' @ doc @ ''/info'')) (\<lambda>r.
         if status_code r \<noteq> 200
         then Inr ((plain_result j ''MANUAL_REVIEW'')\<lparr>res_http := Some (status_code r),
                res_body_sha256 := Some (sha256_hex (body r)), res_error_code := Some ''POLL_HTTP_ERROR''\<rparr>)
         else bind (ag_parse_status c r) (\<lambda>remote.
           Inr ((plain_result j (poll_outcome (classify_poll_status remote)))
             \<lparr>res_http := Some 200, res_remote_status := remote,
              res_body_sha256 := Some (sha256_hex (body r))\<rparr>))))))"

section \<open>Reports and the dispatch\<close>

text \<open>The wait is a float, kept as the text \<open>repr\<close> gives it (\<open>JFloat\<close>).\<close>

definition report_retry :: "agent_job \<Rightarrow> pystr \<Rightarrow> pystr \<Rightarrow> agent_result" where
  "report_retry j wait family = (plain_result j ''RETRY_SCHEDULED'')
     \<lparr>res_error_code := Some ''LOCAL_RATE_LIMIT'',
      res_read := Some (JObj [(''retry_after_seconds'', JFloat wait), (''rate_family'', JStr family)])\<rparr>"

text \<open>The first part of \<open>_m11_report\<close>: a local refusal or a transport error is a result, not an exception.
  What is made of an answer is an argument.\<close>

definition report_operation :: "agent_job \<Rightarrow> pystr" where
  "report_operation j = ''m11-report-create:'' @ job_operation j"

text \<open>The calls that create a report are recorded, the reads are not. A call that ends with an exception
  may have left the process, so it counts as well; a local refusal by the rate limit sends nothing.\<close>

definition note_report :: "agent_job \<Rightarrow> agent_world \<Rightarrow> agent_world" where
  "note_report j w = (if job_type j = ''REPORT_CREATE''
     then w\<lparr>report_calls := report_calls w @ [report_operation j]\<rparr> else w)"

definition m11_report :: "agent_config \<Rightarrow> agent_job \<Rightarrow> agent_result agent_op" where
  "m11_report c j =
     seq (lift (ag_bearer c)) (\<lambda>_. (\<lambda>w. case ag_report c j of
       RateLimited wait family \<Rightarrow> (Inr (report_retry j wait family), w)
     | ReportTransportError \<Rightarrow>
         (Inr (if job_type j = ''REPORT_CREATE''
               then (plain_result j ''REMOTE_CREATE_AMBIGUOUS'')\<lparr>res_error_code := Some ''REMOTE_CREATE_AMBIGUOUS''\<rparr>
               else (plain_result j ''MANUAL_REVIEW'')\<lparr>res_error_code := Some ''TRUE_API_TRANSPORT_ERROR''\<rparr>),
          note_report j w)
     | ReportRaised e \<Rightarrow> (Inl e, note_report j w)
     | ReportReply r \<Rightarrow> (r, note_report j w)))"

definition base_execute :: "agent_config \<Rightarrow> (nat \<Rightarrow> pystr) \<Rightarrow> agent_job \<Rightarrow> agent_result agent_op" where
  "base_execute c now j =
     seq (lift (validate_job (ag_validator c) j)) (\<lambda>_.
       if job_inn j \<noteq> ag_inn c then raise (AgentSecurity ''expected_inn mismatch'')
       else if job_type j \<in> set m11_agent_job_types then
         (if job_type j = ''REPORT_DOWNLOAD''
          then raise (AgentSecurity ''REPORT_DOWNLOAD requires execute_report_download'')
          else m11_report c j)
       else if job_type j = ''POLL_DOCUMENT'' then lift (agent_poll c j)
       else if job_type j \<in> set (''CIS_CHECK'' # ''INTEGRATION_HEALTH'' # m1_read_job_types
                 @ m2_read_job_types @ m4_read_job_types @ m7_read_job_types)
       then lift (ag_other c j)
       else durable_write c now j)"

definition durable_execute :: "agent_config \<Rightarrow> (nat \<Rightarrow> pystr) \<Rightarrow> agent_job \<Rightarrow> agent_result agent_op" where
  "durable_execute c now j =
     (if job_type j = ''REPORT_CREATE'' then
        seq (lift (validate_job (ag_validator c) j)) (\<lambda>_.
          if job_inn j \<noteq> ag_inn c then raise (AgentSecurity ''expected_inn mismatch'')
          else seq (on_guards (claim (now 0) (report_operation j) (job_sha j))) (\<lambda>previous.
            case previous of Some v \<Rightarrow> ret v | None \<Rightarrow>
            seq (base_execute c now j) (\<lambda>v.
            seq (on_guards (complete_guard (now 1) (report_operation j) (job_sha j) v)) (\<lambda>_. ret v))))
      else base_execute c now j)"

text \<open>One polling iteration of the agent: an exception becomes a result that carries its class only.\<close>

definition exception_class :: "agent_error \<Rightarrow> pystr" where
  "exception_class e = (case e of
     AgentSecurity _ \<Rightarrow> ''AgentSecurityError'' | AgentAuth \<Rightarrow> ''AgentAuthError''
   | AgentReplay _ \<Rightarrow> ''AgentReplayConflict'' | AgentUnresolved \<Rightarrow> ''AgentCreateOutcomeUnresolved''
   | AgentWriteDisabled \<Rightarrow> ''PRODUCTION_WRITE_DISABLED'' | AgentKeyMissing \<Rightarrow> ''KeyError''
   | AgentValue _ \<Rightarrow> ''ValueError'' | AgentAssertion \<Rightarrow> ''AssertionError''
   | AgentIntegrity \<Rightarrow> ''IntegrityError'' | AgentStore e \<Rightarrow> error_class e | AgentForeign n \<Rightarrow> n)"

definition failed_result :: "agent_job \<Rightarrow> agent_error \<Rightarrow> agent_result" where
  "failed_result j e = (plain_result j ''MANUAL_REVIEW'')
     \<lparr>res_sha256 := job_sha256 j, res_error_code := Some (exception_class e)\<rparr>"

definition run_job :: "agent_config \<Rightarrow> (nat \<Rightarrow> pystr) \<Rightarrow> agent_job \<Rightarrow> agent_world \<Rightarrow> agent_result \<times> agent_world" where
  "run_job c now j w =
    (case (if job_type j = ''REPORT_DOWNLOAD'' then lift (ag_download c j) w else durable_execute c now j w) of
     (Inl e, v) \<Rightarrow> (failed_result j e, v) | (Inr r, v) \<Rightarrow> (r, v))"

section \<open>Interleaved agents\<close>

text \<open>
  A permit stands for a process that has claimed an operation and was told that it is the first. It
  may send one create, or create one report; a process that dies leaves its permit unused for ever.
\<close>

record agent_shared =
  net :: agent_world
  permits :: "pystr list"

inductive agent_step :: "agent_shared \<Rightarrow> agent_shared \<Rightarrow> bool" where
  step_claim: "claim now i sha (guards (net s)) = Inr (None, d) \<Longrightarrow>
     agent_step s (s\<lparr>net := (net s)\<lparr>guards := d\<rparr>, permits := i # permits s\<rparr>)"
| step_send: "i \<in> set (permits s) \<Longrightarrow>
     agent_step s (s\<lparr>net := (net s)\<lparr>creates := creates (net s) @ [(i, req)]\<rparr>,
                     permits := remove1 i (permits s)\<rparr>)"
| step_report: "i \<in> set (permits s) \<Longrightarrow>
     agent_step s (s\<lparr>net := (net s)\<lparr>report_calls := report_calls (net s) @ [i]\<rparr>,
                     permits := remove1 i (permits s)\<rparr>)"
| step_finish: "complete_guard now i sha v (guards (net s)) = Inr ((), d) \<Longrightarrow>
     agent_step s (s\<lparr>net := (net s)\<lparr>guards := d\<rparr>\<rparr>)"

definition guard_crossed :: "agent_shared \<Rightarrow> pystr \<Rightarrow> bool" where
  "guard_crossed s i \<longleftrightarrow> lookup_row guard_operation i (guards (net s)) \<noteq> None"

text \<open>Calls made under a key: creates of documents and of reports, and those a permit still allows.\<close>

definition call_count :: "agent_world \<Rightarrow> pystr \<Rightarrow> nat" where
  "call_count w i = count_list (map fst (creates w)) i + count_list (report_calls w) i"

definition call_permits :: "agent_shared \<Rightarrow> pystr \<Rightarrow> nat" where
  "call_permits s i = call_count (net s) i + count_list (permits s) i"

lemma claim_new:
  "claim now i sha d = Inr (None, d') \<longleftrightarrow> i \<noteq> [] \<and> sha \<noteq> [] \<and> lookup_row guard_operation i d = None
     \<and> d' = d @ [\<lparr>guard_operation = i, guard_sha256 = sha, guard_result = None, guard_created = now,
                  guard_changed = now\<rparr>]"
  by (auto simp: claim_def bind_Inr_iff split: option.splits)

lemma claim_keeps: "claim now i sha d = Inr (x, d') \<Longrightarrow> (x = None \<longleftrightarrow> d' \<noteq> d) \<and> (x \<noteq> None \<longrightarrow> d' = d)"
  by (auto simp: claim_def bind_Inr_iff split: option.splits if_splits)

lemma finish_lookup:
  "complete_guard now i sha v d = Inr ((), d') \<Longrightarrow>
     lookup_row guard_operation k d' = None \<longleftrightarrow> lookup_row guard_operation k d = None"
  by (auto simp: complete_guard_def table_simps split: option.splits if_splits)

lemma count_remove1:
  "i \<in> set xs \<Longrightarrow> count_list xs k = count_list (remove1 i xs) k + (if i = k then 1 else 0)"
  by (induction xs) auto

lemma step_crossed:
  assumes "agent_step s t" and "guard_crossed s k"
  shows "guard_crossed t k"
  using assms(1)
proof cases
  case (step_claim now i sha d)
  with assms(2) show ?thesis by (auto simp: guard_crossed_def claim_new table_simps)
next
  case (step_finish now i sha v d)
  with assms(2) finish_lookup [OF step_finish(2), of k] show ?thesis by (simp add: guard_crossed_def)
qed (use assms(2) in \<open>simp_all add: guard_crossed_def\<close>)

text \<open>A step changes the calls and permits of at most one key, by a claim that crosses it.\<close>

lemma step_permits:
  assumes "agent_step s t"
  shows "call_permits t k = call_permits s k
    \<or> (call_permits t k = Suc (call_permits s k) \<and> \<not> guard_crossed s k \<and> guard_crossed t k)"
  using assms
proof cases
  case (step_claim now i sha d)
  then show ?thesis
    by (cases "i = k") (auto simp: call_permits_def call_count_def guard_crossed_def claim_new table_simps)
next
  case (step_send i req)
  then show ?thesis using count_remove1 [of i "permits s" k]
    by (simp add: call_permits_def call_count_def)
next
  case (step_report i)
  then show ?thesis using count_remove1 [of i "permits s" k]
    by (simp add: call_permits_def call_count_def)
next
  case (step_finish now i sha v d)
  then show ?thesis by (simp add: call_permits_def call_count_def)
qed

interpretation ag: once_guard guard_crossed call_permits agent_step
proof unfold_locales
  fix s t k
  assume st: "agent_step s t"
  show "guard_crossed t k" if "guard_crossed s k"
    by (rule step_crossed [OF st that])
  show "call_permits t k = call_permits s k" if "guard_crossed s k"
    using step_permits [OF st, of k] that by simp
  show "call_permits t k \<le> Suc (call_permits s k)"
    using step_permits [OF st, of k] by auto
  show "guard_crossed t k" if "call_permits t k \<noteq> call_permits s k"
    using step_permits [OF st, of k] that by simp
qed

text \<open>A row that holds a result is never removed and never changed, by any step of any process.\<close>

definition finished_row :: "agent_world \<Rightarrow> pystr \<Rightarrow> replay_row \<Rightarrow> bool" where
  "finished_row w i q \<longleftrightarrow> lookup_row guard_operation i (guards w) = Some q \<and> guard_result q \<noteq> None"

lemma finish_other:
  "complete_guard now k sha v d = Inr ((), d') \<Longrightarrow> lookup_row guard_operation i d = Some q \<Longrightarrow>
     guard_result q \<noteq> None \<Longrightarrow> lookup_row guard_operation i d' = Some q"
  by (cases "i = k") (auto simp: complete_guard_def table_simps split: option.splits if_splits)

lemma step_finished:
  assumes "agent_step s t" and "finished_row (net s) i q"
  shows "finished_row (net t) i q"
  using assms(1)
proof cases
  case (step_claim now k sha d)
  with assms(2) show ?thesis by (auto simp: finished_row_def claim_new table_simps)
next
  case (step_finish now k sha v d)
  with assms(2) finish_other [OF step_finish(2), of i q] show ?thesis by (auto simp: finished_row_def)
qed (use assms(2) in \<open>simp_all add: finished_row_def\<close>)

lemma steps_finished:
  "agent_step\<^sup>*\<^sup>* s t \<Longrightarrow> finished_row (net s) i q \<Longrightarrow> finished_row (net t) i q"
  by (induction rule: rtranclp_induct) (auto intro: step_finished)

section \<open>A job is a run of steps\<close>

text \<open>Whatever permits other processes hold, the job's effects are steps, and it may leave a permit.\<close>

definition runs :: "agent_world \<Rightarrow> agent_world \<Rightarrow> bool" where
  "runs w v \<longleftrightarrow> (\<forall>ps. \<exists>qs. agent_step\<^sup>*\<^sup>* \<lparr>net = w, permits = ps\<rparr> \<lparr>net = v, permits = qs\<rparr>)"

definition runs_with :: "pystr \<Rightarrow> agent_world \<Rightarrow> agent_world \<Rightarrow> bool" where
  "runs_with i w v \<longleftrightarrow> (\<forall>ps. \<exists>qs. agent_step\<^sup>*\<^sup>* \<lparr>net = w, permits = i # ps\<rparr> \<lparr>net = v, permits = qs\<rparr>)"

lemma runs_refl [simp]: "runs w w" "runs_with i w w"
  unfolding runs_def runs_with_def by blast+

lemma runs_trans: "runs u v \<Longrightarrow> runs v w \<Longrightarrow> runs u w"
  unfolding runs_def by (meson rtranclp_trans)

lemma runs_with_trans: "runs_with i u v \<Longrightarrow> runs v w \<Longrightarrow> runs_with i u w"
  unfolding runs_def runs_with_def by (meson rtranclp_trans)

lemma runs_claim:
  assumes "claim now i sha (guards w) = Inr (None, d)" and "runs_with i (w\<lparr>guards := d\<rparr>) v"
  shows "runs w v"
  unfolding runs_def
proof
  fix ps
  have "agent_step \<lparr>net = w, permits = ps\<rparr> \<lparr>net = w\<lparr>guards := d\<rparr>, permits = i # ps\<rparr>"
    using step_claim [of now i sha "\<lparr>net = w, permits = ps\<rparr>" d] assms(1) by simp
  with assms(2) show "\<exists>qs. agent_step\<^sup>*\<^sup>* \<lparr>net = w, permits = ps\<rparr> \<lparr>net = v, permits = qs\<rparr>"
    unfolding runs_with_def by (meson converse_rtranclp_into_rtranclp)
qed

lemma runs_send: "runs_with i w (w\<lparr>creates := creates w @ [(i, req)]\<rparr>)"
  unfolding runs_with_def using step_send [of i "\<lparr>net = w, permits = i # _\<rparr>" req] by fastforce

lemma runs_report: "runs_with i w (w\<lparr>report_calls := report_calls w @ [i]\<rparr>)"
  unfolding runs_with_def using step_report [of i "\<lparr>net = w, permits = i # _\<rparr>"] by fastforce

lemma runs_finish: "complete_guard now i sha v (guards w) = Inr ((), d) \<Longrightarrow> runs w (w\<lparr>guards := d\<rparr>)"
  unfolding runs_def using step_finish [of now i sha v "\<lparr>net = w, permits = _\<rparr>" d] by fastforce

lemma runs_on_guards: "runs w (snd (on_guards (complete_guard now i sha v) w))"
  by (auto simp: on_guards_def intro: runs_finish split: sum.splits prod.splits)

lemma create_claimed_runs: "runs_with (job_operation j) w (snd (create_claimed c now j sig cert w))"
proof -
  have "runs_with (job_operation j) w (snd (on_guards (complete_guard (now 1) (job_operation j) sha v)
      (w\<lparr>creates := creates w @ [(job_operation j, req)]\<rparr>)))" for req sha v
    by (rule runs_with_trans [OF runs_send runs_on_guards])
  then show ?thesis
    using runs_send [of "job_operation j" w]
    by (auto simp: create_claimed_def seq_def lift_def ret_def send_create_def Let_def
        split: sum.splits prod.splits) (metis snd_conv)+
qed

lemma durable_write_runs: "runs w (snd (durable_write c now j w))"
proof -
  have "runs w (snd (create_claimed c now j sig cert (w\<lparr>guards := d\<rparr>)))"
    if "claim (now 0) (job_operation j) (the (job_sha256 j)) (guards w) = Inr (None, d)" for d sig cert
    by (rule runs_claim [OF that create_claimed_runs])
  moreover have "runs w (w\<lparr>guards := d\<rparr>)"
    if "claim (now 0) (job_operation j) (the (job_sha256 j)) (guards w) = Inr (Some v, d)" for d v
    using claim_keeps [OF that] by simp
  ultimately show ?thesis
    by (auto simp: durable_write_def seq_def lift_def ret_def raise_def on_guards_def
        split: sum.splits prod.splits option.splits)
qed

lemma m11_report_runs: "runs_with (report_operation j) w (snd (m11_report c j w))"
  using runs_report [of "report_operation j" w]
  by (auto simp: m11_report_def seq_def lift_def note_report_def split: sum.splits report_reply.splits)

text \<open>Only the creation of a report counts as a call, and only \<open>durable_execute\<close> runs it.\<close>

lemma m11_read_same: "job_type j \<noteq> ''REPORT_CREATE'' \<Longrightarrow> snd (m11_report c j w) = w"
  by (auto simp: m11_report_def seq_def lift_def note_report_def split: sum.splits report_reply.splits)

lemma base_execute_runs: "job_type j \<noteq> ''REPORT_CREATE'' \<Longrightarrow> runs w (snd (base_execute c now j w))"
  using durable_write_runs [of w c now j] m11_read_same [of j c w]
  by (auto simp: base_execute_def seq_def lift_def raise_def split: sum.splits)

lemma base_report_runs:
  assumes "job_type j = ''REPORT_CREATE''"
  shows "runs_with (report_operation j) w (snd (base_execute c now j w))"
proof -
  have "''REPORT_CREATE'' \<in> set m11_agent_job_types" by (simp add: m11_agent_job_types_def)
  with assms m11_report_runs [of j w c] show ?thesis
    by (auto simp: base_execute_def seq_def lift_def raise_def split: sum.splits)
qed

lemma durable_execute_runs: "runs w (snd (durable_execute c now j w))"
proof (cases "job_type j = ''REPORT_CREATE''")
  case False
  then show ?thesis by (simp add: durable_execute_def base_execute_runs)
next
  case True
  note base = base_report_runs [OF True]
  have "runs w (snd (seq (base_execute c now j) (\<lambda>v.
      seq (on_guards (complete_guard (now 1) (report_operation j) (job_sha j) v)) (\<lambda>_. ret v)) (w\<lparr>guards := d\<rparr>)))"
    if cl: "claim (now 0) (report_operation j) (job_sha j) (guards w) = Inr (None, d)" for d
  proof (rule runs_claim [OF cl])
    obtain r v where bv: "base_execute c now j (w\<lparr>guards := d\<rparr>) = (r, v)" by fastforce
    then have b: "runs_with (report_operation j) (w\<lparr>guards := d\<rparr>) v"
      using base [of "w\<lparr>guards := d\<rparr>" c now] by simp
    have fin: "runs_with (report_operation j) (w\<lparr>guards := d\<rparr>)
        (snd (on_guards (complete_guard (now 1) (report_operation j) (job_sha j) x) v))" for x
      by (rule runs_with_trans [OF b runs_on_guards])
    show "runs_with (report_operation j) (w\<lparr>guards := d\<rparr>) (snd (seq (base_execute c now j) (\<lambda>v.
        seq (on_guards (complete_guard (now 1) (report_operation j) (job_sha j) v)) (\<lambda>_. ret v)) (w\<lparr>guards := d\<rparr>)))"
      using bv b fin by (auto simp: seq_def ret_def split: sum.splits prod.splits) (metis snd_conv)+
  qed
  moreover have "runs w (w\<lparr>guards := d\<rparr>)"
    if "claim (now 0) (report_operation j) (job_sha j) (guards w) = Inr (Some v, d)" for d v
    using claim_keeps [OF that] by simp
  ultimately show ?thesis
    using True
    by (auto simp: durable_execute_def seq_def [of "lift _"] seq_def [of "on_guards _"] lift_def ret_def raise_def
        on_guards_def [of "claim _ _ _"] split: sum.splits prod.splits option.splits)
qed

fun agent_session :: "(agent_config \<times> (nat \<Rightarrow> pystr) \<times> agent_job) list \<Rightarrow> agent_world \<Rightarrow> agent_world" where
  "agent_session [] w = w"
| "agent_session ((c, now, j) # js) w = agent_session js (snd (run_job c now j w))"

lemma run_job_world: "snd (run_job c now j w) =
    (if job_type j = ''REPORT_DOWNLOAD'' then w else snd (durable_execute c now j w))"
  by (simp add: run_job_def lift_def split: prod.splits sum.splits)

lemma agent_session_runs: "runs w (agent_session js w)"
  by (induction js w rule: agent_session.induct)
    (auto simp: run_job_world intro: runs_trans [OF durable_execute_runs])

lemma session_finished: "finished_row w i q \<Longrightarrow> finished_row (agent_session js w) i q"
  using agent_session_runs [of w js] steps_finished [of "\<lparr>net = w, permits = []\<rparr>"]
  by (fastforce simp: runs_def)

definition no_calls :: agent_world where
  "no_calls = \<lparr>guards = [], creates = [], report_calls = []\<rparr>"

section \<open>Properties\<close>

text \<open>C9: however agent processes interleave, stop and restart on one guard database, at most one create
  call is made under an operation: a document is created once, a report is created once.\<close>

theorem agent_creates_once:
  assumes "agent_step\<^sup>*\<^sup>* \<lparr>net = no_calls, permits = []\<rparr> s"
  shows "call_count (net s) i \<le> 1"
proof -
  have "call_permits s i \<le> 1"
    by (rule ag.at_most_once [OF assms]) (simp add: call_permits_def call_count_def no_calls_def)
  then show ?thesis by (simp add: call_permits_def)
qed

text \<open>The same for whole jobs: any jobs, delivered any number of times, to agents with any
  configuration, whatever the tools, the network and the remote service answer.\<close>

theorem agent_session_creates_once: "call_count (agent_session js no_calls) i \<le> 1"
proof -
  have "runs no_calls (agent_session js no_calls)" by (rule agent_session_runs)
  then obtain qs where run: "agent_step\<^sup>*\<^sup>* \<lparr>net = no_calls, permits = []\<rparr>
      \<lparr>net = agent_session js no_calls, permits = qs\<rparr>"
    unfolding runs_def by blast
  have "call_permits \<lparr>net = agent_session js no_calls, permits = qs\<rparr> i \<le> 1"
    by (rule ag.at_most_once [OF run]) (simp add: call_permits_def call_count_def no_calls_def)
  then show ?thesis by (simp add: call_permits_def)
qed

text \<open>C18: once an operation is claimed and holds no result, every later write of it is refused without a
  call, whatever the document; with a result, the same document gets that result back.\<close>

theorem claimed_write_is_settled:
  assumes "lookup_row guard_operation (job_operation j) (guards w) = Some r"
    and "ag_write c" and "truthy (job_sha256 j)" and "truthy (job_base64 j)" and "truthy (job_document_type j)"
  shows "durable_write c now j w =
    ((if Some (guard_sha256 r) \<noteq> job_sha256 j
      then Inl (AgentReplay ''operation replay with different immutable document hash'')
      else case guard_result r of None \<Rightarrow> Inl AgentUnresolved | Some v \<Rightarrow> Inr v), w)"
  using assms
  by (cases "job_sha256 j")
    (auto simp: durable_write_def seq_def inspect_def guard_verdict_def ret_def split: option.splits)

lemma complete_guard_result:
  "complete_guard now i sha v d = Inr ((), d') \<Longrightarrow> lookup_row guard_operation i d = Some r \<Longrightarrow>
     guard_result r = None \<Longrightarrow> \<exists>q. lookup_row guard_operation i d' = Some q \<and> guard_sha256 q = sha
       \<and> guard_result q = Some v"
  by (auto simp: complete_guard_def table_simps split: if_splits)

lemma claimed_row:
  "claim now i sha d = Inr (None, d') \<Longrightarrow>
     \<exists>r. lookup_row guard_operation i d' = Some r \<and> guard_sha256 r = sha \<and> guard_result r = None"
  by (auto simp: claim_new table_simps)

lemma claim_old:
  "claim now i sha d = Inr (Some v, d') \<Longrightarrow> d' = d \<and>
     (\<exists>r. lookup_row guard_operation i d = Some r \<and> guard_sha256 r = sha \<and> guard_result r = Some v)"
  by (auto simp: claim_def bind_Inr_iff guard_verdict_def split: option.splits if_splits)

lemma inspect_old:
  "inspect i sha d = Inr (Some v) \<Longrightarrow>
     \<exists>q. lookup_row guard_operation i d = Some q \<and> guard_sha256 q = sha \<and> guard_result q = Some v"
  by (auto simp: inspect_def bind_Inr_iff guard_verdict_def split: option.splits if_splits)

lemma create_claimed_records:
  assumes "create_claimed c now j sig cert w = (Inr v, w')"
    and "lookup_row guard_operation (job_operation j) (guards w) = Some r" and "guard_result r = None"
  shows "\<exists>q. lookup_row guard_operation (job_operation j) (guards w') = Some q
    \<and> guard_sha256 q = the (job_sha256 j) \<and> guard_result q = Some v"
  using assms complete_guard_result [of "now 1" "job_operation j" "the (job_sha256 j)" v "guards w" _ r]
  by (auto simp: create_claimed_def seq_def lift_def ret_def send_create_def on_guards_def Let_def
      split: sum.splits prod.splits)

lemma durable_write_records:
  assumes "durable_write c now j w = (Inr v, w')"
  shows "\<exists>q. lookup_row guard_operation (job_operation j) (guards w') = Some q
    \<and> guard_sha256 q = the (job_sha256 j) \<and> guard_result q = Some v"
proof -
  have fresh: "\<exists>q. lookup_row guard_operation (job_operation j) (guards w') = Some q
      \<and> guard_sha256 q = the (job_sha256 j) \<and> guard_result q = Some v"
    if "claim (now 0) (job_operation j) (the (job_sha256 j)) (guards w) = Inr (None, d)"
      and "create_claimed c now j sig cert (w\<lparr>guards := d\<rparr>) = (Inr v, w')" for d sig cert
    using claimed_row [OF that(1)] create_claimed_records [OF that(2)] by auto
  from assms show ?thesis
    by (auto simp: durable_write_def seq_def lift_def ret_def raise_def on_guards_def
        dest: claim_old inspect_old intro: fresh split: sum.splits prod.splits option.splits if_splits)
qed

text \<open>C19: a write that ended with a result is repeatable for ever: after any further steps of other
  processes on the guard, and after any further jobs run by agents of any configuration, the same job
  on any agent with writing enabled gives the same result, makes no call and changes nothing.\<close>

theorem finished_write_replays:
  assumes "durable_write c now j w = (Inr v, w')" and "ag_write c'"
    and "agent_step\<^sup>*\<^sup>* \<lparr>net = w', permits = ps\<rparr> s"
  shows "durable_write c' now' j (agent_session js (net s)) = (Inr v, agent_session js (net s))"
proof -
  obtain q where q: "lookup_row guard_operation (job_operation j) (guards w') = Some q"
    "guard_sha256 q = the (job_sha256 j)" "guard_result q = Some v"
    using durable_write_records [OF assms(1)] by blast
  then have "finished_row w' (job_operation j) q" by (simp add: finished_row_def)
  with steps_finished [OF assms(3)] have "finished_row (net s) (job_operation j) q" by simp
  then have "finished_row (agent_session js (net s)) (job_operation j) q" by (rule session_finished)
  then have r: "lookup_row guard_operation (job_operation j) (guards (agent_session js (net s))) = Some q"
    by (simp add: finished_row_def)
  have t: "truthy (job_sha256 j)" "truthy (job_base64 j)" "truthy (job_document_type j)"
    using assms(1) by (auto simp: durable_write_def raise_def split: if_splits)
  then have "Some (guard_sha256 q) = job_sha256 j" using q(2) by (cases "job_sha256 j") auto
  with q r t assms(2) show ?thesis
    by (cases "job_sha256 j") (auto simp: durable_write_def seq_def inspect_def guard_verdict_def ret_def)
qed

lemma durable_report_records:
  assumes "durable_execute c now j w = (Inr v, w')" and "job_type j = ''REPORT_CREATE''"
  shows "\<exists>q. lookup_row guard_operation (report_operation j) (guards w') = Some q
    \<and> guard_sha256 q = job_sha j \<and> guard_result q = Some v"
proof -
  have base: "guards (snd (base_execute c now j u)) = guards u" for u
  proof -
    have "''REPORT_CREATE'' \<in> set m11_agent_job_types" by (simp add: m11_agent_job_types_def)
    with assms(2) show ?thesis
      by (auto simp: base_execute_def m11_report_def seq_def lift_def raise_def note_report_def
          split: sum.splits report_reply.splits)
  qed
  have fin: "\<exists>q. lookup_row guard_operation (report_operation j) d' = Some q
      \<and> guard_sha256 q = job_sha j \<and> guard_result q = Some v"
    if "claim (now 0) (report_operation j) (job_sha j) (guards w) = Inr (None, d)"
      and "base_execute c now j (w\<lparr>guards := d\<rparr>) = (r, u)"
      and "complete_guard (now 1) (report_operation j) (job_sha j) v (guards u) = Inr ((), d')" for d r u d'
  proof -
    have "guards u = d" using base [of "w\<lparr>guards := d\<rparr>"] that(2) by simp
    with claimed_row [OF that(1)] complete_guard_result [OF that(3)] show ?thesis by auto
  qed
  from assms show ?thesis
    by (auto simp: durable_execute_def seq_def lift_def ret_def raise_def on_guards_def
        dest: claim_old intro: fin split: sum.splits prod.splits option.splits if_splits)
qed

lemma session_after_step:
  assumes "agent_step\<^sup>*\<^sup>* r s"
  shows "\<exists>qs. agent_step\<^sup>*\<^sup>* r \<lparr>net = agent_session js (net s), permits = qs\<rparr>"
proof -
  obtain qs where "agent_step\<^sup>*\<^sup>* \<lparr>net = net s, permits = permits s\<rparr> \<lparr>net = agent_session js (net s), permits = qs\<rparr>"
    using agent_session_runs [of "net s" js] unfolding runs_def by blast
  moreover have "\<lparr>net = net s, permits = permits s\<rparr> = s" by (cases s) simp
  ultimately have "agent_step\<^sup>*\<^sup>* s \<lparr>net = agent_session js (net s), permits = qs\<rparr>" by simp
  with assms show ?thesis by (meson rtranclp_trans)
qed

lemma steps_calls:
  assumes "agent_step\<^sup>*\<^sup>* r s"
  shows "call_count (net r) i \<le> call_count (net s) i"
  using assms
proof (induction rule: rtranclp_induct)
  case (step s t)
  from step(2) have "call_count (net s) i \<le> call_count (net t) i" by cases (simp_all add: call_count_def)
  with step(3) show ?case by simp
qed simp

text \<open>Under a claimed key no further call is made, unless a process still holds its permit.\<close>

lemma claimed_key_quiet:
  assumes "lookup_row guard_operation i (guards w) \<noteq> None" and "i \<notin> set ps"
    and "agent_step\<^sup>*\<^sup>* \<lparr>net = w, permits = ps\<rparr> s"
  shows "call_count (net s) i = call_count w i"
proof (rule antisym)
  have "guard_crossed \<lparr>net = w, permits = ps\<rparr> i" using assms(1) by (simp add: guard_crossed_def)
  from ag.no_more [OF assms(3) this] have "call_permits s i = call_permits \<lparr>net = w, permits = ps\<rparr> i" by simp
  moreover have "count_list ps i = 0" using assms(2) by simp
  ultimately show "call_count (net s) i \<le> call_count w i" by (simp add: call_permits_def)
  show "call_count w i \<le> call_count (net s) i" using steps_calls [OF assms(3), of i] by simp
qed

text \<open>C33: a report whose creation was refused by the local rate limit is recorded as finished. After any
  further steps of other processes and any further jobs, delivered again, the job gets the same
  \<open>RETRY_SCHEDULED\<close> back without a call, a changed job for the operation is refused, and no call that
  creates the report was made in the meantime: no later job creates it.\<close>

theorem refused_report_never_created:
  assumes "durable_execute c now j w = (Inr (report_retry j wait family), w')"
    and "job_type j = ''REPORT_CREATE''" and "job_type k = ''REPORT_CREATE''"
    and "job_operation k = job_operation j" and "validate_job (ag_validator c') k = Inr ()"
    and "job_inn k = ag_inn c'"
    and "report_operation j \<notin> set ps" and "agent_step\<^sup>*\<^sup>* \<lparr>net = w', permits = ps\<rparr> s"
  shows "durable_execute c' now' k (agent_session js (net s)) =
      ((if job_sha k = job_sha j then Inr (report_retry j wait family)
        else Inl (AgentReplay ''operation replay with different immutable document hash'')),
       agent_session js (net s))
    \<and> call_count (agent_session js (net s)) (report_operation j) = call_count w' (report_operation j)"
proof
  obtain q where q: "lookup_row guard_operation (report_operation j) (guards w') = Some q"
    "guard_sha256 q = job_sha j" "guard_result q = Some (report_retry j wait family)"
    using durable_report_records [OF assms(1,2)] by blast
  then have "finished_row w' (report_operation j) q" by (simp add: finished_row_def)
  with steps_finished [OF assms(8)] have "finished_row (net s) (report_operation j) q" by simp
  then have "finished_row (agent_session js (net s)) (report_operation j) q" by (rule session_finished)
  then have r: "lookup_row guard_operation (report_operation j) (guards (agent_session js (net s))) = Some q"
    by (simp add: finished_row_def)
  have op: "report_operation k = report_operation j" "report_operation j \<noteq> []"
    using assms(4) by (simp_all add: report_operation_def)
  have "job_sha k \<noteq> []" unfolding job_sha_def by (rule sha256_not_Nil)
  with q r op assms(3,5,6) show "durable_execute c' now' k (agent_session js (net s)) =
      ((if job_sha k = job_sha j then Inr (report_retry j wait family)
        else Inl (AgentReplay ''operation replay with different immutable document hash'')),
       agent_session js (net s))"
    by (auto simp: durable_execute_def seq_def lift_def ret_def on_guards_def claim_def guard_verdict_def)
  obtain qs where "agent_step\<^sup>*\<^sup>* \<lparr>net = w', permits = ps\<rparr> \<lparr>net = agent_session js (net s), permits = qs\<rparr>"
    using session_after_step [OF assms(8)] by blast
  from claimed_key_quiet [OF _ assms(7) this] q(1)
  show "call_count (agent_session js (net s)) (report_operation j) = call_count w' (report_operation j)" by simp
qed

section \<open>A demonstration\<close>

definition demo_bytes :: bytes where
  "demo_bytes = ''{}''"

definition demo_write_job :: agent_job where
  "demo_write_job = \<lparr>job_id = ''job_1'', job_type = ''LK_RECEIPT'', job_operation = ''op1'',
     job_pg = ''lp'', job_inn = ''7707083893'', job_document_type = Some ''LK_RECEIPT'',
     job_sha256 = Some (sha256_hex demo_bytes), job_base64 = Some (b64encode demo_bytes), job_cises = [],
     job_document_id = None, job_payload = None\<rparr>"

definition demo_report_job :: "pystr \<Rightarrow> agent_job" where
  "demo_report_job i = \<lparr>job_id = i, job_type = ''REPORT_CREATE'', job_operation = ''op2'',
     job_pg = ''lp'', job_inn = ''7707083893'', job_document_type = None, job_sha256 = None,
     job_base64 = None, job_cises = [], job_document_id = None,
     job_payload = Some [(''filters'', JObj [(''participant_inn'', JStr ''7707083893'')])]\<rparr>"

definition demo_config :: agent_config where
  "demo_config = \<lparr>ag_inn = ''7707083893'', ag_write = True, ag_validator = (\<lambda>t w. Inr w),
     ag_signer = \<lparr>sg_thumbprint = ''AB'', sg_inn = ''7707083893'', sg_inspect = Inr (None, None, None),
                  sg_cryptcp = (\<lambda>raw. Inr ''sig'')\<rparr>,
     ag_bearer = Inr ''token'', ag_post = (\<lambda>req. Inr \<lparr>status_code = 201, body = ''id'', headers = None\<rparr>),
     ag_get = (\<lambda>t. Inl AgentAssertion), ag_parse_id = (\<lambda>r. Inr (Some ''doc-1'')),
     ag_parse_status = (\<lambda>r. Inr None), ag_other = (\<lambda>j. Inl AgentAssertion),
     ag_report = (\<lambda>j. RateLimited ''60.0'' ''CREATE''),
     ag_download = (\<lambda>j. Inl AgentAssertion)\<rparr>"

definition demo_clock :: "nat \<Rightarrow> pystr" where
  "demo_clock n = show_nat n"

lemma demo_signature: "b64encode ''sig'' = ''c2ln''" "b64decode ''c2ln'' = Some ''sig''"
  by code_simp+

definition demo_certificate :: certificate where
  "demo_certificate = \<lparr>ct_thumbprint = Some ''AB'', ct_subject = None, ct_inn = Some ''7707083893'',
     ct_from = None, ct_to = None\<rparr>"

definition demo_result :: agent_result where
  "demo_result = write_result demo_write_job ''c2ln'' demo_certificate
     \<lparr>status_code = 201, body = ''id'', headers = None\<rparr> (Some ''doc-1'')"

lemma demo_sign: "sign_document (ag_signer demo_config) demo_write_job demo_bytes = Inr (''c2ln'', demo_certificate)"
proof -
  have "json_loads demo_bytes = Some K_OBJECT" "''LK_RECEIPT'' \<in> set write_job_types" by code_simp+
  then show ?thesis
    by (simp add: sign_document_def sign_checks_def secure_def demo_config_def demo_write_job_def
        demo_certificate_def demo_signature del: b64encode.simps)
qed

lemma demo_call: "create_call ''LK_RECEIPT'' (b64encode demo_bytes) ''c2ln'' ''token''
    = Inr (create_body ''LK_RECEIPT'' (b64encode demo_bytes) ''c2ln'')"
  by code_simp

lemma demo_write: "\<exists>w. durable_write demo_config demo_clock demo_write_job no_calls = (Inr demo_result, w)"
proof -
  have j: "job_operation demo_write_job = ''op1''" "job_sha256 demo_write_job = Some (sha256_hex demo_bytes)"
    "job_base64 demo_write_job = Some (b64encode demo_bytes)" "job_document_type demo_write_job = Some ''LK_RECEIPT''"
    by (simp_all add: demo_write_job_def)
  have c: "ag_write demo_config" "ag_bearer demo_config = Inr ''token''"
    "ag_post demo_config = (\<lambda>req. Inr \<lparr>status_code = 201, body = ''id'', headers = None\<rparr>)"
    "ag_parse_id demo_config = (\<lambda>r. Inr (Some ''doc-1''))"
    by (simp_all add: demo_config_def)
  have ne: "demo_bytes \<noteq> []" by (simp add: demo_bytes_def)
  show ?thesis
    by (simp add: durable_write_def create_claimed_def j c ne demo_sign demo_call seq_def lift_def ret_def
        on_guards_def inspect_def claim_def complete_guard_def no_calls_def send_create_def parse_created_def
        update_rows_def demo_result_def Let_def del: b64encode.simps)
qed

lemma finished_write_replays_witness:
  "\<exists>w. durable_write demo_config demo_clock demo_write_job no_calls = (Inr demo_result, w)
     \<and> (let v = agent_session [(demo_config, demo_clock, demo_report_job ''job_2''),
                (demo_config, demo_clock, demo_write_job)] w
        in durable_write demo_config demo_clock demo_write_job v = (Inr demo_result, v))"
proof -
  obtain w where w: "durable_write demo_config demo_clock demo_write_job no_calls = (Inr demo_result, w)"
    using demo_write by blast
  have on: "ag_write demo_config" by (simp add: demo_config_def)
  have "agent_step\<^sup>*\<^sup>* \<lparr>net = w, permits = []\<rparr> \<lparr>net = w, permits = []\<rparr>" by simp
  from finished_write_replays [OF w on this, of demo_clock "[(demo_config, demo_clock, demo_report_job ''job_2''),
      (demo_config, demo_clock, demo_write_job)]"] w
  show ?thesis unfolding Let_def agent_shared.simps by (intro exI [of _ w] conjI)
qed

text \<open>A claim and one call.\<close>

lemma agent_creates_once_witness:
  "\<exists>s. agent_step\<^sup>*\<^sup>* \<lparr>net = no_calls, permits = []\<rparr> s \<and> call_count (net s) ''op1'' = 1"
proof -
  let ?d = "[\<lparr>guard_operation = ''op1'', guard_sha256 = ''aa'', guard_result = None, guard_created = ''t'',
             guard_changed = ''t''\<rparr>]"
  have "agent_step \<lparr>net = no_calls, permits = []\<rparr> \<lparr>net = no_calls\<lparr>guards := ?d\<rparr>, permits = [''op1'']\<rparr>"
    using step_claim [of "''t''" "''op1''" "''aa''" "\<lparr>net = no_calls, permits = []\<rparr>" ?d]
    by (simp add: claim_new no_calls_def)
  moreover have "agent_step \<lparr>net = no_calls\<lparr>guards := ?d\<rparr>, permits = [''op1'']\<rparr>
      \<lparr>net = no_calls\<lparr>guards := ?d, creates := [(''op1'', [])]\<rparr>, permits = []\<rparr>"
    using step_send [of "''op1''" "\<lparr>net = no_calls\<lparr>guards := ?d\<rparr>, permits = [''op1'']\<rparr>" "[]"]
    by (simp add: no_calls_def)
  ultimately have run: "agent_step\<^sup>*\<^sup>* \<lparr>net = no_calls, permits = []\<rparr>
      \<lparr>net = no_calls\<lparr>guards := ?d, creates := [(''op1'', [])]\<rparr>, permits = []\<rparr>" by auto
  have "call_count (no_calls\<lparr>guards := ?d, creates := [(''op1'', [])]\<rparr>) ''op1'' \<le> 1"
    using agent_creates_once [OF run, of "''op1''"] by simp
  with run show ?thesis by (intro exI conjI) (assumption, simp add: call_count_def no_calls_def)
qed

lemma claimed_write_is_settled_witness:
  "durable_write demo_config demo_clock demo_write_job
     \<lparr>guards = [\<lparr>guard_operation = ''op1'', guard_sha256 = sha256_hex demo_bytes, guard_result = None,
                guard_created = ''t'', guard_changed = ''t''\<rparr>], creates = [], report_calls = []\<rparr>
   = (Inl AgentUnresolved, \<lparr>guards = [\<lparr>guard_operation = ''op1'', guard_sha256 = sha256_hex demo_bytes,
       guard_result = None, guard_created = ''t'', guard_changed = ''t''\<rparr>], creates = [], report_calls = []\<rparr>)"
proof -
  have "truthy (Some (b64encode demo_bytes))" by code_simp
  then show ?thesis
    by (subst claimed_write_is_settled [where r = "\<lparr>guard_operation = ''op1'', guard_sha256 = sha256_hex demo_bytes,
          guard_result = None, guard_created = ''t'', guard_changed = ''t''\<rparr>"])
      (simp_all add: demo_write_job_def demo_config_def del: b64encode.simps)
qed

lemma demo_report_valid: "validate_job (ag_validator demo_config) (demo_report_job i) = (if i = [] then
    Inl (AgentSecurity ''job_id and operation_id are required'') else Inr ())"
proof -
  have "''REPORT_CREATE'' \<notin> set write_job_types" "''REPORT_CREATE'' \<notin> set m1_read_job_types"
    "''REPORT_CREATE'' \<notin> set m2_read_job_types" "''REPORT_CREATE'' \<notin> set m4_read_job_types"
    "''REPORT_CREATE'' \<notin> set m7_read_job_types" "''REPORT_CREATE'' \<in> set m11_agent_job_types"
    by code_simp+
  then show ?thesis
    by (simp add: validate_job_def demo_report_job_def demo_config_def secure_def check_report_job_def
        check_read_job_def write_fields_def same_payload_def report_participant_def get_key_def)
qed

lemma demo_report: "\<exists>w. durable_execute demo_config demo_clock (demo_report_job ''job_2'') no_calls
    = (Inr (report_retry (demo_report_job ''job_2'') ''60.0'' ''CREATE''), w)"
proof -
  have t: "''REPORT_CREATE'' \<in> set m11_agent_job_types" by code_simp
  have j: "job_type (demo_report_job i) = ''REPORT_CREATE''" "job_inn (demo_report_job i) = ag_inn demo_config"
    "report_operation (demo_report_job i) = ''m11-report-create:op2''" for i
    by (simp_all add: demo_report_job_def demo_config_def report_operation_def)
  have c: "ag_bearer demo_config = Inr ''token''" "ag_report demo_config = (\<lambda>j. RateLimited ''60.0'' ''CREATE'')"
    by (simp_all add: demo_config_def)
  have ne: "job_sha k \<noteq> []" for k unfolding job_sha_def by (rule sha256_not_Nil)
  show ?thesis
    by (simp add: durable_execute_def base_execute_def m11_report_def j t c ne demo_report_valid seq_def lift_def
        ret_def on_guards_def claim_def complete_guard_def no_calls_def update_rows_def)
qed

lemma refused_report_never_created_witness:
  "\<exists>w. durable_execute demo_config demo_clock (demo_report_job ''job_2'') no_calls
       = (Inr (report_retry (demo_report_job ''job_2'') ''60.0'' ''CREATE''), w)
     \<and> (let v = agent_session [(demo_config, demo_clock, demo_write_job)] w
        in fst (durable_execute demo_config demo_clock (demo_report_job ''job_2'') v)
             = Inr (report_retry (demo_report_job ''job_2'') ''60.0'' ''CREATE'')
         \<and> call_count v ''m11-report-create:op2'' = call_count w ''m11-report-create:op2'')"
proof -
  obtain w where w: "durable_execute demo_config demo_clock (demo_report_job ''job_2'') no_calls
    = (Inr (report_retry (demo_report_job ''job_2'') ''60.0'' ''CREATE''), w)" using demo_report by blast
  have j: "job_type (demo_report_job i) = ''REPORT_CREATE''" "job_inn (demo_report_job i) = ag_inn demo_config"
    "report_operation (demo_report_job i) = ''m11-report-create:op2''" for i
    by (simp_all add: demo_report_job_def demo_config_def report_operation_def)
  have valid: "validate_job (ag_validator demo_config) (demo_report_job ''job_2'') = Inr ()"
    by (simp add: demo_report_valid)
  have idle: "report_operation (demo_report_job ''job_2'') \<notin> set []" by simp
  have still: "agent_step\<^sup>*\<^sup>* \<lparr>net = w, permits = []\<rparr> \<lparr>net = w, permits = []\<rparr>" by simp
  from refused_report_never_created [OF w j(1) j(1) refl valid j(2) idle still, of demo_clock
      "[(demo_config, demo_clock, demo_write_job)]"] w
  show ?thesis unfolding Let_def agent_shared.simps j(3) by (intro exI [of _ w]) (simp del: agent_session.simps)
qed

end
