(* ===== verification/WriteStore.thy ===== *)
theory WriteStore
  imports WriteAdapter
begin

text \<open>
  The durable store of \<open>wbcz/write_pipeline.py\<close>: one table of operations, one append-only audit
  table, and the transactions of \<open>WriteOperationStore\<close>. A method is an operation on the database
  value; what it does between \<open>BEGIN IMMEDIATE\<close> and \<open>commit\<close> is a transaction, rolled back by an
  exception. \<open>now i\<close> is the text the \<open>i\<close>-th call of \<open>utc_now\<close> in the method returns.
\<close>

section \<open>Tables\<close>

record operation_row =
  operation_id :: pystr
  business_fingerprint :: pystr
  row_event_id :: pystr
  row_decision :: decision
  document_type :: pystr
  operation_reason :: pystr
  pg :: pystr
  expected_inn :: pystr
  document_sha256 :: pystr
  row_document_base64 :: pystr
  prepared_at :: pystr
  row_state :: write_state
  signature_base64 :: "pystr option"
  certificate_thumbprint :: "pystr option"
  certificate_subject :: "pystr option"
  certificate_inn :: "pystr option"
  certificate_valid_from :: "pystr option"
  certificate_valid_to :: "pystr option"
  document_id :: "pystr option"
  submit_http_status :: "int option"
  submit_category :: "create_category option"
  submit_body_sha256 :: "pystr option"
  updated_at :: pystr

record audit_row =
  audit_operation :: pystr
  audit_action :: pystr
  from_state :: "write_state option"
  to_state :: "write_state option"
  details_json :: pystr
  created_at :: pystr

record write_db =
  operations :: "operation_row list"
  write_audit :: "audit_row list"

definition empty_db :: write_db where
  "empty_db = \<lparr>operations = [], write_audit = []\<rparr>"

record operation_record =
  rec_operation_id :: pystr
  rec_fingerprint :: pystr
  rec_event_id :: pystr
  rec_decision :: decision
  rec_document_type :: pystr
  rec_reason :: pystr
  rec_pg :: pystr
  rec_expected_inn :: pystr
  rec_sha256 :: pystr
  rec_document_base64 :: pystr
  rec_prepared_at :: pystr
  rec_state :: write_state
  rec_signature :: "pystr option"
  rec_document_id :: "pystr option"

definition record_of :: "operation_row \<Rightarrow> operation_record" where
  "record_of r =
     \<lparr>rec_operation_id = operation_id r, rec_fingerprint = business_fingerprint r,
      rec_event_id = row_event_id r, rec_decision = row_decision r,
      rec_document_type = document_type r, rec_reason = operation_reason r, rec_pg = pg r,
      rec_expected_inn = expected_inn r, rec_sha256 = document_sha256 r,
      rec_document_base64 = row_document_base64 r, rec_prepared_at = prepared_at r,
      rec_state = row_state r, rec_signature = signature_base64 r, rec_document_id = document_id r\<rparr>"

record signing_request_data =
  request_operation_id :: pystr
  request_document_type :: pystr
  request_pg :: pystr
  request_expected_inn :: pystr
  request_sha256 :: pystr
  request_document_base64 :: pystr

record signing_response =
  response_operation_id :: pystr
  response_sha256 :: pystr
  response_signature :: pystr
  response_thumbprint :: "pystr option"
  response_subject :: "pystr option"
  response_inn :: "pystr option"
  response_valid_from :: "pystr option"
  response_valid_to :: "pystr option"

type_synonym 'a store_op = "(write_db, write_error, 'a) op"
type_synonym 'a store_txn = "(write_db, write_error, 'a) txn"
type_synonym details = "(pystr \<times> json) list"

definition find_operation :: "write_db \<Rightarrow> pystr \<Rightarrow> operation_row option" where
  "find_operation d i = lookup_row operation_id i (operations d)"

definition audit :: "pystr \<Rightarrow> pystr \<Rightarrow> pystr \<Rightarrow> write_state option \<Rightarrow> write_state option \<Rightarrow> details
    \<Rightarrow> write_db \<Rightarrow> write_db" where
  "audit t i action from_s to_s details d =
     d\<lparr>write_audit := write_audit d @
        [\<lparr>audit_operation = i, audit_action = action, from_state = from_s, to_state = to_s,
          details_json = canonical_json (JObj details), created_at = t\<rparr>]\<rparr>"

definition set_row :: "pystr \<Rightarrow> (operation_row \<Rightarrow> operation_row) \<Rightarrow> write_db \<Rightarrow> write_db" where
  "set_row i f d = d\<lparr>operations := update_rows operation_id i f (operations d)\<rparr>"

definition row_txn :: "pystr \<Rightarrow> (operation_row \<Rightarrow> 'a store_txn) \<Rightarrow> 'a store_txn" where
  "row_txn i f d = (case find_operation d i of None \<Rightarrow> Inl OperationMissing | Some r \<Rightarrow> f r d)"

definition get :: "pystr \<Rightarrow> operation_record store_op" where
  "get i d = (case find_operation d i of None \<Rightarrow> (Inl OperationMissing, d)
     | Some r \<Rightarrow> (Inr (record_of r), d))"

section \<open>State transitions\<close>

definition not_allowed :: "pystr \<Rightarrow> write_state \<Rightarrow> write_error" where
  "not_allowed what s = InvalidWrite (what @ '' not allowed from state '' @ write_state_value s)"

definition transition_txn :: "(nat \<Rightarrow> pystr) \<Rightarrow> pystr \<Rightarrow> write_state list \<Rightarrow> write_state \<Rightarrow> pystr
    \<Rightarrow> details \<Rightarrow> unit store_txn" where
  "transition_txn now i expected target action details =
     row_txn i (\<lambda>r d.
       if row_state r \<notin> set expected then Inl (not_allowed action (row_state r))
       else Inr ((), audit (now 1) i action (Some (row_state r)) (Some target) details
              (set_row i (\<lambda>q. q\<lparr>row_state := target, updated_at := now 0\<rparr>) d)))"

definition transition :: "(nat \<Rightarrow> pystr) \<Rightarrow> pystr \<Rightarrow> write_state list \<Rightarrow> write_state \<Rightarrow> pystr
    \<Rightarrow> details \<Rightarrow> operation_record store_op" where
  "transition now i expected target action details =
     seq (commit (transition_txn now i expected target action details)) (\<lambda>_. get i)"

section \<open>Preparing an operation\<close>

definition fingerprint :: "pystr \<Rightarrow> decision \<Rightarrow> pystr \<Rightarrow> pystr \<Rightarrow> pystr \<Rightarrow> pystr" where
  "fingerprint ev dec t why pgroup =
     sha256_hex (utf8 (''wb-fbs-write:v1:'' @ canonical_json (JObj
       [(''event_id'', JStr ev), (''decision'', JStr (decision_value dec)),
        (''document_type'', JStr t), (''operation_reason'', JStr why), (''pg'', JStr pgroup)])))"

definition operation_id_of :: "pystr \<Rightarrow> pystr" where
  "operation_id_of fp = ''op_'' @ take 32 fp"

definition check_prepare :: "decision \<Rightarrow> pystr \<Rightarrow> pystr \<Rightarrow> pystr \<Rightarrow> pystr \<Rightarrow> exact_document
    \<Rightarrow> write_error + unit" where
  "check_prepare dec t why pgroup inn doc =
     (case decision_document dec of
        None \<Rightarrow> Inl (InvalidWrite ''control decision is not approved for write'')
      | Some (expected_type, expected_reason) \<Rightarrow>
          if t \<noteq> expected_type \<or> why \<noteq> expected_reason
          then Inl (InvalidWrite ''decision/document mapping mismatch'')
          else if t \<notin> set allowed_document_types then Inl (InvalidWrite ''unsupported document_type'')
          else if pgroup \<noteq> ''lp'' then Inl (InvalidWrite ''wrong product pgroup'')
          else if inn = [] then Inl (InvalidWrite ''expected_inn is required'')
          else case b64decode (product_document_base64 doc) of
            None \<Rightarrow> Inl (WriteValueError ''binascii.Error'')
          | Some decoded \<Rightarrow>
              if decoded \<noteq> bytes_for_signature doc
              then Inl (InvalidWrite ''bytes_for_signature != Base64Decode(product_document)'')
              else if sha256_hex decoded \<noteq> sha256 doc then Inl (InvalidWrite ''document hash mismatch'')
              else Inr ())"

definition new_row :: "pystr \<Rightarrow> pystr \<Rightarrow> pystr \<Rightarrow> decision \<Rightarrow> pystr \<Rightarrow> pystr \<Rightarrow> pystr \<Rightarrow> pystr
    \<Rightarrow> exact_document \<Rightarrow> operation_row" where
  "new_row t fp ev dec doc_type why pgroup inn doc =
     \<lparr>operation_id = operation_id_of fp, business_fingerprint = fp, row_event_id = ev,
      row_decision = dec, document_type = doc_type, operation_reason = why, pg = pgroup,
      expected_inn = inn, document_sha256 = sha256 doc,
      row_document_base64 = product_document_base64 doc, prepared_at = t, row_state = W_PREPARED,
      signature_base64 = None, certificate_thumbprint = None, certificate_subject = None,
      certificate_inn = None, certificate_valid_from = None, certificate_valid_to = None,
      document_id = None, submit_http_status = None, submit_category = None,
      submit_body_sha256 = None, updated_at = t\<rparr>"

text \<open>\<open>INSERT\<close>, with the uniqueness of the key columns.\<close>

definition insert_row :: "operation_row \<Rightarrow> unit store_txn" where
  "insert_row r d =
     (if operation_id r \<in> operation_id ` set (operations d)
         \<or> business_fingerprint r \<in> business_fingerprint ` set (operations d)
      then Inl IntegrityError
      else Inr ((), d\<lparr>operations := operations d @ [r]\<rparr>))"

definition prepare_replay :: "(nat \<Rightarrow> pystr) \<Rightarrow> pystr \<Rightarrow> exact_document \<Rightarrow> operation_row
    \<Rightarrow> operation_record store_txn" where
  "prepare_replay now inn doc r d =
     (if document_sha256 r = sha256 doc \<and> row_document_base64 r = product_document_base64 doc
         \<and> expected_inn r = inn
      then Inr (record_of r, audit (now 1) (operation_id r) ''PREPARE_REPLAY_IDEMPOTENT'' None None
             [(''document_sha256'', JStr (sha256 doc))] d)
      else Inl ReplayConflict)"

definition prepare_insert :: "(nat \<Rightarrow> pystr) \<Rightarrow> operation_row \<Rightarrow> unit store_txn" where
  "prepare_insert now r d =
     bind (insert_row r d) (\<lambda>(_, d1).
       let d2 = audit (now 1) (operation_id r) ''OPERATION_PREPARED'' None (Some W_PREPARED)
                  [(''document_type'', JStr (document_type r)), (''pg'', JStr (pg r)),
                   (''document_sha256'', JStr (document_sha256 r))] d1;
           d3 = set_row (operation_id r)
                  (\<lambda>q. q\<lparr>row_state := W_AWAITING_SIGNATURE, updated_at := now 2\<rparr>) d2
       in Inr ((), audit (now 3) (operation_id r) ''SIGNING_REQUEST_PENDING'' (Some W_PREPARED)
                 (Some W_AWAITING_SIGNATURE) [] d3))"

text \<open>Inside the transaction the row with this fingerprint decides between replay and insertion.\<close>

definition prepare_txn :: "(nat \<Rightarrow> pystr) \<Rightarrow> exact_document \<Rightarrow> operation_row
    \<Rightarrow> operation_record option store_txn" where
  "prepare_txn now doc r d =
     (case lookup_row business_fingerprint (business_fingerprint r) (operations d) of
        Some q \<Rightarrow> bind (prepare_replay now (expected_inn r) doc q d) (\<lambda>(v, d'). Inr (Some v, d'))
      | None \<Rightarrow> bind (prepare_insert now r d) (\<lambda>(_, d'). Inr (None, d')))"

definition prepare :: "(nat \<Rightarrow> pystr) \<Rightarrow> pystr \<Rightarrow> decision \<Rightarrow> pystr \<Rightarrow> pystr \<Rightarrow> pystr \<Rightarrow> pystr
    \<Rightarrow> exact_document \<Rightarrow> operation_record store_op" where
  "prepare now ev dec t why pgroup inn doc =
     seq (lift (check_prepare dec t why pgroup inn doc)) (\<lambda>_.
       let fp = fingerprint ev dec t why pgroup in
       seq (commit (prepare_txn now doc (new_row (now 0) fp ev dec t why pgroup inn doc))) (\<lambda>replayed.
         case replayed of Some r \<Rightarrow> ret r | None \<Rightarrow> get (operation_id_of fp)))"

section \<open>Signing\<close>

definition signing_request :: "pystr \<Rightarrow> signing_request_data store_op" where
  "signing_request i =
     seq (get i) (\<lambda>r.
       if rec_state r \<noteq> W_AWAITING_SIGNATURE
       then raise (InvalidWrite (''signing request unavailable from state ''
              @ write_state_value (rec_state r)))
       else if rec_document_type r \<notin> set allowed_document_types \<or> rec_pg r \<noteq> ''lp''
       then raise (InvalidWrite ''operation is outside signing whitelist'')
       else ret \<lparr>request_operation_id = rec_operation_id r,
                 request_document_type = rec_document_type r, request_pg = rec_pg r,
                 request_expected_inn = rec_expected_inn r, request_sha256 = rec_sha256 r,
                 request_document_base64 = rec_document_base64 r\<rparr>)"

definition check_signature :: "signing_response \<Rightarrow> pystr \<Rightarrow> operation_row \<Rightarrow> write_error + pystr" where
  "check_signature p own r =
     (if document_sha256 r \<noteq> response_sha256 p then Inl (InvalidWrite ''document_sha256 mismatch'')
      else if document_type r \<notin> set allowed_document_types
      then Inl (InvalidWrite ''unsupported document_type'')
      else if pg r \<noteq> ''lp'' then Inl (InvalidWrite ''wrong product pgroup'')
      else if expected_inn r \<noteq> own then Inl (InvalidWrite ''expected_inn mismatch'')
      else if truthy (response_inn p) \<and> response_inn p \<noteq> Some (expected_inn r)
      then Inl (InvalidWrite ''certificate INN mismatch'')
      else validate_base64_ascii (response_signature p) ''signature'')"

definition replay_states :: "write_state list" where
  "replay_states = [W_SIGNED, W_SUBMITTING, W_SUBMITTED, W_PROCESSING, W_RECONCILIATION_REQUIRED,
     W_SUCCEEDED, W_FAILED, W_MANUAL_REVIEW]"

definition sign_row :: "(nat \<Rightarrow> pystr) \<Rightarrow> signing_response \<Rightarrow> pystr \<Rightarrow> operation_row \<Rightarrow> operation_row" where
  "sign_row now p sig q =
     q\<lparr>signature_base64 := Some sig, certificate_thumbprint := response_thumbprint p,
       certificate_subject := response_subject p, certificate_inn := response_inn p,
       certificate_valid_from := response_valid_from p, certificate_valid_to := response_valid_to p,
       row_state := W_SIGNED, updated_at := now 0\<rparr>"

text \<open>The transaction returns the record of a replay; after a fresh signature the row is read again.\<close>

definition signature_txn :: "(nat \<Rightarrow> pystr) \<Rightarrow> signing_response \<Rightarrow> pystr
    \<Rightarrow> operation_record option store_txn" where
  "signature_txn now p own =
     row_txn (response_operation_id p) (\<lambda>r d.
       bind (check_signature p own r) (\<lambda>sig.
         if row_state r \<noteq> W_AWAITING_SIGNATURE then
           (if signature_base64 r = Some sig \<and> row_state r \<in> set replay_states
            then Inr (Some (record_of r), audit (now 0) (operation_id r) ''SIGNATURE_REPLAY_IDEMPOTENT''
                   None None [(''document_sha256'', JStr (document_sha256 r))] d)
            else Inl (InvalidWrite (''signature not accepted from state ''
                   @ write_state_value (row_state r))))
         else
           Inr (None, audit (now 1) (operation_id r) ''SIGNATURE_ACCEPTED'' (Some W_AWAITING_SIGNATURE)
             (Some W_SIGNED)
             [(''document_sha256'', JStr (document_sha256 r)),
              (''certificate_thumbprint'', opt_str (response_thumbprint p)),
              (''certificate_inn'', opt_str (response_inn p))]
             (set_row (operation_id r) (sign_row now p sig) d))))"

definition accept_signature :: "(nat \<Rightarrow> pystr) \<Rightarrow> signing_response \<Rightarrow> pystr
    \<Rightarrow> operation_record store_op" where
  "accept_signature now p own =
     seq (commit (signature_txn now p own)) (\<lambda>replayed.
       case replayed of Some r \<Rightarrow> ret r | None \<Rightarrow> get (response_operation_id p))"

section \<open>Submitting\<close>

definition reserve_txn :: "(nat \<Rightarrow> pystr) \<Rightarrow> pystr \<Rightarrow> unit store_txn" where
  "reserve_txn now i = transition_txn now i [W_SIGNED] W_SUBMITTING ''SUBMIT_RESERVED'' []"

definition reserve_submit :: "(nat \<Rightarrow> pystr) \<Rightarrow> pystr \<Rightarrow> operation_record store_op" where
  "reserve_submit now i =
     seq (get i) (\<lambda>r.
       if rec_state r \<noteq> W_SIGNED then
         (if rec_state r \<in> {W_SUBMITTING, W_SUBMITTED, W_PROCESSING, W_RECONCILIATION_REQUIRED,
               W_SUCCEEDED}
          then raise DuplicateSubmitBlocked
          else raise (not_allowed ''submit'' (rec_state r)))
       else if \<not> truthy (rec_signature r) then raise (InvalidWrite ''signature missing'')
       else seq (commit (reserve_txn now i)) (\<lambda>_. get i))"

definition submit_target :: "create_result \<Rightarrow> write_error + write_state" where
  "submit_target res =
     (if category res = C_SUCCESS_WITH_ID then
        (if \<not> truthy (result_document_id res)
         then Inl (InvalidWrite ''success parser returned no document id'')
         else Inr W_SUBMITTED)
      else if category res = C_SERVER_ERROR then Inr W_MANUAL_REVIEW
      else if category res = C_SUCCESS_CONTRACT_UNCONFIRMED then Inr W_MANUAL_REVIEW
      else Inr W_FAILED)"

text \<open>\<open>UPDATE\<close> of the result columns, with the uniqueness of \<open>document_id\<close>.\<close>

definition result_row :: "(nat \<Rightarrow> pystr) \<Rightarrow> create_result \<Rightarrow> write_state \<Rightarrow> operation_row \<Rightarrow> operation_row" where
  "result_row now res target q =
     q\<lparr>row_state := target,
       document_id := (if target = W_SUBMITTED then result_document_id res else None),
       submit_http_status := Some (http_status res), submit_category := Some (category res),
       submit_body_sha256 := Some (body_sha256 res), updated_at := now 0\<rparr>"

definition document_taken :: "pystr \<Rightarrow> pystr option \<Rightarrow> write_db \<Rightarrow> bool" where
  "document_taken i doc d \<longleftrightarrow>
     doc \<noteq> None \<and> (\<exists>r\<in>set (operations d). operation_id r \<noteq> i \<and> document_id r = doc)"

definition complete_txn :: "(nat \<Rightarrow> pystr) \<Rightarrow> pystr \<Rightarrow> create_result \<Rightarrow> unit store_txn" where
  "complete_txn now i res =
     row_txn i (\<lambda>r d.
       if row_state r \<noteq> W_SUBMITTING then Inl (not_allowed ''submit result'' (row_state r))
       else bind (submit_target res) (\<lambda>target.
         if document_taken i (if target = W_SUBMITTED then result_document_id res else None) d
         then Inl IntegrityError
         else Inr ((), audit (now 1) i ''SUBMIT_RESULT'' (Some W_SUBMITTING) (Some target)
           [(''http_status'', JInt (http_status res)),
            (''category'', JStr (category_value (category res))),
            (''body_sha256'', JStr (body_sha256 res)),
            (''content_type'', opt_str (content_type res)),
            (''document_id_present'', JBool (result_document_id res \<noteq> None))]
           (set_row i (result_row now res target) d))))"

definition complete_submit :: "(nat \<Rightarrow> pystr) \<Rightarrow> pystr \<Rightarrow> create_result \<Rightarrow> operation_record store_op" where
  "complete_submit now i res = seq (commit (complete_txn now i res)) (\<lambda>_. get i)"

definition mark_submit_ambiguous :: "(nat \<Rightarrow> pystr) \<Rightarrow> pystr \<Rightarrow> pystr \<Rightarrow> operation_record store_op" where
  "mark_submit_ambiguous now i error_type =
     transition now i [W_SUBMITTING] W_MANUAL_REVIEW ''SUBMIT_TRANSPORT_AMBIGUOUS''
       [(''error_type'', JStr (take 200 error_type))]"

definition reviewable_states :: "write_state list" where
  "reviewable_states = [W_AWAITING_SIGNATURE, W_SIGNED, W_SUBMITTING, W_SUBMITTED, W_PROCESSING,
     W_RECONCILIATION_REQUIRED]"

definition mark_manual_review :: "(nat \<Rightarrow> pystr) \<Rightarrow> pystr \<Rightarrow> pystr \<Rightarrow> operation_record store_op" where
  "mark_manual_review now i why =
     transition now i reviewable_states W_MANUAL_REVIEW ''MANUAL_REVIEW_REQUIRED''
       [(''reason'', JStr (take 500 why))]"

definition mark_error :: "(nat \<Rightarrow> pystr) \<Rightarrow> pystr \<Rightarrow> pystr \<Rightarrow> operation_record store_op" where
  "mark_error now i error_type =
     transition now i [W_AWAITING_SIGNATURE, W_SIGNED] W_ERROR ''PIPELINE_ERROR''
       [(''error_type'', JStr (take 200 error_type))]"

definition note_txn :: "(nat \<Rightarrow> pystr) \<Rightarrow> pystr \<Rightarrow> pystr \<Rightarrow> details \<Rightarrow> unit store_txn" where
  "note_txn now i action details d = Inr ((), audit (now 0) i action None None details d)"

definition audit_note :: "(nat \<Rightarrow> pystr) \<Rightarrow> pystr \<Rightarrow> pystr \<Rightarrow> details \<Rightarrow> unit store_op" where
  "audit_note now i action details = commit (note_txn now i action details)"

section \<open>Polling and reconciliation\<close>

definition poll_details :: "pystr option \<Rightarrow> int option \<Rightarrow> pystr option \<Rightarrow> details" where
  "poll_details remote http sha =
     [(''remote_status'', opt_str remote), (''http_status'', opt_int http),
      (''body_sha256'', opt_str sha),
      (''classification'', JStr (poll_value (classify_poll_status remote)))]"

definition poll_target :: "poll_classification \<Rightarrow> write_state" where
  "poll_target c = (case c of P_TERMINAL_SUCCESS \<Rightarrow> W_RECONCILIATION_REQUIRED
     | P_TERMINAL_FAILURE \<Rightarrow> W_FAILED | _ \<Rightarrow> W_MANUAL_REVIEW)"

definition apply_poll_status :: "(nat \<Rightarrow> pystr) \<Rightarrow> pystr \<Rightarrow> pystr option \<Rightarrow> int option \<Rightarrow> pystr option
    \<Rightarrow> (operation_record \<times> poll_classification) store_op" where
  "apply_poll_status now i remote http sha =
     (let c = classify_poll_status remote; details = poll_details remote http sha in
      seq (get i) (\<lambda>r.
        if rec_state r \<notin> {W_SUBMITTED, W_PROCESSING} then raise (not_allowed ''polling'' (rec_state r))
        else
          seq (if c = P_INTERMEDIATE then
                 (if rec_state r = W_SUBMITTED
                  then transition now i [W_SUBMITTED] W_PROCESSING ''POLL_INTERMEDIATE'' details
                  else seq (commit (note_txn now i ''POLL_INTERMEDIATE'' details)) (\<lambda>_. get i))
               else transition now i [W_SUBMITTED, W_PROCESSING] (poll_target c) ''POLL_TERMINAL'' details)
            (\<lambda>r'. ret (r', c))))"

definition reconciliation_result :: "(nat \<Rightarrow> pystr) \<Rightarrow> pystr \<Rightarrow> bool \<Rightarrow> details
    \<Rightarrow> operation_record store_op" where
  "reconciliation_result now i confirmed details =
     transition now i [W_RECONCILIATION_REQUIRED] (if confirmed then W_SUCCEEDED else W_MANUAL_REVIEW)
       ''RECONCILIATION_RESULT''
       (filter (\<lambda>p. fst p \<notin> fst ` set details) [(''confirmed'', JBool confirmed)] @ details)"

definition audit_entries :: "write_db \<Rightarrow> pystr \<Rightarrow> audit_row list" where
  "audit_entries d i = filter (\<lambda>a. audit_operation a = i) (write_audit d)"

end
