(* ===== verification/WriteInvariants.thy ===== *)
theory WriteInvariants
  imports WriteStore
begin

text \<open>
  What every transaction of the write store keeps: unique keys, rows whose document, fingerprint
  and signature fit together, and an audit trail that replays to the current state. The store's
  transactions are the cases of one step relation, whatever order processes run them in.
\<close>

section \<open>Ranks, trails, rows\<close>

definition write_rank :: "write_state \<Rightarrow> nat" where
  "write_rank s = (case s of W_PREPARED \<Rightarrow> 0 | W_AWAITING_SIGNATURE \<Rightarrow> 1 | W_SIGNED \<Rightarrow> 2
     | W_SUBMITTING \<Rightarrow> 3 | W_SUBMITTED \<Rightarrow> 4 | W_PROCESSING \<Rightarrow> 5 | W_RECONCILIATION_REQUIRED \<Rightarrow> 6
     | _ \<Rightarrow> 7)"

definition write_status :: "write_db \<Rightarrow> pystr \<Rightarrow> write_state option" where
  "write_status d i = map_option row_state (find_operation d i)"

definition trail :: "write_db \<Rightarrow> pystr \<Rightarrow> (write_state option \<times> write_state) list" where
  "trail d i = map (\<lambda>a. (from_state a, the (to_state a)))
     (filter (\<lambda>a. audit_operation a = i \<and> to_state a \<noteq> None) (write_audit d))"

text \<open>The moves the code makes, and the run of a trail along them.\<close>

definition edge :: "write_state \<Rightarrow> write_state \<Rightarrow> bool" where
  "edge s t \<longleftrightarrow> t \<in> set (case s of
     W_PREPARED \<Rightarrow> [W_AWAITING_SIGNATURE]
   | W_AWAITING_SIGNATURE \<Rightarrow> [W_SIGNED, W_MANUAL_REVIEW, W_ERROR]
   | W_SIGNED \<Rightarrow> [W_SUBMITTING, W_MANUAL_REVIEW, W_ERROR]
   | W_SUBMITTING \<Rightarrow> [W_SUBMITTED, W_MANUAL_REVIEW, W_FAILED]
   | W_SUBMITTED \<Rightarrow> [W_PROCESSING, W_RECONCILIATION_REQUIRED, W_MANUAL_REVIEW, W_FAILED]
   | W_PROCESSING \<Rightarrow> [W_RECONCILIATION_REQUIRED, W_MANUAL_REVIEW, W_FAILED]
   | W_RECONCILIATION_REQUIRED \<Rightarrow> [W_SUCCEEDED, W_MANUAL_REVIEW]
   | _ \<Rightarrow> [])"

lemma edge_rank: "edge s t \<Longrightarrow> write_rank s < write_rank t"
  by (cases s) (auto simp: edge_def write_rank_def)

definition entry :: "write_state option \<Rightarrow> write_state \<Rightarrow> bool" where
  "entry s t = (case s of None \<Rightarrow> t = W_PREPARED | Some x \<Rightarrow> edge x t)"

fun replay :: "write_state option \<Rightarrow> (write_state option \<times> write_state) list
    \<Rightarrow> write_state option option" where
  "replay s [] = Some s"
| "replay s ((f, t) # ms) = (if f = s \<and> entry s t then replay (Some t) ms else None)"

lemma replay_append:
  "replay s (xs @ ys) = (case replay s xs of None \<Rightarrow> None | Some t \<Rightarrow> replay t ys)"
  by (induction s xs rule: replay.induct) auto

definition phase_ok :: "write_state \<Rightarrow> pystr option \<Rightarrow> pystr option \<Rightarrow> bool" where
  "phase_ok s sig doc \<longleftrightarrow>
     (\<forall>w. sig = Some w \<longrightarrow> validate_base64_ascii w ''signature'' = Inr w) \<and>
     (case s of
        W_PREPARED \<Rightarrow> sig = None \<and> doc = None
      | W_AWAITING_SIGNATURE \<Rightarrow> sig = None \<and> doc = None
      | W_SIGNED \<Rightarrow> sig \<noteq> None \<and> doc = None
      | W_SUBMITTING \<Rightarrow> sig \<noteq> None \<and> doc = None
      | W_MANUAL_REVIEW \<Rightarrow> True
      | W_ERROR \<Rightarrow> doc = None
      | W_FAILED \<Rightarrow> sig \<noteq> None
      | _ \<Rightarrow> sig \<noteq> None \<and> truthy doc)"

definition immutable_ok :: "operation_row \<Rightarrow> bool" where
  "immutable_ok r \<longleftrightarrow>
     decision_document (row_decision r) = Some (document_type r, operation_reason r)
     \<and> pg r = ''lp'' \<and> expected_inn r \<noteq> []
     \<and> (\<exists>bs. b64decode (row_document_base64 r) = Some bs \<and> document_sha256 r = sha256_hex bs)
     \<and> business_fingerprint r =
         fingerprint (row_event_id r) (row_decision r) (document_type r) (operation_reason r) (pg r)
     \<and> operation_id r = operation_id_of (business_fingerprint r)"

definition row_ok :: "operation_row \<Rightarrow> bool" where
  "row_ok r \<longleftrightarrow> immutable_ok r \<and> phase_ok (row_state r) (signature_base64 r) (document_id r)
     \<and> (truthy (certificate_inn r) \<longrightarrow> certificate_inn r = Some (expected_inn r))"

definition documents_apart :: "operation_row list \<Rightarrow> bool" where
  "documents_apart rows \<longleftrightarrow> (\<forall>r\<in>set rows. \<forall>q\<in>set rows.
     document_id r = document_id q \<longrightarrow> document_id r \<noteq> None \<longrightarrow> operation_id r = operation_id q)"

definition store_ok :: "write_db \<Rightarrow> bool" where
  "store_ok d \<longleftrightarrow>
     distinct (map operation_id (operations d))
     \<and> distinct (map business_fingerprint (operations d))
     \<and> (\<forall>r\<in>set (operations d). row_ok r)
     \<and> documents_apart (operations d)
     \<and> (\<forall>i. replay None (trail d i) = Some (write_status d i))"

text \<open>The columns no transaction changes after the insertion.\<close>

definition frozen :: "operation_row \<Rightarrow> pystr \<times> pystr \<times> pystr \<times> decision \<times> pystr \<times> pystr \<times> pystr
    \<times> pystr \<times> pystr \<times> pystr \<times> pystr" where
  "frozen r = (operation_id r, business_fingerprint r, row_event_id r, row_decision r,
     document_type r, operation_reason r, pg r, expected_inn r, document_sha256 r,
     row_document_base64 r, prepared_at r)"

definition keeps_frozen :: "(operation_row \<Rightarrow> operation_row) \<Rightarrow> bool" where
  "keeps_frozen f \<longleftrightarrow> (\<forall>q. frozen (f q) = frozen q)"

lemma keeps_frozen_keys:
  "keeps_frozen f \<Longrightarrow> operation_id (f q) = operation_id q"
  "keeps_frozen f \<Longrightarrow> business_fingerprint (f q) = business_fingerprint q"
  by (simp_all add: keeps_frozen_def frozen_def)

lemma immutable_frozen: "frozen r = frozen q \<Longrightarrow> immutable_ok r = immutable_ok q"
  by (simp add: frozen_def immutable_ok_def)

section \<open>Reading a changed database\<close>

lemma operations_audit [simp]: "operations (audit t i a f s ds d) = operations d"
  by (simp add: audit_def)

lemma operations_set_row [simp]:
  "operations (set_row i f d) = update_rows operation_id i f (operations d)"
  by (simp add: set_row_def)

lemma write_audit_set_row [simp]: "write_audit (set_row i f d) = write_audit d"
  by (simp add: set_row_def)

lemma find_audit [simp]: "find_operation (audit t i a f s ds d) j = find_operation d j"
  by (simp add: find_operation_def)

lemma find_set_row:
  "keeps_frozen f \<Longrightarrow> find_operation (set_row i f d) j =
     (if j = i then map_option f (find_operation d i) else find_operation d j)"
  by (simp add: find_operation_def table_simps keeps_frozen_keys)

lemma find_Some: "find_operation d i = Some r \<Longrightarrow> r \<in> set (operations d) \<and> operation_id r = i"
  by (auto simp: find_operation_def dest: lookup_row_Some)

lemma find_in:
  "store_ok d \<Longrightarrow> r \<in> set (operations d) \<Longrightarrow> find_operation d (operation_id r) = Some r"
  by (simp add: store_ok_def find_operation_def lookup_row_in)

lemma status_audit [simp]: "write_status (audit t i a f s ds d) j = write_status d j"
  by (simp add: write_status_def)

lemma trail_audit_note [simp]: "trail (audit t i a f None ds d) j = trail d j"
  by (simp add: trail_def audit_def)

lemma trail_audit_move [simp]:
  "trail (audit t i a f (Some s) ds d) j = trail d j @ (if j = i then [(f, s)] else [])"
  by (simp add: trail_def audit_def)

lemma trail_set_row [simp]: "trail (set_row i f d) j = trail d j"
  by (simp add: trail_def)

lemma trail_operations [simp]: "trail (d\<lparr>operations := rs\<rparr>) j = trail d j"
  by (simp add: trail_def)

lemma status_set_row:
  "keeps_frozen f \<Longrightarrow> write_status (set_row i f d) j =
     (if j = i then map_option (row_state \<circ> f) (find_operation d i) else write_status d j)"
  by (simp add: write_status_def find_set_row option.map_comp)

section \<open>Two ways a transaction changes the database\<close>

lemma store_ok_note: "store_ok (audit t i a f None ds d) = store_ok d"
  by (simp add: store_ok_def)

lemma store_ok_move:
  assumes d: "store_ok d" and r: "find_operation d i = Some r" and f: "keeps_frozen f"
    and row: "row_ok (f r)"
    and doc: "document_id (f r) = document_id r \<or> \<not> document_taken i (document_id (f r)) d"
    and up: "edge (row_state r) (row_state (f r))"
  shows "store_ok (audit t i a (Some (row_state r)) (Some (row_state (f r))) ds (set_row i f d))"
    (is "store_ok ?d")
proof -
  note k = keeps_frozen_keys [OF f]
  have this_row: "q = r" if "q \<in> set (operations d)" "operation_id q = i" for q
    using d r that by (metis find_in option.inject)
  have rows: "q = f r \<or> (q \<in> set (operations d) \<and> operation_id q \<noteq> i)"
    if "q \<in> set (operations ?d)" for q
    using that this_row by (auto simp: set_update_rows split: if_splits)
  have same: "operation_id r = i" and inr: "r \<in> set (operations d)" using find_Some [OF r] by auto
  have apart: "document_id (f r) \<noteq> document_id q"
    if "q \<in> set (operations d)" "operation_id q \<noteq> i" "document_id q \<noteq> None" for q
    using doc
  proof
    assume "document_id (f r) = document_id r"
    with d that inr same show ?thesis unfolding store_ok_def documents_apart_def by metis
  next
    assume "\<not> document_taken i (document_id (f r)) d"
    with that show ?thesis unfolding document_taken_def by metis
  qed
  have "\<forall>q\<in>set (operations ?d). row_ok q"
    using rows row d by (metis store_ok_def)
  moreover have "documents_apart (operations ?d)"
    unfolding documents_apart_def
  proof (intro ballI impI)
    fix q p
    assume qp: "q \<in> set (operations ?d)" "p \<in> set (operations ?d)"
      and doc: "document_id q = document_id p" "document_id q \<noteq> None"
    show "operation_id q = operation_id p"
      using rows [OF qp(1)] rows [OF qp(2)]
    proof (elim disjE conjE)
      assume "q \<in> set (operations d)" "p \<in> set (operations d)"
      with d doc show ?thesis unfolding store_ok_def documents_apart_def by blast
    qed (use apart doc in \<open>metis+\<close>)
  qed
  moreover have "replay None (trail ?d j) = Some (write_status ?d j)" for j
    using d r up by (simp add: store_ok_def replay_append write_status_def find_set_row [OF f] entry_def)
  ultimately show ?thesis
    using d by (simp add: store_ok_def keys_update_rows k)
qed

section \<open>The transactions\<close>

text \<open>The moves \<open>_transition\<close> is called with, besides the reservation of a submit.\<close>

definition moves :: "(write_state list \<times> write_state \<times> pystr) list" where
  "moves = [([W_SUBMITTING], W_MANUAL_REVIEW, ''SUBMIT_TRANSPORT_AMBIGUOUS''),
     (reviewable_states, W_MANUAL_REVIEW, ''MANUAL_REVIEW_REQUIRED''),
     ([W_AWAITING_SIGNATURE, W_SIGNED], W_ERROR, ''PIPELINE_ERROR''),
     ([W_SUBMITTED], W_PROCESSING, ''POLL_INTERMEDIATE''),
     ([W_SUBMITTED, W_PROCESSING], W_RECONCILIATION_REQUIRED, ''POLL_TERMINAL''),
     ([W_SUBMITTED, W_PROCESSING], W_FAILED, ''POLL_TERMINAL''),
     ([W_SUBMITTED, W_PROCESSING], W_MANUAL_REVIEW, ''POLL_TERMINAL''),
     ([W_RECONCILIATION_REQUIRED], W_SUCCEEDED, ''RECONCILIATION_RESULT''),
     ([W_RECONCILIATION_REQUIRED], W_MANUAL_REVIEW, ''RECONCILIATION_RESULT'')]"

inductive store_step :: "write_db \<Rightarrow> write_db \<Rightarrow> bool" where
  step_prepare: "check_prepare dec t why g inn doc = Inr () \<Longrightarrow>
     prepare_txn now doc (new_row (now 0) (fingerprint ev dec t why g) ev dec t why g inn doc) d
       = Inr (v, d') \<Longrightarrow> store_step d d'"
| step_sign: "signature_txn now p own d = Inr (w, d') \<Longrightarrow> store_step d d'"
| step_reserve: "reserve_txn now i d = Inr ((), d') \<Longrightarrow> store_step d d'"
| step_complete: "complete_txn now i res d = Inr ((), d') \<Longrightarrow> store_step d d'"
| step_move: "(expected, target, action) \<in> set moves \<Longrightarrow>
     transition_txn now i expected target action details d = Inr ((), d') \<Longrightarrow> store_step d d'"
| step_note: "note_txn now i action details d = Inr ((), d') \<Longrightarrow> store_step d d'"

lemma transition_txn_Inr:
  "transition_txn now i expected target action details d = Inr (u, d') \<longleftrightarrow>
     (\<exists>r. find_operation d i = Some r \<and> row_state r \<in> set expected \<and>
        d' = audit (now 1) i action (Some (row_state r)) (Some target) details
               (set_row i (\<lambda>q. q\<lparr>row_state := target, updated_at := now 0\<rparr>) d))"
  by (auto simp: transition_txn_def row_txn_def split: option.splits)

lemma keeps_frozen_state: "keeps_frozen (\<lambda>q. q\<lparr>row_state := s, updated_at := t\<rparr>)"
  by (simp add: keeps_frozen_def frozen_def)

lemma keeps_frozen_sign: "keeps_frozen (sign_row now p sig)"
  by (simp add: keeps_frozen_def frozen_def sign_row_def)

lemma keeps_frozen_result: "keeps_frozen (result_row now res s)"
  by (simp add: keeps_frozen_def frozen_def result_row_def)

definition forward_move :: "write_state \<Rightarrow> write_state \<Rightarrow> bool" where
  "forward_move s t \<longleftrightarrow> edge s t \<and>
     (\<forall>sig doc. phase_ok s sig doc \<longrightarrow> phase_ok t sig doc)"

lemma moves_forward:
  assumes "(expected, target, action) \<in> set moves" and "s \<in> set expected"
  shows "forward_move s target"
  using assms
  by (auto simp: moves_def reviewable_states_def forward_move_def edge_def phase_ok_def)

lemma reserve_forward: "forward_move W_SIGNED W_SUBMITTING"
  by (simp add: forward_move_def edge_def phase_ok_def)

lemma transition_txn_ok:
  assumes d: "store_ok d"
    and t: "transition_txn now i expected target action details d = Inr (u, d')"
    and fwd: "\<And>s. s \<in> set expected \<Longrightarrow> forward_move s target"
  shows "store_ok d'"
proof -
  let ?f = "\<lambda>q. q\<lparr>row_state := target, updated_at := now 0\<rparr>"
  obtain r where r: "find_operation d i = Some r" "row_state r \<in> set expected"
    and d': "d' = audit (now 1) i action (Some (row_state r)) (Some (row_state (?f r))) details
               (set_row i ?f d)"
    using t by (auto simp: transition_txn_Inr)
  have "row_ok r" using d find_Some [OF r(1)] by (auto simp: store_ok_def)
  then have "row_ok (?f r)"
    using fwd [OF r(2)] by (simp add: row_ok_def immutable_ok_def forward_move_def)
  with fwd [OF r(2)] show ?thesis
    unfolding d' by (intro store_ok_move [OF d r(1) keeps_frozen_state]) (auto simp: forward_move_def)
qed

lemma signature_txn_cases:
  assumes "signature_txn now p own d = Inr (v, d')"
  obtains (replayed) r t ds where "d' = audit t (operation_id r) ''SIGNATURE_REPLAY_IDEMPOTENT'' None None ds d"
      "find_operation d (response_operation_id p) = Some r" "v = Some (record_of r)"
  | (signed) r sig t ds where
      "find_operation d (operation_id r) = Some r" "row_state r = W_AWAITING_SIGNATURE"
      "check_signature p own r = Inr sig"
      "d' = audit t (operation_id r) ''SIGNATURE_ACCEPTED'' (Some (row_state r))
              (Some (row_state (sign_row now p sig r))) ds (set_row (operation_id r) (sign_row now p sig) d)"
      "operation_id r = response_operation_id p" "v = None"
proof -
  obtain r sig where r: "find_operation d (response_operation_id p) = Some r"
    and sig: "check_signature p own r = Inr sig"
    using assms by (auto simp: signature_txn_def row_txn_def bind_Inr_iff split: option.splits)
  have i: "operation_id r = response_operation_id p" using find_Some [OF r] by simp
  show thesis
  proof (cases "row_state r = W_AWAITING_SIGNATURE")
    case True
    with assms r sig i show thesis
      by (intro signed) (auto simp: signature_txn_def row_txn_def sign_row_def)
  next
    case False
    with assms r sig show thesis
      by (intro replayed) (auto simp: signature_txn_def row_txn_def split: if_splits)
  qed
qed

lemma check_signature_Inr:
  "check_signature p own r = Inr sig \<Longrightarrow>
     validate_base64_ascii sig ''signature'' = Inr sig \<and> document_sha256 r = response_sha256 p
     \<and> expected_inn r = own \<and> (truthy (response_inn p) \<longrightarrow> response_inn p = Some (expected_inn r))"
  by (auto simp: check_signature_def dest: validate_base64_idem split: if_splits)

lemma signature_txn_ok:
  assumes d: "store_ok d" and t: "signature_txn now p own d = Inr (v, d')"
  shows "store_ok d'"
  using t
proof (cases rule: signature_txn_cases)
  case replayed
  with d show ?thesis by (simp add: store_ok_note)
next
  case (signed r sig t ds)
  have r: "row_ok r" using d find_Some [OF signed(1)] by (auto simp: store_ok_def)
  with check_signature_Inr [OF signed(3)] signed(2) have "row_ok (sign_row now p sig r)"
    by (auto simp: row_ok_def immutable_ok_def phase_ok_def sign_row_def)
  with signed(2) show ?thesis
    unfolding signed(4) by (intro store_ok_move [OF d signed(1) keeps_frozen_sign])
      (auto simp: edge_def sign_row_def)
qed

lemma complete_txn_Inr:
  assumes "complete_txn now i res d = Inr (u, d')"
  obtains r target ds where "find_operation d i = Some r" "row_state r = W_SUBMITTING"
    "submit_target res = Inr target"
    "\<not> document_taken i (document_id (result_row now res target r)) d"
    "d' = audit (now 1) i ''SUBMIT_RESULT'' (Some (row_state r))
            (Some (row_state (result_row now res target r))) ds (set_row i (result_row now res target) d)"
  using assms
  by (auto simp: complete_txn_def row_txn_def bind_Inr_iff result_row_def split: option.splits if_splits)

lemma submit_target_range:
  "submit_target res = Inr t \<Longrightarrow> t \<in> {W_SUBMITTED, W_MANUAL_REVIEW, W_FAILED}
     \<and> (t = W_SUBMITTED \<longleftrightarrow> category res = C_SUCCESS_WITH_ID \<and> truthy (result_document_id res))"
  by (auto simp: submit_target_def split: if_splits)

lemma complete_txn_ok:
  assumes d: "store_ok d" and t: "complete_txn now i res d = Inr (u, d')"
  shows "store_ok d'"
  using t
proof (rule complete_txn_Inr)
  fix r target ds
  assume r: "find_operation d i = Some r" "row_state r = W_SUBMITTING"
    and tgt: "submit_target res = Inr target"
    and free: "\<not> document_taken i (document_id (result_row now res target r)) d"
    and d': "d' = audit (now 1) i ''SUBMIT_RESULT'' (Some (row_state r))
            (Some (row_state (result_row now res target r))) ds (set_row i (result_row now res target) d)"
  have "row_ok r" using d find_Some [OF r(1)] by (auto simp: store_ok_def)
  with r(2) submit_target_range [OF tgt] have "row_ok (result_row now res target r)"
    by (auto simp: row_ok_def immutable_ok_def phase_ok_def result_row_def)
  with r(2) free submit_target_range [OF tgt] show "store_ok d'"
    unfolding d' by (intro store_ok_move [OF d r(1) keeps_frozen_result])
      (auto simp: edge_def result_row_def)
qed

lemma insert_row_Inr:
  "insert_row r d = Inr (u, d') \<longleftrightarrow>
     operation_id r \<notin> operation_id ` set (operations d)
     \<and> business_fingerprint r \<notin> business_fingerprint ` set (operations d)
     \<and> d' = d\<lparr>operations := operations d @ [r]\<rparr>"
  by (auto simp: insert_row_def)

definition waiting :: "pystr \<Rightarrow> operation_row \<Rightarrow> operation_row" where
  "waiting t r = r\<lparr>row_state := W_AWAITING_SIGNATURE, updated_at := t\<rparr>"

text \<open>A fresh operation: one row appended, two audit rows.\<close>

lemma prepare_insert_Inr:
  assumes "prepare_insert now r d = Inr (u, d')" and "row_state r = W_PREPARED"
  shows "operation_id r \<notin> operation_id ` set (operations d)"
    and "business_fingerprint r \<notin> business_fingerprint ` set (operations d)"
    and "operations d' = operations d @ [waiting (now 2) r]"
    and "trail d' j = trail d j @ (if j = operation_id r then
           [(None, W_PREPARED), (Some W_PREPARED, W_AWAITING_SIGNATURE)] else [])"
proof -
  show new: "operation_id r \<notin> operation_id ` set (operations d)"
    and "business_fingerprint r \<notin> business_fingerprint ` set (operations d)"
    using assms(1) by (auto simp: prepare_insert_def bind_Inr_iff insert_row_Inr)
  show "operations d' = operations d @ [waiting (now 2) r]"
    using assms(1) update_rows_absent [OF new]
    by (auto simp: prepare_insert_def bind_Inr_iff insert_row_Inr Let_def waiting_def update_rows_def)
  show "trail d' j = trail d j @ (if j = operation_id r then
           [(None, W_PREPARED), (Some W_PREPARED, W_AWAITING_SIGNATURE)] else [])"
    using assms(1) by (auto simp: prepare_insert_def bind_Inr_iff insert_row_Inr Let_def)
qed

lemma documents_apart_append:
  assumes "documents_apart rows" and "document_id r = None"
  shows "documents_apart (rows @ [r])"
  unfolding documents_apart_def
proof (intro ballI impI)
  fix q p
  assume "q \<in> set (rows @ [r])" "p \<in> set (rows @ [r])"
    and doc: "document_id q = document_id p" "document_id q \<noteq> None"
  with assms(2) have "q \<in> set rows" "p \<in> set rows" by auto
  with assms(1) doc show "operation_id q = operation_id p"
    unfolding documents_apart_def by blast
qed

lemma prepare_insert_ok:
  assumes d: "store_ok d" and t: "prepare_insert now r d = Inr (u, d')"
    and r: "row_ok r" "row_state r = W_PREPARED"
  shows "store_ok d'"
proof -
  note ins = prepare_insert_Inr [OF t r(2)]
  have w: "row_ok (waiting (now 2) r)" "document_id (waiting (now 2) r) = None"
    "operation_id (waiting (now 2) r) = operation_id r"
    "business_fingerprint (waiting (now 2) r) = business_fingerprint r"
    "row_state (waiting (now 2) r) = W_AWAITING_SIGNATURE"
    using r by (simp_all add: row_ok_def immutable_ok_def phase_ok_def waiting_def)
  have absent: "find_operation d (operation_id r) = None"
    using ins(1) by (simp add: find_operation_def lookup_row_None)
  have old: "replay None (trail d j) = Some (write_status d j)" for j
    using d by (simp add: store_ok_def)
  have status: "write_status d' j =
      (if j = operation_id r then Some W_AWAITING_SIGNATURE else write_status d j)" for j
    using absent
    by (auto simp: write_status_def find_operation_def ins(3) lookup_row_append w split: option.splits)
  have "replay None (trail d' j) = Some (write_status d' j)" for j
    using old [of j] absent
    by (simp add: ins(4) replay_append status) (auto simp: write_status_def entry_def edge_def)
  moreover have "\<forall>q\<in>set (operations d'). row_ok q"
    using d ins(3) w(1) by (simp add: store_ok_def)
  moreover have "distinct (map operation_id (operations d'))"
    "distinct (map business_fingerprint (operations d'))"
    using d ins(1-3) w(3,4) by (simp_all add: store_ok_def)
  moreover have "documents_apart (operations d')"
    using d documents_apart_append [OF _ w(2)] by (simp add: store_ok_def ins(3))
  ultimately show ?thesis by (simp add: store_ok_def)
qed

lemma check_prepare_Inr:
  "check_prepare dec t why g inn doc = Inr u \<longleftrightarrow>
     decision_document dec = Some (t, why) \<and> g = ''lp'' \<and> inn \<noteq> [] \<and> exact doc"
  by (cases dec) (auto simp: check_prepare_def decision_document_def allowed_document_types_def exact_def
      bytes_for_signature_def split: option.splits)

lemma new_row_ok:
  assumes "check_prepare dec t why g inn doc = Inr u"
  shows "row_ok (new_row now (fingerprint ev dec t why g) ev dec t why g inn doc)"
    and "row_state (new_row now (fingerprint ev dec t why g) ev dec t why g inn doc) = W_PREPARED"
  using assms
  by (auto simp: check_prepare_Inr new_row_def row_ok_def immutable_ok_def phase_ok_def exact_def)

lemma prepare_txn_cases:
  assumes "prepare_txn now doc r d = Inr (v, d')"
  obtains (replayed) q t ds where "lookup_row business_fingerprint (business_fingerprint r) (operations d) = Some q"
      "document_sha256 q = sha256 doc" "row_document_base64 q = product_document_base64 doc"
      "expected_inn q = expected_inn r" "v = Some (record_of q)"
      "d' = audit t (operation_id q) ''PREPARE_REPLAY_IDEMPOTENT'' None None ds d"
  | (inserted) "lookup_row business_fingerprint (business_fingerprint r) (operations d) = None"
      "prepare_insert now r d = Inr ((), d')" "v = None"
  using assms
  by (auto simp: prepare_txn_def prepare_replay_def bind_Inr_iff split: option.splits if_splits)

lemma prepare_txn_ok:
  assumes d: "store_ok d" and c: "check_prepare dec t why g inn doc = Inr u"
    and p: "prepare_txn now doc (new_row (now 0) (fingerprint ev dec t why g) ev dec t why g inn doc) d
      = Inr (v, d')"
  shows "store_ok d'"
  using p
proof (cases rule: prepare_txn_cases)
  case replayed
  with d show ?thesis by (simp add: store_ok_note)
next
  case inserted
  from prepare_insert_ok [OF d inserted(2) new_row_ok [OF c]] show ?thesis .
qed

section \<open>The invariant\<close>

lemma store_ok_empty: "store_ok empty_db"
  by (simp add: store_ok_def documents_apart_def empty_db_def trail_def write_status_def find_operation_def)

lemma store_step_ok: "store_step d d' \<Longrightarrow> store_ok d \<Longrightarrow> store_ok d'"
proof (induction rule: store_step.induct)
  case (step_reserve now i d d')
  then show ?case
    unfolding reserve_txn_def by (elim transition_txn_ok [rotated]) (auto simp: reserve_forward)
next
  case (step_move expected target action now i details d d')
  then show ?case by (blast intro: transition_txn_ok moves_forward)
qed (auto simp: note_txn_def store_ok_note intro: prepare_txn_ok signature_txn_ok complete_txn_ok)

lemma store_run_ok: "store_step\<^sup>*\<^sup>* d d' \<Longrightarrow> store_ok d \<Longrightarrow> store_ok d'"
  by (induction rule: rtranclp_induct) (auto intro: store_step_ok)

section \<open>Rows only move forward\<close>

text \<open>What one transaction does to one row: nothing, or a move up that keeps the frozen columns.\<close>

definition row_advance :: "operation_row \<Rightarrow> operation_row \<Rightarrow> bool" where
  "row_advance r q \<longleftrightarrow> q = r \<or> (frozen q = frozen r \<and> write_rank (row_state r) < write_rank (row_state q)
     \<and> (2 \<le> write_rank (row_state r) \<longrightarrow> signature_base64 q = signature_base64 r))"

lemma advance_set_row:
  assumes "find_operation d i = Some r" and "keeps_frozen f"
    and "write_rank (row_state r) < write_rank (row_state (f r))"
    and "find_operation d j = Some q"
    and "2 \<le> write_rank (row_state r) \<Longrightarrow> signature_base64 (f r) = signature_base64 r"
  shows "\<exists>q'. find_operation (audit t i a x s ds (set_row i f d)) j = Some q' \<and> row_advance q q'"
  using assms by (auto simp: find_set_row row_advance_def keeps_frozen_def)

lemma transition_advance:
  assumes "transition_txn now i expected target action details d = Inr (u, d')"
    and "\<And>s. s \<in> set expected \<Longrightarrow> forward_move s target" and "find_operation d j = Some q"
  shows "\<exists>q'. find_operation d' j = Some q' \<and> row_advance q q'"
  using assms advance_set_row [OF _ keeps_frozen_state _ assms(3)]
  by (force simp: transition_txn_Inr forward_move_def dest: edge_rank)

lemma store_step_advance:
  assumes "store_step d d'" and "find_operation d j = Some q"
  shows "\<exists>q'. find_operation d' j = Some q' \<and> row_advance q q'"
  using assms
proof (induction rule: store_step.induct)
  case (step_prepare dec t why g inn doc now ev d v d')
  from step_prepare(2) show ?case
  proof (cases rule: prepare_txn_cases)
    case replayed
    with step_prepare show ?thesis by (simp add: row_advance_def)
  next
    case inserted
    from prepare_insert_Inr(3) [OF inserted(2)] step_prepare show ?thesis
      by (auto simp: new_row_def row_advance_def find_operation_def table_simps)
  qed
next
  case (step_sign now p own d w d')
  from step_sign(1) show ?case
  proof (cases rule: signature_txn_cases)
    case replayed
    with step_sign show ?thesis by (simp add: row_advance_def)
  next
    case (signed r sig t ds)
    from signed(2) show ?thesis
      unfolding signed(4)
      by (intro advance_set_row [OF signed(1) keeps_frozen_sign _ step_sign(2)])
        (simp_all add: sign_row_def write_rank_def)
  qed
next
  case (step_reserve now i d d')
  then show ?case
    unfolding reserve_txn_def by (elim transition_advance) (auto simp: reserve_forward)
next
  case (step_complete now i res d d')
  from step_complete(1) show ?case
  proof (rule complete_txn_Inr)
    fix r target ds
    assume "find_operation d i = Some r" "row_state r = W_SUBMITTING"
      and tgt: "submit_target res = Inr target"
      and d': "d' = audit (now 1) i ''SUBMIT_RESULT'' (Some (row_state r))
            (Some (row_state (result_row now res target r))) ds (set_row i (result_row now res target) d)"
    with step_complete(2) submit_target_range [OF tgt] show ?thesis
      unfolding d' by (intro advance_set_row keeps_frozen_result)
        (auto simp: result_row_def write_rank_def)
  qed
next
  case (step_move expected target action now i details d d')
  then show ?case by (blast intro: transition_advance moves_forward)
qed (auto simp: note_txn_def row_advance_def)

lemma store_step_status:
  assumes "store_step d d'" and "write_status d k = Some a"
  shows "\<exists>b. write_status d' k = Some b \<and> (b = a \<or> write_rank a < write_rank b)"
  using assms store_step_advance [OF assms(1)]
  by (fastforce simp: write_status_def row_advance_def)

text \<open>The last move of a trail, so that a state tells the path that led to it.\<close>

lemma replay_last:
  "replay None ms = Some (Some t) \<longleftrightarrow>
     (\<exists>ns f. ms = ns @ [(f, t)] \<and> replay None ns = Some f \<and> entry f t)"
  by (cases ms rule: rev_cases) (auto simp: replay_append split: option.splits if_splits)

lemma replay_None: "replay None ms = Some None \<longleftrightarrow> ms = []"
  by (cases ms rule: rev_cases) (auto simp: replay_append split: option.splits if_splits)

text \<open>The store is a life cycle: its laws give that terminal states are final.\<close>

interpretation wl: lifecycle write_status write_rank store_step
  by unfold_locales (rule store_step_status)

lemma frozen_run:
  assumes "store_step\<^sup>*\<^sup>* d d'" and "find_operation d i = Some r"
  shows "\<exists>q. find_operation d' i = Some q \<and> frozen q = frozen r"
  using assms(1)
proof (induction rule: rtranclp_induct)
  case (step y z)
  then show ?case using store_step_advance [OF step.hyps(2)] by (metis row_advance_def)
qed (use assms(2) in simp)

end
