(* ===== verification/WritePipeline.thy ===== *)
theory WritePipeline
  imports WriteInvariants
begin

text \<open>
  The pipeline of \<open>wbcz/write_pipeline.py\<close>: approved decision, signature, one create call, polling,
  reconciliation. A world is the database and the list of create requests that left the process,
  each under the operation it was sent for. Small steps let any number of processes run the
  store's transactions and the create calls in any order and stop anywhere.
\<close>

section \<open>The methods of the pipeline\<close>

record world =
  db :: write_db
  posts :: "(pystr \<times> (pystr \<times> pystr) list) list"

record pipeline =
  own_inn :: pystr
  writer :: "write_adapter option"
  poller :: "poll_adapter option"
  true_api_write :: bool

type_synonym 'a world_op = "(world, write_error, 'a) op"

definition on_db :: "'a store_op \<Rightarrow> 'a world_op" where
  "on_db m w = (case m (db w) of (r, d) \<Rightarrow> (r, w\<lparr>db := d\<rparr>))"

definition later :: "nat \<Rightarrow> (nat \<Rightarrow> pystr) \<Rightarrow> nat \<Rightarrow> pystr" where
  "later n now k = now (k + n)"

definition pipeline_prepare :: "pipeline \<Rightarrow> (nat \<Rightarrow> pystr) \<Rightarrow> pystr \<Rightarrow> decision \<Rightarrow> pystr \<Rightarrow> pystr \<Rightarrow> pystr
    \<Rightarrow> pystr \<Rightarrow> exact_document \<Rightarrow> operation_record world_op" where
  "pipeline_prepare p now ev dec t why pgroup inn doc =
     (if inn \<noteq> own_inn p then raise (InvalidWrite ''wrong expected_inn'')
      else on_db (prepare now ev dec t why pgroup inn doc))"

definition pending_signing_request :: "pystr \<Rightarrow> signing_request_data world_op" where
  "pending_signing_request i = on_db (signing_request i)"

definition pipeline_accept_signature :: "pipeline \<Rightarrow> (nat \<Rightarrow> pystr) \<Rightarrow> signing_response
    \<Rightarrow> operation_record world_op" where
  "pipeline_accept_signature p now response = on_db (accept_signature now response (own_inn p))"

text \<open>The create call: the request leaves the process unless the adapter refuses to build it.\<close>

definition call_create :: "write_adapter \<Rightarrow> operation_record \<Rightarrow> pystr
    \<Rightarrow> (exception_name + create_result) world_op" where
  "call_create a r sig w =
     (Inr (create a (rec_document_type r) (rec_document_base64 r) sig),
      case create_request (rec_document_type r) (rec_document_base64 r) sig of
        Inl _ \<Rightarrow> w
      | Inr req \<Rightarrow> w\<lparr>posts := posts w @ [(rec_operation_id r, req)]\<rparr>)"

definition submit :: "pipeline \<Rightarrow> (nat \<Rightarrow> pystr) \<Rightarrow> pystr \<Rightarrow> operation_record world_op" where
  "submit p now i =
     (if \<not> true_api_write p then raise WriteDisabled
      else case writer p of
        None \<Rightarrow> raise (InvalidWrite ''True API write adapter is not configured'')
      | Some a \<Rightarrow>
          seq (on_db (reserve_submit now i)) (\<lambda>r.
            case rec_signature r of
              None \<Rightarrow> raise AssertionError
            | Some sig \<Rightarrow>
                seq (call_create a r sig) (\<lambda>res.
                  case res of
                    Inl name \<Rightarrow> on_db (mark_submit_ambiguous (later 2 now) i name)
                  | Inr result \<Rightarrow> on_db (complete_submit (later 2 now) i result))))"

definition poll_once :: "pipeline \<Rightarrow> (nat \<Rightarrow> pystr) \<Rightarrow> pystr
    \<Rightarrow> (operation_record \<times> poll_classification) world_op" where
  "poll_once p now i =
     (case poller p of
        None \<Rightarrow> raise (InvalidWrite ''True API polling adapter is not configured'')
      | Some a \<Rightarrow>
          seq (on_db (get i)) (\<lambda>r.
            if \<not> truthy (rec_document_id r) then raise (InvalidWrite ''document_id unavailable'')
            else case poll a (the (rec_document_id r)) of
              Inl name \<Rightarrow>
                seq (on_db (audit_note now i ''POLL_TRANSPORT_ERROR'' [(''error_type'', JStr name)]))
                  (\<lambda>_. seq (on_db (get i)) (\<lambda>r'. ret (r', P_INTERMEDIATE)))
            | Inr result \<Rightarrow>
                on_db (apply_poll_status now i
                  (if poll_http_status result \<noteq> 200 then None else raw_status result)
                  (Some (poll_http_status result)) (Some (poll_body_sha256 result)))))"

section \<open>Interleaved processes\<close>

text \<open>
  A token stands for a process that has reserved a submit and holds the record it read. It may
  send the request it builds from that record; a process that dies simply never uses its token.
\<close>

record shared =
  world :: world
  tokens :: "operation_record list"

inductive shared_step :: "shared \<Rightarrow> shared \<Rightarrow> bool" where
  shared_store: "store_step (db (world s)) d \<Longrightarrow>
     shared_step s (s\<lparr>world := (world s)\<lparr>db := d\<rparr>\<rparr>)"
| shared_reserve: "reserve_txn now i (db (world s)) = Inr ((), d) \<Longrightarrow> find_operation d i = Some r \<Longrightarrow>
     shared_step s (s\<lparr>world := (world s)\<lparr>db := d\<rparr>, tokens := record_of r # tokens s\<rparr>)"
| shared_post: "r \<in> set (tokens s) \<Longrightarrow> rec_signature r = Some sig \<Longrightarrow>
     create_request (rec_document_type r) (rec_document_base64 r) sig = Inr req \<Longrightarrow>
     shared_step s (s\<lparr>world := (world s)\<lparr>posts := posts (world s) @ [(rec_operation_id r, req)]\<rparr>,
                      tokens := remove1 r (tokens s)\<rparr>)"

definition start_state :: shared where
  "start_state = \<lparr>world = \<lparr>db = empty_db, posts = []\<rparr>, tokens = []\<rparr>"

text \<open>The submit of an operation was reserved: its state is \<open>SUBMITTING\<close> or a later one.\<close>

definition submit_crossed :: "shared \<Rightarrow> pystr \<Rightarrow> bool" where
  "submit_crossed s i \<longleftrightarrow>
     (\<exists>a. write_status (db (world s)) i = Some a \<and> 3 \<le> write_rank a)"

definition post_count :: "world \<Rightarrow> pystr \<Rightarrow> nat" where
  "post_count w i = count_list (map fst (posts w)) i"

text \<open>Requests sent for an operation, and requests a token still permits.\<close>

definition submit_permits :: "shared \<Rightarrow> pystr \<Rightarrow> nat" where
  "submit_permits s i = post_count (world s) i + count_list (map rec_operation_id (tokens s)) i"

lemma count_list_remove1:
  "x \<in> set xs \<Longrightarrow> count_list (map f xs) y = count_list (map f (remove1 x xs)) y + (if f x = y then 1 else 0)"
  by (induction xs) auto

lemma reserve_status:
  assumes "reserve_txn now i d = Inr ((), d')"
  shows "write_status d i = Some W_SIGNED" and "write_status d' i = Some W_SUBMITTING"
    and "j \<noteq> i \<Longrightarrow> write_status d' j = write_status d j"
  using assms
  by (auto simp: reserve_txn_def transition_txn_Inr write_status_def find_set_row keeps_frozen_state)

lemma crossed_store:
  "store_step (db (world s)) d \<Longrightarrow> submit_crossed s k \<Longrightarrow>
     submit_crossed (s\<lparr>world := (world s)\<lparr>db := d\<rparr>\<rparr>) k"
  using store_step_status by (fastforce simp: submit_crossed_def)

lemma crossed_tokens [simp]:
  "submit_crossed (s\<lparr>world := w, tokens := ts\<rparr>) k = submit_crossed (s\<lparr>world := w\<rparr>) k"
  "submit_crossed (s\<lparr>world := w\<lparr>posts := ps\<rparr>\<rparr>) k = submit_crossed (s\<lparr>world := w\<rparr>) k"
  by (simp_all add: submit_crossed_def)

lemma reserve_is_store_step: "reserve_txn now i d = Inr ((), d') \<Longrightarrow> store_step d d'"
  by (rule step_reserve)

lemma record_of_simps [simp]: "rec_operation_id (record_of r) = operation_id r"
  "rec_state (record_of r) = row_state r" "rec_signature (record_of r) = signature_base64 r"
  "rec_document_type (record_of r) = document_type r"
  "rec_document_base64 (record_of r) = row_document_base64 r"
  "rec_document_id (record_of r) = document_id r"
  by (simp_all add: record_of_def)

text \<open>The submit guard is an instance of the once-only contract.\<close>

interpretation wg: once_guard submit_crossed submit_permits shared_step
proof unfold_locales
  fix s t k
  assume st: "shared_step s t"
  show "submit_crossed t k" if "submit_crossed s k"
    using st
  proof cases
    case (shared_reserve now i d r)
    with that crossed_store [OF reserve_is_store_step] show ?thesis by simp
  qed (use that crossed_store in \<open>simp_all add: submit_crossed_def\<close>)
  show "submit_permits t k = submit_permits s k" if "submit_crossed s k"
    using st
  proof cases
    case (shared_reserve now i d r)
    with reserve_status(1) [of now i "db (world s)" d] that have "k \<noteq> i"
      by (auto simp: submit_crossed_def write_rank_def)
    with shared_reserve show ?thesis
      by (auto simp: submit_permits_def post_count_def dest: find_Some)
  next
    case (shared_post r sig req)
    then show ?thesis
      using count_list_remove1 [of r "tokens s" rec_operation_id k]
      by (simp add: submit_permits_def post_count_def)
  qed (simp add: submit_permits_def post_count_def)
  show "submit_permits t k \<le> Suc (submit_permits s k)"
    using st
  proof cases
    case (shared_post r sig req)
    then show ?thesis
      using count_list_remove1 [of r "tokens s" rec_operation_id k]
      by (simp add: submit_permits_def post_count_def)
  qed (auto simp: submit_permits_def post_count_def)
  show "submit_crossed t k" if "submit_permits t k \<noteq> submit_permits s k"
    using st
  proof cases
    case (shared_reserve now i d r)
    then have "operation_id r = i" by (auto dest: find_Some)
    with shared_reserve that have "k = i"
      by (auto simp: submit_permits_def post_count_def split: if_splits)
    with shared_reserve reserve_status(2) [of now i "db (world s)" d] show ?thesis
      by (simp add: submit_crossed_def write_rank_def)
  next
    case (shared_post r sig req)
    with that show ?thesis
      using count_list_remove1 [of r "tokens s" rec_operation_id k]
      by (auto simp: submit_permits_def post_count_def split: if_splits)
  qed (use that in \<open>simp add: submit_permits_def post_count_def\<close>)
qed

lemma permits_bound: "shared_step\<^sup>*\<^sup>* start_state s \<Longrightarrow> submit_permits s i \<le> 1"
  by (rule wg.at_most_once) (auto simp: submit_permits_def post_count_def start_state_def)

section \<open>What is sent\<close>

text \<open>
  A token holds the frozen columns and the signature of its row; what is sent is that row's
  document and signature.
\<close>

definition token_ok :: "write_db \<Rightarrow> operation_record \<Rightarrow> bool" where
  "token_ok d v \<longleftrightarrow> (\<exists>r. find_operation d (rec_operation_id v) = Some r \<and> 3 \<le> write_rank (row_state r)
     \<and> rec_document_type v = document_type r \<and> rec_document_base64 v = row_document_base64 r
     \<and> rec_signature v = signature_base64 r)"

definition post_ok :: "write_db \<Rightarrow> pystr \<times> (pystr \<times> pystr) list \<Rightarrow> bool" where
  "post_ok d m \<longleftrightarrow> (\<exists>r sig. find_operation d (fst m) = Some r \<and> 3 \<le> write_rank (row_state r)
     \<and> signature_base64 r = Some sig
     \<and> create_request (document_type r) (row_document_base64 r) sig = Inr (snd m))"

definition shared_ok :: "shared \<Rightarrow> bool" where
  "shared_ok s \<longleftrightarrow> store_ok (db (world s)) \<and> (\<forall>v\<in>set (tokens s). token_ok (db (world s)) v)
     \<and> (\<forall>m\<in>set (posts (world s)). post_ok (db (world s)) m)"

lemma advance_late:
  assumes "store_step d d'" and "find_operation d i = Some r" and "3 \<le> write_rank (row_state r)"
  obtains q where "find_operation d' i = Some q" "3 \<le> write_rank (row_state q)"
    "document_type q = document_type r" "row_document_base64 q = row_document_base64 r"
    "signature_base64 q = signature_base64 r"
  using store_step_advance [OF assms(1,2)] assms(3) that
  by (fastforce simp: row_advance_def frozen_def)

lemma token_ok_step: "store_step d d' \<Longrightarrow> token_ok d v \<Longrightarrow> token_ok d' v"
  unfolding token_ok_def by (metis advance_late)

lemma post_ok_step: "store_step d d' \<Longrightarrow> post_ok d m \<Longrightarrow> post_ok d' m"
  unfolding post_ok_def by (metis advance_late)

lemma reserved_token:
  assumes "reserve_txn now i d = Inr ((), d')" and "find_operation d' i = Some r"
  shows "token_ok d' (record_of r)"
  using assms find_Some [OF assms(2)] reserve_status(2) [OF assms(1)]
  by (auto simp: token_ok_def record_of_def write_status_def write_rank_def)

lemma shared_step_ok: "shared_step s t \<Longrightarrow> shared_ok s \<Longrightarrow> shared_ok t"
proof (induction rule: shared_step.induct)
  case (shared_store s d)
  then show ?case by (auto simp: shared_ok_def store_step_ok token_ok_step post_ok_step)
next
  case (shared_reserve now i s d r)
  from reserve_is_store_step [OF shared_reserve(1)] reserved_token [OF shared_reserve(1,2)]
    shared_reserve(3)
  show ?case by (auto simp: shared_ok_def store_step_ok token_ok_step post_ok_step)
next
  case (shared_post r s sig req)
  then have "post_ok (db (world s)) (rec_operation_id r, req)"
    by (force simp: shared_ok_def token_ok_def post_ok_def)
  with shared_post show ?case
    using set_remove1_subset [of r "tokens s"] by (auto simp: shared_ok_def)
qed

lemma shared_run_ok: "shared_step\<^sup>*\<^sup>* start_state s \<Longrightarrow> shared_ok s"
proof (induction rule: rtranclp_induct)
  case base
  show ?case by (simp add: shared_ok_def start_state_def store_ok_empty)
qed (rule shared_step_ok)

section \<open>The methods are runs of steps\<close>

lemma commit_run: "(\<And>x d'. m d = Inr (x, d') \<Longrightarrow> store_step d d') \<Longrightarrow> store_step\<^sup>*\<^sup>* d (snd (commit m d))"
  by (cases "m d") (auto simp: op_defs)

lemma seq_run:
  "store_step\<^sup>*\<^sup>* d (snd (m d)) \<Longrightarrow> (\<And>x d'. m d = (Inr x, d') \<Longrightarrow> store_step\<^sup>*\<^sup>* d' (snd (f x d'))) \<Longrightarrow>
     store_step\<^sup>*\<^sup>* d (snd (seq m f d))"
  by (cases "m d") (auto simp: seq_def split: sum.splits intro: rtranclp_trans)

lemma still_run [simp]: "store_step\<^sup>*\<^sup>* d (snd (get i d))" "store_step\<^sup>*\<^sup>* d (snd (ret x d))"
  "store_step\<^sup>*\<^sup>* d (snd (raise e d))" "store_step\<^sup>*\<^sup>* d (snd (lift r d))"
  by (auto simp: get_def op_defs split: option.splits)

lemma transition_run:
  "(expected, target, action) \<in> set moves \<Longrightarrow>
     store_step\<^sup>*\<^sup>* d (snd (transition now i expected target action details d))"
  unfolding transition_def by (intro seq_run commit_run) (auto intro: step_move)

lemma prepare_run: "store_step\<^sup>*\<^sup>* d (snd (prepare now ev dec t why g inn doc d))"
  unfolding prepare_def Let_def
  by (intro seq_run commit_run) (auto simp: op_defs split: option.splits intro: step_prepare)

lemma accept_signature_run: "store_step\<^sup>*\<^sup>* d (snd (accept_signature now p own d))"
  unfolding accept_signature_def
  by (intro seq_run commit_run) (auto split: option.splits intro: step_sign)

lemma reserve_submit_run: "store_step\<^sup>*\<^sup>* d (snd (reserve_submit now i d))"
  unfolding reserve_submit_def
  by (intro seq_run) (auto intro!: seq_run commit_run intro: step_reserve)

lemma complete_submit_run: "store_step\<^sup>*\<^sup>* d (snd (complete_submit now i res d))"
  unfolding complete_submit_def by (intro seq_run commit_run) (auto intro: step_complete)

lemma mark_runs:
  "store_step\<^sup>*\<^sup>* d (snd (mark_submit_ambiguous now i e d))"
  "store_step\<^sup>*\<^sup>* d (snd (mark_manual_review now i e d))"
  "store_step\<^sup>*\<^sup>* d (snd (mark_error now i e d))"
  "store_step\<^sup>*\<^sup>* d (snd (reconciliation_result now i c ds d))"
  unfolding mark_submit_ambiguous_def mark_manual_review_def mark_error_def reconciliation_result_def
  by (rule transition_run; simp add: moves_def)+

lemma audit_note_run: "store_step\<^sup>*\<^sup>* d (snd (audit_note now i a ds d))"
  unfolding audit_note_def by (intro commit_run) (auto intro: step_note)

lemma poll_moves:
  "([W_SUBMITTED, W_PROCESSING], poll_target c, ''POLL_TERMINAL'') \<in> set moves"
  by (cases c) (simp_all add: moves_def poll_target_def)

lemma apply_poll_status_run: "store_step\<^sup>*\<^sup>* d (snd (apply_poll_status now i v h b d))"
  unfolding apply_poll_status_def Let_def
  by (intro seq_run) (auto intro!: seq_run transition_run poll_moves audit_note_run [unfolded audit_note_def]
      simp: moves_def)

lemma on_db_run: "(\<And>d. store_step\<^sup>*\<^sup>* d (snd (m d))) \<Longrightarrow>
    store_step\<^sup>*\<^sup>* (db w) (db (snd (on_db m w))) \<and> posts (snd (on_db m w)) = posts w"
  by (simp add: on_db_def split: prod.splits) (metis snd_conv)

section \<open>Submitting, method by method\<close>

lemma world_ext: "db w = d \<Longrightarrow> posts w = ps \<Longrightarrow> w = \<lparr>db = d, posts = ps\<rparr>"
  by simp

text \<open>A reservation goes through exactly from \<open>SIGNED\<close> with a signature.\<close>

lemma reserve_submit_Inr:
  assumes "reserve_submit now i d = (Inr v, d')"
  obtains r where "find_operation d i = Some r" "row_state r = W_SIGNED" "truthy (signature_base64 r)"
    "reserve_txn now i d = Inr ((), d')" "find_operation d' i = Some (r\<lparr>row_state := W_SUBMITTING, updated_at := now 0\<rparr>)"
    "v = record_of (r\<lparr>row_state := W_SUBMITTING, updated_at := now 0\<rparr>)"
  using assms
  by (auto simp: reserve_submit_def op_defs get_def record_of_def reserve_txn_def transition_txn_def
      row_txn_def find_set_row keeps_frozen_state split: option.splits if_splits sum.splits prod.splits)

lemma reserve_submit_Inl: "reserve_submit now i d = (Inl e, d') \<Longrightarrow> d' = d"
  by (auto simp: reserve_submit_def op_defs get_def record_of_def reserve_txn_def transition_txn_def
      row_txn_def find_set_row keeps_frozen_state split: option.splits if_splits sum.splits prod.splits)

lemma reserve_submit_crossed:
  assumes "find_operation d i = Some r" and "row_state r \<noteq> W_SIGNED"
  shows "reserve_submit now i d =
    (Inl (if row_state r \<in> {W_SUBMITTING, W_SUBMITTED, W_PROCESSING, W_RECONCILIATION_REQUIRED, W_SUCCEEDED}
          then DuplicateSubmitBlocked else not_allowed ''submit'' (row_state r)), d)"
  using assms by (auto simp: reserve_submit_def op_defs get_def record_of_def)

text \<open>After the create call the method only records the outcome in the database.\<close>

definition record_outcome :: "(nat \<Rightarrow> pystr) \<Rightarrow> pystr \<Rightarrow> exception_name + create_result
    \<Rightarrow> operation_record store_op" where
  "record_outcome now i res = (case res of
     Inl name \<Rightarrow> mark_submit_ambiguous now i name | Inr result \<Rightarrow> complete_submit now i result)"

lemma record_outcome_run: "store_step\<^sup>*\<^sup>* d (snd (record_outcome now i res d))"
  by (auto simp: record_outcome_def mark_runs complete_submit_run split: sum.splits)

lemma submit_cases:
  assumes "submit p now i w = (res, w')"
  obtains (refused) e where "res = Inl e" "w' = w"
      "\<not> (true_api_write p \<and> writer p \<noteq> None \<and> (\<exists>v d1. reserve_submit now i (db w) = (Inr v, d1)))"
  | (reserved) a r sig d1 ps where "true_api_write p" "writer p = Some a"
      "find_operation (db w) i = Some r" "row_state r = W_SIGNED" "signature_base64 r = Some sig"
      "reserve_txn now i (db w) = Inr ((), d1)"
      "find_operation d1 i = Some (r\<lparr>row_state := W_SUBMITTING, updated_at := now 0\<rparr>)"
      "ps = (case create_request (document_type r) (row_document_base64 r) sig of
               Inl _ \<Rightarrow> [] | Inr req \<Rightarrow> [(i, req)])"
      "res = fst (record_outcome (later 2 now) i
               (create a (document_type r) (row_document_base64 r) sig) d1)"
      "w' = \<lparr>db = snd (record_outcome (later 2 now) i
               (create a (document_type r) (row_document_base64 r) sig) d1), posts = posts w @ ps\<rparr>"
proof (cases "true_api_write p \<and> writer p \<noteq> None")
  case False
  with assms have "(\<exists>e. res = Inl e) \<and> w' = w"
    by (auto simp: submit_def op_defs split: option.splits if_splits)
  with refused False show thesis by blast
next
  case True
  then obtain a where a: "true_api_write p" "writer p = Some a" by auto
  show thesis
  proof (cases "reserve_submit now i (db w)")
    case (Pair q d1)
    show thesis
    proof (cases q)
      case (Inl e)
      with assms a Pair reserve_submit_Inl [of now i "db w" e d1] show thesis
        by (intro refused) (auto simp: submit_def op_defs on_db_def)
    next
      case (Inr v)
      with Pair have "reserve_submit now i (db w) = (Inr v, d1)" by simp
      then show thesis
      proof (rule reserve_submit_Inr)
        fix r
        assume r: "find_operation (db w) i = Some r" "row_state r = W_SIGNED" "truthy (signature_base64 r)"
          "reserve_txn now i (db w) = Inr ((), d1)"
          "find_operation d1 i = Some (r\<lparr>row_state := W_SUBMITTING, updated_at := now 0\<rparr>)"
          and v: "v = record_of (r\<lparr>row_state := W_SUBMITTING, updated_at := now 0\<rparr>)"
        obtain sig where sig: "signature_base64 r = Some sig" using r(3) by (cases "signature_base64 r") auto
        have i: "operation_id r = i" using find_Some [OF r(1)] by simp
        have v': "rec_signature v = Some sig" "rec_document_type v = document_type r"
          "rec_document_base64 v = row_document_base64 r" "rec_operation_id v = i"
          using v sig i by (simp_all add: record_of_def)
        have "submit p now i w = (case call_create a v sig (w\<lparr>db := d1\<rparr>) of (q, w1) \<Rightarrow>
            on_db (record_outcome (later 2 now) i (create a (document_type r) (row_document_base64 r) sig)) w1)"
          using a Pair Inr v'
          by (auto simp: submit_def op_defs on_db_def call_create_def record_outcome_def split: sum.splits)
        with assms show thesis
          by (intro reserved [OF a r(1,2) sig r(4,5) refl])
            (auto simp: call_create_def v' on_db_def split: sum.splits prod.splits)
      qed
    qed
  qed
qed

text \<open>The method is a run of small steps: the reservation, the request, the recording.\<close>

lemma store_run_shared:
  "store_step\<^sup>*\<^sup>* d d' \<Longrightarrow> db (world s) = d \<Longrightarrow>
     shared_step\<^sup>*\<^sup>* s (s\<lparr>world := (world s)\<lparr>db := d'\<rparr>\<rparr>)"
proof (induction rule: rtranclp_induct)
  case (step y z)
  then have "shared_step (s\<lparr>world := (world s)\<lparr>db := y\<rparr>\<rparr>) (s\<lparr>world := (world s)\<lparr>db := z\<rparr>\<rparr>)"
    using shared_store [of "s\<lparr>world := (world s)\<lparr>db := y\<rparr>\<rparr>" z] by simp
  with step show ?case by auto
next
  case base
  then have "s\<lparr>world := (world s)\<lparr>db := d\<rparr>\<rparr> = s" by auto
  then show ?case by simp
qed

lemma submit_run:
  "\<exists>t. shared_step\<^sup>*\<^sup>* s t \<and> world t = snd (submit p now i (world s))"
proof (cases "submit p now i (world s)")
  case (Pair res w')
  from Pair show ?thesis
  proof (cases rule: submit_cases)
    case (refused e)
    with Pair show ?thesis by auto
  next
    case (reserved a r sig d1 ps)
    let ?r = "r\<lparr>row_state := W_SUBMITTING, updated_at := now 0\<rparr>"
    let ?s1 = "s\<lparr>world := (world s)\<lparr>db := d1\<rparr>, tokens := record_of ?r # tokens s\<rparr>"
    have step1: "shared_step s ?s1" by (rule shared_reserve [OF reserved(6,7)])
    have i: "operation_id r = i" using find_Some [OF reserved(3)] by simp
    have "\<exists>t. shared_step\<^sup>*\<^sup>* ?s1 t \<and> world t = \<lparr>db = d1, posts = posts (world s) @ ps\<rparr>"
    proof (cases "create_request (document_type r) (row_document_base64 r) sig")
      case (Inl e)
      with reserved(8) show ?thesis by auto
    next
      case (Inr req)
      have "shared_step ?s1 (?s1\<lparr>world := (world ?s1)\<lparr>posts := posts (world ?s1)
          @ [(rec_operation_id (record_of ?r), req)]\<rparr>, tokens := remove1 (record_of ?r) (tokens ?s1)\<rparr>)"
        (is "shared_step _ ?t")
        using reserved(5) Inr by (intro shared_post) (simp_all add: record_of_def)
      moreover have "world ?t = \<lparr>db = d1, posts = posts (world s) @ ps\<rparr>"
        using Inr reserved(8) i by simp
      ultimately show ?thesis by blast
    qed
    then obtain t where t: "shared_step\<^sup>*\<^sup>* ?s1 t" "world t = \<lparr>db = d1, posts = posts (world s) @ ps\<rparr>"
      by blast
    have "shared_step\<^sup>*\<^sup>* t (t\<lparr>world := (world t)\<lparr>db := snd (record_outcome (later 2 now) i
               (create a (document_type r) (row_document_base64 r) sig) d1)\<rparr>\<rparr>)"
      using record_outcome_run by (intro store_run_shared) (auto simp: t(2))
    with step1 t have "shared_step\<^sup>*\<^sup>* s (t\<lparr>world := (world t)\<lparr>db := snd (record_outcome (later 2 now) i
               (create a (document_type r) (row_document_base64 r) sig) d1)\<rparr>\<rparr>)"
      by (meson converse_rtranclp_into_rtranclp rtranclp_trans)
    with Pair reserved(10) t(2) show ?thesis by force
  qed
qed

text \<open>The methods of a session of the pipeline, and that every session is a run of small steps.\<close>

inductive method_step :: "pipeline \<Rightarrow> world \<Rightarrow> world \<Rightarrow> bool" for p where
  "method_step p w (snd (pipeline_prepare p now ev dec t why g inn doc w))"
| "method_step p w (snd (pending_signing_request i w))"
| "method_step p w (snd (pipeline_accept_signature p now response w))"
| "method_step p w (snd (submit p now i w))"
| "method_step p w (snd (poll_once p now i w))"
| "method_step p w (snd (on_db (reconciliation_result now i c ds) w))"
| "method_step p w (snd (on_db (mark_manual_review now i e) w))"
| "method_step p w (snd (on_db (mark_error now i e) w))"

lemma on_db_shared:
  assumes "\<And>d. store_step\<^sup>*\<^sup>* d (snd (m d))"
  shows "\<exists>t. shared_step\<^sup>*\<^sup>* s t \<and> world t = snd (on_db m (world s))"
proof -
  have "snd (on_db m (world s)) = (world s)\<lparr>db := snd (m (db (world s)))\<rparr>"
    by (simp add: on_db_def split: prod.splits)
  with store_run_shared [OF assms refl, of s] show ?thesis by force
qed

lemma seq_shared:
  assumes "\<And>s. \<exists>t. shared_step\<^sup>*\<^sup>* s t \<and> world t = snd (m (world s))"
    and "\<And>x s. \<exists>t. shared_step\<^sup>*\<^sup>* s t \<and> world t = snd (f x (world s))"
  shows "\<exists>t. shared_step\<^sup>*\<^sup>* s t \<and> world t = snd (seq m f (world s))"
proof -
  obtain t where t: "shared_step\<^sup>*\<^sup>* s t" "world t = snd (m (world s))" using assms(1) by blast
  show ?thesis
  proof (cases "m (world s)")
    case (Pair q w1)
    show ?thesis
    proof (cases q)
      case (Inl e)
      with t Pair show ?thesis by (auto simp: seq_def)
    next
      case (Inr x)
      with assms(2) [of t x] t Pair show ?thesis
        by (auto simp: seq_def) (meson rtranclp_trans)
    qed
  qed
qed

lemma pure_shared [simp]:
  "\<exists>t. shared_step\<^sup>*\<^sup>* s t \<and> world t = snd (raise e (world s))"
  "\<exists>t. shared_step\<^sup>*\<^sup>* s t \<and> world t = snd (ret x (world s))"
  by (auto simp: op_defs)

lemma signing_request_run: "store_step\<^sup>*\<^sup>* d (snd (signing_request i d))"
  unfolding signing_request_def by (intro seq_run) auto

lemma poll_once_run: "\<exists>t. shared_step\<^sup>*\<^sup>* s t \<and> world t = snd (poll_once p now i (world s))"
  unfolding poll_once_def
  by (auto split: option.split sum.split
      intro!: seq_shared on_db_shared audit_note_run apply_poll_status_run)

lemma method_step_run: "method_step p (world s) w \<Longrightarrow> \<exists>t. shared_step\<^sup>*\<^sup>* s t \<and> world t = w"
  by (induction "world s" w rule: method_step.induct)
    (auto simp: pipeline_prepare_def pending_signing_request_def pipeline_accept_signature_def
      intro!: on_db_shared prepare_run signing_request_run accept_signature_run mark_runs
        submit_run poll_once_run)

lemma session_run:
  "(method_step p)\<^sup>*\<^sup>* w w' \<Longrightarrow> world s = w \<Longrightarrow> \<exists>t. shared_step\<^sup>*\<^sup>* s t \<and> world t = w'"
proof (induction rule: rtranclp_induct)
  case (step y z)
  then obtain t where "shared_step\<^sup>*\<^sup>* s t" "world t = y" by blast
  with method_step_run [of p t z] step show ?case by (meson rtranclp_trans)
qed auto

section \<open>A concrete session\<close>

text \<open>The inputs the witnesses below run on: one sale prepared, signed and submitted.\<close>

definition demo_document :: exact_document where
  "demo_document = \<lparr>payload = ''{}'', sha256 = sha256_hex ''{}'', product_document_base64 = b64encode ''{}''\<rparr>"

definition demo_now :: "nat \<Rightarrow> pystr" where
  "demo_now k = ''2026-01-01T00:00:00.000000+00:00''"

definition demo_id :: pystr where
  "demo_id = operation_id_of (fingerprint ''event'' READY_TO_WITHDRAW ''LK_RECEIPT'' ''DISTANCE'' ''lp'')"

definition demo_row :: operation_row where
  "demo_row = waiting (demo_now 2) (new_row (demo_now 0)
     (fingerprint ''event'' READY_TO_WITHDRAW ''LK_RECEIPT'' ''DISTANCE'' ''lp'')
     ''event'' READY_TO_WITHDRAW ''LK_RECEIPT'' ''DISTANCE'' ''lp'' ''7707083893'' demo_document)"

definition demo_prepared :: write_db where
  "demo_prepared = snd (prepare demo_now ''event'' READY_TO_WITHDRAW ''LK_RECEIPT'' ''DISTANCE'' ''lp''
     ''7707083893'' demo_document empty_db)"

definition demo_response :: signing_response where
  "demo_response = \<lparr>response_operation_id = demo_id, response_sha256 = sha256_hex ''{}'',
     response_signature = b64encode ''sig'', response_thumbprint = None, response_subject = None,
     response_inn = None, response_valid_from = None, response_valid_to = None\<rparr>"

definition demo_signed :: write_db where
  "demo_signed = snd (accept_signature demo_now demo_response ''7707083893'' demo_prepared)"

definition demo_signed_row :: operation_row where
  "demo_signed_row = sign_row demo_now demo_response (b64encode ''sig'') demo_row"

definition demo_adapter :: write_adapter where
  "demo_adapter = \<lparr>base_url = ''https://host/'', authorization = ''token'',
     transport = (\<lambda>url hs req. Inr \<lparr>status_code = 201, body = ''{}'', headers = None\<rparr>),
     success_parser = (\<lambda>r. Inr (Some ''doc-1''))\<rparr>"

definition demo_pipeline :: pipeline where
  "demo_pipeline = \<lparr>own_inn = ''7707083893'', writer = Some demo_adapter, poller = None,
     true_api_write = True\<rparr>"

lemma demo_exact: "exact demo_document"
  by (simp add: exact_def demo_document_def del: b64encode.simps)

lemma demo_check: "check_prepare READY_TO_WITHDRAW ''LK_RECEIPT'' ''DISTANCE'' ''lp'' ''7707083893''
    demo_document = Inr ()"
  by (simp add: check_prepare_Inr demo_exact decision_document_def)

lemma demo_row_facts [simp]:
  "operation_id demo_row = demo_id" "row_state demo_row = W_AWAITING_SIGNATURE"
  "document_sha256 demo_row = sha256_hex ''{}''" "document_type demo_row = ''LK_RECEIPT''"
  "pg demo_row = ''lp''" "expected_inn demo_row = ''7707083893''"
  "row_document_base64 demo_row = b64encode ''{}''"
  by (simp_all add: demo_row_def waiting_def new_row_def demo_id_def demo_document_def)

lemma demo_prepare:
  "prepare demo_now ''event'' READY_TO_WITHDRAW ''LK_RECEIPT'' ''DISTANCE'' ''lp'' ''7707083893''
     demo_document empty_db = (Inr (record_of demo_row), demo_prepared)"
  "operations demo_prepared = [demo_row]"
proof -
  let ?p = "prepare demo_now ''event'' READY_TO_WITHDRAW ''LK_RECEIPT'' ''DISTANCE'' ''lp'' ''7707083893''
     demo_document empty_db"
  have "fst ?p = Inr (record_of demo_row) \<and> operations (snd ?p) = [demo_row]"
    by (simp add: prepare_def op_defs demo_check prepare_txn_def prepare_insert_def insert_row_def
        empty_db_def Let_def get_def find_operation_def new_row_def demo_row_def waiting_def update_rows_def)
  then show "?p = (Inr (record_of demo_row), demo_prepared)" "operations demo_prepared = [demo_row]"
    by (auto simp: demo_prepared_def intro: prod_eqI)
qed

lemma demo_find: "find_operation demo_prepared demo_id = Some demo_row"
  by (simp add: find_operation_def demo_prepare)

lemma demo_accept:
  "operations demo_signed = [demo_signed_row]"
  "accept_signature demo_now demo_response ''7707083893'' demo_prepared
     = (Inr (record_of demo_signed_row), demo_signed)"
proof -
  let ?p = "accept_signature demo_now demo_response ''7707083893'' demo_prepared"
  have c: "check_signature demo_response ''7707083893'' demo_row = Inr (b64encode ''sig'')"
    using validate_base64_encoded [of "''sig''"]
    by (simp add: check_signature_def demo_response_def allowed_document_types_def)
  have "response_operation_id demo_response = demo_id" by (simp add: demo_response_def)
  with c have "fst ?p = Inr (record_of demo_signed_row) \<and> operations (snd ?p) = [demo_signed_row]"
    by (simp add: accept_signature_def op_defs signature_txn_def row_txn_def demo_find get_def
        find_set_row keeps_frozen_sign demo_prepare update_rows_def demo_signed_row_def)
  then show "operations demo_signed = [demo_signed_row]"
    "?p = (Inr (record_of demo_signed_row), demo_signed)"
    by (auto simp: demo_signed_def intro: prod_eqI)
qed

lemma demo_signed_facts [simp]:
  "operation_id demo_signed_row = demo_id" "row_state demo_signed_row = W_SIGNED"
  "signature_base64 demo_signed_row = Some (b64encode ''sig'')"
  "document_type demo_signed_row = ''LK_RECEIPT''" "row_document_base64 demo_signed_row = b64encode ''{}''"
  by (simp_all add: demo_signed_row_def sign_row_def demo_response_def)

lemma demo_signed_find: "find_operation demo_signed demo_id = Some demo_signed_row"
  by (simp add: find_operation_def demo_accept)

lemma demo_signed_run: "store_step\<^sup>*\<^sup>* empty_db demo_signed"
  unfolding demo_signed_def demo_prepared_def
  by (rule rtranclp_trans [OF prepare_run accept_signature_run])

lemma demo_shared: "shared_step\<^sup>*\<^sup>* start_state (start_state\<lparr>world := \<lparr>db = demo_signed, posts = []\<rparr>\<rparr>)"
  using store_run_shared [OF demo_signed_run, of start_state] by (simp add: start_state_def)

lemma demo_create: "create demo_adapter ''LK_RECEIPT'' (b64encode ''{}'') (b64encode ''sig'') = Inr
    \<lparr>category = C_SUCCESS_WITH_ID, http_status = 201, result_document_id = Some ''doc-1'',
     body_sha256 = sha256_hex ''{}'', content_type = None\<rparr>"
  "create_request ''LK_RECEIPT'' (b64encode ''{}'') (b64encode ''sig'') =
     Inr (create_body ''LK_RECEIPT'' (b64encode ''{}'') (b64encode ''sig''))"
  using validate_base64_encoded [of "''sig''"] validate_base64_encoded [of "''{}''"]
  by (simp_all add: create_def create_request_def allowed_document_types_def demo_adapter_def
      read_create_response_def safe_document_id_def strip_def space_char_def code_def
      header_content_type_def)

definition demo_world :: world where
  "demo_world = \<lparr>db = demo_signed, posts = []\<rparr>"

definition demo_submitted :: world where
  "demo_submitted = snd (submit demo_pipeline demo_now demo_id demo_world)"

lemma demo_submitted_run: "\<exists>t. shared_step\<^sup>*\<^sup>* start_state t \<and> world t = demo_submitted"
  using submit_run [of "start_state\<lparr>world := demo_world\<rparr>" demo_pipeline demo_now demo_id] demo_shared
  by (auto simp: demo_world_def demo_submitted_def intro: rtranclp_trans)

definition demo_reserved_row :: operation_row where
  "demo_reserved_row = demo_signed_row\<lparr>row_state := W_SUBMITTING, updated_at := demo_now 0\<rparr>"

definition demo_reserved :: write_db where
  "demo_reserved = snd (reserve_submit demo_now demo_id demo_signed)"

lemma demo_reserved_facts [simp]:
  "operation_id demo_reserved_row = demo_id" "row_state demo_reserved_row = W_SUBMITTING"
  "signature_base64 demo_reserved_row = Some (b64encode ''sig'')"
  "document_type demo_reserved_row = ''LK_RECEIPT''" "row_document_base64 demo_reserved_row = b64encode ''{}''"
  by (simp_all add: demo_reserved_row_def del: b64encode.simps)

lemma demo_reserve:
  "reserve_submit demo_now demo_id demo_signed = (Inr (record_of demo_reserved_row), demo_reserved)"
  "operations demo_reserved = [demo_reserved_row]"
proof -
  let ?p = "reserve_submit demo_now demo_id demo_signed"
  have "fst ?p = Inr (record_of demo_reserved_row) \<and> operations (snd ?p) = [demo_reserved_row]"
    by (simp add: reserve_submit_def op_defs get_def demo_signed_find reserve_txn_def
        transition_txn_def row_txn_def find_set_row keeps_frozen_state demo_accept update_rows_def
        demo_reserved_row_def del: b64encode.simps)
  then show "?p = (Inr (record_of demo_reserved_row), demo_reserved)"
    "operations demo_reserved = [demo_reserved_row]"
    by (auto simp: demo_reserved_def intro: prod_eqI)
qed

definition demo_result :: create_result where
  "demo_result = \<lparr>category = C_SUCCESS_WITH_ID, http_status = 201, result_document_id = Some ''doc-1'',
     body_sha256 = sha256_hex ''{}'', content_type = None\<rparr>"

lemma demo_submit:
  "demo_submitted = \<lparr>db = snd (complete_submit (later 2 demo_now) demo_id demo_result demo_reserved),
     posts = [(demo_id, create_body ''LK_RECEIPT'' (b64encode ''{}'') (b64encode ''sig''))]\<rparr>"
  by (simp add: demo_submitted_def submit_def demo_pipeline_def demo_world_def op_defs on_db_def
      call_create_def demo_reserve(1) demo_create [folded demo_result_def] del: b64encode.simps
      split: prod.splits)

lemma demo_submit_world:
  "posts demo_submitted = [(demo_id, create_body ''LK_RECEIPT'' (b64encode ''{}'') (b64encode ''sig''))]"
  "write_status (db demo_submitted) demo_id = Some W_SUBMITTED"
proof -
  have "find_operation demo_reserved demo_id = Some demo_reserved_row"
    by (simp add: find_operation_def demo_reserve)
  then show "write_status (db demo_submitted) demo_id = Some W_SUBMITTED"
    by (simp add: demo_submit complete_submit_def op_defs complete_txn_def row_txn_def submit_target_def
        document_taken_def demo_reserve write_status_def get_def find_set_row keeps_frozen_result
        result_row_def demo_result_def del: b64encode.simps)
qed (simp add: demo_submit del: b64encode.simps)

definition demo_reconciled :: write_db where
  "demo_reconciled = snd (reconciliation_result demo_now demo_id True []
     (snd (apply_poll_status demo_now demo_id (Some ''CHECKED_OK'') None None (db demo_submitted))))"

lemma demo_reconciled_run: "store_step\<^sup>*\<^sup>* empty_db demo_reconciled"
  unfolding demo_reconciled_def demo_submit world.simps demo_reserved_def
  by (intro rtranclp_trans [OF _ mark_runs(4)] rtranclp_trans [OF _ apply_poll_status_run]
      rtranclp_trans [OF _ complete_submit_run] rtranclp_trans [OF _ reserve_submit_run] demo_signed_run)

lemma demo_reconciled_status: "write_status demo_reconciled demo_id = Some W_SUCCEEDED"
proof -
  obtain r where r: "find_operation (db demo_submitted) demo_id = Some r" "row_state r = W_SUBMITTED"
    using demo_submit_world(2) by (auto simp: write_status_def)
  then show ?thesis
    by (simp add: demo_reconciled_def reconciliation_result_def apply_poll_status_def transition_def op_defs
        get_def classify_poll_status_def poll_target_def transition_txn_def row_txn_def find_set_row
        keeps_frozen_state write_status_def Let_def)
qed

section \<open>Paths\<close>

text \<open>The moves into each state on the way to success, and the last move of a trail.\<close>

lemma edge_into:
  "edge f W_SUCCEEDED \<longleftrightarrow> f = W_RECONCILIATION_REQUIRED"
  "edge f W_RECONCILIATION_REQUIRED \<longleftrightarrow> f = W_SUBMITTED \<or> f = W_PROCESSING"
  "edge f W_PROCESSING \<longleftrightarrow> f = W_SUBMITTED" "edge f W_SUBMITTED \<longleftrightarrow> f = W_SUBMITTING"
  "edge f W_SUBMITTING \<longleftrightarrow> f = W_SIGNED" "edge f W_SIGNED \<longleftrightarrow> f = W_AWAITING_SIGNATURE"
  "edge f W_AWAITING_SIGNATURE \<longleftrightarrow> f = W_PREPARED" "\<not> edge f W_PREPARED"
  by (cases f; simp add: edge_def)+

lemma path_back:
  assumes "replay None ms = Some (Some t)"
  shows "(t = W_PREPARED \<and> map snd ms = [t]) \<or>
    (\<exists>ns f. replay None ns = Some (Some f) \<and> edge f t \<and> map snd ms = map snd ns @ [t])"
proof -
  obtain ns f where ns: "ms = ns @ [(f, t)]" "replay None ns = Some f" "entry f t"
    using assms replay_last by blast
  show ?thesis
  proof (cases f)
    case None
    with ns show ?thesis by (simp add: replay_None entry_def)
  next
    case (Some x)
    with ns show ?thesis by (auto simp: entry_def)
  qed
qed

lemma path_submitted:
  assumes "replay None ms = Some (Some W_SUBMITTED)"
  shows "map snd ms = [W_PREPARED, W_AWAITING_SIGNATURE, W_SIGNED, W_SUBMITTING, W_SUBMITTED]"
proof -
  have prepared: "map snd ns = [W_PREPARED]" if "replay None ns = Some (Some W_PREPARED)" for ns
    using path_back [OF that] by (auto simp: edge_into)
  have awaiting: "map snd ns = [W_PREPARED, W_AWAITING_SIGNATURE]"
    if "replay None ns = Some (Some W_AWAITING_SIGNATURE)" for ns
    using path_back [OF that] prepared by (auto simp: edge_into)
  have signed: "map snd ns = [W_PREPARED, W_AWAITING_SIGNATURE, W_SIGNED]"
    if "replay None ns = Some (Some W_SIGNED)" for ns
    using path_back [OF that] awaiting by (auto simp: edge_into)
  have submitting: "map snd ns = [W_PREPARED, W_AWAITING_SIGNATURE, W_SIGNED, W_SUBMITTING]"
    if "replay None ns = Some (Some W_SUBMITTING)" for ns
    using path_back [OF that] signed by (auto simp: edge_into)
  show ?thesis using path_back [OF assms] submitting by (auto simp: edge_into)
qed

lemma path_succeeded:
  assumes "replay None ms = Some (Some W_SUCCEEDED)"
  shows "map snd ms \<in> (\<lambda>mid. [W_PREPARED, W_AWAITING_SIGNATURE, W_SIGNED, W_SUBMITTING, W_SUBMITTED]
    @ mid @ [W_RECONCILIATION_REQUIRED, W_SUCCEEDED]) ` {[], [W_PROCESSING]}"
proof -
  have processing: "map snd ns = [W_PREPARED, W_AWAITING_SIGNATURE, W_SIGNED, W_SUBMITTING,
      W_SUBMITTED, W_PROCESSING]" if "replay None ns = Some (Some W_PROCESSING)" for ns
    using path_back [OF that] path_submitted by (auto simp: edge_into)
  have reconciliation: "map snd ns \<in> (\<lambda>mid. [W_PREPARED, W_AWAITING_SIGNATURE, W_SIGNED, W_SUBMITTING,
      W_SUBMITTED] @ mid @ [W_RECONCILIATION_REQUIRED]) ` {[], [W_PROCESSING]}"
    if "replay None ns = Some (Some W_RECONCILIATION_REQUIRED)" for ns
    using path_back [OF that] path_submitted processing by (auto simp: edge_into)
  obtain ns where ns: "replay None ns = Some (Some W_RECONCILIATION_REQUIRED)"
    "map snd ms = map snd ns @ [W_SUCCEEDED]"
    using path_back [OF assms] by (auto simp: edge_into)
  from reconciliation [OF ns(1)] ns(2) show ?thesis by auto
qed

section \<open>Outcomes\<close>

text \<open>The state a submitted operation is left in depends only on the outcome of the call.\<close>

definition outcome_state :: "exception_name + create_result \<Rightarrow> write_state" where
  "outcome_state res = (case res of
     Inl _ \<Rightarrow> W_MANUAL_REVIEW
   | Inr r \<Rightarrow> (case submit_target r of Inl _ \<Rightarrow> W_SUBMITTING | Inr t \<Rightarrow> t))"

definition outcome_document :: "exception_name + create_result \<Rightarrow> pystr option" where
  "outcome_document res = (case res of Inl _ \<Rightarrow> None
     | Inr r \<Rightarrow> if category r = C_SUCCESS_WITH_ID then result_document_id r else None)"

lemma record_outcome_status:
  assumes "find_operation d i = Some r" and "row_state r = W_SUBMITTING"
    and "\<not> document_taken i (outcome_document res) d"
  shows "write_status (snd (record_outcome now i res d)) i = Some (outcome_state res)"
proof (cases res)
  case (Inl e)
  with assms show ?thesis
    by (simp add: record_outcome_def outcome_state_def mark_submit_ambiguous_def transition_def op_defs
        transition_txn_def row_txn_def write_status_def get_def find_set_row keeps_frozen_state)
next
  case (Inr q)
  show ?thesis
  proof (cases "submit_target q")
    case (Inl e)
    with Inr assms show ?thesis
      by (simp add: record_outcome_def outcome_state_def complete_submit_def complete_txn_def op_defs
          row_txn_def write_status_def)
  next
    case t: (Inr t)
    with submit_target_range [OF t] have "(if t = W_SUBMITTED then result_document_id q else None)
        = outcome_document res"
      using Inr by (auto simp: outcome_document_def submit_target_def split: if_splits)
    with Inr t assms show ?thesis
      by (simp add: record_outcome_def outcome_state_def complete_submit_def complete_txn_def op_defs
          row_txn_def write_status_def get_def find_set_row keeps_frozen_result result_row_def)
  qed
qed

lemma reserve_submit_signed:
  assumes "find_operation d i = Some r" and "row_state r = W_SIGNED" and "truthy (signature_base64 r)"
  shows "\<exists>v d'. reserve_submit now i d = (Inr v, d')"
  using assms
  by (simp add: reserve_submit_def op_defs get_def reserve_txn_def transition_txn_def row_txn_def
      find_set_row keeps_frozen_state)

lemma document_taken_pairs:
  "document_taken i doc d \<longleftrightarrow> doc \<noteq> None \<and>
     (\<exists>p\<in>set (map (\<lambda>r. (operation_id r, document_id r)) (operations d)). fst p \<noteq> i \<and> snd p = doc)"
  by (auto simp: document_taken_def)

lemma document_taken_step:
  assumes "reserve_txn now i d = Inr ((), d')"
  shows "document_taken j doc d' = document_taken j doc d"
proof -
  have "map (\<lambda>r. (operation_id r, document_id r)) (operations d')
      = map (\<lambda>r. (operation_id r, document_id r)) (operations d)"
    using assms by (auto simp: reserve_txn_def transition_txn_Inr keys_update_rows)
  then show ?thesis unfolding document_taken_pairs by (simp only:)
qed

lemma prepare_txn_known:
  assumes "lookup_row business_fingerprint (business_fingerprint r) (operations d) = Some q"
  shows "prepare_txn now doc r d =
    (if document_sha256 q = sha256 doc \<and> row_document_base64 q = product_document_base64 doc
        \<and> expected_inn q = expected_inn r
     then Inr (Some (record_of q), audit (now 1) (operation_id q) ''PREPARE_REPLAY_IDEMPOTENT'' None None
             [(''document_sha256'', JStr (sha256 doc))] d)
     else Inl ReplayConflict)"
  using assms by (simp add: prepare_txn_def prepare_replay_def)

lemma prepared_row:
  assumes "prepare now ev dec t why g inn doc d = (Inr v, d')"
  obtains q where
    "lookup_row business_fingerprint (fingerprint ev dec t why g) (operations d') = Some q"
    "document_sha256 q = sha256 doc" "row_document_base64 q = product_document_base64 doc"
    "expected_inn q = inn" "v = record_of q"
proof -
  let ?fp = "fingerprint ev dec t why g" and ?r = "new_row (now 0) (fingerprint ev dec t why g) ev dec t why g inn doc"
  have c: "check_prepare dec t why g inn doc = Inr ()"
    using assms by (cases "check_prepare dec t why g inn doc") (auto simp: prepare_def op_defs)
  have n: "business_fingerprint ?r = ?fp" "expected_inn ?r = inn" "operation_id ?r = operation_id_of ?fp"
    "row_state ?r = W_PREPARED" "document_sha256 ?r = sha256 doc"
    "row_document_base64 ?r = product_document_base64 doc"
    by (simp_all add: new_row_def)
  show thesis
  proof (cases "lookup_row business_fingerprint ?fp (operations d)")
    case (Some q)
    with assms c n prepare_txn_known [of ?r d q now doc] that show thesis
      by (auto simp: prepare_def op_defs Let_def split: if_splits)
  next
    case None
    then obtain d1 where d1: "prepare_insert now ?r d = Inr ((), d1)"
      using assms c n by (cases "prepare_insert now ?r d") (auto simp: prepare_def op_defs prepare_txn_def Let_def)
    with None assms c n have g: "get (operation_id_of ?fp) d1 = (Inr v, d')"
      by (simp add: prepare_def op_defs prepare_txn_def Let_def)
    note ins = prepare_insert_Inr [OF d1 n(4)]
    have w: "waiting (now 2) ?r = ?r\<lparr>row_state := W_AWAITING_SIGNATURE, updated_at := now 2\<rparr>"
      by (simp add: waiting_def)
    have "lookup_row operation_id (operation_id_of ?fp) (operations d) = None"
      using ins(1) n by (simp add: lookup_row_None)
    then have "v = record_of (waiting (now 2) ?r)" "d' = d1"
      using g n w by (auto simp: get_def find_operation_def ins(3) table_simps split: option.splits)
    with None ins(3) n w that [of "waiting (now 2) ?r"] show thesis by (simp add: table_simps)
  qed
qed

section \<open>Properties\<close>

text \<open>C1: whatever processes do and however they interleave, at most one create request is sent for
  an operation.\<close>

theorem create_sent_at_most_once:
  assumes "shared_step\<^sup>*\<^sup>* start_state s"
  shows "post_count (world s) i \<le> 1"
  using permits_bound [OF assms, of i] by (simp add: submit_permits_def)

lemma create_sent_at_most_once_witness:
  "\<exists>s. shared_step\<^sup>*\<^sup>* start_state s \<and> world s = demo_submitted \<and> posts (world s) \<noteq> []
     \<and> post_count (world s) demo_id \<le> 1"
proof -
  obtain s where s: "shared_step\<^sup>*\<^sup>* start_state s" "world s = demo_submitted"
    using demo_submitted_run by blast
  from create_sent_at_most_once [OF s(1), of demo_id] s show ?thesis
    by (auto simp: demo_submit_world)
qed

text \<open>C2: whatever the methods of a pipeline are called with, a session that starts on an empty store
  sends at most one create request for an operation.\<close>

theorem session_sends_once:
  assumes "(method_step p)\<^sup>*\<^sup>* \<lparr>db = empty_db, posts = []\<rparr> w"
  shows "post_count w i \<le> 1"
proof -
  obtain t where t: "shared_step\<^sup>*\<^sup>* start_state t" "world t = w"
    using session_run [OF assms, of start_state] by (auto simp: start_state_def)
  from permits_bound [OF t(1), of i] t(2) show ?thesis by (simp add: submit_permits_def)
qed

lemma session_sends_once_witness:
  "\<exists>w. (method_step demo_pipeline)\<^sup>*\<^sup>* \<lparr>db = empty_db, posts = []\<rparr> w \<and> db w = demo_prepared
     \<and> post_count w demo_id \<le> 1"
proof -
  let ?w = "snd (pipeline_prepare demo_pipeline demo_now ''event'' READY_TO_WITHDRAW ''LK_RECEIPT''
    ''DISTANCE'' ''lp'' ''7707083893'' demo_document \<lparr>db = empty_db, posts = []\<rparr>)"
  have run: "(method_step demo_pipeline)\<^sup>*\<^sup>* \<lparr>db = empty_db, posts = []\<rparr> ?w"
    by (rule r_into_rtranclp) (rule method_step.intros(1))
  have "db ?w = demo_prepared"
    by (simp add: pipeline_prepare_def demo_pipeline_def on_db_def demo_prepare)
  with run session_sends_once [OF run, of demo_id] show ?thesis by blast
qed

lemma shared_run_store:
  "shared_step\<^sup>*\<^sup>* s t \<Longrightarrow> store_step\<^sup>*\<^sup>* (db (world s)) (db (world t))"
proof (induction rule: rtranclp_induct)
  case (step t u)
  from step.hyps(2) have "store_step\<^sup>*\<^sup>* (db (world t)) (db (world u))"
    by cases (auto intro: step_reserve)
  with step.IH show ?case by (rule rtranclp_trans)
qed simp

text \<open>C3: a request that was sent carries the document frozen when its operation was prepared and the
  accepted signature over it: the posted Base64 decodes to bytes with the recorded SHA-256, and the
  document, its type and its SHA-256 are those the row had at any earlier time.\<close>

theorem sent_request_is_frozen_document:
  assumes "shared_step\<^sup>*\<^sup>* start_state e" and "shared_step\<^sup>*\<^sup>* e s" and "(i, req) \<in> set (posts (world s))"
  shows "\<exists>r bs sig. find_operation (db (world s)) i = Some r \<and> signature_base64 r = Some sig
     \<and> document_sha256 r = sha256_hex bs \<and> req = create_body (document_type r) (b64encode bs) sig
     \<and> (\<forall>q. find_operation (db (world e)) i = Some q \<longrightarrow> document_type q = document_type r
          \<and> document_sha256 q = document_sha256 r \<and> row_document_base64 q = row_document_base64 r)"
proof -
  have ok: "shared_ok s" using rtranclp_trans [OF assms(1,2)] by (rule shared_run_ok)
  with assms(3) obtain r sig where r: "find_operation (db (world s)) i = Some r"
    "signature_base64 r = Some sig"
    "create_request (document_type r) (row_document_base64 r) sig = Inr req"
    by (auto simp: shared_ok_def post_ok_def)
  have row: "row_ok r" using ok find_Some [OF r(1)] by (auto simp: shared_ok_def store_ok_def)
  obtain bs sg where d: "b64decode (row_document_base64 r) = Some bs" "b64decode sig = Some sg"
    "req = create_body (document_type r) (b64encode bs) (b64encode sg)"
    using create_request_Inr [OF r(3)] by blast
  have "document_sha256 r = sha256_hex bs" using row d(1) by (auto simp: row_ok_def immutable_ok_def)
  moreover have "b64encode sg = sig"
    using row r(2) d(2) by (auto simp: row_ok_def phase_ok_def validate_base64_Inr_iff)
  moreover have "document_type q = document_type r \<and> document_sha256 q = document_sha256 r
      \<and> row_document_base64 q = row_document_base64 r" if "find_operation (db (world e)) i = Some q" for q
    using frozen_run [OF shared_run_store [OF assms(2)] that] r(1) by (simp add: frozen_def)
  ultimately show ?thesis using r(1,2) d by blast
qed

lemma sent_request_is_frozen_document_witness:
  "\<exists>r bs sig. find_operation (db demo_submitted) demo_id = Some r \<and> signature_base64 r = Some sig
     \<and> document_sha256 r = sha256_hex bs
     \<and> create_body ''LK_RECEIPT'' (b64encode ''{}'') (b64encode ''sig'')
         = create_body (document_type r) (b64encode bs) sig"
proof -
  obtain s where s: "shared_step\<^sup>*\<^sup>* start_state s" "world s = demo_submitted"
    using demo_submitted_run by blast
  have "shared_step\<^sup>*\<^sup>* s s" by simp
  from sent_request_is_frozen_document [OF s(1) this, of demo_id] s(2) show ?thesis
    by (auto simp: demo_submit_world simp del: b64encode.simps)
qed

text \<open>C4: every database the transactions can reach has unique operations, fingerprints and document
  ids, rows whose document, hash, fingerprint and signature fit together, and an audit trail that
  replays to the current state of every operation.\<close>

theorem write_store_invariant:
  assumes "store_step\<^sup>*\<^sup>* empty_db d"
  shows "store_ok d"
  using store_run_ok [OF assms store_ok_empty] .

lemma write_store_invariant_witness: "store_ok demo_signed \<and> operations demo_signed = [demo_signed_row]"
  using write_store_invariant [OF demo_signed_run] demo_accept(1) by simp

text \<open>C5: an operation that succeeded went through signing, one submission and reconciliation: its
  trail is one of two paths.\<close>

theorem succeeded_path:
  assumes "store_step\<^sup>*\<^sup>* empty_db d" and "write_status d i = Some W_SUCCEEDED"
  shows "map snd (trail d i) \<in>
    {[W_PREPARED, W_AWAITING_SIGNATURE, W_SIGNED, W_SUBMITTING, W_SUBMITTED,
      W_RECONCILIATION_REQUIRED, W_SUCCEEDED],
     [W_PREPARED, W_AWAITING_SIGNATURE, W_SIGNED, W_SUBMITTING, W_SUBMITTED, W_PROCESSING,
      W_RECONCILIATION_REQUIRED, W_SUCCEEDED]}"
proof -
  have "replay None (trail d i) = Some (Some W_SUCCEEDED)"
    using store_run_ok [OF assms(1) store_ok_empty] assms(2) by (simp add: store_ok_def)
  then show ?thesis
    by (auto dest!: path_succeeded)
qed

lemma succeeded_path_witness:
  "map snd (trail demo_reconciled demo_id) \<in>
    {[W_PREPARED, W_AWAITING_SIGNATURE, W_SIGNED, W_SUBMITTING, W_SUBMITTED,
      W_RECONCILIATION_REQUIRED, W_SUCCEEDED],
     [W_PREPARED, W_AWAITING_SIGNATURE, W_SIGNED, W_SUBMITTING, W_SUBMITTED, W_PROCESSING,
      W_RECONCILIATION_REQUIRED, W_SUCCEEDED]}"
  by (rule succeeded_path [OF demo_reconciled_run demo_reconciled_status])

text \<open>A terminal state of an operation never changes.\<close>

theorem terminal_state_is_final:
  assumes "store_step\<^sup>*\<^sup>* d d'" and "write_status d i = Some a"
    and "a \<in> {W_SUCCEEDED, W_FAILED, W_MANUAL_REVIEW, W_ERROR}"
  shows "write_status d' i = Some a"
proof (rule wl.terminal_final [OF assms(1,2)])
  show "write_rank b \<le> write_rank a" for b
    using assms(3) by (cases b) (auto simp: write_rank_def)
qed

lemma terminal_state_is_final_witness:
  "\<forall>now why. write_status (snd (mark_manual_review now demo_id why demo_reconciled)) demo_id
     = Some W_SUCCEEDED"
  using terminal_state_is_final [OF mark_runs(2) demo_reconciled_status] by simp

text \<open>A submit sends nothing and changes nothing once the operation has left the signed state.\<close>

theorem submit_twice_blocked:
  assumes "find_operation (db w) i = Some r" and "row_state r \<noteq> W_SIGNED"
  shows "\<exists>e. submit p now i w = (Inl e, w)"
  using reserve_submit_crossed [OF assms, of now]
  by (auto simp: submit_def op_defs on_db_def split: option.splits)

lemma submit_twice_blocked_witness:
  "\<exists>e. submit demo_pipeline demo_now demo_id demo_submitted = (Inl e, demo_submitted)"
proof -
  obtain r where r: "find_operation (db demo_submitted) demo_id = Some r" "row_state r = W_SUBMITTED"
    using demo_submit_world(2) by (auto simp: write_status_def)
  then show ?thesis by (intro submit_twice_blocked [OF r(1)]) simp
qed

text \<open>C6: submitting a signed operation, with writes enabled and a remote document id that no other
  operation has, sends the request the adapter builds, once, and leaves the operation in the state that
  the outcome of the call determines.\<close>

theorem submit_signed_operation:
  assumes "true_api_write p" and "writer p = Some a"
    and "find_operation (db w) i = Some r" and "row_state r = W_SIGNED"
    and "signature_base64 r = Some sig" and "sig \<noteq> []"
    and "\<not> document_taken i (outcome_document (create a (document_type r) (row_document_base64 r) sig)) (db w)"
  shows "write_status (db (snd (submit p now i w))) i
      = Some (outcome_state (create a (document_type r) (row_document_base64 r) sig))
    \<and> posts (snd (submit p now i w)) = posts w @
        (case create_request (document_type r) (row_document_base64 r) sig of
           Inl _ \<Rightarrow> [] | Inr req \<Rightarrow> [(i, req)])"
proof -
  obtain v d1 where res: "reserve_submit now i (db w) = (Inr v, d1)"
    using reserve_submit_signed [OF assms(3,4)] assms(5,6) by force
  obtain q w' where sub: "submit p now i w = (q, w')" by force
  from sub show ?thesis
  proof (cases rule: submit_cases)
    case (refused e)
    with assms(1,2) res show ?thesis by simp
  next
    case (reserved a' r' sig' d2 ps)
    with assms have eq: "a' = a" "r' = r" "sig' = sig" by auto
    from reserved(10) eq sub
      record_outcome_status [OF reserved(7), of "create a (document_type r) (row_document_base64 r) sig"]
      document_taken_step [OF reserved(6)] assms(7) reserved(8)
    show ?thesis by simp
  qed
qed

text \<open>C17: preparing the same business operation again with the same document returns the stored
  operation and adds no row; with another document or number it is a conflict and changes nothing.\<close>

theorem prepare_is_idempotent:
  assumes "prepare now ev dec t why g inn doc d = (Inr v, d1)"
    and "check_prepare dec t why g inn' doc' = Inr ()"
  shows "(if sha256 doc' = sha256 doc \<and> product_document_base64 doc' = product_document_base64 doc \<and> inn' = inn
     then fst (prepare now' ev dec t why g inn' doc' d1) = Inr v
       \<and> operations (snd (prepare now' ev dec t why g inn' doc' d1)) = operations d1
     else prepare now' ev dec t why g inn' doc' d1 = (Inl ReplayConflict, d1))"
proof -
  let ?fp = "fingerprint ev dec t why g"
  obtain q where q: "lookup_row business_fingerprint ?fp (operations d1) = Some q"
    "document_sha256 q = sha256 doc" "row_document_base64 q = product_document_base64 doc"
    "expected_inn q = inn" "v = record_of q"
    using prepared_row [OF assms(1)] .
  have "business_fingerprint (new_row (now' 0) ?fp ev dec t why g inn' doc') = ?fp"
    "expected_inn (new_row (now' 0) ?fp ev dec t why g inn' doc') = inn'"
    by (simp_all add: new_row_def)
  with q prepare_txn_known [of "new_row (now' 0) ?fp ev dec t why g inn' doc'" d1 q now' doc'] assms(2)
  show ?thesis by (auto simp: prepare_def op_defs Let_def)
qed

lemma prepare_is_idempotent_witness:
  "fst (prepare demo_now ''event'' READY_TO_WITHDRAW ''LK_RECEIPT'' ''DISTANCE'' ''lp'' ''7707083893''
     demo_document demo_prepared) = Inr (record_of demo_row)"
  using prepare_is_idempotent [OF demo_prepare(1) demo_check, of demo_now] by simp

lemma submit_signed_operation_witness:
  "write_status (db demo_submitted) demo_id = Some W_SUBMITTED \<and> length (posts demo_submitted) = 1"
proof -
  have "write_status (db demo_submitted) demo_id
      = Some (outcome_state (create demo_adapter ''LK_RECEIPT'' (b64encode ''{}'') (b64encode ''sig'')))
    \<and> posts demo_submitted = posts demo_world @
        (case create_request ''LK_RECEIPT'' (b64encode ''{}'') (b64encode ''sig'') of
           Inl _ \<Rightarrow> [] | Inr req \<Rightarrow> [(demo_id, req)])"
    using submit_signed_operation [of demo_pipeline demo_adapter demo_world demo_id demo_signed_row
        "b64encode ''sig''" demo_now] demo_signed_find
    by (simp add: demo_submitted_def demo_pipeline_def demo_world_def document_taken_def demo_accept
        del: b64encode.simps)
  then show ?thesis
    by (simp add: demo_create outcome_state_def submit_target_def demo_world_def del: b64encode.simps)
qed

end
