(* ===== verification/AgentBroker.thy ===== *)
theory AgentBroker
  imports AgentExecutor WritePipeline
begin

text \<open>
  The server side of the agent (\<open>wbcz/windows_agent.py\<close>, \<open>VpsAgentBroker\<close>) and one polling iteration
  of the outbound agent against it (\<open>WindowsOutboundAgent.run_once\<close>). The broker owns two databases,
  the write operations and the table of jobs; each of its methods is a sequence of their transactions,
  so what was committed stays when a later one raises.
\<close>

section \<open>The broker\<close>

record broker =
  broker_writes :: write_db
  broker_jobs :: job_table

record broker_config =
  bk_inn :: pystr
  bk_token :: pystr
  bk_validator :: payload_validator

type_synonym 'a broker_op = "(broker, agent_error, 'a) op"

definition on_writes :: "'a store_op \<Rightarrow> 'a broker_op" where
  "on_writes m b = (case m (broker_writes b) of (r, d) \<Rightarrow> (map_error AgentStore r, b\<lparr>broker_writes := d\<rparr>))"

definition on_jobs :: "'a job_txn \<Rightarrow> 'a broker_op" where
  "on_jobs m b = (case m (broker_jobs b) of
     Inl e \<Rightarrow> (Inl e, b) | Inr (x, d) \<Rightarrow> (Inr x, b\<lparr>broker_jobs := d\<rparr>))"

definition broker_job_id :: "job_type \<Rightarrow> pystr \<Rightarrow> pystr \<Rightarrow> pystr" where
  "broker_job_id t i seed =
     ''job_'' @ take 32 (sha256_hex (utf8 (''p0-agent:v1:'' @ t @ '':'' @ i @ '':'' @ seed)))"

definition write_job :: "signing_request_data \<Rightarrow> pystr \<Rightarrow> agent_job" where
  "write_job q i =
     \<lparr>job_id = broker_job_id (request_document_type q) i (request_sha256 q),
      job_type = request_document_type q, job_operation = i, job_pg = request_pg q,
      job_inn = request_expected_inn q, job_document_type = Some (request_document_type q),
      job_sha256 = Some (request_sha256 q), job_base64 = Some (request_document_base64 q), job_cises = [],
      job_document_id = None, job_payload = None\<rparr>"

definition queue_write :: "broker_config \<Rightarrow> pystr \<Rightarrow> pystr \<Rightarrow> agent_job broker_op" where
  "queue_write k now i =
     seq (on_writes (signing_request i)) (\<lambda>q.
       if request_document_type q \<notin> set agent_job_types
       then raise (AgentValue (request_document_type q @ '' is not a valid AgentJobType''))
       else on_jobs (enqueue (bk_validator k) now (write_job q i)))"

definition cis_job :: "pystr \<Rightarrow> pystr \<Rightarrow> pystr list \<Rightarrow> agent_job" where
  "cis_job own i cs =
     \<lparr>job_id = broker_job_id ''CIS_CHECK'' i (sha256_hex (utf8 (canonical_json (str_list cs)))),
      job_type = ''CIS_CHECK'', job_operation = i, job_pg = ''lp'', job_inn = own,
      job_document_type = None, job_sha256 = None, job_base64 = None, job_cises = cs,
      job_document_id = None, job_payload = None\<rparr>"

definition queue_cis_check :: "broker_config \<Rightarrow> pystr \<Rightarrow> pystr \<Rightarrow> pystr list \<Rightarrow> agent_job broker_op" where
  "queue_cis_check k now i cs = on_jobs (enqueue (bk_validator k) now (cis_job (bk_inn k) i cs))"

definition poll_job :: "pystr \<Rightarrow> pystr \<Rightarrow> pystr \<Rightarrow> agent_job" where
  "poll_job own i doc =
     \<lparr>job_id = broker_job_id ''POLL_DOCUMENT'' i doc, job_type = ''POLL_DOCUMENT'', job_operation = i,
      job_pg = ''lp'', job_inn = own, job_document_type = None, job_sha256 = None, job_base64 = None,
      job_cises = [], job_document_id = Some doc, job_payload = None\<rparr>"

definition queue_poll :: "broker_config \<Rightarrow> pystr \<Rightarrow> pystr \<Rightarrow> pystr \<Rightarrow> agent_job broker_op" where
  "queue_poll k now i doc = on_jobs (enqueue (bk_validator k) now (poll_job (bk_inn k) i doc))"

definition broker_fetch :: "broker_config \<Rightarrow> pystr \<Rightarrow> pystr option \<Rightarrow> agent_job option broker_op" where
  "broker_fetch k now token =
     seq (lift (verify_token (bk_token k) token)) (\<lambda>_. on_jobs (fetch_job now))"

section \<open>Applying a result\<close>

definition create_categories :: "create_category list" where
  "create_categories = [C_SUCCESS_WITH_ID, C_SUCCESS_CONTRACT_UNCONFIRMED, C_BAD_REQUEST, C_UNAUTHORIZED,
     C_FORBIDDEN, C_UNPROCESSABLE, C_SERVER_ERROR, C_HTTP_ERROR]"

definition read_category :: "pystr \<Rightarrow> create_category option" where
  "read_category s = find (\<lambda>c. category_value c = s) create_categories"

definition signature_of :: "agent_result \<Rightarrow> signing_response" where
  "signature_of r =
     \<lparr>response_operation_id = res_operation r, response_sha256 = the (res_sha256 r),
      response_signature = the (res_signature r), response_thumbprint = res_thumbprint r,
      response_subject = res_subject r, response_inn = res_inn r,
      response_valid_from = res_valid_from r, response_valid_to = res_valid_to r\<rparr>"

definition created_of :: "create_category \<Rightarrow> agent_result \<Rightarrow> create_result" where
  "created_of c r =
     \<lparr>category = c, http_status = (case res_http r of None \<Rightarrow> 0 | Some h \<Rightarrow> h),
      result_document_id = res_document_id r,
      body_sha256 = or_else (res_body_sha256 r) (sha256_hex []), content_type = None\<rparr>"

text \<open>The three stages of \<open>_apply_write_result\<close>; each reads the operation again.\<close>

definition apply_signature :: "broker_config \<Rightarrow> (nat \<Rightarrow> pystr) \<Rightarrow> agent_result \<Rightarrow> operation_record
    \<Rightarrow> operation_record broker_op" where
  "apply_signature k now r v =
     (if rec_state v \<noteq> W_AWAITING_SIGNATURE then ret v
      else if \<not> (truthy (res_sha256 r) \<and> truthy (res_signature r))
      then raise (AgentReplay ''write result misses signature/hash'')
      else seq (on_writes (accept_signature now (signature_of r) (bk_inn k)))
             (\<lambda>_. on_writes (get (res_operation r))))"

definition apply_reserve :: "(nat \<Rightarrow> pystr) \<Rightarrow> agent_result \<Rightarrow> operation_record \<Rightarrow> operation_record broker_op" where
  "apply_reserve now r v =
     (if rec_state v \<noteq> W_SIGNED then ret v
      else seq (on_writes (reserve_submit now (res_operation r)))
             (\<lambda>_. on_writes (get (res_operation r))))"

definition settled_states :: "write_state list" where
  "settled_states = [W_SUBMITTED, W_PROCESSING, W_RECONCILIATION_REQUIRED, W_SUCCEEDED, W_FAILED, W_MANUAL_REVIEW]"

definition apply_created :: "(nat \<Rightarrow> pystr) \<Rightarrow> agent_result \<Rightarrow> operation_record \<Rightarrow> unit broker_op" where
  "apply_created now r v =
     (if rec_state v = W_SUBMITTING then
        (case read_category (or_else (res_category r) []) of
           None \<Rightarrow> raise (AgentReplay ''unknown create result category'')
         | Some c \<Rightarrow> seq (on_writes (complete_submit now (res_operation r) (created_of c r))) (\<lambda>_. ret ()))
      else if rec_state v \<notin> set settled_states
      then raise (AgentReplay (''unexpected operation state '' @ write_state_value (rec_state v)))
      else ret ())"

definition apply_write_result :: "broker_config \<Rightarrow> (nat \<Rightarrow> pystr) \<Rightarrow> agent_result \<Rightarrow> unit broker_op" where
  "apply_write_result k now r =
     seq (on_writes (get (res_operation r))) (\<lambda>v.
     seq (apply_signature k now r v) (\<lambda>v'.
     seq (apply_reserve (later 2 now) r v') (apply_created (later 4 now) r)))"

definition apply_poll_result :: "(nat \<Rightarrow> pystr) \<Rightarrow> agent_result \<Rightarrow> unit broker_op" where
  "apply_poll_result now r =
     seq (on_writes (get (res_operation r))) (\<lambda>v.
       if rec_state v \<in> {W_SUBMITTED, W_PROCESSING}
       then seq (on_writes (apply_poll_status now (res_operation r) (res_remote_status r) (res_http r)
                   (res_body_sha256 r))) (\<lambda>_. ret ())
       else ret ())"

text \<open>The operation is moved before the job is looked at.\<close>

definition apply_result :: "broker_config \<Rightarrow> (nat \<Rightarrow> pystr) \<Rightarrow> agent_result \<Rightarrow> unit broker_op" where
  "apply_result k now r =
     (if res_category r \<noteq> None then apply_write_result k now r
      else if res_remote_status r \<noteq> None \<or> res_error_code r = Some ''POLL_HTTP_ERROR''
      then apply_poll_result now r
      else ret ())"

definition submit_result :: "broker_config \<Rightarrow> (nat \<Rightarrow> pystr) \<Rightarrow> pystr option \<Rightarrow> agent_result \<Rightarrow> unit broker_op" where
  "submit_result k now token r =
     seq (lift (verify_token (bk_token k) token)) (\<lambda>_.
     seq (apply_result k now r) (\<lambda>_.
       on_jobs (complete_job (now 6) r)))"

section \<open>One iteration of the outbound agent\<close>

record system =
  sys_broker :: broker
  sys_agent :: agent_world

definition on_broker :: "'a broker_op \<Rightarrow> (system, agent_error, 'a) op" where
  "on_broker m s = (case m (sys_broker s) of (r, b) \<Rightarrow> (r, s\<lparr>sys_broker := b\<rparr>))"

definition run_once :: "broker_config \<Rightarrow> agent_config \<Rightarrow> (nat \<Rightarrow> pystr) \<Rightarrow> (nat \<Rightarrow> pystr) \<Rightarrow> pystr
    \<Rightarrow> (system, agent_error, bool) op" where
  "run_once k c now clock token =
     seq (on_broker (broker_fetch k (now 0) (Some token))) (\<lambda>fetched.
       case fetched of None \<Rightarrow> ret False
       | Some j \<Rightarrow>
           seq (\<lambda>s. case run_job c clock j (sys_agent s) of (r, w) \<Rightarrow> (Inr r, s\<lparr>sys_agent := w\<rparr>)) (\<lambda>r.
           seq (on_broker (submit_result k (later 1 now) (Some token) r)) (\<lambda>_. ret True)))"

section \<open>What a step of the broker does\<close>

lemma seq_step [simp]:
  "m s = (Inr x, u) \<Longrightarrow> seq m f s = f x u" "m s = (Inl e, u) \<Longrightarrow> seq m f s = (Inl e, u)"
  by (simp_all add: seq_def)

lemma on_writes_Inr: "on_writes m b = (Inr x, b') \<longleftrightarrow>
    (\<exists>d. m (broker_writes b) = (Inr x, d) \<and> b' = b\<lparr>broker_writes := d\<rparr>)"
  by (auto simp: on_writes_def split: prod.splits)

lemma on_jobs_Inr: "on_jobs m b = (Inr x, b') \<longleftrightarrow>
    (\<exists>d. m (broker_jobs b) = Inr (x, d) \<and> b' = b\<lparr>broker_jobs := d\<rparr>)"
  by (auto simp: on_jobs_def split: sum.splits)

lemma get_Inr: "get i d = (Inr v, d') \<longleftrightarrow> (\<exists>q. find_operation d i = Some q \<and> v = record_of q \<and> d' = d)"
  by (auto simp: get_def split: option.splits)

lemma rec_state_of [simp]: "rec_state (record_of q) = row_state q"
  by (simp add: record_of_def)

lemma on_get: "find_operation (broker_writes b) i = Some q \<Longrightarrow> on_writes (get i) b = (Inr (record_of q), b)"
  by (simp add: on_writes_def get_def)

lemma settled_not_early: "s \<in> set settled_states \<Longrightarrow>
    s \<noteq> W_AWAITING_SIGNATURE \<and> s \<noteq> W_SIGNED \<and> s \<noteq> W_SUBMITTING"
  by (auto simp: settled_states_def)

text \<open>A result of a settled operation is accepted and ignored.\<close>

lemma apply_write_settled:
  assumes "find_operation (broker_writes b) (res_operation r) = Some q" and "row_state q \<in> set settled_states"
  shows "apply_write_result k now r b = (Inr (), b)"
  using assms settled_not_early [OF assms(2)]
  by (simp add: apply_write_result_def on_get apply_signature_def apply_reserve_def apply_created_def ret_def seq_def)

lemma complete_submit_Inr:
  assumes "complete_submit now i res d = (Inr v, d')"
  obtains q t where "find_operation d i = Some q" "submit_target res = Inr t"
    "find_operation d' i = Some (result_row now res t q)"
proof -
  obtain u where c: "complete_txn now i res d = Inr (u, d')"
    using assms by (auto simp: complete_submit_def commit_def seq_def get_Inr split: sum.splits prod.splits)
  then show ?thesis
    by (rule complete_txn_Inr) (auto simp: find_set_row keeps_frozen_result intro: that)
qed

lemma apply_created_settles:
  assumes "apply_created now r v b = (Inr (), b')" and "get (res_operation r) (broker_writes b) = (Inr v, d)"
  shows "\<exists>q. find_operation (broker_writes b') (res_operation r) = Some q \<and> row_state q \<in> set settled_states"
proof (cases "rec_state v = W_SUBMITTING")
  case True
  then obtain c v' d' where "complete_submit now (res_operation r) (created_of c r) (broker_writes b) = (Inr v', d')"
      "b' = b\<lparr>broker_writes := d'\<rparr>"
    using assms(1) by (auto simp: apply_created_def raise_def ret_def seq_Inr on_writes_Inr split: option.splits)
  then show ?thesis
    by (auto elim!: complete_submit_Inr dest!: submit_target_range simp: result_row_def settled_states_def)
next
  case False
  with assms show ?thesis
    by (auto simp: apply_created_def raise_def ret_def get_Inr split: if_splits)
qed

text \<open>Each stage leaves the record of the operation it read last.\<close>

lemma stage_record:
  assumes "get i (broker_writes b) = (Inr v, d)" and "(if c then ret v else seq m (\<lambda>_. on_writes (get i))) b = (Inr v', b')"
  shows "get i (broker_writes b') = (Inr v', broker_writes b')"
  using assms by (auto simp: ret_def seq_Inr on_writes_Inr get_Inr split: if_splits)

lemma apply_write_result_settles:
  assumes "apply_write_result k now r b = (Inr (), b')"
  shows "\<exists>q. find_operation (broker_writes b') (res_operation r) = Some q \<and> row_state q \<in> set settled_states"
proof -
  let ?i = "res_operation r"
  obtain v v1 v2 b1 b2 where v: "get ?i (broker_writes b) = (Inr v, broker_writes b)"
    and s: "apply_signature k now r v b = (Inr v1, b1)"
    and t: "apply_reserve (later 2 now) r v1 b1 = (Inr v2, b2)"
    and u: "apply_created (later 4 now) r v2 b2 = (Inr (), b')"
    using assms by (auto simp: apply_write_result_def seq_Inr on_writes_Inr get_Inr)
  have "get ?i (broker_writes b1) = (Inr v1, broker_writes b1)"
    using v s by (auto simp: apply_signature_def raise_def split: if_splits intro: stage_record [of ?i b v "broker_writes b" False]
        simp: ret_def)
  then have "get ?i (broker_writes b2) = (Inr v2, broker_writes b2)"
    using t unfolding apply_reserve_def by (rule stage_record)
  with u show ?thesis by (rule apply_created_settles)
qed

lemma complete_job_again: "complete_job now r d = Inr ((), d') \<Longrightarrow> complete_job now' r d' = Inr ((), d')"
  by (auto simp: complete_job_def lookup_changed finish_row_def split: option.splits if_splits)

section \<open>Every call is a run of transactions\<close>

definition broker_runs :: "broker \<Rightarrow> broker \<Rightarrow> bool" where
  "broker_runs b c \<longleftrightarrow> store_step\<^sup>*\<^sup>* (broker_writes b) (broker_writes c) \<and> job_step\<^sup>*\<^sup>* (broker_jobs b) (broker_jobs c)"

named_theorems runs_rules \<open>calls that are runs of transactions\<close>

lemma broker_runs_refl [simp, runs_rules]: "broker_runs b b"
  by (simp add: broker_runs_def)

lemma broker_runs_trans: "broker_runs a b \<Longrightarrow> broker_runs b c \<Longrightarrow> broker_runs a c"
  by (auto simp: broker_runs_def)

lemma seq_runs:
  assumes "\<And>b. broker_runs b (snd (m b))" and "\<And>x b. broker_runs b (snd (f x b))"
  shows "broker_runs b (snd (seq m f b))"
proof (cases "m b")
  case (Pair v c)
  with assms(1) [of b] have "broker_runs b c" by simp
  with Pair show ?thesis
    by (cases v) (auto simp: seq_def intro: broker_runs_trans assms(2))
qed

lemma still_runs [simp, runs_rules]:
  "broker_runs b (snd (ret x b))" "broker_runs b (snd (raise e b))" "broker_runs b (snd (lift v b))"
  by (simp_all add: op_defs)

lemma on_writes_runs:
  "(\<And>d. store_step\<^sup>*\<^sup>* d (snd (m d))) \<Longrightarrow> broker_runs b (snd (on_writes m b))"
  by (simp add: broker_runs_def on_writes_def split: prod.splits) (metis snd_conv)

lemma on_jobs_runs:
  "(\<And>d x d'. m d = Inr (x, d') \<Longrightarrow> job_step d d') \<Longrightarrow> broker_runs b (snd (on_jobs m b))"
  by (auto simp: broker_runs_def on_jobs_def split: sum.splits)

lemma write_runs [runs_rules]:
  "broker_runs b (snd (on_writes (get i) b))"
  "broker_runs b (snd (on_writes (signing_request i) b))"
  "broker_runs b (snd (on_writes (accept_signature now p own) b))"
  "broker_runs b (snd (on_writes (reserve_submit now i) b))"
  "broker_runs b (snd (on_writes (complete_submit now i res) b))"
  "broker_runs b (snd (on_writes (apply_poll_status now i v h sha) b))"
  "broker_runs b (snd (on_writes (prepare now ev dec t why g inn doc) b))"
  "broker_runs b (snd (on_writes (reconciliation_result now i c ds) b))"
  "broker_runs b (snd (on_writes (mark_manual_review now i why) b))"
  by (rule on_writes_runs; simp add: signing_request_run accept_signature_run reserve_submit_run
      complete_submit_run apply_poll_status_run prepare_run mark_runs)+

lemma job_runs [runs_rules]:
  "broker_runs b (snd (on_jobs (enqueue validator t j) b))"
  "broker_runs b (snd (on_jobs (fetch_job t) b))"
  "broker_runs b (snd (on_jobs (complete_job t r) b))"
  by (rule on_jobs_runs; (rule job_enqueue job_fetch job_complete; simp))+

lemma if_runs [runs_rules]:
  "(p \<Longrightarrow> broker_runs b (snd (m b))) \<Longrightarrow> (\<not> p \<Longrightarrow> broker_runs b (snd (n b)))
     \<Longrightarrow> broker_runs b (snd ((if p then m else n) b))"
  by simp

lemma apply_result_runs: "broker_runs b (snd (apply_result k now r b))"
  unfolding apply_result_def apply_write_result_def apply_poll_result_def apply_signature_def
    apply_reserve_def apply_created_def
  by (intro seq_runs runs_rules) (auto split: option.splits intro!: seq_runs runs_rules)

text \<open>What may be called on the two databases, in any order: the broker's methods, and the preparation and the
  reconciliation of operations by the rest of the server.\<close>

inductive broker_call :: "broker \<Rightarrow> broker \<Rightarrow> bool" where
  call_prepare: "broker_call b (snd (on_writes (prepare now ev dec t why g inn doc) b))"
| call_reconcile: "broker_call b (snd (on_writes (reconciliation_result now i c ds) b))"
| call_review: "broker_call b (snd (on_writes (mark_manual_review now i why) b))"
| call_queue_write: "broker_call b (snd (queue_write k t i b))"
| call_queue_cis: "broker_call b (snd (queue_cis_check k t i cs b))"
| call_queue_poll: "broker_call b (snd (queue_poll k t i doc b))"
| call_fetch: "broker_call b (snd (broker_fetch k t token b))"
| call_submit: "broker_call b (snd (submit_result k now token r b))"

lemma broker_call_runs: "broker_call b c \<Longrightarrow> broker_runs b c"
proof (induction rule: broker_call.induct)
  case (call_submit b k now token r)
  then show ?case
    unfolding submit_result_def by (intro seq_runs runs_rules apply_result_runs)
qed (simp_all add: queue_write_def queue_cis_check_def queue_poll_def broker_fetch_def runs_rules seq_runs)

lemma broker_session_runs: "broker_call\<^sup>*\<^sup>* b c \<Longrightarrow> broker_runs b c"
  by (induction rule: rtranclp_induct) (auto dest: broker_call_runs intro: broker_runs_trans)

lemma apply_result_jobs: "apply_result k now r b = (v, b') \<Longrightarrow> broker_jobs b' = broker_jobs b"
  by (auto simp: apply_result_def apply_write_result_def apply_poll_result_def apply_signature_def
      apply_reserve_def apply_created_def seq_def on_writes_def ret_def raise_def
      split: prod.splits sum.splits if_splits option.splits)

section \<open>Settling an operation\<close>

lemma accept_signature_fresh:
  assumes "find_operation d (response_operation_id p) = Some q" and "row_state q = W_AWAITING_SIGNATURE"
    and "check_signature p own q = Inr sig"
  shows "\<exists>v d'. accept_signature now p own d = (Inr v, d')
    \<and> find_operation d' (response_operation_id p) = Some (sign_row now p sig q)
    \<and> (\<forall>doc. document_taken (response_operation_id p) doc d' = document_taken (response_operation_id p) doc d)"
proof -
  let ?i = "response_operation_id p"
  have i: "operation_id q = ?i" using find_Some [OF assms(1)] by simp
  obtain x d' where t: "signature_txn now p own d = Inr (None, d')"
      and o: "operations d' = update_rows operation_id ?i (sign_row now p sig) (operations d)"
      and f: "find_operation d' ?i = Some (sign_row now p sig q)"
    using assms i by (simp add: signature_txn_def row_txn_def find_set_row keeps_frozen_sign)
  have "map (\<lambda>r. (operation_id r, document_id r)) (operations d')
      = map (\<lambda>r. (operation_id r, document_id r)) (operations d)"
    unfolding o by (rule keys_update_rows) (simp add: sign_row_def)
  then have "\<forall>doc. document_taken ?i doc d' = document_taken ?i doc d"
    unfolding document_taken_pairs by (simp only:) simp
  with t f show ?thesis by (auto simp: accept_signature_def op_defs get_def)
qed

lemma complete_submit_free:
  assumes "find_operation d i = Some q" and "row_state q = W_SUBMITTING" and "submit_target res = Inr t"
    and "\<not> document_taken i (if t = W_SUBMITTED then result_document_id res else None) d"
  shows "\<exists>v d'. complete_submit now i res d = (Inr v, d') \<and> find_operation d' i = Some (result_row now res t q)"
  using assms
  by (simp add: complete_submit_def complete_txn_def op_defs row_txn_def get_def find_set_row keeps_frozen_result)

lemma check_signature_shape: "check_signature p own q = Inr sig \<Longrightarrow> sig \<noteq> [] \<and> response_signature p \<noteq> []"
  by (auto simp: check_signature_def validate_base64_ascii_def split: if_splits option.splits)

text \<open>The row an accepted create leaves, from the row that was waiting for a signature.\<close>

definition settled_row :: "(nat \<Rightarrow> pystr) \<Rightarrow> agent_result \<Rightarrow> create_category \<Rightarrow> pystr \<Rightarrow> write_state
    \<Rightarrow> operation_row \<Rightarrow> operation_row" where
  "settled_row now r c sig t q =
     result_row (later 4 now) (created_of c r) t
       ((sign_row now (signature_of r) sig q)\<lparr>row_state := W_SUBMITTING, updated_at := later 2 now 0\<rparr>)"

lemma apply_write_waiting:
  assumes q: "find_operation (broker_writes b) (res_operation r) = Some q" "row_state q = W_AWAITING_SIGNATURE"
    and sig: "truthy (res_sha256 r)" "truthy (res_signature r)"
      "check_signature (signature_of r) (bk_inn k) q = Inr sig"
    and c: "res_category r = Some s" "read_category s = Some c" "submit_target (created_of c r) = Inr t"
    and free: "\<not> document_taken (res_operation r) (if t = W_SUBMITTED then res_document_id r else None) (broker_writes b)"
  shows "\<exists>d. apply_write_result k now r b = (Inr (), b\<lparr>broker_writes := d\<rparr>)
    \<and> find_operation d (res_operation r) = Some (settled_row now r c sig t q)"
proof -
  let ?i = "res_operation r" and ?s = "sign_row now (signature_of r) sig q"
  have i: "response_operation_id (signature_of r) = ?i" by (simp add: signature_of_def)
  obtain v1 d1 where d1: "accept_signature now (signature_of r) (bk_inn k) (broker_writes b) = (Inr v1, d1)"
      "find_operation d1 ?i = Some ?s" "\<And>doc. document_taken ?i doc d1 = document_taken ?i doc (broker_writes b)"
    using accept_signature_fresh [of "broker_writes b" "signature_of r", unfolded i, OF q sig(3)] by blast
  have s: "row_state ?s = W_SIGNED" "truthy (signature_base64 ?s)"
    using check_signature_shape [OF sig(3)] by (simp_all add: sign_row_def)
  obtain v2 d2 where r2: "reserve_submit (later 2 now) ?i d1 = (Inr v2, d2)"
    using reserve_submit_signed [OF d1(2) s] by blast
  let ?u = "?s\<lparr>row_state := W_SUBMITTING, updated_at := later 2 now 0\<rparr>"
  have d2: "reserve_txn (later 2 now) ?i d1 = Inr ((), d2)" "find_operation d2 ?i = Some ?u" "v2 = record_of ?u"
    using r2 d1(2) by (auto elim: reserve_submit_Inr)
  have "\<not> document_taken ?i (if t = W_SUBMITTED then result_document_id (created_of c r) else None) d2"
    using free document_taken_step [OF d2(1)] d1(3) by (auto simp: created_of_def split: if_splits)
  then obtain v3 d3 where d3: "complete_submit (later 4 now) ?i (created_of c r) d2 = (Inr v3, d3)"
      "find_operation d3 ?i = Some (result_row (later 4 now) (created_of c r) t ?u)"
    using complete_submit_free [OF d2(2) _ c(3), of "later 4 now"] by auto
  have "rec_state (record_of ?u) = W_SUBMITTING" by simp
  have "or_else (Some s) [] = s" by (simp add: or_else_def)
  with q d1 r2 d2 d3 s sig c have "apply_write_result k now r b = (Inr (), b\<lparr>broker_writes := d3\<rparr>)"
    by (simp add: apply_write_result_def apply_signature_def apply_reserve_def apply_created_def on_writes_def
        seq_def get_def ret_def raise_def)
  with d3(2) show ?thesis unfolding settled_row_def by blast
qed

lemma complete_open_job:
  assumes "lookup_row row_id (res_job r) d = Some p" and "job_operation (row_job p) = res_operation r"
    and "row_job_state p \<noteq> J_COMPLETED"
  shows "complete_job t r d = Inr ((), update_rows row_id (res_job r) (finish_row t r) d)"
  using assms by (simp add: complete_job_def)

section \<open>The properties of the broker\<close>

text \<open>C20: An authenticated result of a create, for an operation that waits for its signature and a job that is
  open, is accepted: the signature is stored, the submission is reserved and completed, the operation is in the
  state its category stands for, and the job is completed with this result.\<close>

theorem submit_result_settles:
  assumes "verify_token (bk_token k) token = Inr ()"
    and "find_operation (broker_writes b) (res_operation r) = Some q" and "row_state q = W_AWAITING_SIGNATURE"
    and "truthy (res_sha256 r)" and "truthy (res_signature r)"
    and "check_signature (signature_of r) (bk_inn k) q = Inr sig"
    and "res_category r = Some s" and "read_category s = Some c" and "submit_target (created_of c r) = Inr t"
    and "\<not> document_taken (res_operation r) (if t = W_SUBMITTED then res_document_id r else None) (broker_writes b)"
    and "lookup_row row_id (res_job r) (broker_jobs b) = Some p"
    and "job_operation (row_job p) = res_operation r" and "row_job_state p \<noteq> J_COMPLETED"
  shows "\<exists>b'. submit_result k now token r b = (Inr (), b')
    \<and> find_operation (broker_writes b') (res_operation r) = Some (settled_row now r c sig t q)
    \<and> lookup_row row_id (res_job r) (broker_jobs b') = Some (finish_row (now 6) r p)"
proof -
  obtain d where "apply_write_result k now r b = (Inr (), b\<lparr>broker_writes := d\<rparr>)"
      "find_operation d (res_operation r) = Some (settled_row now r c sig t q)"
    using apply_write_waiting [OF assms(2-10)] by blast
  with assms(1,7,11-13) show ?thesis
    by (simp add: submit_result_def apply_result_def seq_def lift_def on_jobs_def complete_open_job lookup_changed)
qed

text \<open>Reporting the same result of a create again changes nothing, whatever happened to the operation since.\<close>

theorem repeated_result_changes_nothing:
  assumes "submit_result k now token r b = (Inr (), b')" and "res_category r \<noteq> None"
  shows "submit_result k now' token r b' = (Inr (), b')"
proof -
  obtain b1 where v: "verify_token (bk_token k) token = Inr ()"
    and a: "apply_write_result k now r b = (Inr (), b1)"
    and j: "on_jobs (complete_job (now 6) r) b1 = (Inr (), b')"
    using assms by (auto simp: submit_result_def seq_Inr lift_def apply_result_def)
  obtain d where d: "complete_job (now 6) r (broker_jobs b1) = Inr ((), d)" "b' = b1\<lparr>broker_jobs := d\<rparr>"
    using j by (auto simp: on_jobs_Inr)
  have "apply_write_result k now' r b' = (Inr (), b')"
    using apply_write_result_settles [OF a] d(2) by (auto intro: apply_write_settled)
  with v d complete_job_again [OF d(1), of "now' 6"] assms(2) show ?thesis
    by (simp add: submit_result_def apply_result_def seq_def lift_def on_jobs_def)
qed

text \<open>C21: Whatever methods are called on the two databases, with whatever tokens and results, they keep their
  invariants: the write store its own, and the job table unique keys, digests of its payloads, and a result exactly
  on the completed rows.\<close>

theorem broker_invariant:
  assumes "broker_call\<^sup>*\<^sup>* \<lparr>broker_writes = empty_db, broker_jobs = []\<rparr> b"
  shows "store_ok (broker_writes b) \<and> jobs_ok (broker_jobs b)"
proof -
  have "store_step\<^sup>*\<^sup>* empty_db (broker_writes b)" "job_step\<^sup>*\<^sup>* [] (broker_jobs b)"
    using broker_session_runs [OF assms] by (simp_all add: broker_runs_def)
  then show ?thesis using job_run_ok [OF _ jobs_ok_Nil] by (simp add: store_run_ok [OF _ store_ok_empty])
qed

text \<open>C34: A poll result that the job table refuses (of an unknown job, of another operation, or contradicting the
  stored result) raises, but only after it has moved the operation: a terminal failure makes a submitted operation
  failed.\<close>

theorem refused_poll_result_moves_operation:
  assumes "verify_token (bk_token k) token = Inr ()" and "complete_job (now 6) r (broker_jobs b) = Inl e"
    and "res_category r = None" and "res_remote_status r = Some remote"
    and "classify_poll_status (Some remote) = P_TERMINAL_FAILURE"
    and "find_operation (broker_writes b) (res_operation r) = Some q" and "row_state q \<in> {W_SUBMITTED, W_PROCESSING}"
  shows "\<exists>b'. submit_result k now token r b = (Inl e, b') \<and> broker_jobs b' = broker_jobs b
    \<and> write_status (broker_writes b') (res_operation r) = Some W_FAILED"
proof -
  have "\<exists>v d. apply_poll_status now (res_operation r) (Some remote) (res_http r) (res_body_sha256 r) (broker_writes b)
      = (Inr v, d) \<and> write_status d (res_operation r) = Some W_FAILED"
    using assms(5-7)
    by (auto simp: apply_poll_status_def Let_def op_defs get_def transition_def transition_txn_def row_txn_def
        poll_target_def find_set_row keeps_frozen_state write_status_def)
  then obtain v d where "apply_poll_status now (res_operation r) (Some remote) (res_http r) (res_body_sha256 r)
      (broker_writes b) = (Inr v, d)" "write_status d (res_operation r) = Some W_FAILED" by blast
  with assms show ?thesis
    by (auto simp: submit_result_def apply_result_def apply_poll_result_def seq_def lift_def on_writes_def get_def
        on_jobs_def ret_def)
qed

section \<open>A job that raised\<close>

lemma fetched_row:
  assumes "fetch_job t d = Inr (Some j, d')" and "jobs_ok d"
  shows "\<exists>p. lookup_row row_id (job_id j) d' = Some p \<and> row_job p = j \<and> row_job_state p \<noteq> J_COMPLETED"
proof -
  obtain r where r: "first_row (open_rows d) = Some r" "j = row_job r"
    and d': "d' = (if row_job_state r = J_PENDING
      then update_rows row_id (row_id r) (\<lambda>q. q\<lparr>row_job_state := J_LEASED, row_changed := t\<rparr>) d else d)"
    using assms(1) by (auto simp: fetch_job_def split: option.splits)
  have "r \<in> set d" "row_job_state r \<noteq> J_COMPLETED" using first_row_in [OF r(1)] by (simp_all add: open_rows_def)
  moreover from this have "lookup_row row_id (row_id r) d = Some r"
    using assms(2) by (simp add: jobs_ok_def lookup_row_in)
  ultimately show ?thesis using r(2) d' by (auto simp: lookup_changed row_id_def [symmetric])
qed

lemma failed_result_fields [simp]:
  "res_job (failed_result j e) = job_id j" "res_operation (failed_result j e) = job_operation j"
  "res_category (failed_result j e) = None" "res_remote_status (failed_result j e) = None"
  "res_error_code (failed_result j e) = Some (exception_class e)"
  by (simp_all add: failed_result_def plain_result_def)

lemma completed_not_fetched:
  assumes "jobs_ok d" and "lookup_row row_id i d = Some q" and "row_job_state q = J_COMPLETED"
    and "fetch_job t d = Inr (Some g, d')"
  shows "job_id g \<noteq> i \<and> (job_type g, job_operation g) \<noteq> row_operation q"
proof -
  obtain r where "first_row (open_rows d) = Some r" and g: "g = row_job r"
    using assms(4) by (auto simp: fetch_job_def split: option.splits)
  then have r: "r \<in> set d" "row_job_state r \<noteq> J_COMPLETED"
    using first_row_in [of "open_rows d" r] by (simp_all add: open_rows_def)
  have q: "q \<in> set d" "row_id q = i" using lookup_row_Some [OF assms(2)] by simp_all
  have "r \<noteq> q" using r(2) assms(3) by blast
  then have "row_id r \<noteq> row_id q" "row_operation r \<noteq> row_operation q"
    using assms(1) r(1) q(1) unfolding jobs_ok_def distinct_map by (metis inj_onD)+
  with g q(2) show ?thesis by (simp add: row_id_def row_operation_def)
qed

lemma enqueue_completed:
  assumes "jobs_ok d" and "lookup_row row_id i d = Some q" and "validate_job v (row_job q) = Inr ()"
  shows "enqueue v t (row_job q) d = Inr (row_job q, d)"
proof -
  have q: "q \<in> set d" using lookup_row_Some [OF assms(2)] by simp
  then have "lookup_row row_operation (row_operation q) d = Some q" "job_row_ok q"
    using assms(1) lookup_row_in [of row_operation d q] by (simp_all add: jobs_ok_def)
  with assms(3) show ?thesis by (simp add: enqueue_def job_row_ok_def row_operation_def)
qed

text \<open>The row of a completed job stays out of every later delivery, whatever is called on the broker.\<close>

lemma completed_job_is_dead:
  assumes "broker_call\<^sup>*\<^sup>* b b'" and "jobs_ok (broker_jobs b)" and "lookup_row row_id i (broker_jobs b) = Some q"
    and "row_job_state q = J_COMPLETED"
  shows "jobs_ok (broker_jobs b')" "lookup_row row_id i (broker_jobs b') = Some q"
    and "broker_fetch k t token b' = (Inr (Some g), b'') \<Longrightarrow>
      job_id g \<noteq> i \<and> (job_type g, job_operation g) \<noteq> row_operation q"
proof -
  have run: "job_step\<^sup>*\<^sup>* (broker_jobs b) (broker_jobs b')"
    using broker_session_runs [OF assms(1)] by (simp add: broker_runs_def)
  show ok: "jobs_ok (broker_jobs b')" by (rule job_run_ok [OF run assms(2)])
  show q: "lookup_row row_id i (broker_jobs b') = Some q" by (rule job_completed_stays [OF run assms(2-4)])
  show "job_id g \<noteq> i \<and> (job_type g, job_operation g) \<noteq> row_operation q"
    if "broker_fetch k t token b' = (Inr (Some g), b'')"
    using that completed_not_fetched [OF ok q assms(4)] by (auto simp: broker_fetch_def seq_Inr lift_def on_jobs_Inr)
qed

text \<open>The iteration on a job that raises: the row of the job is finished, nothing else is touched.\<close>

lemma raised_iteration:
  assumes "broker_fetch k (now 0) (Some token) b = (Inr (Some j), b1)" and "jobs_ok (broker_jobs b)"
    and "(if job_type j = ''REPORT_DOWNLOAD'' then lift (ag_download c j) w else durable_execute c clock j w) = (Inl e, w')"
    and "exception_class e \<noteq> ''POLL_HTTP_ERROR''"
  shows "\<exists>b' q. run_once k c now clock token \<lparr>sys_broker = b, sys_agent = w\<rparr> =
      (Inr True, \<lparr>sys_broker = b', sys_agent = w'\<rparr>)
    \<and> broker_writes b' = broker_writes b \<and> jobs_ok (broker_jobs b')
    \<and> lookup_row row_id (job_id j) (broker_jobs b') = Some q \<and> row_job q = j \<and> row_job_state q = J_COMPLETED"
proof -
  have v: "verify_token (bk_token k) (Some token) = Inr ()" and f: "fetch_job (now 0) (broker_jobs b) = Inr (Some j, broker_jobs b1)"
    and b1: "broker_writes b1 = broker_writes b"
    using assms(1) by (auto simp: broker_fetch_def seq_Inr lift_def on_jobs_Inr)
  obtain p where p: "lookup_row row_id (job_id j) (broker_jobs b1) = Some p" "row_job p = j" "row_job_state p \<noteq> J_COMPLETED"
    using fetched_row [OF f assms(2)] by blast
  let ?r = "failed_result j e"
  let ?d = "update_rows row_id (job_id j) (finish_row (now 7) ?r) (broker_jobs b1)"
  let ?b = "b1\<lparr>broker_jobs := ?d\<rparr>"
  have s: "submit_result k (later 1 now) (Some token) ?r b1 = (Inr (), ?b)"
    using v p complete_open_job [of ?r "broker_jobs b1" p "now 7"] assms(4)
    by (simp add: submit_result_def seq_def lift_def apply_result_def ret_def on_jobs_def later_def)
  have "run_job c clock j w = (failed_result j e, w')" using assms(3) by (simp add: run_job_def)
  then have "run_once k c now clock token \<lparr>sys_broker = b, sys_agent = w\<rparr> = (Inr True, \<lparr>sys_broker = ?b, sys_agent = w'\<rparr>)"
    using assms(1) s by (simp add: run_once_def on_broker_def seq_def ret_def)
  moreover have "lookup_row row_id (job_id j) ?d = Some (finish_row (now 7) ?r p)" using p(1) by (simp add: lookup_changed)
  moreover have "jobs_ok ?d"
    using p complete_open_job [of ?r "broker_jobs b1" p "now 7"] job_step_ok [OF job_fetch [OF f] assms(2)]
    by (intro job_step_ok [of "broker_jobs b1" ?d]) (simp_all add: job_complete [where r = ?r])
  ultimately show ?thesis using b1 p(2)
    by (intro exI [of _ ?b] exI [of _ "finish_row (now 7) ?r p"]) (simp add: finish_row_def)
qed

text \<open>C37: When the agent raises on a job of any type (before or after the create was sent), with an exception
  whose class is not called \<open>POLL_HTTP_ERROR\<close>, the iteration completes the job and leaves every write operation
  as it was. After whatever is called on the broker later, the job is still completed, no fetch delivers it or
  another job of its type for its operation, and queueing the same payload answers with the completed job.\<close>

theorem raised_job_is_closed:
  assumes "broker_fetch k (now 0) (Some token) b = (Inr (Some j), b1)" and "jobs_ok (broker_jobs b)"
    and "(if job_type j = ''REPORT_DOWNLOAD'' then lift (ag_download c j) w else durable_execute c clock j w) = (Inl e, w')"
    and "exception_class e \<noteq> ''POLL_HTTP_ERROR''" and "validate_job (bk_validator k') j = Inr ()"
  shows "\<exists>b'. run_once k c now clock token \<lparr>sys_broker = b, sys_agent = w\<rparr> =
      (Inr True, \<lparr>sys_broker = b', sys_agent = w'\<rparr>)
    \<and> broker_writes b' = broker_writes b
    \<and> (\<forall>v. broker_call\<^sup>*\<^sup>* b' v \<longrightarrow> job_state_at (broker_jobs v) (job_id j) = Some J_COMPLETED
        \<and> (\<forall>h t tk g v'. broker_fetch h t tk v = (Inr (Some g), v') \<longrightarrow>
            job_id g \<noteq> job_id j \<and> (job_type g, job_operation g) \<noteq> (job_type j, job_operation j))
        \<and> (\<forall>t. on_jobs (enqueue (bk_validator k') t j) v = (Inr j, v)))"
proof -
  obtain b' q where run: "run_once k c now clock token \<lparr>sys_broker = b, sys_agent = w\<rparr> =
      (Inr True, \<lparr>sys_broker = b', sys_agent = w'\<rparr>)" "broker_writes b' = broker_writes b"
    and q: "jobs_ok (broker_jobs b')" "lookup_row row_id (job_id j) (broker_jobs b') = Some q"
      "row_job_state q = J_COMPLETED" and j: "row_job q = j"
    using raised_iteration [of k now token b j b1 c w clock e w', OF assms(1-4)] by blast
  have "job_state_at (broker_jobs v) (job_id j) = Some J_COMPLETED
      \<and> (\<forall>h t tk g v'. broker_fetch h t tk v = (Inr (Some g), v') \<longrightarrow>
          job_id g \<noteq> job_id j \<and> (job_type g, job_operation g) \<noteq> (job_type j, job_operation j))
      \<and> (\<forall>t. on_jobs (enqueue (bk_validator k') t j) v = (Inr j, v))" if v: "broker_call\<^sup>*\<^sup>* b' v" for v
  proof (intro conjI allI impI)
    note dead = completed_job_is_dead [OF v q]
    show "job_state_at (broker_jobs v) (job_id j) = Some J_COMPLETED"
      using dead(2) q(3) by (simp add: job_state_at_def)
    show "on_jobs (enqueue (bk_validator k') t j) v = (Inr j, v)" for t
      using enqueue_completed [OF dead(1,2)] assms(5) j by (simp add: on_jobs_def)
    show "job_id g \<noteq> job_id j" "(job_type g, job_operation g) \<noteq> (job_type j, job_operation j)"
      if "broker_fetch h t tk v = (Inr (Some g), v')" for h t tk g v'
      using dead(3) [OF that] j by (simp_all add: row_operation_def)
  qed
  with run show ?thesis by (intro exI [of _ b']) blast
qed

section \<open>A demonstration\<close>

definition broker_demo_config :: broker_config where
  "broker_demo_config = \<lparr>bk_inn = ''7707083893'', bk_token = ''0123456789abcdef'', bk_validator = (\<lambda>t w. Inr w)\<rparr>"

definition broker_demo_result :: agent_result where
  "broker_demo_result = (plain_result (demo_write_job\<lparr>job_operation := demo_id\<rparr>) ''SUBMITTED'')
     \<lparr>res_sha256 := Some (sha256_hex ''{}''), res_signature := Some (b64encode ''sig''), res_http := Some 201,
      res_category := Some ''SUCCESS_WITH_ID'', res_document_id := Some ''doc-1'', res_body_sha256 := Some ''aa''\<rparr>"

definition broker_demo :: broker where
  "broker_demo = \<lparr>broker_writes = demo_prepared,
     broker_jobs = [pending_row (demo_write_job\<lparr>job_operation := demo_id\<rparr>) ''t0'']\<rparr>"

lemma broker_demo_token: "verify_token (bk_token broker_demo_config) (Some ''0123456789abcdef'') = Inr ()"
  by (simp add: broker_demo_config_def verify_token_def isascii_def code_def)

lemma broker_demo_fields [simp]:
  "res_operation broker_demo_result = demo_id" "res_job broker_demo_result = ''job_1''"
  "res_sha256 broker_demo_result = Some (sha256_hex ''{}'')"
  "res_signature broker_demo_result = Some (b64encode ''sig'')"
  "res_category broker_demo_result = Some ''SUCCESS_WITH_ID''" "res_document_id broker_demo_result = Some ''doc-1''"
  "broker_writes broker_demo = demo_prepared"
  "signature_of broker_demo_result = demo_response" "bk_inn broker_demo_config = ''7707083893''"
  by (simp_all add: broker_demo_result_def plain_result_def demo_write_job_def broker_demo_def signature_of_def
      demo_response_def broker_demo_config_def del: b64encode.simps)

lemma broker_demo_accepts:
  "check_signature demo_response ''7707083893'' demo_row = Inr (b64encode ''sig'')"
  "read_category ''SUCCESS_WITH_ID'' = Some C_SUCCESS_WITH_ID"
  "submit_target (created_of C_SUCCESS_WITH_ID broker_demo_result) = Inr W_SUBMITTED"
  "\<not> document_taken demo_id (Some ''doc-1'') demo_prepared"
  "lookup_row row_id ''job_1'' (broker_jobs broker_demo) = Some (pending_row (demo_write_job\<lparr>job_operation := demo_id\<rparr>) ''t0'')"
  using validate_base64_encoded [of "''sig''"]
  by (simp_all add: check_signature_def demo_response_def allowed_document_types_def read_category_def
      create_categories_def category_value_def submit_target_def created_of_def document_taken_def demo_prepare
      broker_demo_def demo_write_job_def)

lemma submit_result_settles_witness:
  "\<exists>b'. submit_result broker_demo_config demo_now (Some ''0123456789abcdef'') broker_demo_result broker_demo = (Inr (), b')
    \<and> write_status (broker_writes b') demo_id = Some W_SUBMITTED"
proof -
  obtain b' where "submit_result broker_demo_config demo_now (Some ''0123456789abcdef'') broker_demo_result broker_demo = (Inr (), b')"
      "find_operation (broker_writes b') demo_id =
         Some (settled_row demo_now broker_demo_result C_SUCCESS_WITH_ID (b64encode ''sig'') W_SUBMITTED demo_row)"
    using submit_result_settles [OF broker_demo_token, of broker_demo broker_demo_result demo_row
        "b64encode ''sig''" "''SUCCESS_WITH_ID''" C_SUCCESS_WITH_ID W_SUBMITTED
        "pending_row (demo_write_job\<lparr>job_operation := demo_id\<rparr>) ''t0''" demo_now] broker_demo_accepts
    by (auto simp: demo_find pending_row_def simp del: b64encode.simps)
  then show ?thesis by (auto simp: write_status_def settled_row_def result_row_def)
qed

lemma repeated_result_changes_nothing_witness:
  "\<exists>b'. submit_result broker_demo_config demo_now (Some ''0123456789abcdef'') broker_demo_result b' = (Inr (), b')"
proof -
  obtain d where "apply_write_result broker_demo_config demo_now broker_demo_result broker_demo
      = (Inr (), broker_demo\<lparr>broker_writes := d\<rparr>)"
    using apply_write_waiting [of broker_demo broker_demo_result demo_row broker_demo_config
        "b64encode ''sig''" "''SUCCESS_WITH_ID''" C_SUCCESS_WITH_ID W_SUBMITTED demo_now] broker_demo_accepts
    by (auto simp: demo_find simp del: b64encode.simps)
  then obtain b' where "submit_result broker_demo_config demo_now (Some ''0123456789abcdef'') broker_demo_result broker_demo = (Inr (), b')"
    using broker_demo_token complete_open_job [of broker_demo_result "broker_jobs broker_demo"] broker_demo_accepts(5)
    by (simp add: submit_result_def apply_result_def seq_def lift_def on_jobs_def pending_row_def)
  from repeated_result_changes_nothing [OF this, of demo_now] show ?thesis by auto
qed

lemma broker_invariant_witness:
  "jobs_ok (broker_jobs (snd (queue_poll broker_demo_config ''t0'' ''op'' ''doc''
     \<lparr>broker_writes = empty_db, broker_jobs = []\<rparr>)))"
proof -
  have "broker_call\<^sup>*\<^sup>* \<lparr>broker_writes = empty_db, broker_jobs = []\<rparr>
      (snd (queue_poll broker_demo_config ''t0'' ''op'' ''doc'' \<lparr>broker_writes = empty_db, broker_jobs = []\<rparr>))"
    by (rule r_into_rtranclp) (rule call_queue_poll)
  from broker_invariant [OF this] show ?thesis by blast
qed

lemma refused_poll_result_moves_operation_witness:
  "\<exists>b. write_status (broker_writes b) demo_id = Some W_SUBMITTED \<and> (\<exists>b' r. res_operation r = demo_id
     \<and> submit_result broker_demo_config demo_now (Some ''0123456789abcdef'') r b = (Inl AgentKeyMissing, b')
     \<and> write_status (broker_writes b') demo_id = Some W_FAILED)"
proof -
  let ?b = "\<lparr>broker_writes = db demo_submitted, broker_jobs = []\<rparr>"
  let ?r = "(plain_result (demo_poll_job\<lparr>job_operation := demo_id\<rparr>) ''FAILED'')\<lparr>res_remote_status := Some ''CHECKED_NOT_OK''\<rparr>"
  have r: "res_operation ?r = demo_id" by (simp add: plain_result_def)
  obtain q where q: "find_operation (db demo_submitted) demo_id = Some q" "row_state q = W_SUBMITTED"
    using demo_submit_world(2) by (auto simp: write_status_def)
  have "classify_poll_status (Some ''CHECKED_NOT_OK'') = P_TERMINAL_FAILURE" by code_simp
  then obtain b' where "submit_result broker_demo_config demo_now (Some ''0123456789abcdef'') ?r ?b = (Inl AgentKeyMissing, b')"
      "write_status (broker_writes b') (res_operation ?r) = Some W_FAILED"
    using refused_poll_result_moves_operation [OF broker_demo_token, of demo_now ?r ?b AgentKeyMissing "''CHECKED_NOT_OK''" q] q r
    by (auto simp: complete_job_def plain_result_def)
  with r demo_submit_world(2) show ?thesis
    by (intro exI [of _ ?b] conjI exI [of _ b'] exI [of _ ?r]) simp_all
qed

lemma raised_job_is_closed_witness:
  "\<exists>b'. run_once broker_demo_config demo_config demo_now demo_clock ''0123456789abcdef''
      \<lparr>sys_broker = \<lparr>broker_writes = empty_db, broker_jobs = [pending_row demo_poll_job ''t0'']\<rparr>, sys_agent = no_calls\<rparr>
      = (Inr True, \<lparr>sys_broker = b', sys_agent = no_calls\<rparr>)
    \<and> (\<forall>v g v'. broker_call\<^sup>*\<^sup>* b' v \<longrightarrow>
        broker_fetch broker_demo_config ''t9'' (Some ''0123456789abcdef'') v = (Inr (Some g), v') \<longrightarrow> job_id g \<noteq> ''job_1'')"
proof -
  let ?b = "\<lparr>broker_writes = empty_db, broker_jobs = [pending_row demo_poll_job ''t0'']\<rparr>"
  obtain b1 where f: "broker_fetch broker_demo_config (demo_now 0) (Some ''0123456789abcdef'') ?b = (Inr (Some demo_poll_job), b1)"
    using broker_demo_token
    by (simp add: broker_fetch_def seq_def lift_def on_jobs_def fetch_job_def open_rows_def pending_row_def)
  have ok: "jobs_ok (broker_jobs ?b)" by (simp add: jobs_ok_def)
  have v: "validate_job (bk_validator broker_demo_config) demo_poll_job = Inr ()"
    "(if job_type demo_poll_job = ''REPORT_DOWNLOAD'' then lift (ag_download demo_config demo_poll_job) no_calls
      else durable_execute demo_config demo_clock demo_poll_job no_calls) = (Inl AgentAssertion, no_calls)"
    "job_id demo_poll_job = ''job_1''" "exception_class AgentAssertion \<noteq> ''POLL_HTTP_ERROR''"
    by code_simp+
  show ?thesis
    using raised_job_is_closed [where now = demo_now, OF f ok v(2,4,1)] unfolding v(3) by blast
qed

end
