(* ===== verification/PrintSpooler.thy ===== *)
theory PrintSpooler
  imports Codecs
begin

text \<open>
  The GDI raster spooler of \<open>wbcz/physical_printing.py\<close>: the checks on the driver's DEVMODE, the checks
  on the device context, the conversion of the raster to bottom-up BGR rows, the calls from
  \<open>StartDoc\<close> to \<open>EndDoc\<close>, and the status flags of a spool job. Windows is an argument: what the driver
  answers, and what each GDI call answers or raises. Pixels are bytes, so the integers the
  code computes with them are at their width; row sizes are Python integers.
\<close>

section \<open>Errors\<close>

datatype print_error =
    PhysicalError pystr
  | PhysicalSecurity pystr
  | ReplayBlocked pystr
  | PreSpoolFailure pystr
  | AfterSpool pystr "int option"
  | PrintContract pystr
  | PrintSecurity pystr
  | ProfileContract pystr
  | PrintValue pystr
  | PrintForeign pystr

section \<open>The raster\<close>

record raster_image =
  img_width :: nat
  img_height :: nat
  img_bpp :: nat
  img_pixels :: bytes

record label_raster =
  lab_image :: raster_image
  lab_payload_sha256 :: pystr
  lab_layout_sha256 :: pystr
  lab_dpi :: int
  lab_offset_x :: int
  lab_offset_y :: int
  lab_printable_width :: int
  lab_printable_height :: int

fun swap_pixels :: "bytes \<Rightarrow> bytes" where
  "swap_pixels (r # g # b # rest) = b # g # r # swap_pixels rest"
| "swap_pixels rest = rest"

definition row_stride :: "nat \<Rightarrow> nat" where
  "row_stride row = nat ((int row + 3) AND NOT 3)"

definition row_at :: "nat \<Rightarrow> bytes \<Rightarrow> nat \<Rightarrow> bytes" where
  "row_at n pixels y = take n (drop (y * n) pixels)"

definition bgr_bottom_up :: "raster_image \<Rightarrow> print_error + bytes \<times> nat" where
  "bgr_bottom_up m =
     (if img_bpp m \<noteq> 24 \<or> length (img_pixels m) \<noteq> img_width m * img_height m * 3
      then Inl (PreSpoolFailure ''FINAL_RASTER_INVALID'')
      else let row = img_width m * 3; stride = row_stride row; padding = replicate (stride - row) (CHR 0x00) in
        Inr (concat (map (\<lambda>y. swap_pixels (row_at row (img_pixels m) y) @ padding) (rev [0..<img_height m])),
             stride))"

section \<open>The DEVMODE of the driver\<close>

record devmode =
  dm_size :: int
  dm_driver_extra :: int
  dm_fields :: u32
  dm_copies :: int
  dm_scale :: int
  dm_nup :: u32

record devmode_driver =
  drv_open :: bool
  drv_size :: int
  drv_read :: "int \<times> devmode"
  drv_merge :: "devmode \<Rightarrow> int \<times> devmode"

record valid_devmode =
  vd_devmode :: devmode
  vd_size :: int
  vd_copies :: int
  vd_scale :: "int option"

definition DM_SCALE :: u32 where "DM_SCALE = 0x10"

definition DM_NUP :: u32 where "DM_NUP = 0x40"

definition DM_COPIES :: u32 where "DM_COPIES = 0x100"

text \<open>The size of \<open>_DEVMODE_PRINTER_PREFIX\<close> on Windows, where \<open>WCHAR\<close> has two bytes.\<close>

definition devmode_prefix_size :: int where
  "devmode_prefix_size = 32 * 2 + 4 * 2 + 4 + 13 * 2 + 32 * 2 + 2 + 4 * 4"

definition has_flag :: "devmode \<Rightarrow> u32 \<Rightarrow> bool" where
  "has_flag d f \<longleftrightarrow> dm_fields d AND f \<noteq> 0"

definition devmode_fits :: "int \<Rightarrow> devmode \<Rightarrow> bool" where
  "devmode_fits n d \<longleftrightarrow> devmode_prefix_size \<le> dm_size d \<and> dm_size d + dm_driver_extra d \<le> n"

text \<open>What the spooler asks of the driver: one copy, and no scaling or n-up where the driver has them.\<close>

definition one_copy :: "devmode \<Rightarrow> devmode" where
  "one_copy d = d\<lparr>dm_fields := dm_fields d OR DM_COPIES, dm_copies := 1\<rparr>"

definition no_scaling :: "bool \<Rightarrow> devmode \<Rightarrow> devmode" where
  "no_scaling supported d = (if supported then d\<lparr>dm_fields := dm_fields d OR DM_SCALE, dm_scale := 100\<rparr> else d)"

definition one_up :: "bool \<Rightarrow> devmode \<Rightarrow> devmode" where
  "one_up supported d = (if supported then d\<lparr>dm_fields := dm_fields d OR DM_NUP, dm_nup := 2\<rparr> else d)"

definition pre_spool :: "bool \<Rightarrow> pystr \<Rightarrow> print_error + unit" where
  "pre_spool b c = (if b then Inr () else Inl (PreSpoolFailure c))"

definition check_effective :: "devmode \<Rightarrow> devmode \<Rightarrow> print_error + int option" where
  "check_effective source d =
     bind (pre_spool (has_flag d DM_COPIES \<and> dm_copies d = 1) ''PRINTER_DEVMODE_COPIES_UNSAFE'') (\<lambda>_.
     bind (if has_flag source DM_SCALE \<or> has_flag d DM_SCALE
           then bind (pre_spool (has_flag d DM_SCALE \<and> dm_scale d = 100) ''PRINTER_DEVMODE_SCALING_UNSAFE'')
                  (\<lambda>_. Inr (Some (dm_scale d)))
           else Inr None) (\<lambda>scale.
     bind (if has_flag source DM_NUP \<or> has_flag d DM_NUP
           then pre_spool (has_flag d DM_NUP \<and> dm_nup d = 2) ''PRINTER_DEVMODE_SCALING_UNSAFE''
           else Inr ()) (\<lambda>_. Inr scale)))"

text \<open>The driver's calls answer with codes and buffers; a call of \<open>ctypes\<close> that itself raises is not modelled.\<close>

definition load_devmode :: "devmode_driver \<Rightarrow> print_error + valid_devmode" where
  "load_devmode v =
     bind (pre_spool (drv_open v) ''PRINTER_DEVMODE_OPEN_FAILED'') (\<lambda>_.
     bind (pre_spool (devmode_prefix_size \<le> drv_size v) ''PRINTER_DEVMODE_UNAVAILABLE'') (\<lambda>_.
     case drv_read v of (answer, source) \<Rightarrow>
     bind (pre_spool (answer = 1) ''PRINTER_DEVMODE_UNAVAILABLE'') (\<lambda>_.
     bind (pre_spool (devmode_fits (drv_size v) source) ''PRINTER_DEVMODE_INVALID'') (\<lambda>_.
     case drv_merge v (one_up (has_flag source DM_NUP) (no_scaling (has_flag source DM_SCALE) (one_copy source)))
     of (merged, d) \<Rightarrow>
     bind (pre_spool (merged = 1) ''PRINTER_DEVMODE_CANONICALIZATION_FAILED'') (\<lambda>_.
     bind (pre_spool (devmode_fits (drv_size v) d) ''PRINTER_DEVMODE_INVALID'') (\<lambda>_.
     bind (check_effective source d) (\<lambda>scale.
       Inr \<lparr>vd_devmode = d, vd_size = drv_size v, vd_copies = dm_copies d, vd_scale = scale\<rparr>)))))))"

section \<open>The device context\<close>

record dc_geometry =
  geo_dpi_x :: int
  geo_dpi_y :: int
  geo_physical_width :: int
  geo_physical_height :: int
  geo_printable_width :: int
  geo_printable_height :: int
  geo_offset_x :: int
  geo_offset_y :: int

definition read_geometry :: "(int \<Rightarrow> print_error + int) \<Rightarrow> print_error + dc_geometry" where
  "read_geometry caps =
     bind (caps 88) (\<lambda>dx. bind (caps 90) (\<lambda>dy. bind (caps 110) (\<lambda>w. bind (caps 111) (\<lambda>h.
     bind (caps 8) (\<lambda>pw. bind (caps 10) (\<lambda>ph. bind (caps 112) (\<lambda>ox. bind (caps 113) (\<lambda>oy.
       Inr \<lparr>geo_dpi_x = dx, geo_dpi_y = dy, geo_physical_width = w, geo_physical_height = h,
            geo_printable_width = pw, geo_printable_height = ph, geo_offset_x = ox, geo_offset_y = oy\<rparr>))))))))"

definition check_geometry :: "dc_geometry \<Rightarrow> label_raster \<Rightarrow> print_error + unit" where
  "check_geometry g r =
     bind (pre_spool (geo_dpi_x g = lab_dpi r \<and> geo_dpi_y g = lab_dpi r) ''PRINTER_PROFILE_DPI_CHANGED'') (\<lambda>_.
     bind (pre_spool (geo_physical_width g = int (img_width (lab_image r))
                      \<and> geo_physical_height g = int (img_height (lab_image r)))
             ''PRINTER_PHYSICAL_GEOMETRY_CHANGED'') (\<lambda>_.
     bind (pre_spool (geo_printable_width g = lab_printable_width r \<and> geo_printable_height g = lab_printable_height r)
             ''PRINTER_PRINTABLE_AREA_CHANGED'') (\<lambda>_.
       pre_spool (geo_offset_x g = lab_offset_x r \<and> geo_offset_y g = lab_offset_y r)
         ''PRINTER_PHYSICAL_OFFSET_CHANGED'')))"

section \<open>Printing a document\<close>

record dib_call =
  dib_x :: int
  dib_y :: int
  dib_width :: nat
  dib_height :: nat
  dib_size :: nat
  dib_data :: bytes

record gdi =
  gdi_driver :: "pystr \<Rightarrow> devmode_driver"
  gdi_create :: "pystr \<Rightarrow> devmode \<Rightarrow> bool"
  gdi_caps :: "int \<Rightarrow> print_error + int"
  gdi_start_doc :: "print_error + int"
  gdi_start_page :: "print_error + int"
  gdi_draw :: "dib_call \<Rightarrow> print_error + int"
  gdi_end_page :: "print_error + int"
  gdi_end_doc :: "print_error + int"

type_synonym ('w, 'a) print_op = "('w, print_error, 'a) op"

text \<open>\<open>except DefinitePreSpoolFailure: raise\<close>, \<open>except AmbiguousAfterSpool: raise\<close>, and the rest by
  whether a job was created.\<close>

definition classify :: "print_error \<Rightarrow> print_error \<Rightarrow> print_error" where
  "classify other e = (case e of PreSpoolFailure _ \<Rightarrow> e | AfterSpool _ _ \<Rightarrow> e | _ \<Rightarrow> other)"

definition guarded_by :: "print_error \<Rightarrow> ('w, 'a) print_op \<Rightarrow> ('w, 'a) print_op" where
  "guarded_by other m = catch m (\<lambda>e. raise (classify other e))"

definition start_document :: "gdi \<Rightarrow> label_raster \<Rightarrow> print_error + int" where
  "start_document g r =
     bind (read_geometry (gdi_caps g)) (\<lambda>actual.
     bind (check_geometry actual r) (\<lambda>_.
     bind (gdi_start_doc g) (\<lambda>job.
       bind (pre_spool (0 < job) ''GDI_START_DOC_FAILED'') (\<lambda>_. Inr job))))"

definition after_spool :: "bool \<Rightarrow> pystr \<Rightarrow> int \<Rightarrow> print_error + unit" where
  "after_spool b c job = (if b then Inr () else Inl (AfterSpool c (Some job)))"

definition draw_call :: "label_raster \<Rightarrow> bytes \<Rightarrow> nat \<Rightarrow> dib_call" where
  "draw_call r raw stride =
     \<lparr>dib_x = - lab_offset_x r, dib_y = - lab_offset_y r, dib_width = img_width (lab_image r),
      dib_height = img_height (lab_image r), dib_size = stride * img_height (lab_image r), dib_data = raw\<rparr>"

definition print_page :: "gdi \<Rightarrow> label_raster \<Rightarrow> int \<Rightarrow> print_error + unit" where
  "print_page g r job =
     bind (gdi_start_page g) (\<lambda>page.
     bind (after_spool (0 < page) ''GDI_START_PAGE_FAILED'' job) (\<lambda>_.
     bind (bgr_bottom_up (lab_image r)) (\<lambda>(raw, stride).
     bind (gdi_draw g (draw_call r raw stride)) (\<lambda>lines.
     bind (after_spool (lines = int (img_height (lab_image r))) ''GDI_RASTER_OUTPUT_FAILED'' job) (\<lambda>_.
     bind (gdi_end_page g) (\<lambda>ended.
     bind (after_spool (0 < ended) ''GDI_END_PAGE_FAILED'' job) (\<lambda>_.
     bind (gdi_end_doc g) (\<lambda>closed.
       after_spool (0 < closed) ''GDI_END_DOC_FAILED'' job))))))))"

definition spool_submit :: "gdi \<Rightarrow> pystr \<Rightarrow> label_raster \<Rightarrow> (int \<Rightarrow> ('w, unit) print_op) \<Rightarrow> ('w, int \<times> pystr) print_op" where
  "spool_submit g queue r created =
     (if queue = [] then raise (PreSpoolFailure ''LOCAL_PRINTER_QUEUE_UNAVAILABLE'')
      else seq (lift (load_devmode (gdi_driver g queue))) (\<lambda>v.
        seq (lift (bind (pre_spool (vd_copies v = 1) ''PRINTER_DEVMODE_COPIES_UNSAFE'') (\<lambda>_.
                   bind (pre_spool (vd_scale v \<in> {None, Some 100}) ''PRINTER_DEVMODE_SCALING_UNSAFE'') (\<lambda>_.
                     pre_spool (gdi_create g queue (vd_devmode v)) ''GDI_CREATE_DC_FAILED'')))) (\<lambda>_.
        seq (guarded_by (PreSpoolFailure ''GDI_EXCEPTION_BEFORE_JOB'') (lift (start_document g r))) (\<lambda>job.
          guarded_by (AfterSpool ''GDI_EXCEPTION_AFTER_START_DOC'' (Some job))
            (seq (created job) (\<lambda>_. seq (lift (print_page g r job)) (\<lambda>_. ret (job, ''QUEUED''))))))))"

section \<open>The status of a spool job\<close>

definition spool_status :: "u32 \<Rightarrow> pystr" where
  "spool_status f =
     (if f AND 0x20 \<noteq> 0 then ''OFFLINE''
      else if f AND 0x40 \<noteq> 0 then ''PAPER_OUT''
      else if f AND 0x400 \<noteq> 0 then ''USER_INTERVENTION''
      else if f AND 0x2 \<noteq> 0 then ''ERROR''
      else if f AND 0x1 \<noteq> 0 then ''PAUSED''
      else if f AND 0x4 \<noteq> 0 then ''DELETING''
      else if f AND 0x100 \<noteq> 0 then ''DELETED''
      else if f AND 0x10 \<noteq> 0 then ''PRINTING''
      else if f AND (0x80 OR 0x1000) \<noteq> 0 then ''SPOOLER_REPORTED_COMPLETE''
      else ''QUEUED'')"

record spool_window =
  win_open :: bool
  win_needed :: nat
  win_job :: "u32 option"

definition query_status :: "spool_window \<Rightarrow> pystr \<Rightarrow> int \<Rightarrow> print_error + pystr \<times> pystr option" where
  "query_status win queue job =
     (if queue = [] \<or> job \<le> 0 then Inl (PrintValue ''invalid local spool status target'')
      else if \<not> win_open win then Inr (''UNKNOWN'', Some ''WINDOWS_OPEN_PRINTER_STATUS_FAILED'')
      else if win_needed win = 0 then Inr (''UNKNOWN'', Some ''WINDOWS_SPOOL_JOB_NOT_OBSERVED'')
      else case win_job win of None \<Rightarrow> Inr (''UNKNOWN'', Some ''WINDOWS_GET_JOB_FAILED'')
        | Some f \<Rightarrow> Inr (spool_status f, None))"

section \<open>Reading the rows back\<close>

text \<open>What a reader of the device-independent bitmap sees: the rows from the last to the first, each at a
  multiple of the stride.\<close>

definition read_dib :: "nat \<Rightarrow> nat \<Rightarrow> nat \<Rightarrow> bytes \<Rightarrow> bytes" where
  "read_dib w h stride dat =
     concat (map (\<lambda>y. swap_pixels (take (w * 3) (drop ((h - 1 - y) * stride) dat))) [0..<h])"

lemma swap_swap [simp]: "swap_pixels (swap_pixels xs) = xs"
  by (induction xs rule: swap_pixels.induct) auto

lemma length_swap [simp]: "length (swap_pixels xs) = length xs"
  by (induction xs rule: swap_pixels.induct) auto

lemma row_stride_nat: "row_stride n = (n + 3) div 4 * 4"
proof -
  have "x AND NOT (mask 2) = push_bit 2 (drop_bit 2 x)" for x :: int
  proof (rule bit_eqI)
    fix k
    have "2 \<le> k \<Longrightarrow> Suc (Suc (k - 2)) = k" by simp
    then show "bit (x AND NOT (mask 2)) k = bit (push_bit 2 (drop_bit 2 x)) k" by (auto simp: bit_simps)
  qed
  then have "(int n + 3) AND NOT 3 = (int n + 3) div 4 * 4"
    by (simp add: mask_eq_exp_minus_1 push_bit_eq_mult drop_bit_eq_div)
  then show ?thesis by (simp add: row_stride_def nat_mult_distrib nat_div_distrib nat_add_distrib)
qed

lemma row_stride_bounds: "row_stride n mod 4 = 0" "n \<le> row_stride n" "row_stride n < n + 4"
  by (simp_all add: row_stride_nat)

text \<open>Rows of one length, laid out one after the other.\<close>

lemma take_drop_concat:
  assumes "\<forall>x\<in>set xs. length x = n" and "k < length xs"
  shows "take n (drop (k * n) (concat xs)) = xs ! k"
  using assms
proof (induction xs arbitrary: k)
  case (Cons x xs)
  then show ?case by (cases k) auto
qed simp

lemma length_concat_rows: "\<forall>x\<in>set xs. length x = n \<Longrightarrow> length (concat xs) = n * length xs"
  by (induction xs) auto

lemma concat_rows: "length pixels = h * n \<Longrightarrow> concat (map (row_at n pixels) [0..<h]) = pixels"
proof (induction h arbitrary: pixels)
  case (Suc h)
  have "concat (map (row_at n pixels) [0..<Suc h]) = concat (map (row_at n (take (h * n) pixels)) [0..<h]) @ row_at n pixels h"
  proof -
    have "row_at n pixels y = row_at n (take (h * n) pixels) y" if "y < h" for y
      using mult_le_mono1 [of "Suc y" h n] that by (simp add: row_at_def take_drop min_def add.commute)
    then have "map (row_at n pixels) [0..<h] = map (row_at n (take (h * n) pixels)) [0..<h]" by simp
    then show ?thesis by (simp only: upt_Suc_append map_append concat_append) simp
  qed
  also have "\<dots> = take (h * n) pixels @ row_at n pixels h" using Suc.IH [of "take (h * n) pixels"] Suc.prems by simp
  also have "\<dots> = pixels" using Suc.prems by (simp add: row_at_def mult.commute)
  finally show ?case .
qed simp

lemma bgr_rows_length:
  "\<forall>x\<in>set (map (\<lambda>y. swap_pixels (row_at n pixels y) @ replicate (row_stride n - n) c) (rev [0..<h])).
     length x = row_stride n" if "length pixels = h * n"
proof -
  have "length (row_at n pixels y) = n" if "y < h" for y
    using mult_le_mono1 [of "Suc y" h n] that \<open>length pixels = h * n\<close> by (simp add: row_at_def)
  then show ?thesis using row_stride_bounds(2) [of n] by auto
qed

section \<open>The properties of the spooler\<close>

text \<open>C26: The conversion keeps the picture: the rows are padded to a multiple of four bytes, fill the buffer
  exactly, and reading them from the last to the first gives the pixels back.\<close>

theorem raster_rows_roundtrip:
  assumes "bgr_bottom_up m = Inr (dat, stride)"
  shows "read_dib (img_width m) (img_height m) stride dat = img_pixels m
    \<and> length dat = stride * img_height m \<and> stride mod 4 = 0
    \<and> img_width m * 3 \<le> stride \<and> stride < img_width m * 3 + 4"
proof -
  let ?n = "img_width m * 3" and ?h = "img_height m"
  let ?rows = "map (\<lambda>y. swap_pixels (row_at ?n (img_pixels m) y) @ replicate (row_stride ?n - ?n) (CHR 0x00)) (rev [0..<?h])"
  have len: "length (img_pixels m) = ?h * ?n" and dat: "dat = concat ?rows" and s: "stride = row_stride ?n"
    using assms by (auto simp: bgr_bottom_up_def Let_def split: if_splits)
  have rows: "\<forall>x\<in>set ?rows. length x = stride" unfolding s by (rule bgr_rows_length [OF len])
  have "take ?n (drop ((?h - 1 - y) * stride) dat) = swap_pixels (row_at ?n (img_pixels m) y)" if "y < ?h" for y
  proof -
    have row: "take stride (drop ((?h - 1 - y) * stride) dat) = ?rows ! (?h - 1 - y)"
      unfolding dat by (rule take_drop_concat [OF rows]) (use that in simp)
    have "take ?n (drop ((?h - 1 - y) * stride) dat) = take ?n (take stride (drop ((?h - 1 - y) * stride) dat))"
      using row_stride_bounds(2) [of ?n] s by (simp add: min_def)
    also have "\<dots> = take ?n (swap_pixels (row_at ?n (img_pixels m) y) @ replicate (row_stride ?n - ?n) (CHR 0x00))"
      unfolding row using that by (simp add: rev_nth)
    also have "\<dots> = swap_pixels (row_at ?n (img_pixels m) y)"
      using mult_le_mono1 [of "Suc y" ?h ?n] that len by (simp add: row_at_def)
    finally show ?thesis .
  qed
  then have "read_dib (img_width m) ?h stride dat = concat (map (row_at ?n (img_pixels m)) [0..<?h])"
    by (auto simp: read_dib_def intro!: arg_cong [where f = concat] map_cong)
  moreover have "length dat = stride * ?h"
    unfolding dat using length_concat_rows [OF rows] by simp
  ultimately show ?thesis using concat_rows [OF len] row_stride_bounds [of ?n] s by simp
qed

text \<open>A raster of two rows of three pixels: nine bytes and three of padding, twice.\<close>

definition demo_image :: raster_image where
  "demo_image = \<lparr>img_width = 3, img_height = 2, img_bpp = 24, img_pixels = ''abcdefghiABCDEFGHI''\<rparr>"

lemma raster_rows_roundtrip_witness:
  "\<exists>dat. bgr_bottom_up demo_image = Inr (dat, 12) \<and> take 9 dat = ''CBAFEDIHG'' \<and> read_dib 3 2 12 dat = ''abcdefghiABCDEFGHI''"
proof -
  let ?d = "''CBAFEDIHG'' @ replicate 3 (CHR 0x00) @ ''cbafedihg'' @ replicate 3 (CHR 0x00)"
  have d: "bgr_bottom_up demo_image = Inr (?d, 12)" by code_simp
  from raster_rows_roundtrip [OF d] have "read_dib 3 2 12 ?d = ''abcdefghiABCDEFGHI''" by (simp add: demo_image_def)
  with d show ?thesis by (intro exI [of _ ?d]) simp
qed

text \<open>A DEVMODE the spooler accepts prints one copy, unscaled and one-up as far as it says so at all, it lies
  inside the driver's buffer, and what the driver was asked for keeps all the flags it had.\<close>

theorem loaded_devmode_is_safe:
  assumes "load_devmode v = Inr d"
  shows "vd_copies d = 1 \<and> dm_copies (vd_devmode d) = 1 \<and> has_flag (vd_devmode d) DM_COPIES
    \<and> (has_flag (vd_devmode d) DM_SCALE \<longrightarrow> dm_scale (vd_devmode d) = 100) \<and> vd_scale d \<in> {None, Some 100}
    \<and> (has_flag (vd_devmode d) DM_NUP \<longrightarrow> dm_nup (vd_devmode d) = 2) \<and> devmode_fits (drv_size v) (vd_devmode d)
    \<and> (\<forall>f. has_flag (snd (drv_read v)) f \<longrightarrow>
         has_flag (one_up (has_flag (snd (drv_read v)) DM_NUP) (no_scaling (has_flag (snd (drv_read v)) DM_SCALE)
           (one_copy (snd (drv_read v))))) f)"
proof -
  have keep: "x AND f \<noteq> 0 \<Longrightarrow> (x OR y) AND f \<noteq> 0" for x y f :: u32
    by (metis bit.conj_disj_distrib2 bit.disj_zero_right or_eq_0_iff)
  have "has_flag (snd (drv_read v)) f \<longrightarrow>
         has_flag (one_up b (no_scaling c (one_copy (snd (drv_read v))))) f" for f b c
    using keep by (simp add: has_flag_def one_up_def no_scaling_def one_copy_def)
  with assms show ?thesis
    by (auto simp: load_devmode_def bind_Inr_iff pre_spool_def check_effective_def split: if_splits prod.splits)
qed

definition demo_devmode :: devmode where
  "demo_devmode = \<lparr>dm_size = 220, dm_driver_extra = 100, dm_fields = 0x53, dm_copies = 3, dm_scale = 50, dm_nup = 4\<rparr>"

definition demo_driver :: devmode_driver where
  "demo_driver = \<lparr>drv_open = True, drv_size = 400, drv_read = (1, demo_devmode), drv_merge = (\<lambda>d. (1, d))\<rparr>"

lemma loaded_devmode_is_safe_witness:
  "\<exists>d. load_devmode demo_driver = Inr d \<and> dm_nup (vd_devmode d) = 2 \<and> dm_scale (vd_devmode d) = 100"
proof -
  obtain d where d: "load_devmode demo_driver = Inr d" "has_flag (vd_devmode d) DM_NUP" "has_flag (vd_devmode d) DM_SCALE"
    by (simp add: load_devmode_def pre_spool_def demo_driver_def demo_devmode_def devmode_prefix_size_def devmode_fits_def
        has_flag_def DM_SCALE_def DM_NUP_def DM_COPIES_def one_up_def no_scaling_def one_copy_def check_effective_def)
  from loaded_devmode_is_safe [OF d(1)] d show ?thesis by blast
qed

section \<open>What a failed submission says\<close>

lemma load_devmode_Inl: "load_devmode v = Inl e \<Longrightarrow> \<exists>c. e = PreSpoolFailure c"
  by (auto simp: load_devmode_def bind_Inl_iff pre_spool_def check_effective_def split: if_splits prod.splits)

lemma guarded_by_Inr: "guarded_by x m w = (Inr v, w') \<longleftrightarrow> m w = (Inr v, w')"
  by (auto simp: guarded_by_def catch_def raise_def split: prod.splits sum.splits)

lemma guarded_by_Inl: "guarded_by x m w = (Inl e, w') \<longleftrightarrow> (\<exists>d. m w = (Inl d, w') \<and> e = classify x d)"
  by (auto simp: guarded_by_def catch_def raise_def split: prod.splits sum.splits)

lemma start_document_classified: "start_document g r = Inl e \<Longrightarrow>
    (\<exists>c. classify (PreSpoolFailure d) e = PreSpoolFailure c) \<or> (\<exists>c j. e = AfterSpool c j)"
  by (cases e) (auto simp: classify_def)

text \<open>GDI itself never raises the errors of this module, nor does the callback.\<close>

definition foreign :: "print_error \<Rightarrow> bool" where
  "foreign e \<longleftrightarrow> (\<forall>c. e \<noteq> PreSpoolFailure c) \<and> (\<forall>c j. e \<noteq> AfterSpool c j)"

definition foreign_gdi :: "gdi \<Rightarrow> bool" where
  "foreign_gdi g \<longleftrightarrow> (\<forall>i e. gdi_caps g i = Inl e \<longrightarrow> foreign e) \<and> (\<forall>e. gdi_start_doc g = Inl e \<longrightarrow> foreign e)
     \<and> (\<forall>e. gdi_start_page g = Inl e \<longrightarrow> foreign e) \<and> (\<forall>c e. gdi_draw g c = Inl e \<longrightarrow> foreign e)
     \<and> (\<forall>e. gdi_end_page g = Inl e \<longrightarrow> foreign e) \<and> (\<forall>e. gdi_end_doc g = Inl e \<longrightarrow> foreign e)"

lemma classify_foreign: "foreign e \<Longrightarrow> classify d e = d"
  by (cases e) (auto simp: classify_def foreign_def)

lemma start_document_Inl:
  "foreign_gdi g \<Longrightarrow> start_document g r = Inl e \<Longrightarrow> foreign e \<or> (\<exists>c. e = PreSpoolFailure c)"
  by (auto simp: start_document_def read_geometry_def check_geometry_def bind_Inl_iff pre_spool_def foreign_gdi_def
      split: if_splits)

lemma print_page_Inl:
  "foreign_gdi g \<Longrightarrow> bgr_bottom_up (lab_image r) = Inr dat \<Longrightarrow> print_page g r job = Inl e \<Longrightarrow>
     foreign e \<or> (\<exists>c. e = AfterSpool c (Some job))"
  by (auto simp: print_page_def bind_Inl_iff after_spool_def foreign_gdi_def split: if_splits prod.splits)

text \<open>The part of a submission before the job exists leaves the state alone.\<close>

definition before_job :: "gdi \<Rightarrow> pystr \<Rightarrow> label_raster \<Rightarrow> print_error + int" where
  "before_job g queue r =
     bind (pre_spool (queue \<noteq> []) ''LOCAL_PRINTER_QUEUE_UNAVAILABLE'') (\<lambda>_.
     bind (load_devmode (gdi_driver g queue)) (\<lambda>v.
     bind (pre_spool (vd_copies v = 1) ''PRINTER_DEVMODE_COPIES_UNSAFE'') (\<lambda>_.
     bind (pre_spool (vd_scale v \<in> {None, Some 100}) ''PRINTER_DEVMODE_SCALING_UNSAFE'') (\<lambda>_.
     bind (pre_spool (gdi_create g queue (vd_devmode v)) ''GDI_CREATE_DC_FAILED'') (\<lambda>_.
       case start_document g r of
         Inl e \<Rightarrow> Inl (classify (PreSpoolFailure ''GDI_EXCEPTION_BEFORE_JOB'') e) | Inr job \<Rightarrow> Inr job)))))"

definition after_job :: "gdi \<Rightarrow> label_raster \<Rightarrow> (int \<Rightarrow> ('w, unit) print_op) \<Rightarrow> int \<Rightarrow> ('w, int \<times> pystr) print_op" where
  "after_job g r created job =
     guarded_by (AfterSpool ''GDI_EXCEPTION_AFTER_START_DOC'' (Some job))
       (seq (created job) (\<lambda>_. seq (lift (print_page g r job)) (\<lambda>_. ret (job, ''QUEUED''))))"

lemma spool_submit_split:
  "spool_submit g queue r created w = (case before_job g queue r of
     Inl e \<Rightarrow> (Inl e, w) | Inr job \<Rightarrow> after_job g r created job w)"
  by (cases "load_devmode (gdi_driver g queue)"; cases "start_document g r")
    (simp_all add: spool_submit_def before_job_def after_job_def pre_spool_def seq_def lift_def raise_def
      guarded_by_def catch_def)

lemma before_job_Inl:
  assumes "foreign_gdi g" and "before_job g queue r = Inl e"
  shows "\<exists>c. e = PreSpoolFailure c"
proof -
  have "\<exists>c. classify (PreSpoolFailure d) x = PreSpoolFailure c" if "start_document g r = Inl x" for x d
    using start_document_Inl [OF assms(1) that] classify_foreign [of x] by (auto simp: classify_def)
  with assms(2) show ?thesis
    by (auto simp: before_job_def bind_Inl_iff pre_spool_def split: if_splits sum.splits dest: load_devmode_Inl)
qed

lemma before_job_Inr: "before_job g queue r = Inr job \<Longrightarrow> 0 < job"
  by (auto simp: before_job_def bind_Inr_iff start_document_def pre_spool_def split: if_splits sum.splits)

lemma after_job_Inl:
  assumes "after_job g r created job w = (Inl e, w')" and "foreign_gdi g" and "bgr_bottom_up (lab_image r) = Inr dat"
    and "\<And>d u'. created job w = (Inl d, u') \<Longrightarrow> foreign d"
  shows "(\<exists>c. e = AfterSpool c (Some job)) \<and> w' = snd (created job w)"
proof -
  from assms(1) obtain d where d: "seq (created job) (\<lambda>_. seq (lift (print_page g r job)) (\<lambda>_. ret (job, ''QUEUED''))) w = (Inl d, w')"
      "e = classify (AfterSpool ''GDI_EXCEPTION_AFTER_START_DOC'' (Some job)) d"
    unfolding after_job_def guarded_by_Inl by blast
  then consider "created job w = (Inl d, w')" | u where "created job w = (Inr u, w')" "print_page g r job = Inl d"
    by (auto simp: seq_def lift_def ret_def split: prod.splits sum.splits)
  then show ?thesis
  proof cases
    case 1
    with assms(4) d(2) classify_foreign show ?thesis by auto
  next
    case 2
    with print_page_Inl [OF assms(2,3), of job d] d(2) classify_foreign [of d] show ?thesis by (auto simp: classify_def)
  qed
qed

text \<open>When the raster is well-formed a failed submission tells what happened: a definite failure means
  that no spool job was created and nothing was recorded, and any other failure is ambiguous and names the job that
  was created, whatever exception GDI or the recording of the job raised.\<close>

theorem failed_submit_is_classified:
  assumes "spool_submit g queue r created w = (Inl e, w')" and "foreign_gdi g"
    and "bgr_bottom_up (lab_image r) = Inr dat"
    and "\<And>job u d u'. created job u = (Inl d, u') \<Longrightarrow> foreign d"
  shows "(\<exists>c. e = PreSpoolFailure c \<and> w' = w)
    \<or> (\<exists>c job. e = AfterSpool c (Some job) \<and> 0 < job \<and> w' = snd (created job w))"
proof (cases "before_job g queue r")
  case (Inl d)
  with assms(1) before_job_Inl [OF assms(2) Inl] show ?thesis by (auto simp: spool_submit_split)
next
  case (Inr job)
  with assms(1) have "after_job g r created job w = (Inl e, w')" by (simp add: spool_submit_split)
  from after_job_Inl [OF this assms(2,3)] assms(4) before_job_Inr [OF Inr] show ?thesis by blast
qed

text \<open>C36: A raster that fails its check is found only after the document was started and its job recorded, yet the
  failure is the definite one, which means that nothing was spooled.\<close>

theorem bad_raster_reported_as_unspooled:
  assumes "before_job g queue r = Inr job" and "created job w = (Inr (), w')"
    and "gdi_start_page g = Inr page" and "0 < page"
    and "img_bpp (lab_image r) \<noteq> 24 \<or> length (img_pixels (lab_image r)) \<noteq> img_width (lab_image r) * img_height (lab_image r) * 3"
  shows "spool_submit g queue r created w = (Inl (PreSpoolFailure ''FINAL_RASTER_INVALID''), w')"
  using assms
  by (simp add: spool_submit_split after_job_def guarded_by_Inl seq_def lift_def print_page_def bgr_bottom_up_def
      after_spool_def classify_def)

definition demo_raster :: "raster_image \<Rightarrow> label_raster" where
  "demo_raster m = \<lparr>lab_image = m, lab_payload_sha256 = [], lab_layout_sha256 = [], lab_dpi = 300, lab_offset_x = 0,
     lab_offset_y = 0, lab_printable_width = 3, lab_printable_height = 2\<rparr>"

definition demo_gdi :: "int \<Rightarrow> gdi" where
  "demo_gdi page = \<lparr>gdi_driver = (\<lambda>q. demo_driver), gdi_create = (\<lambda>q d. True),
     gdi_caps = (\<lambda>i. Inr (if i = 88 \<or> i = 90 then 300 else if i = 110 \<or> i = 8 then 3 else if i = 111 \<or> i = 10 then 2 else 0)),
     gdi_start_doc = Inr 7, gdi_start_page = Inr page, gdi_draw = (\<lambda>c. Inr (int (dib_height c))),
     gdi_end_page = Inr 1, gdi_end_doc = Inr 1\<rparr>"

definition log_job :: "int \<Rightarrow> (int list, unit) print_op" where
  "log_job job w = (Inr (), w @ [job])"

lemma demo_before: "img_width m = 3 \<Longrightarrow> img_height m = 2 \<Longrightarrow>
    before_job (demo_gdi page) ''queue'' (demo_raster m) = Inr 7"
  by (simp add: before_job_def pre_spool_def demo_gdi_def start_document_def read_geometry_def check_geometry_def
      demo_raster_def load_devmode_def demo_driver_def demo_devmode_def devmode_prefix_size_def devmode_fits_def
      has_flag_def DM_SCALE_def DM_NUP_def DM_COPIES_def one_up_def no_scaling_def one_copy_def check_effective_def)

lemma failed_submit_is_classified_witness:
  "\<exists>c. spool_submit (demo_gdi 0) ''queue'' (demo_raster demo_image) log_job [] = (Inl (AfterSpool c (Some 7)), [7])"
proof -
  have s: "spool_submit (demo_gdi 0) ''queue'' (demo_raster demo_image) log_job []
      = (Inl (AfterSpool ''GDI_START_PAGE_FAILED'' (Some 7)), [7])"
    using demo_before [of demo_image 0]
    by (simp add: spool_submit_split after_job_def guarded_by_Inl seq_def lift_def log_job_def print_page_def
        after_spool_def classify_def demo_image_def) (simp add: demo_gdi_def)
  have "foreign_gdi (demo_gdi 0)" by (simp add: foreign_gdi_def demo_gdi_def)
  moreover obtain dat where "bgr_bottom_up (lab_image (demo_raster demo_image)) = Inr dat"
    by (simp add: bgr_bottom_up_def demo_raster_def demo_image_def Let_def)
  ultimately show ?thesis
    using failed_submit_is_classified [OF s] by (auto simp: log_job_def s)
qed

lemma bad_raster_reported_as_unspooled_witness:
  "spool_submit (demo_gdi 1) ''queue'' (demo_raster (demo_image\<lparr>img_bpp := 32\<rparr>)) log_job []
     = (Inl (PreSpoolFailure ''FINAL_RASTER_INVALID''), [7])"
  by (rule bad_raster_reported_as_unspooled [where page = 1, OF demo_before])
    (simp_all add: log_job_def demo_gdi_def demo_image_def demo_raster_def)

end
