(* ===== verification/PrintStore.thy ===== *)
theory PrintStore
  imports PrintSpooler Json Prelude
begin

text \<open>
  The durable evidence of physical prints kept by the agent (\<open>wbcz/physical_printing.py\<close>,
  \<open>AgentPhysicalReplayStore\<close>): one row per execution, and the rules of \<open>record\<close>. Its reads and its write
  are one step here, which is exact for one process; \<open>cross_spool_boundary\<close> is two steps, as in the code.
  The \<open>fsync\<close> after a record changes no state and is left out.
\<close>

datatype spool_state =
    RENDERED_VERIFIED | SPOOL_SUBMITTING | SPOOL_JOB_CREATED | SPOOLER_ACCEPTED
  | FAILED_PRE_SPOOL | BLOCKED | UNKNOWN_AFTER_SPOOL

record print_identity =
  pid_item :: pystr
  pid_reservation :: pystr
  pid_payload_sha256 :: pystr
  pid_layout_sha256 :: pystr
  pid_profile :: pystr
  pid_fingerprint :: pystr

record print_row =
  pr_execution :: pystr
  pr_identity :: print_identity
  pr_state :: spool_state
  pr_spool_job :: "int option"
  pr_status :: "pystr option"
  pr_first_seen :: pystr
  pr_updated :: pystr
  pr_error :: "pystr option"

type_synonym print_rows = "print_row list"

definition irreversible :: "spool_state list" where
  "irreversible = [SPOOL_SUBMITTING, SPOOL_JOB_CREATED, SPOOLER_ACCEPTED, UNKNOWN_AFTER_SPOOL, FAILED_PRE_SPOOL]"

record print_mark =
  mark_state :: spool_state
  mark_job :: "int option"
  mark_status :: "pystr option"
  mark_error :: "pystr option"

definition plain_mark :: "spool_state \<Rightarrow> print_mark" where
  "plain_mark s = \<lparr>mark_state = s, mark_job = None, mark_status = None, mark_error = None\<rparr>"

text \<open>\<open>COALESCE(excluded.x, x)\<close>\<close>

definition coalesce :: "'a option \<Rightarrow> 'a option \<Rightarrow> 'a option" where
  "coalesce a b = (case a of None \<Rightarrow> b | Some _ \<Rightarrow> a)"

definition marked_row :: "pystr \<Rightarrow> print_mark \<Rightarrow> print_row \<Rightarrow> print_row" where
  "marked_row now m q = q\<lparr>pr_state := mark_state m, pr_spool_job := coalesce (mark_job m) (pr_spool_job q),
     pr_status := coalesce (mark_status m) (pr_status q), pr_updated := now, pr_error := mark_error m\<rparr>"

definition first_row_of :: "pystr \<Rightarrow> pystr \<Rightarrow> print_identity \<Rightarrow> print_mark \<Rightarrow> print_row" where
  "first_row_of now i identity m =
     \<lparr>pr_execution = i, pr_identity = identity, pr_state = mark_state m, pr_spool_job = mark_job m,
      pr_status = mark_status m, pr_first_seen = now, pr_updated = now, pr_error = mark_error m\<rparr>"

definition find_print :: "pystr \<Rightarrow> print_rows \<Rightarrow> print_row option" where
  "find_print i d = lookup_row pr_execution i d"

definition record_print :: "pystr \<Rightarrow> pystr \<Rightarrow> print_identity \<Rightarrow> print_mark \<Rightarrow> (print_rows, print_error, unit) txn" where
  "record_print now i identity m d = (case find_print i d of
     None \<Rightarrow> Inr ((), d @ [first_row_of now i identity m])
   | Some q \<Rightarrow>
       if pr_identity q \<noteq> identity then Inl (ReplayBlocked ''physical replay identity conflict'')
       else if pr_state q \<in> set irreversible \<and> mark_state m = RENDERED_VERIFIED
       then Inl (ReplayBlocked ''physical execution already crossed spool boundary'')
       else if pr_state q = SPOOLER_ACCEPTED \<and> mark_state m \<noteq> SPOOLER_ACCEPTED
       then Inl (ReplayBlocked ''accepted physical execution cannot regress'')
       else Inr ((), update_rows pr_execution i (marked_row now m) d))"

text \<open>The first half of \<open>cross_spool_boundary\<close>: it reads the row in a connection of its own.\<close>

definition boundary_check :: "pystr \<Rightarrow> print_rows \<Rightarrow> print_error + unit" where
  "boundary_check i d = (case find_print i d of
     None \<Rightarrow> Inl (ReplayBlocked ''render verification must be durably recorded first'')
   | Some q \<Rightarrow>
       if pr_state q = RENDERED_VERIFIED then Inr ()
       else if pr_state q \<in> set irreversible
       then Inl (ReplayBlocked ''physical execution already crossed spool boundary'')
       else Inl (ReplayBlocked ''render verification must be durably recorded first''))"

definition cross_boundary :: "pystr \<Rightarrow> pystr \<Rightarrow> print_identity \<Rightarrow> (print_rows, print_error, unit) op" where
  "cross_boundary now i identity =
     seq (\<lambda>d. (boundary_check i d, d)) (\<lambda>_. commit (record_print now i identity (plain_mark SPOOL_SUBMITTING)))"

section \<open>Reading a changed table\<close>

lemma marked_execution [simp]: "pr_execution (marked_row now m q) = pr_execution q"
  "pr_identity (marked_row now m q) = pr_identity q" "pr_state (marked_row now m q) = mark_state m"
  by (simp_all add: marked_row_def)

lemma first_row_fields [simp]: "pr_execution (first_row_of now i identity m) = i"
  "pr_identity (first_row_of now i identity m) = identity" "pr_state (first_row_of now i identity m) = mark_state m"
  by (simp_all add: first_row_of_def)

lemma plain_mark_simps [simp]: "mark_state (plain_mark s) = s"
  by (simp add: plain_mark_def)

lemma find_marked:
  "find_print k (update_rows pr_execution i (marked_row now m) d) =
     (if k = i then map_option (marked_row now m) (find_print i d) else find_print k d)"
  by (simp add: find_print_def lookup_update_rows)

text \<open>What a record leaves: the row of its execution in the recorded state, the others as they were.\<close>

lemma record_print_Inr:
  assumes "record_print now i identity m d = Inr (u, d')"
  shows "\<exists>q. find_print i d' = Some q \<and> pr_identity q = identity \<and> pr_state q = mark_state m"
    and "k \<noteq> i \<Longrightarrow> find_print k d' = find_print k d"
  using assms
  by (auto simp: record_print_def find_marked split: option.splits if_splits)
    (auto simp: find_print_def lookup_row_append split: option.splits)

definition spool_crossed :: "print_rows \<Rightarrow> pystr \<Rightarrow> bool" where
  "spool_crossed d i \<longleftrightarrow> (\<exists>q. find_print i d = Some q \<and> pr_state q \<in> set irreversible)"

lemma record_keeps_crossed:
  "record_print now i identity m d = Inr (u, d') \<Longrightarrow> mark_state m \<in> set irreversible \<or> k \<noteq> i \<Longrightarrow>
     spool_crossed d k \<Longrightarrow> spool_crossed d' k"
  using record_print_Inr [of now i identity m d u d'] by (cases "k = i") (auto simp: spool_crossed_def)

text \<open>The rules of one transaction: a row is created in any state; afterwards its identity is fixed, a row that
  crossed the boundary is never rendered again, and an accepted one stays accepted. Everything else is allowed,
  also from an unknown outcome back to blocked.\<close>

lemma record_print_iff:
  "(\<exists>d'. record_print now i identity m d = Inr ((), d')) \<longleftrightarrow>
     (\<forall>q. find_print i d = Some q \<longrightarrow> pr_identity q = identity
        \<and> (pr_state q \<in> set irreversible \<longrightarrow> mark_state m \<noteq> RENDERED_VERIFIED)
        \<and> (pr_state q = SPOOLER_ACCEPTED \<longrightarrow> mark_state m = SPOOLER_ACCEPTED))"
  by (auto simp: record_print_def split: option.splits)

end
