(* ===== verification/PrintControl.thy ===== *)
theory PrintControl
  imports PrintStore AgentJobs
begin

text \<open>
  The messages of physical printing (\<open>wbcz/physical_printing.py\<close>): the control, the render contract
  and the status request, read from the objects the server sends, and the display values derived from a
  full marking code. \<open>str\<close>, \<open>int\<close> and \<open>float\<close> of a value that is neither a text nor an integer are an
  argument. Lists of field names at the end of a message are left out.
\<close>

section \<open>Conversions\<close>

record py_values =
  pv_str :: "json \<Rightarrow> pystr"
  pv_int :: "json \<Rightarrow> print_error + int"
  pv_float :: "json \<Rightarrow> print_error + pystr"

definition str_of :: "py_values \<Rightarrow> json \<Rightarrow> pystr" where
  "str_of pv v = (case v of
     JStr s \<Rightarrow> s | JInt n \<Rightarrow> show_int n | JNull \<Rightarrow> ''None'' | JBool b \<Rightarrow> (if b then ''True'' else ''False'')
   | _ \<Rightarrow> pv_str pv v)"

text \<open>\<open>str(raw.get(k) or "")\<close>, \<open>int(raw.get(k) or 0)\<close> and \<open>float(raw.get(k) or 0)\<close>\<close>

definition field_text :: "py_values \<Rightarrow> wire \<Rightarrow> pystr \<Rightarrow> pystr" where
  "field_text pv w k = (if falsy (get_key k w) then [] else str_of pv (get_key k w))"

definition int_of :: "py_values \<Rightarrow> json \<Rightarrow> print_error + int" where
  "int_of pv v = (case v of JInt n \<Rightarrow> Inr n | JBool b \<Rightarrow> Inr (of_bool b) | _ \<Rightarrow> pv_int pv v)"

definition field_int :: "py_values \<Rightarrow> wire \<Rightarrow> pystr \<Rightarrow> print_error + int" where
  "field_int pv w k = (if falsy (get_key k w) then Inr 0 else int_of pv (get_key k w))"

definition field_float :: "py_values \<Rightarrow> wire \<Rightarrow> pystr \<Rightarrow> print_error + pystr" where
  "field_float pv w k = (if falsy (get_key k w) then Inr ''0.0'' else pv_float pv (get_key k w))"

definition known_fields :: "pystr list \<Rightarrow> wire \<Rightarrow> bool" where
  "known_fields allowed w \<longleftrightarrow> list_all (\<lambda>(k, _). k \<in> set allowed) w"

definition sha_text :: "pystr \<Rightarrow> bool" where
  "sha_text s \<longleftrightarrow> length s = 64 \<and> list_all hex_char s"

definition print_check :: "bool \<Rightarrow> print_error \<Rightarrow> print_error + unit" where
  "print_check b e = (if b then Inr () else Inl e)"

section \<open>The control\<close>

record print_control =
  pc_contract :: pystr
  pc_operation :: pystr
  pc_execution :: pystr
  pc_item :: pystr
  pc_reservation :: pystr
  pc_payload_sha256 :: pystr
  pc_layout_sha256 :: pystr
  pc_template :: pystr
  pc_profile :: pystr
  pc_fingerprint :: pystr
  pc_printer :: pystr
  pc_organisation :: pystr
  pc_participant :: pystr
  pc_binding :: pystr
  pc_printing_version :: pystr
  pc_layout_version :: pystr
  pc_renderer_version :: pystr
  pc_copies :: int

definition control_fields :: "pystr list" where
  "control_fields = [''contract_version'', ''operation'', ''execution_id'', ''print_job_item_id'',
     ''delivery_reservation_id'', ''payload_sha256'', ''layout_sha256'', ''template_version_id'',
     ''printer_profile_id'', ''printer_profile_fingerprint'', ''agent_printer_id'', ''organisation_id'',
     ''participant_id'', ''agent_binding_id'', ''printing_contract_version'', ''layout_schema_version'',
     ''renderer_version'', ''copies'']"

definition raw_fields :: "pystr list" where
  "raw_fields = [''full_km'', ''payload'', ''queue'', ''queue_name'', ''path'', ''url'', ''devmode'', ''zpl'',
     ''epl'', ''cpcl'', ''command'', ''writeprinter'', ''raw'']"

definition validate_control :: "print_control \<Rightarrow> print_error + unit" where
  "validate_control c =
     bind (print_check (pc_contract c = ''printing-agent-v2'' \<and> pc_operation c = ''PRINT_RENDER_AND_SPOOL'')
             (PhysicalError ''unsupported physical print operation'')) (\<lambda>_.
     bind (each (\<lambda>v. print_check (safe_id 160 v) (PhysicalError ''invalid physical print identifier''))
             [pc_execution c, pc_item c, pc_reservation c, pc_template c, pc_profile c, pc_printer c,
              pc_organisation c, pc_participant c, pc_binding c]) (\<lambda>_.
     bind (print_check (sha_text (pc_payload_sha256 c) \<and> sha_text (pc_layout_sha256 c))
             (PhysicalError ''invalid physical print hash'')) (\<lambda>_.
     bind (print_check (sha_text (pc_fingerprint c)) (PhysicalError ''invalid printer profile fingerprint'')) (\<lambda>_.
     bind (print_check (pc_printing_version c = ''sellari-printing-contract-v1'')
             (PhysicalError ''incompatible printing contract version'')) (\<lambda>_.
     bind (print_check (pc_layout_version c = ''printing-layout-v1'')
             (PhysicalError ''incompatible layout schema version'')) (\<lambda>_.
     bind (print_check (pc_renderer_version c = ''sellari-libdmtx-raster-v1'')
             (PhysicalError ''incompatible renderer version'')) (\<lambda>_.
       print_check (pc_copies c = 1) (PhysicalSecurity ''physical printing copies must equal 1''))))))))"

definition copies_of :: "py_values \<Rightarrow> wire \<Rightarrow> print_error + int" where
  "copies_of pv w = (case map_of w ''copies'' of None \<Rightarrow> Inr 1 | Some v \<Rightarrow> int_of pv v)"

definition read_control :: "py_values \<Rightarrow> wire \<Rightarrow> print_error + print_control" where
  "read_control pv w =
     bind (print_check (known_fields control_fields w) (PhysicalSecurity ''unsupported physical print fields'')) (\<lambda>_.
     bind (print_check (\<not> list_ex (\<lambda>(k, _). casefold k \<in> set raw_fields) w)
             (PhysicalSecurity ''raw printer/payload field is forbidden'')) (\<lambda>_.
     bind (copies_of pv w) (\<lambda>n.
     let t = field_text pv w; c =
       \<lparr>pc_contract = t ''contract_version'', pc_operation = t ''operation'', pc_execution = t ''execution_id'',
        pc_item = t ''print_job_item_id'', pc_reservation = t ''delivery_reservation_id'',
        pc_payload_sha256 = t ''payload_sha256'', pc_layout_sha256 = t ''layout_sha256'',
        pc_template = t ''template_version_id'', pc_profile = t ''printer_profile_id'',
        pc_fingerprint = t ''printer_profile_fingerprint'', pc_printer = t ''agent_printer_id'',
        pc_organisation = t ''organisation_id'', pc_participant = t ''participant_id'',
        pc_binding = t ''agent_binding_id'', pc_printing_version = t ''printing_contract_version'',
        pc_layout_version = t ''layout_schema_version'', pc_renderer_version = t ''renderer_version'',
        pc_copies = n\<rparr>
     in bind (validate_control c) (\<lambda>_. Inr c))))"

definition control_identity :: "print_control \<Rightarrow> print_identity" where
  "control_identity c = \<lparr>pid_item = pc_item c, pid_reservation = pc_reservation c,
     pid_payload_sha256 = pc_payload_sha256 c, pid_layout_sha256 = pc_layout_sha256 c,
     pid_profile = pc_profile c, pid_fingerprint = pc_fingerprint c\<rparr>"

section \<open>The render contract\<close>

record render_contract =
  rc_execution :: pystr
  rc_layout :: wire
  rc_label_width :: pystr
  rc_label_height :: pystr
  rc_dpi_x :: int
  rc_dpi_y :: int
  rc_media_width :: pystr
  rc_media_height :: pystr
  rc_physical_width :: int
  rc_physical_height :: int
  rc_printable_width :: int
  rc_printable_height :: int
  rc_offset_x :: int
  rc_offset_y :: int
  rc_profile_state :: pystr
  rc_fingerprint :: pystr
  rc_printer :: pystr
  rc_values :: "(pystr \<times> pystr) list"

definition contract_fields :: "pystr list" where
  "contract_fields = [''execution_id'', ''layout'', ''label_width_mm'', ''label_height_mm'', ''dpi_x'', ''dpi_y'',
     ''media_width_mm'', ''media_height_mm'', ''physical_width_px'', ''physical_height_px'',
     ''printable_width_px'', ''printable_height_px'', ''offset_x_px'', ''offset_y_px'',
     ''printer_profile_state'', ''printer_profile_fingerprint'', ''agent_printer_id'', ''field_values'']"

definition contract_objects :: "wire \<Rightarrow> print_error + wire \<times> wire" where
  "contract_objects w =
     (case (get_key ''layout'' w, (case map_of w ''field_values'' of None \<Rightarrow> JObj [] | Some v \<Rightarrow> v)) of
        (JObj l, JObj f) \<Rightarrow> Inr (l, f)
      | _ \<Rightarrow> Inl (PhysicalError ''invalid physical render contract''))"

text \<open>The numbers are converted in the order of the fields, so the first bad one raises.\<close>

definition read_contract :: "py_values \<Rightarrow> wire \<Rightarrow> print_error + render_contract" where
  "read_contract pv w =
     bind (print_check (known_fields contract_fields w)
             (PhysicalSecurity ''physical render contract has unsupported fields'')) (\<lambda>_.
     bind (contract_objects w) (\<lambda>(l, f).
     bind (collect (field_float pv w) [''label_width_mm'', ''label_height_mm'']) (\<lambda>sizes.
     bind (collect (field_int pv w) [''dpi_x'', ''dpi_y'']) (\<lambda>dpi.
     bind (collect (field_float pv w) [''media_width_mm'', ''media_height_mm'']) (\<lambda>media.
     bind (collect (field_int pv w) [''physical_width_px'', ''physical_height_px'', ''printable_width_px'',
             ''printable_height_px'', ''offset_x_px'', ''offset_y_px'']) (\<lambda>px.
       Inr \<lparr>rc_execution = field_text pv w ''execution_id'', rc_layout = l,
            rc_label_width = sizes ! 0, rc_label_height = sizes ! 1, rc_dpi_x = dpi ! 0, rc_dpi_y = dpi ! 1,
            rc_media_width = media ! 0, rc_media_height = media ! 1,
            rc_physical_width = px ! 0, rc_physical_height = px ! 1, rc_printable_width = px ! 2,
            rc_printable_height = px ! 3, rc_offset_x = px ! 4, rc_offset_y = px ! 5,
            rc_profile_state = field_text pv w ''printer_profile_state'',
            rc_fingerprint = field_text pv w ''printer_profile_fingerprint'',
            rc_printer = field_text pv w ''agent_printer_id'',
            rc_values = map (\<lambda>(k, v). (k, str_of pv v)) f\<rparr>))))))"

section \<open>The status request\<close>

record status_request =
  sr_contract :: pystr
  sr_operation :: pystr
  sr_execution :: pystr
  sr_profile :: pystr
  sr_fingerprint :: pystr
  sr_printer :: pystr
  sr_job :: int

definition status_fields :: "pystr list" where
  "status_fields = [''contract_version'', ''operation'', ''execution_id'', ''printer_profile_id'',
     ''printer_profile_fingerprint'', ''agent_printer_id'', ''windows_spool_job_id'']"

definition validate_status :: "status_request \<Rightarrow> print_error + unit" where
  "validate_status r =
     bind (print_check (sr_contract r = ''printing-agent-v2'' \<and> sr_operation r = ''PRINT_STATUS'')
             (PhysicalError ''unsupported print status operation'')) (\<lambda>_.
     bind (each (\<lambda>v. print_check (safe_id 160 v) (PhysicalError ''invalid print status identifier''))
             [sr_execution r, sr_profile r, sr_printer r]) (\<lambda>_.
     bind (print_check (sha_text (sr_fingerprint r)) (PhysicalError ''invalid print status printer fingerprint'')) (\<lambda>_.
       print_check (0 < sr_job r) (PhysicalError ''invalid Windows spool job id''))))"

definition read_status :: "py_values \<Rightarrow> wire \<Rightarrow> print_error + status_request" where
  "read_status pv w =
     bind (print_check (fst ` set w = set status_fields) (PhysicalSecurity ''print status contract fields mismatch'')) (\<lambda>_.
     bind (int_of pv (get_key ''windows_spool_job_id'' w)) (\<lambda>n.
     let t = (\<lambda>k. str_of pv (get_key k w)); r =
       \<lparr>sr_contract = t ''contract_version'', sr_operation = t ''operation'', sr_execution = t ''execution_id'',
        sr_profile = t ''printer_profile_id'', sr_fingerprint = t ''printer_profile_fingerprint'',
        sr_printer = t ''agent_printer_id'', sr_job = n\<rparr>
     in bind (validate_status r) (\<lambda>_. Inr r)))"

section \<open>Display values of a marking code\<close>

text \<open>\<open>bytes.find(needle, start)\<close>\<close>

fun find_at :: "nat \<Rightarrow> bytes \<Rightarrow> bytes \<Rightarrow> nat option" where
  "find_at i needle [] = (if needle = [] then Some i else None)"
| "find_at i needle (c # cs) = (if take (length needle) (c # cs) = needle then Some i else find_at (Suc i) needle cs)"

definition find_from :: "bytes \<Rightarrow> nat \<Rightarrow> bytes \<Rightarrow> nat option" where
  "find_from needle start b = find_at start needle (drop start b)"

definition serial_end :: "bytes \<Rightarrow> nat" where
  "serial_end km = (case (find_from [CHR 0x1D] 18 km, find_from ''91'' 18 km) of
     (None, None) \<Rightarrow> length km | (Some i, None) \<Rightarrow> i | (None, Some j) \<Rightarrow> j | (Some i, Some j) \<Rightarrow> min i j)"

definition gs1_values :: "bytes \<Rightarrow> (pystr \<times> pystr) list" where
  "gs1_values km =
     (if startswith km ''01'' \<and> 18 \<le> length km then
        let gtin = take 14 (drop 2 km) in
        if digits 14 gtin \<and> take 2 (drop 16 km) = ''21'' then
          (let shown = take (serial_end km) km in
           (''GTIN'', gtin) # (if isascii shown then [(''HUMAN_READABLE_KI'', shown)] else []))
        else []
      else [])"

lemma find_at_append:
  "(\<And>k. k < length a \<Longrightarrow> take (length needle) (drop k (a @ needle @ b)) \<noteq> needle) \<Longrightarrow> needle \<noteq> [] \<Longrightarrow>
     find_at i needle (a @ needle @ b) = Some (i + length a)"
proof (induction a arbitrary: i)
  case Nil
  then show ?case by (cases needle) auto
next
  case (Cons c a)
  have "take (length needle) (c # a @ needle @ b) \<noteq> needle" using Cons.prems(1) [of 0] by simp
  moreover have "find_at (Suc i) needle (a @ needle @ b) = Some (Suc i + length a)"
    using Cons.prems(1) [of "Suc _"] Cons.prems(2) by (intro Cons.IH) auto
  ultimately show ?case by simp
qed

lemma find_at_after: "CHR 0x1D \<notin> set a \<Longrightarrow> find_at i [CHR 0x1D] (a @ r) = Some j \<Longrightarrow> i + length a \<le> j"
proof (induction a arbitrary: i)
  case Nil
  have "find_at i n r = Some j \<Longrightarrow> i \<le> j" for n
    by (induction i n r rule: find_at.induct) (auto split: if_splits)
  with Nil show ?case by simp
next
  case (Cons c a)
  then show ?case by (auto split: if_splits dest!: Cons.IH)
qed

text \<open>C40: The code shown on a label ends before the first \<open>91\<close> after the GTIN, wherever it stands: a serial number
  that holds these digits is cut there.\<close>

theorem shown_code_ends_at_91:
  assumes "digits 14 g14" and "isascii a" and "CHR 0x1D \<notin> set a"
    and "\<forall>k<length a. take 2 (drop k (a @ ''91'' @ rest)) \<noteq> ''91''"
  shows "gs1_values (''01'' @ g14 @ ''21'' @ a @ ''91'' @ rest) =
    [(''GTIN'', g14), (''HUMAN_READABLE_KI'', ''01'' @ g14 @ ''21'' @ a)]"
proof -
  let ?km = "''01'' @ g14 @ ''21'' @ a @ ''91'' @ rest"
  have len: "length g14 = 14" using assms(1) by (simp add: digits_def)
  have tail: "drop 18 ?km = a @ ''91'' @ rest" using len by simp
  have "find_from ''91'' 18 ?km = Some (18 + length a)"
    unfolding find_from_def tail
  proof (rule find_at_append)
    fix k assume "k < length a"
    with assms(4) have "take 2 (drop k (a @ ''91'' @ rest)) \<noteq> ''91''" by blast
    moreover have "length ''91'' = 2" by simp
    ultimately show "take (length ''91'') (drop k (a @ ''91'' @ rest)) \<noteq> ''91''" by (simp only: not_False_eq_True)
  qed simp
  moreover have "18 + length a \<le> j" if "find_from [CHR 0x1D] 18 ?km = Some j" for j
    using that find_at_after [OF assms(3)] unfolding find_from_def tail by blast
  ultimately have e: "serial_end ?km = 18 + length a"
    by (auto simp: serial_end_def min_def split: option.splits dest: le_antisym)
  have "take (length (''01'' @ g14 @ ''21'' @ a)) ((''01'' @ g14 @ ''21'' @ a) @ ''91'' @ rest) = ''01'' @ g14 @ ''21'' @ a"
    by (rule append_eq_conv_conj [THEN iffD1, THEN conjunct1, symmetric]) simp
  then have "take (18 + length a) ?km = ''01'' @ g14 @ ''21'' @ a" using len by simp
  moreover have "isascii (''01'' @ g14 @ ''21'' @ a)"
    using assms(1,2) by (auto simp: isascii_def digits_def list_all_iff digit_char_def code_def)
  ultimately show ?thesis
    using e len assms(1) by (simp add: gs1_values_def startswith_def Let_def)
qed

lemma shown_code_ends_at_91_witness:
  "gs1_values (''010460000000001221'' @ ''AB'' @ ''91'' @ ''CDEFGHIJK'') =
     [(''GTIN'', ''04600000000012''), (''HUMAN_READABLE_KI'', ''010460000000001221AB'')]"
  using shown_code_ends_at_91 [of "''04600000000012''" "''AB''" "''CDEFGHIJK''"]
  by (simp add: digits_def isascii_def code_def digit_char_def less_Suc_eq numeral_2_eq_2)

end
