(* ===== verification/PrintRuntime.thy ===== *)
theory PrintRuntime
  imports PrintControl
begin

text \<open>
  The execution of a physical print on the agent (\<open>wbcz/physical_printing.py\<close>, \<open>PhysicalPrintRuntime\<close>):
  the checks, the durable record of the verified rendering, the spool boundary, the submission, and the
  recording of its outcome; then the status query and the synthetic test print. The server's three
  callbacks, the printers Windows shows, the fingerprint of their capabilities and the renderer are
  arguments. The state is the table of the replay store, the spool jobs that were created (by execution)
  and the results that were reported.
\<close>

section \<open>Printers\<close>

record printer_capabilities =
  cp_dpi_x :: int
  cp_dpi_y :: int
  cp_fingerprint :: "print_error + pystr"

text \<open>One look at the printers: their queues and servers, and what inspecting one gives.\<close>

record printer_view =
  vw_printers :: "(pystr \<times> pystr option) list"
  vw_inspect :: "pystr \<times> pystr option \<Rightarrow> print_error + printer_capabilities"

definition local_identity :: "pystr \<Rightarrow> pystr option \<Rightarrow> pystr" where
  "local_identity queue server =
     ''prn_'' @ take 40 (sha256_hex (''sellari-agent-printer-id-v1'' @ [CHR 0x00] @
       utf8 (canonical_json (JObj [(''queue_name'', JStr queue), (''server_name'', JStr (or_else server []))]))))"

definition resolve :: "printer_view \<Rightarrow> pystr \<Rightarrow> pystr \<Rightarrow> print_error + pystr \<times> printer_capabilities" where
  "resolve v printer fingerprint =
     (case filter (\<lambda>(queue, server). local_identity queue server = printer) (vw_printers v) of
        [(queue, server)] \<Rightarrow>
          bind (vw_inspect v (queue, server)) (\<lambda>cp.
          bind (cp_fingerprint cp) (\<lambda>seen.
            if seen \<noteq> fingerprint then Inl (PreSpoolFailure ''PRINTER_PROFILE_FINGERPRINT_CHANGED'')
            else Inr (queue, cp)))
      | _ \<Rightarrow> Inl (PreSpoolFailure ''PRINTER_LOCAL_ID_NOT_RESOLVED''))"

section \<open>State and arguments\<close>

record print_world =
  pw_rows :: print_rows
  pw_docs :: "pystr list"
  pw_reports :: "(pystr \<times> spool_state) list"

type_synonym 'a runtime_op = "(print_world, print_error, 'a) op"

record print_env =
  en_values :: py_values
  en_first :: printer_view
  en_second :: printer_view
  en_gdi :: gdi
  en_render :: "bytes \<Rightarrow> render_contract \<Rightarrow> (pystr \<times> pystr) list \<Rightarrow> print_error + label_raster"
  en_mark :: "pystr \<Rightarrow> print_error + unit"
  en_begin :: "pystr \<Rightarrow> print_error + unit"
  en_report :: "pystr \<Rightarrow> print_mark \<Rightarrow> print_error + unit"
  en_now :: "nat \<Rightarrow> pystr"

record print_answer =
  an_state :: spool_state
  an_job :: "int option"
  an_error :: "pystr option"

definition on_rows :: "(print_rows, print_error, 'a) op \<Rightarrow> 'a runtime_op" where
  "on_rows m w = (case m (pw_rows w) of (r, d) \<Rightarrow> (r, w\<lparr>pw_rows := d\<rparr>))"

definition record_mark :: "pystr \<Rightarrow> print_control \<Rightarrow> print_mark \<Rightarrow> unit runtime_op" where
  "record_mark now c m = on_rows (commit (record_print now (pc_execution c) (control_identity c) m))"

definition report :: "print_env \<Rightarrow> print_control \<Rightarrow> print_mark \<Rightarrow> unit runtime_op" where
  "report env c m w =
     (en_report env (pc_execution c) m, w\<lparr>pw_reports := pw_reports w @ [(pc_execution c, mark_state m)]\<rparr>)"

definition job_mark :: "spool_state \<Rightarrow> int option \<Rightarrow> pystr \<Rightarrow> pystr option \<Rightarrow> print_mark" where
  "job_mark s job shown e = \<lparr>mark_state = s, mark_job = job, mark_status = Some shown, mark_error = e\<rparr>"

definition failed_mark :: "spool_state \<Rightarrow> pystr \<Rightarrow> print_mark" where
  "failed_mark s e = \<lparr>mark_state = s, mark_job = None, mark_status = None, mark_error = Some e\<rparr>"

section \<open>Before the boundary\<close>

definition contract_checks :: "print_control \<Rightarrow> render_contract \<Rightarrow> bytes \<Rightarrow> print_error + unit" where
  "contract_checks c rc km =
     bind (print_check (rc_execution rc = pc_execution c) (PhysicalSecurity ''render contract execution mismatch'')) (\<lambda>_.
     bind (print_check (sha256_hex km = pc_payload_sha256 c) (PhysicalSecurity ''physical payload SHA-256 mismatch'')) (\<lambda>_.
     bind (print_check (rc_profile_state rc = ''ACTIVE'') (PhysicalError ''printer profile is not ACTIVE'')) (\<lambda>_.
     bind (print_check (rc_fingerprint rc = pc_fingerprint c)
             (PhysicalSecurity ''printer profile fingerprint mismatch'')) (\<lambda>_.
     bind (print_check (rc_printer rc = pc_printer c) (PhysicalSecurity ''agent printer ID mismatch'')) (\<lambda>_.
       print_check (rc_dpi_x rc = rc_dpi_y rc) (PhysicalError ''PRINTER_DPI_UNSUPPORTED''))))))"

definition same_dpi :: "printer_capabilities \<Rightarrow> render_contract \<Rightarrow> bool" where
  "same_dpi cp rc \<longleftrightarrow> cp_dpi_x cp = rc_dpi_x rc \<and> cp_dpi_y cp = rc_dpi_y rc"

text \<open>The display values of the code, overridden by those of the contract.\<close>

definition render_values :: "bytes \<Rightarrow> render_contract \<Rightarrow> (pystr \<times> pystr) list" where
  "render_values km rc = filter (\<lambda>(k, _). k \<notin> fst ` set (rc_values rc)) (gs1_values km) @ rc_values rc"

definition placed :: "render_contract \<Rightarrow> label_raster \<Rightarrow> label_raster" where
  "placed rc r = r\<lparr>lab_offset_x := rc_offset_x rc, lab_offset_y := rc_offset_y rc,
     lab_printable_width := rc_printable_width rc, lab_printable_height := rc_printable_height rc\<rparr>"

definition verified_raster :: "print_env \<Rightarrow> wire \<Rightarrow> wire \<Rightarrow> bytes
    \<Rightarrow> print_error + print_control \<times> render_contract \<times> label_raster" where
  "verified_raster env control agreed km =
     bind (read_control (en_values env) control) (\<lambda>c.
     bind (read_contract (en_values env) agreed) (\<lambda>rc.
     bind (contract_checks c rc km) (\<lambda>_.
     bind (resolve (en_first env) (pc_printer c) (pc_fingerprint c)) (\<lambda>(queue, cp).
     bind (print_check (same_dpi cp rc) (PhysicalError ''PRINTER_PROFILE_DPI_CHANGED'')) (\<lambda>_.
     bind (en_render env km rc (render_values km rc)) (\<lambda>r.
     bind (print_check (lab_layout_sha256 r = pc_layout_sha256 c)
             (PhysicalSecurity ''physical layout SHA-256 mismatch'')) (\<lambda>_.
     bind (print_check (int (img_width (lab_image r)) = rc_physical_width rc
                        \<and> int (img_height (lab_image r)) = rc_physical_height rc)
             (PrintContract ''final raster does not exactly match approved physical media pixels'')) (\<lambda>_.
       Inr (c, rc, placed rc r)))))))))"

section \<open>After the boundary\<close>

text \<open>The callback GDI's submission makes as soon as the spool job exists. The job is counted before the
  record is attempted.\<close>

definition job_created :: "print_env \<Rightarrow> print_control \<Rightarrow> int \<Rightarrow> (print_world, unit) print_op" where
  "job_created env c job =
     seq (\<lambda>w. (Inr (), w\<lparr>pw_docs := pw_docs w @ [pc_execution c]\<rparr>)) (\<lambda>_.
     seq (record_mark (en_now env 2) c (job_mark SPOOL_JOB_CREATED (Some job) ''QUEUED'' None)) (\<lambda>_.
       report env c (job_mark SPOOL_JOB_CREATED (Some job) ''QUEUED'' None)))"

definition submit_label :: "print_env \<Rightarrow> print_control \<Rightarrow> render_contract \<Rightarrow> label_raster \<Rightarrow> (int \<times> pystr) runtime_op" where
  "submit_label env c rc r =
     seq (lift (resolve (en_second env) (pc_printer c) (pc_fingerprint c))) (\<lambda>(queue, cp).
     if \<not> same_dpi cp rc then raise (PreSpoolFailure ''PRINTER_PROFILE_DPI_CHANGED'')
     else spool_submit (en_gdi env) queue r (job_created env c))"

definition definite_failure :: "print_env \<Rightarrow> print_control \<Rightarrow> pystr \<Rightarrow> print_answer runtime_op" where
  "definite_failure env c e =
     seq (record_mark (en_now env 3) c (failed_mark FAILED_PRE_SPOOL e)) (\<lambda>_.
     seq (report env c (failed_mark FAILED_PRE_SPOOL e)) (\<lambda>_.
       ret \<lparr>an_state = FAILED_PRE_SPOOL, an_job = None, an_error = Some e\<rparr>))"

definition ambiguous_failure :: "print_env \<Rightarrow> print_control \<Rightarrow> pystr \<Rightarrow> int option \<Rightarrow> print_answer runtime_op" where
  "ambiguous_failure env c e job =
     seq (if job = None then ret ()
          else record_mark (en_now env 3) c (job_mark SPOOL_JOB_CREATED job ''UNKNOWN'' None)) (\<lambda>_.
     seq (record_mark (en_now env 4) c (job_mark UNKNOWN_AFTER_SPOOL job ''UNKNOWN'' (Some e))) (\<lambda>_.
     seq (report env c (job_mark UNKNOWN_AFTER_SPOOL job ''UNKNOWN'' (Some e))) (\<lambda>_.
       ret \<lparr>an_state = UNKNOWN_AFTER_SPOOL, an_job = job, an_error = Some e\<rparr>)))"

definition accepted :: "print_env \<Rightarrow> print_control \<Rightarrow> int \<Rightarrow> pystr \<Rightarrow> print_answer runtime_op" where
  "accepted env c job shown =
     seq (record_mark (en_now env 3) c (job_mark SPOOL_JOB_CREATED (Some job) shown None)) (\<lambda>_.
     seq (record_mark (en_now env 4) c (job_mark SPOOLER_ACCEPTED (Some job) shown None)) (\<lambda>_.
     seq (report env c (job_mark SPOOLER_ACCEPTED (Some job) shown None)) (\<lambda>_.
       ret \<lparr>an_state = SPOOLER_ACCEPTED, an_job = Some job, an_error = None\<rparr>)))"

definition spool_label :: "print_env \<Rightarrow> print_control \<Rightarrow> render_contract \<Rightarrow> label_raster \<Rightarrow> print_answer runtime_op" where
  "spool_label env c rc r w = (case submit_label env c rc r w of
     (Inl (PreSpoolFailure e), v) \<Rightarrow> definite_failure env c e v
   | (Inl (AfterSpool e job), v) \<Rightarrow> ambiguous_failure env c e job v
   | (Inl e, v) \<Rightarrow> (Inl e, v)
   | (Inr (job, shown), v) \<Rightarrow> accepted env c job shown v)"

definition execute_inner :: "print_env \<Rightarrow> wire \<Rightarrow> wire \<Rightarrow> bytes \<Rightarrow> print_answer runtime_op" where
  "execute_inner env control agreed km =
     seq (lift (verified_raster env control agreed km)) (\<lambda>(c, rc, r).
     seq (record_mark (en_now env 0) c (plain_mark RENDERED_VERIFIED)) (\<lambda>_.
     seq (lift (en_mark env (pc_execution c))) (\<lambda>_.
     seq (on_rows (cross_boundary (en_now env 1) (pc_execution c) (control_identity c))) (\<lambda>_.
     seq (lift (en_begin env (pc_execution c))) (\<lambda>_.
       spool_label env c rc r)))))"

section \<open>The whole execution\<close>

definition refusal :: "print_error \<Rightarrow> (spool_state \<times> pystr) option" where
  "refusal e = (case e of
     PreSpoolFailure c \<Rightarrow> Some (FAILED_PRE_SPOOL, c)
   | PhysicalSecurity _ \<Rightarrow> Some (BLOCKED, ''PHYSICAL_SECURITY_VALIDATION_FAILED'')
   | PrintSecurity _ \<Rightarrow> Some (BLOCKED, ''PHYSICAL_SECURITY_VALIDATION_FAILED'')
   | PrintContract _ \<Rightarrow> Some (BLOCKED, ''PHYSICAL_RENDER_VALIDATION_FAILED'')
   | PhysicalError _ \<Rightarrow> Some (BLOCKED, ''PHYSICAL_PRE_SPOOL_VALIDATION_FAILED'')
   | AfterSpool _ _ \<Rightarrow> Some (BLOCKED, ''PHYSICAL_PRE_SPOOL_VALIDATION_FAILED'')
   | ProfileContract _ \<Rightarrow> Some (BLOCKED, ''PHYSICAL_PRE_SPOOL_VALIDATION_FAILED'')
   | ReplayBlocked _ \<Rightarrow> None | PrintValue _ \<Rightarrow> None | PrintForeign _ \<Rightarrow> None)"

definition refuse :: "print_env \<Rightarrow> print_control \<Rightarrow> print_error \<Rightarrow> print_answer runtime_op" where
  "refuse env c e = (case refusal e of
     None \<Rightarrow> raise e
   | Some (s, safe) \<Rightarrow>
       (\<lambda>w. if spool_crossed (pw_rows w) (pc_execution c) then raise e w
        else seq (record_mark (en_now env 5) c (failed_mark s safe)) (\<lambda>_.
             seq (report env c (failed_mark s safe)) (\<lambda>_.
               ret \<lparr>an_state = s, an_job = None, an_error = Some safe\<rparr>)) w))"

definition execute_print :: "print_env \<Rightarrow> wire \<Rightarrow> wire \<Rightarrow> bytes \<Rightarrow> print_answer runtime_op" where
  "execute_print env control agreed km =
     seq (lift (read_control (en_values env) control)) (\<lambda>c.
       catch (execute_inner env control agreed km) (refuse env c))"

section \<open>Status and synthetic prints\<close>

definition query_print :: "py_values \<Rightarrow> printer_view \<Rightarrow> spool_window \<Rightarrow> wire
    \<Rightarrow> print_error + status_request \<times> pystr \<times> pystr option" where
  "query_print pv v win raw =
     bind (read_status pv raw) (\<lambda>r.
     bind (resolve v (sr_printer r) (sr_fingerprint r)) (\<lambda>(queue, cp).
     bind (query_status win queue (sr_job r)) (\<lambda>s. Inr (r, s))))"

definition synthetic_km :: bytes where
  "synthetic_km = ''010460000000001221SYNTHETIC01'' @ [CHR 0x1D] @ ''91TEST'' @ [CHR 0x1D] @ ''92SYNTHETIC-SIGNATURE''"

definition synthetic_print :: "printer_view \<Rightarrow> gdi \<Rightarrow> (bytes \<Rightarrow> (pystr \<times> pystr) list \<Rightarrow> print_error + label_raster)
    \<Rightarrow> pystr \<Rightarrow> pystr \<Rightarrow> pystr \<Rightarrow> (int list, print_error, print_answer) op" where
  "synthetic_print v g render version printer fingerprint =
     (if version \<noteq> ''SELLARI_SYNTHETIC_LABEL_V1''
      then raise (PhysicalSecurity ''arbitrary synthetic payload is forbidden'')
      else seq (lift (resolve v printer fingerprint)) (\<lambda>(queue, cp).
           seq (lift (render synthetic_km (gs1_values synthetic_km))) (\<lambda>r.
             (\<lambda>w. case spool_submit g queue r (\<lambda>job u. (Inr (), u @ [job])) w of
                (Inl (PreSpoolFailure e), u) \<Rightarrow> (Inr \<lparr>an_state = FAILED_PRE_SPOOL, an_job = None, an_error = Some e\<rparr>, u)
              | (Inl (AfterSpool e job), u) \<Rightarrow> (Inr \<lparr>an_state = UNKNOWN_AFTER_SPOOL, an_job = job, an_error = Some e\<rparr>, u)
              | (Inl e, u) \<Rightarrow> (Inl e, u)
              | (Inr (job, _), u) \<Rightarrow> (Inr \<lparr>an_state = SPOOLER_ACCEPTED, an_job = Some job, an_error = None\<rparr>, u)))))"

section \<open>What an execution may change\<close>

abbreviation print_crossed :: "print_world \<Rightarrow> pystr \<Rightarrow> bool" where
  "print_crossed w i \<equiv> spool_crossed (pw_rows w) i"

definition label_docs :: "print_world \<Rightarrow> pystr \<Rightarrow> nat" where
  "label_docs w i = count_list (pw_docs w) i"

text \<open>No spool job is created and no crossing is forgotten.\<close>

definition keeps :: "print_world \<Rightarrow> print_world \<Rightarrow> bool" where
  "keeps w v \<longleftrightarrow> pw_docs v = pw_docs w \<and> (\<forall>k. print_crossed w k \<longrightarrow> print_crossed v k)"

named_theorems keeps_rules \<open>operations that create no spool job\<close>

lemma keeps_refl [simp]: "keeps w w"
  by (simp add: keeps_def)

lemma keeps_trans: "keeps u v \<Longrightarrow> keeps v w \<Longrightarrow> keeps u w"
  by (simp add: keeps_def)

lemma keeps_seq [keeps_rules]:
  assumes "\<And>w. keeps w (snd (m w))" and "\<And>x w. keeps w (snd (f x w))"
  shows "keeps w (snd (seq m f w))"
proof (cases "m w")
  case (Pair r v)
  with assms(1) [of w] have "keeps w v" by simp
  with Pair show ?thesis by (cases r) (auto simp: seq_def intro: keeps_trans assms(2))
qed

lemma keeps_pure [simp, keeps_rules]: "keeps w (snd (ret x w))" "keeps w (snd (raise e w))" "keeps w (snd (lift r w))"
  by (simp_all add: op_defs)

lemma keeps_report [keeps_rules]: "keeps w (snd (report env c m w))"
  by (simp add: report_def keeps_def)

lemma record_mark_cases:
  "record_mark now c m w = (case record_print now (pc_execution c) (control_identity c) m (pw_rows w) of
     Inl e \<Rightarrow> (Inl e, w) | Inr (u, d) \<Rightarrow> (Inr u, w\<lparr>pw_rows := d\<rparr>))"
  by (auto simp: record_mark_def on_rows_def commit_def split: sum.splits prod.splits)

lemma keeps_record:
  assumes "mark_state m \<in> set irreversible \<or> \<not> print_crossed w (pc_execution c)"
  shows "keeps w (snd (record_mark now c m w))"
proof (cases "record_print now (pc_execution c) (control_identity c) m (pw_rows w)")
  case (Inr p)
  obtain d where p: "p = ((), d)" by (cases p) auto
  have "spool_crossed d k" if "print_crossed w k" for k
    using record_keeps_crossed [OF Inr [unfolded p], of k] assms that by auto
  with Inr p show ?thesis by (simp add: record_mark_cases keeps_def)
qed (simp add: record_mark_cases)

lemma mark_states [simp]: "mark_state (job_mark s job v e) = s" "mark_state (failed_mark s x) = s"
  by (simp_all add: job_mark_def failed_mark_def)

lemma keeps_irreversible [keeps_rules]: "mark_state m \<in> set irreversible \<Longrightarrow> keeps w (snd (record_mark now c m w))"
  by (simp add: keeps_record)

lemma irreversible_states [simp]: "SPOOL_SUBMITTING \<in> set irreversible" "SPOOL_JOB_CREATED \<in> set irreversible"
  "SPOOLER_ACCEPTED \<in> set irreversible" "FAILED_PRE_SPOOL \<in> set irreversible" "UNKNOWN_AFTER_SPOOL \<in> set irreversible"
  "RENDERED_VERIFIED \<notin> set irreversible" "BLOCKED \<notin> set irreversible"
  by (simp_all add: irreversible_def)

lemma keeps_outcomes:
  "keeps w (snd (definite_failure env c e w))" "keeps w (snd (ambiguous_failure env c e job w))"
  "keeps w (snd (accepted env c n v w))"
  unfolding definite_failure_def ambiguous_failure_def accepted_def by (intro keeps_rules; simp add: keeps_irreversible)+

text \<open>A submission leaves the state alone or makes the callback, once.\<close>

lemma spool_submit_state:
  "snd (spool_submit g queue r created w) \<in> insert w (range (\<lambda>job. snd (created job w)))"
proof (cases "before_job g queue r")
  case (Inr job)
  have "snd (after_job g r created job w) = snd (created job w)"
    by (cases "created job w") (auto simp: after_job_def guarded_by_def catch_def seq_def lift_def ret_def raise_def split: sum.splits)
  with Inr show ?thesis by (simp add: spool_submit_split)
qed (simp add: spool_submit_split)

lemma submit_label_state:
  "snd (submit_label env c rc r w) \<in> insert w (range (\<lambda>job. snd (job_created env c job w)))"
  using spool_submit_state [of "en_gdi env" _ r "job_created env c" w]
  by (auto simp: submit_label_def seq_def lift_def raise_def split: sum.splits prod.splits)

lemma job_created_adds:
  "\<exists>v. pw_docs v = pw_docs w @ [pc_execution c] \<and> pw_rows v = pw_rows w \<and> keeps v (snd (job_created env c job w))"
proof -
  let ?v = "w\<lparr>pw_docs := pw_docs w @ [pc_execution c]\<rparr>"
  let ?m = "job_mark SPOOL_JOB_CREATED (Some job) ''QUEUED'' None"
  have "keeps ?v (snd (seq (record_mark (en_now env 2) c ?m) (\<lambda>_. report env c ?m) ?v))"
    by (intro keeps_rules) simp_all
  then show ?thesis by (intro exI [of _ ?v]) (simp add: job_created_def seq_def)
qed

lemma spool_label_state:
  assumes "print_crossed w (pc_execution c)"
  shows "\<exists>n\<le>Suc 0. pw_docs (snd (spool_label env c rc r w)) = pw_docs w @ replicate n (pc_execution c)
    \<and> (\<forall>k. print_crossed w k \<longrightarrow> print_crossed (snd (spool_label env c rc r w)) k)"
proof -
  obtain v where v: "snd (submit_label env c rc r w) = v" by simp
  have "keeps v (snd (spool_label env c rc r w))"
    using v keeps_outcomes by (auto simp: spool_label_def split: prod.splits sum.splits print_error.splits)
  moreover have "\<exists>n\<le>Suc 0. pw_docs v = pw_docs w @ replicate n (pc_execution c) \<and> (\<forall>k. print_crossed w k \<longrightarrow> print_crossed v k)"
  proof (cases "v = w")
    case False
    then obtain job where "v = snd (job_created env c job w)" using submit_label_state [of env c rc r w] v by auto
    then show ?thesis
      using job_created_adds [of w c env job] by (intro exI [of _ "Suc 0"]) (auto simp: keeps_def)
  qed auto
  ultimately show ?thesis by (auto simp: keeps_def)
qed

lemma rendered_needs_open:
  "record_print now i identity (plain_mark RENDERED_VERIFIED) d = Inr (u, d') \<Longrightarrow> \<not> spool_crossed d i"
  by (auto simp: record_print_def spool_crossed_def split: option.splits if_splits)

lemma keeps_rendered: "keeps w (snd (record_mark now c (plain_mark RENDERED_VERIFIED) w))"
proof (cases "print_crossed w (pc_execution c)")
  case True
  then have "record_print now (pc_execution c) (control_identity c) (plain_mark RENDERED_VERIFIED) (pw_rows w) \<noteq> Inr (u, d)" for u d
    using rendered_needs_open by blast
  then show ?thesis by (auto simp: record_mark_cases split: sum.splits)
qed (rule keeps_record, simp)

lemma cross_boundary_cases:
  "on_rows (cross_boundary now (pc_execution c) (control_identity c)) w =
     (case boundary_check (pc_execution c) (pw_rows w) of Inl e \<Rightarrow> (Inl e, w)
      | Inr _ \<Rightarrow> record_mark now c (plain_mark SPOOL_SUBMITTING) w)"
  by (auto simp: on_rows_def cross_boundary_def seq_def record_mark_def split: sum.splits prod.splits)

lemma cross_boundary_keeps: "keeps w (snd (on_rows (cross_boundary now (pc_execution c) (control_identity c)) w))"
  by (auto simp: cross_boundary_cases intro: keeps_irreversible split: sum.splits)

lemma cross_boundary_crosses:
  assumes "on_rows (cross_boundary now (pc_execution c) (control_identity c)) w = (Inr u, v)"
  shows "print_crossed v (pc_execution c)"
  using assms record_print_Inr(1) [of now "pc_execution c" "control_identity c" "plain_mark SPOOL_SUBMITTING" "pw_rows w"]
  by (fastforce simp: cross_boundary_cases record_mark_cases spool_crossed_def split: sum.splits prod.splits)

definition one_label :: "pystr \<Rightarrow> print_world \<Rightarrow> print_world \<Rightarrow> bool" where
  "one_label i w v \<longleftrightarrow> (\<forall>k. print_crossed w k \<longrightarrow> print_crossed v k)
     \<and> (pw_docs v = pw_docs w \<or> pw_docs v = pw_docs w @ [i] \<and> \<not> print_crossed w i \<and> print_crossed v i)"

lemma keeps_one_label: "keeps w v \<Longrightarrow> one_label i w v"
  by (simp add: keeps_def one_label_def)

lemma keeps_then_one: "keeps w u \<Longrightarrow> \<not> print_crossed w i \<Longrightarrow> one_label i u v \<or> (print_crossed u i
    \<and> (\<forall>k. print_crossed u k \<longrightarrow> print_crossed v k) \<and> pw_docs v = pw_docs u @ [i]) \<Longrightarrow> one_label i w v"
  by (auto simp: keeps_def one_label_def)

lemma execute_inner_state:
  assumes "read_control (en_values env) control = Inr c"
  shows "one_label (pc_execution c) w (snd (execute_inner env control agreed km w))"
proof (cases "verified_raster env control agreed km")
  case (Inl e)
  then show ?thesis by (simp add: execute_inner_def seq_def lift_def keeps_one_label)
next
  case (Inr t)
  obtain rc r where t: "t = (c, rc, r)"
    using Inr assms by (auto simp: verified_raster_def bind_Inr_iff)
  let ?i = "pc_execution c"
  obtain x w1 where a: "record_mark (en_now env 0) c (plain_mark RENDERED_VERIFIED) w = (x, w1)" by fastforce
  have k1: "keeps w w1" using keeps_rendered [of w "en_now env 0" c] a by simp
  show ?thesis
  proof (cases "(\<exists>e. x = Inl e) \<or> (\<exists>e. en_mark env ?i = Inl e)")
    case True
    then show ?thesis
      using Inr t a k1 by (auto simp: execute_inner_def seq_def lift_def intro: keeps_one_label split: sum.splits)
  next
    case False
    then obtain u u' where x: "x = Inr u" "en_mark env ?i = Inr u'" by (metis sum.exhaust)
    have op: "\<not> print_crossed w ?i"
      using a x(1) by (auto simp: record_mark_cases dest: rendered_needs_open split: sum.splits)
    obtain y w2 where b: "on_rows (cross_boundary (en_now env 1) ?i (control_identity c)) w1 = (y, w2)" by fastforce
    have k2: "keeps w w2" using cross_boundary_keeps [of w1 "en_now env 1" c] b k1 keeps_trans by fastforce
    show ?thesis
    proof (cases "(\<exists>e. y = Inl e) \<or> (\<exists>e. en_begin env ?i = Inl e)")
      case True
      then show ?thesis
        using Inr t a x b k2 by (auto simp: execute_inner_def seq_def lift_def intro: keeps_one_label split: sum.splits)
    next
      case False
      then obtain z z' where y: "y = Inr z" "en_begin env ?i = Inr z'" by (metis sum.exhaust)
      have c2: "print_crossed w2 ?i" using cross_boundary_crosses b y(1) by simp
      have v: "snd (execute_inner env control agreed km w) = snd (spool_label env c rc r w2)"
        using Inr t a x b y by (simp add: execute_inner_def seq_def lift_def)
      obtain n where "n \<le> Suc 0" "pw_docs (snd (spool_label env c rc r w2)) = pw_docs w2 @ replicate n ?i"
          "\<forall>k. print_crossed w2 k \<longrightarrow> print_crossed (snd (spool_label env c rc r w2)) k"
        using spool_label_state [OF c2] by blast
      with k2 op c2 show ?thesis unfolding v
        by (cases n) (auto simp: keeps_def one_label_def)
    qed
  qed
qed

lemma refuse_keeps: "keeps w (snd (refuse env c e w))"
proof (cases "refusal e")
  case (Some p)
  obtain st safe where p: "p = (st, safe)" by (cases p) auto
  show ?thesis
  proof (cases "print_crossed w (pc_execution c)")
    case False
    then have "keeps w (snd (record_mark (en_now env 5) c (failed_mark st safe) w))" by (simp add: keeps_record)
    moreover have "keeps v (snd (seq (report env c m) (\<lambda>_. ret a) v))" for v m a by (intro keeps_rules)
    ultimately show ?thesis
      using Some p False keeps_trans
      by (cases "record_mark (en_now env 5) c (failed_mark st safe) w")
        (fastforce simp: refuse_def seq_def [of "record_mark _ _ _"] split: sum.splits)
  qed (use Some p in \<open>simp add: refuse_def\<close>)
qed (simp add: refuse_def)

lemma execute_print_state:
  "\<exists>i. one_label i w (snd (execute_print env control agreed km w))"
proof (cases "read_control (en_values env) control")
  case (Inr c)
  obtain x v where i: "execute_inner env control agreed km w = (x, v)" by fastforce
  have "one_label (pc_execution c) w v" using execute_inner_state [OF Inr, of w agreed km] i by simp
  moreover have "keeps v (snd (catch (execute_inner env control agreed km) (refuse env c) w))"
    using i refuse_keeps by (cases x) (simp_all add: catch_def)
  ultimately show ?thesis
    using Inr by (auto simp: execute_print_def seq_def lift_def one_label_def keeps_def)
next
  case (Inl e)
  have "one_label i w w" for i by (rule keeps_one_label) simp
  with Inl show ?thesis by (simp add: execute_print_def seq_def lift_def)
qed

inductive print_step :: "print_world \<Rightarrow> print_world \<Rightarrow> bool" where
  step_print: "print_step w (snd (execute_print env control agreed km w))"

interpretation pg: once_guard print_crossed label_docs print_step
proof
  fix w v k
  assume "print_step w v"
  then obtain i where o: "one_label i w v" by cases (use execute_print_state in blast)
  show "print_crossed w k \<Longrightarrow> print_crossed v k" using o by (simp add: one_label_def)
  show "print_crossed w k \<Longrightarrow> label_docs v k = label_docs w k"
    using o by (cases "i = k") (auto simp: one_label_def label_docs_def)
  show "label_docs v k \<le> Suc (label_docs w k)" using o by (auto simp: one_label_def label_docs_def)
  show "label_docs v k \<noteq> label_docs w k \<Longrightarrow> print_crossed v k"
    using o by (cases "i = k") (auto simp: one_label_def label_docs_def)
qed

fun print_session :: "(print_env \<times> wire \<times> wire \<times> bytes) list \<Rightarrow> print_world \<Rightarrow> print_world" where
  "print_session [] w = w"
| "print_session ((env, control, agreed, km) # rest) w =
     print_session rest (snd (execute_print env control agreed km w))"

lemma print_session_run: "print_step\<^sup>*\<^sup>* w (print_session xs w)"
proof (induction xs w rule: print_session.induct)
  case (2 env control agreed km rest w)
  have "print_step w (snd (execute_print env control agreed km w))" by (rule step_print)
  with 2 show ?case by (simp add: converse_rtranclp_into_rtranclp)
qed simp

definition blank_world :: print_world where
  "blank_world = \<lparr>pw_rows = [], pw_docs = [], pw_reports = []\<rparr>"

text \<open>C10: Whatever prints an agent runs one after another, repeats and failures at any call included, it creates at
  most one spool job for an execution.\<close>

theorem label_spooled_at_most_once: "label_docs (print_session xs blank_world) i \<le> 1"
  by (rule pg.at_most_once [OF print_session_run]) (simp add: blank_world_def label_docs_def)

text \<open>The contract of the component: executions are closed one by one and never reopened, and a spool job is
  created only for an execution that is open, which closes it.\<close>

inductive once_step :: "pystr set \<times> pystr list \<Rightarrow> pystr set \<times> pystr list \<Rightarrow> bool" where
  once_idle: "closed \<subseteq> closed' \<Longrightarrow> once_step (closed, jobs) (closed', jobs)"
| once_print: "i \<notin> closed \<Longrightarrow> insert i closed \<subseteq> closed' \<Longrightarrow> once_step (closed, jobs) (closed', jobs @ [i])"

definition print_abstraction :: "print_world \<Rightarrow> pystr set \<times> pystr list" where
  "print_abstraction w = ({k. print_crossed w k}, pw_docs w)"

text \<open>C22: The execution of a print, on every path and whatever the printers, GDI, the renderer and the server answer,
  is one step of the contract.\<close>

theorem execute_refines_once:
  "once_step (print_abstraction w) (print_abstraction (snd (execute_print env control agreed km w)))"
proof -
  obtain i where o: "one_label i w (snd (execute_print env control agreed km w))" using execute_print_state by blast
  then have "{k. print_crossed w k} \<subseteq> {k. print_crossed (snd (execute_print env control agreed km w)) k}"
    by (auto simp: one_label_def)
  with o show ?thesis
    using once_idle once_print [of i "{k. print_crossed w k}"] by (auto simp: print_abstraction_def one_label_def)
qed

text \<open>C35: Two agents on one store are not kept apart: both can find the rendered row before either of them records
  the boundary, and then both records succeed.\<close>

theorem boundary_crossed_twice:
  assumes "find_print i d = Some q" and "pr_state q = RENDERED_VERIFIED" and "pr_identity q = identity"
  shows "boundary_check i d = Inr () \<and>
    (\<exists>d1 d2. record_print now i identity (plain_mark SPOOL_SUBMITTING) d = Inr ((), d1)
       \<and> record_print now' i identity (plain_mark SPOOL_SUBMITTING) d1 = Inr ((), d2))"
  using assms by (simp add: boundary_check_def record_print_def find_marked)

definition demo_identity :: print_identity where
  "demo_identity = \<lparr>pid_item = ''i'', pid_reservation = ''r'', pid_payload_sha256 = ''p'', pid_layout_sha256 = ''l'',
     pid_profile = ''f'', pid_fingerprint = ''g''\<rparr>"

lemma boundary_crossed_twice_witness:
  "\<exists>d1 d2. record_print ''t1'' ''e'' demo_identity (plain_mark SPOOL_SUBMITTING)
     [first_row_of ''t0'' ''e'' demo_identity (plain_mark RENDERED_VERIFIED)] = Inr ((), d1)
     \<and> record_print ''t2'' ''e'' demo_identity (plain_mark SPOOL_SUBMITTING) d1 = Inr ((), d2)"
  using boundary_crossed_twice [of "''e''" "[first_row_of ''t0'' ''e'' demo_identity (plain_mark RENDERED_VERIFIED)]"
      _ demo_identity]
  by (simp add: find_print_def)

section \<open>Answers and records\<close>

definition answered :: "print_control \<Rightarrow> print_world \<Rightarrow> spool_state \<Rightarrow> bool" where
  "answered c v s \<longleftrightarrow> (\<exists>q. find_print (pc_execution c) (pw_rows v) = Some q \<and> pr_state q = s
     \<and> pr_identity q = control_identity c) \<and> (\<exists>rs. pw_reports v = rs @ [(pc_execution c, s)])"

lemma tail_answered:
  assumes "seq (record_mark now c m) (\<lambda>_. seq (report env c m) (\<lambda>_. ret a)) w = (Inr b, v)"
  shows "b = a \<and> answered c v (mark_state m)"
proof -
  obtain d where d: "record_print now (pc_execution c) (control_identity c) m (pw_rows w) = Inr ((), d)"
      "v = w\<lparr>pw_rows := d, pw_reports := pw_reports w @ [(pc_execution c, mark_state m)]\<rparr>" "b = a"
    using assms by (auto simp: seq_Inr record_mark_cases report_def ret_def split: sum.splits)
  with record_print_Inr(1) [OF d(1)] show ?thesis by (auto simp: answered_def)
qed

lemma spool_label_answered:
  assumes "spool_label env c rc r w = (Inr a, v)"
  shows "answered c v (an_state a)"
proof -
  obtain x u where s: "submit_label env c rc r w = (x, u)" by fastforce
  consider e where "x = Inl (PreSpoolFailure e)" | e job where "x = Inl (AfterSpool e job)" | y where "x = Inr y"
    using assms s by (cases x) (auto simp: spool_label_def split: print_error.splits)
  then show ?thesis
  proof cases
    case 1
    with assms s have "definite_failure env c e u = (Inr a, v)" by (simp add: spool_label_def)
    from tail_answered [OF this [unfolded definite_failure_def]] show ?thesis by simp
  next
    case 2
    with assms s have "ambiguous_failure env c e job u = (Inr a, v)" by (simp add: spool_label_def)
    then obtain u' where "seq (record_mark (en_now env 4) c (job_mark UNKNOWN_AFTER_SPOOL job ''UNKNOWN'' (Some e)))
        (\<lambda>_. seq (report env c (job_mark UNKNOWN_AFTER_SPOOL job ''UNKNOWN'' (Some e)))
        (\<lambda>_. ret \<lparr>an_state = UNKNOWN_AFTER_SPOOL, an_job = job, an_error = Some e\<rparr>)) u' = (Inr a, v)"
      by (subst (asm) ambiguous_failure_def) (auto simp: seq_Inr [of "if _ then _ else _"])
    from tail_answered [OF this] show ?thesis by simp
  next
    case 3
    obtain job shown where "y = (job, shown)" by fastforce
    with 3 assms s have "accepted env c job shown u = (Inr a, v)" by (simp add: spool_label_def)
    then obtain u' where "seq (record_mark (en_now env 4) c (job_mark SPOOLER_ACCEPTED (Some job) shown None))
        (\<lambda>_. seq (report env c (job_mark SPOOLER_ACCEPTED (Some job) shown None))
        (\<lambda>_. ret \<lparr>an_state = SPOOLER_ACCEPTED, an_job = Some job, an_error = None\<rparr>)) u' = (Inr a, v)"
      by (auto simp: accepted_def seq_Inr [of "record_mark (en_now env 3) _ _"])
    from tail_answered [OF this] show ?thesis by simp
  qed
qed

lemma refuse_answered:
  assumes "refuse env c e w = (Inr a, v)"
  shows "answered c v (an_state a)"
proof (cases "refusal e")
  case (Some p)
  obtain st safe where p: "p = (st, safe)" by (cases p) auto
  have "seq (record_mark (en_now env 5) c (failed_mark st safe)) (\<lambda>_. seq (report env c (failed_mark st safe))
      (\<lambda>_. ret \<lparr>an_state = st, an_job = None, an_error = Some safe\<rparr>)) w = (Inr a, v)"
    using assms Some p by (auto simp: refuse_def raise_def split: if_splits)
  from tail_answered [OF this] show ?thesis by simp
qed (use assms in \<open>simp add: refuse_def raise_def\<close>)

text \<open>When an execution returns, the durable row of its control says the state of the answer, and this state was
  the last thing reported to the server.\<close>

theorem print_answer_is_recorded:
  assumes "execute_print env control agreed km w = (Inr a, v)" and "read_control (en_values env) control = Inr c"
  shows "\<exists>q rs. find_print (pc_execution c) (pw_rows v) = Some q \<and> pr_state q = an_state a
    \<and> pr_identity q = control_identity c \<and> pw_reports v = rs @ [(pc_execution c, an_state a)]"
proof -
  have run: "catch (execute_inner env control agreed km) (refuse env c) w = (Inr a, v)"
    using assms by (simp add: execute_print_def seq_def lift_def)
  have "answered c v (an_state a)"
  proof (cases "execute_inner env control agreed km w")
    case (Pair x u)
    show ?thesis
    proof (cases x)
      case (Inl e)
      with run Pair show ?thesis by (auto simp: catch_def intro: refuse_answered)
    next
      case (Inr b)
      with run Pair have "execute_inner env control agreed km w = (Inr a, v)" by (simp add: catch_def)
      then obtain c' rc r w' where "verified_raster env control agreed km = Inr (c', rc, r)"
          "spool_label env c' rc r w' = (Inr a, v)"
        by (auto simp: execute_inner_def seq_Inr lift_def)
      moreover from this have "c' = c" using assms(2) by (auto simp: verified_raster_def bind_Inr_iff)
      ultimately show ?thesis using spool_label_answered by blast
    qed
  qed
  then show ?thesis unfolding answered_def by blast
qed

definition demo_control :: wire where
  "demo_control = [(''contract_version'', JStr ''printing-agent-v2''), (''operation'', JStr ''PRINT_RENDER_AND_SPOOL''),
     (''execution_id'', JStr ''e1''), (''print_job_item_id'', JStr ''i1''), (''delivery_reservation_id'', JStr ''r1''),
     (''payload_sha256'', JStr (replicate 64 (CHR ''a''))), (''layout_sha256'', JStr (replicate 64 (CHR ''b''))),
     (''template_version_id'', JStr ''t1''), (''printer_profile_id'', JStr ''p1''),
     (''printer_profile_fingerprint'', JStr (replicate 64 (CHR ''c''))), (''agent_printer_id'', JStr ''prn_1''),
     (''organisation_id'', JStr ''o1''), (''participant_id'', JStr ''u1''), (''agent_binding_id'', JStr ''b1''),
     (''printing_contract_version'', JStr ''sellari-printing-contract-v1''),
     (''layout_schema_version'', JStr ''printing-layout-v1''), (''renderer_version'', JStr ''sellari-libdmtx-raster-v1'')]"

definition demo_env :: print_env where
  "demo_env = \<lparr>en_values = \<lparr>pv_str = (\<lambda>v. []), pv_int = (\<lambda>v. Inl (PrintValue [])), pv_float = (\<lambda>v. Inl (PrintValue []))\<rparr>,
     en_first = \<lparr>vw_printers = [], vw_inspect = (\<lambda>p. Inl (PrintForeign []))\<rparr>,
     en_second = \<lparr>vw_printers = [], vw_inspect = (\<lambda>p. Inl (PrintForeign []))\<rparr>, en_gdi = demo_gdi 1,
     en_render = (\<lambda>km rc vs. Inl (PrintForeign [])), en_mark = (\<lambda>i. Inr ()), en_begin = (\<lambda>i. Inr ()),
     en_report = (\<lambda>i m. Inr ()), en_now = (\<lambda>n. ''t'')\<rparr>"

lemma demo_control_read: "\<exists>c. read_control (en_values demo_env) demo_control = Inr c \<and> pc_execution c = ''e1''"
proof -
  have "(case read_control (en_values demo_env) demo_control of Inr c \<Rightarrow> pc_execution c = ''e1'' | _ \<Rightarrow> False)" by code_simp
  then show ?thesis by (simp split: sum.splits)
qed

lemma print_answer_is_recorded_witness:
  "\<exists>v q. execute_print demo_env demo_control [] [] blank_world =
      (Inr \<lparr>an_state = BLOCKED, an_job = None, an_error = Some ''PHYSICAL_PRE_SPOOL_VALIDATION_FAILED''\<rparr>, v)
    \<and> find_print ''e1'' (pw_rows v) = Some q \<and> pr_state q = BLOCKED"
proof -
  obtain c where c: "read_control (en_values demo_env) demo_control = Inr c" "pc_execution c = ''e1''"
    using demo_control_read by blast
  have i: "execute_inner demo_env demo_control [] [] w = (Inl (PhysicalError ''invalid physical render contract''), w)" for w
    by (simp add: execute_inner_def seq_def lift_def verified_raster_def c read_contract_def print_check_def
        known_fields_def contract_objects_def get_key_def)
  have ok: "en_report demo_env = (\<lambda>i m. Inr ())" by (simp add: demo_env_def)
  obtain v where e: "execute_print demo_env demo_control [] [] blank_world =
      (Inr \<lparr>an_state = BLOCKED, an_job = None, an_error = Some ''PHYSICAL_PRE_SPOOL_VALIDATION_FAILED''\<rparr>, v)"
    by (simp add: execute_print_def seq_def lift_def c i catch_def refuse_def refusal_def blank_world_def
        spool_crossed_def find_print_def record_mark_cases record_print_def report_def ok ret_def)
  from print_answer_is_recorded [OF e c(1)] e c(2) show ?thesis by auto
qed

end
