(* ===== verification/WebSecurity.thy ===== *)
theory WebSecurity
  imports ControlEngine "HOL-Library.Product_Lexorder"
begin

text \<open>
  The security data of the web application (\<open>wbcz_web/models/security.py\<close>, the user and session tables
  of \<open>wbcz_web/models/db.py\<close>), the roles and permissions of \<open>wbcz_web/services/authorization.py\<close>, and the
  tenant scope of a request (\<open>wbcz_web/services/tenant.py\<close>). A database session is one value: the
  tables, and the tenant scope kept in \<open>Session.info\<close>. A row object of the ORM is passed as its row and
  written through its key. Columns with a \<open>CHECK\<close> on their values are enumerations, so texts
  outside the check cannot be read back. Columns that no operation reads (client fingerprints, creation
  and update stamps) are left out. Times are microseconds.
\<close>

section \<open>Enumerations\<close>

datatype role = OWNER | ADMIN | OPERATOR | VIEWER

definition role_value :: "role \<Rightarrow> pystr" where
  "role_value r = (case r of OWNER \<Rightarrow> ''OWNER'' | ADMIN \<Rightarrow> ''ADMIN'' | OPERATOR \<Rightarrow> ''OPERATOR''
     | VIEWER \<Rightarrow> ''VIEWER'')"

datatype permission =
    IMPORTS_READ | IMPORTS_CREATE | CONTROL_RUN | CIS_READ | REFERENCE_READ | DOCUMENTS_READ
  | DOCUMENTS_WRITE | TURNOVER_READ | TURNOVER_WRITE | AGGREGATION_READ | AGGREGATION_WRITE
  | EDO_READ | EDO_WRITE | SUZ_READ | SUZ_MANAGE | WB_READ | OZON_READ | REPORTS_CREATE
  | REPORTS_READ | REPORTS_DOWNLOAD | REPORTS_DOWNLOAD_SENSITIVE | INTEGRATIONS_READ
  | INTEGRATIONS_MANAGE | MEMBERS_READ | MEMBERS_MANAGE | ROLES_MANAGE | ORGANISATION_MANAGE
  | AUDIT_READ | PRINT_READ | PRINT_EXECUTE | PRINT_TEMPLATES_MANAGE

definition read_permissions :: "permission list" where
  "read_permissions = [IMPORTS_READ, CIS_READ, REFERENCE_READ, DOCUMENTS_READ, TURNOVER_READ,
     AGGREGATION_READ, EDO_READ, SUZ_READ, WB_READ, OZON_READ, REPORTS_READ, REPORTS_DOWNLOAD,
     INTEGRATIONS_READ, MEMBERS_READ, PRINT_READ]"

definition operator_permissions :: "permission list" where
  "operator_permissions = read_permissions @ [IMPORTS_CREATE, CONTROL_RUN, TURNOVER_WRITE,
     DOCUMENTS_WRITE, AGGREGATION_WRITE, REPORTS_CREATE, REPORTS_DOWNLOAD_SENSITIVE, PRINT_EXECUTE]"

definition admin_permissions :: "permission list" where
  "admin_permissions = operator_permissions @ [INTEGRATIONS_MANAGE, MEMBERS_MANAGE, ROLES_MANAGE,
     AUDIT_READ, PRINT_TEMPLATES_MANAGE]"

definition all_permissions :: "permission list" where
  "all_permissions = admin_permissions @ [EDO_WRITE, SUZ_MANAGE, ORGANISATION_MANAGE]"

definition role_permissions :: "role \<Rightarrow> permission list" where
  "role_permissions r = (case r of VIEWER \<Rightarrow> read_permissions | OPERATOR \<Rightarrow> operator_permissions
     | ADMIN \<Rightarrow> admin_permissions | OWNER \<Rightarrow> all_permissions)"

lemmas permission_lists = read_permissions_def operator_permissions_def admin_permissions_def
  all_permissions_def role_permissions_def

lemma all_permissions_all: "p \<in> set all_permissions"
  by (cases p) (simp_all add: permission_lists)

text \<open>The four roles form a chain of permission sets.\<close>

lemma role_permissions_chain:
  "set (role_permissions VIEWER) \<subseteq> set (role_permissions OPERATOR)"
  "set (role_permissions OPERATOR) \<subseteq> set (role_permissions ADMIN)"
  "set (role_permissions ADMIN) \<subseteq> set (role_permissions OWNER)"
  by (auto simp: permission_lists)

lemma manage_roles_iff:
  "ROLES_MANAGE \<in> set (role_permissions r) \<longleftrightarrow> r \<in> {OWNER, ADMIN}"
  "MEMBERS_MANAGE \<in> set (role_permissions r) \<longleftrightarrow> r \<in> {OWNER, ADMIN}"
  by (cases r; simp add: permission_lists)+

datatype account_state = ACCOUNT_PENDING | ACCOUNT_ACTIVE | ACCOUNT_DISABLED | ACCOUNT_TOMBSTONED

datatype verification = UNVERIFIED | PENDING_VERIFICATION | VERIFIED | REJECTED

datatype invitation_state = I_PENDING | I_ACCEPTED | I_REVOKED | I_EXPIRED

datatype claim_state = C_PENDING_VERIFICATION | C_VERIFIED | C_REJECTED | C_CANCELLED

section \<open>Tables\<close>

record user =
  us_id :: nat
  us_name :: pystr
  us_email :: "pystr option"
  us_email_verified :: "int option"
  us_state :: account_state
  us_password :: pystr
  us_active :: bool
  us_admin :: bool
  us_password_changed :: int
  us_password_version :: nat
  us_must_change :: bool

record web_session =
  se_id :: pystr
  se_user :: nat
  se_token :: pystr
  se_csrf :: "pystr option"
  se_org :: "pystr option"
  se_participant :: "pystr option"
  se_password_version :: nat
  se_created :: int
  se_seen :: int
  se_expires :: int
  se_revoked :: "int option"

record organisation =
  og_id :: pystr
  og_name :: pystr
  og_active :: bool
  og_creator :: "nat option"

record participant =
  pa_id :: pystr
  pa_org :: pystr
  pa_inn :: pystr
  pa_name :: "pystr option"
  pa_verification :: verification
  pa_active :: bool
  pa_created :: int

record membership =
  me_id :: pystr
  me_org :: pystr
  me_user :: nat
  me_role :: role
  me_active :: bool
  me_creator :: "nat option"
  me_created :: int

record invitation =
  iv_id :: pystr
  iv_org :: pystr
  iv_participant :: "pystr option"
  iv_token :: pystr
  iv_username :: "pystr option"
  iv_user :: "nat option"
  iv_email :: "pystr option"
  iv_role :: role
  iv_state :: invitation_state
  iv_inviter :: nat
  iv_accepted_by :: "nat option"
  iv_expires :: int
  iv_accepted_at :: "int option"
  iv_revoked_at :: "int option"

record claim_row =
  cl_id :: pystr
  cl_user :: nat
  cl_org :: "pystr option"
  cl_inn :: pystr
  cl_state :: claim_state
  cl_decided :: "int option"

record throttle =
  th_user :: nat
  th_failures :: nat
  th_blocked :: "int option"
  th_locked :: bool
  th_last_failure :: "int option"
  th_last_success :: "int option"

record attempt =
  at_user_hash :: pystr
  at_remote_hash :: pystr
  at_success :: bool
  at_time :: int

record old_password =
  op_user :: nat
  op_hash :: pystr

text \<open>
  The tenant columns of the business tables: a row with an owner of its own, or a row that belongs to
  another row (a posting to its connection, an artifact to its report job).
\<close>

record owned_row =
  ow_type :: pystr
  ow_key :: pystr
  ow_org :: "pystr option"
  ow_participant :: "pystr option"

record part_row =
  pt_type :: pystr
  pt_key :: pystr
  pt_owner :: pystr

record tenant_info =
  ti_user :: "nat option"
  ti_org :: "pystr option"
  ti_participant :: "pystr option"
  ti_inn :: "pystr option"
  ti_role :: "role option"

record web_audit =
  wa_action :: pystr
  wa_user :: "nat option"
  wa_entity_type :: pystr
  wa_entity :: pystr

record web_db =
  users :: "user list"
  sessions :: "web_session list"
  organisations :: "organisation list"
  participants :: "participant list"
  memberships :: "membership list"
  invitations :: "invitation list"
  claims :: "claim_row list"
  throttles :: "throttle list"
  attempts :: "attempt list"
  passwords :: "old_password list"
  bootstrapped :: bool
  owned :: "owned_row list"
  parts :: "part_row list"
  web_audits :: "web_audit list"
  tenant_scope :: "tenant_info option"

datatype web_error =
    Denied pystr
  | ScopeRequired pystr
  | NotFound pystr
  | WebValue pystr
  | TenantRequired pystr
  | LoginFailed pystr
  | Constraint pystr

type_synonym 'a web_op = "(web_db, web_error, 'a) op"
type_synonym 'a web_txn = "(web_db, web_error, 'a) txn"

text \<open>A reading of the database that leaves it alone.\<close>

definition asks :: "(web_db \<Rightarrow> 'a) \<Rightarrow> 'a web_op" where
  [op_defs]: "asks f d = (Inr (f d), d)"

definition modify :: "(web_db \<Rightarrow> web_db) \<Rightarrow> unit web_op" where
  [op_defs]: "modify f d = (Inr (), f d)"

text \<open>
  A request handler commits when it returns and rolls back when an exception leaves it
  (\<open>get_db\<close> in \<open>api/dependencies.py\<close>, \<open>session_scope\<close> in \<open>db.py\<close>).
\<close>

definition request :: "'a web_op \<Rightarrow> 'a web_op" where
  "request m d = (case m d of (Inr x, t) \<Rightarrow> (Inr x, t) | (Inl e, t) \<Rightarrow> (Inl e, d))"

lemma request_rolls_back: "fst (request m d) = Inl e \<Longrightarrow> snd (request m d) = d"
  by (auto simp: request_def split: prod.splits sum.splits)

lemma request_Inr: "request m d = (Inr x, t) \<longleftrightarrow> m d = (Inr x, t)"
  by (auto simp: request_def split: prod.splits sum.splits)

definition demand_or :: "'a option \<Rightarrow> web_error \<Rightarrow> 'a web_op" where
  [op_defs]: "demand_or v e = (case v of None \<Rightarrow> raise e | Some x \<Rightarrow> ret x)"

definition web_log :: "pystr \<Rightarrow> nat option \<Rightarrow> pystr \<Rightarrow> pystr \<Rightarrow> web_db \<Rightarrow> web_db" where
  "web_log action u kind entity d =
     d\<lparr>web_audits := web_audits d @ [\<lparr>wa_action = action, wa_user = u, wa_entity_type = kind, wa_entity = entity\<rparr>]\<rparr>"

section \<open>Lookups\<close>

definition find_org :: "web_db \<Rightarrow> pystr \<Rightarrow> organisation option" where
  "find_org d o' = lookup_row og_id o' (organisations d)"

definition org_active :: "web_db \<Rightarrow> pystr \<Rightarrow> bool" where
  "org_active d o' = (case find_org d o' of None \<Rightarrow> False | Some g \<Rightarrow> og_active g)"

definition find_user :: "web_db \<Rightarrow> nat \<Rightarrow> user option" where
  "find_user d u = lookup_row us_id u (users d)"

definition active_membership :: "web_db \<Rightarrow> nat \<Rightarrow> pystr \<Rightarrow> membership option" where
  "active_membership d u o' = find (\<lambda>m. me_user m = u \<and> me_org m = o' \<and> me_active m) (memberships d)"

definition find_participant :: "web_db \<Rightarrow> pystr \<Rightarrow> pystr option \<Rightarrow> participant option" where
  "find_participant d o' p =
     (if \<not> truthy p then None
      else find (\<lambda>r. Some (pa_id r) = p \<and> pa_org r = o' \<and> pa_active r) (participants d))"

definition verified_participant :: "web_db \<Rightarrow> pystr \<Rightarrow> pystr option \<Rightarrow> participant option" where
  "verified_participant d o' p = (case find_participant d o' p of
     None \<Rightarrow> None | Some r \<Rightarrow> if pa_verification r = VERIFIED then Some r else None)"

definition available_memberships :: "web_db \<Rightarrow> nat \<Rightarrow> membership list" where
  "available_memberships d u =
     sort_key (\<lambda>m. (me_created m, me_id m))
       (filter (\<lambda>m. me_user m = u \<and> me_active m \<and> org_active d (me_org m)) (memberships d))"

definition org_participants :: "web_db \<Rightarrow> pystr \<Rightarrow> bool \<Rightarrow> participant list" where
  "org_participants d o' verified_only =
     sort_key (\<lambda>p. (pa_created p, pa_id p))
       (filter (\<lambda>p. pa_org p = o' \<and> pa_active p \<and> (verified_only \<longrightarrow> pa_verification p = VERIFIED))
         (participants d))"

lemma find_eq_Some: "find p xs = Some x \<Longrightarrow> x \<in> set xs \<and> p x"
  by (induction xs) (auto split: if_splits)

lemma active_membership_Some:
  "active_membership d u o' = Some m \<Longrightarrow>
     m \<in> set (memberships d) \<and> me_user m = u \<and> me_org m = o' \<and> me_active m"
  by (auto simp: active_membership_def dest: find_eq_Some)

lemma available_memberships_in:
  "m \<in> set (available_memberships d u) \<longleftrightarrow>
     m \<in> set (memberships d) \<and> me_user m = u \<and> me_active m \<and> org_active d (me_org m)"
  by (auto simp: available_memberships_def)

lemma org_participants_in:
  "p \<in> set (org_participants d o' v) \<longleftrightarrow>
     p \<in> set (participants d) \<and> pa_org p = o' \<and> pa_active p \<and> (v \<longrightarrow> pa_verification p = VERIFIED)"
  by (auto simp: org_participants_def)

text \<open>A participant a scope may name: of the organisation, active and verified.\<close>

definition trusted_participant :: "web_db \<Rightarrow> pystr \<Rightarrow> participant \<Rightarrow> bool" where
  "trusted_participant d o' p \<longleftrightarrow>
     p \<in> set (participants d) \<and> pa_org p = o' \<and> pa_active p \<and> pa_verification p = VERIFIED"

lemma verified_participant_Some:
  "verified_participant d o' q = Some p \<Longrightarrow> trusted_participant d o' p \<and> q = Some (pa_id p)"
  by (auto simp: verified_participant_def find_participant_def trusted_participant_def
      split: option.splits if_splits dest: find_eq_Some)


section \<open>A small database\<close>

definition demo_user :: "nat \<Rightarrow> pystr \<Rightarrow> user" where
  "demo_user i n = \<lparr>us_id = i, us_name = n, us_email = None, us_email_verified = None,
     us_state = ACCOUNT_ACTIVE, us_password = ''secret'', us_active = True, us_admin = False,
     us_password_changed = 0, us_password_version = 1, us_must_change = False\<rparr>"

definition demo_session :: web_session where
  "demo_session = \<lparr>se_id = ''s2'', se_user = 2, se_token = ''hash'', se_csrf = None, se_org = Some ''o1'',
     se_participant = None, se_password_version = 1, se_created = 0, se_seen = 0, se_expires = 1000,
     se_revoked = None\<rparr>"

definition demo_participant :: participant where
  "demo_participant = \<lparr>pa_id = ''p1'', pa_org = ''o1'', pa_inn = ''7707083893'', pa_name = None,
     pa_verification = VERIFIED, pa_active = True, pa_created = 0\<rparr>"

definition demo_member :: "pystr \<Rightarrow> nat \<Rightarrow> role \<Rightarrow> membership" where
  "demo_member i u r = \<lparr>me_id = i, me_org = ''o1'', me_user = u, me_role = r, me_active = True,
     me_creator = None, me_created = 0\<rparr>"

definition demo_owned :: owned_row where
  "demo_owned = \<lparr>ow_type = ''agent_job'', ow_key = ''j1'', ow_org = Some ''o1'', ow_participant = Some ''p1''\<rparr>"

definition demo_web :: web_db where
  "demo_web = \<lparr>users = [demo_user 1 ''owner'', demo_user 2 ''worker''], sessions = [demo_session],
     organisations = [\<lparr>og_id = ''o1'', og_name = ''Shop'', og_active = True, og_creator = Some 1\<rparr>],
     participants = [demo_participant], memberships = [demo_member ''m1'' 1 OWNER, demo_member ''m2'' 2 OPERATOR],
     invitations = [], claims = [], throttles = [], attempts = [], passwords = [], bootstrapped = True,
     owned = [demo_owned], parts = [], web_audits = [], tenant_scope = None\<rparr>"

lemmas demo_defs = demo_user_def demo_session_def demo_participant_def demo_member_def demo_owned_def
  demo_web_def

lemma demo_lookups [simp]:
  "available_memberships demo_web 2 = [demo_member ''m2'' 2 OPERATOR]"
  "org_active demo_web ''o1''" "org_participants demo_web ''o1'' v = [demo_participant]"
  "verified_participant demo_web ''o1'' (Some ''p1'') = Some demo_participant"
  "active_membership demo_web 1 ''o1'' = Some (demo_member ''m1'' 1 OWNER)"
  by (simp_all add: available_memberships_def org_active_def find_org_def org_participants_def
      verified_participant_def find_participant_def active_membership_def demo_defs)

end
