(* ===== verification/WebAuthorization.thy ===== *)
theory WebAuthorization
  imports WebSecurity
begin

text \<open>
  \<open>AuthorizationService\<close> of \<open>wbcz_web/services/authorization.py\<close>: the scope of a session, the scope a
  background task may take, the owner of a business object and the checks on it; and the tenant of a
  request, \<open>wbcz_web/services/tenant.py\<close>.
\<close>

section \<open>Integer keys\<close>

text \<open>\<open>int(text)\<close>: outer blanks, a sign, decimal digits with single underscores between them.\<close>

fun digit_groups :: "int \<Rightarrow> pystr \<Rightarrow> int option" where
  "digit_groups n [] = None"
| "digit_groups n (c # cs) =
     (if \<not> digit_char c then None
      else let m = 10 * n + int (code c - 48) in
        case cs of [] \<Rightarrow> Some m
        | x # ds \<Rightarrow> digit_groups m (if x = CHR ''_'' then ds else cs))"

definition int_text :: "pystr \<Rightarrow> int option" where
  "int_text s = (case strip s of
     [] \<Rightarrow> None
   | c # cs \<Rightarrow> if c = CHR ''-'' then map_option uminus (digit_groups 0 cs)
       else if c = CHR ''+'' then digit_groups 0 cs else digit_groups 0 (c # cs))"

section \<open>Scopes\<close>

record active_scope =
  sc_user :: nat
  sc_org :: pystr
  sc_participant :: "pystr option"
  sc_inn :: "pystr option"
  sc_role :: role
  sc_permissions :: "permission list"

definition scope_of :: "nat \<Rightarrow> pystr \<Rightarrow> participant option \<Rightarrow> role \<Rightarrow> active_scope" where
  "scope_of u o' p r = \<lparr>sc_user = u, sc_org = o', sc_participant = map_option pa_id p,
     sc_inn = map_option pa_inn p, sc_role = r, sc_permissions = role_permissions r\<rparr>"

definition tenant_of_scope :: "active_scope \<Rightarrow> tenant_info" where
  "tenant_of_scope c = \<lparr>ti_user = Some (sc_user c), ti_org = Some (sc_org c),
     ti_participant = sc_participant c, ti_inn = sc_inn c, ti_role = Some (sc_role c)\<rparr>"

definition set_session :: "pystr \<Rightarrow> (web_session \<Rightarrow> web_session) \<Rightarrow> web_db \<Rightarrow> web_db" where
  "set_session i f d = d\<lparr>sessions := update_rows se_id i f (sessions d)\<rparr>"

text \<open>The membership a session acts under, by its choice or because there is only one.\<close>

definition session_membership :: "nat \<Rightarrow> web_session \<Rightarrow> membership web_op" where
  "session_membership u s =
     seq (asks (\<lambda>d. available_memberships d u)) (\<lambda>ms.
       if ms = [] then raise (ScopeRequired ''active organisation scope is required'')
       else if truthy (se_org s) then
         (case find (\<lambda>m. Some (me_org m) = se_org s) ms of
            Some m \<Rightarrow> ret m
          | None \<Rightarrow>
              seq (modify (set_session (se_id s) (\<lambda>q. q\<lparr>se_org := None, se_participant := None\<rparr>))) (\<lambda>_.
                raise (ScopeRequired ''active organisation scope is no longer authorised'')))
       else if length ms = 1 then
         seq (modify (set_session (se_id s) (\<lambda>q. q\<lparr>se_org := Some (me_org (hd ms))\<rparr>))) (\<lambda>_. ret (hd ms))
       else raise (ScopeRequired ''select an active organisation''))"

text \<open>The participant: the chosen one while it is still verified, else the only verified one.\<close>

definition kept_participant :: "web_session \<Rightarrow> pystr \<Rightarrow> bool \<Rightarrow> participant option web_op" where
  "kept_participant s o' require =
     seq (asks (\<lambda>d. verified_participant d o' (se_participant s))) (\<lambda>p.
       if truthy (se_participant s) \<and> p = None then
         seq (modify (set_session (se_id s) (\<lambda>q. q\<lparr>se_participant := None\<rparr>))) (\<lambda>_.
           if require then raise (ScopeRequired ''active participant scope is no longer authorised'')
           else ret None)
       else ret p)"

definition session_participant :: "web_session \<Rightarrow> pystr \<Rightarrow> bool \<Rightarrow> participant option web_op" where
  "session_participant s o' require =
     seq (kept_participant s o' require) (\<lambda>p.
     seq (if p \<noteq> None then ret p
          else seq (asks (\<lambda>d. org_participants d o' True)) (\<lambda>cs.
            if length cs = 1
            then seq (modify (set_session (se_id s) (\<lambda>q. q\<lparr>se_participant := Some (pa_id (hd cs))\<rparr>))) (\<lambda>_.
                   ret (Some (hd cs)))
            else ret None)) (\<lambda>p'.
     seq (demand (\<not> (require \<and> p' = None)) (ScopeRequired ''select a verified active participant'')) (\<lambda>_.
       ret p')))"

definition resolve_session_scope :: "nat \<Rightarrow> web_session \<Rightarrow> bool \<Rightarrow> active_scope web_op" where
  "resolve_session_scope u s require =
     seq (session_membership u s) (\<lambda>m.
     seq (session_participant s (me_org m) require) (\<lambda>p.
       let c = scope_of u (me_org m) p (me_role m) in
       seq (modify (\<lambda>d. d\<lparr>tenant_scope := Some (tenant_of_scope c)\<rparr>)) (\<lambda>_. ret c)))"

definition set_active_scope :: "nat \<Rightarrow> web_session \<Rightarrow> pystr \<Rightarrow> pystr option \<Rightarrow> active_scope web_op" where
  "set_active_scope u s o' p =
     seq (asks (\<lambda>d. active_membership d u o' \<noteq> None \<and> org_active d o')) (\<lambda>member.
     seq (demand member (Denied ''scope not available'')) (\<lambda>_.
     seq (asks (\<lambda>d. verified_participant d o' p)) (\<lambda>v.
     seq (demand (\<not> (p \<noteq> None \<and> v = None)) (Denied ''scope not available'')) (\<lambda>_.
       let s' = s\<lparr>se_org := Some o', se_participant := map_option pa_id v\<rparr> in
       seq (modify (set_session (se_id s)
              (\<lambda>q. q\<lparr>se_org := Some o', se_participant := map_option pa_id v\<rparr>))) (\<lambda>_.
         resolve_session_scope u s' False)))))"

section \<open>Objects\<close>

definition direct_types :: "pystr list" where
  "direct_types = [''import'', ''event'', ''control_run'', ''preview'', ''agent_job'', ''write_operation'',
     ''document_lifecycle'', ''turnover_operation'', ''aggregation_operation'', ''edo_lite'', ''report_job'']"

definition connection_types :: "pystr list" where
  "connection_types = [''wb_connection'', ''ozon_connection'', ''suz_connection'']"

text \<open>The types whose rows take the owner of another row.\<close>

definition owner_type :: "pystr \<Rightarrow> pystr option" where
  "owner_type t = map_of [(''report_artifact'', ''report_job''), (''wb_order'', ''wb_connection''),
     (''ozon_posting'', ''ozon_connection''), (''suz_order'', ''suz_connection'')] t"

definition owned_scope :: "web_db \<Rightarrow> pystr \<Rightarrow> pystr \<Rightarrow> (pystr option \<times> pystr option) option" where
  "owned_scope d t k =
     map_option (\<lambda>r. (ow_org r, ow_participant r)) (find (\<lambda>r. ow_type r = t \<and> ow_key r = k) (owned d))"

definition part_scope :: "web_db \<Rightarrow> pystr \<Rightarrow> pystr \<Rightarrow> (pystr option \<times> pystr option) option" where
  "part_scope d t k = (case owner_type t of None \<Rightarrow> None
     | Some ot \<Rightarrow> (case find (\<lambda>r. pt_type r = t \<and> pt_key r = k) (parts d) of
         None \<Rightarrow> None | Some r \<Rightarrow> owned_scope d ot (pt_owner r)))"

definition or_missing :: "'a option \<Rightarrow> web_error + 'a" where
  "or_missing v = (case v of None \<Rightarrow> Inl (NotFound ''object not found'') | Some x \<Rightarrow> Inr x)"

definition by_integer :: "pystr \<Rightarrow> (pystr \<Rightarrow> 'a option) \<Rightarrow> web_error + 'a" where
  "by_integer k f = (case int_text k of
     None \<Rightarrow> Inl (WebValue ''invalid literal for int()'') | Some n \<Rightarrow> or_missing (f (show_int n)))"

definition object_scope :: "web_db \<Rightarrow> pystr \<Rightarrow> pystr \<Rightarrow> web_error + (pystr option \<times> pystr option)" where
  "object_scope d t k =
     (if t \<in> set direct_types then or_missing (owned_scope d t k)
      else if t = ''report_artifact'' then or_missing (part_scope d t k)
      else if t \<in> set connection_types then by_integer k (owned_scope d t)
      else if owner_type t \<noteq> None then by_integer k (part_scope d t)
      else if t = ''membership''
      then or_missing (map_option (\<lambda>m. (Some (me_org m), None)) (lookup_row me_id k (memberships d)))
      else if t = ''participant''
      then or_missing (map_option (\<lambda>p. (Some (pa_org p), Some (pa_id p))) (lookup_row pa_id k (participants d)))
      else if t = ''organisation''
      then or_missing (map_option (\<lambda>g. (Some (og_id g), None)) (find_org d k))
      else Inl (NotFound ''object type not registered''))"

definition require_permission :: "active_scope \<Rightarrow> permission \<Rightarrow> web_error + unit" where
  "require_permission c p = (if p \<in> set (sc_permissions c) then Inr () else Inl (Denied ''permission denied''))"

definition require_object_scope :: "active_scope \<Rightarrow> pystr option \<Rightarrow> pystr option \<Rightarrow> permission
    \<Rightarrow> web_error + unit" where
  "require_object_scope c o' p perm =
     bind (require_permission c perm) (\<lambda>_.
       if \<not> truthy o' \<or> o' \<noteq> Some (sc_org c) then Inl (NotFound ''object not found'')
       else if p \<noteq> None \<and> p \<noteq> sc_participant c then Inl (NotFound ''object not found'')
       else Inr ())"

definition authorize_object :: "web_db \<Rightarrow> active_scope \<Rightarrow> permission \<Rightarrow> pystr \<Rightarrow> pystr \<Rightarrow> web_error + unit" where
  "authorize_object d c perm t k =
     bind (require_permission c perm) (\<lambda>_.
     bind (object_scope d t k) (\<lambda>(o', p).
       if o' \<noteq> Some (sc_org c) then Inl (NotFound ''object not found'')
       else if p \<noteq> None \<and> p \<noteq> sc_participant c then Inl (NotFound ''object not found'')
       else if o' = None then Inl (NotFound ''object not found'')
       else Inr ()))"

definition authorize :: "web_db \<Rightarrow> nat \<Rightarrow> pystr \<Rightarrow> pystr option \<Rightarrow> permission \<Rightarrow> pystr option \<Rightarrow> pystr option
    \<Rightarrow> web_error + active_scope" where
  "authorize d u o' p perm t k = (case find_user d u of
     None \<Rightarrow> Inl (Denied ''permission denied'')
   | Some w \<Rightarrow>
      if \<not> us_active w \<or> us_state w \<noteq> ACCOUNT_ACTIVE then Inl (Denied ''permission denied'')
      else case active_membership d u o' of
        None \<Rightarrow> Inl (Denied ''permission denied'')
      | Some m \<Rightarrow>
         if \<not> org_active d o' then Inl (Denied ''permission denied'')
         else if p \<noteq> None \<and> verified_participant d o' p = None then Inl (Denied ''permission denied'')
         else let c = scope_of u o' (verified_participant d o' p) (me_role m) in
           bind (require_permission c perm) (\<lambda>_. case t of
             None \<Rightarrow> Inr c
           | Some t' \<Rightarrow> (case k of None \<Rightarrow> Inl (Denied ''object id required'')
               | Some k' \<Rightarrow> bind (authorize_object d c perm t' k') (\<lambda>_. Inr c))))"

definition list_scopes :: "web_db \<Rightarrow> nat \<Rightarrow> (pystr \<times> pystr \<times> role \<times> participant list) list" where
  "list_scopes d u = map (\<lambda>m. (me_org m, (case find_org d (me_org m) of None \<Rightarrow> [] | Some g \<Rightarrow> og_name g),
     me_role m, org_participants d (me_org m) False)) (available_memberships d u)"


section \<open>The tenant of a request\<close>

record tenant_context =
  tc_user :: "nat option"
  tc_org :: pystr
  tc_participant :: pystr
  tc_inn :: pystr
  tc_role :: "role option"

definition active_tenant :: "web_db \<Rightarrow> web_error + tenant_context" where
  "active_tenant d = (case tenant_scope d of
     None \<Rightarrow> Inl (TenantRequired ''active tenant scope required'')
   | Some v \<Rightarrow>
      if \<not> truthy (ti_org v) \<or> \<not> truthy (ti_participant v) \<or> \<not> truthy (ti_inn v)
      then Inl (TenantRequired ''active organisation and participant required'')
      else let o' = the (ti_org v) in
        case verified_participant d o' (ti_participant v) of
          None \<Rightarrow> Inl (TenantRequired ''active tenant scope is not verified'')
        | Some p \<Rightarrow>
            if \<not> org_active d o' \<or> Some (pa_inn p) \<noteq> ti_inn v
            then Inl (TenantRequired ''active tenant scope is not verified'')
            else Inr \<lparr>tc_user = ti_user v, tc_org = o', tc_participant = pa_id p,
              tc_inn = pa_inn p, tc_role = ti_role v\<rparr>)"

definition participant_inn_for_runtime :: "web_db \<Rightarrow> pystr \<Rightarrow> web_error + pystr" where
  "participant_inn_for_runtime d legacy = (case active_tenant d of
     Inr c \<Rightarrow> Inr (tc_inn c)
   | Inl _ \<Rightarrow>
      if bootstrapped d then Inl (TenantRequired ''post-bootstrap tenant scope required'')
      else if legacy = [] then Inl (TenantRequired ''legacy participant INN unavailable'')
      else Inr legacy)"

definition bind_tenant_scope :: "pystr option \<Rightarrow> pystr option \<Rightarrow> nat option \<Rightarrow> role option
    \<Rightarrow> tenant_context web_op" where
  "bind_tenant_scope o' p u r =
     seq (demand (truthy o' \<and> truthy p) (TenantRequired ''tenant-owned object has no tenant scope'')) (\<lambda>_.
     seq (asks (\<lambda>d. if org_active d (the o') then verified_participant d (the o') p else None)) (\<lambda>v.
     seq (demand_or v (TenantRequired ''tenant scope is inactive or invalid'')) (\<lambda>q.
     seq (modify (\<lambda>d. d\<lparr>tenant_scope := Some \<lparr>ti_user = u, ti_org = o', ti_participant = p,
            ti_inn = Some (pa_inn q), ti_role = r\<rparr>\<rparr>)) (\<lambda>_.
     seq (asks active_tenant) lift))))"

definition tenant_namespace :: "web_db \<Rightarrow> pystr \<Rightarrow> pystr \<Rightarrow> web_error + pystr" where
  "tenant_namespace d namespace external =
     bind (active_tenant d) (\<lambda>c. Inr (sha256_hex (utf8 (''m12:'' @ namespace @ '':v1:'' @ tc_org c @ '':''
       @ tc_participant c @ '':'' @ external))))"

definition tenant_operation_id :: "web_db \<Rightarrow> pystr \<Rightarrow> pystr \<Rightarrow> pystr \<Rightarrow> web_error + pystr" where
  "tenant_operation_id d namespace external prefix =
     bind (tenant_namespace d namespace external) (\<lambda>h. Inr (prefix @ take 32 h))"

definition assert_object_scope :: "web_db \<Rightarrow> pystr option \<Rightarrow> pystr option \<Rightarrow> web_error + tenant_context" where
  "assert_object_scope d o' p =
     bind (active_tenant d) (\<lambda>c.
       if o' \<noteq> Some (tc_org c) \<or> p \<noteq> Some (tc_participant c) then Inl (NotFound ''object not found'')
       else Inr c)"

definition scoped_agent_job :: "web_db \<Rightarrow> pystr \<Rightarrow> web_error + owned_row option" where
  "scoped_agent_job d i =
     (let job = (\<lambda>q r. ow_type r = ''agent_job'' \<and> ow_key r = i \<and> q r) in
      case active_tenant d of
        Inr c \<Rightarrow> Inr (find (job (\<lambda>r. ow_org r = Some (tc_org c) \<and> ow_participant r = Some (tc_participant c)))
                   (owned d))
      | Inl _ \<Rightarrow>
          if bootstrapped d then Inl (TenantRequired ''post-bootstrap tenant scope required'')
          else Inr (find (job (\<lambda>r. ow_org r = None \<and> ow_participant r = None)) (owned d)))"

section \<open>Facts on the readings\<close>

lemma asks_run [simp]: "asks f d = (Inr (f d), d)"
  by (simp add: asks_def)

lemma modify_run [simp]: "modify f d = (Inr (), f d)"
  by (simp add: modify_def)

lemma demand_run: "demand b e d = (if b then (Inr (), d) else (Inl e, d))"
  by (simp add: demand_def ret_def raise_def)

lemma seq_asks [simp]: "seq (asks f) g d = g (f d) d"
  by (simp add: seq_def)

lemma seq_modify [simp]: "seq (modify f) g d = g () (f d)"
  by (simp add: seq_def)

lemma seq_demand [simp]: "seq (demand b e) g d = (if b then g () d else (Inl e, d))"
  by (simp add: seq_def demand_run)

lemma ret_run [simp]: "ret x d = (Inr x, d)"
  by (simp add: ret_def)

lemma raise_run [simp]: "raise e d = (Inl e, d)"
  by (simp add: raise_def)

lemma seq_lift [simp]: "seq (lift r) g d = (case r of Inl e \<Rightarrow> (Inl e, d) | Inr x \<Rightarrow> g x d)"
  by (simp add: seq_def lift_def split: sum.splits)

lemma seq_demand_or [simp]:
  "seq (demand_or v e) g d = (case v of None \<Rightarrow> (Inl e, d) | Some x \<Rightarrow> g x d)"
  by (simp add: seq_def demand_or_def split: option.splits)

text \<open>Changing a session changes nothing the scope is computed from.\<close>

lemma set_session_reads [simp]:
  "available_memberships (set_session i f d) u = available_memberships d u"
  "org_active (set_session i f d) o' = org_active d o'"
  "verified_participant (set_session i f d) o' p = verified_participant d o' p"
  "org_participants (set_session i f d) o' v = org_participants d o' v"
  "memberships (set_session i f d) = memberships d" "participants (set_session i f d) = participants d"
  "trusted_participant (set_session i f d) o' q = trusted_participant d o' q"
  by (simp_all add: set_session_def available_memberships_def org_active_def find_org_def
      verified_participant_def find_participant_def org_participants_def trusted_participant_def)

lemma session_membership_sound:
  assumes "session_membership u s d = (Inr m, d1)"
  shows "m \<in> set (available_memberships d u)" "\<exists>f. d1 = d \<or> d1 = set_session (se_id s) f d"
    "truthy (se_org s) \<longrightarrow> se_org s = Some (me_org m)"
  using assms
  by (auto simp: session_membership_def split: if_splits option.splits dest!: find_eq_Some intro: exI)

lemma session_participant_sound:
  assumes "session_participant s o' require d = (Inr p, d1)"
  shows "case p of None \<Rightarrow> \<not> require | Some q \<Rightarrow> trusted_participant d o' q"
proof -
  obtain p0 d0 where k: "kept_participant s o' require d = (Inr p0, d0)"
    using assms by (auto simp: session_participant_def seq_Inr)
  have k': "(p0 = None \<or> p0 = verified_participant d o' (se_participant s)) \<and> (\<exists>f. d0 = d \<or> d0 = set_session (se_id s) f d)"
    using k by (auto simp: kept_participant_def split: if_splits intro: exI)
  then have same: "org_participants d0 o' True = org_participants d o' True" by auto
  show ?thesis
  proof (cases "p0 = None")
    case False
    with assms k k' show ?thesis
      by (auto simp: session_participant_def seq_def demand_run dest: verified_participant_Some
          split: option.splits)
  next
    case True
    let ?cs = "org_participants d o' True"
    have "p = None \<and> \<not> require \<or> length ?cs = 1 \<and> p = Some (hd ?cs)"
      using assms k same True by (auto simp: session_participant_def seq_def[of "kept_participant s o' require"]
          split: if_splits) (auto simp: seq_def demand_run split: if_splits)
    moreover have "hd ?cs \<in> set ?cs" if "length ?cs = 1" using that by (cases ?cs) auto
    ultimately show ?thesis
      by (auto simp: org_participants_in trusted_participant_def)
  qed
qed

section \<open>Properties\<close>

text \<open>A scope resolved for a session is backed by the tables: an active membership of the user in an
  active organisation with the role of the scope, the permissions of that role, the organisation
  the session chose if it chose one, and, if a participant is named or was required, an active
  verified participant of that organisation.\<close>

theorem resolved_scope_is_backed:
  assumes "resolve_session_scope u s require d = (Inr c, d')"
  shows "\<exists>m p. m \<in> set (memberships d) \<and> me_user m = u \<and> me_active m \<and> org_active d (me_org m)
     \<and> (truthy (se_org s) \<longrightarrow> se_org s = Some (me_org m))
     \<and> c = scope_of u (me_org m) p (me_role m)
     \<and> (case p of None \<Rightarrow> \<not> require | Some q \<Rightarrow> trusted_participant d (me_org m) q)"
proof -
  obtain m d1 p d2 where m: "session_membership u s d = (Inr m, d1)"
    and p: "session_participant s (me_org m) require d1 = (Inr p, d2)"
    and c: "c = scope_of u (me_org m) p (me_role m)"
    using assms by (auto simp: resolve_session_scope_def seq_Inr Let_def)
  have d1: "trusted_participant d1 o' q = trusted_participant d o' q" for o' q
    using session_membership_sound(2) [OF m] by auto
  show ?thesis
    using session_membership_sound(1,3) [OF m] session_participant_sound [OF p] c
    by (fastforce simp: available_memberships_in d1 split: option.splits)
qed

lemma resolved_scope_is_backed_witness:
  "\<exists>m p. m \<in> set (memberships demo_web) \<and> me_user m = 2 \<and> me_active m \<and> org_active demo_web (me_org m)
     \<and> se_org demo_session = Some (me_org m)
     \<and> scope_of 2 ''o1'' (Some demo_participant) OPERATOR = scope_of 2 (me_org m) p (me_role m)
     \<and> (case p of None \<Rightarrow> False | Some q \<Rightarrow> trusted_participant demo_web (me_org m) q)"
proof -
  have f: "me_org (demo_member ''m2'' 2 OPERATOR) = ''o1''" "me_role (demo_member ''m2'' 2 OPERATOR) = OPERATOR"
    "se_org demo_session = Some ''o1''" "se_participant demo_session = None"
    by (simp_all add: demo_defs)
  obtain d' where "resolve_session_scope 2 demo_session True demo_web
      = (Inr (scope_of 2 ''o1'' (Some demo_participant) OPERATOR), d')"
    by (simp add: resolve_session_scope_def session_membership_def session_participant_def
        kept_participant_def f verified_participant_def find_participant_def seq_def [of "kept_participant _ _ _"]
        seq_def [of "session_membership _ _"] seq_def [of "session_participant _ _ _"] seq_def [of "ret _"]
        seq_def [of "if _ then _ else _"] seq_def [of "seq _ _"] demand_run Let_def)
  from resolved_scope_is_backed [OF this] f(3) show ?thesis by (simp cong: option.case_cong)
qed

text \<open>C7: a background request is authorised exactly for an active account with an active membership
  whose role has the permission, in an active organisation, for no participant or an active
  verified one of it, and for an object, when one is named, that belongs to the organisation and,
  if it has a participant, to the participant of the scope.\<close>

theorem authorize_iff:
  "ok (authorize d u o' p perm t k) \<longleftrightarrow>
     (\<exists>w m. find_user d u = Some w \<and> us_active w \<and> us_state w = ACCOUNT_ACTIVE
       \<and> active_membership d u o' = Some m \<and> perm \<in> set (role_permissions (me_role m)) \<and> org_active d o'
       \<and> (case p of None \<Rightarrow> True | Some _ \<Rightarrow> \<exists>v. verified_participant d o' p = Some v)
       \<and> (case t of None \<Rightarrow> True | Some t' \<Rightarrow>
            \<exists>k' q. k = Some k' \<and> object_scope d t' k' = Inr (Some o', q) \<and> (q = None \<or> q = p)))"
proof -
  have vp: "map_option pa_id (verified_participant d o' p) = p"
    if "p = None \<or> verified_participant d o' p \<noteq> None"
    using that verified_participant_Some [of d o' p]
    by (auto simp: verified_participant_def find_participant_def)
  show ?thesis
    using vp
    by (cases t; cases k; cases p)
      (auto simp: authorize_def Let_def require_permission_def authorize_object_def ok_bind scope_of_def
        split: option.splits if_splits prod.splits)
qed

text \<open>C30: what a request can reach through the tenant of its database session is its own: the agent
  job found belongs to the active organisation and participant, which are active and verified;
  without a tenant only rows from before the bootstrap are visible, and none after it.\<close>

theorem scoped_agent_job_is_own:
  assumes "scoped_agent_job d i = Inr (Some r)"
  shows "ow_key r = i \<and> r \<in> set (owned d) \<and>
    (case active_tenant d of
       Inr c \<Rightarrow> ow_org r = Some (tc_org c) \<and> ow_participant r = Some (tc_participant c)
         \<and> org_active d (tc_org c) \<and> verified_participant d (tc_org c) (Some (tc_participant c)) \<noteq> None
     | Inl _ \<Rightarrow> \<not> bootstrapped d \<and> ow_org r = None \<and> ow_participant r = None)"
proof (cases "active_tenant d")
  case (Inl e)
  with assms show ?thesis
    by (auto simp: scoped_agent_job_def dest!: find_eq_Some split: if_splits)
next
  case (Inr c)
  have "org_active d (tc_org c)" "verified_participant d (tc_org c) (Some (tc_participant c)) \<noteq> None"
    using Inr verified_participant_Some
    by (auto simp: active_tenant_def Let_def split: option.splits if_splits)
  with Inr assms show ?thesis
    by (auto simp: scoped_agent_job_def dest!: find_eq_Some)
qed


lemma scoped_agent_job_is_own_witness:
  "let d = demo_web\<lparr>tenant_scope := Some \<lparr>ti_user = Some 2, ti_org = Some ''o1'', ti_participant = Some ''p1'',
       ti_inn = Some ''7707083893'', ti_role = Some OPERATOR\<rparr>\<rparr>
   in ow_key demo_owned = ''j1'' \<and> (\<exists>c. active_tenant d = Inr c \<and> ow_org demo_owned = Some (tc_org c))"
proof -
  let ?d = "demo_web\<lparr>tenant_scope := Some \<lparr>ti_user = Some 2, ti_org = Some ''o1'', ti_participant = Some ''p1'',
       ti_inn = Some ''7707083893'', ti_role = Some OPERATOR\<rparr>\<rparr>"
  have r: "verified_participant ?d ''o1'' (Some ''p1'') = Some demo_participant" "org_active ?d ''o1''"
    "owned ?d = [demo_owned]"
    by (simp_all add: verified_participant_def find_participant_def org_active_def find_org_def demo_defs)
  obtain c where c: "active_tenant ?d = Inr c" "tc_org c = ''o1''" "tc_participant c = ''p1''"
    using r(1,2) by (simp add: active_tenant_def demo_participant_def)
  have "scoped_agent_job ?d ''j1'' = Inr (Some demo_owned)"
    using c r(3) by (simp add: scoped_agent_job_def demo_owned_def)
  from scoped_agent_job_is_own [OF this] c show ?thesis by simp
qed

end
