(* ===== verification/WebMembership.thy ===== *)
theory WebMembership
  imports WebAuthorization
begin

text \<open>
  \<open>MembershipService\<close> and \<open>BootstrapService\<close> of \<open>wbcz_web/services/authorization.py\<close>, and the participant
  claims of \<open>wbcz_web/services/registration.py\<close>: roles of members, invitations, and the one-time
  conversion of a single-tenant database. Each method is an operation on the database session; a
  request commits it or rolls it back. Fresh identifiers, tokens and the clock are arguments.
\<close>

section \<open>Members\<close>

definition normalise_username :: "pystr \<Rightarrow> pystr" where
  "normalise_username v = casefold (strip v)"

definition owner_count :: "web_db \<Rightarrow> pystr \<Rightarrow> nat" where
  "owner_count d o' =
     length (filter (\<lambda>m. me_org m = o' \<and> me_role m = OWNER \<and> me_active m) (memberships d))"

definition find_member :: "web_db \<Rightarrow> pystr \<Rightarrow> pystr \<Rightarrow> membership option" where
  "find_member d o' i = find (\<lambda>m. me_id m = i \<and> me_org m = o') (memberships d)"

definition set_member :: "pystr \<Rightarrow> (membership \<Rightarrow> membership) \<Rightarrow> web_db \<Rightarrow> web_db" where
  "set_member i f d = d\<lparr>memberships := update_rows me_id i f (memberships d)\<rparr>"

definition revoke_org_sessions :: "int \<Rightarrow> nat \<Rightarrow> pystr \<Rightarrow> web_db \<Rightarrow> web_db" where
  "revoke_org_sessions now u o' d = d\<lparr>sessions := map (\<lambda>s.
     if se_user s = u \<and> se_org s = Some o' \<and> se_revoked s = None then s\<lparr>se_revoked := Some now\<rparr> else s)
     (sessions d)\<rparr>"

definition change_role :: "int \<Rightarrow> active_scope \<Rightarrow> pystr \<Rightarrow> role \<Rightarrow> membership web_op" where
  "change_role now actor i r =
     seq (lift (require_permission actor ROLES_MANAGE)) (\<lambda>_.
     seq (asks (\<lambda>d. find_member d (sc_org actor) i)) (\<lambda>row.
     seq (demand_or row (NotFound ''membership not found'')) (\<lambda>m.
     seq (demand (\<not> (r = OWNER \<and> sc_role actor \<noteq> OWNER)) (Denied ''only OWNER may grant OWNER'')) (\<lambda>_.
     seq (demand (\<not> (sc_role actor = ADMIN \<and> (me_role m \<in> {OWNER, ADMIN} \<or> r \<in> {OWNER, ADMIN})))
            (Denied ''ADMIN may manage only OPERATOR/VIEWER roles'')) (\<lambda>_.
     seq (asks (\<lambda>d. owner_count d (sc_org actor))) (\<lambda>n.
     seq (demand (\<not> (me_role m = OWNER \<and> r \<noteq> OWNER \<and> n \<le> 1)) (Denied ''last OWNER cannot be demoted'')) (\<lambda>_.
     seq (modify (\<lambda>d. revoke_org_sessions now (me_user m) (sc_org actor)
            (set_member (me_id m) (\<lambda>q. q\<lparr>me_role := r\<rparr>) d))) (\<lambda>_.
       ret (m\<lparr>me_role := r\<rparr>)))))))))"

definition remove_member :: "int \<Rightarrow> active_scope \<Rightarrow> pystr \<Rightarrow> unit web_op" where
  "remove_member now actor i =
     seq (lift (require_permission actor MEMBERS_MANAGE)) (\<lambda>_.
     seq (asks (\<lambda>d. find_member d (sc_org actor) i)) (\<lambda>row.
     seq (demand_or row (NotFound ''membership not found'')) (\<lambda>m.
     seq (demand (\<not> (sc_role actor = ADMIN \<and> me_role m \<in> {OWNER, ADMIN}))
            (Denied ''ADMIN may remove only OPERATOR/VIEWER memberships'')) (\<lambda>_.
     seq (asks (\<lambda>d. owner_count d (sc_org actor))) (\<lambda>n.
     seq (demand (\<not> (me_role m = OWNER \<and> n \<le> 1)) (Denied ''last OWNER cannot be removed'')) (\<lambda>_.
       modify (\<lambda>d. revoke_org_sessions now (me_user m) (sc_org actor)
         (set_member (me_id m) (\<lambda>q. q\<lparr>me_active := False\<rparr>) d))))))))"

section \<open>Invitations\<close>

definition token_hash :: "pystr \<Rightarrow> pystr" where
  "token_hash t = sha256_hex (utf8 t)"

definition set_invitation :: "pystr \<Rightarrow> (invitation \<Rightarrow> invitation) \<Rightarrow> web_db \<Rightarrow> web_db" where
  "set_invitation i f d = d\<lparr>invitations := update_rows iv_id i f (invitations d)\<rparr>"

text \<open>An empty text stands for no value: \<open>_normalise_username(x or "") or None\<close>.\<close>

definition some_text :: "pystr \<Rightarrow> pystr option" where
  "some_text s = (if s = [] then None else Some s)"

definition insert_invitation :: "invitation \<Rightarrow> unit web_op" where
  "insert_invitation v =
     seq (asks (\<lambda>d. iv_id v \<notin> iv_id ` set (invitations d) \<and> iv_token v \<notin> iv_token ` set (invitations d))) (\<lambda>fresh.
     seq (demand fresh (Constraint ''organisation_invitations'')) (\<lambda>_.
       modify (\<lambda>d. d\<lparr>invitations := invitations d @ [v]\<rparr>)))"

definition create_invitation :: "pystr \<Rightarrow> pystr \<Rightarrow> active_scope \<Rightarrow> pystr option \<Rightarrow> nat option \<Rightarrow> pystr option
    \<Rightarrow> role \<Rightarrow> pystr option \<Rightarrow> int \<Rightarrow> (invitation \<times> pystr) web_op" where
  "create_invitation new_id raw actor name invited email r p expires =
     seq (lift (require_permission actor MEMBERS_MANAGE)) (\<lambda>_.
     seq (demand (\<not> (r = OWNER \<and> sc_role actor \<noteq> OWNER)) (Denied ''only OWNER may invite OWNER'')) (\<lambda>_.
     seq (demand (\<not> (sc_role actor = ADMIN \<and> r \<notin> {OPERATOR, VIEWER}))
            (Denied ''ADMIN may invite only OPERATOR/VIEWER'')) (\<lambda>_.
     seq (asks (\<lambda>d. p \<noteq> None \<and> verified_participant d (sc_org actor) p = None)) (\<lambda>unavailable.
     seq (demand (\<not> unavailable) (Denied ''participant scope unavailable'')) (\<lambda>_.
     seq (asks (\<lambda>d. case invited of None \<Rightarrow> True | Some u \<Rightarrow> find_user d u \<noteq> None)) (\<lambda>known.
     seq (demand known (Denied ''invited user not found'')) (\<lambda>_.
       let n = some_text (normalise_username (or_else name []));
           m = some_text (casefold (strip (or_else email [])));
           v = \<lparr>iv_id = new_id, iv_org = sc_org actor, iv_participant = p, iv_token = token_hash raw,
                iv_username = n, iv_user = invited, iv_email = m, iv_role = r, iv_state = I_PENDING,
                iv_inviter = sc_user actor, iv_accepted_by = None, iv_expires = expires,
                iv_accepted_at = None, iv_revoked_at = None\<rparr> in
       seq (demand (\<not> (n = None \<and> invited = None \<and> m = None))
              (WebValue ''invitation must be bound to an intended identity'')) (\<lambda>_.
       seq (insert_invitation v) (\<lambda>_. ret (v, raw))))))))))"

definition revoke_invitation :: "int \<Rightarrow> active_scope \<Rightarrow> pystr \<Rightarrow> unit web_op" where
  "revoke_invitation now actor i =
     seq (lift (require_permission actor MEMBERS_MANAGE)) (\<lambda>_.
     seq (asks (\<lambda>d. find (\<lambda>v. iv_id v = i \<and> iv_org v = sc_org actor) (invitations d))) (\<lambda>row.
     seq (demand_or row (NotFound ''invitation not found'')) (\<lambda>v.
     seq (demand (iv_state v = I_PENDING) (Denied ''invitation is not revocable'')) (\<lambda>_.
     seq (demand (\<not> (sc_role actor = ADMIN \<and> iv_role v \<in> {OWNER, ADMIN}))
            (Denied ''ADMIN cannot revoke elevated invitation'')) (\<lambda>_.
       modify (set_invitation i (\<lambda>q. q\<lparr>iv_state := I_REVOKED, iv_revoked_at := Some now\<rparr>)))))))"

text \<open>The identities an invitation names must all be the user's, and it must name one.\<close>

definition invited_user :: "user \<Rightarrow> invitation \<Rightarrow> bool" where
  "invited_user u v \<longleftrightarrow>
     (case iv_username v of None \<Rightarrow> True | Some n \<Rightarrow> normalise_username (us_name u) = normalise_username n)
     \<and> (case iv_user v of None \<Rightarrow> True | Some i \<Rightarrow> us_id u = i)
     \<and> (case iv_email v of None \<Rightarrow> True | Some e \<Rightarrow> us_email_verified u \<noteq> None \<and> truthy (us_email u)
          \<and> casefold (the (us_email u)) = casefold e)
     \<and> \<not> (iv_username v = None \<and> iv_user v = None \<and> iv_email v = None)"

definition inviter_may :: "membership option \<Rightarrow> invitation \<Rightarrow> bool" where
  "inviter_may inviter v = (case inviter of None \<Rightarrow> False
     | Some m \<Rightarrow> \<not> (me_role m = ADMIN \<and> iv_role v \<notin> {OPERATOR, VIEWER}) \<and> me_role m \<in> {OWNER, ADMIN})"

definition find_membership :: "web_db \<Rightarrow> nat \<Rightarrow> pystr \<Rightarrow> membership option" where
  "find_membership d u o' = find (\<lambda>m. me_user m = u \<and> me_org m = o') (memberships d)"

definition joined :: "invitation \<Rightarrow> membership \<Rightarrow> membership" where
  "joined v q = q\<lparr>me_role := iv_role v, me_active := True, me_creator := Some (iv_inviter v)\<rparr>"

definition new_member :: "pystr \<Rightarrow> int \<Rightarrow> user \<Rightarrow> invitation \<Rightarrow> membership" where
  "new_member new_id now u v = \<lparr>me_id = new_id, me_org = iv_org v, me_user = us_id u, me_role = iv_role v,
     me_active = True, me_creator = Some (iv_inviter v), me_created = now\<rparr>"

definition join_org :: "pystr \<Rightarrow> int \<Rightarrow> user \<Rightarrow> invitation \<Rightarrow> membership web_op" where
  "join_org new_id now u v =
     seq (asks (\<lambda>d. find_membership d (us_id u) (iv_org v))) (\<lambda>existing. case existing of
       Some m \<Rightarrow>
         seq (demand (\<not> me_active m) (Denied ''invitation is invalid'')) (\<lambda>_.
         seq (modify (set_member (me_id m) (joined v))) (\<lambda>_. ret (joined v m)))
     | None \<Rightarrow>
         seq (asks (\<lambda>d. new_id \<notin> me_id ` set (memberships d))) (\<lambda>fresh.
         seq (demand fresh (Constraint ''organisation_memberships'')) (\<lambda>_.
         seq (modify (\<lambda>d. d\<lparr>memberships := memberships d @ [new_member new_id now u v]\<rparr>)) (\<lambda>_.
           ret (new_member new_id now u v)))))"

definition accept_invitation :: "pystr \<Rightarrow> int \<Rightarrow> user \<Rightarrow> pystr \<Rightarrow> membership web_op" where
  "accept_invitation new_id now u raw =
     seq (asks (\<lambda>d. lookup_row iv_token (token_hash raw) (invitations d))) (\<lambda>row.
     seq (demand_or row (Denied ''invitation is invalid'')) (\<lambda>v.
     seq (demand (iv_state v = I_PENDING \<and> iv_revoked_at v = None) (Denied ''invitation is invalid'')) (\<lambda>_.
       if iv_expires v \<le> now
       then seq (modify (set_invitation (iv_id v) (\<lambda>q. q\<lparr>iv_state := I_EXPIRED\<rparr>))) (\<lambda>_.
              raise (Denied ''invitation is invalid''))
       else
         seq (demand (invited_user u v) (Denied ''invitation is invalid'')) (\<lambda>_.
         seq (asks (\<lambda>d. inviter_may (active_membership d (iv_inviter v) (iv_org v)) v)) (\<lambda>may.
         seq (demand may (Denied ''invitation is invalid'')) (\<lambda>_.
         seq (asks (\<lambda>d. iv_participant v \<noteq> None \<and> verified_participant d (iv_org v) (iv_participant v) = None)) (\<lambda>gone.
         seq (demand (\<not> gone) (Denied ''invitation is invalid'')) (\<lambda>_.
         seq (join_org new_id now u v) (\<lambda>m.
         seq (modify (set_invitation (iv_id v) (\<lambda>q. q\<lparr>iv_state := I_ACCEPTED,
                iv_accepted_by := Some (us_id u), iv_accepted_at := Some now\<rparr>))) (\<lambda>_.
           ret m))))))))))"

section \<open>Requests\<close>

datatype member_request =
    ChangeRole int active_scope pystr role
  | RemoveMember int active_scope pystr
  | CreateInvitation pystr pystr active_scope "pystr option" "nat option" "pystr option" role
      "pystr option" int
  | RevokeInvitation int active_scope pystr
  | AcceptInvitation pystr int user pystr

definition no_result :: "'a web_op \<Rightarrow> unit web_op" where
  "no_result m = seq m (\<lambda>_. ret ())"

fun perform :: "member_request \<Rightarrow> unit web_op" where
  "perform (ChangeRole now c i r) = no_result (change_role now c i r)"
| "perform (RemoveMember now c i) = remove_member now c i"
| "perform (CreateInvitation i raw c n u e r p x) = no_result (create_invitation i raw c n u e r p x)"
| "perform (RevokeInvitation now c i) = revoke_invitation now c i"
| "perform (AcceptInvitation i now u raw) = no_result (accept_invitation i now u raw)"

definition handle :: "member_request \<Rightarrow> web_db \<Rightarrow> web_db" where
  "handle q d = snd (request (perform q) d)"

section \<open>Claims\<close>

definition create_claim :: "pystr \<Rightarrow> nat \<Rightarrow> pystr \<Rightarrow> pystr option \<Rightarrow> claim_row web_op" where
  "create_claim new_id u inn o' =
     seq (lift (map_error WebValue (validate_owner_inn inn))) (\<lambda>_.
     seq (asks (\<lambda>d. find_user d u \<noteq> None)) (\<lambda>known.
     seq (demand known (NotFound ''claimant user not found'')) (\<lambda>_.
     seq (asks (\<lambda>d. case o' of None \<Rightarrow> True | Some g \<Rightarrow> find_org d g \<noteq> None)) (\<lambda>target.
     seq (demand target (NotFound ''target organisation not found'')) (\<lambda>_.
       let r = \<lparr>cl_id = new_id, cl_user = u, cl_org = o', cl_inn = inn, cl_state = C_PENDING_VERIFICATION,
                cl_decided = None\<rparr> in
       seq (modify (\<lambda>d. d\<lparr>claims := claims d @ [r]\<rparr>)) (\<lambda>_. ret r))))))"

definition reject_claim :: "int \<Rightarrow> pystr \<Rightarrow> unit web_op" where
  "reject_claim now i =
     seq (asks (\<lambda>d. lookup_row cl_id i (claims d))) (\<lambda>row.
     seq (demand_or row (NotFound ''claim not found'')) (\<lambda>r.
     seq (demand (cl_state r = C_PENDING_VERIFICATION) (WebValue ''claim is not pending'')) (\<lambda>_.
       modify (\<lambda>d. d\<lparr>claims := update_rows cl_id i
         (\<lambda>q. q\<lparr>cl_state := C_REJECTED, cl_decided := Some now\<rparr>) (claims d)\<rparr>))))"


section \<open>What each method does\<close>

lemma require_Inr: "require_permission c p = Inr u \<longleftrightarrow> p \<in> set (sc_permissions c)"
  by (auto simp: require_permission_def)

lemma find_member_Some:
  "find_member d o' i = Some m \<Longrightarrow> m \<in> set (memberships d) \<and> me_id m = i \<and> me_org m = o'"
  by (auto simp: find_member_def dest: find_eq_Some)

lemma change_role_Inr:
  assumes "change_role now c i r d = (Inr x, d')"
  obtains m where "find_member d (sc_org c) i = Some m" "ROLES_MANAGE \<in> set (sc_permissions c)"
    "r = OWNER \<longrightarrow> sc_role c = OWNER" "sc_role c = ADMIN \<longrightarrow> me_role m \<notin> {OWNER, ADMIN} \<and> r \<notin> {OWNER, ADMIN}"
    "me_role m = OWNER \<and> r \<noteq> OWNER \<longrightarrow> 1 < owner_count d (sc_org c)"
    "d' = revoke_org_sessions now (me_user m) (sc_org c) (set_member i (\<lambda>q. q\<lparr>me_role := r\<rparr>) d)"
    "x = m\<lparr>me_role := r\<rparr>"
  using assms find_member_Some
  by (fastforce simp: change_role_def require_Inr split: sum.splits option.splits if_splits)

lemma remove_member_Inr:
  assumes "remove_member now c i d = (Inr x, d')"
  obtains m where "find_member d (sc_org c) i = Some m"
    "me_role m = OWNER \<longrightarrow> 1 < owner_count d (sc_org c)"
    "d' = revoke_org_sessions now (me_user m) (sc_org c) (set_member i (\<lambda>q. q\<lparr>me_active := False\<rparr>) d)"
  using assms find_member_Some
  by (fastforce simp: remove_member_def require_Inr split: sum.splits option.splits if_splits)

lemma seq_insert_invitation:
  "seq (insert_invitation v) g d =
     (if iv_id v \<notin> iv_id ` set (invitations d) \<and> iv_token v \<notin> iv_token ` set (invitations d)
      then g () (d\<lparr>invitations := invitations d @ [v]\<rparr>) else (Inl (Constraint ''organisation_invitations''), d))"
  by (simp add: insert_invitation_def seq_def [of "seq _ _"])

lemma create_invitation_Inr:
  assumes "create_invitation i raw c n u e r p x d = (Inr (v, t), d')"
  shows "d' = d\<lparr>invitations := invitations d @ [v]\<rparr>" "iv_id v \<notin> iv_id ` set (invitations d)"
    "iv_token v \<notin> iv_token ` set (invitations d)"
  using assms
  by (auto simp: create_invitation_def require_Inr seq_insert_invitation Let_def
      split: sum.splits option.splits if_splits)

lemma revoke_invitation_Inr:
  assumes "revoke_invitation now c i d = (Inr x, d')"
  obtains v where "v \<in> set (invitations d)" "iv_id v = i" "iv_state v = I_PENDING"
    "d' = set_invitation i (\<lambda>q. q\<lparr>iv_state := I_REVOKED, iv_revoked_at := Some now\<rparr>) d"
  using assms
  by (fastforce simp: revoke_invitation_def require_Inr split: sum.splits option.splits if_splits
      dest!: find_eq_Some)

lemma join_org_Inr:
  assumes "join_org new_id now u v d = (Inr m, d1)"
  shows "(\<exists>q. find_membership d (us_id u) (iv_org v) = Some q \<and> \<not> me_active q
            \<and> d1 = set_member (me_id q) (joined v) d \<and> m = joined v q)
    \<or> (find_membership d (us_id u) (iv_org v) = None \<and> new_id \<notin> me_id ` set (memberships d)
        \<and> d1 = d\<lparr>memberships := memberships d @ [new_member new_id now u v]\<rparr> \<and> m = new_member new_id now u v)"
  using assms by (auto simp: join_org_def split: option.splits if_splits)

lemma accept_invitation_Inr:
  assumes "accept_invitation i now u raw d = (Inr m, d')"
  obtains v d1 where "lookup_row iv_token (token_hash raw) (invitations d) = Some v" "iv_state v = I_PENDING"
    "invited_user u v" "inviter_may (active_membership d (iv_inviter v) (iv_org v)) v"
    "join_org i now u v d = (Inr m, d1)" "now < iv_expires v"
    "d' = set_invitation (iv_id v) (\<lambda>q. q\<lparr>iv_state := I_ACCEPTED, iv_accepted_by := Some (us_id u),
            iv_accepted_at := Some now\<rparr>) d1"
  using assms
  by (fastforce simp: accept_invitation_def not_le seq_def [of "join_org i now u _"]
      split: option.splits if_splits prod.splits sum.splits)

section \<open>The invariant of the tables\<close>

definition members_ok :: "web_db \<Rightarrow> bool" where
  "members_ok d \<longleftrightarrow> distinct (map me_id (memberships d)) \<and> distinct (map iv_id (invitations d))
     \<and> distinct (map (\<lambda>m. (me_org m, me_user m)) (memberships d)) \<and> distinct (map iv_token (invitations d))"

definition member_step :: "web_db \<Rightarrow> web_db \<Rightarrow> bool" where
  "member_step d d' \<longleftrightarrow> members_ok d \<and> (\<exists>q. d' = handle q d)"

lemma reads_tables [simp]:
  "memberships (revoke_org_sessions now u o' d) = memberships d"
  "invitations (revoke_org_sessions now u o' d) = invitations d"
  "memberships (set_invitation i f d) = memberships d"
  "invitations (set_member i g d) = invitations d"
  "memberships (set_member i g d) = update_rows me_id i g (memberships d)"
  "invitations (set_invitation i f d) = update_rows iv_id i f (invitations d)"
  by (simp_all add: revoke_org_sessions_def set_invitation_def set_member_def)

text \<open>A request leaves the two tables alone or changes them in one of five ways.\<close>

inductive table_effect :: "web_db \<Rightarrow> web_db \<Rightarrow> bool" for d d' where
  same: "memberships d' = memberships d \<Longrightarrow> invitations d' = invitations d \<Longrightarrow> table_effect d d'"
| role_changed: "find_member d o' i = Some m \<Longrightarrow>
    me_role m = OWNER \<and> r \<noteq> OWNER \<longrightarrow> 1 < owner_count d o' \<Longrightarrow>
    memberships d' = update_rows me_id i (\<lambda>q. q\<lparr>me_role := r\<rparr>) (memberships d) \<Longrightarrow>
    invitations d' = invitations d \<Longrightarrow> table_effect d d'"
| removed: "find_member d o' i = Some m \<Longrightarrow> me_role m = OWNER \<longrightarrow> 1 < owner_count d o' \<Longrightarrow>
    memberships d' = update_rows me_id i (\<lambda>q. q\<lparr>me_active := False\<rparr>) (memberships d) \<Longrightarrow>
    invitations d' = invitations d \<Longrightarrow> table_effect d d'"
| invited: "iv_id v \<notin> iv_id ` set (invitations d) \<Longrightarrow> iv_token v \<notin> iv_token ` set (invitations d) \<Longrightarrow>
    invitations d' = invitations d @ [v] \<Longrightarrow> memberships d' = memberships d \<Longrightarrow> table_effect d d'"
| revoked: "v \<in> set (invitations d) \<Longrightarrow> iv_state v = I_PENDING \<Longrightarrow>
    invitations d' = update_rows iv_id (iv_id v)
      (\<lambda>q. q\<lparr>iv_state := I_REVOKED, iv_revoked_at := Some now\<rparr>) (invitations d) \<Longrightarrow>
    memberships d' = memberships d \<Longrightarrow> table_effect d d'"
| accepted: "v \<in> set (invitations d) \<Longrightarrow> iv_state v = I_PENDING \<Longrightarrow> join_org i now u v d = (Inr m, d1) \<Longrightarrow>
    memberships d' = memberships d1 \<Longrightarrow>
    invitations d' = update_rows iv_id (iv_id v)
      (\<lambda>q. q\<lparr>iv_state := I_ACCEPTED, iv_accepted_by := a, iv_accepted_at := t\<rparr>) (invitations d) \<Longrightarrow>
    table_effect d d'"

lemma join_org_invitations: "join_org i now u v d = (Inr m, d1) \<Longrightarrow> invitations d1 = invitations d"
  using join_org_Inr [of i now u v d m d1] by auto

lemma handle_cases:
  "(\<exists>e. handle q d = d \<and> fst (perform q d) = Inl e) \<or> (\<exists>u. perform q d = (Inr u, handle q d))"
  by (cases "perform q d"; cases "fst (perform q d)") (auto simp: handle_def request_def)

lemma no_result_Inr: "no_result m d = (Inr u, d') \<longleftrightarrow> (\<exists>x. m d = (Inr x, d'))"
  by (auto simp: no_result_def seq_Inr)

lemma handle_effect: "table_effect d (handle q d)"
proof (cases "\<exists>u. perform q d = (Inr u, handle q d)")
  case False
  with handle_cases [of q d] show ?thesis by (auto intro: same)
next
  case True
  then obtain u where p: "perform q d = (Inr u, handle q d)" by blast
  show ?thesis
  proof (cases q)
    case (ChangeRole now c i r)
    with p obtain x where "change_role now c i r d = (Inr x, handle q d)" by (auto simp: no_result_Inr)
    then show ?thesis by (rule change_role_Inr) (rule role_changed, auto)
  next
    case (RemoveMember now c i)
    with p have "remove_member now c i d = (Inr u, handle q d)" by simp
    then show ?thesis by (rule remove_member_Inr) (rule removed, auto)
  next
    case (CreateInvitation i raw c n w e r t x)
    with p obtain v s where "create_invitation i raw c n w e r t x d = (Inr (v, s), handle q d)"
      by (auto simp: no_result_Inr)
    from create_invitation_Inr [OF this] show ?thesis by (intro invited) auto
  next
    case (RevokeInvitation now c i)
    with p have "revoke_invitation now c i d = (Inr u, handle q d)" by simp
    then show ?thesis by (rule revoke_invitation_Inr) (rule revoked, auto)
  next
    case (AcceptInvitation i now w raw)
    with p obtain m where a: "accept_invitation i now w raw d = (Inr m, handle q d)"
      by (auto simp: no_result_Inr)
    obtain v d1 where v: "lookup_row iv_token (token_hash raw) (invitations d) = Some v" "iv_state v = I_PENDING"
      "join_org i now w v d = (Inr m, d1)"
      "handle q d = set_invitation (iv_id v) (\<lambda>q. q\<lparr>iv_state := I_ACCEPTED, iv_accepted_by := Some (us_id w),
            iv_accepted_at := Some now\<rparr>) d1"
      using a by (rule accept_invitation_Inr)
    have in_table: "v \<in> set (invitations d)" using v(1) by (auto dest: lookup_row_Some)
    show ?thesis
      by (rule accepted [OF in_table v(2,3)]) (use v(4) join_org_invitations [OF v(3)] in simp_all)
  qed
qed

text \<open>Keys stay unique.\<close>

lemma join_org_members:
  assumes "join_org i now u v d = (Inr m, d1)" and "members_ok d"
  shows "distinct (map me_id (memberships d1))" "distinct (map (\<lambda>m. (me_org m, me_user m)) (memberships d1))"
proof -
  from join_org_Inr [OF assms(1)] consider
      (reactivated) q where "find_membership d (us_id u) (iv_org v) = Some q" "d1 = set_member (me_id q) (joined v) d"
    | (added) "find_membership d (us_id u) (iv_org v) = None" "i \<notin> me_id ` set (memberships d)"
        "d1 = d\<lparr>memberships := memberships d @ [new_member i now u v]\<rparr>"
    by fastforce
  then have "distinct (map me_id (memberships d1)) \<and> distinct (map (\<lambda>m. (me_org m, me_user m)) (memberships d1))"
  proof cases
    case reactivated
    with assms(2) show ?thesis by (simp add: members_ok_def keys_update_rows joined_def)
  next
    case added
    have "(iv_org v, us_id u) \<notin> (\<lambda>m. (me_org m, me_user m)) ` set (memberships d)"
      using added(1) by (auto simp: find_membership_def find_None_iff)
    with added assms(2) show ?thesis by (auto simp: members_ok_def new_member_def)
  qed
  then show "distinct (map me_id (memberships d1))" "distinct (map (\<lambda>m. (me_org m, me_user m)) (memberships d1))"
    by blast+
qed

lemma table_effect_ok: "table_effect d d' \<Longrightarrow> members_ok d \<Longrightarrow> members_ok d'"
proof (induction rule: table_effect.induct)
  case (accepted v i now u m d1 a t)
  then show ?case
    using join_org_members [OF accepted(3)]
    by (simp add: members_ok_def keys_update_rows)
qed (auto simp: members_ok_def keys_update_rows)

lemma member_step_effect: "member_step d d' \<Longrightarrow> table_effect d d' \<and> members_ok d"
  by (auto simp: member_step_def handle_effect)

lemma member_run_ok: "member_step\<^sup>*\<^sup>* d d' \<Longrightarrow> members_ok d \<Longrightarrow> members_ok d'"
  by (induction rule: rtranclp_induct) (auto dest: member_step_effect table_effect_ok)


section \<open>Owners\<close>

abbreviation owns :: "pystr \<Rightarrow> membership \<Rightarrow> bool" where
  "owns o' \<equiv> \<lambda>m. me_org m = o' \<and> me_role m = OWNER \<and> me_active m"

lemma owner_count_update:
  assumes "members_ok d" and "m \<in> set (memberships d)"
    and "memberships d' = update_rows me_id (me_id m) f (memberships d)"
  shows "owner_count d' o' + (if owns o' m then 1 else 0) = owner_count d o' + (if owns o' (f m) then 1 else 0)"
  using length_filter_update_rows [of me_id "memberships d" m "owns o'" f] assms
  by (simp add: owner_count_def members_ok_def)

lemma table_effect_owner:
  assumes "table_effect d d'" and "members_ok d" and "1 \<le> owner_count d o'"
  shows "1 \<le> owner_count d' o'"
  using assms(1)
proof cases
  case (role_changed g i m r)
  then have m: "m \<in> set (memberships d)" "me_id m = i" "me_org m = g" by (auto dest: find_member_Some)
  have "owner_count d' o' + (if owns o' m then 1 else 0)
      = owner_count d o' + (if owns o' (m\<lparr>me_role := r\<rparr>) then 1 else 0)"
    using role_changed(3) m by (intro owner_count_update [OF assms(2) m(1)]) simp
  with role_changed(2) m assms(3) show ?thesis by (auto split: if_splits)
next
  case (removed g i m)
  then have m: "m \<in> set (memberships d)" "me_id m = i" "me_org m = g" by (auto dest: find_member_Some)
  have "owner_count d' o' + (if owns o' m then 1 else 0)
      = owner_count d o' + (if owns o' (m\<lparr>me_active := False\<rparr>) then 1 else 0)"
    using removed(3) m by (intro owner_count_update [OF assms(2) m(1)]) simp
  with removed(2) m assms(3) show ?thesis by (auto split: if_splits)
next
  case (accepted v i now u m d1 a t)
  from join_org_Inr [OF accepted(3)] show ?thesis
  proof
    assume "\<exists>q. find_membership d (us_id u) (iv_org v) = Some q \<and> \<not> me_active q
      \<and> d1 = set_member (me_id q) (joined v) d \<and> m = joined v q"
    then obtain q where q: "q \<in> set (memberships d)" "\<not> me_active q" "d1 = set_member (me_id q) (joined v) d"
      by (auto simp: find_membership_def dest: find_eq_Some)
    have "owner_count d' o' + (if owns o' q then 1 else 0)
        = owner_count d o' + (if owns o' (joined v q) then 1 else 0)"
      using accepted(4) q by (intro owner_count_update [OF assms(2) q(1)]) simp
    with q(2) assms(3) show ?thesis by (auto split: if_splits)
  next
    assume "find_membership d (us_id u) (iv_org v) = None \<and> i \<notin> me_id ` set (memberships d)
      \<and> d1 = d\<lparr>memberships := memberships d @ [new_member i now u v]\<rparr> \<and> m = new_member i now u v"
    with accepted(4) assms(3) show ?thesis by (simp add: owner_count_def)
  qed
qed (use assms(3) in \<open>simp_all add: owner_count_def\<close>)

section \<open>Invitations are used once\<close>

definition invitation_status :: "web_db \<Rightarrow> pystr \<Rightarrow> invitation_state option" where
  "invitation_status d h = map_option iv_state (lookup_row iv_token h (invitations d))"

definition invitation_rank :: "invitation_state \<Rightarrow> nat" where
  "invitation_rank s = (if s = I_PENDING then 0 else 1)"

lemma invitation_closed:
  assumes "members_ok d" and "v \<in> set (invitations d)" and "iv_state v = I_PENDING"
    and "\<And>q. iv_token (f q) = iv_token q" and "\<And>q. iv_state (f q) = s"
    and "invitations d' = update_rows iv_id (iv_id v) f (invitations d)"
    and "invitation_status d h = Some a"
  shows "\<exists>b. invitation_status d' h = Some b \<and> (b = a \<or> a = I_PENDING)"
proof -
  obtain w where w: "lookup_row iv_token h (invitations d) = Some w" "a = iv_state w"
    using assms(7) by (auto simp: invitation_status_def)
  have "w \<in> set (invitations d)" using w(1) by (auto dest: lookup_row_Some)
  then have "iv_id w = iv_id v \<Longrightarrow> w = v"
    using assms(1,2) by (auto simp: members_ok_def distinct_map inj_on_def)
  with w assms(3,5,6) show ?thesis
    by (auto simp: invitation_status_def update_rows_def lookup_row_map assms(4))
qed

lemma invitation_forward:
  assumes "member_step d d'" and "invitation_status d h = Some a"
  shows "\<exists>b. invitation_status d' h = Some b \<and> (b = a \<or> invitation_rank a < invitation_rank b)"
proof -
  have ok: "members_ok d" and "table_effect d d'" using assms(1) member_step_effect by blast+
  from this(2) have "\<exists>b. invitation_status d' h = Some b \<and> (b = a \<or> (a = I_PENDING \<and> b \<noteq> I_PENDING))"
  proof cases
    case (invited v)
    with assms(2) show ?thesis by (auto simp: invitation_status_def lookup_row_append)
  next
    case (revoked v now)
    show ?thesis
      using invitation_closed [OF ok revoked(1,2) _ _ revoked(3) assms(2)]
      by (cases a) (auto simp: invitation_status_def)
  next
    case (accepted v i now u m d1 x t)
    show ?thesis
      using invitation_closed [OF ok accepted(1,2) _ _ accepted(5) assms(2)]
      by (cases a) (auto simp: invitation_status_def)
  qed (use assms(2) in \<open>auto simp: invitation_status_def\<close>)
  then show ?thesis by (auto simp: invitation_rank_def)
qed

interpretation il: lifecycle invitation_status invitation_rank member_step
  by unfold_locales (rule invitation_forward)

lemma accept_leaves_accepted:
  assumes "accept_invitation i now u raw d = (Inr m, d')"
  shows "invitation_status d' (token_hash raw) = Some I_ACCEPTED"
proof -
  obtain v d1 where v: "lookup_row iv_token (token_hash raw) (invitations d) = Some v"
      "join_org i now u v d = (Inr m, d1)"
      "d' = set_invitation (iv_id v) (\<lambda>q. q\<lparr>iv_state := I_ACCEPTED, iv_accepted_by := Some (us_id u),
            iv_accepted_at := Some now\<rparr>) d1"
    using assms by (rule accept_invitation_Inr)
  show ?thesis
    using v(1,3) join_org_invitations [OF v(2)]
    by (simp add: invitation_status_def update_rows_def lookup_row_map)
qed

lemma accept_needs_pending:
  "accept_invitation i now u raw d = (Inr m, d') \<Longrightarrow> invitation_status d (token_hash raw) = Some I_PENDING"
  by (rule accept_invitation_Inr) (auto simp: invitation_status_def)

section \<open>Who can raise a member\<close>

definition scope_ok :: "active_scope \<Rightarrow> bool" where
  "scope_ok c \<longleftrightarrow> sc_permissions c = role_permissions (sc_role c)"

lemma scope_of_ok [simp]: "scope_ok (scope_of u o' p r)"
  by (simp add: scope_ok_def scope_of_def)

fun request_scope :: "member_request \<Rightarrow> active_scope option" where
  "request_scope (ChangeRole _ c _ _) = Some c"
| "request_scope (RemoveMember _ c _) = Some c"
| "request_scope (CreateInvitation _ _ c _ _ _ _ _ _) = Some c"
| "request_scope (RevokeInvitation _ c _) = Some c"
| "request_scope (AcceptInvitation _ _ _ _) = None"

definition held :: "web_db \<Rightarrow> membership \<Rightarrow> bool" where
  "held d m \<longleftrightarrow> (\<exists>w\<in>set (memberships d). me_id w = me_id m \<and> me_active w \<and> me_role w = me_role m)"

lemma change_role_raises:
  assumes "change_role now c i r d = (Inr x, d')" and "scope_ok c" and "members_ok d"
    and "m \<in> set (memberships d')" "me_active m" "me_role m \<in> {OWNER, ADMIN}" "\<not> held d m"
  shows "sc_role c = OWNER \<and> sc_org c = me_org m"
  using assms(1)
proof (rule change_role_Inr)
  fix w
  assume w: "find_member d (sc_org c) i = Some w" "ROLES_MANAGE \<in> set (sc_permissions c)"
    "sc_role c = ADMIN \<longrightarrow> me_role w \<notin> {OWNER, ADMIN} \<and> r \<notin> {OWNER, ADMIN}"
    "d' = revoke_org_sessions now (me_user w) (sc_org c) (set_member i (\<lambda>q. q\<lparr>me_role := r\<rparr>) d)"
  from assms(4) w(4) obtain q where q: "q \<in> set (memberships d)" "m = (if me_id q = i then q\<lparr>me_role := r\<rparr> else q)"
    by (auto simp: set_update_rows)
  with assms(5,7) have i: "me_id q = i" by (auto simp: held_def split: if_splits)
  have "w \<in> set (memberships d) \<and> me_id w = i \<and> me_org w = sc_org c" using w(1) by (rule find_member_Some)
  with q(1) i assms(3) have "q = w" by (auto simp: members_ok_def distinct_map inj_on_def)
  with q i w assms(2,6) show ?thesis
    by (auto simp: scope_ok_def manage_roles_iff dest: find_member_Some)
qed

lemma accept_raises:
  assumes "accept_invitation i now u raw d = (Inr x, d')" and "members_ok d"
    and "m \<in> set (memberships d')" "me_active m" "me_role m \<in> {OWNER, ADMIN}" "\<not> held d m"
  shows "\<exists>v w. v \<in> set (invitations d) \<and> iv_token v = token_hash raw \<and> iv_state v = I_PENDING
     \<and> invited_user u v \<and> iv_role v = me_role m \<and> me_user m = us_id u
     \<and> active_membership d (iv_inviter v) (me_org m) = Some w \<and> me_role w = OWNER"
  using assms(1)
proof (rule accept_invitation_Inr)
  fix v d1
  assume v: "lookup_row iv_token (token_hash raw) (invitations d) = Some v" "iv_state v = I_PENDING"
    "invited_user u v" "inviter_may (active_membership d (iv_inviter v) (iv_org v)) v"
    "join_org i now u v d = (Inr x, d1)"
    "d' = set_invitation (iv_id v) (\<lambda>q. q\<lparr>iv_state := I_ACCEPTED, iv_accepted_by := Some (us_id u),
            iv_accepted_at := Some now\<rparr>) d1"
  have m: "m \<in> set (memberships d1)" using assms(3) v(6) by simp
  have *: "iv_role v = me_role m \<and> me_user m = us_id u \<and> me_org m = iv_org v"
    using join_org_Inr [OF v(5)]
  proof
    assume "\<exists>q. find_membership d (us_id u) (iv_org v) = Some q \<and> \<not> me_active q
      \<and> d1 = set_member (me_id q) (joined v) d \<and> x = joined v q"
    then obtain q where q: "q \<in> set (memberships d)" "me_user q = us_id u" "me_org q = iv_org v"
      "d1 = set_member (me_id q) (joined v) d"
      by (auto simp: find_membership_def dest: find_eq_Some)
    with m obtain p where p: "p \<in> set (memberships d)" "m = (if me_id p = me_id q then joined v p else p)"
      by (auto simp: set_update_rows)
    with assms(4,6) have "me_id p = me_id q" by (auto simp: held_def split: if_splits)
    with p q assms(2) have "p = q" by (auto simp: members_ok_def distinct_map inj_on_def)
    with p q show ?thesis by (auto simp: joined_def)
  next
    assume "find_membership d (us_id u) (iv_org v) = None \<and> i \<notin> me_id ` set (memberships d)
      \<and> d1 = d\<lparr>memberships := memberships d @ [new_member i now u v]\<rparr> \<and> x = new_member i now u v"
    with m assms(4,6) show ?thesis by (auto simp: held_def new_member_def)
  qed
  with v assms(5) show ?thesis
    by (auto simp: inviter_may_def split: option.splits dest: lookup_row_Some)
qed

section \<open>Small runs\<close>

definition demo_owner :: active_scope where
  "demo_owner = scope_of 1 ''o1'' None OWNER"

definition demo_guest :: user where
  "demo_guest = demo_user 3 ''guest''"

definition demo_invitation :: invitation where
  "demo_invitation = \<lparr>iv_id = ''i1'', iv_org = ''o1'', iv_participant = None, iv_token = token_hash ''tok'',
     iv_username = Some ''guest'', iv_user = None, iv_email = None, iv_role = ADMIN, iv_state = I_PENDING,
     iv_inviter = 1, iv_accepted_by = None, iv_expires = 50, iv_accepted_at = None, iv_revoked_at = None\<rparr>"

definition demo_invited :: web_db where
  "demo_invited = demo_web\<lparr>invitations := [demo_invitation]\<rparr>"

definition demo_guest_member :: membership where
  "demo_guest_member = new_member ''m3'' 10 demo_guest demo_invitation"

definition demo_joined :: web_db where
  "demo_joined = set_invitation ''i1'' (\<lambda>q. q\<lparr>iv_state := I_ACCEPTED, iv_accepted_by := Some 3,
     iv_accepted_at := Some 10\<rparr>) (demo_invited\<lparr>memberships := memberships demo_invited @ [demo_guest_member]\<rparr>)"

lemma demo_names: "normalise_username ''guest'' = ''guest''"
  by code_simp

lemma demo_ok [simp]: "members_ok demo_web" "members_ok demo_invited"
  by (simp_all add: members_ok_def demo_invited_def demo_defs)

lemma demo_owner_facts [simp]:
  "sc_org demo_owner = ''o1''" "sc_role demo_owner = OWNER" "scope_ok demo_owner"
  "ROLES_MANAGE \<in> set (sc_permissions demo_owner)" "MEMBERS_MANAGE \<in> set (sc_permissions demo_owner)"
  by (simp_all add: demo_owner_def) (simp_all add: scope_of_def permission_lists)

lemma demo_reads [simp]:
  "find_member demo_web ''o1'' ''m2'' = Some (demo_member ''m2'' 2 OPERATOR)"
  "owner_count demo_web ''o1'' = 1"
  by (simp_all add: find_member_def owner_count_def demo_defs)

lemma demo_guest_accepts: "accept_invitation ''m3'' 10 demo_guest ''tok'' demo_invited = (Inr demo_guest_member, demo_joined)"
proof -
  have r: "lookup_row iv_token (token_hash ''tok'') (invitations demo_invited) = Some demo_invitation"
    "invited_user demo_guest demo_invitation"
    "inviter_may (active_membership demo_invited 1 ''o1'') demo_invitation"
    "join_org ''m3'' 10 demo_guest demo_invitation demo_invited = (Inr demo_guest_member,
       demo_invited\<lparr>memberships := memberships demo_invited @ [demo_guest_member]\<rparr>)"
    by (simp_all add: demo_invited_def demo_invitation_def invited_user_def demo_guest_def demo_user_def
        demo_names inviter_may_def active_membership_def join_org_def find_membership_def demo_guest_member_def
        demo_web_def demo_member_def)
  have f: "iv_state demo_invitation = I_PENDING" "iv_revoked_at demo_invitation = None"
    "iv_expires demo_invitation = 50" "iv_inviter demo_invitation = 1" "iv_org demo_invitation = ''o1''"
    "iv_participant demo_invitation = None" "iv_id demo_invitation = ''i1''" "us_id demo_guest = 3"
    by (simp_all add: demo_invitation_def demo_guest_def demo_user_def)
  show ?thesis
    by (simp add: accept_invitation_def r f seq_def [of "join_org _ _ _ _"] demo_joined_def del: One_nat_def)
qed

section \<open>Properties\<close>

text \<open>C8: an organisation with an active owner keeps one: whatever requests members make, in any order,
  and whoever makes them, the last owner is neither demoted nor removed.\<close>

theorem last_owner_stays:
  assumes "member_step\<^sup>*\<^sup>* d d'" and "members_ok d" and "1 \<le> owner_count d o'"
  shows "1 \<le> owner_count d' o'"
  using assms(1)
proof (induction rule: rtranclp_induct)
  case (step y z)
  then show ?case using member_step_effect table_effect_owner by blast
qed (rule assms(3))

lemma last_owner_stays_witness:
  "1 \<le> owner_count (handle (ChangeRole 5 demo_owner ''m1'' VIEWER) demo_web) ''o1''"
  by (rule last_owner_stays [of demo_web, OF r_into_rtranclp])
    (simp_all add: member_step_def exI [of _ "ChangeRole 5 demo_owner ''m1'' VIEWER"])

text \<open>C16: an invitation is good for one membership: once it was accepted, every later attempt with its
  token fails and changes nothing, whoever makes it and whatever happened in between.\<close>

theorem invitation_accepted_once:
  assumes "accept_invitation i now u raw d = (Inr m, d1)" and "members_ok d"
    and "member_step\<^sup>*\<^sup>* d1 d2"
  shows "\<exists>e. request (accept_invitation i' now' u' raw) d2 = (Inl e, d2)"
proof -
  have "invitation_status d2 (token_hash raw) = Some I_ACCEPTED"
  proof (rule il.terminal_final [OF assms(3) accept_leaves_accepted [OF assms(1)]])
    show "invitation_rank b \<le> invitation_rank I_ACCEPTED" for b by (simp add: invitation_rank_def)
  qed
  then have "\<exists>e. fst (accept_invitation i' now' u' raw d2) = Inl e"
    using accept_needs_pending [of i' now' u' raw d2]
    by (cases "accept_invitation i' now' u' raw d2"; cases "fst (accept_invitation i' now' u' raw d2)") auto
  then show ?thesis by (auto simp: request_def split: prod.splits)
qed

lemma invitation_accepted_once_witness:
  "\<exists>e. request (accept_invitation ''m9'' 11 (demo_user 2 ''worker'') ''tok'')
      (handle (RemoveMember 10 demo_owner ''m3'') demo_joined)
     = (Inl e, handle (RemoveMember 10 demo_owner ''m3'') demo_joined)"
proof (rule invitation_accepted_once [OF demo_guest_accepts])
  have "members_ok demo_joined"
    using table_effect_ok [OF handle_effect [of demo_invited "AcceptInvitation ''m3'' 10 demo_guest ''tok''"]] demo_guest_accepts
    by (simp add: handle_def request_def no_result_def seq_def)
  then show "member_step\<^sup>*\<^sup>* demo_joined (handle (RemoveMember 10 demo_owner ''m3'') demo_joined)"
    by (intro r_into_rtranclp) (auto simp: member_step_def)
qed simp

text \<open>C38: the mark on an expired invitation never reaches the database: the method sets it and raises,
  and the request rolls back, so an expired invitation stays pending.\<close>

theorem expired_mark_is_lost:
  assumes "lookup_row iv_token (token_hash raw) (invitations d) = Some v"
    and "iv_state v = I_PENDING" and "iv_revoked_at v = None" and "iv_expires v \<le> now"
  shows "accept_invitation i now u raw d
      = (Inl (Denied ''invitation is invalid''), set_invitation (iv_id v) (\<lambda>q. q\<lparr>iv_state := I_EXPIRED\<rparr>) d)
    \<and> handle (AcceptInvitation i now u raw) d = d"
proof -
  have "accept_invitation i now u raw d
      = (Inl (Denied ''invitation is invalid''), set_invitation (iv_id v) (\<lambda>q. q\<lparr>iv_state := I_EXPIRED\<rparr>) d)"
    using assms by (simp add: accept_invitation_def)
  then show ?thesis by (simp add: handle_def request_def no_result_def seq_def)
qed


lemma expired_mark_is_lost_witness:
  "accept_invitation ''m3'' 60 demo_guest ''tok'' demo_invited
      = (Inl (Denied ''invitation is invalid''), set_invitation ''i1'' (\<lambda>q. q\<lparr>iv_state := I_EXPIRED\<rparr>) demo_invited)
    \<and> handle (AcceptInvitation ''m3'' 60 demo_guest ''tok'') demo_invited = demo_invited"
  using expired_mark_is_lost [of "''tok''" demo_invited demo_invitation 60 "''m3''" demo_guest]
  by (simp add: demo_invited_def demo_invitation_def)

text \<open>C12: nobody becomes an owner or an administrator except through an owner: a request after which a
  member newly holds one of the two roles is a change of role by an owner of that organisation, or
  the acceptance, by the user it names, of a pending invitation whose author is an active owner.\<close>

theorem elevation_needs_owner:
  assumes "members_ok d" and "pred_option scope_ok (request_scope q)"
    and "m \<in> set (memberships (handle q d))" "me_active m" "me_role m \<in> {OWNER, ADMIN}" "\<not> held d m"
  shows "case q of
      ChangeRole now c i r \<Rightarrow> sc_role c = OWNER \<and> sc_org c = me_org m
    | AcceptInvitation i now u raw \<Rightarrow>
        (\<exists>v w. v \<in> set (invitations d) \<and> iv_token v = token_hash raw \<and> iv_state v = I_PENDING
          \<and> invited_user u v \<and> iv_role v = me_role m \<and> me_user m = us_id u
          \<and> active_membership d (iv_inviter v) (me_org m) = Some w \<and> me_role w = OWNER)
    | _ \<Rightarrow> False"
proof -
  have "handle q d \<noteq> d" using assms(3,4,6) by (auto simp: held_def)
  then obtain u where p: "perform q d = (Inr u, handle q d)" using handle_cases [of q d] by auto
  show ?thesis
  proof (cases q)
    case (ChangeRole now c i r)
    with p assms show ?thesis by (auto simp: no_result_Inr dest: change_role_raises)
  next
    case (RemoveMember now c i)
    with p have "remove_member now c i d = (Inr u, handle q d)" by simp
    then have "\<exists>f. memberships (handle q d) = update_rows me_id i (\<lambda>q. q\<lparr>me_active := False\<rparr>) (memberships d)"
      by (rule remove_member_Inr) auto
    with assms(3,4,6) show ?thesis by (auto simp: set_update_rows held_def split: if_splits)
  next
    case (CreateInvitation i raw c n w e r t x)
    with p obtain v s where "create_invitation i raw c n w e r t x d = (Inr (v, s), handle q d)"
      by (auto simp: no_result_Inr)
    from create_invitation_Inr(1) [OF this] assms(3,4,6) show ?thesis by (auto simp: held_def)
  next
    case (RevokeInvitation now c i)
    with p have "revoke_invitation now c i d = (Inr u, handle q d)" by simp
    then have "memberships (handle q d) = memberships d" by (rule revoke_invitation_Inr) auto
    with assms(3,4,6) show ?thesis by (auto simp: held_def)
  next
    case (AcceptInvitation i now u raw)
    with p obtain y where "accept_invitation i now u raw d = (Inr y, handle q d)" by (auto simp: no_result_Inr)
    from accept_raises [OF this assms(1,3,4,5,6)] AcceptInvitation show ?thesis by simp
  qed
qed


lemma elevation_needs_owner_witness:
  "sc_role demo_owner = OWNER \<and> sc_org demo_owner = me_org (demo_member ''m2'' 2 ADMIN)"
proof -
  let ?q = "ChangeRole 5 demo_owner ''m2'' ADMIN"
  have "change_role 5 demo_owner ''m2'' ADMIN demo_web = (Inr ((demo_member ''m2'' 2 OPERATOR)\<lparr>me_role := ADMIN\<rparr>),
      revoke_org_sessions 5 2 ''o1'' (set_member ''m2'' (\<lambda>q. q\<lparr>me_role := ADMIN\<rparr>) demo_web))"
    by (simp add: change_role_def require_permission_def) (simp add: demo_member_def)
  then have h: "handle ?q demo_web
      = revoke_org_sessions 5 2 ''o1'' (set_member ''m2'' (\<lambda>q. q\<lparr>me_role := ADMIN\<rparr>) demo_web)"
    by (simp add: handle_def request_def no_result_def seq_def)
  have "case ?q of
      ChangeRole now c i r \<Rightarrow> sc_role c = OWNER \<and> sc_org c = me_org (demo_member ''m2'' 2 ADMIN)
    | AcceptInvitation i now u raw \<Rightarrow>
        (\<exists>v w. v \<in> set (invitations demo_web) \<and> iv_token v = token_hash raw \<and> iv_state v = I_PENDING
          \<and> invited_user u v \<and> iv_role v = me_role (demo_member ''m2'' 2 ADMIN)
          \<and> me_user (demo_member ''m2'' 2 ADMIN) = us_id u
          \<and> active_membership demo_web (iv_inviter v) (me_org (demo_member ''m2'' 2 ADMIN)) = Some w
          \<and> me_role w = OWNER)
    | _ \<Rightarrow> False"
    by (rule elevation_needs_owner)
      (simp_all add: h, simp_all add: demo_web_def demo_member_def update_rows_def held_def)
  then show ?thesis by simp
qed

end
