(* ===== verification/WebLogin.thy ===== *)
theory WebLogin
  imports WebMembership
begin

text \<open>
  \<open>AuthService\<close> of \<open>wbcz_web/services/auth.py\<close> with the session repository
  (\<open>repositories/sessions.py\<close>) and the password policy (\<open>auth/passwords.py\<close>): login with its two
  throttles, sessions, and changes of password. Password hashing and Unicode normalisation are
  arguments; the clock is read once per call; the messages, Russian in the code, are in English.
\<close>

section \<open>Configuration and passwords\<close>

record login_config =
  lc_window :: int
  lc_source_failures :: nat
  lc_free :: nat
  lc_initial_delay :: nat
  lc_delay_cap :: nat
  lc_lock :: nat
  lc_max_sessions :: nat
  lc_ttl :: int
  lc_idle :: int
  lc_history :: nat

record password_ops =
  pw_verify :: "pystr \<Rightarrow> pystr \<Rightarrow> bool"
  pw_hash :: "pystr \<Rightarrow> pystr"
  pw_stale :: "pystr \<Rightarrow> bool"
  pw_nfc :: "pystr \<Rightarrow> pystr"

definition password_blocklist :: "pystr list" where
  "password_blocklist = [''passwordpassword'', ''password123456'', ''qwertyqwerty123'',
     ''123456789012345'', ''adminadminadmin1'', ''letmeinletmein123'']"

definition validate_password :: "password_ops \<Rightarrow> pystr \<Rightarrow> web_error + unit" where
  "validate_password ops p = (let n = pw_nfc ops p in
     if length n < 15 then Inl (WebValue ''password is too short'')
     else if 256 < length n then Inl (WebValue ''password is too long'')
     else if casefold (strip n) \<in> set password_blocklist then Inl (WebValue ''password is forbidden'')
     else Inr ())"

definition hash_password :: "password_ops \<Rightarrow> pystr \<Rightarrow> web_error + pystr" where
  "hash_password ops p = bind (validate_password ops (pw_nfc ops p)) (\<lambda>_. Inr (pw_hash ops (pw_nfc ops p)))"

definition verify_password :: "password_ops \<Rightarrow> pystr \<Rightarrow> pystr \<Rightarrow> bool" where
  "verify_password ops stored p \<longleftrightarrow> length p \<le> 4096 \<and> pw_verify ops stored p"

definition rehash :: "password_ops \<Rightarrow> pystr \<Rightarrow> user \<Rightarrow> user" where
  "rehash ops p u =
     (if pw_stale ops (us_password u) \<and> length p \<le> 4096 then u\<lparr>us_password := pw_hash ops p\<rparr> else u)"

section \<open>Users and sessions\<close>

definition sql_lower :: "pystr \<Rightarrow> pystr" where
  "sql_lower s = map (\<lambda>c. if upper_char c \<or> (192 \<le> code c \<and> code c \<le> 222 \<and> code c \<noteq> 215)
     then char_of (code c + 32) else c) s"

definition user_by_name :: "web_db \<Rightarrow> pystr \<Rightarrow> user option" where
  "user_by_name d n = find (\<lambda>u. sql_lower (us_name u) = casefold (strip n)) (users d)"

definition set_user :: "nat \<Rightarrow> (user \<Rightarrow> user) \<Rightarrow> web_db \<Rightarrow> web_db" where
  "set_user i f d = d\<lparr>users := update_rows us_id i f (users d)\<rparr>"

definition revoke_session :: "int \<Rightarrow> pystr \<Rightarrow> web_db \<Rightarrow> web_db" where
  "revoke_session now i = set_session i (\<lambda>s. s\<lparr>se_revoked := Some now\<rparr>)"

definition live :: "int \<Rightarrow> web_session \<Rightarrow> bool" where
  "live now s \<longleftrightarrow> se_revoked s = None \<and> now < se_expires s"

definition session_by_hash :: "web_db \<Rightarrow> int \<Rightarrow> pystr \<Rightarrow> web_session option" where
  "session_by_hash d now h = find (\<lambda>s. se_token s = h \<and> live now s) (sessions d)"

definition live_sessions :: "web_db \<Rightarrow> int \<Rightarrow> nat \<Rightarrow> web_session list" where
  "live_sessions d now u =
     sort_key (\<lambda>s. (se_created s, se_id s)) (filter (\<lambda>s. se_user s = u \<and> live now s) (sessions d))"

definition revoke_all :: "int \<Rightarrow> nat \<Rightarrow> pystr option \<Rightarrow> web_db \<Rightarrow> web_db" where
  "revoke_all now u kept d = d\<lparr>sessions := map (\<lambda>s.
     if se_user s = u \<and> se_revoked s = None \<and> \<not> (truthy kept \<and> Some (se_id s) = kept)
     then s\<lparr>se_revoked := Some now\<rparr> else s) (sessions d)\<rparr>"

section \<open>Throttles\<close>

definition digest :: "pystr option \<Rightarrow> pystr" where
  "digest v = sha256_hex (utf8 (or_else v []))"

definition source_throttled :: "login_config \<Rightarrow> int \<Rightarrow> pystr option \<Rightarrow> web_db \<Rightarrow> bool" where
  "source_throttled c now remote d \<longleftrightarrow> truthy remote \<and>
     lc_source_failures c \<le> length (filter (\<lambda>a. now - lc_window c * 1000000 \<le> at_time a \<and> \<not> at_success a
       \<and> at_remote_hash a = digest remote) (attempts d))"

definition note_attempt :: "int \<Rightarrow> pystr \<Rightarrow> pystr option \<Rightarrow> bool \<Rightarrow> web_db \<Rightarrow> web_db" where
  "note_attempt now name remote success d = d\<lparr>attempts := attempts d @
     [\<lparr>at_user_hash = digest (Some (casefold name)), at_remote_hash = digest remote,
       at_success = success, at_time = now\<rparr>]\<rparr>"

definition fresh_throttle :: "nat \<Rightarrow> throttle" where
  "fresh_throttle u = \<lparr>th_user = u, th_failures = 0, th_blocked = None, th_locked = False,
     th_last_failure = None, th_last_success = None\<rparr>"

definition throttle_of :: "web_db \<Rightarrow> nat \<Rightarrow> throttle" where
  "throttle_of d u = (case lookup_row th_user u (throttles d) of Some t \<Rightarrow> t | None \<Rightarrow> fresh_throttle u)"

text \<open>\<open>_account_state\<close> creates the missing row.\<close>

definition account_state :: "nat \<Rightarrow> throttle web_op" where
  "account_state u d = (case lookup_row th_user u (throttles d) of
     Some t \<Rightarrow> (Inr t, d)
   | None \<Rightarrow> (Inr (fresh_throttle u), d\<lparr>throttles := throttles d @ [fresh_throttle u]\<rparr>))"

definition set_throttle :: "nat \<Rightarrow> (throttle \<Rightarrow> throttle) \<Rightarrow> web_db \<Rightarrow> web_db" where
  "set_throttle u f d = d\<lparr>throttles := update_rows th_user u f (throttles d)\<rparr>"

definition delay_seconds :: "login_config \<Rightarrow> nat \<Rightarrow> nat" where
  "delay_seconds c failures =
     (if failures \<le> lc_free c then 0
      else min (lc_initial_delay c * 2 ^ min (failures - lc_free c - 1) 16) (lc_delay_cap c))"

definition account_blocked :: "int \<Rightarrow> throttle \<Rightarrow> bool" where
  "account_blocked now t \<longleftrightarrow> th_locked t \<or> (case th_blocked t of None \<Rightarrow> False | Some b \<Rightarrow> now < b)"

definition failed_throttle :: "login_config \<Rightarrow> int \<Rightarrow> throttle \<Rightarrow> throttle" where
  "failed_throttle c now t =
     (let n = th_failures t + 1; t' = t\<lparr>th_failures := n, th_last_failure := Some now\<rparr> in
      if lc_lock c \<le> n then t'\<lparr>th_locked := True, th_blocked := None\<rparr>
      else let s = delay_seconds c n in
        t'\<lparr>th_blocked := (if s \<noteq> 0 then Some (now + int s * 1000000) else None)\<rparr>)"

definition reset_throttle :: "int \<Rightarrow> throttle \<Rightarrow> throttle" where
  "reset_throttle now t = t\<lparr>th_failures := 0, th_blocked := None, th_locked := False, th_last_success := Some now\<rparr>"

section \<open>Login\<close>

record login_form =
  lf_name :: pystr
  lf_password :: pystr
  lf_csrf :: "pystr option"
  lf_remote :: "pystr option"

definition login_failed :: web_error where
  "login_failed = LoginFailed ''wrong login or password''"

definition account_open :: "user \<Rightarrow> bool" where
  "account_open u \<longleftrightarrow> us_active u \<and> us_state u = ACCOUNT_ACTIVE"

definition log_login :: "pystr \<Rightarrow> user option \<Rightarrow> pystr \<Rightarrow> web_db \<Rightarrow> web_db" where
  "log_login action u other d = (case u of
     Some w \<Rightarrow> web_log action (Some (us_id w)) ''user'' (show_nat (us_id w)) d
   | None \<Rightarrow> web_log action None ''auth'' other d)"

definition new_session :: "login_config \<Rightarrow> int \<Rightarrow> pystr \<Rightarrow> pystr \<Rightarrow> login_form \<Rightarrow> user \<Rightarrow> web_session" where
  "new_session c now i token f u =
     \<lparr>se_id = i, se_user = us_id u, se_token = token_hash token,
      se_csrf = (if truthy (lf_csrf f) then map_option token_hash (lf_csrf f) else None),
      se_org = None, se_participant = None, se_password_version = us_password_version u,
      se_created = now, se_seen = now, se_expires = now + lc_ttl c * 1000000, se_revoked = None\<rparr>"

text \<open>The oldest sessions beyond the limit go before the new one comes.\<close>

definition evicted :: "login_config \<Rightarrow> int \<Rightarrow> nat \<Rightarrow> web_db \<Rightarrow> web_session list" where
  "evicted c now u d = (let ss = live_sessions d now u in take (length ss + 1 - lc_max_sessions c) ss)"

definition evict :: "int \<Rightarrow> nat \<Rightarrow> web_session list \<Rightarrow> web_db \<Rightarrow> web_db" where
  "evict now u ss d = fold (\<lambda>s d. web_log ''SESSION_REVOKED'' (Some u) ''session'' (se_id s)
     (revoke_session now (se_id s) d)) ss d"

definition open_session :: "login_config \<Rightarrow> password_ops \<Rightarrow> int \<Rightarrow> pystr \<Rightarrow> pystr \<Rightarrow> login_form \<Rightarrow> user
    \<Rightarrow> (user \<times> pystr) web_op" where
  "open_session c ops now i token f u =
     (let u' = rehash ops (lf_password f) u in
      seq (modify (\<lambda>d. set_user (us_id u) (rehash ops (lf_password f))
             (note_attempt now (strip (lf_name f)) (lf_remote f) True
               (set_throttle (us_id u) (reset_throttle now) d)))) (\<lambda>_.
      seq (modify (\<lambda>d. evict now (us_id u) (evicted c now (us_id u) d) d)) (\<lambda>_.
      seq (asks (\<lambda>d. i \<notin> se_id ` set (sessions d) \<and> token_hash token \<notin> se_token ` set (sessions d))) (\<lambda>fresh.
      seq (demand fresh (Constraint ''sessions'')) (\<lambda>_.
      seq (modify (\<lambda>d. web_log ''LOGIN_SUCCESS'' (Some (us_id u)) ''session'' i
             (d\<lparr>sessions := sessions d @ [new_session c now i token f u']\<rparr>))) (\<lambda>_.
        ret (u', token)))))))"

definition login :: "login_config \<Rightarrow> password_ops \<Rightarrow> int \<Rightarrow> pystr \<Rightarrow> pystr \<Rightarrow> login_form
    \<Rightarrow> (user \<times> pystr) web_op" where
  "login c ops now i token f =
     (let name = strip (lf_name f); remote = lf_remote f in
      seq (asks (\<lambda>d. user_by_name d name)) (\<lambda>found.
      seq (asks (source_throttled c now remote)) (\<lambda>throttled.
        if throttled
        then seq (modify (log_login ''LOGIN_THROTTLED'' found (digest remote))) (\<lambda>_. raise login_failed)
        else (case found of
          None \<Rightarrow>
            seq (modify (\<lambda>d. log_login ''LOGIN_FAILED'' None (digest (Some (casefold name)))
                   (note_attempt now name remote False d))) (\<lambda>_. raise login_failed)
        | Some u \<Rightarrow>
            seq (account_state (us_id u)) (\<lambda>t.
              if account_blocked now t
              then seq (modify (\<lambda>d. log_login ''LOGIN_THROTTLED'' found []
                     (note_attempt now name remote False d))) (\<lambda>_. raise login_failed)
              else let valid = verify_password ops (us_password u) (lf_password f) in
                if \<not> valid \<or> \<not> account_open u
                then seq (modify (\<lambda>d. log_login ''LOGIN_FAILED'' found []
                       (let d1 = note_attempt now name remote False d in
                        if valid then d1 else set_throttle (us_id u) (failed_throttle c now) d1))) (\<lambda>_.
                       raise login_failed)
                else open_session c ops now i token f u)))))"

section \<open>Tokens\<close>

definition invalid_session :: web_error where
  "invalid_session = LoginFailed ''session is invalid''"

definition authenticate_token :: "login_config \<Rightarrow> int \<Rightarrow> pystr option \<Rightarrow> (user \<times> web_session) web_op" where
  "authenticate_token c now token =
     (if \<not> truthy token then raise (LoginFailed ''authorisation required'')
      else
        seq (asks (\<lambda>d. session_by_hash d now (token_hash (the token)))) (\<lambda>row.
        seq (demand_or row invalid_session) (\<lambda>s.
          if se_seen s \<le> now - lc_idle c * 1000000
          then seq (modify (revoke_session now (se_id s))) (\<lambda>_. raise invalid_session)
          else
            seq (asks (\<lambda>d. find_user d (se_user s))) (\<lambda>found. case found of
              None \<Rightarrow> seq (modify (revoke_session now (se_id s))) (\<lambda>_. raise invalid_session)
            | Some u \<Rightarrow>
                if \<not> account_open u \<or> se_password_version s \<noteq> us_password_version u
                then seq (modify (revoke_session now (se_id s))) (\<lambda>_. raise invalid_session)
                else seq (modify (set_session (se_id s) (\<lambda>q. q\<lparr>se_seen := now\<rparr>))) (\<lambda>_.
                       ret (u, s\<lparr>se_seen := now\<rparr>))))))"

definition revoke_presented :: "int \<Rightarrow> pystr option \<Rightarrow> unit web_op" where
  "revoke_presented now token =
     (if \<not> truthy token then ret ()
      else seq (asks (\<lambda>d. session_by_hash d now (token_hash (the token)))) (\<lambda>row. case row of
        None \<Rightarrow> ret ()
      | Some s \<Rightarrow> modify (\<lambda>d. web_log ''SESSION_REVOKED'' (Some (se_user s)) ''session'' (se_id s)
            (revoke_session now (se_id s) d))))"

definition csrf_matches :: "web_session \<Rightarrow> pystr \<Rightarrow> bool" where
  "csrf_matches s token \<longleftrightarrow> truthy (se_csrf s) \<and> se_csrf s = Some (token_hash token)"

definition logout :: "int \<Rightarrow> pystr \<Rightarrow> nat \<Rightarrow> unit web_op" where
  "logout now i u =
     seq (asks (\<lambda>d. lookup_row se_id i (sessions d))) (\<lambda>row.
       modify (\<lambda>d. web_log ''LOGOUT'' (Some u) ''session'' i
         (case row of None \<Rightarrow> d
          | Some s \<Rightarrow> if se_user s = u \<and> se_revoked s = None then revoke_session now i d else d)))"

definition logout_all :: "int \<Rightarrow> nat \<Rightarrow> pystr option \<Rightarrow> nat web_op" where
  "logout_all now u kept =
     seq (asks (\<lambda>d. length (filter (\<lambda>s. se_user s = u \<and> se_revoked s = None
            \<and> \<not> (truthy kept \<and> Some (se_id s) = kept)) (sessions d)))) (\<lambda>n.
     seq (modify (\<lambda>d. web_log ''LOGOUT_ALL'' (Some u) ''user'' (show_nat u) (revoke_all now u kept d))) (\<lambda>_.
       ret n))"

section \<open>Passwords\<close>

definition reset_password_lock :: "nat \<Rightarrow> nat option \<Rightarrow> unit web_op" where
  "reset_password_lock u actor =
     seq (asks (\<lambda>d. find_user d u \<noteq> None)) (\<lambda>known.
     seq (demand known (NotFound ''user not found'')) (\<lambda>_.
     seq (account_state u) (\<lambda>_.
       modify (\<lambda>d. web_log ''PASSWORD_AUTHENTICATOR_UNLOCKED'' actor ''user'' (show_nat u)
         (set_throttle u (\<lambda>t. t\<lparr>th_failures := 0, th_blocked := None, th_locked := False\<rparr>) d)))))"

definition recent_hashes :: "login_config \<Rightarrow> web_db \<Rightarrow> nat \<Rightarrow> pystr list" where
  "recent_hashes c d u =
     take (lc_history c) (rev (map op_hash (filter (\<lambda>h. op_user h = u) (passwords d))))"

definition matches_password :: "password_ops \<Rightarrow> pystr \<Rightarrow> pystr \<Rightarrow> bool" where
  "matches_password ops p stored \<longleftrightarrow> verify_password ops stored p \<or> verify_password ops stored (pw_nfc ops p)"

definition store_password :: "int \<Rightarrow> user \<Rightarrow> pystr \<Rightarrow> web_db \<Rightarrow> web_db" where
  "store_password now u h d =
     set_user (us_id u) (\<lambda>w. w\<lparr>us_password := h, us_password_changed := now,
         us_password_version := us_password_version w + 1, us_must_change := False\<rparr>)
       (d\<lparr>passwords := passwords d @ [\<lparr>op_user = us_id u, op_hash = us_password u\<rparr>]\<rparr>)"

definition change_password :: "login_config \<Rightarrow> password_ops \<Rightarrow> int \<Rightarrow> user \<Rightarrow> pystr \<Rightarrow> pystr \<Rightarrow> unit web_op" where
  "change_password c ops now u old new =
     seq (demand (verify_password ops (us_password u) old) (LoginFailed ''wrong current password'')) (\<lambda>_.
     seq (demand (\<not> matches_password ops new (us_password u)) (WebValue ''new password must differ'')) (\<lambda>_.
     seq (asks (\<lambda>d. list_ex (matches_password ops new) (recent_hashes c d (us_id u)))) (\<lambda>reused.
     seq (demand (\<not> reused) (WebValue ''password was used recently'')) (\<lambda>_.
     seq (lift (hash_password ops (pw_nfc ops new))) (\<lambda>h.
     seq (modify (store_password now u h)) (\<lambda>_.
     seq (account_state (us_id u)) (\<lambda>_.
       modify (\<lambda>d. web_log ''SESSION_REVOKED'' (Some (us_id u)) ''user'' (show_nat (us_id u))
         (web_log ''PASSWORD_CHANGED'' (Some (us_id u)) ''user'' (show_nat (us_id u))
           (revoke_all now (us_id u) None (set_throttle (us_id u) (reset_throttle now) d)))))))))))"


section \<open>Runs of login requests\<close>

text \<open>
  The login route commits what a refused login recorded, and rolls back on any other error. After a
  login it revokes the session the request presented.
\<close>

record login_try =
  lt_now :: int
  lt_id :: pystr
  lt_token :: pystr
  lt_form :: login_form
  lt_presented :: "pystr option"

definition login_route :: "login_config \<Rightarrow> password_ops \<Rightarrow> login_try \<Rightarrow> web_db \<Rightarrow> web_db" where
  "login_route c ops a d =
     (case seq (login c ops (lt_now a) (lt_id a) (lt_token a) (lt_form a))
             (\<lambda>r. seq (revoke_presented (lt_now a) (lt_presented a)) (\<lambda>_. ret r)) d of
        (Inr _, t) \<Rightarrow> t
      | (Inl (LoginFailed _), t) \<Rightarrow> t
      | (Inl _, t) \<Rightarrow> d)"

definition login_run :: "login_config \<Rightarrow> password_ops \<Rightarrow> login_try list \<Rightarrow> web_db \<Rightarrow> web_db" where
  "login_run c ops as d = fold (login_route c ops) as d"

text \<open>An attempt that reaches the comparison with the password of a user.\<close>

definition tests_password :: "login_config \<Rightarrow> nat \<Rightarrow> login_try \<Rightarrow> web_db \<Rightarrow> user option" where
  "tests_password c u a d = (case user_by_name d (strip (lf_name (lt_form a))) of
     None \<Rightarrow> None
   | Some w \<Rightarrow> if us_id w = u \<and> \<not> source_throttled c (lt_now a) (lf_remote (lt_form a)) d
         \<and> \<not> account_blocked (lt_now a) (throttle_of d u) then Some w else None)"

definition guess :: "login_config \<Rightarrow> password_ops \<Rightarrow> nat \<Rightarrow> login_try \<Rightarrow> web_db \<Rightarrow> bool option" where
  "guess c ops u a d = map_option (\<lambda>w. verify_password ops (us_password w) (lf_password (lt_form a)))
     (tests_password c u a d)"

fun wrong_guesses :: "login_config \<Rightarrow> password_ops \<Rightarrow> nat \<Rightarrow> login_try list \<Rightarrow> web_db \<Rightarrow> nat" where
  "wrong_guesses c ops u [] d = 0"
| "wrong_guesses c ops u (a # as) d =
     (if guess c ops u a d = Some False then 1 else 0) + wrong_guesses c ops u as (login_route c ops a d)"

fun never_right :: "login_config \<Rightarrow> password_ops \<Rightarrow> nat \<Rightarrow> login_try list \<Rightarrow> web_db \<Rightarrow> bool" where
  "never_right c ops u [] d = True"
| "never_right c ops u (a # as) d =
     (guess c ops u a d \<noteq> Some True \<and> never_right c ops u as (login_route c ops a d))"

section \<open>What a login does to a throttle\<close>

lemma throttles_frame [simp]:
  "throttles (web_log x y z w d) = throttles d" "throttles (log_login x v z d) = throttles d"
  "throttles (note_attempt n name r ok' d) = throttles d" "throttles (set_user i f d) = throttles d"
  "throttles (revoke_session n j d) = throttles d" "throttles (set_session j g d) = throttles d"
  "throttles (set_throttle u h d) = update_rows th_user u h (throttles d)"
  by (simp_all add: web_log_def log_login_def note_attempt_def set_user_def revoke_session_def
      set_session_def set_throttle_def split: option.splits)

lemma throttles_evict [simp]: "throttles (evict n u ss d) = throttles d"
  unfolding evict_def by (induction ss arbitrary: d) simp_all

lemma throttle_of_cong: "throttles d' = throttles d \<Longrightarrow> throttle_of d' u = throttle_of d u"
  by (simp add: throttle_of_def)

lemma account_state_run:
  "account_state u d = (Inr (throttle_of d u),
     if u \<in> th_user ` set (throttles d) then d else d\<lparr>throttles := throttles d @ [fresh_throttle u]\<rparr>)"
  by (auto simp: account_state_def throttle_of_def lookup_row_None split: option.splits)
    (metis lookup_row_None option.distinct(1))+

lemma fresh_throttle_user [simp]: "th_user (fresh_throttle u) = u"
  by (simp add: fresh_throttle_def)

lemma throttle_of_append [simp]:
  "u \<notin> th_user ` set (throttles d) \<Longrightarrow>
     throttle_of (d\<lparr>throttles := throttles d @ [fresh_throttle u]\<rparr>) v = throttle_of d v"
  by (auto simp: throttle_of_def lookup_row_append lookup_row_None [symmetric] split: option.splits)

definition with_row :: "nat \<Rightarrow> web_db \<Rightarrow> web_db" where
  "with_row u d = (if u \<in> th_user ` set (throttles d) then d else d\<lparr>throttles := throttles d @ [fresh_throttle u]\<rparr>)"

lemma account_state_run' [simp]:
  "seq (account_state u) g d = g (throttle_of d u) (with_row u d)"
  by (simp add: seq_def account_state_run with_row_def)

lemma throttle_of_with_row [simp]: "throttle_of (with_row u d) v = throttle_of d v"
  by (simp add: with_row_def)

lemma with_row_in: "u \<in> th_user ` set (throttles (with_row u d))"
  by (auto simp: with_row_def)

lemma throttle_of_set:
  assumes "u \<in> th_user ` set (throttles d)" and "\<And>t. th_user (f t) = th_user t"
  shows "throttle_of (d'\<lparr>throttles := update_rows th_user u f (throttles d)\<rparr>) v
    = (if v = u then f (throttle_of d v) else throttle_of d v)"
proof -
  have "lookup_row th_user u (throttles d) \<noteq> None" using assms(1) by (simp add: lookup_row_None)
  with assms(2) show ?thesis
    by (auto simp: throttle_of_def lookup_update_rows split: option.splits)
qed

lemma throttle_of_updated:
  assumes "throttles d' = update_rows th_user u f (throttles (with_row u d))"
    and "\<And>t. th_user (f t) = th_user t"
  shows "throttle_of d' v = (if v = u then f (throttle_of d v) else throttle_of d v)"
proof -
  have "throttle_of d' v = throttle_of (d'\<lparr>throttles := update_rows th_user u f (throttles (with_row u d))\<rparr>) v"
    by (rule throttle_of_cong) (simp add: assms(1))
  also have "\<dots> = (if v = u then f (throttle_of (with_row u d) v) else throttle_of (with_row u d) v)"
    by (rule throttle_of_set [OF with_row_in assms(2)])
  finally show ?thesis by simp
qed

lemma failed_throttle_user [simp]: "th_user (failed_throttle c now t) = th_user t"
  by (simp add: failed_throttle_def Let_def)

lemma reset_throttle_user [simp]: "th_user (reset_throttle now t) = th_user t"
  by (simp add: reset_throttle_def)

text \<open>A login is refused, or rolled back, or opens a session.\<close>

lemma open_session_run:
  "open_session c ops now i token f u d =
     (let d1 = set_user (us_id u) (rehash ops (lf_password f)) (note_attempt now (strip (lf_name f)) (lf_remote f) True
                 (set_throttle (us_id u) (reset_throttle now) d));
          d2 = evict now (us_id u) (evicted c now (us_id u) d1) d1
      in if i \<notin> se_id ` set (sessions d2) \<and> token_hash token \<notin> se_token ` set (sessions d2)
         then (Inr (rehash ops (lf_password f) u, token),
           web_log ''LOGIN_SUCCESS'' (Some (us_id u)) ''session'' i
             (d2\<lparr>sessions := sessions d2 @ [new_session c now i token f (rehash ops (lf_password f) u)]\<rparr>))
         else (Inl (Constraint ''sessions''), d2))"
  by (simp add: open_session_def Let_def)

lemma login_cases:
  assumes "login c ops now i token f d = (r, d')"
  obtains (source) "r = Inl login_failed" "throttles d' = throttles d" "sessions d' = sessions d" "users d' = users d"
      "source_throttled c now (lf_remote f) d"
  | (unknown) "r = Inl login_failed" "throttles d' = throttles d" "sessions d' = sessions d" "users d' = users d"
      "user_by_name d (strip (lf_name f)) = None"
  | (blocked) u where "r = Inl login_failed" "throttles d' = throttles (with_row (us_id u) d)"
      "sessions d' = sessions d" "users d' = users d"
      "user_by_name d (strip (lf_name f)) = Some u" "account_blocked now (throttle_of d (us_id u))"
  | (wrong) u where "r = Inl login_failed"
      "throttles d' = update_rows th_user (us_id u) (failed_throttle c now) (throttles (with_row (us_id u) d))"
      "sessions d' = sessions d" "users d' = users d" "\<not> source_throttled c now (lf_remote f) d"
      "user_by_name d (strip (lf_name f)) = Some u" "\<not> account_blocked now (throttle_of d (us_id u))"
      "\<not> verify_password ops (us_password u) (lf_password f)"
  | (closed) u where "r = Inl login_failed" "throttles d' = throttles (with_row (us_id u) d)"
      "sessions d' = sessions d" "users d' = users d"
      "user_by_name d (strip (lf_name f)) = Some u" "verify_password ops (us_password u) (lf_password f)"
      "\<not> account_open u"
  | (opened) u where "\<not> source_throttled c now (lf_remote f) d"
      "user_by_name d (strip (lf_name f)) = Some u" "\<not> account_blocked now (throttle_of d (us_id u))"
      "verify_password ops (us_password u) (lf_password f)" "account_open u"
      "open_session c ops now i token f u (with_row (us_id u) d) = (r, d')"
proof -
  have frame: "sessions (with_row v e) = sessions e" "users (with_row v e) = users e"
    "sessions (log_login x w y e) = sessions e" "users (log_login x w y e) = users e"
    "sessions (note_attempt n m q b e) = sessions e" "users (note_attempt n m q b e) = users e"
    "sessions (set_throttle v g e) = sessions e" "users (set_throttle v g e) = users e"
    for v e x w y n m q b g
    by (simp_all add: with_row_def log_login_def web_log_def note_attempt_def set_throttle_def split: option.splits)
  show thesis
  proof (cases "source_throttled c now (lf_remote f) d")
    case True
    with assms source show thesis by (auto simp: login_def Let_def frame)
  next
    case not_source: False
    show thesis
    proof (cases "user_by_name d (strip (lf_name f))")
      case None
      with not_source assms unknown show thesis by (auto simp: login_def Let_def frame)
    next
      case (Some u)
      show thesis
      proof (cases "account_blocked now (throttle_of d (us_id u))")
        case True
        with not_source assms blocked [OF _ _ _ _ Some] Some show thesis by (auto simp: login_def Let_def frame)
      next
        case not_blocked: False
        show thesis
        proof (cases "verify_password ops (us_password u) (lf_password f)")
          case False
          with not_source not_blocked assms wrong [OF _ _ _ _ _ Some] Some show thesis
            by (auto simp: login_def Let_def frame)
        next
          case valid: True
          with not_source not_blocked assms closed [OF _ _ _ _ Some] opened [OF _ Some] Some show thesis
            by (cases "account_open u") (auto simp: login_def Let_def frame)
        qed
      qed
    qed
  qed
qed


lemma login_never_raises_otherwise:
  assumes "login c ops now i token f d = (Inl e, d')"
  shows "e = login_failed \<or> e = Constraint ''sessions''"
  using assms by (rule login_cases) (auto simp: open_session_run Let_def split: if_splits)

lemma revoke_presented_run:
  obtains d' where "revoke_presented now t d = (Inr (), d')" "throttles d' = throttles d"
  by (cases "truthy t"; cases "session_by_hash d now (token_hash (the t))")
    (auto simp: revoke_presented_def)

lemma login_route_throttles:
  assumes l: "login c ops (lt_now a) (lt_id a) (lt_token a) (lt_form a) d = (r, d')"
  shows "throttles (login_route c ops a d) = throttles d \<or> throttles (login_route c ops a d) = throttles d'"
proof (cases r)
  case (Inl e)
  with l login_never_raises_otherwise [of c ops "lt_now a" "lt_id a" "lt_token a" "lt_form a" d e d']
  have "e = login_failed \<or> e = Constraint ''sessions''" by simp
  with Inl l show ?thesis by (auto simp: login_route_def seq_def login_failed_def)
next
  case (Inr x)
  obtain d2 where "revoke_presented (lt_now a) (lt_presented a) d' = (Inr (), d2)" "throttles d2 = throttles d'"
    by (rule revoke_presented_run)
  with Inr l show ?thesis by (simp add: login_route_def seq_def)
qed

lemma opened_throttle:
  assumes "open_session c ops now i token f w (with_row (us_id w) d) = (r, d')"
  shows "throttle_of d' u = (if u = us_id w then reset_throttle now (throttle_of d u) else throttle_of d u)"
proof -
  have "throttles d' = update_rows th_user (us_id w) (reset_throttle now) (throttles (with_row (us_id w) d))"
    using assms by (auto simp: open_session_run Let_def split: if_splits)
  then show ?thesis by (rule throttle_of_updated) simp
qed

text \<open>The throttle of a user after one request.\<close>

lemma login_route_throttle:
  "throttle_of (login_route c ops a d) u =
     (case guess c ops u a d of
        None \<Rightarrow> throttle_of d u
      | Some False \<Rightarrow> failed_throttle c (lt_now a) (throttle_of d u)
      | Some True \<Rightarrow> throttle_of (login_route c ops a d) u)"
proof -
  let ?f = "lt_form a"
  obtain r d' where l: "login c ops (lt_now a) (lt_id a) (lt_token a) ?f d = (r, d')" by force
  have route: "throttle_of (login_route c ops a d) v = throttle_of d' v" if "r = Inl login_failed" for v
    using that l by (auto simp: login_route_def seq_def login_failed_def)
  note opened_route = login_route_throttles [OF l]
  from l show ?thesis
  proof (cases rule: login_cases)
    case source
    then have "guess c ops u a d = None" by (auto simp: guess_def tests_password_def split: option.splits)
    with route [of u] source(1) throttle_of_cong [OF source(2), of u] show ?thesis by simp
  next
    case unknown
    then have "guess c ops u a d = None" by (simp add: guess_def tests_password_def)
    with route [of u] unknown(1) throttle_of_cong [OF unknown(2), of u] show ?thesis by simp
  next
    case (blocked w)
    then have "guess c ops u a d = None" by (auto simp: guess_def tests_password_def)
    moreover have "throttle_of d' u = throttle_of d u"
      using throttle_of_cong [OF blocked(2), of u] by simp
    ultimately show ?thesis using route [of u] blocked(1) by simp
  next
    case (wrong w)
    have "guess c ops u a d = (if us_id w = u then Some False else None)"
      using wrong by (auto simp: guess_def tests_password_def)
    with route [of u] wrong(1) throttle_of_updated [OF wrong(2), of u] show ?thesis by simp
  next
    case (closed w)
    have "guess c ops u a d \<noteq> Some False"
      using closed by (auto simp: guess_def tests_password_def split: if_splits)
    moreover have "throttle_of d' u = throttle_of d u"
      using throttle_of_cong [OF closed(2), of u] by simp
    ultimately show ?thesis using route [of u] closed(1) by (auto split: option.splits bool.splits)
  next
    case (opened w)
    have g: "guess c ops u a d = (if us_id w = u then Some True else None)"
      using opened by (auto simp: guess_def tests_password_def)
    from opened_throttle [OF opened(6), of u] have "us_id w \<noteq> u \<Longrightarrow> throttle_of (login_route c ops a d) u = throttle_of d u"
      using opened_route throttle_of_cong [of "login_route c ops a d" d' u]
        throttle_of_cong [of "login_route c ops a d" d u] by auto
    with g show ?thesis by auto
  qed
qed

lemma delay_seconds_mono: "n \<le> m \<Longrightarrow> delay_seconds c n \<le> delay_seconds c m"
proof -
  assume "n \<le> m"
  then have "lc_initial_delay c * 2 ^ min (n - lc_free c - 1) 16 \<le> lc_initial_delay c * 2 ^ min (m - lc_free c - 1) 16"
    by (intro mult_le_mono2 power_increasing) auto
  then have "min (lc_initial_delay c * 2 ^ min (n - lc_free c - 1) 16) (lc_delay_cap c)
      \<le> min (lc_initial_delay c * 2 ^ min (m - lc_free c - 1) 16) (lc_delay_cap c)"
    by (rule min.mono) simp
  with \<open>n \<le> m\<close> show ?thesis by (simp add: delay_seconds_def)
qed

section \<open>The number of sessions\<close>

lemma sessions_frame [simp]:
  "sessions (web_log x y z w d) = sessions d" "sessions (note_attempt n name r ok' d) = sessions d"
  "sessions (set_user i f d) = sessions d" "sessions (set_throttle u h d) = sessions d"
  "sessions (with_row u d) = sessions d"
  by (simp_all add: web_log_def note_attempt_def set_user_def set_throttle_def with_row_def)

lemma sessions_evict:
  "sessions (evict now u ss d) =
     map (\<lambda>s. if se_id s \<in> se_id ` set ss then s\<lparr>se_revoked := Some now\<rparr> else s) (sessions d)"
proof (induction ss arbitrary: d)
  case (Cons x ss)
  have "evict now u (x # ss) d
      = evict now u ss (web_log ''SESSION_REVOKED'' (Some u) ''session'' (se_id x) (revoke_session now (se_id x) d))"
    by (simp add: evict_def)
  then show ?case
    by (simp add: Cons.IH revoke_session_def set_session_def update_rows_def cong: if_cong)
qed (simp add: evict_def)

lemma length_filter_card: "distinct xs \<Longrightarrow> length (filter p xs) = card {x \<in> set xs. p x}"
  by (metis distinct_card distinct_filter set_filter)

lemma live_after_evict:
  assumes "distinct (map se_id (sessions d))" and "set ss \<subseteq> {s \<in> set (sessions d). se_user s = u \<and> live now s}"
    and "distinct ss"
  shows "length (live_sessions (evict now v ss d) now u) + length ss = length (live_sessions d now u)"
proof -
  let ?P = "\<lambda>s. se_user s = u \<and> live now s" and ?xs = "sessions d" and ?E = "se_id ` set ss"
  let ?g = "\<lambda>s. if se_id s \<in> ?E then s\<lparr>se_revoked := Some now\<rparr> else s"
  have dist: "distinct ?xs" using assms(1) by (simp add: distinct_map)
  have inj: "s = t" if "s \<in> set ?xs" "t \<in> set ?xs" "se_id s = se_id t" for s t
    using assms(1) that by (auto simp: distinct_map inj_on_def)
  have g: "?P (?g s) \<longleftrightarrow> ?P s \<and> se_id s \<notin> ?E" for s by (simp add: live_def)
  have "length (filter ?P (map ?g ?xs)) = length (filter (\<lambda>s. ?P (?g s)) ?xs)"
    by (simp only: filter_map comp_def length_map)
  also have "\<dots> = card {s \<in> set ?xs. ?P s \<and> se_id s \<notin> ?E}"
    unfolding g by (rule length_filter_card [OF dist])
  also have "{s \<in> set ?xs. ?P s \<and> se_id s \<notin> ?E} = {s \<in> set ?xs. ?P s} - set ss"
  proof (rule set_eqI)
    fix s
    have "s \<in> set ?xs \<Longrightarrow> se_id s \<in> ?E \<longleftrightarrow> s \<in> set ss" using assms(2) inj by blast
    then show "s \<in> {s \<in> set ?xs. ?P s \<and> se_id s \<notin> ?E} \<longleftrightarrow> s \<in> {s \<in> set ?xs. ?P s} - set ss" by auto
  qed
  also have "card \<dots> + length ss = card {s \<in> set ?xs. ?P s}"
  proof -
    have "length ss = card (set ss)" using assms(3) by (simp add: distinct_card)
    moreover have "card (set ss) \<le> card {s \<in> set ?xs. ?P s}" using assms(2) by (intro card_mono) auto
    ultimately show ?thesis using assms(2) by (simp add: card_Diff_subset)
  qed
  also have "card {s \<in> set ?xs. ?P s} = length (filter ?P ?xs)"
    by (rule length_filter_card [OF dist, symmetric])
  finally show ?thesis
    by (simp add: live_sessions_def sessions_evict)
qed

section \<open>Small runs\<close>

definition demo_config :: login_config where
  "demo_config = \<lparr>lc_window = 900, lc_source_failures = 10, lc_free = 0, lc_initial_delay = 30,
     lc_delay_cap = 900, lc_lock = 2, lc_max_sessions = 1, lc_ttl = 43200, lc_idle = 1800, lc_history = 5\<rparr>"

definition demo_passwords :: password_ops where
  "demo_passwords = \<lparr>pw_verify = (\<lambda>h p. h = p), pw_hash = (\<lambda>p. p), pw_stale = (\<lambda>h. False), pw_nfc = (\<lambda>p. p)\<rparr>"

definition demo_form :: "pystr \<Rightarrow> login_form" where
  "demo_form p = \<lparr>lf_name = ''worker'', lf_password = p, lf_csrf = None, lf_remote = None\<rparr>"

definition demo_try :: "int \<Rightarrow> pystr \<Rightarrow> login_try" where
  "demo_try t p = \<lparr>lt_now = t, lt_id = ''s9'', lt_token = ''new'', lt_form = demo_form p, lt_presented = None\<rparr>"

definition demo_worker :: user where
  "demo_worker = demo_user 2 ''worker''"

lemma demo_worker_found [simp]: "user_by_name demo_web (strip ''worker'') = Some demo_worker"
proof -
  have "sql_lower ''worker'' = ''worker''" "sql_lower ''owner'' = ''owner''" "strip ''worker'' = ''worker''"
    "casefold ''worker'' = ''worker''"
    by code_simp+
  then show ?thesis by (simp add: user_by_name_def demo_web_def demo_user_def demo_worker_def)
qed

lemma demo_worker_facts [simp]: "us_id demo_worker = 2" "us_password demo_worker = ''secret''"
  "us_password_version demo_worker = 1" "account_open demo_worker"
  by (simp_all add: demo_worker_def demo_user_def account_open_def)

lemma demo_form_facts [simp]: "lf_name (demo_form p) = ''worker''" "lf_password (demo_form p) = p"
  "lf_remote (demo_form p) = None" "lf_csrf (demo_form p) = None"
  by (simp_all add: demo_form_def)

lemma demo_throttle [simp]: "throttle_of demo_web u = fresh_throttle u"
  by (simp add: throttle_of_def demo_web_def)

definition demo_locked :: web_db where
  "demo_locked = demo_web\<lparr>throttles := [(fresh_throttle 2)\<lparr>th_locked := True\<rparr>]\<rparr>"

section \<open>Properties\<close>

text \<open>A right password leaves the throttle as it was or resets it.\<close>

lemma right_guess_throttle:
  assumes "guess c ops u a d = Some True"
  shows "throttle_of (login_route c ops a d) u \<in> {throttle_of d u, reset_throttle (lt_now a) (throttle_of d u)}"
proof -
  obtain r d' where l: "login c ops (lt_now a) (lt_id a) (lt_token a) (lt_form a) d = (r, d')" by force
  have "throttle_of d' u \<in> {throttle_of d u, reset_throttle (lt_now a) (throttle_of d u)}"
    using l
  proof (cases rule: login_cases)
    case (closed w)
    then show ?thesis using throttle_of_cong [OF closed(2), of u] by simp
  next
    case (opened w)
    then show ?thesis using opened_throttle [OF opened(6), of u] by simp
  qed (use assms in \<open>auto simp: guess_def tests_password_def split: option.splits if_splits\<close>)
  with login_route_throttles [OF l] throttle_of_cong [of "login_route c ops a d" d u]
    throttle_of_cong [of "login_route c ops a d" d' u] show ?thesis by auto
qed

text \<open>A throttle is below the lock or locked, and stays so.\<close>

definition throttle_ok :: "login_config \<Rightarrow> throttle \<Rightarrow> bool" where
  "throttle_ok c t \<longleftrightarrow> th_failures t \<le> lc_lock c \<and> (th_locked t \<or> th_failures t < lc_lock c)"

lemma wrong_guess_throttle:
  assumes "guess c ops u a d = Some False" and "throttle_ok c (throttle_of d u)"
  shows "th_failures (throttle_of (login_route c ops a d) u) = th_failures (throttle_of d u) + 1"
    and "throttle_ok c (throttle_of (login_route c ops a d) u)"
proof -
  have t: "throttle_of (login_route c ops a d) u = failed_throttle c (lt_now a) (throttle_of d u)"
    using login_route_throttle [of c ops a d u] assms(1) by simp
  have "\<not> th_locked (throttle_of d u)"
    using assms(1) by (auto simp: guess_def tests_password_def account_blocked_def split: option.splits if_splits)
  then have "th_failures (throttle_of d u) < lc_lock c" using assms(2) by (simp add: throttle_ok_def)
  then show "th_failures (throttle_of (login_route c ops a d) u) = th_failures (throttle_of d u) + 1"
    "throttle_ok c (throttle_of (login_route c ops a d) u)"
    by (auto simp: t failed_throttle_def Let_def throttle_ok_def)
qed

lemma login_route_ok:
  assumes "throttle_ok c (throttle_of d u)" and "0 < lc_lock c"
  shows "throttle_ok c (throttle_of (login_route c ops a d) u)"
proof (cases "guess c ops u a d")
  case None
  then show ?thesis using assms(1) login_route_throttle [of c ops a d u] by simp
next
  case (Some b)
  then show ?thesis
    using assms wrong_guess_throttle(2) [of c ops u a d] right_guess_throttle [of c ops u a d]
    by (cases b) (auto simp: throttle_ok_def reset_throttle_def)
qed

lemma login_run_ok:
  "throttle_ok c (throttle_of d u) \<Longrightarrow> 0 < lc_lock c \<Longrightarrow> throttle_ok c (throttle_of (login_run c ops as d) u)"
  unfolding login_run_def by (induction as arbitrary: d) (simp_all add: login_route_ok)

lemma guesses_bounded:
  "never_right c ops u as d \<Longrightarrow> throttle_ok c (throttle_of d u) \<Longrightarrow>
     wrong_guesses c ops u as d + th_failures (throttle_of d u) \<le> lc_lock c"
proof (induction as arbitrary: d)
  case (Cons a as)
  let ?d = "login_route c ops a d"
  show ?case
  proof (cases "guess c ops u a d = Some False")
    case True
    then show ?thesis using Cons.IH [of ?d] Cons.prems wrong_guess_throttle [OF True Cons.prems(2)] by simp
  next
    case False
    then have "throttle_of ?d u = throttle_of d u"
      using login_route_throttle [of c ops a d u] Cons.prems(1) by (auto split: option.splits bool.splits)
    with Cons.IH [of ?d] Cons.prems False show ?thesis by simp
  qed
qed (simp add: throttle_ok_def)

text \<open>C13: take any run of login requests, with whatever names, passwords, addresses and times, and any part
  of it in which the account's right password is not given. The number of wrong passwords compared with the
  account's in that part is at most the lock threshold less the failures counted before it: the throttle
  counts every comparison and refuses before comparing once it locks. (A right password resets the count;
  the bound is for the login requests alone.)\<close>

theorem password_guess_bound:
  assumes "never_right c ops u as (login_run c ops before d)"
    and "th_locked (throttle_of d u) \<or> th_failures (throttle_of d u) < lc_lock c"
    and "th_failures (throttle_of d u) \<le> lc_lock c" and "0 < lc_lock c"
  shows "wrong_guesses c ops u as (login_run c ops before d)
    + th_failures (throttle_of (login_run c ops before d) u) \<le> lc_lock c"
  using assms by (intro guesses_bounded login_run_ok) (auto simp: throttle_ok_def)

lemma password_guess_bound_witness:
  "wrong_guesses demo_config demo_passwords 2 [demo_try 5 ''bad''] demo_web = 1 \<and>
   wrong_guesses demo_config demo_passwords 2 [demo_try 5 ''bad''] demo_web
     + th_failures (throttle_of demo_web 2) \<le> lc_lock demo_config"
proof -
  have g: "guess demo_config demo_passwords 2 (demo_try 5 ''bad'') demo_web = Some False"
    by (simp add: guess_def tests_password_def demo_try_def source_throttled_def account_blocked_def
        fresh_throttle_def verify_password_def demo_passwords_def)
  have start: "login_run demo_config demo_passwords [] demo_web = demo_web" by (simp add: login_run_def)
  have "wrong_guesses demo_config demo_passwords 2 [demo_try 5 ''bad''] demo_web
      + th_failures (throttle_of demo_web 2) \<le> lc_lock demo_config"
    using g password_guess_bound [of demo_config demo_passwords 2 "[demo_try 5 ''bad'']" "[]" demo_web]
    by (simp add: start fresh_throttle_def demo_config_def)
  with g show ?thesis by simp
qed

text \<open>Once an account is locked, logging in to it fails whatever the password, and it stays locked
  through any run of login requests.\<close>

theorem locked_account_stays:
  assumes "th_locked (throttle_of d u)"
  shows "th_locked (throttle_of (login_run c ops as d) u)
    \<and> (\<forall>w now i token (f :: login_form). user_by_name d (strip (lf_name f)) = Some w \<longrightarrow> us_id w = u \<longrightarrow>
         fst (login c ops now i token f d) = Inl login_failed)"
proof
  show "th_locked (throttle_of (login_run c ops as d) u)"
    using assms unfolding login_run_def
  proof (induction as arbitrary: d)
    case (Cons a as)
    have "guess c ops u a d = None"
      using Cons.prems by (auto simp: guess_def tests_password_def account_blocked_def split: option.splits)
    then have "throttle_of (login_route c ops a d) u = throttle_of d u"
      using login_route_throttle [of c ops a d u] by simp
    with Cons show ?case by simp
  qed simp
  show "\<forall>w now i token (f :: login_form). user_by_name d (strip (lf_name f)) = Some w \<longrightarrow> us_id w = u \<longrightarrow>
         fst (login c ops now i token f d) = Inl login_failed"
  proof (intro allI impI)
    fix w now i token and f :: login_form
    assume w: "user_by_name d (strip (lf_name f)) = Some w" "us_id w = u"
    obtain r d' where l: "login c ops now i token f d = (r, d')" by force
    from l show "fst (login c ops now i token f d) = Inl login_failed"
      using w assms by (cases rule: login_cases) (auto simp: account_blocked_def l)
  qed
qed


lemma locked_account_stays_witness:
  "th_locked (throttle_of (login_run demo_config demo_passwords [demo_try 5 ''secret''] demo_locked) 2)"
proof -
  have "th_locked (throttle_of demo_locked 2)" by (simp add: throttle_of_def demo_locked_def)
  from locked_account_stays [OF this] show ?thesis by blast
qed

text \<open>C31: after a login the account has at most the configured number of live sessions: the oldest are
  revoked to make room for the new one.\<close>

theorem session_limit_holds:
  assumes "login c ops now i token f d = (Inr (w, t), d')" and "distinct (map se_id (sessions d))"
    and "1 \<le> lc_max_sessions c"
  shows "length (live_sessions d' now (us_id w)) \<le> lc_max_sessions c"
  using assms(1)
proof (cases rule: login_cases)
  case (opened u)
  define d1 where "d1 = set_user (us_id u) (rehash ops (lf_password f))
    (note_attempt now (strip (lf_name f)) (lf_remote f) True
      (set_throttle (us_id u) (reset_throttle now) (with_row (us_id u) d)))"
  define ss where "ss = evicted c now (us_id u) d1"
  have o: "w = rehash ops (lf_password f) u"
    "sessions d' = sessions (evict now (us_id u) ss d1) @ [new_session c now i token f w]"
    using opened(6) by (auto simp: open_session_run Let_def d1_def ss_def split: if_splits)
  have id: "us_id w = us_id u" by (simp add: o(1) rehash_def)
  have d1: "sessions d1 = sessions d" by (simp add: d1_def)
  let ?L = "live_sessions d1 now (us_id u)"
  have ss: "set ss \<subseteq> {s \<in> set (sessions d1). se_user s = us_id u \<and> live now s}" "distinct ss"
    using assms(2) set_take_subset [of _ ?L]
    by (auto simp: ss_def evicted_def Let_def live_sessions_def d1 distinct_map)
  have "length ss = length ?L + 1 - lc_max_sessions c"
    using assms(3) by (auto simp: ss_def evicted_def Let_def)
  moreover have "length (live_sessions (evict now (us_id u) ss d1) now (us_id u)) + length ss = length ?L"
    using assms(2) by (intro live_after_evict [OF _ ss]) (simp add: d1)
  moreover have "length (live_sessions d' now (us_id u))
      \<le> length (live_sessions (evict now (us_id u) ss d1) now (us_id u)) + 1"
    by (simp add: live_sessions_def o(2))
  ultimately show ?thesis using assms(3) by (simp add: id)
qed auto

lemma session_limit_holds_witness:
  "\<exists>d'. login demo_config demo_passwords 5 ''s9'' ''new'' (demo_form ''secret'') demo_web = (Inr (demo_worker, ''new''), d')
     \<and> length (live_sessions d' 5 2) \<le> 1"
proof -
  obtain r d' where l: "login demo_config demo_passwords 5 ''s9'' ''new'' (demo_form ''secret'') demo_web = (r, d')"
    by force
  have "r = Inr (demo_worker, ''new'')"
    using l
  proof (cases rule: login_cases)
    case (opened u)
    have u: "u = demo_worker" using opened(2) by simp
    have rh: "rehash demo_passwords p w = w" for p w by (simp add: rehash_def demo_passwords_def)
    have "length (token_hash ''new'') \<noteq> length ''hash''" by (simp add: token_hash_def sha256_length)
    then have "''hash'' \<noteq> token_hash ''new''" by metis
    moreover have "sessions demo_web = [demo_session]" "se_id demo_session = ''s2''" "se_token demo_session = ''hash''"
      by (simp_all add: demo_web_def demo_session_def)
    ultimately show ?thesis
      using opened(6) by (auto simp: u rh open_session_run Let_def sessions_evict split: if_splits)
  qed (simp_all add: source_throttled_def account_blocked_def fresh_throttle_def verify_password_def demo_passwords_def)
  moreover have "distinct (map se_id (sessions demo_web))" "1 \<le> lc_max_sessions demo_config"
    by (simp_all add: demo_web_def demo_config_def)
  ultimately have "length (live_sessions d' 5 (us_id demo_worker)) \<le> lc_max_sessions demo_config"
    using session_limit_holds l by blast
  with l \<open>r = Inr (demo_worker, ''new'')\<close> show ?thesis by (simp add: demo_config_def)
qed

text \<open>C32: changing the password ends every session of the user: afterwards no token authenticates as that
  user, until a new login.\<close>

theorem password_change_ends_sessions:
  assumes "change_password c ops now u old new d = (Inr (), d')"
  shows "\<nexists>t n s w d2. authenticate_token c n t d' = (Inr (w, s), d2) \<and> se_user s = us_id u"
proof
  assume "\<exists>t n s w d2. authenticate_token c n t d' = (Inr (w, s), d2) \<and> se_user s = us_id u"
  then obtain t n s w d2 where a: "authenticate_token c n t d' = (Inr (w, s), d2)" "se_user s = us_id u" by blast
  then obtain s0 where s0: "session_by_hash d' n (token_hash (the t)) = Some s0" "se_user s0 = us_id u"
    by (auto simp: authenticate_token_def split: if_splits option.splits)
  then have live: "s0 \<in> set (sessions d')" "se_revoked s0 = None"
    by (auto simp: session_by_hash_def live_def dest: find_eq_Some)
  have "\<exists>ss. sessions d' = map (\<lambda>s. if se_user s = us_id u \<and> se_revoked s = None
      then s\<lparr>se_revoked := Some now\<rparr> else s) ss"
    using assms by (auto simp: change_password_def revoke_all_def web_log_def split: if_splits sum.splits)
  with live s0(2) show False by (auto split: if_splits)
qed

lemma password_change_ends_sessions_witness:
  "\<exists>d'. change_password demo_config demo_passwords 5 demo_worker ''secret'' ''a rather long one'' demo_web = (Inr (), d')
     \<and> (\<nexists>t n s w d2. authenticate_token demo_config n t d' = (Inr (w, s), d2) \<and> se_user s = 2)"
proof -
  have h: "hash_password demo_passwords ''a rather long one'' = Inr ''a rather long one''"
    by code_simp
  obtain d' where "change_password demo_config demo_passwords 5 demo_worker ''secret'' ''a rather long one'' demo_web = (Inr (), d')"
    using h
    by (auto simp: change_password_def verify_password_def matches_password_def demo_passwords_def recent_hashes_def
        demo_web_def)
  with password_change_ends_sessions [OF this] show ?thesis by auto
qed

text \<open>Changing a member's role signs the member out of the organisation: no token of a session that
  acts in it authenticates any more.\<close>

theorem role_change_ends_sessions:
  assumes "change_role now a i r d = (Inr m, d')"
  shows "\<nexists>t n s w d2. authenticate_token c n t d' = (Inr (w, s), d2) \<and> se_user s = me_user m
     \<and> se_org s = Some (sc_org a)"
proof
  assume "\<exists>t n s w d2. authenticate_token c n t d' = (Inr (w, s), d2) \<and> se_user s = me_user m
     \<and> se_org s = Some (sc_org a)"
  then obtain t n s w d2 where b: "authenticate_token c n t d' = (Inr (w, s), d2)" "se_user s = me_user m"
    "se_org s = Some (sc_org a)" by blast
  then obtain s0 where s0: "session_by_hash d' n (token_hash (the t)) = Some s0" "se_user s0 = me_user m"
    "se_org s0 = Some (sc_org a)"
    by (auto simp: authenticate_token_def split: if_splits option.splits)
  then have live: "s0 \<in> set (sessions d')" "se_revoked s0 = None"
    by (auto simp: session_by_hash_def live_def dest: find_eq_Some)
  from assms have "\<exists>e. sessions d' = sessions (revoke_org_sessions now (me_user m) (sc_org a) e)"
    by (rule change_role_Inr) auto
  with live s0 show False by (auto simp: revoke_org_sessions_def split: if_splits)
qed


lemma role_change_ends_sessions_witness:
  "\<exists>m d'. change_role 5 demo_owner ''m2'' VIEWER demo_web = (Inr m, d') \<and> me_user m = 2
     \<and> (\<nexists>t n s w d2. authenticate_token demo_config n t d' = (Inr (w, s), d2) \<and> se_user s = 2 \<and> se_org s = Some ''o1'')"
proof -
  have u: "me_user (demo_member ''m2'' 2 OPERATOR) = 2" by (simp add: demo_member_def)
  have "change_role 5 demo_owner ''m2'' VIEWER demo_web = (Inr ((demo_member ''m2'' 2 OPERATOR)\<lparr>me_role := VIEWER\<rparr>),
      revoke_org_sessions 5 2 ''o1'' (set_member ''m2'' (\<lambda>q. q\<lparr>me_role := VIEWER\<rparr>) demo_web))"
    by (simp add: change_role_def require_permission_def) (simp add: demo_member_def)
  from this role_change_ends_sessions [OF this, of demo_config] u show ?thesis by simp
qed

end
