(* ===== verification/WebBootstrap.thy ===== *)
theory WebBootstrap
  imports WebLogin
begin

text \<open>
  \<open>BootstrapService\<close> of \<open>wbcz_web/services/authorization.py\<close>: the one-time conversion of a
  single-tenant database. The advisory lock makes the calls one after another. The rows of the
  business tables are the \<open>owned\<close> rows; the taxpayer numbers their columns hold are an argument
  (the list the six evidence queries return), as are fresh identifiers and password hashing.
\<close>

section \<open>Preflight\<close>

fun historical_inns :: "pystr option list \<Rightarrow> web_error + pystr list" where
  "historical_inns [] = Inr []"
| "historical_inns (v # vs) =
     (if \<not> truthy v then historical_inns vs
      else let t = strip (the v) in
        bind (map_error WebValue (validate_owner_inn t)) (\<lambda>_. bind (historical_inns vs) (\<lambda>ts. Inr (List.insert t ts))))"

definition business_rows :: "web_db \<Rightarrow> nat" where
  "business_rows d = length (filter (\<lambda>r. ow_type r \<noteq> ''audit_log'') (owned d))"

definition preflight :: "pystr option list \<Rightarrow> pystr \<Rightarrow> web_db \<Rightarrow> web_error + pystr list \<times> nat" where
  "preflight evidence inn d =
     bind (map_error WebValue (validate_owner_inn inn)) (\<lambda>_.
     bind (historical_inns evidence) (\<lambda>found.
       if 1 < length found then Inl (Denied ''conflicting historical participant INNs'')
       else if found \<noteq> [] \<and> set found \<noteq> {inn}
       then Inl (Denied ''historical participant INN does not match bootstrap INN'')
       else if business_rows d \<noteq> 0 \<and> found = []
       then Inl (Denied ''legacy business data has no deterministic participant INN evidence'')
       else if \<exists>r\<in>set (owned d). ow_org r \<noteq> None \<or> ow_participant r \<noteq> None
       then Inl (Denied ''legacy tenant backfill is not pristine'')
       else Inr (found, business_rows d)))"

section \<open>Conversion\<close>

record bootstrap_form =
  bf_name :: pystr
  bf_password :: pystr
  bf_org :: pystr
  bf_inn :: pystr
  bf_participant :: "pystr option"

record bootstrap_ids =
  bi_user :: nat
  bi_org :: pystr
  bi_participant :: pystr
  bi_member :: "nat \<Rightarrow> pystr"

definition any_owner :: "web_db \<Rightarrow> bool" where
  "any_owner d \<longleftrightarrow> (\<exists>m\<in>set (memberships d). me_role m = OWNER \<and> me_active m)"

text \<open>The account that becomes the owner: created, or given the password.\<close>

definition owner_account :: "password_ops \<Rightarrow> int \<Rightarrow> nat \<Rightarrow> pystr \<Rightarrow> pystr \<Rightarrow> user web_op" where
  "owner_account ops now i name password =
     seq (asks (\<lambda>d. find (\<lambda>u. sql_lower (us_name u) = name) (users d))) (\<lambda>found. case found of
       None \<Rightarrow>
         seq (lift (hash_password ops password)) (\<lambda>h.
           let u = \<lparr>us_id = i, us_name = name, us_email = None, us_email_verified = None,
                us_state = ACCOUNT_ACTIVE, us_password = h, us_active = True, us_admin = False,
                us_password_changed = now, us_password_version = 1, us_must_change = False\<rparr> in
           seq (asks (\<lambda>d. i \<notin> us_id ` set (users d) \<and> name \<notin> us_name ` set (users d))) (\<lambda>fresh.
           seq (demand fresh (Constraint ''users'')) (\<lambda>_.
           seq (modify (\<lambda>d. d\<lparr>users := users d @ [u]\<rparr>)) (\<lambda>_. ret u))))
     | Some u \<Rightarrow>
         seq (demand (account_open u) (Denied ''bootstrap user is disabled'')) (\<lambda>_.
         seq (lift (hash_password ops password)) (\<lambda>h.
           let f = (\<lambda>w. w\<lparr>us_password := h, us_password_changed := now,
                us_password_version := us_password_version w + 1, us_must_change := False\<rparr>) in
           seq (modify (set_user (us_id u) f)) (\<lambda>_. ret (f u)))))"

definition legacy_role :: "nat \<Rightarrow> user \<Rightarrow> role" where
  "legacy_role owner u = (if us_id u = owner then OWNER else if us_admin u then ADMIN else OPERATOR)"

definition legacy_members :: "bootstrap_ids \<Rightarrow> int \<Rightarrow> nat \<Rightarrow> web_db \<Rightarrow> membership list" where
  "legacy_members ids now owner d = map (\<lambda>(k, u). \<lparr>me_id = bi_member ids k, me_org = bi_org ids, me_user = us_id u,
       me_role = legacy_role owner u, me_active = True, me_creator = Some owner, me_created = now\<rparr>)
     (enumerate 0 (sort_key us_id (filter us_active (users d))))"

definition backfill :: "pystr \<Rightarrow> pystr \<Rightarrow> owned_row \<Rightarrow> owned_row" where
  "backfill o' p r = (if ow_org r = None \<and> ow_participant r = None
     then r\<lparr>ow_org := Some o', ow_participant := Some p\<rparr> else r)"

definition end_sessions :: "int \<Rightarrow> web_db \<Rightarrow> web_db" where
  "end_sessions now d = d\<lparr>sessions := map (\<lambda>s. if se_revoked s = None then s\<lparr>se_revoked := Some now\<rparr> else s) (sessions d)\<rparr>"

definition convert :: "bootstrap_ids \<Rightarrow> int \<Rightarrow> nat \<Rightarrow> bootstrap_form \<Rightarrow> web_db \<Rightarrow> web_db" where
  "convert ids now owner b d =
     (let p = \<lparr>pa_id = bi_participant ids, pa_org = bi_org ids, pa_inn = bf_inn b,
            pa_name = some_text (strip (or_else (bf_participant b) [])), pa_verification = VERIFIED,
            pa_active = True, pa_created = now\<rparr>;
          ms = legacy_members ids now owner d;
          d1 = end_sessions now (d\<lparr>
            organisations := organisations d @ [\<lparr>og_id = bi_org ids, og_name = strip (bf_org b),
              og_active = True, og_creator = Some owner\<rparr>],
            participants := participants d @ [p], memberships := memberships d @ ms,
            owned := map (backfill (bi_org ids) (bi_participant ids)) (owned d), bootstrapped := True,
            tenant_scope := Some \<lparr>ti_user = Some owner, ti_org = Some (bi_org ids),
              ti_participant = Some (bi_participant ids), ti_inn = Some (bf_inn b), ti_role = Some OWNER\<rparr>\<rparr>)
      in fold (\<lambda>m. web_log ''MEMBERSHIP_ADDED'' (Some owner) ''membership'' (me_id m)) ms
           (web_log ''BOOTSTRAP_COMPLETED'' (Some owner) ''organisation'' (bi_org ids) d1))"

definition bootstrap :: "password_ops \<Rightarrow> bootstrap_ids \<Rightarrow> int \<Rightarrow> pystr option list \<Rightarrow> bootstrap_form \<Rightarrow> nat web_op" where
  "bootstrap ops ids now evidence b =
     seq (asks bootstrapped) (\<lambda>done_before.
     seq (demand (\<not> done_before) (Denied ''security bootstrap already completed'')) (\<lambda>_.
     seq (asks any_owner) (\<lambda>owner_exists.
     seq (demand (\<not> owner_exists) (Denied ''security bootstrap already completed'')) (\<lambda>_.
     seq (asks (preflight evidence (bf_inn b))) (\<lambda>checked.
     seq (lift checked) (\<lambda>_.
       let name = normalise_username (bf_name b) in
       seq (demand (name \<noteq> []) (WebValue ''username is required'')) (\<lambda>_.
       seq (asks (\<lambda>d. bf_inn b \<in> pa_inn ` set (participants d))) (\<lambda>claimed.
       seq (demand (\<not> claimed) (Denied ''participant INN is already claimed'')) (\<lambda>_.
       seq (owner_account ops now (bi_user ids) name (bf_password b)) (\<lambda>u.
       seq (demand (strip (bf_org b) \<noteq> []) (WebValue ''organisation name is required'')) (\<lambda>_.
       seq (modify (convert ids now (us_id u) b)) (\<lambda>_. ret (us_id u)))))))))))))"

section \<open>What a conversion leaves\<close>

lemma fold_log_frame [simp]:
  "memberships (fold (\<lambda>m. web_log a w k (f m)) ms d) = memberships d"
  "owned (fold (\<lambda>m. web_log a w k (f m)) ms d) = owned d"
  "sessions (fold (\<lambda>m. web_log a w k (f m)) ms d) = sessions d"
  "bootstrapped (fold (\<lambda>m. web_log a w k (f m)) ms d) = bootstrapped d"
  by (induction ms arbitrary: d) (simp_all add: web_log_def)

lemma convert_frame [simp]:
  "memberships (convert ids now u b d) = memberships d @ legacy_members ids now u d"
  "owned (convert ids now u b d) = map (backfill (bi_org ids) (bi_participant ids)) (owned d)"
  "sessions (convert ids now u b d) =
     map (\<lambda>s. if se_revoked s = None then s\<lparr>se_revoked := Some now\<rparr> else s) (sessions d)"
  "bootstrapped (convert ids now u b d)"
  by (simp_all add: convert_def Let_def end_sessions_def) (simp_all add: web_log_def)

lemma owner_account_Inr:
  assumes "owner_account ops now i name p d = (Inr u, d1)"
  shows "u \<in> set (users d1)" "us_active u" "memberships d1 = memberships d" "owned d1 = owned d"
    "sessions d1 = sessions d"
  using assms
  by (auto simp: owner_account_def Let_def account_open_def set_user_def update_rows_def image_iff
      split: option.splits sum.splits if_splits dest!: find_eq_Some intro: rev_bexI)

lemma bootstrap_Inr:
  assumes "bootstrap ops ids now evidence b d = (Inr n, d')"
  obtains u d1 inns k where "\<not> bootstrapped d" "\<not> any_owner d" "preflight evidence (bf_inn b) d = Inr (inns, k)"
    "owner_account ops now (bi_user ids) (normalise_username (bf_name b)) (bf_password b) d = (Inr u, d1)"
    "n = us_id u" "d' = convert ids now (us_id u) b d1"
  using assms
  by (auto simp: bootstrap_def Let_def seq_def [of "owner_account _ _ _ _ _"]
      split: sum.splits if_splits prod.splits)

section \<open>Properties\<close>

text \<open>The conversion happens once and leaves no gap: afterwards every business row belongs to the new
  organisation and participant, the only active owner is the account that was named, no session is
  open, and a second conversion is refused whatever it is given.\<close>

theorem bootstrap_converts_once:
  assumes "bootstrap ops ids now evidence b d = (Inr n, d')" and "distinct (map us_id (users d'))"
  shows "(\<forall>r\<in>set (owned d'). ow_org r = Some (bi_org ids) \<and> ow_participant r = Some (bi_participant ids))
    \<and> (\<forall>m\<in>set (memberships d'). me_role m = OWNER \<and> me_active m \<longrightarrow> me_user m = n)
    \<and> owner_count d' (bi_org ids) = 1
    \<and> (\<forall>s\<in>set (sessions d'). se_revoked s \<noteq> None)
    \<and> (\<forall>ops' ids' now' evidence' b'. \<exists>e. bootstrap ops' ids' now' evidence' b' d' = (Inl e, d'))"
  using assms(1)
proof (rule bootstrap_Inr)
  fix u d1 inns k
  assume *: "\<not> bootstrapped d" "\<not> any_owner d" "preflight evidence (bf_inn b) d = Inr (inns, k)"
    "owner_account ops now (bi_user ids) (normalise_username (bf_name b)) (bf_password b) d = (Inr u, d1)"
    "n = us_id u" "d' = convert ids now (us_id u) b d1"
  note u = owner_account_Inr [OF *(4)]
  have users: "users d' = users d1"
  proof -
    have "users (fold (\<lambda>m. web_log a w k' (f m)) ms e) = users e" for a w k' ms e and f :: "membership \<Rightarrow> pystr"
      by (induction ms arbitrary: e) (simp_all add: web_log_def)
    then show ?thesis by (simp add: *(6) convert_def Let_def end_sessions_def) (simp add: web_log_def)
  qed
  have pristine: "\<forall>r\<in>set (owned d). ow_org r = None \<and> ow_participant r = None"
    using *(3) by (auto simp: preflight_def bind_Inr_iff split: if_splits)
  have rows: "\<forall>r\<in>set (owned d'). ow_org r = Some (bi_org ids) \<and> ow_participant r = Some (bi_participant ids)"
    using pristine u(4) by (auto simp: *(6) backfill_def)
  have no_owner: "\<forall>m\<in>set (memberships d). \<not> (me_role m = OWNER \<and> me_active m)"
    using *(2) by (auto simp: any_owner_def)
  have legacy: "me_role m = OWNER \<Longrightarrow> m \<in> set (legacy_members ids now (us_id u) d1) \<Longrightarrow> me_user m = us_id u" for m
    by (auto simp: legacy_members_def legacy_role_def split: if_splits)
  have owners: "\<forall>m\<in>set (memberships d'). me_role m = OWNER \<and> me_active m \<longrightarrow> me_user m = n"
    using no_owner legacy u(3) by (auto simp: *(5,6))
  let ?us = "sort_key us_id (filter us_active (users d1))"
  have "filter (owns (bi_org ids)) (memberships d) = []"
    using no_owner by (auto simp: filter_empty_conv)
  moreover have "length (filter (owns (bi_org ids)) (legacy_members ids now (us_id u) d1))
      = length (filter (\<lambda>w. us_id w = us_id u) ?us)"
  proof -
    have "length (filter (owns (bi_org ids)) (map (\<lambda>(k, w). \<lparr>me_id = bi_member ids k, me_org = bi_org ids,
         me_user = us_id w, me_role = legacy_role (us_id u) w, me_active = True, me_creator = Some (us_id u),
         me_created = now\<rparr>) (enumerate j ws))) = length (filter (\<lambda>w. us_id w = us_id u) ws)" for j ws
      by (induction ws arbitrary: j) (auto simp: legacy_role_def)
    then show ?thesis by (simp add: legacy_members_def)
  qed
  moreover have "length (filter (\<lambda>w. us_id w = us_id u) ?us) = 1"
  proof -
    have d: "distinct (map us_id (users d1))" using assms(2) by (simp add: users)
    have "{w \<in> set ?us. us_id w = us_id u} = {u}"
      using d u(1,2) by (auto simp: distinct_map inj_on_def)
    moreover have "distinct ?us" using d by (simp add: distinct_map distinct_filter)
    ultimately show ?thesis by (simp add: length_filter_card)
  qed
  ultimately have count: "owner_count d' (bi_org ids) = 1"
    using u(3) by (simp add: owner_count_def *(6))
  have "bootstrapped d'" by (simp add: *(6))
  then have again: "\<exists>e. bootstrap ops' ids' now' evidence' b' d' = (Inl e, d')" for ops' ids' now' evidence' b'
    by (simp add: bootstrap_def)
  have closed: "\<forall>s\<in>set (sessions d'). se_revoked s \<noteq> None" by (auto simp: *(6))
  show ?thesis
    using rows owners count closed again by blast
qed

definition demo_legacy :: web_db where
  "demo_legacy = \<lparr>users = [demo_user 2 ''worker''], sessions = [demo_session], organisations = [], participants = [],
     memberships = [], invitations = [], claims = [], throttles = [], attempts = [], passwords = [],
     bootstrapped = False, owned = [demo_owned\<lparr>ow_org := None, ow_participant := None\<rparr>], parts = [],
     web_audits = [], tenant_scope = None\<rparr>"

lemma bootstrap_converts_once_witness:
  "\<exists>d'. (\<forall>r\<in>set (owned d'). ow_org r = Some ''o1'' \<and> ow_participant r = Some ''p1'')
     \<and> length (owned d') = 1 \<and> owner_count d' ''o1'' = 1"
proof -
  let ?ids = "\<lparr>bi_user = 7, bi_org = ''o1'', bi_participant = ''p1'', bi_member = (\<lambda>k. show_nat k)\<rparr>"
  let ?b = "\<lparr>bf_name = ''Boss'', bf_password = ''a rather long one'', bf_org = ''Shop'', bf_inn = ''7707083893'',
    bf_participant = None\<rparr>"
  let ?h = "''a rather long one''"
  have t: "validate_owner_inn ''7707083893'' = Inr ()" "strip ''7707083893'' = ''7707083893''"
    "normalise_username ''Boss'' = ''boss''" "strip ''Shop'' = ''Shop''" "sql_lower ''worker'' = ''worker''"
    "hash_password demo_passwords ?h = Inr ?h"
    by code_simp+
  have acc: "\<exists>u. owner_account demo_passwords 5 7 ''boss'' ?h demo_legacy = (Inr u, demo_legacy\<lparr>users := users demo_legacy @ [u]\<rparr>)
      \<and> us_id u = 7"
    using t(5,6) by (simp add: owner_account_def Let_def demo_legacy_def demo_user_def)
  then obtain u where u: "owner_account demo_passwords 5 7 ''boss'' ?h demo_legacy
      = (Inr u, demo_legacy\<lparr>users := users demo_legacy @ [u]\<rparr>)" "us_id u = 7" by blast
  have pre: "preflight [Some ''7707083893''] ''7707083893'' demo_legacy = Inr ([''7707083893''], 1)"
    using t(1,2) by (simp add: preflight_def business_rows_def demo_legacy_def demo_owned_def List.insert_def)
  have l: "\<not> bootstrapped demo_legacy" "\<not> any_owner demo_legacy" "participants demo_legacy = []"
    by (simp_all add: demo_legacy_def any_owner_def)
  let ?d = "convert ?ids 5 7 ?b (demo_legacy\<lparr>users := users demo_legacy @ [u]\<rparr>)"
  have run: "bootstrap demo_passwords ?ids 5 [Some ''7707083893''] ?b demo_legacy = (Inr 7, ?d)"
    using u pre l t(3,4) by (simp add: bootstrap_def seq_def [of "owner_account _ _ _ _ _"])
  have "users ?d = users demo_legacy @ [u]"
  proof -
    have "users (fold (\<lambda>m. web_log a w k' (f m)) ms e) = users e" for a w k' ms e and f :: "membership \<Rightarrow> pystr"
      by (induction ms arbitrary: e) (simp_all add: web_log_def)
    then show ?thesis by (simp add: convert_def Let_def end_sessions_def) (simp add: web_log_def)
  qed
  then have "distinct (map us_id (users ?d))" using u(2) by (simp add: demo_legacy_def demo_user_def)
  from bootstrap_converts_once [OF run this] show ?thesis
    by (intro exI [of _ ?d]) (simp add: demo_legacy_def)
qed

end
