(* ===== verification/EventStore.thy ===== *)
theory EventStore
  imports Models "HOL-Library.Product_Lexorder"
begin

text \<open>
  The SQLite store of imported events (\<open>wbcz/event_store.py\<close>, \<open>wbcz/audit.py\<close>): tables, the
  transactions that write them and the queries that read them. Every method that writes is one
  transaction: it returns the new database, or an exception and the database stays. The clock
  (\<open>utc_now\<close>) is read once per transaction and is an argument. The stored payload of an event is
  the event that \<open>from_dict\<close> builds from it again.
\<close>

section \<open>Rows\<close>

record event_row =
  ev_id :: pystr
  ev_event :: event
  ev_created :: pystr

record import_row =
  im_fingerprint :: pystr
  im_filename :: pystr
  im_version :: nat
  im_at :: pystr
  im_partial :: bool
  im_new :: nat
  im_duplicate :: nat
  im_rejected :: nat

record link_row =
  ln_fingerprint :: pystr
  ln_number :: nat
  ln_event :: "pystr option"
  ln_error :: "pystr option"

record check_row =
  ck_id :: nat
  ck_event :: pystr
  ck_source :: pystr
  ck_snapshot :: "ki_state option"
  ck_outcome :: outcome
  ck_at :: pystr

record preview_row =
  pv_event :: pystr
  pv_check :: nat
  pv_at :: pystr

record document_row =
  dc_id :: pystr
  dc_event :: pystr
  dc_report :: document_report
  dc_created :: pystr
  dc_updated :: pystr

record observation =
  ob_document :: pystr
  ob_report :: document_report
  ob_at :: pystr

record event_audit_row =
  au_action :: pystr
  au_type :: pystr
  au_key :: pystr
  au_details :: json
  au_at :: pystr

text \<open>\<open>next_check\<close> is the counter behind \<open>AUTOINCREMENT\<close>: an identifier is never given twice.\<close>

record event_db =
  imports_of :: "import_row list"
  events_of :: "event_row list"
  links_of :: "link_row list"
  checks_of :: "check_row list"
  next_check :: nat
  previews_of :: "preview_row list"
  documents_of :: "document_row list"
  observations_of :: "observation list"
  audit_of :: "event_audit_row list"

definition empty_db :: event_db where
  "empty_db = \<lparr>imports_of = [], events_of = [], links_of = [], checks_of = [], next_check = 1,
     previews_of = [], documents_of = [], observations_of = [], audit_of = []\<rparr>"

datatype event_failure =
    NotFoundKey pystr
  | BadValue pystr
  | IntegrityError pystr
  | WorkbookError pystr

section \<open>The payload of an event\<close>

text \<open>\<open>from_dict(json.loads(canonical_json(to_dict())))\<close>: the amount comes back with two places.\<close>

definition reload :: "event \<Rightarrow> event" where
  "reload v = v\<lparr>amount := (case amount v of Finite neg c e \<Rightarrow> Finite neg (cents c e) (- 2) | a \<Rightarrow> a)\<rparr>"

section \<open>Audit\<close>

definition append_audit :: "pystr \<Rightarrow> pystr \<Rightarrow> pystr \<Rightarrow> pystr \<Rightarrow> json \<Rightarrow> event_db \<Rightarrow> event_db" where
  "append_audit now act t k details d =
     d\<lparr>audit_of := audit_of d @
       [\<lparr>au_action = act, au_type = t, au_key = k, au_details = details, au_at = now\<rparr>]\<rparr>"

section \<open>Import of a parsed workbook\<close>

record parsed_row =
  pr_number :: nat
  pr_event :: event

record row_issue =
  is_number :: nat
  is_message :: pystr

record parsed_workbook =
  pw_rows :: "parsed_row list"
  pw_issues :: "row_issue list"
  pw_ignored :: "nat list"

record import_report =
  ir_fingerprint :: pystr
  ir_new :: nat
  ir_duplicate :: nat
  ir_rejected :: nat
  ir_repeated :: bool

definition report_json :: "import_report \<Rightarrow> json" where
  "report_json r = JObj [(''fingerprint'', JStr (ir_fingerprint r)), (''new_events'', JInt (int (ir_new r))),
     (''duplicate_events'', JInt (int (ir_duplicate r))), (''rejected_rows'', JInt (int (ir_rejected r))),
     (''repeated_file'', JBool (ir_repeated r))]"

definition existing_import :: "pystr \<Rightarrow> event_db \<Rightarrow> import_report option" where
  "existing_import fp d = map_option (\<lambda>r.
     \<lparr>ir_fingerprint = fp, ir_new = 0, ir_duplicate = im_new r + im_duplicate r,
      ir_rejected = im_rejected r, ir_repeated = True\<rparr>) (lookup_row im_fingerprint fp (imports_of d))"

definition known_event :: "event_db \<Rightarrow> pystr \<Rightarrow> bool" where
  "known_event d i \<longleftrightarrow> lookup_row ev_id i (events_of d) \<noteq> None"

text \<open>\<open>DELETE FROM previews WHERE event_id IN (SELECT event_id FROM events WHERE kiz = ?)\<close>.\<close>

definition drop_previews :: "pystr \<Rightarrow> event_db \<Rightarrow> event_db" where
  "drop_previews k d = d\<lparr>previews_of := filter (\<lambda>p.
     \<not> list_ex (\<lambda>r. ev_id r = pv_event p \<and> kiz (ev_event r) = k) (events_of d)) (previews_of d)\<rparr>"

definition add_link :: "link_row \<Rightarrow> event_db \<Rightarrow> event_failure + event_db" where
  "add_link l d =
     (if list_ex (\<lambda>q. ln_fingerprint q = ln_fingerprint l \<and> ln_number q = ln_number l) (links_of d)
      then Inl (IntegrityError ''import_rows'')
      else if lookup_row im_fingerprint (ln_fingerprint l) (imports_of d) = None
        \<or> (case ln_event l of None \<Rightarrow> False | Some i \<Rightarrow> \<not> known_event d i)
      then Inl (IntegrityError ''FOREIGN KEY'')
      else Inr (d\<lparr>links_of := links_of d @ [l]\<rparr>))"

definition insert_event :: "pystr \<Rightarrow> event \<Rightarrow> event_db \<Rightarrow> event_db" where
  "insert_event now v d = d\<lparr>events_of := events_of d @
     [\<lparr>ev_id = event_id v, ev_event = reload v, ev_created = now\<rparr>]\<rparr>"

text \<open>One row: a new event goes in and the previews of its code go out; a known one is a duplicate.\<close>

definition import_item :: "pystr \<Rightarrow> pystr \<Rightarrow> parsed_row \<Rightarrow> nat \<times> nat \<times> event_db
    \<Rightarrow> event_failure + nat \<times> nat \<times> event_db" where
  "import_item now fp item s = (case s of (inserted, duplicates, d) \<Rightarrow>
     let v = pr_event item; i = event_id v;
         l = \<lparr>ln_fingerprint = fp, ln_number = pr_number item, ln_event = Some i, ln_error = None\<rparr> in
     if known_event d i then bind (add_link l d) (\<lambda>e. Inr (inserted, duplicates + 1, e))
     else bind (add_link l (append_audit now ''EVENT_IMPORTED'' ''event'' i
            (JObj [(''fingerprint'', JStr fp), (''row'', JInt (int (pr_number item)))])
            (drop_previews (kiz v) (insert_event now v d))))
          (\<lambda>e. Inr (inserted + 1, duplicates, e)))"

definition import_issue :: "pystr \<Rightarrow> pystr \<Rightarrow> row_issue \<Rightarrow> event_db \<Rightarrow> event_failure + event_db" where
  "import_issue now fp s d =
     bind (add_link \<lparr>ln_fingerprint = fp, ln_number = is_number s, ln_event = None,
             ln_error = Some (is_message s)\<rparr> d) (\<lambda>e.
       Inr (append_audit now ''ROW_REJECTED'' ''file'' fp
         (JObj [(''row'', JInt (int (is_number s))), (''error'', JStr (is_message s))]) e))"

fun thread :: "('a \<Rightarrow> 's \<Rightarrow> 'e + 's) \<Rightarrow> 'a list \<Rightarrow> 's \<Rightarrow> 'e + 's" where
  "thread f [] s = Inr s"
| "thread f (x # xs) s = bind (f x s) (thread f xs)"

definition parser_version :: nat where
  "parser_version = 2"

definition start_import :: "pystr \<Rightarrow> pystr \<Rightarrow> pystr \<Rightarrow> parsed_workbook \<Rightarrow> event_db \<Rightarrow> event_db" where
  "start_import now fp filename w d = d\<lparr>imports_of := imports_of d @
     [\<lparr>im_fingerprint = fp, im_filename = filename, im_version = parser_version, im_at = now,
       im_partial = (pw_issues w \<noteq> []), im_new = 0, im_duplicate = 0, im_rejected = length (pw_issues w)\<rparr>]\<rparr>"

definition finish_import :: "pystr \<Rightarrow> nat \<Rightarrow> nat \<Rightarrow> event_db \<Rightarrow> event_db" where
  "finish_import fp n k d = d\<lparr>imports_of :=
     update_rows im_fingerprint fp (\<lambda>r. r\<lparr>im_new := n, im_duplicate := k\<rparr>) (imports_of d)\<rparr>"

definition import_workbook :: "pystr \<Rightarrow> pystr \<Rightarrow> pystr \<Rightarrow> parsed_workbook
    \<Rightarrow> (event_db, event_failure, import_report) txn" where
  "import_workbook now fp filename w d = (case existing_import fp d of
     Some r \<Rightarrow> Inr (r, append_audit now ''IMPORT_REPEATED'' ''file'' fp (JObj []) d)
   | None \<Rightarrow>
       bind (thread (import_item now fp) (pw_rows w) (0, 0, start_import now fp filename w d)) (\<lambda>(n, k, e).
       bind (thread (import_issue now fp) (pw_issues w) e) (\<lambda>e.
         let r = \<lparr>ir_fingerprint = fp, ir_new = n, ir_duplicate = k,
                  ir_rejected = length (pw_issues w), ir_repeated = False\<rparr> in
         Inr (r, append_audit now ''IMPORT_COMPLETED'' ''file'' fp (report_json r) (finish_import fp n k e)))))"

section \<open>Reading events\<close>

text \<open>The stored date is the ISO text in UTC, so the order of texts is the order SQLite sorts by.\<close>

definition occurred_text :: "event \<Rightarrow> pystr option" where
  "occurred_text v = (case occurred_at v of Some (Aware us) \<Rightarrow> Some (iso_utc us) | _ \<Rightarrow> None)"

definition event_order :: "event_row \<Rightarrow> bool \<times> pystr \<times> pystr" where
  "event_order r = (occurred_text (ev_event r) = None,
     (case occurred_text (ev_event r) of None \<Rightarrow> [] | Some t \<Rightarrow> t), ev_id r)"

definition events :: "pystr option \<Rightarrow> event_db \<Rightarrow> event list" where
  "events k d = (case k of
     None \<Rightarrow> map ev_event (sort_key (\<lambda>r. (kiz (ev_event r), event_order r)) (events_of d))
   | Some q \<Rightarrow> map ev_event (sort_key event_order (filter (\<lambda>r. kiz (ev_event r) = q) (events_of d))))"

definition history_order_ambiguous :: "pystr \<Rightarrow> event_db \<Rightarrow> bool" where
  "history_order_ambiguous k d =
     (let dates = map (\<lambda>r. occurred_text (ev_event r)) (filter (\<lambda>r. kiz (ev_event r) = k) (events_of d)) in
      2 \<le> length dates \<and> (None \<in> set dates \<or> \<not> distinct dates))"

definition get_event :: "pystr \<Rightarrow> event_db \<Rightarrow> event_failure + event" where
  "get_event i d = (case lookup_row ev_id i (events_of d) of
     None \<Rightarrow> Inl (NotFoundKey i) | Some r \<Rightarrow> Inr (ev_event r))"

section \<open>Checks and previews\<close>

record check_result =
  cr_check :: nat
  cr_event :: pystr
  cr_outcome :: outcome

definition check_json :: "nat \<Rightarrow> pystr \<Rightarrow> outcome \<Rightarrow> json" where
  "check_json n src r = JObj [(''check_id'', JInt (int n)), (''decision'', JStr (decision_value (decision r))),
     (''reason'', JStr (reason r)), (''error'', opt_str (outcome_error r)), (''source'', JStr src)]"

text \<open>\<open>INSERT ... ON CONFLICT(event_id) DO UPDATE\<close> of the one preview of an event.\<close>

definition put_preview :: "preview_row \<Rightarrow> event_db \<Rightarrow> event_db" where
  "put_preview p d = d\<lparr>previews_of :=
     (if lookup_row pv_event (pv_event p) (previews_of d) = None then previews_of d @ [p]
      else update_rows pv_event (pv_event p) (\<lambda>q. q\<lparr>pv_check := pv_check p, pv_at := pv_at p\<rparr>)
             (previews_of d))\<rparr>"

definition save_check :: "pystr \<Rightarrow> pystr \<Rightarrow> ki_state option \<Rightarrow> outcome \<Rightarrow> pystr
    \<Rightarrow> (event_db, event_failure, check_result) txn" where
  "save_check now i snapshot r src d =
     (if \<not> known_event d i then Inl (IntegrityError ''FOREIGN KEY'')
      else
        let n = next_check d;
            c = \<lparr>ck_id = n, ck_event = i, ck_source = src, ck_snapshot = snapshot, ck_outcome = r, ck_at = now\<rparr>;
            e = d\<lparr>checks_of := checks_of d @ [c], next_check := n + 1\<rparr> in
        Inr (\<lparr>cr_check = n, cr_event = i, cr_outcome = r\<rparr>,
             append_audit now ''DRY_RUN_CHECKED'' ''event'' i (check_json n src r)
               (put_preview \<lparr>pv_event = i, pv_check = n, pv_at = now\<rparr> e)))"

definition checks :: "pystr \<Rightarrow> event_db \<Rightarrow> check_row list" where
  "checks i d = sort_key ck_id (filter (\<lambda>c. ck_event c = i) (checks_of d))"

text \<open>The checks behind the current previews, in display order.\<close>

definition previews :: "event_db \<Rightarrow> check_row list" where
  "previews d = List.map_filter (\<lambda>r. case lookup_row pv_event (ev_id r) (previews_of d) of
       None \<Rightarrow> None | Some p \<Rightarrow> lookup_row ck_id (pv_check p) (checks_of d))
     (sort_key (\<lambda>r. (kiz (ev_event r), event_order r)) (events_of d))"

definition import_issues :: "pystr \<Rightarrow> event_db \<Rightarrow> (nat \<times> pystr) list" where
  "import_issues fp d = sort_key fst (List.map_filter (\<lambda>l.
     if ln_fingerprint l = fp then map_option (Pair (ln_number l)) (ln_error l) else None) (links_of d))"

section \<open>Documents\<close>

definition current_report :: "pystr \<Rightarrow> event_db \<Rightarrow> event_failure + document_report" where
  "current_report k d = (case lookup_row dc_id k (documents_of d) of
     None \<Rightarrow> Inl (NotFoundKey k) | Some r \<Rightarrow> Inr (dc_report r))"

definition observe :: "pystr \<Rightarrow> pystr \<Rightarrow> document_report \<Rightarrow> event_db \<Rightarrow> event_db" where
  "observe now k r d = d\<lparr>observations_of := observations_of d @
     [\<lparr>ob_document = k, ob_report = r, ob_at = now\<rparr>]\<rparr>"

definition accepted_report :: document_report where
  "accepted_report = \<lparr>report_status = DS_ACCEPTED, report_error = None\<rparr>"

definition register_document :: "pystr \<Rightarrow> pystr \<Rightarrow> pystr \<Rightarrow> (event_db, event_failure, unit) txn" where
  "register_document now i k d =
     (if k = [] then Inl (BadValue ''empty document_id'')
      else case lookup_row dc_id k (documents_of d) of
        Some r \<Rightarrow>
          if dc_event r \<noteq> i then Inl (BadValue ''document_id belongs to another event'') else Inr ((), d)
      | None \<Rightarrow>
          if \<not> known_event d i then Inl (IntegrityError ''FOREIGN KEY'')
          else Inr ((), append_audit now ''DOCUMENT_REGISTERED'' ''document'' k
            (JObj [(''event_id'', JStr i), (''status'', JStr ''ACCEPTED'')])
            (observe now k accepted_report
              (d\<lparr>documents_of := documents_of d @
                [\<lparr>dc_id = k, dc_event = i, dc_report = accepted_report, dc_created = now, dc_updated = now\<rparr>]\<rparr>))))"

definition terminal_report :: "document_report \<Rightarrow> bool" where
  "terminal_report r \<longleftrightarrow> report_status r \<in> {DS_SUCCEEDED, DS_REJECTED}"

definition update_document :: "pystr \<Rightarrow> pystr \<Rightarrow> document_report
    \<Rightarrow> (event_db, event_failure, document_report) txn" where
  "update_document now k r d = bind (current_report k d) (\<lambda>current.
     if terminal_report current then
       (if r \<noteq> current then Inl (BadValue ''terminal status'') else Inr (current, d))
     else Inr (r, append_audit now ''DOCUMENT_STATUS_OBSERVED'' ''document'' k
       (JObj [(''status'', JStr (document_status_value (report_status r))), (''error'', opt_str (report_error r))])
       (observe now k r (d\<lparr>documents_of :=
          update_rows dc_id k (\<lambda>q. q\<lparr>dc_report := r, dc_updated := now\<rparr>) (documents_of d)\<rparr>))))"

definition document_history :: "pystr \<Rightarrow> event_db \<Rightarrow> observation list" where
  "document_history k d = filter (\<lambda>s. ob_document s = k) (observations_of d)"

text \<open>\<open>audit\<close>: one entry in a transaction of its own.\<close>

definition audit_event :: "pystr \<Rightarrow> pystr \<Rightarrow> pystr \<Rightarrow> pystr \<Rightarrow> json \<Rightarrow> (event_db, event_failure, unit) txn" where
  "audit_event now act t k details d = Inr ((), append_audit now act t k details d)"

definition count_rows :: "pystr \<Rightarrow> event_db \<Rightarrow> event_failure + nat" where
  "count_rows t d = (case map_of
     [(''imports'', length (imports_of d)), (''events'', length (events_of d)),
      (''import_rows'', length (links_of d)), (''checks'', length (checks_of d)),
      (''previews'', length (previews_of d)), (''documents'', length (documents_of d)),
      (''document_status_history'', length (observations_of d)), (''audit_log'', length (audit_of d))] t of
     None \<Rightarrow> Inl (BadValue ''table'') | Some n \<Rightarrow> Inr n)"

section \<open>Changes of the database\<close>

inductive event_step :: "event_db \<Rightarrow> event_db \<Rightarrow> bool" where
  imported: "event_step d d'" if "import_workbook now fp filename w d = Inr (r, d')"
| checked: "event_step d d'" if "save_check now i snapshot r src d = Inr (c, d')"
| registered: "event_step d d'" if "register_document now i k d = Inr (u, d')"
| observed: "event_step d d'" if "update_document now k r d = Inr (r', d')"
| noted: "event_step d d'" if "audit_event now act t k details d = Inr (u, d')"

end
