(* ===== verification/EventInvariants.thy ===== *)
theory EventInvariants
  imports EventStore
begin

text \<open>
  What every transaction of the event store keeps: identifiers are unique and those of their
  payloads, references point to rows that exist, the counters of an import are the numbers of its
  rows, a preview is the last check of its event, and a document's status is the last one observed.
\<close>

section \<open>The invariant\<close>

definition document_ok :: "event_db \<Rightarrow> document_row \<Rightarrow> bool" where
  "document_ok d r \<longleftrightarrow> known_event d (dc_event r) \<and> document_history (dc_id r) d \<noteq> []
     \<and> ob_report (last (document_history (dc_id r) d)) = dc_report r"

definition link_ok :: "event_db \<Rightarrow> link_row \<Rightarrow> bool" where
  "link_ok d l \<longleftrightarrow> ln_fingerprint l \<in> im_fingerprint ` set (imports_of d)
     \<and> (case ln_event l of None \<Rightarrow> ln_error l \<noteq> None | Some i \<Rightarrow> known_event d i \<and> ln_error l = None)"

definition preview_ok :: "event_db \<Rightarrow> preview_row \<Rightarrow> bool" where
  "preview_ok d p \<longleftrightarrow> (\<exists>c\<in>set (checks_of d). ck_id c = pv_check p \<and> ck_event c = pv_event p)
     \<and> (\<forall>c\<in>set (checks_of d). ck_event c = pv_event p \<longrightarrow> ck_id c \<le> pv_check p)"

definition keys_ok :: "event_db \<Rightarrow> bool" where
  "keys_ok d \<longleftrightarrow> distinct (map ev_id (events_of d)) \<and> distinct (map im_fingerprint (imports_of d))
     \<and> distinct (map (\<lambda>l. (ln_fingerprint l, ln_number l)) (links_of d)) \<and> distinct (map ck_id (checks_of d))
     \<and> distinct (map pv_event (previews_of d)) \<and> distinct (map dc_id (documents_of d))"

definition refs_ok :: "event_db \<Rightarrow> bool" where
  "refs_ok d \<longleftrightarrow> (\<forall>r\<in>set (events_of d). ev_id r = event_id (ev_event r))
     \<and> (\<forall>l\<in>set (links_of d). link_ok d l)
     \<and> (\<forall>c\<in>set (checks_of d). ck_id c < next_check d \<and> known_event d (ck_event c))
     \<and> (\<forall>p\<in>set (previews_of d). preview_ok d p)
     \<and> (\<forall>r\<in>set (documents_of d). document_ok d r)
     \<and> (\<forall>s\<in>set (observations_of d). ob_document s \<in> dc_id ` set (documents_of d))"

definition event_links :: "pystr \<Rightarrow> event_db \<Rightarrow> nat" where
  "event_links fp d = length (filter (\<lambda>l. ln_fingerprint l = fp \<and> ln_event l \<noteq> None) (links_of d))"

definition issue_links :: "pystr \<Rightarrow> event_db \<Rightarrow> nat" where
  "issue_links fp d = length (filter (\<lambda>l. ln_fingerprint l = fp \<and> ln_event l = None) (links_of d))"

definition counts_ok :: "event_db \<Rightarrow> bool" where
  "counts_ok d \<longleftrightarrow> (\<forall>r\<in>set (imports_of d).
     im_new r + im_duplicate r = event_links (im_fingerprint r) d
     \<and> im_rejected r = issue_links (im_fingerprint r) d)"

definition event_db_ok :: "event_db \<Rightarrow> bool" where
  "event_db_ok d \<longleftrightarrow> keys_ok d \<and> refs_ok d \<and> counts_ok d"

lemmas event_ok_defs = event_db_ok_def keys_ok_def refs_ok_def counts_ok_def event_links_def issue_links_def

section \<open>Payloads\<close>

lemma reload_id [simp]: "event_id (reload v) = event_id v"
  by (cases "amount v")
    (simp_all add: event_id_def event_canonical_def reload_def amount_text_def cents_def occurred_json_def legal_json_def)

lemma reload_fields [simp]: "kiz (reload v) = kiz v" "occurred_at (reload v) = occurred_at v"
  by (simp_all add: reload_def)

section \<open>Frames\<close>

lemma append_audit_frame [simp]:
  "imports_of (append_audit now a t k x d) = imports_of d" "events_of (append_audit now a t k x d) = events_of d"
  "links_of (append_audit now a t k x d) = links_of d" "checks_of (append_audit now a t k x d) = checks_of d"
  "next_check (append_audit now a t k x d) = next_check d"
  "previews_of (append_audit now a t k x d) = previews_of d"
  "documents_of (append_audit now a t k x d) = documents_of d"
  "observations_of (append_audit now a t k x d) = observations_of d"
  by (simp_all add: append_audit_def)

lemma known_event_iff: "known_event d i \<longleftrightarrow> i \<in> ev_id ` set (events_of d)"
  by (simp add: known_event_def lookup_row_None)

lemma append_audit_known [simp]: "known_event (append_audit now a t k x d) = known_event d"
  by (simp add: fun_eq_iff known_event_iff)

lemma append_audit_ok [simp]:
  "keys_ok (append_audit now a t k x d) = keys_ok d"
  "refs_ok (append_audit now a t k x d) = refs_ok d"
  "counts_ok (append_audit now a t k x d) = counts_ok d"
  "event_db_ok (append_audit now a t k x d) = event_db_ok d"
  by (simp_all add: event_ok_defs link_ok_def document_ok_def document_history_def preview_ok_def cong: option.case_cong)

lemma add_link_Inr:
  "add_link l d = Inr e \<longleftrightarrow>
     (ln_fingerprint l, ln_number l) \<notin> (\<lambda>q. (ln_fingerprint q, ln_number q)) ` set (links_of d)
     \<and> ln_fingerprint l \<in> im_fingerprint ` set (imports_of d)
     \<and> (\<forall>i. ln_event l = Some i \<longrightarrow> known_event d i) \<and> e = d\<lparr>links_of := links_of d @ [l]\<rparr>"
proof -
  have "list_ex (\<lambda>q. ln_fingerprint q = ln_fingerprint l \<and> ln_number q = ln_number l) (links_of d)
    \<longleftrightarrow> (ln_fingerprint l, ln_number l) \<in> (\<lambda>q. (ln_fingerprint q, ln_number q)) ` set (links_of d)"
    unfolding list_ex_iff image_iff prod.inject by metis
  then show ?thesis
    by (auto simp: add_link_def lookup_row_None split: option.splits)
qed

lemma add_link_ok:
  assumes "add_link l d = Inr e" and "keys_ok d" and "refs_ok d" and "ln_event l = None \<longleftrightarrow> ln_error l \<noteq> None"
  shows "keys_ok e" "refs_ok e"
  using assms
  by (auto simp: add_link_Inr keys_ok_def refs_ok_def link_ok_def document_ok_def document_history_def
      preview_ok_def known_event_iff split: option.splits)

lemma insert_event_ok:
  assumes "keys_ok d" and "refs_ok d" and "\<not> known_event d (event_id v)"
  shows "keys_ok (insert_event now v d)" "refs_ok (insert_event now v d)"
  using assms
  by (auto simp: insert_event_def keys_ok_def refs_ok_def link_ok_def document_ok_def document_history_def
      preview_ok_def known_event_iff split: option.splits)

lemma drop_previews_ok:
  assumes "keys_ok d" and "refs_ok d"
  shows "keys_ok (drop_previews k d)" "refs_ok (drop_previews k d)"
  using assms
  by (auto simp: drop_previews_def keys_ok_def refs_ok_def link_ok_def document_ok_def document_history_def
      preview_ok_def known_event_iff distinct_map_filter split: option.splits)

lemma import_item_Inr:
  assumes "import_item now fp item (n, k, d) = Inr (n', k', e)"
  obtains (duplicate) "known_event d (event_id (pr_event item))" "n' = n" "k' = k + 1"
      "add_link \<lparr>ln_fingerprint = fp, ln_number = pr_number item,
         ln_event = Some (event_id (pr_event item)), ln_error = None\<rparr> d = Inr e"
    | (fresh) x where "\<not> known_event d (event_id (pr_event item))" "n' = n + 1" "k' = k"
      "add_link \<lparr>ln_fingerprint = fp, ln_number = pr_number item,
         ln_event = Some (event_id (pr_event item)), ln_error = None\<rparr>
         (append_audit now ''EVENT_IMPORTED'' ''event'' (event_id (pr_event item)) x
           (drop_previews (kiz (pr_event item)) (insert_event now (pr_event item) d))) = Inr e"
  using assms by (auto simp: import_item_def Let_def bind_Inr_iff split: if_splits)

section \<open>An import\<close>

lemma thread_keeps:
  assumes "thread f xs s = Inr t" and "P s"
    and "\<And>x s t. x \<in> set xs \<Longrightarrow> f x s = Inr t \<Longrightarrow> P s \<Longrightarrow> P t"
  shows "P t"
  using assms by (induction xs arbitrary: s) (auto simp: bind_Inr_iff)

lemma drop_previews_known [simp]: "known_event (drop_previews k d) = known_event d"
  by (simp add: fun_eq_iff known_event_iff drop_previews_def)

lemma insert_event_known [simp]: "known_event (insert_event now v d) i \<longleftrightarrow> i = event_id v \<or> known_event d i"
  by (auto simp: known_event_iff insert_event_def)

lemma import_item_ok:
  assumes "import_item now fp item (n, k, d) = Inr (n', k', e)" and "keys_ok d" and "refs_ok d"
  shows "keys_ok e \<and> refs_ok e"
  using assms(1)
proof (cases rule: import_item_Inr)
  case duplicate
  with assms(2,3) show ?thesis by (auto dest: add_link_ok)
next
  case (fresh x)
  from insert_event_ok [OF assms(2,3) fresh(1), of now]
  have "keys_ok (drop_previews (kiz (pr_event item)) (insert_event now (pr_event item) d))"
    "refs_ok (drop_previews (kiz (pr_event item)) (insert_event now (pr_event item) d))"
    by (simp_all add: drop_previews_ok)
  with fresh(4) show ?thesis by (auto dest: add_link_ok)
qed

lemma links_drop [simp]: "links_of (drop_previews k d) = links_of d" "imports_of (drop_previews k d) = imports_of d"
  "checks_of (drop_previews k d) = checks_of d" "events_of (drop_previews k d) = events_of d"
  by (simp_all add: drop_previews_def)

lemma links_insert [simp]: "links_of (insert_event now v d) = links_of d"
  "imports_of (insert_event now v d) = imports_of d" "checks_of (insert_event now v d) = checks_of d"
  by (simp_all add: insert_event_def)

text \<open>What a row adds to the counters.\<close>

lemma import_item_counts:
  assumes "import_item now fp item (n, k, d) = Inr (n', k', e)"
  shows "imports_of e = imports_of d \<and> n' + k' = n + k + 1 \<and> event_links fp e = event_links fp d + 1
    \<and> (\<forall>q. q \<noteq> fp \<longrightarrow> event_links q e = event_links q d) \<and> (\<forall>q. issue_links q e = issue_links q d)"
  using assms by (cases rule: import_item_Inr) (simp_all add: add_link_Inr event_links_def issue_links_def)

definition importing :: "pystr \<Rightarrow> event_db \<Rightarrow> nat \<times> nat \<times> event_db \<Rightarrow> bool" where
  "importing fp d s = (case s of (n, k, e) \<Rightarrow> keys_ok e \<and> refs_ok e \<and> imports_of e = imports_of d
     \<and> event_links fp e = n + k \<and> (\<forall>q. q \<noteq> fp \<longrightarrow> event_links q e = event_links q d)
     \<and> (\<forall>q. issue_links q e = issue_links q d))"

lemma import_items_keep:
  assumes "thread (import_item now fp) xs s = Inr t" and "importing fp d s"
  shows "importing fp d t"
  using assms(1)
proof (rule thread_keeps [where P = "importing fp d"])
  fix x s t
  assume *: "import_item now fp x s = Inr t" "importing fp d s"
  obtain n k e n' k' e' where st: "s = (n, k, e)" "t = (n', k', e')" by (metis prod_cases3)
  from * st import_item_ok [of now fp x n k e n' k' e'] import_item_counts [of now fp x n k e n' k' e']
  show "importing fp d t" by (simp add: importing_def)
qed (rule assms(2))

lemma import_issues_keep:
  assumes "thread (import_issue now fp) xs d = Inr e" and "keys_ok d" and "refs_ok d"
  shows "keys_ok e \<and> refs_ok e \<and> imports_of e = imports_of d \<and> (\<forall>q. event_links q e = event_links q d)
    \<and> issue_links fp e = issue_links fp d + length xs \<and> (\<forall>q. q \<noteq> fp \<longrightarrow> issue_links q e = issue_links q d)"
  using assms
proof (induction xs arbitrary: d)
  case (Cons x xs)
  then obtain b where b: "import_issue now fp x d = Inr b" "thread (import_issue now fp) xs b = Inr e"
    by (auto simp: bind_Inr_iff)
  from b(1) obtain c where c: "add_link \<lparr>ln_fingerprint = fp, ln_number = is_number x, ln_event = None,
      ln_error = Some (is_message x)\<rparr> d = Inr c" and bc: "keys_ok b = keys_ok c" "refs_ok b = refs_ok c"
      "imports_of b = imports_of c" "links_of b = links_of c"
    by (auto simp: import_issue_def bind_Inr_iff)
  from add_link_ok [OF c Cons.prems(2,3)] bc have "keys_ok b" "refs_ok b" by simp_all
  from Cons.IH [OF b(2) this] c bc show ?case
    by (auto simp: add_link_Inr event_links_def issue_links_def)
qed simp

lemma start_import_ok:
  assumes "existing_import fp d = None" and "event_db_ok d"
  shows "importing fp (start_import now fp name w d) (0, 0, start_import now fp name w d)"
    and "issue_links fp (start_import now fp name w d) = 0"
proof -
  have fp: "fp \<notin> im_fingerprint ` set (imports_of d)"
    using assms(1) by (simp add: existing_import_def lookup_row_None)
  have k: "known_event (start_import now fp name w d) = known_event d"
    by (simp add: fun_eq_iff known_event_iff start_import_def)
  from assms(2) fp have f: "\<forall>l\<in>set (links_of d). ln_fingerprint l \<noteq> fp"
    by (auto simp: event_db_ok_def refs_ok_def link_ok_def)
  have "keys_ok (start_import now fp name w d)"
    using assms(2) fp by (simp add: event_db_ok_def keys_ok_def start_import_def)
  moreover have "refs_ok (start_import now fp name w d)"
    using assms(2) k by (auto simp: event_db_ok_def refs_ok_def start_import_def link_ok_def document_ok_def
        document_history_def preview_ok_def split: option.splits)
  ultimately show "importing fp (start_import now fp name w d) (0, 0, start_import now fp name w d)"
    using f by (simp add: importing_def event_links_def start_import_def filter_empty_conv)
  show "issue_links fp (start_import now fp name w d) = 0"
    using f by (simp add: issue_links_def start_import_def filter_empty_conv)
qed

lemma import_workbook_Inr:
  assumes "import_workbook now fp name w d = Inr (r, d')"
  obtains (again) q where "existing_import fp d = Some q" "r = q"
      "d' = append_audit now ''IMPORT_REPEATED'' ''file'' fp (JObj []) d"
    | (first) n k b e x where "existing_import fp d = None"
      "thread (import_item now fp) (pw_rows w) (0, 0, start_import now fp name w d) = Inr (n, k, b)"
      "thread (import_issue now fp) (pw_issues w) b = Inr e"
      "d' = append_audit now ''IMPORT_COMPLETED'' ''file'' fp x (finish_import fp n k e)"
      "r = \<lparr>ir_fingerprint = fp, ir_new = n, ir_duplicate = k, ir_rejected = length (pw_issues w), ir_repeated = False\<rparr>"
  using assms by (auto simp: import_workbook_def bind_Inr_iff Let_def split: option.splits)

lemma import_workbook_ok:
  assumes "import_workbook now fp name w d = Inr (r, d')" and "event_db_ok d"
  shows "event_db_ok d'"
  using assms(1)
proof (cases rule: import_workbook_Inr)
  case (again q)
  with assms(2) show ?thesis by simp
next
  case (first n k b e x)
  let ?s = "start_import now fp name w d"
  from import_items_keep [OF first(2) start_import_ok(1) [OF first(1) assms(2)]]
  have b: "keys_ok b" "refs_ok b" "imports_of b = imports_of ?s" "event_links fp b = n + k"
    "\<And>q. q \<noteq> fp \<Longrightarrow> event_links q b = event_links q ?s" "\<And>q. issue_links q b = issue_links q ?s"
    by (simp_all add: importing_def)
  from import_issues_keep [OF first(3) b(1,2)] b start_import_ok(2) [OF first(1) assms(2)]
  have e: "keys_ok e" "refs_ok e" "imports_of e = imports_of ?s" "event_links fp e = n + k"
    "\<And>q. q \<noteq> fp \<Longrightarrow> event_links q e = event_links q ?s" "issue_links fp e = length (pw_issues w)"
    "\<And>q. q \<noteq> fp \<Longrightarrow> issue_links q e = issue_links q ?s"
    by simp_all
  have known: "known_event (finish_import fp n k e) = known_event e"
    by (simp add: fun_eq_iff known_event_iff finish_import_def)
  have links: "links_of (finish_import fp n k e) = links_of e" "links_of ?s = links_of d"
    by (simp_all add: finish_import_def start_import_def)
  have fps: "map im_fingerprint (imports_of (finish_import fp n k e)) = map im_fingerprint (imports_of e)"
    by (simp add: finish_import_def keys_update_rows)
  then have fps': "im_fingerprint ` set (imports_of (finish_import fp n k e)) = im_fingerprint ` set (imports_of e)"
    by (metis set_map)
  have "keys_ok (finish_import fp n k e)"
    using e(1) fps unfolding keys_ok_def by (simp add: finish_import_def)
  moreover have "refs_ok (finish_import fp n k e)"
    using e(2) fps' known unfolding refs_ok_def link_ok_def document_ok_def document_history_def preview_ok_def
    by (simp add: finish_import_def cong: option.case_cong)
  moreover have "counts_ok (finish_import fp n k e)"
    unfolding counts_ok_def
  proof
    fix m assume "m \<in> set (imports_of (finish_import fp n k e))"
    then consider q where "im_fingerprint q = fp" "q \<in> set (imports_of e)" "m = q\<lparr>im_new := n, im_duplicate := k\<rparr>"
      | "im_fingerprint m \<noteq> fp" "m \<in> set (imports_of e)"
      by (auto simp: finish_import_def set_update_rows split: if_splits)
    then show "im_new m + im_duplicate m = event_links (im_fingerprint m) (finish_import fp n k e)
      \<and> im_rejected m = issue_links (im_fingerprint m) (finish_import fp n k e)"
    proof cases
      case 1
      moreover from 1(2) e(3) have "q \<in> set (imports_of d) \<or> im_rejected q = length (pw_issues w)"
        by (auto simp: start_import_def)
      moreover from 1(1) first(1) have "q \<notin> set (imports_of d)"
        by (auto simp: existing_import_def lookup_row_None)
      ultimately show ?thesis using e(4,6) links by (simp add: event_links_def issue_links_def)
    next
      case 2
      with e(3) have "m \<in> set (imports_of d)" by (auto simp: start_import_def)
      with 2 assms(2) e(5,7) links show ?thesis
        by (simp add: event_db_ok_def counts_ok_def event_links_def issue_links_def)
    qed
  qed
  ultimately show ?thesis using first(4) by (simp add: event_db_ok_def)
qed

section \<open>Checks and documents\<close>

lemma put_preview_set:
  "p \<in> set (previews_of (put_preview q d)) \<longrightarrow> p \<in> set (previews_of d) \<and> pv_event p \<noteq> pv_event q
     \<or> pv_event p = pv_event q \<and> pv_check p = pv_check q"
proof
  assume p: "p \<in> set (previews_of (put_preview q d))"
  show "p \<in> set (previews_of d) \<and> pv_event p \<noteq> pv_event q \<or> pv_event p = pv_event q \<and> pv_check p = pv_check q"
  proof (cases "lookup_row pv_event (pv_event q) (previews_of d) = None")
    case True
    with p show ?thesis by (auto simp: put_preview_def lookup_row_None image_iff)
  next
    case False
    with p have "p \<in> set (update_rows pv_event (pv_event q) (\<lambda>r. r\<lparr>pv_check := pv_check q, pv_at := pv_at q\<rparr>)
        (previews_of d))" by (simp add: put_preview_def)
    then obtain r where "r \<in> set (previews_of d)"
      "p = (if pv_event r = pv_event q then r\<lparr>pv_check := pv_check q, pv_at := pv_at q\<rparr> else r)"
      by (auto simp: set_update_rows)
    then show ?thesis by (cases "pv_event r = pv_event q") simp_all
  qed
qed

lemma put_preview_keys:
  "distinct (map pv_event (previews_of d)) \<Longrightarrow> distinct (map pv_event (previews_of (put_preview q d)))"
  by (auto simp: put_preview_def lookup_row_None keys_update_rows)

lemma put_preview_frame [simp]:
  "imports_of (put_preview q d) = imports_of d" "events_of (put_preview q d) = events_of d"
  "links_of (put_preview q d) = links_of d" "checks_of (put_preview q d) = checks_of d"
  "next_check (put_preview q d) = next_check d" "documents_of (put_preview q d) = documents_of d"
  "observations_of (put_preview q d) = observations_of d"
  by (simp_all add: put_preview_def)

lemma save_check_Inr:
  assumes "save_check now i snapshot r src d = Inr (c, d')"
  obtains n e x where "known_event d i" "n = next_check d"
    "e = d\<lparr>checks_of := checks_of d @ [\<lparr>ck_id = n, ck_event = i, ck_source = src, ck_snapshot = snapshot,
       ck_outcome = r, ck_at = now\<rparr>], next_check := n + 1\<rparr>"
    "d' = append_audit now ''DRY_RUN_CHECKED'' ''event'' i x (put_preview \<lparr>pv_event = i, pv_check = n, pv_at = now\<rparr> e)"
    "c = \<lparr>cr_check = n, cr_event = i, cr_outcome = r\<rparr>"
  using assms by (auto simp: save_check_def Let_def split: if_splits)

lemma save_check_ok:
  assumes "save_check now i snapshot r src d = Inr (c, d')" and "event_db_ok d"
  shows "event_db_ok d'"
  using assms(1)
proof (cases rule: save_check_Inr)
  case (1 n e x)
  let ?p = "\<lparr>pv_event = i, pv_check = n, pv_at = now\<rparr>"
  have known: "known_event (put_preview ?p e) = known_event d"
    by (simp add: fun_eq_iff known_event_iff 1(3))
  have ids: "\<forall>c\<in>set (checks_of d). ck_id c < n" using assms(2) 1(2) by (simp add: event_db_ok_def refs_ok_def)
  have "keys_ok (put_preview ?p e)"
    using assms(2) ids put_preview_keys [of e ?p] by (auto simp: event_db_ok_def keys_ok_def 1(3))
  moreover have "preview_ok (put_preview ?p e) p" if "p \<in> set (previews_of (put_preview ?p e))" for p
  proof (cases "pv_event p = i")
    case True
    with that put_preview_set [of p ?p e] have "pv_check p = n" by simp
    with True ids show ?thesis by (auto simp: preview_ok_def 1(3) intro: order_less_imp_le)
  next
    case False
    with that put_preview_set [of p ?p e] have "p \<in> set (previews_of d)" by (simp add: 1(3))
    with assms(2) have "preview_ok d p" by (simp add: event_db_ok_def refs_ok_def)
    with False show ?thesis by (auto simp: preview_ok_def 1(3))
  qed
  moreover have "counts_ok (put_preview ?p e)"
    using assms(2) by (simp add: event_db_ok_def counts_ok_def event_links_def issue_links_def 1(3))
  moreover have "refs_ok (put_preview ?p e)"
    using assms(2) ids 1(1,2) known calculation(2) unfolding refs_ok_def link_ok_def document_ok_def event_db_ok_def
    by (auto simp: document_history_def 1(3) intro: less_SucI cong: option.case_cong)
  ultimately show ?thesis by (simp add: event_db_ok_def 1(4))
qed

lemma observe_frame [simp]:
  "imports_of (observe now k r d) = imports_of d" "events_of (observe now k r d) = events_of d"
  "links_of (observe now k r d) = links_of d" "checks_of (observe now k r d) = checks_of d"
  "next_check (observe now k r d) = next_check d" "documents_of (observe now k r d) = documents_of d"
  "previews_of (observe now k r d) = previews_of d" "known_event (observe now k r d) = known_event d"
  by (simp_all add: observe_def known_event_def fun_eq_iff)

text \<open>A document row and its observation arrive together.\<close>

lemma observed_ok:
  assumes "event_db_ok d" and "distinct (map dc_id rows)" and "q \<in> set rows" and "dc_report q = r"
    and "known_event d (dc_event q)" and "dc_id ` set (documents_of d) \<subseteq> dc_id ` set rows"
    and "\<And>p. p \<in> set rows \<Longrightarrow> dc_id p \<noteq> dc_id q \<Longrightarrow> p \<in> set (documents_of d)"
  shows "event_db_ok (observe now (dc_id q) r (d\<lparr>documents_of := rows\<rparr>))"
proof -
  let ?e = "observe now (dc_id q) r (d\<lparr>documents_of := rows\<rparr>)"
  have known: "known_event ?e = known_event d" by (simp add: known_event_def fun_eq_iff)
  have "document_ok ?e p" if "p \<in> set rows" for p
  proof (cases "dc_id p = dc_id q")
    case True
    with assms(2,3) that have "p = q" by (metis distinct_map inj_onD)
    with assms(4,5) known show ?thesis by (simp add: document_ok_def document_history_def observe_def)
  next
    case False
    with assms(7) that assms(1) have "document_ok d p" by (simp add: event_db_ok_def refs_ok_def)
    with False known show ?thesis by (simp add: document_ok_def document_history_def observe_def)
  qed
  moreover have "ob_document s \<in> dc_id ` set rows" if "s \<in> set (observations_of ?e)" for s
    using that assms(1,3,6) by (auto simp: observe_def event_db_ok_def refs_ok_def)
  ultimately show ?thesis
    using assms(1,2) known unfolding event_db_ok_def
    by (simp add: keys_ok_def refs_ok_def counts_ok_def link_ok_def preview_ok_def event_links_def
        issue_links_def cong: option.case_cong)
qed

lemma register_document_ok:
  assumes "register_document now i k d = Inr (u, d')" and "event_db_ok d"
  shows "event_db_ok d'"
proof (cases "lookup_row dc_id k (documents_of d)")
  case None
  let ?q = "\<lparr>dc_id = k, dc_event = i, dc_report = accepted_report, dc_created = now, dc_updated = now\<rparr>"
  from None assms obtain x where i: "known_event d i"
    and d': "d' = append_audit now ''DOCUMENT_REGISTERED'' ''document'' k x
      (observe now k accepted_report (d\<lparr>documents_of := documents_of d @ [?q]\<rparr>))"
    by (auto simp: register_document_def split: if_splits)
  from assms(2) have dist: "distinct (map dc_id (documents_of d))" by (simp add: event_db_ok_def keys_ok_def)
  from None have "k \<notin> dc_id ` set (documents_of d)" by (simp add: lookup_row_None)
  with dist i have "event_db_ok (observe now (dc_id ?q) accepted_report (d\<lparr>documents_of := documents_of d @ [?q]\<rparr>))"
    by (intro observed_ok [OF assms(2)]) auto
  then show ?thesis by (simp add: d')
next
  case (Some q)
  with assms show ?thesis by (auto simp: register_document_def split: if_splits)
qed

lemma update_document_Inr:
  assumes "update_document now k r d = Inr (r', d')"
  obtains (settled) "current_report k d = Inr r'" "terminal_report r'" "r = r'" "d' = d"
    | (unsettled) c x where "current_report k d = Inr c" "\<not> terminal_report c" "r' = r"
      "d' = append_audit now ''DOCUMENT_STATUS_OBSERVED'' ''document'' k x
        (observe now k r (d\<lparr>documents_of :=
          update_rows dc_id k (\<lambda>q. q\<lparr>dc_report := r, dc_updated := now\<rparr>) (documents_of d)\<rparr>))"
proof -
  from assms obtain c where c: "current_report k d = Inr c" by (auto simp: update_document_def bind_Inr_iff)
  show thesis
  proof (cases "terminal_report c")
    case True
    with assms c show thesis by (intro settled) (auto simp: update_document_def split: if_splits)
  next
    case False
    with assms c show thesis by (intro unsettled [OF c False]) (auto simp: update_document_def)
  qed
qed

lemma current_report_Inr:
  "current_report k d = Inr c \<longleftrightarrow> (\<exists>q. lookup_row dc_id k (documents_of d) = Some q \<and> dc_report q = c)"
  by (auto simp: current_report_def split: option.splits)

lemma update_document_ok:
  assumes "update_document now k r d = Inr (r', d')" and "event_db_ok d"
  shows "event_db_ok d'"
  using assms(1)
proof (cases rule: update_document_Inr)
  case (unsettled c x)
  let ?f = "\<lambda>q. q\<lparr>dc_report := r, dc_updated := now\<rparr>"
  from unsettled(1) obtain q where q: "lookup_row dc_id k (documents_of d) = Some q" by (auto simp: current_report_Inr)
  then have q': "q \<in> set (documents_of d)" "dc_id q = k" by (auto dest: lookup_row_Some)
  have keys: "map dc_id (update_rows dc_id k ?f (documents_of d)) = map dc_id (documents_of d)"
    by (rule keys_update_rows) simp
  from assms(2) have known: "known_event d (dc_event q)" and dist: "distinct (map dc_id (documents_of d))"
    using q'(1) by (simp_all add: event_db_ok_def refs_ok_def keys_ok_def document_ok_def)
  have "?f q \<in> set (update_rows dc_id k ?f (documents_of d))" using q' by (auto simp: set_update_rows)
  moreover have "dc_id ` set (documents_of d) \<subseteq> dc_id ` set (update_rows dc_id k ?f (documents_of d))"
    using keys by (metis order_refl set_map)
  moreover have "p \<in> set (documents_of d)"
    if "p \<in> set (update_rows dc_id k ?f (documents_of d))" "dc_id p \<noteq> k" for p
    using that by (auto simp: set_update_rows split: if_splits)
  ultimately have "event_db_ok (observe now k r (d\<lparr>documents_of := update_rows dc_id k ?f (documents_of d)\<rparr>))"
    using observed_ok [OF assms(2), of "update_rows dc_id k ?f (documents_of d)" "?f q" r now] known q' dist keys
    by simp
  with unsettled(4) show ?thesis by simp
qed (use assms(2) in simp)

section \<open>Steps and runs\<close>

lemma event_step_ok: "event_step d d' \<Longrightarrow> event_db_ok d \<Longrightarrow> event_db_ok d'"
  by (induction rule: event_step.induct)
    (auto intro: import_workbook_ok save_check_ok register_document_ok update_document_ok simp: audit_event_def)

lemma event_run_ok: "event_step\<^sup>*\<^sup>* d d' \<Longrightarrow> event_db_ok d \<Longrightarrow> event_db_ok d'"
  by (induction rule: rtranclp_induct) (auto intro: event_step_ok)

lemma empty_db_ok: "event_db_ok empty_db"
  by (simp add: event_ok_defs empty_db_def)

end
