(* ===== verification/EventServices.thy ===== *)
theory EventServices
  imports EventInvariants ControlEngine
begin

text \<open>
  The services over the event store: the import of a file and the dry run of \<open>wbcz/service.py\<close>, the
  document tracker of \<open>wbcz/status_verifier.py\<close> and the idempotent submission double of
  \<open>wbcz/submission.py\<close>. The workbook parser, the client that reads code states and the verifier that
  reads document states are arguments; a world keeps what they were asked beside the database.
\<close>

section \<open>Import of a file\<close>

definition max_file_bytes :: nat where
  "max_file_bytes = 50 * 1024 * 1024"

text \<open>The parser answers with a parsed workbook or with the message of its error.\<close>

definition import_file :: "(bytes \<Rightarrow> pystr + parsed_workbook) \<Rightarrow> pystr \<Rightarrow> pystr \<Rightarrow> bytes
    \<Rightarrow> (event_db, event_failure, import_report) op" where
  "import_file parse now name data d =
     (if max_file_bytes < length data then
        seq (commit (audit_event now ''IMPORT_FAILED'' ''file'' name (JObj [(''error'', JStr ''over 50 MiB'')])))
          (\<lambda>_. raise (WorkbookError ''over 50 MiB'')) d
      else let fp = sha256_hex data in
        case existing_import fp d of
          Some r \<Rightarrow> seq (commit (audit_event now ''IMPORT_REPEATED'' ''file'' fp (JObj []))) (\<lambda>_. ret r) d
        | None \<Rightarrow> (case parse data of
            Inl m \<Rightarrow> seq (commit (audit_event now ''IMPORT_FAILED'' ''file'' fp
                       (JObj [(''filename'', JStr name), (''error'', JStr m)])))
                     (\<lambda>_. raise (WorkbookError m)) d
          | Inr w \<Rightarrow> commit (import_workbook now fp name w) d))"

section \<open>The dry run\<close>

datatype state_answer = StateRead ki_state | NoState | StateRaised pystr pystr

record dry_run =
  dr_client :: "pystr \<Rightarrow> state_answer"
  dr_inn :: pystr
  dr_source :: pystr

definition new_dry_run :: "(pystr \<Rightarrow> state_answer) \<Rightarrow> pystr \<Rightarrow> pystr \<Rightarrow> event_failure + dry_run" where
  "new_dry_run client inn src =
     (case validate_owner_inn inn of Inl e \<Rightarrow> Inl (BadValue e)
      | Inr _ \<Rightarrow> if src = [] then Inl (BadValue ''source'')
          else Inr \<lparr>dr_client = client, dr_inn = inn, dr_source = src\<rparr>)"

text \<open>\<open>f"{type(exc).__name__}: {exc}"[:2000]\<close>.\<close>

definition failure_text :: "pystr \<Rightarrow> pystr \<Rightarrow> pystr" where
  "failure_text name message = take 2000 (name @ '': '' @ message)"

definition failed_lookup :: "pystr \<Rightarrow> pystr \<Rightarrow> outcome" where
  "failed_lookup name message = \<lparr>decision = ERROR, reason = ''STATE_LOOKUP_OR_NORMALIZATION_FAILED'',
     outcome_error = Some (failure_text name message)\<rparr>"

text \<open>The state is kept when the decision itself raises. The text of the \<open>TypeError\<close> is Cyrillic in the code.\<close>

definition looked_up :: "dry_run \<Rightarrow> event \<Rightarrow> ki_state option \<times> outcome" where
  "looked_up s v = (case dr_client s (kiz v) of
     StateRaised n m \<Rightarrow> (None, failed_lookup n m)
   | NoState \<Rightarrow> (None, failed_lookup ''TypeError'' ''not a KiState'')
   | StateRead st \<Rightarrow> (Some st, (case decide v st (dr_inn s) of
       Inl e \<Rightarrow> failed_lookup ''ValueError'' e | Inr r \<Rightarrow> r)))"

record event_world =
  ew_db :: event_db
  ew_asked :: "pystr list"

definition on_events :: "(event_db, event_failure, 'a) txn \<Rightarrow> (event_world, event_failure, 'a) op" where
  "on_events m w = (case m (ew_db w) of Inl e \<Rightarrow> (Inl e, w) | Inr (x, d) \<Rightarrow> (Inr x, w\<lparr>ew_db := d\<rparr>))"

definition ask :: "pystr \<Rightarrow> (event_world, event_failure, unit) op" where
  "ask k w = (Inr (), w\<lparr>ew_asked := ew_asked w @ [k]\<rparr>)"

definition check_event :: "dry_run \<Rightarrow> pystr \<Rightarrow> pystr \<Rightarrow> (event_world, event_failure, check_result) op" where
  "check_event s now i w = (case get_event i (ew_db w) of
     Inl e \<Rightarrow> raise e w
   | Inr v \<Rightarrow> seq (ask (kiz v)) (\<lambda>_. case looked_up s v of
       (st, r) \<Rightarrow> on_events (save_check now i st r (dr_source s))) w)"

fun check_each :: "dry_run \<Rightarrow> pystr \<Rightarrow> pystr list \<Rightarrow> (event_world, event_failure, check_result list) op" where
  "check_each s now [] = ret []"
| "check_each s now (i # is) = seq (check_event s now i) (\<lambda>c. seq (check_each s now is) (\<lambda>cs. ret (c # cs)))"

definition check_all :: "dry_run \<Rightarrow> pystr \<Rightarrow> (event_world, event_failure, check_result list) op" where
  "check_all s now w = check_each s now (map event_id (events None (ew_db w))) w"

section \<open>The document tracker\<close>

datatype report_answer = ReportRead document_report | NoReport | ReportRaised pystr pystr

definition answered_report :: "report_answer \<Rightarrow> document_report" where
  "answered_report a = (case a of
     ReportRead r \<Rightarrow> r
   | NoReport \<Rightarrow> \<lparr>report_status = DS_VERIFICATION_ERROR, report_error = Some (failure_text ''TypeError'' ''not a report'')\<rparr>
   | ReportRaised n m \<Rightarrow> \<lparr>report_status = DS_VERIFICATION_ERROR, report_error = Some (failure_text n m)\<rparr>)"

definition refresh :: "(pystr \<Rightarrow> report_answer) \<Rightarrow> pystr \<Rightarrow> pystr \<Rightarrow> (event_world, event_failure, document_report) op" where
  "refresh verifier now k w = (case current_report k (ew_db w) of
     Inl e \<Rightarrow> raise e w
   | Inr current \<Rightarrow>
       if terminal_report current then ret current w
       else seq (ask k) (\<lambda>_. on_events (update_document now k (answered_report (verifier k)))) w)"

section \<open>The submission double\<close>

record fake_submission =
  fs_calls :: nat
  fs_documents :: "(pystr \<times> bytes \<times> pystr) list"

definition fake_submit :: "bytes \<Rightarrow> pystr \<Rightarrow> (fake_submission, pystr, pystr) op" where
  "fake_submit payload key s0 =
     (let s = s0\<lparr>fs_calls := fs_calls s0 + 1\<rparr> in
      if key = [] then raise ''ValueError'' s
      else case map_of (fs_documents s) key of
        Some (p, i) \<Rightarrow> if p \<noteq> payload then raise ''ValueError'' s else ret i s
      | None \<Rightarrow> let i = ''fake-document-'' @ show_nat (length (fs_documents s) + 1) in
          ret i (s\<lparr>fs_documents := fs_documents s @ [(key, payload, i)]\<rparr>))"

section \<open>Contracts of the store\<close>

text \<open>What an import left of a file stays; what a final document status is stays.\<close>

definition import_of :: "event_db \<Rightarrow> pystr \<Rightarrow> import_row option" where
  "import_of d fp = lookup_row im_fingerprint fp (imports_of d)"

definition settled_report :: "event_db \<Rightarrow> pystr \<Rightarrow> document_report option option" where
  "settled_report d k = map_option (\<lambda>r. if terminal_report (dc_report r) then Some (dc_report r) else None)
     (lookup_row dc_id k (documents_of d))"

definition settled_rank :: "document_report option \<Rightarrow> nat" where
  "settled_rank r = (if r = None then 0 else 1)"

lemma import_items_frame:
  "thread (import_item now fp) xs (n, k, d) = Inr (n', k', e) \<Longrightarrow>
     imports_of e = imports_of d \<and> documents_of e = documents_of d \<and> checks_of e = checks_of d
     \<and> next_check e = next_check d"
proof (induction xs arbitrary: n k d)
  case (Cons x xs)
  then obtain a b c where s: "import_item now fp x (n, k, d) = Inr (a, b, c)"
      "thread (import_item now fp) xs (a, b, c) = Inr (n', k', e)" by (auto simp: bind_Inr_iff)
  from s(1) have "imports_of c = imports_of d \<and> documents_of c = documents_of d \<and> checks_of c = checks_of d
      \<and> next_check c = next_check d"
    by (cases rule: import_item_Inr) (simp_all add: add_link_Inr drop_previews_def insert_event_def)
  with Cons.IH [OF s(2)] show ?case by simp
qed simp

lemma import_issues_frame:
  "thread (import_issue now fp) xs d = Inr e \<Longrightarrow>
     imports_of e = imports_of d \<and> documents_of e = documents_of d \<and> checks_of e = checks_of d
     \<and> next_check e = next_check d \<and> events_of e = events_of d \<and> previews_of e = previews_of d"
  by (induction xs arbitrary: d) (fastforce simp: bind_Inr_iff import_issue_def add_link_Inr)+

lemma update_document_lookup:
  assumes "update_document now k r d = Inr (r', d')" and "lookup_row dc_id j (documents_of d) = Some q"
  shows "\<exists>q'. lookup_row dc_id j (documents_of d') = Some q'
    \<and> (dc_report q' = dc_report q \<or> \<not> terminal_report (dc_report q))"
  using assms(1)
proof (cases rule: update_document_Inr)
  case settled
  with assms(2) show ?thesis by simp
next
  case (unsettled c x)
  then show ?thesis using assms(2) by (auto simp: lookup_update_rows current_report_Inr)
qed

interpretation dl: lifecycle settled_report settled_rank event_step
proof
  fix d d' k a
  assume "event_step d d'" and a: "settled_report d k = Some a"
  then obtain q where q: "lookup_row dc_id k (documents_of d) = Some q"
    and "a = (if terminal_report (dc_report q) then Some (dc_report q) else None)"
    by (auto simp: settled_report_def)
  moreover from \<open>event_step d d'\<close> q have "\<exists>q'. lookup_row dc_id k (documents_of d') = Some q'
    \<and> (dc_report q' = dc_report q \<or> \<not> terminal_report (dc_report q))"
  proof cases
    case (imported now fp filename w r)
    from this show ?thesis
      by (cases rule: import_workbook_Inr)
        (use q in \<open>auto dest!: import_items_frame import_issues_frame simp: finish_import_def start_import_def\<close>)
  next
    case (checked now i snapshot r src c)
    from this show ?thesis by (cases rule: save_check_Inr) (use q in simp)
  next
    case (registered now i j u)
    with q show ?thesis
      by (auto simp: register_document_def lookup_row_append split: option.splits if_splits)
  next
    case (observed now j r r')
    from update_document_lookup [OF this q] show ?thesis .
  next
    case (noted now act t j details u)
    with q show ?thesis by (auto simp: audit_event_def)
  qed
  ultimately obtain q' where q': "lookup_row dc_id k (documents_of d') = Some q'"
      "dc_report q' = dc_report q \<or> \<not> terminal_report (dc_report q)"
    and a': "a = (if terminal_report (dc_report q) then Some (dc_report q) else None)" by blast
  show "\<exists>b. settled_report d' k = Some b \<and> (b = a \<or> settled_rank a < settled_rank b)"
    using q' by (intro exI [of _ "if terminal_report (dc_report q') then Some (dc_report q') else None"])
      (auto simp: settled_report_def settled_rank_def a')
qed

interpretation im: lifecycle import_of "\<lambda>_. 0" event_step
proof
  fix d d' k a
  assume "event_step d d'" and a: "import_of d k = Some a"
  then have "import_of d' k = Some a"
  proof cases
    case (imported now fp filename w r)
    from this show ?thesis
    proof (cases rule: import_workbook_Inr)
      case (again q)
      with a show ?thesis by (simp add: import_of_def)
    next
      case (first n j b e x)
      with a have "k \<noteq> fp" by (auto simp: import_of_def existing_import_def)
      with a first show ?thesis
        by (auto dest!: import_items_frame import_issues_frame
            simp: import_of_def finish_import_def start_import_def lookup_update_rows lookup_row_append)
    qed
  next
    case (checked now i snapshot r src c)
    from this show ?thesis by (cases rule: save_check_Inr) (use a in \<open>simp add: import_of_def\<close>)
  next
    case (registered now i j u)
    with a show ?thesis
      by (auto simp: import_of_def register_document_def split: option.splits if_splits)
  next
    case (observed now j r r')
    from this show ?thesis by (cases rule: update_document_Inr) (use a in \<open>simp_all add: import_of_def\<close>)
  next
    case (noted now act t j details u)
    with a show ?thesis by (auto simp: import_of_def audit_event_def)
  qed
  then show "\<exists>b. import_of d' k = Some b \<and> (b = a \<or> (0 :: nat) < 0)" by simp
qed

section \<open>Previews and histories\<close>

definition history :: "pystr \<Rightarrow> event_db \<Rightarrow> event_row list" where
  "history k d = filter (\<lambda>r. kiz (ev_event r) = k) (events_of d)"

text \<open>While the preview of an event still shows a given check, the history of its code is the one the
  check was made over.\<close>

definition fresh_preview :: "pystr \<Rightarrow> nat \<Rightarrow> event_row \<Rightarrow> event_row list \<Rightarrow> event_db \<Rightarrow> bool" where
  "fresh_preview i n row h d \<longleftrightarrow> n < next_check d \<and> row \<in> set (events_of d) \<and> ev_id row = i
     \<and> (\<forall>p\<in>set (previews_of d). pv_event p = i \<longrightarrow> pv_check p = n \<longrightarrow> history (kiz (ev_event row)) d = h)"

lemma fresh_import_item:
  assumes "import_item now fp item (a, b, d) = Inr (a', b', e)" and "fresh_preview i n row h d"
  shows "fresh_preview i n row h e"
  using assms(1)
proof (cases rule: import_item_Inr)
  case duplicate
  with assms(2) show ?thesis by (simp add: fresh_preview_def add_link_Inr history_def)
next
  case (fresh x)
  let ?v = "pr_event item"
  from fresh(4) have e: "next_check e = next_check d" "events_of e = events_of (insert_event now ?v d)"
    "previews_of e = previews_of (drop_previews (kiz ?v) (insert_event now ?v d))"
    by (simp_all add: add_link_Inr drop_previews_def insert_event_def)
  have "history (kiz (ev_event row)) e = h"
    if "p \<in> set (previews_of e)" "pv_event p = i" "pv_check p = n" for p
  proof -
    from that e(3) have p: "p \<in> set (previews_of d)"
      and "\<not> list_ex (\<lambda>r. ev_id r = i \<and> kiz (ev_event r) = kiz ?v) (events_of (insert_event now ?v d))"
      by (auto simp: drop_previews_def insert_event_def)
    with assms(2) have "kiz (ev_event row) \<noteq> kiz ?v"
      by (auto simp: fresh_preview_def list_ex_iff insert_event_def)
    with p that(2,3) assms(2) e(2) show ?thesis by (simp add: fresh_preview_def history_def insert_event_def)
  qed
  with assms(2) e(1,2) show ?thesis by (simp add: fresh_preview_def insert_event_def)
qed

lemma fresh_import_items:
  "thread (import_item now fp) xs (a, b, d) = Inr (a', b', e) \<Longrightarrow> fresh_preview i n row h d
     \<Longrightarrow> fresh_preview i n row h e"
proof (induction xs arbitrary: a b d)
  case (Cons x xs)
  then obtain a1 b1 d1 where "import_item now fp x (a, b, d) = Inr (a1, b1, d1)"
      "thread (import_item now fp) xs (a1, b1, d1) = Inr (a', b', e)" by (auto simp: bind_Inr_iff)
  with Cons.IH Cons.prems(2) fresh_import_item show ?case by blast
qed simp

lemma fresh_same:
  "fresh_preview i n row h d \<Longrightarrow> next_check e = next_check d \<Longrightarrow> events_of e = events_of d
     \<Longrightarrow> previews_of e = previews_of d \<Longrightarrow> fresh_preview i n row h e"
  by (simp add: fresh_preview_def history_def)

lemma fresh_step:
  assumes "event_step d d'" and f: "fresh_preview i n row h d"
  shows "fresh_preview i n row h d'"
  using assms(1)
proof cases
  case (imported now fp filename w r)
  from this show ?thesis
  proof (cases rule: import_workbook_Inr)
    case (again q)
    with f show ?thesis by (auto intro: fresh_same)
  next
    case (first a b e1 e x)
    have "fresh_preview i n row h (start_import now fp filename w d)"
      by (rule fresh_same [OF f]) (simp_all add: start_import_def)
    from fresh_import_items [OF first(2) this] have "fresh_preview i n row h e1" .
    then show ?thesis
      by (rule fresh_same) (use first(3,4) in \<open>auto dest!: import_issues_frame simp: finish_import_def\<close>)
  qed
next
  case (checked now j snapshot r src c)
  from this show ?thesis
  proof (cases rule: save_check_Inr)
    case (1 m e x)
    have "p \<in> set (previews_of d)" if "p \<in> set (previews_of d')" "pv_event p = i" "pv_check p = n" for p
      using that put_preview_set [of p "\<lparr>pv_event = j, pv_check = m, pv_at = now\<rparr>" e] f 1
      by (auto simp: fresh_preview_def)
    with f 1 show ?thesis by (auto simp: fresh_preview_def history_def)
  qed
next
  case (registered now j k u)
  with f show ?thesis
    by (auto simp: register_document_def split: option.splits if_splits intro: fresh_same)
next
  case (observed now k r r')
  from this show ?thesis by (cases rule: update_document_Inr) (use f in \<open>auto intro: fresh_same\<close>)
next
  case (noted now act t k details u)
  with f show ?thesis by (auto simp: audit_event_def intro: fresh_same)
qed

lemma fresh_run: "event_step\<^sup>*\<^sup>* d d' \<Longrightarrow> fresh_preview i n row h d \<Longrightarrow> fresh_preview i n row h d'"
  by (induction rule: rtranclp_induct) (auto intro: fresh_step)

section \<open>The checks of a dry run\<close>

lemma known_get: "known_event d i \<Longrightarrow> \<exists>v. get_event i d = Inr v"
  by (auto simp: known_event_def get_event_def)

lemma check_event_run:
  assumes "get_event i (ew_db w) = Inr v"
  obtains c w' where "check_event s now i w = (Inr c, w')" "cr_event c = i" "cr_outcome c = snd (looked_up s v)"
    "ew_asked w' = ew_asked w @ [kiz v]" "imports_of (ew_db w') = imports_of (ew_db w)"
    "events_of (ew_db w') = events_of (ew_db w)" "links_of (ew_db w') = links_of (ew_db w)"
    "documents_of (ew_db w') = documents_of (ew_db w)" "observations_of (ew_db w') = observations_of (ew_db w)"
proof -
  obtain st r where l: "looked_up s v = (st, r)" by (metis surj_pair)
  have "known_event (ew_db w) i"
    using assms by (auto simp: get_event_def known_event_def split: option.splits)
  then show thesis
    using assms l
    by (intro that [of "\<lparr>cr_check = next_check (ew_db w), cr_event = i, cr_outcome = r\<rparr>" "snd (check_event s now i w)"])
      (simp_all add: check_event_def seq_def ask_def on_events_def save_check_def Let_def)
qed

lemma get_event_cong: "events_of d = events_of e \<Longrightarrow> get_event i d = get_event i e"
  by (simp add: get_event_def)

lemma check_each_run:
  assumes "map (\<lambda>i. get_event i (ew_db w)) is = map Inr vs"
  shows "\<exists>cs w'. check_each s now is w = (Inr cs, w') \<and> map cr_event cs = is
    \<and> map cr_outcome cs = map (\<lambda>v. snd (looked_up s v)) vs \<and> ew_asked w' = ew_asked w @ map kiz vs
    \<and> imports_of (ew_db w') = imports_of (ew_db w) \<and> events_of (ew_db w') = events_of (ew_db w)
    \<and> links_of (ew_db w') = links_of (ew_db w) \<and> documents_of (ew_db w') = documents_of (ew_db w)
    \<and> observations_of (ew_db w') = observations_of (ew_db w)"
  using assms
proof (induction "is" arbitrary: w vs)
  case Nil
  then show ?case by (simp add: ret_def)
next
  case (Cons i js)
  then obtain v us where vs: "vs = v # us" "get_event i (ew_db w) = Inr v"
      "map (\<lambda>i. get_event i (ew_db w)) js = map Inr us" by (cases vs) auto
  obtain c w1 where c: "check_event s now i w = (Inr c, w1)" "cr_event c = i" "cr_outcome c = snd (looked_up s v)"
    "ew_asked w1 = ew_asked w @ [kiz v]" "imports_of (ew_db w1) = imports_of (ew_db w)"
    "events_of (ew_db w1) = events_of (ew_db w)" "links_of (ew_db w1) = links_of (ew_db w)"
    "documents_of (ew_db w1) = documents_of (ew_db w)" "observations_of (ew_db w1) = observations_of (ew_db w)"
    using check_event_run [OF vs(2)] by metis
  from vs(3) get_event_cong [OF c(6)] have "map (\<lambda>i. get_event i (ew_db w1)) js = map Inr us" by simp
  from Cons.IH [OF this] c vs(1) show ?case by (auto simp: seq_def ret_def)
qed

lemma events_found:
  assumes "event_db_ok d"
  shows "map (\<lambda>i. get_event i d) (map event_id (events None d)) = map Inr (events None d)"
proof -
  have "get_event (event_id (ev_event r)) d = Inr (ev_event r)" if "r \<in> set (events_of d)" for r
    using assms that lookup_row_in [of ev_id "events_of d" r]
    by (auto simp: event_db_ok_def keys_ok_def refs_ok_def get_event_def)
  then show ?thesis by (simp add: events_def)
qed

section \<open>Examples\<close>

definition demo_sale :: event where
  "demo_sale = \<lparr>kiz = ''KIZ'', task_number = ''1'', sticker = ''2'', operation = SALE, occurred_at = None,
     receipt_number = None, fiscal_drive_number = None, amount = Finite False 1050 (- 2), currency = ''RUB'',
     legal_entity_sale = Some False\<rparr>"

definition demo_workbook :: parsed_workbook where
  "demo_workbook = \<lparr>pw_rows = [\<lparr>pr_number = 2, pr_event = demo_sale\<rparr>],
     pw_issues = [\<lparr>is_number = 3, is_message = ''bad''\<rparr>], pw_ignored = []\<rparr>"

definition demo_import_report :: import_report where
  "demo_import_report = \<lparr>ir_fingerprint = ''f'', ir_new = 1, ir_duplicate = 0, ir_rejected = 1, ir_repeated = False\<rparr>"

definition demo_sale_row :: event_row where
  "demo_sale_row = \<lparr>ev_id = event_id demo_sale, ev_event = reload demo_sale, ev_created = ''t0''\<rparr>"

definition demo_imported :: event_db where
  "demo_imported = snd (projr (import_workbook ''t0'' ''f'' ''wb.xlsx'' demo_workbook empty_db))"

lemma demo_import:
  "import_workbook ''t0'' ''f'' ''wb.xlsx'' demo_workbook empty_db = Inr (demo_import_report, demo_imported)"
  "events_of demo_imported = [demo_sale_row]" "previews_of demo_imported = []" "documents_of demo_imported = []"
  "next_check demo_imported = 1" "checks_of demo_imported = []"
  by (simp_all add: demo_imported_def import_workbook_def demo_workbook_def existing_import_def empty_db_def
      import_item_def import_issue_def add_link_def known_event_def insert_event_def drop_previews_def
      append_audit_def start_import_def finish_import_def update_rows_def demo_import_report_def demo_sale_row_def Let_def)

lemma demo_imported_run: "event_step\<^sup>*\<^sup>* empty_db demo_imported"
  using event_step.imported [OF demo_import(1)] by blast

section \<open>Properties\<close>

text \<open>Every database the store's transactions can reach from the empty one has unique keys, events
  under the identity of their payload, references to rows that exist, import counters that count the
  rows of the import, at most one preview per event which is its last check, and documents whose
  status is the last one observed.\<close>

theorem event_store_invariant:
  assumes "event_step\<^sup>*\<^sup>* empty_db d"
  shows "event_db_ok d"
  using event_run_ok [OF assms empty_db_ok] .

theorem event_store_invariant_witness: "event_db_ok demo_imported \<and> events_of demo_imported = [demo_sale_row]"
  using event_store_invariant [OF demo_imported_run] demo_import(2) by simp

text \<open>A file is imported once: whatever happened in between, importing the same fingerprint again
  adds only an audit entry, and answers with no new event, every event of the first import as a
  duplicate, and the same number of rejected rows.\<close>

theorem import_is_idempotent:
  assumes "import_workbook now fp filename w d = Inr (r, d1)" and "event_step\<^sup>*\<^sup>* d1 d2"
  shows "import_workbook now' fp filename' w' d2 =
    Inr (r\<lparr>ir_new := 0, ir_duplicate := ir_new r + ir_duplicate r, ir_repeated := True\<rparr>,
         append_audit now' ''IMPORT_REPEATED'' ''file'' fp (JObj []) d2)"
proof -
  have "\<exists>m. import_of d1 fp = Some m \<and> im_rejected m = ir_rejected r
      \<and> im_new m + im_duplicate m = ir_new r + ir_duplicate r \<and> ir_fingerprint r = fp"
    using assms(1)
  proof (cases rule: import_workbook_Inr)
    case (again q)
    then show ?thesis by (auto simp: existing_import_def import_of_def)
  next
    case (first n k b e x)
    then have "imports_of e = imports_of (start_import now fp filename w d)"
      by (auto dest!: import_items_frame import_issues_frame)
    with first show ?thesis
      by (auto simp: import_of_def finish_import_def start_import_def lookup_update_rows lookup_row_append
          existing_import_def)
  qed
  then obtain m where m: "import_of d1 fp = Some m" "im_rejected m = ir_rejected r"
    "im_new m + im_duplicate m = ir_new r + ir_duplicate r" "ir_fingerprint r = fp" by blast
  from im.run_forward [OF assms(2) m(1)] have "lookup_row im_fingerprint fp (imports_of d2) = Some m"
    by (simp add: import_of_def)
  with m(2-4) show ?thesis by (cases r) (simp add: import_workbook_def existing_import_def)
qed

theorem import_is_idempotent_witness:
  "import_workbook ''t1'' ''f'' ''copy.xlsx'' demo_workbook demo_imported =
     Inr (\<lparr>ir_fingerprint = ''f'', ir_new = 0, ir_duplicate = 1, ir_rejected = 1, ir_repeated = True\<rparr>,
          append_audit ''t1'' ''IMPORT_REPEATED'' ''file'' ''f'' (JObj []) demo_imported)"
  using import_is_idempotent [OF demo_import(1) rtranclp.rtrancl_refl, of "''t1''" "''copy.xlsx''" demo_workbook]
  by (simp add: demo_import_report_def)

text \<open>A preview is never stale: while an event's preview shows a check, the recorded history of its
  code is the one that check was made over. A new event of the code takes the preview away.\<close>

theorem preview_over_current_history:
  assumes "save_check now i snapshot r src d = Inr (c, d0)" and "event_step\<^sup>*\<^sup>* d0 d'"
    and "row \<in> set (events_of d0)" and "ev_id row = i"
    and "p \<in> set (previews_of d')" and "pv_event p = i" and "pv_check p = cr_check c"
  shows "history (kiz (ev_event row)) d' = history (kiz (ev_event row)) d0"
proof -
  from assms(1) have "fresh_preview i (cr_check c) row (history (kiz (ev_event row)) d0) d0"
    using assms(3,4) by (cases rule: save_check_Inr) (simp add: fresh_preview_def)
  from fresh_run [OF assms(2) this] assms(5-7) show ?thesis by (simp add: fresh_preview_def)
qed

definition demo_checked :: event_db where
  "demo_checked = snd (projr (save_check ''t1'' (event_id demo_sale) None (outcome_of MANUAL_REVIEW ''OWNER_UNKNOWN'')
     ''mock'' demo_imported))"

theorem preview_over_current_history_witness: "history ''KIZ'' demo_checked = [demo_sale_row]"
proof -
  let ?i = "event_id demo_sale" and ?r = "outcome_of MANUAL_REVIEW ''OWNER_UNKNOWN''"
  let ?c = "\<lparr>cr_check = 1, cr_event = ?i, cr_outcome = ?r\<rparr>"
  have k: "known_event demo_imported ?i" by (simp add: known_event_def demo_import demo_sale_row_def)
  have s: "save_check ''t1'' ?i None ?r ''mock'' demo_imported = Inr (?c, demo_checked)"
    by (simp add: demo_checked_def save_check_def k Let_def demo_import)
  have e: "events_of demo_checked = [demo_sale_row]"
    "previews_of demo_checked = [\<lparr>pv_event = ?i, pv_check = 1, pv_at = ''t1''\<rparr>]"
    by (simp_all add: demo_checked_def save_check_def k Let_def demo_import put_preview_def append_audit_def)
  from preview_over_current_history [OF s rtranclp.rtrancl_refl, of demo_sale_row] e
  show ?thesis by (simp add: demo_sale_row_def history_def demo_sale_def)
qed

text \<open>A document status that is final stays what it is, whatever is observed, registered or imported
  later.\<close>

theorem settled_document_is_final:
  assumes "event_step\<^sup>*\<^sup>* d d'" and "current_report k d = Inr r" and "terminal_report r"
  shows "current_report k d' = Inr r"
proof -
  from assms(2,3) have "settled_report d k = Some (Some r)"
    by (auto simp: settled_report_def current_report_Inr)
  from dl.terminal_final [OF assms(1) this] have "settled_report d' k = Some (Some r)"
    by (simp add: settled_rank_def)
  then show ?thesis by (auto simp: settled_report_def current_report_Inr split: if_splits)
qed

definition demo_done :: document_report where
  "demo_done = \<lparr>report_status = DS_SUCCEEDED, report_error = None\<rparr>"

definition demo_with_document :: event_db where
  "demo_with_document = demo_imported\<lparr>documents_of := [\<lparr>dc_id = ''doc'', dc_event = event_id demo_sale,
     dc_report = demo_done, dc_created = ''t1'', dc_updated = ''t1''\<rparr>]\<rparr>"

theorem settled_document_is_final_witness:
  "current_report ''doc'' (append_audit ''t2'' ''NOTE'' ''document'' ''doc'' JNull demo_with_document) = Inr demo_done"
proof -
  have "event_step demo_with_document (append_audit ''t2'' ''NOTE'' ''document'' ''doc'' JNull demo_with_document)"
    by (rule event_step.noted [where u = "()"]) (simp add: audit_event_def)
  then show ?thesis
    using settled_document_is_final [OF r_into_rtranclp, of _ _ "''doc''" demo_done]
    by (simp add: current_report_def demo_with_document_def terminal_report_def demo_done_def)
qed

text \<open>A dry run checks every event once, in display order: it asks for the state of each event's code,
  answers with the decision over that state or with the failure of the lookup, and changes no import,
  event, or document. It always ends with a result for every event.\<close>

theorem dry_run_checks_every_event:
  assumes "event_db_ok (ew_db w)"
  shows "\<exists>cs w'. check_all s now w = (Inr cs, w')
    \<and> map cr_event cs = map event_id (events None (ew_db w))
    \<and> map cr_outcome cs = map (\<lambda>v. snd (looked_up s v)) (events None (ew_db w))
    \<and> ew_asked w' = ew_asked w @ map kiz (events None (ew_db w))
    \<and> imports_of (ew_db w') = imports_of (ew_db w) \<and> events_of (ew_db w') = events_of (ew_db w)
    \<and> links_of (ew_db w') = links_of (ew_db w) \<and> documents_of (ew_db w') = documents_of (ew_db w)
    \<and> observations_of (ew_db w') = observations_of (ew_db w)"
  unfolding check_all_def by (rule check_each_run [OF events_found [OF assms]])

theorem dry_run_checks_every_event_witness:
  "\<exists>cs w'. check_all \<lparr>dr_client = \<lambda>_. NoState, dr_inn = ''7700000000'', dr_source = ''mock''\<rparr> ''t1''
      \<lparr>ew_db = demo_imported, ew_asked = []\<rparr> = (Inr cs, w') \<and> ew_asked w' = [''KIZ'']
    \<and> map cr_outcome cs = [failed_lookup ''TypeError'' ''not a KiState'']"
  using dry_run_checks_every_event [of "\<lparr>ew_db = demo_imported, ew_asked = []\<rparr>"
      "\<lparr>dr_client = \<lambda>_. NoState, dr_inn = ''7700000000'', dr_source = ''mock''\<rparr>" "''t1''"]
    event_run_ok [OF demo_imported_run empty_db_ok]
  by (auto simp: events_def demo_import demo_sale_row_def looked_up_def demo_sale_def)

text \<open>Refreshing a document asks the verifier unless the status is final, records what it answered, and
  turns a failed answer into a status that a later refresh asks for again.\<close>

theorem refresh_records_answer:
  assumes "current_report k (ew_db w) = Inr c"
  shows "(terminal_report c \<longrightarrow> refresh verifier now k w = (Inr c, w))
    \<and> (\<not> terminal_report c \<longrightarrow> (\<exists>w'. refresh verifier now k w = (Inr (answered_report (verifier k)), w')
        \<and> current_report k (ew_db w') = Inr (answered_report (verifier k)) \<and> ew_asked w' = ew_asked w @ [k]
        \<and> (\<forall>n m. verifier k = ReportRaised n m \<longrightarrow> \<not> terminal_report (answered_report (verifier k)))))"
  using assms
  by (auto simp: refresh_def ret_def seq_def ask_def on_events_def update_document_def current_report_def
      lookup_update_rows answered_report_def terminal_report_def split: option.splits report_answer.splits)

theorem refresh_records_answer_witness:
  "refresh (\<lambda>_. NoReport) ''t2'' ''doc'' \<lparr>ew_db = demo_with_document, ew_asked = []\<rparr>
     = (Inr demo_done, \<lparr>ew_db = demo_with_document, ew_asked = []\<rparr>)"
  using refresh_records_answer [of "''doc''" "\<lparr>ew_db = demo_with_document, ew_asked = []\<rparr>" demo_done "\<lambda>_. NoReport" "''t2''"]
  by (simp add: current_report_def demo_with_document_def demo_done_def terminal_report_def)

end
