(* ===== verification/WbParser.thy ===== *)
theory WbParser
  imports EventStore "HOL-Library.Multiset"
begin

text \<open>
  The rows of a Wildberries workbook (\<open>wbcz/wb_parser.py\<close>): the validators of the ten columns, the
  parsed event and the loop over the rows. What openpyxl reads of a cell is the input. Arguments:
  \<open>word\<close>, the operation a casefolded Cyrillic word names; \<open>instant\<close>, what \<open>fromisoformat\<close> or one of
  the four \<open>strptime\<close> formats reads in a text. A text here holds characters up to U+00FF, so the
  Cyrillic spellings of yes, no and of the ruble do not occur in it. Messages are kept by their
  column. Times are microseconds; a naive time is Moscow time.
\<close>

section \<open>Cells\<close>

text \<open>An integral float carries its integer; \<open>CFloat\<close> and \<open>COther\<close> keep what \<open>str\<close> gives.\<close>

datatype cell =
    CNone
  | CText pystr
  | CBool bool
  | CInt int
  | CFloat "int option" pystr
  | CTime py_datetime pystr
  | CDay int pystr
  | COther pystr

text \<open>\<open>value.strip(" \t\r\n")\<close>: unlike the bare \<open>strip\<close> it keeps the group separator.\<close>

definition outer_char :: "char \<Rightarrow> bool" where
  "outer_char c \<longleftrightarrow> code c \<in> {32, 9, 13, 10}"

definition cell_text :: "pystr \<Rightarrow> pystr" where
  "cell_text s = rev (dropWhile outer_char (rev (dropWhile outer_char s)))"

definition blank_cell :: "cell \<Rightarrow> bool" where
  "blank_cell v = (case v of CNone \<Rightarrow> True | CText s \<Rightarrow> cell_text s = [] | _ \<Rightarrow> False)"

type_synonym 'a column = "pystr + 'a"

section \<open>Columns\<close>

definition identifier_column :: "pystr \<Rightarrow> bool \<Rightarrow> bool \<Rightarrow> cell \<Rightarrow> pystr option column" where
  "identifier_column name needed text_only v =
     (if blank_cell v then (if needed then Inl (name @ '' required'') else Inr None)
      else case v of
        CText s \<Rightarrow> Inr (Some (cell_text s))
      | _ \<Rightarrow>
        if text_only then Inl (name @ '' text format'')
        else case v of
          CInt i \<Rightarrow> if 0 \<le> i \<and> i < 10 ^ 15 then Inr (Some (show_int i)) else Inl (name @ '' digits'')
        | CFloat (Some i) _ \<Rightarrow> if 0 \<le> i \<and> i < 10 ^ 15 then Inr (Some (show_int i)) else Inl (name @ '' digits'')
        | _ \<Rightarrow> Inl (name @ '' digits''))"

text \<open>
  \<open>Decimal(text)\<close>: an optional sign, digits with at most one point, an optional exponent; or a name
  of an infinity or of a NaN. Outer blanks and underscores do not count.
\<close>

definition decimal_digits :: "pystr \<Rightarrow> nat" where
  "decimal_digits s = fold (\<lambda>c n. n * 10 + (code c - 48)) s 0"

definition split_sign :: "pystr \<Rightarrow> bool \<times> pystr" where
  "split_sign s = (case s of [] \<Rightarrow> (False, [])
     | c # r \<Rightarrow> if c = CHR ''-'' then (True, r) else if c = CHR ''+'' then (False, r) else (False, s))"

definition exponent_part :: "pystr \<Rightarrow> int option" where
  "exponent_part s = (case s of
     [] \<Rightarrow> Some 0
   | c # r \<Rightarrow> if c \<notin> {CHR ''e'', CHR ''E''} then None
       else case split_sign r of (neg, ds) \<Rightarrow>
         if ds \<noteq> [] \<and> list_all digit_char ds
         then Some (if neg then - int (decimal_digits ds) else int (decimal_digits ds)) else None)"

definition decimal_number :: "bool \<Rightarrow> pystr \<Rightarrow> decimal option" where
  "decimal_number neg s =
     (let whole = takeWhile digit_char s; r = dropWhile digit_char s;
          pointed = (case r of c # _ \<Rightarrow> c = CHR ''.'' | [] \<Rightarrow> False);
          frac = (if pointed then takeWhile digit_char (tl r) else []);
          rest = (if pointed then dropWhile digit_char (tl r) else r) in
      if whole @ frac = [] then None
      else map_option (\<lambda>e. Finite neg (decimal_digits (whole @ frac)) (e - int (length frac))) (exponent_part rest))"

definition decimal_of :: "pystr \<Rightarrow> decimal option" where
  "decimal_of s0 =
     (let s = filter (\<lambda>c. c \<noteq> CHR ''_'') (strip s0) in
      case split_sign s of (neg, t) \<Rightarrow>
        let w = casefold t in
        if w \<in> {''inf'', ''infinity''} then Some Infinite
        else if startswith w ''nan'' \<and> list_all digit_char (drop 3 w)
          \<or> startswith w ''snan'' \<and> list_all digit_char (drop 4 w) then Some NaN
        else decimal_number neg t)"

definition amount_source :: "cell \<Rightarrow> pystr option" where
  "amount_source v = (if blank_cell v then None else case v of
     CBool _ \<Rightarrow> None | CNone \<Rightarrow> None | CText s \<Rightarrow> Some s | CInt i \<Rightarrow> Some (show_int i)
   | CFloat _ s \<Rightarrow> Some s | CTime _ s \<Rightarrow> Some s | CDay _ s \<Rightarrow> Some s | COther s \<Rightarrow> Some s)"

definition amount_text_of :: "pystr \<Rightarrow> pystr" where
  "amount_text_of s = map (\<lambda>c. if c = CHR '','' then CHR ''.'' else c)
     (filter (\<lambda>c. c \<noteq> CHR '' '' \<and> code c \<noteq> 160) s)"

text \<open>The rounded amount; a zero loses its sign.\<close>

definition amount_column :: "cell \<Rightarrow> decimal column" where
  "amount_column v = (case amount_source v of
     None \<Rightarrow> Inl ''amount number''
   | Some s \<Rightarrow> (case decimal_of (amount_text_of s) of
       Some (Finite neg c e) \<Rightarrow>
         if too_big c e then Inl ''amount value''
         else if \<not> whole_cents c e then Inl ''amount places''
         else Inr (Finite (neg \<and> cents c e \<noteq> 0) (cents c e) (- 2))
     | Some _ \<Rightarrow> Inl ''amount value''
     | None \<Rightarrow> Inl ''amount unreadable''))"

definition currency_column :: "cell \<Rightarrow> pystr column" where
  "currency_column v = (case v of
     CText s \<Rightarrow>
       let n = upper (cell_text s); m = (if n = ''RUR'' then ''RUB'' else n) in
       if length m = 3 \<and> list_all upper_char m then Inr m else Inl ''currency code''
   | _ \<Rightarrow> Inl ''currency text'')"

definition moscow :: int where
  "moscow = 3 * 3600 * 1000000"

definition day_us :: int where
  "day_us = 86400 * 1000000"

definition to_utc :: "py_datetime \<Rightarrow> py_datetime" where
  "to_utc t = (case t of Naive us \<Rightarrow> Aware (us - moscow) | Aware us \<Rightarrow> Aware us)"

definition date_column :: "(pystr \<Rightarrow> py_datetime option) \<Rightarrow> cell \<Rightarrow> py_datetime option column" where
  "date_column instant v =
     (if blank_cell v then Inr None
      else case (case v of CTime t _ \<Rightarrow> Some t | CDay d _ \<Rightarrow> Some (Naive (d * day_us))
                 | CText s \<Rightarrow> instant (cell_text s) | _ \<Rightarrow> None) of
        None \<Rightarrow> Inl ''date'' | Some t \<Rightarrow> Inr (Some (to_utc t)))"

definition legal_column :: "cell \<Rightarrow> bool option column" where
  "legal_column v =
     (if blank_cell v then Inr None
      else case v of
        CBool b \<Rightarrow> Inr (Some b)
      | CInt i \<Rightarrow> if i \<in> {0, 1} then Inr (Some (i = 1)) else Inl ''legal entity''
      | CFloat (Some i) _ \<Rightarrow> if i \<in> {0, 1} then Inr (Some (i = 1)) else Inl ''legal entity''
      | CText s \<Rightarrow>
          let t = casefold (cell_text s) in
          if t \<in> {''true'', ''1''} then Inr (Some True)
          else if t \<in> {''false'', ''0''} then Inr (Some False) else Inl ''legal entity''
      | _ \<Rightarrow> Inl ''legal entity'')"

section \<open>Rows\<close>

text \<open>The cells of a row under the ten headers; \<open>cl_bad\<close>: one of them is a formula or an error.\<close>

record row_cells =
  cl_task :: cell
  cl_sticker :: cell
  cl_kiz :: cell
  cl_receipt :: cell
  cl_amount :: cell
  cl_currency :: cell
  cl_drive :: cell
  cl_date :: cell
  cl_operation :: cell
  cl_legal :: cell
  cl_bad :: bool

definition needed_text :: "pystr option column \<Rightarrow> pystr column" where
  "needed_text r = bind r (\<lambda>v. case v of None \<Rightarrow> Inl ''AssertionError'' | Some s \<Rightarrow> Inr s)"

definition parse_row :: "(pystr \<Rightarrow> operation option) \<Rightarrow> (pystr \<Rightarrow> py_datetime option) \<Rightarrow> row_cells \<Rightarrow> event column" where
  "parse_row word instant v = (case cl_operation v of
     CText s \<Rightarrow> (case word (casefold (cell_text s)) of
       None \<Rightarrow> Inl ''operation unknown''
     | Some p \<Rightarrow>
         bind (needed_text (identifier_column ''KIZ'' True True (cl_kiz v))) (\<lambda>k.
         bind (needed_text (identifier_column ''task'' True False (cl_task v))) (\<lambda>t.
         bind (needed_text (identifier_column ''sticker'' True False (cl_sticker v))) (\<lambda>q.
         bind (date_column instant (cl_date v)) (\<lambda>d.
         bind (identifier_column ''receipt'' False False (cl_receipt v)) (\<lambda>rc.
         bind (identifier_column ''drive'' False False (cl_drive v)) (\<lambda>fd.
         bind (amount_column (cl_amount v)) (\<lambda>a.
         bind (currency_column (cl_currency v)) (\<lambda>cur.
         bind (legal_column (cl_legal v)) (\<lambda>l.
           map_error (\<lambda>_. ''event'') (event_post_init
             \<lparr>kiz = k, task_number = t, sticker = q, operation = p, occurred_at = d, receipt_number = rc,
              fiscal_drive_number = fd, amount = a, currency = cur, legal_entity_sale = l\<rparr>)))))))))))
   | _ \<Rightarrow> Inl ''operation text'')"

definition max_rows :: nat where
  "max_rows = 200000"

definition all_blank :: "row_cells \<Rightarrow> bool" where
  "all_blank v \<longleftrightarrow> list_all blank_cell [cl_task v, cl_sticker v, cl_kiz v, cl_receipt v, cl_amount v,
     cl_currency v, cl_drive v, cl_date v, cl_operation v, cl_legal v]"

definition dash_row :: "row_cells \<Rightarrow> bool" where
  "dash_row v = (case cl_operation v of CText s \<Rightarrow> cell_text s = ''-'' | _ \<Rightarrow> False)"

text \<open>The loop over the rows below the header, numbered from 2. The clock check is left out.\<close>

fun parse_rows :: "(pystr \<Rightarrow> operation option) \<Rightarrow> (pystr \<Rightarrow> py_datetime option) \<Rightarrow> nat \<Rightarrow> row_cells list
    \<Rightarrow> parsed_workbook column" where
  "parse_rows word instant n [] = Inr \<lparr>pw_rows = [], pw_issues = [], pw_ignored = []\<rparr>"
| "parse_rows word instant n (v # vs) =
     (if max_rows + 1 < n then Inl ''too many rows''
      else bind (parse_rows word instant (n + 1) vs) (\<lambda>w. Inr
        (if all_blank v then w
         else if dash_row v then w\<lparr>pw_ignored := n # pw_ignored w\<rparr>
         else case (if cl_bad v then Inl ''formula'' else parse_row word instant v) of
           Inl m \<Rightarrow> w\<lparr>pw_issues := \<lparr>is_number = n, is_message = m\<rparr> # pw_issues w\<rparr>
         | Inr e \<Rightarrow> w\<lparr>pw_rows := \<lparr>pr_number = n, pr_event = e\<rparr> # pw_rows w\<rparr>)))"

section \<open>Facts\<close>

lemma cents_cents [simp]: "cents (cents c e) (- 2) = cents c e"
  by (simp add: cents_def)

lemma amount_column_Inr:
  assumes "amount_column v = Inr a"
  shows "\<exists>neg n. a = Finite neg n (- 2) \<and> (neg \<longrightarrow> n \<noteq> 0)"
  using assms by (auto simp: amount_column_def split: option.splits decimal.splits if_splits)

lemma parse_row_Inr:
  assumes "parse_row word instant v = Inr e"
  shows "event_post_init e = Inr e" "\<exists>neg n. amount e = Finite neg n (- 2) \<and> (neg \<longrightarrow> n \<noteq> 0)"
proof -
  from assms obtain e' where e': "event_post_init e' = Inr e" "amount_column (cl_amount v) = Inr (amount e')"
    by (auto simp: parse_row_def bind_Inr_iff split: cell.splits option.splits)
  have "e = e'" using e'(1) by (auto simp: event_post_init_def split: if_splits decimal.splits)
  with e' amount_column_Inr [OF e'(2)]
  show "event_post_init e = Inr e" "\<exists>neg n. amount e = Finite neg n (- 2) \<and> (neg \<longrightarrow> n \<noteq> 0)" by simp_all
qed

definition numbers :: "parsed_workbook \<Rightarrow> nat list" where
  "numbers w = map pr_number (pw_rows w) @ map is_number (pw_issues w) @ pw_ignored w"

lemma parse_rows_numbers:
  assumes "parse_rows word instant n vs = Inr w"
  shows "mset (numbers w) = mset (map fst (filter (\<lambda>p. \<not> all_blank (snd p)) (zip [n..<n + length vs] vs)))"
  using assms
proof (induction vs arbitrary: n w)
  case (Cons v vs)
  then obtain u where u: "parse_rows word instant (n + 1) vs = Inr u"
    by (auto simp: bind_Inr_iff split: if_splits)
  have z: "[n..<n + length (v # vs)] = n # [n + 1..<n + 1 + length vs]" by (simp add: upt_rec)
  define l where "l = [n + 1..<n + 1 + length vs]"
  from Cons.IH [OF u] have "mset (numbers u) = mset (map fst (filter (\<lambda>p. \<not> all_blank (snd p)) (zip l vs)))"
    by (simp only: l_def)
  moreover from Cons.prems u have "mset (numbers w) = (if all_blank v then {#} else {#n#}) + mset (numbers u)"
    by (auto simp: numbers_def split: if_splits sum.splits)
  ultimately show ?case unfolding z l_def [symmetric] by simp
qed (simp add: numbers_def)

section \<open>Properties\<close>

text \<open>What the parser accepts is a valid event, and the store gives it back unchanged.\<close>

theorem parsed_event_survives_store:
  assumes "parse_row word instant v = Inr e"
  shows "event_post_init e = Inr e \<and> reload e = e"
proof -
  from parse_row_Inr [OF assms] obtain neg n where "event_post_init e = Inr e" "amount e = Finite neg n (- 2)"
    by blast
  then show ?thesis by (cases e) (simp add: reload_def cents_def)
qed

definition demo_row :: row_cells where
  "demo_row = \<lparr>cl_task = CInt 17, cl_sticker = CText ''S1'', cl_kiz = CText '' KIZ '', cl_receipt = CNone,
     cl_amount = CText ''1 050,5'', cl_currency = CText ''rur'', cl_drive = CNone,
     cl_date = CTime (Naive 5400000000) '''', cl_operation = CText ''sale'', cl_legal = CText ''0'', cl_bad = False\<rparr>"

definition demo_word :: "pystr \<Rightarrow> operation option" where
  "demo_word s = (if s = ''sale'' then Some SALE else if s = ''return'' then Some RETURN else None)"

definition demo_parsed :: event where
  "demo_parsed = \<lparr>kiz = ''KIZ'', task_number = ''17'', sticker = ''S1'', operation = SALE,
     occurred_at = Some (Aware (5400000000 - moscow)), receipt_number = None, fiscal_drive_number = None,
     amount = Finite False 105050 (- 2), currency = ''RUB'', legal_entity_sale = Some False\<rparr>"

lemma demo_columns:
  "identifier_column ''KIZ'' True True (CText '' KIZ '') = Inr (Some ''KIZ'')"
  "identifier_column ''task'' True False (CInt 17) = Inr (Some ''17'')"
  "identifier_column ''sticker'' True False (CText ''S1'') = Inr (Some ''S1'')"
  "identifier_column ''receipt'' False False CNone = Inr None"
  "identifier_column ''drive'' False False CNone = Inr None"
  "date_column (\<lambda>_. None) (CTime (Naive 5400000000) '''') = Inr (Some (Aware (5400000000 - moscow)))"
  "currency_column (CText ''rur'') = Inr ''RUB''" "legal_column (CText ''0'') = Inr (Some False)"
  "decimal_of (amount_text_of ''1 050,5'') = Some (Finite False 10505 (- 1))"
  "amount_source (CText ''1 050,5'') = Some ''1 050,5''" "demo_word (casefold (cell_text ''sale'')) = Some SALE"
  by code_simp+

lemma demo_row_parses: "parse_row demo_word (\<lambda>_. None) demo_row = Inr demo_parsed"
  by (simp add: parse_row_def demo_row_def demo_columns needed_text_def amount_column_def too_big_def
      whole_cents_def cents_def event_post_init_def demo_parsed_def aware_def)

theorem parsed_event_survives_store_witness:
  "event_post_init demo_parsed = Inr demo_parsed \<and> reload demo_parsed = demo_parsed"
  by (rule parsed_event_survives_store [OF demo_row_parses])

lemma numbered_set:
  "fst ` {p \<in> set (zip [k..<k + length vs] vs). Q (snd p)} = {k + i |i. i < length vs \<and> Q (vs ! i)}"
  by (force simp: set_zip simp del: upt.simps)

text \<open>Every row that is not blank is accounted for once: as an event, as an issue or as ignored.\<close>

theorem every_row_is_accounted_for:
  assumes "parse_rows word instant 2 vs = Inr w"
  shows "distinct (numbers w)
    \<and> set (numbers w) = {2 + i |i. i < length vs \<and> \<not> all_blank (vs ! i)}"
proof -
  let ?l = "map fst (filter (\<lambda>p. \<not> all_blank (snd p)) (zip [2..<2 + length vs] vs))"
  have m: "mset (numbers w) = mset ?l" by (rule parse_rows_numbers [OF assms])
  have "distinct ?l" by (rule distinct_map_filter) simp
  with m have "distinct (numbers w)" by (metis mset_eq_imp_distinct_iff)
  moreover have "set (numbers w) = {2 + i |i. i < length vs \<and> \<not> all_blank (vs ! i)}"
    unfolding mset_eq_setD [OF m] set_map set_filter by (rule numbered_set)
  ultimately show ?thesis ..
qed

theorem every_row_is_accounted_for_witness:
  "\<exists>w. parse_rows demo_word (\<lambda>_. None) 2 [demo_row, demo_row\<lparr>cl_bad := True\<rparr>] = Inr w
     \<and> distinct (numbers w) \<and> set (numbers w) = {2, 3}"
proof -
  let ?w = "\<lparr>pw_rows = [\<lparr>pr_number = 2, pr_event = demo_parsed\<rparr>],
    pw_issues = [\<lparr>is_number = 3, is_message = ''formula''\<rparr>], pw_ignored = []\<rparr>"
  have b: "\<not> all_blank demo_row" "\<not> dash_row demo_row" "cl_bad demo_row = False" by code_simp+
  then have b': "\<not> all_blank (demo_row\<lparr>cl_bad := True\<rparr>)" "\<not> dash_row (demo_row\<lparr>cl_bad := True\<rparr>)"
    by (simp_all add: all_blank_def dash_row_def)
  have "parse_rows demo_word (\<lambda>_. None) 2 [demo_row, demo_row\<lparr>cl_bad := True\<rparr>] = Inr ?w"
    using b b' demo_row_parses by (simp add: max_rows_def)
  from this every_row_is_accounted_for [OF this] show ?thesis by (auto simp: numbers_def)
qed

end
