(* ===== verification/DocumentAssembler.thy ===== *)
theory DocumentAssembler
  imports WbParser WriteAdapter
begin

text \<open>
  The assembler of business documents (\<open>wbcz/document_assembler.py\<close>): it turns an event and the
  decision over its code into the exact document that the write pipeline freezes and signs. The
  providers of primary documents are arguments. An event's time is UTC, as the parser and the store
  give it. Amounts are the event's, so their product with 100 is exact.
\<close>

datatype assembly_error =
    ManualReviewNeeded pystr
  | ConfigError pystr
  | FreezeFailed write_error
  | InexactDocument

type_synonym 'a assembly = "assembly_error + 'a"

section \<open>Configuration\<close>

datatype organisation_type = LEGAL_ENTITY | INDIVIDUAL_ENTREPRENEUR

record p0_config =
  pc_inn :: pystr
  pc_type :: organisation_type
  pc_fias :: pystr
  pc_kpp :: "pystr option"
  pc_paid :: "bool option"

definition fias_text :: "pystr \<Rightarrow> bool" where
  "fias_text s \<longleftrightarrow> length s = 36
     \<and> list_all (\<lambda>(i, c). if i \<in> {8, 13, 18, 23} then c = CHR ''-'' else any_hex c) (zip [0..<36] s)"

definition config_post_init :: "p0_config \<Rightarrow> p0_config assembly" where
  "config_post_init c =
     (case validate_owner_inn (pc_inn c) of Inl e \<Rightarrow> Inl (ConfigError e)
      | Inr _ \<Rightarrow>
        if \<not> fias_text (pc_fias c) then Inl (ConfigError ''fias_id must be a UUID'')
        else case pc_type c of
          LEGAL_ENTITY \<Rightarrow> (case pc_kpp c of
              Some k \<Rightarrow> if digits 9 k then Inr c else Inl (ConfigError ''LEGAL_ENTITY requires a 9-digit kpp'')
            | None \<Rightarrow> Inl (ConfigError ''LEGAL_ENTITY requires a 9-digit kpp''))
        | INDIVIDUAL_ENTREPRENEUR \<Rightarrow>
            if pc_kpp c = None then Inr c
            else Inl (ConfigError ''INDIVIDUAL_ENTREPRENEUR must not configure kpp''))"

section \<open>Primary documents\<close>

text \<open>The day of a date or of a datetime; \<open>None\<close> for any other value.\<close>

record primary_form =
  pd_type :: pystr
  pd_number :: pystr
  pd_day :: "int option"
  pd_custom :: "pystr option"

definition primary_types :: "pystr list" where
  "primary_types = [''RECEIPT'', ''SALES_RECEIPT'', ''OTHER'']"

definition custom_pair :: "pystr \<Rightarrow> pystr \<Rightarrow> primary_form \<Rightarrow> (pystr \<times> json) list assembly" where
  "custom_pair side t p =
     (if t = ''OTHER'' then
        (let custom = (case pd_custom p of Some s \<Rightarrow> strip s | None \<Rightarrow> []) in
         if 1 \<le> length custom \<and> length custom \<le> 255
         then Inr [(''primary_document_custom_name'', JStr custom)]
         else Inl (ManualReviewNeeded (side @ ''_PRIMARY_DOCUMENT_CUSTOM_NAME_REQUIRED'')))
      else if truthy (pd_custom p) then Inl (ManualReviewNeeded (side @ ''_PRIMARY_DOCUMENT_CUSTOM_NAME_FORBIDDEN''))
      else Inr [])"

text \<open>The two methods differ in the names of their fields and of their errors.\<close>

definition primary_pairs :: "pystr \<Rightarrow> pystr \<Rightarrow> primary_form \<Rightarrow> (pystr \<times> json) list assembly" where
  "primary_pairs side prefix p =
     (let t = upper (strip (pd_type p)); n = strip (pd_number p) in
      if t \<notin> set primary_types then Inl (ManualReviewNeeded (side @ ''_PRIMARY_DOCUMENT_TYPE_INVALID''))
      else if \<not> (1 \<le> length n \<and> length n \<le> 255)
      then Inl (ManualReviewNeeded (side @ ''_PRIMARY_DOCUMENT_NUMBER_INVALID''))
      else case pd_day p of
        None \<Rightarrow> Inl (ManualReviewNeeded (side @ ''_PRIMARY_DOCUMENT_DATE_INVALID''))
      | Some d \<Rightarrow> bind (custom_pair side t p) (\<lambda>custom.
          Inr ([(prefix @ ''document_type'', JStr t), (prefix @ ''document_number'', JStr n),
                (prefix @ ''document_date'', JStr (iso_day d))] @ custom)))"

definition return_fields :: "primary_form \<Rightarrow> (pystr \<times> json) list assembly" where
  "return_fields = primary_pairs ''RETURN'' ''primary_''"

definition withdrawal_fields :: "primary_form \<Rightarrow> (pystr \<times> json) list assembly" where
  "withdrawal_fields = primary_pairs ''WITHDRAW'' ''''"

section \<open>Values of the event\<close>

definition negative :: "decimal \<Rightarrow> bool" where
  "negative a = (case a of Finite neg c _ \<Rightarrow> neg \<and> c \<noteq> 0 | _ \<Rightarrow> False)"

definition rubles_to_kopecks :: "decimal \<Rightarrow> nat assembly" where
  "rubles_to_kopecks a = (case a of
     Finite neg c e \<Rightarrow>
       if negative a then Inl (ManualReviewNeeded ''PRODUCT_COST_NEGATIVE'')
       else if \<not> whole_cents c e then Inl (ManualReviewNeeded ''PRODUCT_COST_SUBKOPECK'')
       else if 17 < length (show_nat (cents c e)) then Inl (ManualReviewNeeded ''PRODUCT_COST_TOO_LARGE'')
       else Inr (cents c e)
   | _ \<Rightarrow> Inl (ManualReviewNeeded ''PRODUCT_COST_INVALID''))"

definition event_date :: "event \<Rightarrow> pystr assembly" where
  "event_date v = (case occurred_at v of
     None \<Rightarrow> Inl (ManualReviewNeeded ''WB_EVENT_DATE_REQUIRED'')
   | Some (Aware us) \<Rightarrow> Inr (iso_day (us div day_us))
   | Some (Naive us) \<Rightarrow> Inr (iso_day (us div day_us)))"

definition normalized_event_cis :: "event \<Rightarrow> pystr assembly" where
  "normalized_event_cis v =
     (if strip (kiz v) \<noteq> kiz v \<or> \<not> (18 \<le> length (kiz v) \<and> length (kiz v) \<le> 74)
      then Inl (ManualReviewNeeded ''WB_CIS_INVALID'') else Inr (kiz v))"

section \<open>Documents\<close>

record assembler =
  as_organisation :: "p0_config option"
  as_primary :: "(event \<Rightarrow> primary_form option) option"
  as_withdrawal :: "(event \<Rightarrow> primary_form option) option"

definition p0_organisation :: "assembler \<Rightarrow> p0_config assembly" where
  "p0_organisation a = (case as_organisation a of
     None \<Rightarrow> Inl (ManualReviewNeeded ''ORGANISATION_CONFIG_MISSING'') | Some c \<Rightarrow> Inr c)"

definition given_primary :: "(event \<Rightarrow> primary_form option) option \<Rightarrow> event \<Rightarrow> primary_form option" where
  "given_primary p v = (case p of None \<Rightarrow> None | Some f \<Rightarrow> f v)"

definition kpp_pair :: "p0_config \<Rightarrow> (pystr \<times> json) list" where
  "kpp_pair c = (case pc_type c of LEGAL_ENTITY \<Rightarrow> [(''kpp'', opt_str (pc_kpp c))] | INDIVIDUAL_ENTREPRENEUR \<Rightarrow> [])"

definition withdrawal_extra :: "assembler \<Rightarrow> event \<Rightarrow> (pystr \<times> json) list assembly" where
  "withdrawal_extra a v = (case given_primary (as_withdrawal a) v of None \<Rightarrow> Inr [] | Some p \<Rightarrow> withdrawal_fields p)"

definition lk_receipt_distance :: "assembler \<Rightarrow> event \<Rightarrow> (pystr \<times> json) list assembly" where
  "lk_receipt_distance a v =
     bind (p0_organisation a) (\<lambda>c.
       if currency v \<noteq> ''RUB'' then Inl (ManualReviewNeeded ''LK_RECEIPT_UNSUPPORTED_CURRENCY'')
       else bind (event_date v) (\<lambda>day.
         bind (normalized_event_cis v) (\<lambda>cis.
         bind (rubles_to_kopecks (amount v)) (\<lambda>cost.
         bind (withdrawal_extra a v) (\<lambda>extra.
           Inr ([(''inn'', JStr (pc_inn c)), (''action'', JStr ''DISTANCE''), (''action_date'', JStr day),
                 (''fias_id'', JStr (pc_fias c)),
                 (''products'', JList [JObj [(''cis'', JStr cis), (''product_cost'', JInt (int cost))]])]
                @ kpp_pair c @ extra))))))"

definition return_extra :: "assembler \<Rightarrow> event \<Rightarrow> bool \<Rightarrow> (pystr \<times> json) list assembly" where
  "return_extra a v paid =
     (if \<not> paid then Inr []
      else case given_primary (as_primary a) v of
        None \<Rightarrow> Inl (ManualReviewNeeded ''RETURN_PRIMARY_DOCUMENT_REQUIRED'')
      | Some p \<Rightarrow> return_fields p)"

definition lp_return_remote_sale :: "assembler \<Rightarrow> event \<Rightarrow> (pystr \<times> json) list assembly" where
  "lp_return_remote_sale a v =
     bind (p0_organisation a) (\<lambda>c. case pc_paid c of
       None \<Rightarrow> Inl (ManualReviewNeeded ''REMOTE_SALE_RETURN_PAID_REQUIRED'')
     | Some paid \<Rightarrow>
         bind (normalized_event_cis v) (\<lambda>cis.
         bind (return_extra a v paid) (\<lambda>extra.
           Inr ([(''trade_participant_inn'', JStr (pc_inn c)), (''return_type'', JStr ''REMOTE_SALE_RETURN''),
                 (''paid'', JBool paid), (''products_list'', JList [JObj [(''ki'', JStr cis)]])] @ extra))))"

definition assert_exact_document :: "exact_document \<Rightarrow> exact_document assembly" where
  "assert_exact_document x =
     (case b64decode (product_document_base64 x) of
        None \<Rightarrow> Inl InexactDocument
      | Some bs \<Rightarrow> if bs \<noteq> bytes_for_signature x \<or> sha256_hex bs \<noteq> sha256 x then Inl InexactDocument else Inr x)"

definition document_fields :: "assembler \<Rightarrow> event \<Rightarrow> decision \<Rightarrow> (pystr \<times> json) list assembly" where
  "document_fields a v d = (case d of
     READY_TO_WITHDRAW \<Rightarrow>
       if operation v \<noteq> SALE then Inl (ManualReviewNeeded ''WITHDRAW_DECISION_EVENT_MISMATCH'')
       else lk_receipt_distance a v
   | READY_TO_RETURN \<Rightarrow>
       if operation v \<noteq> RETURN then Inl (ManualReviewNeeded ''RETURN_DECISION_EVENT_MISMATCH'')
       else lp_return_remote_sale a v
   | _ \<Rightarrow> Inl (ManualReviewNeeded ''CONTROL_DECISION_NOT_WRITABLE''))"

definition build_exact :: "assembler \<Rightarrow> event \<Rightarrow> decision \<Rightarrow> exact_document assembly" where
  "build_exact a v d =
     bind (document_fields a v d) (\<lambda>kvs.
     bind (map_error FreezeFailed (from_json_value kvs)) assert_exact_document)"

section \<open>Facts\<close>

lemma plain_pairs:
  "primary_pairs side prefix p = Inr kvs \<Longrightarrow> \<forall>q\<in>set kvs. float_free (snd q)"
  by (auto simp: primary_pairs_def custom_pair_def Let_def bind_Inr_iff split: if_splits option.splits)

lemma lk_receipt_Inr:
  assumes "lk_receipt_distance a v = Inr kvs"
  obtains c :: p0_config and day cost extra where "event_date v = Inr day" "rubles_to_kopecks (amount v) = Inr cost"
    "\<forall>q\<in>set extra. float_free (snd q)"
    "kvs = [(''inn'', JStr (pc_inn c)), (''action'', JStr ''DISTANCE''), (''action_date'', JStr day),
       (''fias_id'', JStr (pc_fias c)),
       (''products'', JList [JObj [(''cis'', JStr (kiz v)), (''product_cost'', JInt (int cost))]])]
       @ kpp_pair c @ extra"
proof -
  from assms obtain c where c: "p0_organisation a = Inr c" by (auto simp: lk_receipt_distance_def bind_Inr_iff)
  with assms obtain day cis cost extra where *: "event_date v = Inr day" "normalized_event_cis v = Inr cis"
    "rubles_to_kopecks (amount v) = Inr cost" "withdrawal_extra a v = Inr extra"
    "kvs = [(''inn'', JStr (pc_inn c)), (''action'', JStr ''DISTANCE''), (''action_date'', JStr day),
       (''fias_id'', JStr (pc_fias c)),
       (''products'', JList [JObj [(''cis'', JStr cis), (''product_cost'', JInt (int cost))]])]
       @ kpp_pair c @ extra"
    by (auto simp: lk_receipt_distance_def bind_Inr_iff split: if_splits)
  from *(4) have "\<forall>q\<in>set extra. float_free (snd q)"
    by (cases "given_primary (as_withdrawal a) v")
      (auto simp: withdrawal_extra_def withdrawal_fields_def dest!: plain_pairs)
  moreover from *(2) have "cis = kiz v" by (simp add: normalized_event_cis_def split: if_splits)
  ultimately show thesis using * by (intro that [of day cost extra]) simp_all
qed

lemma lp_return_Inr:
  assumes "lp_return_remote_sale a v = Inr kvs"
  obtains c :: p0_config and paid extra where "\<forall>q\<in>set extra. float_free (snd q)"
    "kvs = [(''trade_participant_inn'', JStr (pc_inn c)), (''return_type'', JStr ''REMOTE_SALE_RETURN''),
       (''paid'', JBool paid), (''products_list'', JList [JObj [(''ki'', JStr (kiz v))]])] @ extra"
proof -
  from assms obtain c where c: "p0_organisation a = Inr c" by (auto simp: lp_return_remote_sale_def bind_Inr_iff)
  with assms obtain paid where "pc_paid c = Some paid" by (auto simp: lp_return_remote_sale_def split: option.splits)
  with assms c obtain cis extra where *: "normalized_event_cis v = Inr cis" "return_extra a v paid = Inr extra"
    "kvs = [(''trade_participant_inn'', JStr (pc_inn c)), (''return_type'', JStr ''REMOTE_SALE_RETURN''),
       (''paid'', JBool paid), (''products_list'', JList [JObj [(''ki'', JStr cis)]])] @ extra"
    by (auto simp: lp_return_remote_sale_def bind_Inr_iff)
  from *(2) have "\<forall>q\<in>set extra. float_free (snd q)"
    by (cases "given_primary (as_primary a) v")
      (auto simp: return_extra_def return_fields_def dest!: plain_pairs split: if_splits)
  moreover from *(1) have "cis = kiz v" by (simp add: normalized_event_cis_def split: if_splits)
  ultimately show thesis using *(3) by (intro that [of extra c paid]) simp_all
qed

lemma document_fields_Inr:
  assumes "document_fields a v d = Inr kvs"
  obtains (withdraw) "d = READY_TO_WITHDRAW" "operation v = SALE" "lk_receipt_distance a v = Inr kvs"
    | (give_back) "d = READY_TO_RETURN" "operation v = RETURN" "lp_return_remote_sale a v = Inr kvs"
  using assms by (cases d) (auto simp: document_fields_def split: if_splits)

lemma document_fields_plain: "document_fields a v d = Inr kvs \<Longrightarrow> float_free (JObj kvs)"
  by (erule document_fields_Inr; (erule lk_receipt_Inr | erule lp_return_Inr))
    (simp_all add: kpp_pair_def split: organisation_type.splits)

text \<open>Freezing never fails on what the assembler builds, and the self-check always passes.\<close>


lemma build_exact_Inr:
  "build_exact a v d = Inr x \<longleftrightarrow> (\<exists>kvs. document_fields a v d = Inr kvs \<and> from_json_value kvs = Inr x)"
proof -
  have "bind (map_error FreezeFailed (from_json_value kvs)) assert_exact_document = Inr x
      \<longleftrightarrow> from_json_value kvs = Inr x" for kvs
    by (cases "from_json_value kvs")
      (auto simp: assert_exact_document_def bytes_for_signature_def exact_def dest!: from_json_exact)
  then show ?thesis by (auto simp: build_exact_def bind_Inr_iff)
qed

lemma build_exact_total: "ok (build_exact a v d) \<longleftrightarrow> ok (document_fields a v d)"
  using document_fields_plain freeze_object by (fastforce simp: ok_iff build_exact_Inr)

lemma ok_withdrawal_fields:
  "ok (lk_receipt_distance a v) \<longleftrightarrow> as_organisation a \<noteq> None \<and> currency v = ''RUB'' \<and> occurred_at v \<noteq> None
     \<and> ok (normalized_event_cis v) \<and> ok (rubles_to_kopecks (amount v))
     \<and> (case given_primary (as_withdrawal a) v of None \<Rightarrow> True | Some p \<Rightarrow> ok (withdrawal_fields p))"
  by (auto simp: lk_receipt_distance_def bind_Inr_iff p0_organisation_def event_date_def withdrawal_extra_def ok_iff
      split: option.splits py_datetime.splits)

section \<open>Properties\<close>

text \<open>A withdrawal document is built exactly for a sale in rubles with a known date, a code of 18 to 74
  characters without outer blanks, a cost that is a non-negative number of kopecks of at most 17
  digits, and an acceptable primary document if one is given. Its frozen bytes are the canonical text
  of fields that name the code of the event and its cost in kopecks.\<close>

theorem withdrawal_document_iff:
  "(\<exists>x. build_exact a v READY_TO_WITHDRAW = Inr x) \<longleftrightarrow>
     operation v = SALE \<and> as_organisation a \<noteq> None \<and> currency v = ''RUB'' \<and> occurred_at v \<noteq> None
     \<and> strip (kiz v) = kiz v \<and> 18 \<le> length (kiz v) \<and> length (kiz v) \<le> 74
     \<and> (\<exists>neg c e. amount v = Finite neg c e \<and> \<not> negative (amount v) \<and> whole_cents c e
          \<and> length (show_nat (cents c e)) \<le> 17)
     \<and> (case given_primary (as_withdrawal a) v of None \<Rightarrow> True | Some p \<Rightarrow> ok (withdrawal_fields p))"
proof -
  have cis: "ok (normalized_event_cis v) \<longleftrightarrow> strip (kiz v) = kiz v \<and> 18 \<le> length (kiz v) \<and> length (kiz v) \<le> 74"
    by (auto simp: normalized_event_cis_def)
  have cost: "ok (rubles_to_kopecks (amount v)) \<longleftrightarrow> (\<exists>neg c e. amount v = Finite neg c e \<and> \<not> negative (amount v)
      \<and> whole_cents c e \<and> length (show_nat (cents c e)) \<le> 17)"
    by (cases "amount v") (auto simp: rubles_to_kopecks_def)
  have "(\<exists>x. build_exact a v READY_TO_WITHDRAW = Inr x) \<longleftrightarrow> operation v = SALE \<and> ok (lk_receipt_distance a v)"
    unfolding ok_iff [symmetric] build_exact_total by (simp add: document_fields_def)
  then show ?thesis unfolding ok_withdrawal_fields cis cost by simp
qed

text \<open>The bytes that are frozen say what was decided: the code of the event, and for a withdrawal its
  cost in kopecks and its day; hash and Base64 text belong to them.\<close>

theorem assembled_document_is_exact:
  assumes "build_exact a v d = Inr x"
  shows "exact x \<and> (\<exists>kvs. payload x = utf8 (canonical_json (JObj kvs))
    \<and> (d = READY_TO_WITHDRAW \<and> operation v = SALE
         \<and> (\<exists>cost. rubles_to_kopecks (amount v) = Inr cost \<and> map_of kvs ''products'' =
              Some (JList [JObj [(''cis'', JStr (kiz v)), (''product_cost'', JInt (int cost))]]))
         \<and> (\<exists>day. event_date v = Inr day \<and> map_of kvs ''action_date'' = Some (JStr day))
       \<or> d = READY_TO_RETURN \<and> operation v = RETURN
         \<and> map_of kvs ''products_list'' = Some (JList [JObj [(''ki'', JStr (kiz v))]])))"
proof -
  from assms obtain kvs where k: "document_fields a v d = Inr kvs" "from_json_value kvs = Inr x"
    by (auto simp: build_exact_Inr)
  from freeze_object [OF document_fields_plain [OF k(1)]] k(2)
  have "exact x" "payload x = utf8 (canonical_json (JObj kvs))" by auto
  moreover have "d = READY_TO_WITHDRAW \<and> operation v = SALE
         \<and> (\<exists>cost. rubles_to_kopecks (amount v) = Inr cost \<and> map_of kvs ''products'' =
              Some (JList [JObj [(''cis'', JStr (kiz v)), (''product_cost'', JInt (int cost))]]))
         \<and> (\<exists>day. event_date v = Inr day \<and> map_of kvs ''action_date'' = Some (JStr day))
       \<or> d = READY_TO_RETURN \<and> operation v = RETURN
         \<and> map_of kvs ''products_list'' = Some (JList [JObj [(''ki'', JStr (kiz v))]])"
    using k(1)
  proof (cases rule: document_fields_Inr)
    case withdraw
    from withdraw(1,2) show ?thesis by (auto intro: lk_receipt_Inr [OF withdraw(3)])
  next
    case give_back
    from give_back(1,2) show ?thesis by (auto intro: lp_return_Inr [OF give_back(3)])
  qed
  ultimately show ?thesis by blast
qed

definition demo_assembler :: assembler where
  "demo_assembler = \<lparr>as_organisation = Some \<lparr>pc_inn = ''7700000000'', pc_type = INDIVIDUAL_ENTREPRENEUR,
     pc_fias = ''00000000-0000-0000-0000-000000000000'', pc_kpp = None, pc_paid = Some False\<rparr>,
     as_primary = None, as_withdrawal = None\<rparr>"

definition demo_return :: event where
  "demo_return = demo_parsed\<lparr>kiz := ''010460000000000021'', operation := RETURN\<rparr>"

theorem assembled_document_is_exact_witness:
  "\<exists>x. build_exact demo_assembler demo_return READY_TO_RETURN = Inr x \<and> exact x
     \<and> (\<exists>kvs. payload x = utf8 (canonical_json (JObj kvs))
          \<and> map_of kvs ''products_list'' = Some (JList [JObj [(''ki'', JStr ''010460000000000021'')]]))"
proof -
  have s: "strip ''010460000000000021'' = ''010460000000000021''" by code_simp
  have "ok (document_fields demo_assembler demo_return READY_TO_RETURN)"
    by (simp add: document_fields_def demo_return_def demo_assembler_def lp_return_remote_sale_def p0_organisation_def
        normalized_event_cis_def return_extra_def s)
  then have "ok (build_exact demo_assembler demo_return READY_TO_RETURN)" by (simp add: build_exact_total)
  then obtain x where "build_exact demo_assembler demo_return READY_TO_RETURN = Inr x" by (auto simp: ok_iff)
  from this assembled_document_is_exact [OF this] show ?thesis by (auto simp: demo_return_def)
qed

text \<open>The workbook's time is Moscow time but the document takes the day from UTC: a sale in the first
  three hours of a day is dated one day early.\<close>

theorem early_sale_is_dated_a_day_early:
  assumes "occurred_at v = Some (to_utc (Naive us))" and "us mod day_us < moscow"
  shows "event_date v = Inr (iso_day (us div day_us - 1))"
proof -
  have "us = us div day_us * day_us + us mod day_us" by simp
  then have "us - moscow = day_us * (us div day_us - 1) + (us mod day_us + day_us - moscow)"
    by (simp add: algebra_simps)
  moreover have "0 \<le> us mod day_us" by (simp add: day_us_def)
  then have "0 \<le> us mod day_us + day_us - moscow" by (simp add: day_us_def moscow_def)
  moreover have "us mod day_us + day_us - moscow < day_us" using assms(2) by simp
  ultimately have "(us - moscow) div day_us = us div day_us - 1"
    by (intro int_div_pos_eq [where r = "us mod day_us + day_us - moscow"])
  with assms(1) show ?thesis by (simp add: event_date_def to_utc_def)
qed

text \<open>Half past one in Moscow on 5 January 2024.\<close>

theorem early_sale_is_dated_a_day_early_witness:
  "event_date (demo_parsed\<lparr>occurred_at := Some (to_utc (Naive (19727 * 86400000000 + 5400000000)))\<rparr>) = Inr ''2024-01-04''"
proof -
  have "iso_day ((19727 * 86400000000 + 5400000000) div day_us - 1) = ''2024-01-04''" by code_simp
  moreover have "(19727 * 86400000000 + 5400000000) mod day_us < moscow" by (simp add: day_us_def moscow_def)
  ultimately show ?thesis
    using early_sale_is_dated_a_day_early
      [of "demo_parsed\<lparr>occurred_at := Some (to_utc (Naive (19727 * 86400000000 + 5400000000)))\<rparr>"
        "19727 * 86400000000 + 5400000000"] by simp
qed

end
