(* ===== verification/ReadPayloads.thy ===== *)
theory ReadPayloads
  imports AgentJobs
begin

text \<open>
  What the read jobs share (\<open>wbcz/cis_inventory.py\<close>, \<open>reference_products.py\<close>,
  \<open>document_lifecycle.py\<close>, \<open>edo_lite.py\<close>, \<open>m11_reports.py\<close>): a payload is validated field by field into a
  normal form, and a request is built from the normal form with percent-encoded parts. A payload is
  the list of the pairs of a JSON object, whose keys are distinct. The contract of a family of read
  jobs is a locale: its validator leaves normal forms alone, so what the server enqueues passes the
  agent's check. Messages of refusals leave out the list of names the code appends to "unknown fields".
\<close>

named_theorems steady_checks \<open>checks that accept what they return\<close>

section \<open>Fields\<close>

text \<open>
  How a field is read: skipped when absent or null; checked when the key is there; with a default;
  or checked whatever it is, an absent key reading as null.
\<close>

datatype presence = Optional | IfGiven | Default json | Needed

datatype field = Field pystr presence "json \<Rightarrow> pystr + json"

fun field_key :: "field \<Rightarrow> pystr" where
  "field_key (Field k p f) = k"

definition checked :: "pystr \<Rightarrow> pystr + json \<Rightarrow> pystr + wire" where
  "checked k r = bind r (\<lambda>w. Inr [(k, w)])"

fun run_field :: "wire \<Rightarrow> field \<Rightarrow> pystr + wire" where
  "run_field root (Field k p f) = (case p of
     Optional \<Rightarrow> (case map_of root k of None \<Rightarrow> Inr [] | Some v \<Rightarrow> if v = JNull then Inr [] else checked k (f v))
   | IfGiven \<Rightarrow> (case map_of root k of None \<Rightarrow> Inr [] | Some v \<Rightarrow> checked k (f v))
   | Default d \<Rightarrow> checked k (f (case map_of root k of None \<Rightarrow> d | Some v \<Rightarrow> v))
   | Needed \<Rightarrow> checked k (f (get_key k root)))"

definition run_fields :: "field list \<Rightarrow> wire \<Rightarrow> pystr + wire" where
  "run_fields fs root = bind (collect (run_field root) fs) (\<lambda>ps. Inr (concat ps))"

definition only_fields :: "pystr list \<Rightarrow> pystr \<Rightarrow> wire \<Rightarrow> pystr + unit" where
  "only_fields allowed message root =
     (if list_all (\<lambda>p. fst p \<in> set allowed) root then Inr () else Inl message)"

text \<open>\<open>set(root) == {...}\<close>.\<close>

definition exact_fields :: "pystr list \<Rightarrow> pystr \<Rightarrow> wire \<Rightarrow> pystr + unit" where
  "exact_fields keys message root =
     (if list_all (\<lambda>p. fst p \<in> set keys) root \<and> list_all (\<lambda>k. map_of root k \<noteq> None) keys
      then Inr () else Inl message)"

section \<open>Checks\<close>

definition steady :: "(json \<Rightarrow> pystr + json) \<Rightarrow> bool" where
  "steady f \<longleftrightarrow> (\<forall>v w. f v = Inr w \<longrightarrow> f w = Inr w \<and> w \<noteq> JNull)"

definition expect_string :: "pystr \<Rightarrow> json \<Rightarrow> pystr + json" where
  "expect_string label v = (case v of
     JStr s \<Rightarrow> if s = [] then Inl (label @ '' must be a non-empty string'') else Inr v
   | _ \<Rightarrow> Inl (label @ '' must be a non-empty string''))"

definition expect_text :: "(pystr \<Rightarrow> bool) \<Rightarrow> pystr \<Rightarrow> pystr \<Rightarrow> json \<Rightarrow> pystr + json" where
  "expect_text p message label v = bind (expect_string label v) (\<lambda>w. case w of
     JStr s \<Rightarrow> if p s then Inr w else Inl (label @ message) | _ \<Rightarrow> Inl (label @ message))"

definition inn_text :: "pystr \<Rightarrow> bool" where
  "inn_text s \<longleftrightarrow> isdigit s \<and> (length s = 10 \<or> length s = 12)"

definition read_inn :: "pystr \<Rightarrow> json \<Rightarrow> pystr + json" where
  "read_inn = expect_text inn_text '' must contain 10 or 12 digits''"

definition int_between :: "int \<Rightarrow> int option \<Rightarrow> pystr \<Rightarrow> json \<Rightarrow> pystr + json" where
  "int_between lo hi message v = (case v of
     JInt i \<Rightarrow> if lo \<le> i \<and> (case hi of None \<Rightarrow> True | Some h \<Rightarrow> i \<le> h) then Inr v else Inl message
   | _ \<Rightarrow> Inl message)"

definition expect_bool :: "pystr \<Rightarrow> json \<Rightarrow> pystr + json" where
  "expect_bool message v = (case v of JBool _ \<Rightarrow> Inr v | _ \<Rightarrow> Inl message)"

text \<open>A word in upper case, of a given set.\<close>

definition upper_word :: "pystr list \<Rightarrow> pystr \<Rightarrow> pystr \<Rightarrow> json \<Rightarrow> pystr + json" where
  "upper_word ws label message v = bind (expect_string label v) (\<lambda>w. case w of
     JStr s \<Rightarrow> if upper s \<in> set ws then Inr (JStr (upper s)) else Inl message | _ \<Rightarrow> Inl message)"

text \<open>An array whose elements all pass a check, each under its own label.\<close>

fun each_item :: "(nat \<Rightarrow> 'a \<Rightarrow> 'e + 'b) \<Rightarrow> nat \<Rightarrow> 'a list \<Rightarrow> 'e + 'b list" where
  "each_item f i [] = Inr []"
| "each_item f i (x # xs) = bind (f i x) (\<lambda>y. bind (each_item f (Suc i) xs) (\<lambda>ys. Inr (y # ys)))"

definition item_label :: "pystr \<Rightarrow> nat \<Rightarrow> pystr" where
  "item_label label i = label @ ''['' @ show_nat i @ '']''"

type_synonym size_check = "nat \<Rightarrow> pystr option"

definition any_size :: size_check where
  "any_size n = None"

definition size_within :: "nat \<Rightarrow> pystr \<Rightarrow> nat \<Rightarrow> pystr \<Rightarrow> size_check" where
  "size_within lo small hi large n = (if n < lo then Some small else if hi < n then Some large else None)"

definition array_of :: "(pystr \<Rightarrow> json \<Rightarrow> pystr + json) \<Rightarrow> pystr \<Rightarrow> size_check \<Rightarrow> pystr \<Rightarrow> json \<Rightarrow> pystr + json" where
  "array_of f kind sz label v = (case v of
     JList xs \<Rightarrow> (case sz (length xs) of
         Some m \<Rightarrow> Inl m
       | None \<Rightarrow> bind (each_item (\<lambda>i. f (item_label label i)) 0 xs) (\<lambda>ys. Inr (JList ys)))
   | _ \<Rightarrow> Inl kind)"

definition equals :: "json \<Rightarrow> pystr \<Rightarrow> json \<Rightarrow> pystr + json" where
  "equals w message v = (if v = w then Inr w else Inl message)"

text \<open>An object whose fields pass their checks.\<close>

definition object_of :: "pystr list \<Rightarrow> (pystr \<Rightarrow> field list) \<Rightarrow> pystr \<Rightarrow> json \<Rightarrow> pystr + json" where
  "object_of allowed fs label v = (case v of
     JObj kvs \<Rightarrow> bind (only_fields allowed (label @ '' has unknown fields'') kvs) (\<lambda>_.
       bind (run_fields (fs label) kvs) (\<lambda>n. Inr (JObj n)))
   | _ \<Rightarrow> Inl (label @ '' must be an object''))"

subsection \<open>Checks are steady\<close>

lemma steady_expect_string [steady_checks]: "steady (expect_string label)"
  by (auto simp: steady_def expect_string_def split: json.splits if_splits)

lemma steady_expect_text [steady_checks]: "steady (expect_text p message label)"
  by (auto simp: steady_def expect_text_def expect_string_def bind_Inr_iff split: json.splits if_splits)

lemma steady_read_inn [steady_checks]: "steady (read_inn label)"
  by (simp add: read_inn_def steady_expect_text)

lemma steady_int_between [steady_checks]: "steady (int_between lo hi message)"
  by (auto simp: steady_def int_between_def split: json.splits if_splits)

lemma steady_expect_bool [steady_checks]: "steady (expect_bool message)"
  by (auto simp: steady_def expect_bool_def split: json.splits)

lemma steady_equals [steady_checks]: "w \<noteq> JNull \<Longrightarrow> steady (equals w message)"
  by (auto simp: steady_def equals_def split: if_splits)

lemma steady_upper_word [steady_checks]:
  assumes "\<And>s. s \<in> set ws \<Longrightarrow> upper s = s \<and> s \<noteq> []"
  shows "steady (upper_word ws label message)"
  using assms by (auto simp: steady_def upper_word_def expect_string_def bind_Inr_iff split: json.splits if_splits)

lemma each_item_steady:
  assumes "\<And>i. steady (f i)"
  shows "each_item f i xs = Inr ys \<Longrightarrow> each_item f i ys = Inr ys \<and> length ys = length xs"
proof (induction xs arbitrary: i ys)
  case (Cons x xs)
  then obtain y zs where "f i x = Inr y" "each_item f (Suc i) xs = Inr zs" "ys = y # zs" by (auto simp: bind_Inr_iff)
  with Cons.IH assms show ?case by (auto simp: steady_def)
qed auto

lemma steady_array_of [steady_checks]:
  assumes "\<And>l. steady (f l)"
  shows "steady (array_of f kind sz label)"
  unfolding steady_def
proof (intro allI impI)
  fix v w assume "array_of f kind sz label v = Inr w"
  then obtain xs ys where xs: "each_item (\<lambda>i. f (item_label label i)) 0 xs = Inr ys" "w = JList ys"
      "sz (length xs) = None"
    by (cases v) (auto simp: array_of_def bind_Inr_iff split: option.splits)
  with each_item_steady [OF assms xs(1)] show "array_of f kind sz label w = Inr w \<and> w \<noteq> JNull"
    by (simp add: array_of_def)
qed

section \<open>Validation leaves normal forms alone\<close>

definition steady_field :: "field \<Rightarrow> bool" where
  "steady_field fl = (case fl of Field k p f \<Rightarrow> steady f)"

lemma steady_field_simps [simp]: "steady_field (Field k p f) \<longleftrightarrow> steady f"
  by (simp add: steady_field_def)

lemma checked_field_Inr [simp]: "checked k r = Inr ps \<longleftrightarrow> (\<exists>w. r = Inr w \<and> ps = [(k, w)])"
  by (auto simp: checked_def bind_Inr_iff)

lemma run_field_shape:
  "run_field root fl = Inr ps \<Longrightarrow> ps = [] \<or> (\<exists>w. ps = [(field_key fl, w)])"
  by (cases fl) (auto split: presence.splits option.splits if_splits)

lemma run_field_again:
  assumes "run_field root fl = Inr ps" and "steady_field fl"
    and "map_of n (field_key fl) = map_of ps (field_key fl)"
  shows "run_field n fl = Inr ps"
  using assms
  by (cases fl) (auto simp: steady_def get_key_def split: presence.splits option.splits if_splits)

lemma collect_fields_keys:
  assumes "collect (run_field root) fs = Inr ps" and "k \<notin> field_key ` set fs"
  shows "map_of (concat ps) k = None"
  using assms
proof (induction fs arbitrary: ps)
  case (Cons fl fs)
  then obtain q qs where "run_field root fl = Inr q" "collect (run_field root) fs = Inr qs" "ps = q # qs"
    by (auto simp: bind_Inr_iff)
  with Cons run_field_shape [of root fl q] show ?case by (auto simp: map_add_def)
qed auto

lemma collect_fields_again:
  assumes "collect (run_field root) fs = Inr ps" and "distinct (map field_key fs)" and "list_all steady_field fs"
    and "\<And>k. k \<in> field_key ` set fs \<Longrightarrow> map_of n k = map_of (concat ps) k"
  shows "collect (run_field n) fs = Inr ps"
  using assms
proof (induction fs arbitrary: ps)
  case (Cons fl fs)
  then obtain q qs where q: "run_field root fl = Inr q" "collect (run_field root) fs = Inr qs" "ps = q # qs"
    by (auto simp: bind_Inr_iff)
  have "map_of n (field_key fl) = map_of q (field_key fl)"
    using Cons.prems(2,4) collect_fields_keys [OF q(2), of "field_key fl"] q(3)
    by (auto simp: map_add_def split: option.splits)
  then have 1: "run_field n fl = Inr q" using run_field_again [OF q(1)] Cons.prems(3) by simp
  have "map_of n k = map_of (concat qs) k" if "k \<in> field_key ` set fs" for k
  proof -
    from that Cons.prems(2) have "k \<noteq> field_key fl" by (metis distinct.simps(2) list.set_map list.simps(9))
    then have "map_of q k = None" using run_field_shape [OF q(1)] by auto
    with Cons.prems(4) that q(3) show ?thesis by (simp add: map_add_def split: option.splits)
  qed
  then have "collect (run_field n) fs = Inr qs" using Cons q(2) by simp
  with 1 q(3) show ?case by simp
qed auto

lemma run_fields_again:
  assumes "run_fields fs root = Inr n" and "distinct (map field_key fs)" and "list_all steady_field fs"
  shows "run_fields fs n = Inr n"
proof -
  from assms(1) obtain ps where ps: "collect (run_field root) fs = Inr ps" "n = concat ps"
    by (auto simp: run_fields_def bind_Inr_iff)
  from collect_fields_again [OF ps(1) assms(2,3), of n] ps(2) show ?thesis by (simp add: run_fields_def)
qed

lemma run_fields_keys:
  assumes "run_fields fs root = Inr n" and "(k, w) \<in> set n"
  shows "k \<in> field_key ` set fs"
proof (rule ccontr)
  assume "k \<notin> field_key ` set fs"
  with assms(1) have "map_of n k = None" by (auto simp: run_fields_def bind_Inr_iff dest: collect_fields_keys)
  with assms(2) show False by (simp add: map_of_eq_None_iff rev_image_eqI)
qed

lemma only_fields_normal:
  assumes "run_fields fs root = Inr n" and "field_key ` set fs \<subseteq> set allowed"
  shows "only_fields allowed message n = Inr ()"
  using run_fields_keys [OF assms(1)] assms(2) by (force simp: only_fields_def list_all_iff)

lemma steady_object_of [steady_checks]:
  assumes "distinct (map field_key (fs label))" and "list_all steady_field (fs label)"
    and "field_key ` set (fs label) \<subseteq> set allowed"
  shows "steady (object_of allowed fs label)"
  using assms run_fields_again only_fields_normal
  by (auto simp: steady_def object_of_def bind_Inr_iff split: json.splits)

text \<open>The usual shape of a validator: no other fields, then each field.\<close>

definition fields_of :: "pystr list \<Rightarrow> pystr \<Rightarrow> field list \<Rightarrow> wire \<Rightarrow> pystr + wire" where
  "fields_of allowed message fs root = bind (only_fields allowed message root) (\<lambda>_. run_fields fs root)"

lemma fields_of_again:
  assumes "fields_of allowed message fs root = Inr n" and "distinct (map field_key fs)"
    and "list_all steady_field fs" and "field_key ` set fs \<subseteq> set allowed"
  shows "fields_of allowed message fs n = Inr n"
  using assms run_fields_again only_fields_normal by (auto simp: fields_of_def bind_Inr_iff)

lemma exact_needed_keys:
  assumes "run_fields (map (\<lambda>(k, f). Field k Needed f) fs) root = Inr n"
  shows "map fst n = map fst fs"
proof -
  from assms obtain ps where ps: "collect (run_field root) (map (\<lambda>(k, f). Field k Needed f) fs) = Inr ps"
      "n = concat ps" by (auto simp: run_fields_def bind_Inr_iff)
  from ps(1) have "map fst (concat ps) = map fst fs"
  proof (induction fs arbitrary: ps)
    case (Cons a fs)
    then show ?case by (cases a) (auto simp: bind_Inr_iff)
  qed auto
  with ps(2) show ?thesis by simp
qed

text \<open>Exactly the given keys, each checked.\<close>

definition exactly :: "pystr \<Rightarrow> (pystr \<times> (json \<Rightarrow> pystr + json)) list \<Rightarrow> wire \<Rightarrow> pystr + wire" where
  "exactly message fs root = bind (exact_fields (map fst fs) message root) (\<lambda>_.
     run_fields (map (\<lambda>(k, f). Field k Needed f) fs) root)"

lemma exactly_again:
  assumes "exactly message fs root = Inr n" and "distinct (map fst fs)" and "\<forall>(k, f)\<in>set fs. steady f"
  shows "exactly message fs n = Inr n"
proof -
  let ?fs = "map (\<lambda>(k, f). Field k Needed f) fs"
  from assms(1) have r: "run_fields ?fs root = Inr n" by (auto simp: exactly_def bind_Inr_iff)
  have keys: "map field_key ?fs = map fst fs" by (induction fs) auto
  have "run_fields ?fs n = Inr n"
  proof (rule run_fields_again [OF r])
    show "distinct (map field_key ?fs)" unfolding keys by (rule assms(2))
    show "list_all steady_field ?fs" using assms(3) by (auto simp: list_all_iff)
  qed
  moreover have "exact_fields (map fst fs) message n = Inr ()"
    using exact_needed_keys [OF r]
    by (auto simp: exact_fields_def list_all_iff map_of_eq_None_iff) (metis image_eqI list.set_map fst_conv)+
  ultimately show ?thesis by (simp add: exactly_def)
qed

section \<open>Percent-encoding\<close>

definition unreserved :: "char \<Rightarrow> bool" where
  "unreserved c \<longleftrightarrow> digit_char c \<or> upper_char c \<or> lower_char c \<or> c \<in> set ''_.-~''"

definition hex_upper :: "nat \<Rightarrow> char" where
  "hex_upper n = char_of (if n < 10 then 48 + n else 55 + n)"

definition percent :: "byte \<Rightarrow> pystr" where
  "percent b = [CHR ''%'', hex_upper (code b div 16), hex_upper (code b mod 16)]"

text \<open>\<open>quote(s, safe="")\<close> and \<open>urlencode(pairs, quote_via=quote, safe="")\<close>.\<close>

definition url_quote :: "pystr \<Rightarrow> pystr" where
  "url_quote s = concat (map (\<lambda>b. if unreserved b then [b] else percent b) (utf8 s))"

definition url_query :: "(pystr \<times> pystr) list \<Rightarrow> pystr" where
  "url_query ps = join ''&'' (map (\<lambda>(k, v). url_quote k @ ''='' @ url_quote v) ps)"

definition with_query :: "pystr \<Rightarrow> (pystr \<times> pystr) list \<Rightarrow> pystr" where
  "with_query path ps = (if ps = [] then path else path @ ''?'' @ url_query ps)"

text \<open>\<open>urlencode\<close> alone writes a blank as a plus sign.\<close>

definition url_quote_plus :: "pystr \<Rightarrow> pystr" where
  "url_quote_plus s = concat (map (\<lambda>b. if unreserved b then [b] else if b = CHR '' '' then ''+'' else percent b) (utf8 s))"

definition plus_query :: "pystr \<Rightarrow> (pystr \<times> pystr) list \<Rightarrow> pystr" where
  "plus_query path ps = (if ps = [] then path
     else path @ ''?'' @ join ''&'' (map (\<lambda>(k, v). url_quote_plus k @ ''='' @ url_quote_plus v) ps))"

lemma url_quote_plain: "list_all unreserved s \<Longrightarrow> url_quote s = s"
proof -
  assume s: "list_all unreserved s"
  then have "isascii s"
    by (auto simp: isascii_def list_all_iff unreserved_def digit_char_def upper_char_def lower_char_def code_def)
  with s show ?thesis by (simp add: url_quote_def utf8_ascii list_all_iff cong: map_cong)
qed

text \<open>The characters of encoded text: none of them separates the parts of a target.\<close>

definition quoted_char :: "char \<Rightarrow> bool" where
  "quoted_char c \<longleftrightarrow> unreserved c \<or> c = CHR ''%''"

lemma hex_upper_unreserved: "n < 16 \<Longrightarrow> unreserved (hex_upper n)"
  by (auto simp: unreserved_def hex_upper_def digit_char_def upper_char_def code_def)

lemma url_quote_chars: "list_all quoted_char (url_quote s)"
proof -
  have "code b div 16 < 16" "code b mod 16 < 16" for b :: char
    using code_less [of b] by (simp_all add: less_mult_imp_div_less)
  then have "list_all quoted_char (percent b)" for b
    by (simp add: percent_def quoted_char_def hex_upper_unreserved)
  then show ?thesis
    by (auto simp: url_quote_def list_all_iff quoted_char_def split: if_splits)
qed

lemma url_quote_excludes: "\<not> quoted_char c \<Longrightarrow> c \<notin> set (url_quote s)"
  using url_quote_chars [of s] by (auto simp: list_all_iff)

lemma separators_not_quoted: "\<not> quoted_char (CHR ''&'')" "\<not> quoted_char (CHR ''#'')" "\<not> quoted_char (CHR ''?'')"
    "\<not> quoted_char (CHR ''='')" "\<not> quoted_char (CHR ''/'')" "\<not> quoted_char (CHR '':'')"
  by (simp_all add: quoted_char_def unreserved_def digit_char_def upper_char_def lower_char_def code_def)

lemma url_quote_Nil_iff: "url_quote s = [] \<longleftrightarrow> s = []"
proof (cases s)
  case (Cons c r)
  then obtain b bs where "utf8 s = b # bs" by (cases "code c < 128") (simp_all add: utf8_def utf8_char_def)
  then show ?thesis using Cons by (simp add: url_quote_def percent_def)
qed (simp add: url_quote_def utf8_def)

section \<open>The contract of a family of read jobs\<close>

locale read_contract =
  fixes normalise :: "pystr \<Rightarrow> wire \<Rightarrow> pystr + wire"
  assumes again: "normalise t p = Inr n \<Longrightarrow> normalise t n = Inr n"
begin

lemma accepted_by_agent:
  assumes "normalise t p = Inr n" and "job_type j = t" and "job_payload j = Some n" and "\<not> write_fields j"
  shows "check_read_job misses mixed canonical normalise j = Inr n"
  using assms again [OF assms(1)] by (simp add: check_read_job_def secure_def same_payload_def)

lemma refused_by_agent:
  assumes "job_payload j = Some p" and "\<And>n. normalise (job_type j) p = Inr n \<Longrightarrow> \<not> same_payload n p"
  shows "\<not> ok (check_read_job misses mixed canonical normalise j)"
  using assms by (auto simp: check_read_job_def ok_iff bind_Inr_iff secure_def split: if_splits)

end

end
