(* ===== verification/InventoryReads.thy ===== *)
theory InventoryReads
  imports ReadPayloads
begin

text \<open>
  Reading the state of codes (\<open>wbcz/cis_inventory.py\<close>): the payloads of the inventory jobs, validated
  into the normal form that the server enqueues and the agent accepts. \<open>repr\<close> is what \<open>str\<close> gives for
  floats, arrays and objects.
\<close>

section \<open>Search requests\<close>

definition search_string_arrays :: "pystr list" where
  "search_string_arrays = [''gtins'', ''producerInns'', ''generalPackageTypes'', ''turnoverTypes'',
     ''emissionTypes'', ''productGroups'', ''eliminationReasons'', ''serviceProviderTypes'', ''orderIds'']"

definition search_bools :: "pystr list" where
  "search_bools = [''isAggregated'', ''haveChildren'', ''serviceProviderIdPresented'']"

definition search_periods :: "pystr list" where
  "search_periods = [''emissionDatePeriod'', ''applicationDatePeriod'', ''productionDatePeriod'', ''introducedDatePeriod'']"

definition search_strings :: "pystr list" where
  "search_strings = [''manufacturerInns'', ''importerInns'', ''partyNumber'', ''tnVed'', ''tnVed10'', ''prVetDoc'']"

definition search_filters :: "pystr list" where
  "search_filters = search_periods @ search_string_arrays @ [''states''] @ search_strings @ search_bools @ [''mods'']"

text \<open>\<open>_text_value\<close> of this module.\<close>

definition text_value :: "pystr \<Rightarrow> json \<Rightarrow> pystr + json" where
  "text_value label v = (case v of
     JStr s \<Rightarrow> if s = [] then Inl (label @ '' must not be empty'') else Inr v
   | _ \<Rightarrow> Inl (label @ '' must be a string''))"

definition string_array :: "size_check \<Rightarrow> pystr \<Rightarrow> json \<Rightarrow> pystr + json" where
  "string_array sz label = array_of text_value (label @ '' must be an array'') sz label"

definition batch_size :: "pystr \<Rightarrow> size_check" where
  "batch_size label = size_within 0 [] 1000 (label @ '' exceeds max 1000'')"

definition each_pair :: "(pystr \<Rightarrow> json \<Rightarrow> pystr + json) \<Rightarrow> wire \<Rightarrow> pystr + wire" where
  "each_pair f kvs = collect (\<lambda>(k, v). bind (f k v) (\<lambda>w. Inr (k, w))) kvs"

text \<open>An object whose values are checked under their keys, in the order they come.\<close>

definition pairs_check :: "(wire \<Rightarrow> pystr + unit) \<Rightarrow> (pystr \<Rightarrow> json \<Rightarrow> pystr + json) \<Rightarrow> pystr \<Rightarrow> json \<Rightarrow> pystr + json" where
  "pairs_check guard f label v = (case v of
     JObj kvs \<Rightarrow> bind (guard kvs) (\<lambda>_. bind (each_pair f kvs) (\<lambda>n. Inr (JObj n)))
   | _ \<Rightarrow> Inl (label @ '' must be an object''))"

definition period_guard :: "pystr \<Rightarrow> wire \<Rightarrow> pystr + unit" where
  "period_guard label kvs =
     (if kvs = [] then Inl (label @ '' must not be empty'')
      else only_fields [''from'', ''to''] (label @ '' has unknown fields'') kvs)"

definition period_check :: "pystr \<Rightarrow> json \<Rightarrow> pystr + json" where
  "period_check label = pairs_check (period_guard label) (\<lambda>k. text_value (label @ ''.'' @ k)) label"

definition state_check :: "pystr \<Rightarrow> json \<Rightarrow> pystr + json" where
  "state_check = object_of [''status'', ''statusExt'', ''isStatusExtNull''] (\<lambda>label.
     [Field ''status'' IfGiven (text_value (label @ ''.status'')),
      Field ''statusExt'' IfGiven (text_value (label @ ''.statusExt'')),
      Field ''isStatusExtNull'' IfGiven (expect_bool (label @ ''.isStatusExtNull must be boolean''))])"

definition mod_check :: "pystr \<Rightarrow> json \<Rightarrow> pystr + json" where
  "mod_check = object_of [''kpp'', ''fiasId''] (\<lambda>label.
     [Field ''kpp'' IfGiven (text_value (label @ ''.kpp'')), Field ''fiasId'' IfGiven (text_value (label @ ''.fiasId''))])"

definition mods_size :: size_check where
  "mods_size = size_within 0 [] 50 ''filter.mods exceeds max 50''"

definition filter_check :: "pystr \<Rightarrow> json \<Rightarrow> pystr + json" where
  "filter_check k =
     (if k \<in> set search_string_arrays then string_array any_size (''filter.'' @ k)
      else if k \<in> set search_bools then expect_bool (''filter.'' @ k @ '' must be boolean'')
      else if k \<in> set search_periods then period_check (''filter.'' @ k)
      else if k = ''states'' then array_of state_check ''filter.states must be an array'' any_size ''filter.states''
      else if k = ''mods'' then array_of mod_check ''filter.mods must be an array'' mods_size ''filter.mods''
      else text_value (''filter.'' @ k))"

definition filter_guard :: "wire \<Rightarrow> pystr + unit" where
  "filter_guard kvs = bind (only_fields search_filters ''unknown search filters'' kvs) (\<lambda>_.
     if map_of kvs ''productGroups'' = Some (JList [JStr ''lp'']) then Inr ()
     else Inl ''filter.productGroups must be exactly lp'')"

definition filter_object :: "json \<Rightarrow> pystr + json" where
  "filter_object = pairs_check filter_guard filter_check ''filter''"

definition pagination_check :: "json \<Rightarrow> pystr + json" where
  "pagination_check v = (case v of
     JObj kvs \<Rightarrow>
       bind (only_fields [''perPage'', ''lastEmissionDate'', ''sgtin'', ''direction''] ''unknown pagination fields'' kvs) (\<lambda>_.
         if map_of kvs ''lastEmissionDate'' = None \<or> map_of kvs ''sgtin'' = None
         then Inl ''pagination requires lastEmissionDate and sgtin''
         else bind (run_fields
           [Field ''perPage'' (Default (JInt 100)) (int_between 1 (Some 1000) ''pagination.perPage must be 1..1000''),
            Field ''direction'' (Default (JInt 0)) (int_between 0 (Some 1) ''pagination.direction must be 0 or 1''),
            Field ''lastEmissionDate'' Needed (text_value ''pagination.lastEmissionDate''),
            Field ''sgtin'' Needed (text_value ''pagination.sgtin'')] kvs) (\<lambda>n. Inr (JObj n)))
   | _ \<Rightarrow> Inl ''pagination must be an object'')"

definition validate_search_request :: "json \<Rightarrow> pystr + json" where
  "validate_search_request v = (case v of
     JObj kvs \<Rightarrow>
       bind (only_fields [''filter'', ''pagination''] ''unknown search request fields'' kvs) (\<lambda>_.
         if map_of kvs ''filter'' = None then Inl ''filter is required''
         else bind (run_fields [Field ''filter'' Needed filter_object, Field ''pagination'' Optional pagination_check] kvs)
           (\<lambda>n. Inr (JObj n)))
   | _ \<Rightarrow> Inl ''search request must be an object'')"

section \<open>Payloads\<close>

definition cis_check :: "json \<Rightarrow> pystr + json" where
  "cis_check v = bind (text_value ''cis'' v) (\<lambda>w. case w of
     JStr s \<Rightarrow> bind (normalize_cis s) (\<lambda>t. Inr (JStr t)) | _ \<Rightarrow> Inl ''cis'')"

definition json_text :: "json \<Rightarrow> pystr" where
  "json_text x = (case x of JStr s \<Rightarrow> s | _ \<Rightarrow> [])"

definition cises_check :: "json \<Rightarrow> pystr + json" where
  "cises_check v = bind (string_array (batch_size ''cises'') ''cises'' v) (\<lambda>w. case w of
     JList xs \<Rightarrow> bind (normalize_cises (map json_text xs)) (\<lambda>cs. Inr (JList (map JStr cs)))
   | _ \<Rightarrow> Inl ''cises'')"

definition gtins_check :: "json \<Rightarrow> pystr + json" where
  "gtins_check v = bind (string_array (batch_size ''gtins'') ''gtins'' v) (\<lambda>w. case w of
     JList xs \<Rightarrow> if 1 \<le> length xs \<and> length xs \<le> 1000 then Inr w else Inl ''product/info gtins must contain 1..1000 values''
   | _ \<Rightarrow> Inl ''gtins'')"

definition cises_jobs :: "pystr list" where
  "cises_jobs = [''CIS_INFO'', ''CIS_AGGREGATED_LIST'', ''CIS_TO_PRODUCT'']"

definition cis_jobs :: "pystr list" where
  "cis_jobs = [''CIS_HISTORY'', ''CIS_AGGREGATION_HISTORY'']"

definition validate_m1_job_payload :: "pystr \<Rightarrow> wire \<Rightarrow> pystr + wire" where
  "validate_m1_job_payload t root =
     (if t \<in> set cises_jobs then
        exactly (t @ '' payload must contain only cises'') [(''cises'', cises_check)] root
      else if t \<in> set cis_jobs then
        exactly (t @ '' payload must contain only cis'') [(''cis'', cis_check)] root
      else if t = ''PRODUCT_INFO'' then
        (if map_of root ''gtins'' = None then Inl ''PRODUCT_INFO payload allows only gtins and rdInfo''
         else fields_of [''gtins'', ''rdInfo''] ''PRODUCT_INFO payload allows only gtins and rdInfo''
           [Field ''gtins'' Needed gtins_check, Field ''rdInfo'' (Default (JBool False)) (expect_bool ''rdInfo must be boolean'')] root)
      else if t = ''CIS_SEARCH'' then
        exactly ''CIS_SEARCH payload must contain only request'' [(''request'', validate_search_request)] root
      else Inl ''unsupported M1 read job type'')"

section \<open>Normal forms\<close>

lemma each_pair_again:
  assumes "\<And>k. steady (f k)"
  shows "each_pair f kvs = Inr n \<Longrightarrow> each_pair f n = Inr n \<and> map fst n = map fst kvs
    \<and> (\<forall>k w. map_of kvs k = Some w \<longrightarrow> f k w = Inr w \<longrightarrow> map_of n k = Some w)"
proof (induction kvs arbitrary: n)
  case (Cons a kvs)
  obtain k v where a: "a = (k, v)" by force
  with Cons.prems obtain w m where w: "f k v = Inr w" "each_pair f kvs = Inr m" "n = (k, w) # m"
    by (auto simp: each_pair_def bind_Inr_iff)
  from assms w(1) have "f k w = Inr w" by (auto simp: steady_def)
  with Cons.IH [OF w(2)] w a show ?case by (auto simp: each_pair_def)
qed (auto simp: each_pair_def)

lemma only_fields_map: "map fst n = map fst kvs \<Longrightarrow> only_fields allowed m n = only_fields allowed m kvs"
proof -
  assume n: "map fst n = map fst kvs"
  have "only_fields allowed m r = (if set (map fst r) \<subseteq> set allowed then Inr () else Inl m)" for r :: wire
    by (auto simp: only_fields_def list_all_iff)
  with n show ?thesis by metis
qed

lemma steady_text_value [steady_checks]: "steady (text_value label)"
  by (auto simp: steady_def text_value_def split: json.splits if_splits)

lemma steady_string_array [steady_checks]: "steady (string_array sz label)"
  by (simp add: string_array_def steady_checks)

lemma steady_pairs:
  assumes "\<And>k. steady (f k)" and "\<And>kvs n. guard kvs = Inr () \<Longrightarrow> each_pair f kvs = Inr n \<Longrightarrow> guard n = Inr ()"
  shows "steady (pairs_check guard f label)"
  unfolding steady_def
proof (intro allI impI)
  fix v w assume "pairs_check guard f label v = Inr w"
  then obtain kvs n where v: "guard kvs = Inr ()" "each_pair f kvs = Inr n" "w = JObj n"
    by (cases v) (auto simp: pairs_check_def bind_Inr_iff)
  with each_pair_again [OF assms(1) v(2)] assms(2) [OF v(1,2)]
  show "pairs_check guard f label w = Inr w \<and> w \<noteq> JNull" by (simp add: pairs_check_def)
qed

lemma steady_period [steady_checks]: "steady (period_check label)"
  unfolding period_check_def
proof (rule steady_pairs)
  fix kvs n assume g: "period_guard label kvs = Inr ()"
    and n: "each_pair (\<lambda>k. text_value (label @ ''.'' @ k)) kvs = Inr n"
  from each_pair_again [OF steady_text_value n] have keys: "map fst n = map fst kvs" by blast
  from g have "kvs \<noteq> []" "only_fields [''from'', ''to''] (label @ '' has unknown fields'') kvs = Inr ()"
    by (simp_all add: period_guard_def split: if_split_asm)
  with keys show "period_guard label n = Inr ()"
    by (auto simp: period_guard_def only_fields_map [OF keys])
qed (rule steady_text_value)

lemma steady_state [steady_checks]: "steady (state_check label)"
  unfolding state_check_def by (rule steady_object_of) (simp_all add: steady_text_value steady_expect_bool)

lemma steady_mod [steady_checks]: "steady (mod_check label)"
  unfolding mod_check_def by (rule steady_object_of) (simp_all add: steady_text_value)

lemma steady_filter_check [steady_checks]: "steady (filter_check k)"
  by (simp add: filter_check_def steady_checks)

lemma steady_filter_object [steady_checks]: "steady filter_object"
  unfolding filter_object_def
proof (rule steady_pairs)
  fix kvs n assume g: "filter_guard kvs = Inr ()" and n: "each_pair filter_check kvs = Inr n"
  have "filter_check ''productGroups'' (JList [JStr ''lp'']) = Inr (JList [JStr ''lp''])"
    by (simp add: filter_check_def search_string_arrays_def string_array_def array_of_def any_size_def text_value_def)
  moreover from each_pair_again [OF steady_filter_check n] have keys: "map fst n = map fst kvs" by blast
  moreover from g have "map_of kvs ''productGroups'' = Some (JList [JStr ''lp''])"
    "only_fields search_filters ''unknown search filters'' kvs = Inr ()"
    by (simp_all add: filter_guard_def bind_Inr_iff split: if_split_asm)
  ultimately show "filter_guard n = Inr ()"
    using each_pair_again [OF steady_filter_check n] by (simp add: filter_guard_def only_fields_map [OF keys])
qed (rule steady_filter_check)

lemma steady_pagination [steady_checks]: "steady pagination_check"
  unfolding steady_def
proof (intro allI impI)
  let ?fs = "[Field ''perPage'' (Default (JInt 100)) (int_between 1 (Some 1000) ''pagination.perPage must be 1..1000''),
    Field ''direction'' (Default (JInt 0)) (int_between 0 (Some 1) ''pagination.direction must be 0 or 1''),
    Field ''lastEmissionDate'' Needed (text_value ''pagination.lastEmissionDate''),
    Field ''sgtin'' Needed (text_value ''pagination.sgtin'')]"
  let ?allowed = "[''perPage'', ''lastEmissionDate'', ''sgtin'', ''direction'']"
  fix v w assume "pagination_check v = Inr w"
  then obtain kvs n where n: "run_fields ?fs kvs = Inr n" "w = JObj n"
    by (cases v) (simp_all add: pagination_check_def bind_Inr_iff split: if_split_asm, blast)
  have again: "run_fields ?fs n = Inr n"
    by (rule run_fields_again [OF n(1)]) (simp_all add: steady_int_between steady_text_value)
  have "only_fields ?allowed ''unknown pagination fields'' n = Inr ()"
    by (rule only_fields_normal [OF n(1)]) simp
  moreover have "map_of n ''lastEmissionDate'' \<noteq> None \<and> map_of n ''sgtin'' \<noteq> None"
    using n(1) by (auto simp: run_fields_def bind_Inr_iff)
  ultimately show "pagination_check w = Inr w \<and> w \<noteq> JNull"
    using again n(2) by (simp add: pagination_check_def)
qed

lemma steady_search_request [steady_checks]: "steady validate_search_request"
  unfolding steady_def
proof (intro allI impI)
  let ?fs = "[Field ''filter'' Needed filter_object, Field ''pagination'' Optional pagination_check]"
  fix v w assume "validate_search_request v = Inr w"
  then obtain kvs n where n: "run_fields ?fs kvs = Inr n" "w = JObj n"
    by (cases v) (simp_all add: validate_search_request_def bind_Inr_iff split: if_split_asm, blast)
  have again: "run_fields ?fs n = Inr n"
    by (rule run_fields_again [OF n(1)]) (simp_all add: steady_filter_object steady_pagination)
  have "only_fields [''filter'', ''pagination''] ''unknown search request fields'' n = Inr ()"
    by (rule only_fields_normal [OF n(1)]) simp
  moreover have "map_of n ''filter'' \<noteq> None"
    using n(1) by (auto simp: run_fields_def bind_Inr_iff)
  ultimately show "validate_search_request w = Inr w \<and> w \<noteq> JNull"
    using again n(2) by (simp add: validate_search_request_def)
qed

lemma normalize_cis_again: "normalize_cis s = Inr t \<Longrightarrow> normalize_cis t = Inr t \<and> t \<noteq> []"
  by (auto simp: normalize_cis_def Let_def split: if_splits)

lemma steady_cis [steady_checks]: "steady cis_check"
  unfolding steady_def
proof (intro allI impI)
  fix v w assume "cis_check v = Inr w"
  then obtain s t where t: "normalize_cis s = Inr t" "w = JStr t"
    by (cases v) (auto simp: cis_check_def text_value_def bind_Inr_iff split: if_splits)
  from normalize_cis_again [OF t(1)] t(2) show "cis_check w = Inr w \<and> w \<noteq> JNull"
    by (simp add: cis_check_def text_value_def)
qed

lemma strings_kept: "\<forall>c\<in>set cs. c \<noteq> [] \<Longrightarrow> each_item (\<lambda>i. text_value (l i)) i (map JStr cs) = Inr (map JStr cs)"
  by (induction cs arbitrary: i) (simp_all add: text_value_def)

lemma steady_cises [steady_checks]: "steady cises_check"
  unfolding steady_def
proof (intro allI impI)
  fix v w assume "cises_check v = Inr w"
  then obtain u where u: "string_array (batch_size ''cises'') ''cises'' v = Inr u"
      "(case u of JList xs \<Rightarrow> bind (normalize_cises (map json_text xs)) (\<lambda>cs. Inr (JList (map JStr cs)))
        | _ \<Rightarrow> Inl ''cises'') = Inr w"
    unfolding cises_check_def bind_Inr_iff by blast
  from u(2) obtain ss cs where cs: "normalize_cises ss = Inr cs" "w = JList (map JStr cs)"
    by (cases u) (simp_all add: bind_Inr_iff, blast)
  then have c: "collect normalize_cis ss = Inr cs" "1 \<le> length cs" "length cs \<le> 1000"
    by (auto simp: normalize_cises_def bind_Inr_iff split: if_splits)
  have "\<forall>c\<in>set cs. normalize_cis c = Inr c \<and> c \<noteq> []"
  proof
    fix c assume "c \<in> set cs"
    with c(1) have "Inr c \<in> set (map normalize_cis ss)" by (auto simp: collect_Inr)
    then show "normalize_cis c = Inr c \<and> c \<noteq> []" using normalize_cis_again by force
  qed
  then have "collect normalize_cis cs = Inr cs" "\<forall>c\<in>set cs. c \<noteq> []" by (auto simp: collect_Inr)
  with c(2,3) cs(2) strings_kept [of cs] show "cises_check w = Inr w \<and> w \<noteq> JNull"
    by (simp add: cises_check_def string_array_def array_of_def batch_size_def size_within_def normalize_cises_def json_text_def comp_def)
qed

lemma steady_gtins [steady_checks]: "steady gtins_check"
  unfolding steady_def
proof (intro allI impI)
  fix v w assume "gtins_check v = Inr w"
  then obtain u where u: "string_array (batch_size ''gtins'') ''gtins'' v = Inr u"
      "(case u of JList xs \<Rightarrow> if 1 \<le> length xs \<and> length xs \<le> 1000 then Inr u
          else Inl ''product/info gtins must contain 1..1000 values''
        | _ \<Rightarrow> Inl ''gtins'') = Inr w"
    unfolding gtins_check_def bind_Inr_iff by blast
  from u(2) obtain xs where "u = w" "w = JList xs" "1 \<le> length xs" "length xs \<le> 1000"
    by (cases u) (simp_all split: if_split_asm)
  with u(1) have w: "string_array (batch_size ''gtins'') ''gtins'' v = Inr w" "w = JList xs" "1 \<le> length xs" "length xs \<le> 1000"
    by simp_all
  with steady_string_array [of "batch_size ''gtins''" "''gtins''"] show "gtins_check w = Inr w \<and> w \<noteq> JNull"
    by (auto simp: steady_def gtins_check_def)
qed

lemma m1_cases:
  assumes "validate_m1_job_payload t root = Inr n"
  obtains "t \<in> set cises_jobs" | "t \<in> set cis_jobs" | "t = ''PRODUCT_INFO''" | "t = ''CIS_SEARCH''"
  using assms unfolding validate_m1_job_payload_def by (metis Inl_Inr_False)

lemma m1_cises:
  "t \<in> set cises_jobs \<Longrightarrow> validate_m1_job_payload t root
    = exactly (t @ '' payload must contain only cises'') [(''cises'', cises_check)] root"
  unfolding validate_m1_job_payload_def by (simp only: if_True)

lemma m1_cis:
  assumes "t \<in> set cis_jobs"
  shows "validate_m1_job_payload t root
    = exactly (t @ '' payload must contain only cis'') [(''cis'', cis_check)] root"
proof -
  from assms have "t \<notin> set cises_jobs" by (auto simp: cis_jobs_def cises_jobs_def)
  with assms show ?thesis unfolding validate_m1_job_payload_def by (simp only: if_True if_False)
qed

lemma m1_other: "t \<in> {''PRODUCT_INFO'', ''CIS_SEARCH''} \<Longrightarrow> t \<notin> set cises_jobs \<and> t \<notin> set cis_jobs"
  by (auto simp: cis_jobs_def cises_jobs_def)

lemma m1_product:
  "validate_m1_job_payload ''PRODUCT_INFO'' root =
    (if map_of root ''gtins'' = None then Inl ''PRODUCT_INFO payload allows only gtins and rdInfo''
     else fields_of [''gtins'', ''rdInfo''] ''PRODUCT_INFO payload allows only gtins and rdInfo''
       [Field ''gtins'' Needed gtins_check, Field ''rdInfo'' (Default (JBool False)) (expect_bool ''rdInfo must be boolean'')] root)"
  using m1_other [of "''PRODUCT_INFO''"] unfolding validate_m1_job_payload_def by simp

lemma m1_search:
  "validate_m1_job_payload ''CIS_SEARCH'' root =
    exactly ''CIS_SEARCH payload must contain only request'' [(''request'', validate_search_request)] root"
  using m1_other [of "''CIS_SEARCH''"] unfolding validate_m1_job_payload_def by simp

lemma m1_again:
  assumes n: "validate_m1_job_payload t root = Inr n"
  shows "validate_m1_job_payload t n = Inr n"
  using n
proof (cases rule: m1_cases)
  case 1
  show ?thesis unfolding m1_cises [OF 1]
    by (rule exactly_again [OF n [unfolded m1_cises [OF 1]]]) (simp_all add: steady_cises)
next
  case 2
  show ?thesis unfolding m1_cis [OF 2]
    by (rule exactly_again [OF n [unfolded m1_cis [OF 2]]]) (simp_all add: steady_cis)
next
  case 3
  let ?fs = "[Field ''gtins'' Needed gtins_check,
    Field ''rdInfo'' (Default (JBool False)) (expect_bool ''rdInfo must be boolean'')]"
  from n 3 have f: "fields_of [''gtins'', ''rdInfo''] ''PRODUCT_INFO payload allows only gtins and rdInfo'' ?fs root = Inr n"
    by (simp add: m1_product split: if_split_asm)
  have "fields_of [''gtins'', ''rdInfo''] ''PRODUCT_INFO payload allows only gtins and rdInfo'' ?fs n = Inr n"
    by (rule fields_of_again [OF f]) (simp_all add: steady_gtins steady_expect_bool)
  moreover have "map_of n ''gtins'' \<noteq> None"
    using f by (auto simp: fields_of_def run_fields_def bind_Inr_iff)
  ultimately show ?thesis using 3 by (simp add: m1_product)
next
  case 4
  show ?thesis unfolding 4 m1_search
    by (rule exactly_again [OF n [unfolded 4 m1_search]]) (simp_all add: steady_search_request)
qed

interpretation m1: read_contract validate_m1_job_payload
  by unfold_locales (rule m1_again)

end
