(* ===== verification/InventoryAnswers.thy ===== *)
theory InventoryAnswers
  imports InventoryReads ControlEngine
begin

text \<open>
  The second half of \<open>wbcz/cis_inventory.py\<close>: the request a payload becomes, the allow-list of request
  targets, the parsers of the answers, and the decision state read from an answer. \<open>repr\<close> is what
  \<open>str\<close> gives for floats, arrays and objects. Answers are JSON values with the keys the code gives
  them. The redaction of error texts by regular expressions is left out.
\<close>

section \<open>Requests\<close>

record read_spec =
  spec_job :: pystr
  spec_method :: pystr
  spec_target :: pystr
  spec_body :: json
  spec_audit :: pystr
  spec_count :: nat

definition cis_info_target :: pystr where
  "cis_info_target = ''/api/v3/true-api/cises/info?pg=lp''"

definition cis_search_target :: pystr where
  "cis_search_target = ''/api/v4/true-api/cises/search''"

definition cis_history_prefix :: pystr where
  "cis_history_prefix = ''/api/v3/true-api/cises/history?cis=''"

definition aggregated_list_target :: pystr where
  "aggregated_list_target = ''/api/v3/true-api/cises/aggregated/list?pg=lp''"

definition aggregation_history_target :: pystr where
  "aggregation_history_target = ''/api/v3/true-api/cises/history/list''"

definition product_info_target :: pystr where
  "product_info_target = ''/api/v4/true-api/product/info''"

definition array_length :: "json \<Rightarrow> nat" where
  "array_length v = (case v of JList xs \<Rightarrow> length xs | _ \<Rightarrow> 0)"

definition post_spec :: "pystr \<Rightarrow> pystr \<Rightarrow> json \<Rightarrow> pystr \<Rightarrow> nat \<Rightarrow> read_spec" where
  "post_spec t target b audit n =
     \<lparr>spec_job = t, spec_method = ''POST'', spec_target = target, spec_body = b, spec_audit = audit, spec_count = n\<rparr>"

definition read_spec_of :: "pystr \<Rightarrow> wire \<Rightarrow> pystr + read_spec" where
  "read_spec_of t n =
     (let cises = get_key ''cises'' n; cis = get_key ''cis'' n in
      if t = ''CIS_INFO'' then Inr (post_spec t cis_info_target cises ''/cises/info?pg=lp'' (array_length cises))
      else if t = ''CIS_SEARCH'' then Inr (post_spec t cis_search_target (get_key ''request'' n) ''/cises/search'' 0)
      else if t = ''CIS_HISTORY'' then
        Inr (post_spec t (cis_history_prefix @ url_quote (json_text cis)) JNull ''/cises/history?cis={CIS}'' 1)
      else if t = ''CIS_AGGREGATED_LIST'' then
        Inr (post_spec t aggregated_list_target cises ''/cises/aggregated/list?pg=lp'' (array_length cises))
      else if t = ''CIS_AGGREGATION_HISTORY'' then
        Inr (post_spec t aggregation_history_target (JObj [(''cis'', cis)]) ''/cises/history/list'' 1)
      else if t = ''PRODUCT_INFO'' then Inr (post_spec t product_info_target (JObj n) ''/product/info'' 0)
      else Inl ''CIS_TO_PRODUCT is a composite job and has no single request spec'')"

definition build_read_spec :: "pystr \<Rightarrow> wire \<Rightarrow> pystr + read_spec" where
  "build_read_spec t p = bind (validate_m1_job_payload t p) (read_spec_of t)"

definition is_allowed_read_target :: "read_spec \<Rightarrow> bool" where
  "is_allowed_read_target s \<longleftrightarrow> spec_method s = ''POST'' \<and>
     (spec_target s \<in> {cis_info_target, cis_search_target, aggregated_list_target, aggregation_history_target, product_info_target}
      \<or> (spec_job s = ''CIS_HISTORY'' \<and> startswith (spec_target s) cis_history_prefix
         \<and> (let e = drop (length cis_history_prefix) (spec_target s) in
            e \<noteq> [] \<and> CHR ''&'' \<notin> set e \<and> CHR ''#'' \<notin> set e)))"

section \<open>Answers\<close>

definition text_or_null :: "(json \<Rightarrow> pystr) \<Rightarrow> json \<Rightarrow> json" where
  "text_or_null repr v = (if v = JNull then JNull else JStr (py_str repr v))"

definition pick :: "pystr list \<Rightarrow> wire \<Rightarrow> wire" where
  "pick ks raw = map (\<lambda>k. (k, get_key k raw)) ks"

record cis_info_wire =
  ci_requested :: pystr
  ci_info :: "wire option"
  ci_code :: json
  ci_message :: json
  ci_raw :: wire

definition wire_info :: "(json \<Rightarrow> pystr) \<Rightarrow> pystr \<Rightarrow> json \<Rightarrow> pystr + cis_info_wire" where
  "wire_info repr requested v = (case v of
     JObj raw \<Rightarrow> Inr \<lparr>ci_requested = requested,
       ci_info = (case get_key ''cisInfo'' raw of JObj i \<Rightarrow> Some i | _ \<Rightarrow> None),
       ci_code = text_or_null repr (get_key ''errorCode'' raw),
       ci_message = text_or_null repr (get_key ''errorMessage'' raw), ci_raw = raw\<rparr>
   | _ \<Rightarrow> Inl ''cises/info result item must be an object'')"

text \<open>\<open>asdict\<close> of the wire and of the normalised state.\<close>

definition wire_info_json :: "cis_info_wire \<Rightarrow> json" where
  "wire_info_json w = JObj [(''requested_cis'', JStr (ci_requested w)), (''cis_info'', opt_obj (ci_info w)),
     (''error_code'', ci_code w), (''error_message'', ci_message w), (''raw'', JObj (ci_raw w))]"

definition normalized_info :: "cis_info_wire \<Rightarrow> json" where
  "normalized_info w = (case ci_info w of
     None \<Rightarrow> JNull
   | Some i \<Rightarrow> JObj ((''requested_cis'', JStr (ci_requested w)) # map (\<lambda>(k, source). (k, get_key source i))
       [(''cis'', ''cis''), (''gtin'', ''gtin''), (''product_name'', ''productName''), (''product_group'', ''productGroup''),
        (''owner_inn'', ''ownerInn''), (''owner_name'', ''ownerName''), (''status'', ''status''), (''status_ex'', ''statusEx''),
        (''withdraw_reason'', ''withdrawReason''), (''withdraw_reason_other'', ''withdrawReasonOther''),
        (''parent'', ''parent''), (''child'', ''child'')] @ [(''raw'', JObj i)]))"

definition info_item :: "cis_info_wire \<Rightarrow> json" where
  "info_item w = JObj [(''wire'', wire_info_json w), (''normalized'', normalized_info w),
     (''item_error'', if ci_code w = JNull \<and> ci_message w = JNull then JNull
        else JObj [(''code'', ci_code w), (''message'', ci_message w)])]"

definition parse_cis_info :: "(json \<Rightarrow> pystr) \<Rightarrow> pystr list \<Rightarrow> json \<Rightarrow> pystr + wire" where
  "parse_cis_info repr requested v = (case v of
     JList xs \<Rightarrow> if length xs \<noteq> length requested then Inl ''cises/info response item count mismatch''
       else bind (collect (\<lambda>(c, x). wire_info repr c x) (zip requested xs)) (\<lambda>ws.
         Inr [(''type'', JStr ''CIS_INFO''), (''items'', JList (map info_item ws)),
              (''partial_item_errors_supported'', JBool True)])
   | _ \<Rightarrow> Inl ''cises/info response must be an array'')"

definition object_rows :: "pystr \<Rightarrow> (wire \<Rightarrow> json) \<Rightarrow> json list \<Rightarrow> pystr + json list" where
  "object_rows message f = collect (\<lambda>x. case x of JObj raw \<Rightarrow> Inr (f raw) | _ \<Rightarrow> Inl message)"

definition wire_of :: "pystr list \<Rightarrow> wire \<Rightarrow> json" where
  "wire_of ks raw = JObj ((''raw'', JObj raw) # pick ks raw)"

definition object_pairs_of :: "json \<Rightarrow> wire" where
  "object_pairs_of v = (case v of JObj kvs \<Rightarrow> kvs | _ \<Rightarrow> [])"

definition string_items :: "json \<Rightarrow> pystr list" where
  "string_items v = (case v of JList xs \<Rightarrow> map json_text xs | _ \<Rightarrow> [])"

definition search_row :: "wire \<Rightarrow> json" where
  "search_row raw = JObj
     [(''wire'', wire_of [''cis'', ''sgtin'', ''gtin'', ''ownerInn'', ''status'', ''statusExt'', ''eliminationReason''] raw),
      (''normalized'', JObj [(''cis'', get_key ''cis'' raw), (''sgtin'', get_key ''sgtin'' raw), (''gtin'', get_key ''gtin'' raw),
         (''status'', get_key ''status'' raw), (''status_ext'', get_key ''statusExt'' raw),
         (''elimination_reason'', get_key ''eliminationReason'' raw), (''search_owner_inn'', get_key ''ownerInn'' raw),
         (''owner_authoritative'', JBool False)])]"

definition parse_search :: "pystr + wire \<Rightarrow> json \<Rightarrow> pystr + wire" where
  "parse_search normalized v = (case v of
     JObj root \<Rightarrow> (case (get_key ''isLastPage'' root, get_key ''result'' root) of
         (JBool b, JList xs) \<Rightarrow> bind (object_rows ''cises/search result item must be an object'' search_row xs) (\<lambda>rows.
           bind normalized (\<lambda>n.
           Inr [(''type'', JStr ''CIS_SEARCH''), (''isLastPage'', JBool b), (''result'', JList rows),
                (''pagination'', get_key ''pagination'' (object_pairs_of (get_key ''request'' n))),
                (''auto_pagination'', JBool False),
                (''cursor_advancement'', JStr ''UNKNOWN''), (''result_ceiling'', JInt 10000)]))
       | _ \<Rightarrow> Inl ''cises/search response requires isLastPage and result'')
   | _ \<Rightarrow> Inl ''cises/search response must be an object'')"

definition history_row :: "wire \<Rightarrow> json" where
  "history_row raw = JObj [(''wire'',
     wire_of [''cis'', ''gtin'', ''status'', ''ownerInn'', ''operationDate'', ''timestamp''] raw)]"

definition parse_history :: "json \<Rightarrow> pystr + wire" where
  "parse_history v = (case v of
     JList xs \<Rightarrow> bind (object_rows ''cises/history item must be an object'' history_row xs) (\<lambda>rows.
       Inr [(''type'', JStr ''CIS_HISTORY''), (''history'', JList rows)])
   | _ \<Rightarrow> Inl ''cises/history response must be an array'')"

definition unhashable :: "json \<Rightarrow> bool" where
  "unhashable v = (case v of JList _ \<Rightarrow> True | JObj _ \<Rightarrow> True | _ \<Rightarrow> False)"

definition aggregate_item :: "wire \<Rightarrow> pystr \<Rightarrow> pystr + json" where
  "aggregate_item root c = (case (case map_of root c of None \<Rightarrow> JObj [] | Some x \<Rightarrow> x) of
     JObj raw \<Rightarrow> Inr (JObj [(''wire'', JObj [(''requested_cis'', JStr c), (''raw'', JObj raw)]),
       (''direct_layer_only'', JBool True), (''recursive'', JBool False)])
   | _ \<Rightarrow> Inl ''aggregated/list item must be an object'')"

definition parse_aggregated :: "pystr + wire \<Rightarrow> json \<Rightarrow> pystr + wire" where
  "parse_aggregated normalized v = (case v of
     JObj root \<Rightarrow> bind normalized (\<lambda>n.
       bind (collect (aggregate_item root) (string_items (get_key ''cises'' n))) (\<lambda>rows.
       Inr [(''type'', JStr ''CIS_AGGREGATED_LIST''), (''items'', JList rows)]))
   | _ \<Rightarrow> Inl ''cises/aggregated/list response must be an object'')"

text \<open>An operation type that is an array or an object cannot be looked up in a set.\<close>

definition aggregation_row :: "json \<Rightarrow> pystr + json" where
  "aggregation_row x = (case x of
     JObj raw \<Rightarrow>
       (let op_type = get_key ''operationType'' raw;
            known = op_type \<in> {JStr ''AUTODISAGGREGATED'', JStr ''AUTODISAGGREGATION''} in
        if unhashable op_type then Inl ''TypeError''
        else Inr (JObj
          [(''wire'', wire_of [''cis'', ''operationType'', ''operationDate'', ''packageType'', ''extendedPackageType'', ''parent''] raw),
           (''normalized_operation_type'', if known then JStr ''AUTODISAGGREGATION'' else JNull),
           (''operation_type_known'', JBool known)]))
   | _ \<Rightarrow> Inl ''aggregation history item must be an object'')"

definition parse_aggregation_history :: "json \<Rightarrow> pystr + wire" where
  "parse_aggregation_history v = (case v of
     JObj root \<Rightarrow> (case get_key ''cisAggregation'' root of
         JList xs \<Rightarrow> bind (collect aggregation_row xs) (\<lambda>rows.
           Inr [(''type'', JStr ''CIS_AGGREGATION_HISTORY''), (''cisAggregation'', JList rows),
                (''operationDate_nullable'', JBool True)])
       | _ \<Rightarrow> Inl ''cises/history/list response requires cisAggregation array'')
   | _ \<Rightarrow> Inl ''cises/history/list response must be an object'')"

definition flag_or_null :: "json \<Rightarrow> json" where
  "flag_or_null v = (case v of JBool b \<Rightarrow> v | _ \<Rightarrow> JNull)"

definition product_wire :: "wire \<Rightarrow> json" where
  "product_wire raw = JObj ((''raw'', JObj raw) # pick [''gtin'', ''name'', ''brand'', ''productGroup''] raw
     @ [(''goodMarkFlag'', flag_or_null (get_key ''goodMarkFlag'' raw)), (''goodTurnFlag'', flag_or_null (get_key ''goodTurnFlag'' raw))]
     @ pick [''subBrand'', ''privateBrand'', ''packageType'', ''innerUnitCount'', ''model'', ''inn'', ''permittedInns'',
         ''productGroupId'', ''goodSignedFlag'', ''goodStatus'', ''isKit'', ''isTechGtin'', ''isSet'', ''setGtin'',
         ''setDescription'', ''level'', ''mainGtin'', ''multiplier'', ''foreignProducer'', ''exporter'', ''standardNumber'',
         ''tnVedCode'', ''tnVedCode10'', ''fullName'', ''basicUnit'', ''quantityInPack'', ''quantityInPackType'',
         ''reasonCertMissing'', ''reasonCertMissingDetails'', ''certDocList''] raw)"

definition objects_of :: "pystr \<Rightarrow> json list \<Rightarrow> pystr + wire list" where
  "objects_of message = collect (\<lambda>x. case x of JObj raw \<Rightarrow> Inr raw | _ \<Rightarrow> Inl message)"

text \<open>The last row of each article number, as the dictionary keeps it.\<close>

definition returned_rows :: "(json \<Rightarrow> pystr) \<Rightarrow> wire list \<Rightarrow> pystr \<Rightarrow> wire option" where
  "returned_rows repr raws = map_of (rev (concat (map (\<lambda>raw.
     if falsy (get_key ''gtin'' raw) then [] else [(py_str repr (get_key ''gtin'' raw), raw)]) raws)))"

definition enrichment :: "(json \<Rightarrow> pystr) \<Rightarrow> wire list \<Rightarrow> pystr \<Rightarrow> json" where
  "enrichment repr raws g = JObj [(''gtin'', JStr g),
     (''state'', JStr (if returned_rows repr raws g = None then ''NOT_RETURNED_BY_PRODUCT_INFO'' else ''RETURNED'')),
     (''product'', opt_obj (returned_rows repr raws g))]"

definition parse_product :: "(json \<Rightarrow> pystr) \<Rightarrow> pystr + wire \<Rightarrow> json \<Rightarrow> pystr + wire" where
  "parse_product repr normalized v = (case v of
     JObj root \<Rightarrow> (case get_key ''results'' root of
         JList xs \<Rightarrow> bind normalized (\<lambda>n. bind (objects_of ''product/info result item must be an object'' xs) (\<lambda>raws.
           Inr [(''type'', JStr ''PRODUCT_INFO''), (''results'', JList (map (\<lambda>raw. JObj [(''wire'', product_wire raw)]) raws)),
                (''total'', get_key ''total'' root), (''errorCode'', get_key ''errorCode'' root),
                (''requested'', JList (map (enrichment repr raws) (string_items (get_key ''gtins'' n)))),
                (''absence_does_not_mean_nonexistent'', JBool True)]))
       | _ \<Rightarrow> Inl ''product/info response requires results array'')
   | _ \<Rightarrow> Inl ''product/info response must be an object'')"

text \<open>The payload of the request is validated again where its answer needs it.\<close>

definition parse_success_payload :: "(json \<Rightarrow> pystr) \<Rightarrow> pystr \<Rightarrow> wire \<Rightarrow> json \<Rightarrow> pystr + wire" where
  "parse_success_payload repr t request v =
     (let normalized = validate_m1_job_payload t request in
      if t = ''CIS_INFO'' then bind normalized (\<lambda>n. parse_cis_info repr (string_items (get_key ''cises'' n)) v)
      else if t = ''CIS_SEARCH'' then parse_search normalized v
      else if t = ''CIS_HISTORY'' then parse_history v
      else if t = ''CIS_AGGREGATED_LIST'' then parse_aggregated normalized v
      else if t = ''CIS_AGGREGATION_HISTORY'' then parse_aggregation_history v
      else if t = ''PRODUCT_INFO'' then parse_product repr normalized v
      else Inl (''no parser for '' @ t))"

text \<open>The article numbers of the codes of an answer, each once, in order.\<close>

definition first_gtins :: "json list \<Rightarrow> pystr list" where
  "first_gtins items = fold (\<lambda>x acc. case x of
       JObj item \<Rightarrow> (case get_key ''normalized'' item of
           JObj i \<Rightarrow> (case get_key ''gtin'' i of
               JStr g \<Rightarrow> if g \<noteq> [] \<and> g \<notin> set acc then acc @ [g] else acc
             | _ \<Rightarrow> acc)
         | _ \<Rightarrow> acc)
     | _ \<Rightarrow> acc) items []"

definition build_cis_to_product_info_request ::
    "(json \<Rightarrow> pystr) \<Rightarrow> json \<Rightarrow> pystr list \<Rightarrow> pystr + wire \<times> pystr list" where
  "build_cis_to_product_info_request repr v requested = bind (normalize_cises requested) (\<lambda>cs.
     bind (parse_success_payload repr ''CIS_INFO'' [(''cises'', JList (map JStr cs))] v) (\<lambda>parsed.
       Inr (parsed, first_gtins (case get_key ''items'' parsed of JList xs \<Rightarrow> xs | _ \<Rightarrow> []))))"

section \<open>The state a decision is made on\<close>

definition get_or :: "wire \<Rightarrow> pystr \<Rightarrow> pystr \<Rightarrow> json" where
  "get_or v k k' = (case map_of v k of None \<Rightarrow> get_key k' v | Some x \<Rightarrow> x)"

definition only_text :: "json \<Rightarrow> pystr option" where
  "only_text x = (case x of JStr s \<Rightarrow> Some s | _ \<Rightarrow> None)"

definition decision_state_from_cis_info :: "(json \<Rightarrow> pystr) \<Rightarrow> wire \<Rightarrow> ki_state" where
  "decision_state_from_cis_info repr v =
     (let raw = py_str repr (get_key ''status'' v); ex = get_or v ''statusEx'' ''status_ex'' in
      \<lparr>status = (if upper raw = ''INTRODUCED'' then ''IN_CIRCULATION''
         else if upper raw = ''RETIRED'' then ''WITHDRAWN'' else ''UNKNOWN:'' @ raw),
       statusEx = (if ex = JNull \<or> upper (py_str repr ex) \<in> {[], ''EMPTY''} then None else Some (''UNKNOWN:'' @ py_str repr ex)),
       withdrawReason = only_text (get_or v ''withdrawReason'' ''withdraw_reason''),
       ownerInn = only_text (get_or v ''ownerInn'' ''owner_inn''),
       productGroup = (case get_or v ''productGroup'' ''product_group'' of
         JStr s \<Rightarrow> Some (if s = [] then ''lp'' else s) | _ \<Rightarrow> Some ''lp'')\<rparr>)"

section \<open>Lemmas\<close>

lemma cises_job_cases: "t \<in> set cises_jobs \<longleftrightarrow> t = ''CIS_INFO'' \<or> t = ''CIS_AGGREGATED_LIST'' \<or> t = ''CIS_TO_PRODUCT''"
  by (simp add: cises_jobs_def)

lemma cis_job_cases: "t \<in> set cis_jobs \<longleftrightarrow> t = ''CIS_HISTORY'' \<or> t = ''CIS_AGGREGATION_HISTORY''"
  by (simp add: cis_jobs_def)

lemma history_cis:
  assumes "validate_m1_job_payload ''CIS_HISTORY'' p = Inr n"
  obtains c where "get_key ''cis'' n = JStr c" and "normalize_cis c = Inr c" and "c \<noteq> []"
proof -
  from assms have n: "exactly ''CIS_HISTORY payload must contain only cis'' [(''cis'', cis_check)] p = Inr n"
    using m1_cis [of "''CIS_HISTORY''"] by (simp add: cis_jobs_def)
  then obtain w where w: "cis_check (get_key ''cis'' p) = Inr w" "n = [(''cis'', w)]"
    by (auto simp: exactly_def run_fields_def bind_Inr_iff)
  then obtain s t where t: "normalize_cis s = Inr t" "w = JStr t"
    by (cases "get_key ''cis'' p") (auto simp: cis_check_def text_value_def bind_Inr_iff split: if_splits)
  from normalize_cis_again [OF t(1)] t(2) w(2) show thesis by (intro that [of t]) (simp_all add: get_key_def)
qed

lemma read_spec_allowed:
  assumes "validate_m1_job_payload t p = Inr n" and "t \<noteq> ''CIS_TO_PRODUCT''"
  shows "\<exists>s. read_spec_of t n = Inr s \<and> is_allowed_read_target s"
proof (cases "t = ''CIS_HISTORY''")
  case True
  with assms(1) obtain c where c: "get_key ''cis'' n = JStr c" "c \<noteq> []" using history_cis by blast
  have "CHR ''&'' \<notin> set (url_quote c)" "CHR ''#'' \<notin> set (url_quote c)"
    by (intro url_quote_excludes separators_not_quoted)+
  with True c show ?thesis
    by (simp add: read_spec_of_def post_spec_def is_allowed_read_target_def startswith_def Let_def
      url_quote_Nil_iff json_text_def)
next
  case False
  from assms have "t \<in> {''CIS_INFO'', ''CIS_SEARCH'', ''CIS_HISTORY'', ''CIS_AGGREGATED_LIST'', ''CIS_AGGREGATION_HISTORY'', ''PRODUCT_INFO''}"
    by (cases rule: m1_cases) (auto simp: cises_job_cases cis_job_cases)
  then show ?thesis using False
    by (elim insertE emptyE) (simp_all add: read_spec_of_def post_spec_def is_allowed_read_target_def Let_def)
qed

lemma collect_nth: "collect f xs = Inr ys \<Longrightarrow> i < length xs \<Longrightarrow> f (xs ! i) = Inr (ys ! i)"
proof (induction xs arbitrary: ys i)
  case (Cons x xs)
  then obtain y zs where "f x = Inr y" "collect f xs = Inr zs" "ys = y # zs" by (auto simp: bind_Inr_iff)
  with Cons show ?case by (cases i) auto
qed simp

lemma wire_info_kept: "wire_info repr c x = Inr w \<Longrightarrow> ci_requested w = c \<and> JObj (ci_raw w) = x"
  by (cases x) (simp_all add: wire_info_def, elim sym [THEN ssubst], simp)

lemma parse_cis_info_Inr:
  assumes "parse_cis_info repr cs v = Inr r"
  obtains xs ws where "v = JList xs" and "length xs = length cs" and "length ws = length cs"
    and "\<And>i. i < length cs \<Longrightarrow> wire_info repr (cs ! i) (xs ! i) = Inr (ws ! i)"
    and "get_key ''items'' r = JList (map info_item ws)"
proof -
  from assms obtain xs ws where x: "v = JList xs" "length xs = length cs"
      "collect (\<lambda>(c, x). wire_info repr c x) (zip cs xs) = Inr ws" "get_key ''items'' r = JList (map info_item ws)"
    by (cases v) (auto simp: parse_cis_info_def bind_Inr_iff get_key_def split: if_splits)
  have "wire_info repr (cs ! i) (xs ! i) = Inr (ws ! i)" if "i < length cs" for i
    using collect_nth [OF x(3), of i] that x(2) by simp
  with x collect_length [OF x(3)] show thesis by (intro that [of xs ws]) simp_all
qed

section \<open>Properties\<close>

text \<open>A payload the server accepts for an inventory read becomes one request that the agent lets
  through its allow-list, whether it is built from what the user sent or from the normal form that is
  enqueued; and the agent accepts the job that carries the normal form.\<close>

theorem inventory_request_is_allowed:
  assumes "validate_m1_job_payload t p = Inr n" and "t \<noteq> ''CIS_TO_PRODUCT''"
    and "job_type j = t" and "job_payload j = Some n" and "\<not> write_fields j"
  shows "check_read_job misses mixed canonical validate_m1_job_payload j = Inr n
    \<and> (\<exists>s. build_read_spec t p = Inr s \<and> build_read_spec t n = Inr s \<and> is_allowed_read_target s)"
  using m1.accepted_by_agent [OF assms(1,3-5)] read_spec_allowed [OF assms(1,2)] m1_again [OF assms(1)] assms(1)
  by (auto simp: build_read_spec_def)

text \<open>On the state read from an answer, a withdrawal is recommended exactly when the answer says
  that the code is introduced, owned by us, in no special state, of group lp or of none that is text, and
  without a textual withdrawal reason, and the event is a retail sale with its receipt.\<close>

theorem withdraw_from_answer_iff:
  "decision (decide_state e (decision_state_from_cis_info repr v) own) = READY_TO_WITHDRAW \<longleftrightarrow>
     upper (py_str repr (get_key ''status'' v)) = ''INTRODUCED''
     \<and> get_or v ''ownerInn'' ''owner_inn'' = JStr own \<and> own \<noteq> []
     \<and> (let ex = get_or v ''statusEx'' ''status_ex'' in ex = JNull \<or> upper (py_str repr ex) \<in> {[], ''EMPTY''})
     \<and> only_text (get_or v ''withdrawReason'' ''withdraw_reason'') \<in> {None, Some []}
     \<and> (case get_or v ''productGroup'' ''product_group'' of JStr s \<Rightarrow> s = [] \<or> casefold s = ''lp'' | _ \<Rightarrow> True)
     \<and> operation e = SALE \<and> legal_entity_sale e = Some False \<and> has_sale_receipt_evidence e"
proof -
  let ?s = "decision_state_from_cis_info repr v"
  have status: "status ?s = ''IN_CIRCULATION'' \<longleftrightarrow> upper (py_str repr (get_key ''status'' v)) = ''INTRODUCED''"
    by (simp add: decision_state_from_cis_info_def Let_def)
  have owner: "ownerInn ?s = Some own \<longleftrightarrow> get_or v ''ownerInn'' ''owner_inn'' = JStr own"
    by (simp add: decision_state_from_cis_info_def Let_def only_text_def split: json.split)
  have special: "statusEx ?s \<in> {None, Some [], Some ''IN_CIRCULATION''} \<longleftrightarrow>
      (let ex = get_or v ''statusEx'' ''status_ex'' in ex = JNull \<or> upper (py_str repr ex) \<in> {[], ''EMPTY''})"
    by (simp add: decision_state_from_cis_info_def Let_def)
  have group: "productGroup ?s \<noteq> None"
      "map_option casefold (productGroup ?s) = Some ''lp'' \<longleftrightarrow>
       (case get_or v ''productGroup'' ''product_group'' of JStr s \<Rightarrow> s = [] \<or> casefold s = ''lp'' | _ \<Rightarrow> True)"
    by (simp_all add: decision_state_from_cis_info_def Let_def casefold_def fold_of_def upper_char_def code_def
      split: json.split)
  have why: "withdrawReason ?s = only_text (get_or v ''withdrawReason'' ''withdraw_reason'')"
    by (simp add: decision_state_from_cis_info_def Let_def)
  show ?thesis
    unfolding decide_state_withdraw clean_state_def status owner special group why using group(1) by auto
qed

text \<open>The answers of a state read are attributed by position: it is accepted only with one object per
  requested code, and the n-th object is kept, unchanged, under the n-th code.\<close>

theorem answers_follow_the_request:
  assumes "validate_m1_job_payload ''CIS_INFO'' p = Inr n"
    and "parse_success_payload repr ''CIS_INFO'' p v = Inr r"
  shows "\<exists>xs ws. v = JList xs \<and> length xs = length (string_items (get_key ''cises'' n)) \<and> length ws = length xs
    \<and> get_key ''items'' r = JList (map info_item ws)
    \<and> map ci_requested ws = string_items (get_key ''cises'' n) \<and> map (\<lambda>w. JObj (ci_raw w)) ws = xs"
proof -
  from assms have "parse_cis_info repr (string_items (get_key ''cises'' n)) v = Inr r"
    by (simp add: parse_success_payload_def)
  then obtain xs ws where w: "v = JList xs" "length xs = length (string_items (get_key ''cises'' n))"
      "length ws = length (string_items (get_key ''cises'' n))"
      "\<And>i. i < length (string_items (get_key ''cises'' n)) \<Longrightarrow>
         wire_info repr (string_items (get_key ''cises'' n) ! i) (xs ! i) = Inr (ws ! i)"
      "get_key ''items'' r = JList (map info_item ws)" by (rule parse_cis_info_Inr) (rule that)
  have "ci_requested (ws ! i) = string_items (get_key ''cises'' n) ! i \<and> JObj (ci_raw (ws ! i)) = xs ! i"
    if "i < length ws" for i
    using wire_info_kept [OF w(4) [of i]] that w(3) by simp
  with w(1,2,3,5) show ?thesis by (intro exI [of _ xs] exI [of _ ws]) (simp add: list_eq_iff_nth_eq)
qed

section \<open>Witnesses\<close>

definition demo_cis :: pystr where
  "demo_cis = ''010460000000001521AbC/d''"

definition demo_info_payload :: wire where
  "demo_info_payload = [(''cises'', JList [JStr demo_cis])]"

definition demo_history_payload :: wire where
  "demo_history_payload = [(''cis'', JStr ('' '' @ demo_cis))]"

definition demo_history_job :: agent_job where
  "demo_history_job = \<lparr>job_id = ''j1'', job_type = ''CIS_HISTORY'', job_operation = ''o1'', job_pg = ''lp'',
     job_inn = ''7700000001'', job_document_type = None, job_sha256 = None, job_base64 = None, job_cises = [],
     job_document_id = None, job_payload = Some [(''cis'', JStr demo_cis)]\<rparr>"

lemma demo_cis_kept: "normalize_cis demo_cis = Inr demo_cis" "normalize_cis ('' '' @ demo_cis) = Inr demo_cis"
  by code_simp+

lemma demo_history_valid: "validate_m1_job_payload ''CIS_HISTORY'' demo_history_payload = Inr [(''cis'', JStr demo_cis)]"
  by code_simp

lemma demo_info_valid: "validate_m1_job_payload ''CIS_INFO'' demo_info_payload = Inr demo_info_payload"
  by code_simp

theorem inventory_request_is_allowed_witness:
  "check_read_job [] [] [] validate_m1_job_payload demo_history_job = Inr [(''cis'', JStr demo_cis)]
    \<and> (\<exists>s. build_read_spec ''CIS_HISTORY'' demo_history_payload = Inr s
        \<and> build_read_spec ''CIS_HISTORY'' [(''cis'', JStr demo_cis)] = Inr s \<and> is_allowed_read_target s)"
  by (rule inventory_request_is_allowed [OF demo_history_valid])
    (simp_all add: demo_history_job_def write_fields_def)

theorem answers_follow_the_request_witness:
  "\<exists>r xs ws. parse_success_payload (\<lambda>_. []) ''CIS_INFO'' demo_info_payload (JList [JObj [(''cisInfo'', JNull)]]) = Inr r
    \<and> JList [JObj [(''cisInfo'', JNull)]] = JList xs \<and> length xs = 1 \<and> length ws = length xs
    \<and> get_key ''items'' r = JList (map info_item ws) \<and> map ci_requested ws = [demo_cis]
    \<and> map (\<lambda>w. JObj (ci_raw w)) ws = xs"
proof -
  let ?v = "JList [JObj [(''cisInfo'', JNull)]]"
  have s: "string_items (get_key ''cises'' demo_info_payload) = [demo_cis]"
    by (simp add: demo_info_payload_def get_key_def string_items_def json_text_def)
  have "ok (parse_success_payload (\<lambda>_. []) ''CIS_INFO'' demo_info_payload ?v)"
    by (simp add: parse_success_payload_def demo_info_valid s parse_cis_info_def wire_info_def ok_def)
  then obtain r where r: "parse_success_payload (\<lambda>_. []) ''CIS_INFO'' demo_info_payload ?v = Inr r"
    by (auto simp: ok_iff)
  from answers_follow_the_request [OF demo_info_valid r] r show ?thesis unfolding s by auto
qed

end
