(* ===== verification/WebAuditEvents.thy ===== *)
theory WebAuditEvents
  imports WebSecurity
begin

text \<open>
  The event registry of the audit history (\<open>wbcz_web/services/audit_history.py\<close>): its enumerations, one
  registered event per type with the actors, subjects, tenant scope and metadata keys it admits, and the
  texts of the permissions that a snapshot records.
\<close>

section \<open>Enumerations\<close>

datatype audit_category =
    CAT_SECURITY
  | CAT_AUTHORIZATION
  | CAT_TENANT_ADMIN
  | CAT_INTEGRATION
  | CAT_IMPORT
  | CAT_CONTROL
  | CAT_CIS_READ
  | CAT_REFERENCE_READ
  | CAT_DOCUMENT
  | CAT_TURNOVER
  | CAT_AGGREGATION
  | CAT_EDO
  | CAT_SUZ
  | CAT_WB
  | CAT_OZON
  | CAT_REPORT
  | CAT_AGENT
  | CAT_PRINTING
  | CAT_SYSTEM

fun audit_category_value :: "audit_category \<Rightarrow> pystr" where
  "audit_category_value CAT_SECURITY = ''SECURITY''"
| "audit_category_value CAT_AUTHORIZATION = ''AUTHORIZATION''"
| "audit_category_value CAT_TENANT_ADMIN = ''TENANT_ADMIN''"
| "audit_category_value CAT_INTEGRATION = ''INTEGRATION''"
| "audit_category_value CAT_IMPORT = ''IMPORT''"
| "audit_category_value CAT_CONTROL = ''CONTROL''"
| "audit_category_value CAT_CIS_READ = ''CIS_READ''"
| "audit_category_value CAT_REFERENCE_READ = ''REFERENCE_READ''"
| "audit_category_value CAT_DOCUMENT = ''DOCUMENT''"
| "audit_category_value CAT_TURNOVER = ''TURNOVER''"
| "audit_category_value CAT_AGGREGATION = ''AGGREGATION''"
| "audit_category_value CAT_EDO = ''EDO''"
| "audit_category_value CAT_SUZ = ''SUZ''"
| "audit_category_value CAT_WB = ''WB''"
| "audit_category_value CAT_OZON = ''OZON''"
| "audit_category_value CAT_REPORT = ''REPORT''"
| "audit_category_value CAT_AGENT = ''AGENT''"
| "audit_category_value CAT_PRINTING = ''PRINTING''"
| "audit_category_value CAT_SYSTEM = ''SYSTEM''"

datatype actor_kind =
    AK_USER
  | AK_SYSTEM
  | AK_WORKER
  | AK_WINDOWS_AGENT
  | AK_CLI_ADMIN
  | AK_BOOTSTRAP
  | AK_REMOTE_SYSTEM

fun actor_kind_value :: "actor_kind \<Rightarrow> pystr" where
  "actor_kind_value AK_USER = ''USER''"
| "actor_kind_value AK_SYSTEM = ''SYSTEM''"
| "actor_kind_value AK_WORKER = ''WORKER''"
| "actor_kind_value AK_WINDOWS_AGENT = ''WINDOWS_AGENT''"
| "actor_kind_value AK_CLI_ADMIN = ''CLI_ADMIN''"
| "actor_kind_value AK_BOOTSTRAP = ''BOOTSTRAP''"
| "actor_kind_value AK_REMOTE_SYSTEM = ''REMOTE_SYSTEM''"

datatype subject_type =
    ST_USER
  | ST_SESSION
  | ST_MEMBERSHIP
  | ST_INVITATION
  | ST_ORGANISATION
  | ST_PARTICIPANT
  | ST_IMPORT
  | ST_EVENT
  | ST_CONTROL_RUN
  | ST_AGENT_JOB
  | ST_WRITE_OPERATION
  | ST_DOCUMENT_OPERATION
  | ST_TURNOVER_OPERATION
  | ST_AGGREGATION_OPERATION
  | ST_EDO_OBJECT
  | ST_SUZ_CONNECTION
  | ST_SUZ_ORDER
  | ST_WB_CONNECTION
  | ST_WB_OBJECT
  | ST_OZON_CONNECTION
  | ST_OZON_OBJECT
  | ST_REPORT_JOB
  | ST_REPORT_ARTIFACT
  | ST_INTEGRATION_CONNECTION
  | ST_MARKING_IDENTIFIER
  | ST_PRINT_TEMPLATE
  | ST_PRINT_JOB
  | ST_PRINT_EVENT
  | ST_AUDIT_CHAIN
  | ST_AUDIT_CHECKPOINT

fun subject_type_value :: "subject_type \<Rightarrow> pystr" where
  "subject_type_value ST_USER = ''USER''"
| "subject_type_value ST_SESSION = ''SESSION''"
| "subject_type_value ST_MEMBERSHIP = ''MEMBERSHIP''"
| "subject_type_value ST_INVITATION = ''INVITATION''"
| "subject_type_value ST_ORGANISATION = ''ORGANISATION''"
| "subject_type_value ST_PARTICIPANT = ''PARTICIPANT''"
| "subject_type_value ST_IMPORT = ''IMPORT''"
| "subject_type_value ST_EVENT = ''EVENT''"
| "subject_type_value ST_CONTROL_RUN = ''CONTROL_RUN''"
| "subject_type_value ST_AGENT_JOB = ''AGENT_JOB''"
| "subject_type_value ST_WRITE_OPERATION = ''WRITE_OPERATION''"
| "subject_type_value ST_DOCUMENT_OPERATION = ''DOCUMENT_OPERATION''"
| "subject_type_value ST_TURNOVER_OPERATION = ''TURNOVER_OPERATION''"
| "subject_type_value ST_AGGREGATION_OPERATION = ''AGGREGATION_OPERATION''"
| "subject_type_value ST_EDO_OBJECT = ''EDO_OBJECT''"
| "subject_type_value ST_SUZ_CONNECTION = ''SUZ_CONNECTION''"
| "subject_type_value ST_SUZ_ORDER = ''SUZ_ORDER''"
| "subject_type_value ST_WB_CONNECTION = ''WB_CONNECTION''"
| "subject_type_value ST_WB_OBJECT = ''WB_OBJECT''"
| "subject_type_value ST_OZON_CONNECTION = ''OZON_CONNECTION''"
| "subject_type_value ST_OZON_OBJECT = ''OZON_OBJECT''"
| "subject_type_value ST_REPORT_JOB = ''REPORT_JOB''"
| "subject_type_value ST_REPORT_ARTIFACT = ''REPORT_ARTIFACT''"
| "subject_type_value ST_INTEGRATION_CONNECTION = ''INTEGRATION_CONNECTION''"
| "subject_type_value ST_MARKING_IDENTIFIER = ''MARKING_IDENTIFIER''"
| "subject_type_value ST_PRINT_TEMPLATE = ''PRINT_TEMPLATE''"
| "subject_type_value ST_PRINT_JOB = ''PRINT_JOB''"
| "subject_type_value ST_PRINT_EVENT = ''PRINT_EVENT''"
| "subject_type_value ST_AUDIT_CHAIN = ''AUDIT_CHAIN''"
| "subject_type_value ST_AUDIT_CHECKPOINT = ''AUDIT_CHECKPOINT''"

datatype audit_outcome =
    AO_SUCCESS
  | AO_DENIED
  | AO_FAILED
  | AO_PENDING
  | AO_CONFLICT
  | AO_CANCELLED
  | AO_AMBIGUOUS

fun audit_outcome_value :: "audit_outcome \<Rightarrow> pystr" where
  "audit_outcome_value AO_SUCCESS = ''SUCCESS''"
| "audit_outcome_value AO_DENIED = ''DENIED''"
| "audit_outcome_value AO_FAILED = ''FAILED''"
| "audit_outcome_value AO_PENDING = ''PENDING''"
| "audit_outcome_value AO_CONFLICT = ''CONFLICT''"
| "audit_outcome_value AO_CANCELLED = ''CANCELLED''"
| "audit_outcome_value AO_AMBIGUOUS = ''AMBIGUOUS''"

datatype authz_decision =
    AZ_ALLOW
  | AZ_DENY
  | AZ_NOT_APPLICABLE

fun authz_decision_value :: "authz_decision \<Rightarrow> pystr" where
  "authz_decision_value AZ_ALLOW = ''ALLOW''"
| "authz_decision_value AZ_DENY = ''DENY''"
| "authz_decision_value AZ_NOT_APPLICABLE = ''NOT_APPLICABLE''"

datatype tenant_requirement = TR_SYSTEM | TR_ORGANISATION | TR_PARTICIPANT | TR_SYSTEM_OR_ORGANISATION

definition common_metadata :: "pystr list" where
  "common_metadata = [''reason'', ''count'', ''role'', ''old_role'', ''new_role'', ''identity_bound'',
     ''organisation_id'', ''participant_id'', ''legacy_sessions_revoked'', ''sensitivity_class'',
     ''report_job_id'', ''artifact_id'', ''report_type'', ''format'', ''schema_version'', ''row_count'',
     ''byte_size'', ''artifact_sha256'', ''request_fingerprint_sha256'', ''state'', ''from_state'',
     ''to_state'', ''operation_kind'', ''document_type'', ''document_sha256'', ''request_sha256'',
     ''idempotency_fingerprint'', ''precondition_evidence_sha256'', ''postcondition_evidence_sha256'',
     ''remote_document_id'', ''http_status'', ''remote_status'', ''remote_code'', ''body_sha256'',
     ''ambiguity'', ''manual_review_reason'', ''reconciliation_state'', ''job_type'', ''purpose'',
     ''delivery_count'', ''payload_sha256'', ''result_sha256'', ''machine_principal_hmac'',
     ''checkpoint_id'', ''checkpoint_hash'', ''through_sequence'', ''checked_from'', ''checked_to'',
     ''template_id'', ''template_version_id'', ''layout_sha256'', ''stored_km_item_id'',
     ''printer_profile_fingerprint'', ''original_print_event_id'', ''print_mode'', ''error_code'',
     ''checked_count'', ''verification_status'', ''first_invalid_sequence'', ''failure_reason'',
     ''semantics'', ''manifest'', ''cutoff'', ''source'', ''error_class'', ''redacted_message'',
     ''retry_classification'', ''evidence_sha256'', ''changed_fields'', ''credential_present'',
     ''credential_changed'', ''safe_config_fingerprint'', ''client_ip_hmac'', ''user_agent_hmac'',
     ''filter_summary'', ''limit'', ''returned_count'', ''query_kind'', ''remote_result_part_id'',
     ''publication_key_present'', ''artifact_role'', ''origin'', ''attempt_count'', ''blind_retry'',
     ''lease_recovered'', ''result_outcome'', ''action'', ''child_set_hash'', ''relation_delta'',
     ''request_id'', ''document_id_present'', ''member_user_id'', ''controlled_recovery'',
     ''participant_verification_state'', ''integration_type'', ''connection_type'', ''connection_id'',
     ''configuration_status'', ''runtime_status'', ''contract_status'', ''feature_gate_status'',
     ''check_kind'', ''overall_status'', ''component_statuses'', ''capability_names'', ''reused'',
     ''binding_id'', ''installation_id'', ''protocol_version'', ''agent_version'',
     ''credential_version'', ''is_primary'', ''certificate_thumbprint'', ''certificate_state'',
     ''selection_state'', ''expiry_state'', ''match_state'', ''provider_capabilities'',
     ''rotation_state'', ''old_version'', ''new_version'', ''enabled'', ''blocker_code'',
     ''key_fingerprint'', ''key_version'', ''old_key_version'', ''print_execution_id'',
     ''delivery_reservation_id'', ''print_job_item_id'', ''context_sha256'', ''issue_count'',
     ''discovery_request_id'', ''printer_profile_id'', ''capability_hash'', ''capability_revision'',
     ''dpi_x'', ''dpi_y'', ''media_width_mm'', ''media_height_mm'', ''printer_count'',
     ''safe_reason_code'', ''windows_spool_job_id'', ''safe_status'', ''renderer_version'',
     ''decoder_version'']"

record registered_event =
  re_type :: pystr
  re_category :: audit_category
  re_action :: pystr
  re_actors :: "actor_kind list"
  re_subjects :: "subject_type list"
  re_tenant :: tenant_requirement
  re_snapshot :: bool
  re_keys :: "pystr list"
  re_required :: "pystr list"

text \<open>No entry of the registry requires metadata keys; the criticality and the audit flag are not read.\<close>

definition registered :: "pystr \<Rightarrow> audit_category \<Rightarrow> pystr \<Rightarrow> actor_kind list \<Rightarrow> subject_type list \<Rightarrow> tenant_requirement
    \<Rightarrow> bool \<Rightarrow> pystr list \<Rightarrow> registered_event" where
  "registered t cat act actors subjects tenant snapshot extra =
     \<lparr>re_type = t, re_category = cat, re_action = act, re_actors = actors, re_subjects = subjects, re_tenant = tenant,
      re_snapshot = snapshot, re_keys = common_metadata @ extra, re_required = []\<rparr>"

definition audit_events_1 :: "registered_event list" where
  "audit_events_1 =
    [registered ''AUDIT_CHAIN_GENESIS'' CAT_SYSTEM ''CHAIN_GENESIS''
       [AK_SYSTEM] [ST_AUDIT_CHAIN] TR_SYSTEM_OR_ORGANISATION False [],
     registered ''LEGACY_HISTORY_IMPORTED'' CAT_SYSTEM ''LEGACY_HISTORY_IMPORTED''
       [AK_SYSTEM] [ST_AUDIT_CHAIN] TR_SYSTEM_OR_ORGANISATION False [''manifest'', ''semantics'', ''cutoff''],
     registered ''CHECKPOINT_CREATED'' CAT_SYSTEM ''CHECKPOINT_CREATED''
       [AK_SYSTEM] [ST_AUDIT_CHECKPOINT] TR_SYSTEM_OR_ORGANISATION False [''checkpoint_id'', ''checkpoint_hash'',
       ''through_sequence''],
     registered ''CHAIN_VERIFICATION_FAILED'' CAT_SYSTEM ''CHAIN_VERIFICATION_FAILED''
       [AK_SYSTEM, AK_CLI_ADMIN] [ST_AUDIT_CHAIN] TR_SYSTEM False [''first_invalid_sequence'', ''failure_reason'',
       ''verification_status''],
     registered ''AUDIT_QUERY_EXECUTED'' CAT_AUTHORIZATION ''AUDIT_QUERY''
       [AK_USER] [ST_AUDIT_CHAIN] TR_ORGANISATION True [''filter_summary'', ''limit'', ''returned_count'',
       ''query_kind''],
     registered ''AUTHORIZATION_DENIED'' CAT_AUTHORIZATION ''ACCESS_DENIED''
       [AK_USER] [ST_AUDIT_CHAIN] TR_SYSTEM_OR_ORGANISATION True [''reason'', ''query_kind''],
     registered ''LOGIN_SUCCESS'' CAT_SECURITY ''LOGIN'' [AK_USER] [ST_SESSION] TR_SYSTEM False [],
     registered ''LOGIN_FAILED'' CAT_SECURITY ''LOGIN'' [AK_SYSTEM, AK_USER] [ST_USER, ST_SESSION] TR_SYSTEM False [],
     registered ''LOGIN_THROTTLED'' CAT_SECURITY ''LOGIN_THROTTLE''
       [AK_SYSTEM, AK_USER] [ST_USER, ST_SESSION] TR_SYSTEM False [],
     registered ''LOGOUT'' CAT_SECURITY ''LOGOUT'' [AK_USER] [ST_SESSION] TR_SYSTEM False [],
     registered ''LOGOUT_ALL'' CAT_SECURITY ''LOGOUT_ALL'' [AK_USER, AK_CLI_ADMIN] [ST_USER] TR_SYSTEM False [],
     registered ''SESSION_REVOKED'' CAT_SECURITY ''SESSION_REVOKED''
       [AK_USER, AK_CLI_ADMIN, AK_SYSTEM] [ST_SESSION, ST_USER] TR_SYSTEM False [],
     registered ''PASSWORD_CHANGED'' CAT_SECURITY ''PASSWORD_CHANGED''
       [AK_USER, AK_CLI_ADMIN] [ST_USER] TR_SYSTEM False [],
     registered ''PASSWORD_AUTHENTICATOR_UNLOCKED'' CAT_SECURITY ''PASSWORD_AUTHENTICATOR_UNLOCKED''
       [AK_CLI_ADMIN, AK_USER] [ST_USER] TR_SYSTEM False [],
     registered ''USER_DISABLED'' CAT_SECURITY ''USER_DISABLED'' [AK_CLI_ADMIN] [ST_USER] TR_SYSTEM False [],
     registered ''SCOPE_CHANGED'' CAT_TENANT_ADMIN ''SCOPE_CHANGED''
       [AK_USER] [ST_ORGANISATION] TR_ORGANISATION True []]"

definition audit_events_2 :: "registered_event list" where
  "audit_events_2 =
    [registered ''MEMBERSHIP_ADDED'' CAT_TENANT_ADMIN ''MEMBERSHIP_ADDED''
       [AK_USER, AK_BOOTSTRAP, AK_CLI_ADMIN] [ST_MEMBERSHIP] TR_ORGANISATION True [],
     registered ''MEMBERSHIP_REMOVED'' CAT_TENANT_ADMIN ''MEMBERSHIP_REMOVED''
       [AK_USER, AK_CLI_ADMIN] [ST_MEMBERSHIP] TR_ORGANISATION True [],
     registered ''ROLE_CHANGED'' CAT_TENANT_ADMIN ''ROLE_CHANGED''
       [AK_USER, AK_CLI_ADMIN] [ST_MEMBERSHIP] TR_ORGANISATION True [],
     registered ''INVITATION_CREATED'' CAT_TENANT_ADMIN ''INVITATION_CREATED''
       [AK_USER] [ST_INVITATION] TR_ORGANISATION True [],
     registered ''INVITATION_ACCEPTED'' CAT_TENANT_ADMIN ''INVITATION_ACCEPTED''
       [AK_USER] [ST_INVITATION, ST_MEMBERSHIP] TR_ORGANISATION True [],
     registered ''INVITATION_REVOKED'' CAT_TENANT_ADMIN ''INVITATION_REVOKED''
       [AK_USER] [ST_INVITATION] TR_ORGANISATION True [],
     registered ''BOOTSTRAP_COMPLETED'' CAT_TENANT_ADMIN ''BOOTSTRAP_COMPLETED''
       [AK_BOOTSTRAP] [ST_ORGANISATION] TR_ORGANISATION True [],
     registered ''TURNOVER_INTENT_CREATED'' CAT_TURNOVER ''INTENT_CREATED''
       [AK_USER, AK_WORKER] [ST_TURNOVER_OPERATION, ST_WRITE_OPERATION] TR_PARTICIPANT True [],
     registered ''TURNOVER_REMOTE_RESULT'' CAT_TURNOVER ''REMOTE_RESULT''
       [AK_WORKER, AK_WINDOWS_AGENT, AK_REMOTE_SYSTEM] [ST_TURNOVER_OPERATION, ST_WRITE_OPERATION] TR_PARTICIPANT False [],
     registered ''TURNOVER_RECONCILED'' CAT_TURNOVER ''RECONCILED''
       [AK_WORKER, AK_USER] [ST_TURNOVER_OPERATION, ST_WRITE_OPERATION] TR_PARTICIPANT False [],
     registered ''AGGREGATION_INTENT_CREATED'' CAT_AGGREGATION ''INTENT_CREATED''
       [AK_USER, AK_WORKER] [ST_AGGREGATION_OPERATION] TR_PARTICIPANT True [],
     registered ''AGGREGATION_REMOTE_RESULT'' CAT_AGGREGATION ''REMOTE_RESULT''
       [AK_WORKER, AK_WINDOWS_AGENT, AK_REMOTE_SYSTEM] [ST_AGGREGATION_OPERATION] TR_PARTICIPANT False [],
     registered ''AGGREGATION_RECONCILED'' CAT_AGGREGATION ''RECONCILED''
       [AK_WORKER, AK_USER] [ST_AGGREGATION_OPERATION] TR_PARTICIPANT False [],
     registered ''REPORT_REQUESTED'' CAT_REPORT ''REQUESTED''
       [AK_USER, AK_WORKER] [ST_REPORT_JOB] TR_PARTICIPANT True [],
     registered ''REPORT_GENERATION_STARTED'' CAT_REPORT ''GENERATION_STARTED''
       [AK_WORKER] [ST_REPORT_JOB] TR_PARTICIPANT False [],
     registered ''REPORT_GENERATION_COMPLETED'' CAT_REPORT ''GENERATION_COMPLETED''
       [AK_WORKER] [ST_REPORT_JOB] TR_PARTICIPANT False []]"

definition audit_events_3 :: "registered_event list" where
  "audit_events_3 =
    [registered ''REPORT_GENERATION_FAILED'' CAT_REPORT ''GENERATION_FAILED''
       [AK_WORKER] [ST_REPORT_JOB] TR_PARTICIPANT False [],
     registered ''REPORT_ARTIFACT_FINALIZED'' CAT_REPORT ''ARTIFACT_FINALIZED''
       [AK_WORKER, AK_WINDOWS_AGENT] [ST_REPORT_ARTIFACT] TR_PARTICIPANT False [],
     registered ''REPORT_DOWNLOAD_AUTHORIZED'' CAT_REPORT ''DOWNLOAD_AUTHORIZED''
       [AK_USER] [ST_REPORT_ARTIFACT] TR_PARTICIPANT True [],
     registered ''REPORT_DOWNLOAD_DENIED'' CAT_REPORT ''DOWNLOAD_DENIED''
       [AK_USER, AK_SYSTEM] [ST_REPORT_ARTIFACT, ST_ORGANISATION] TR_ORGANISATION True [],
     registered ''REPORT_DOWNLOAD_COMPLETED'' CAT_REPORT ''DOWNLOAD_COMPLETED''
       [AK_USER] [ST_REPORT_ARTIFACT] TR_PARTICIPANT True [],
     registered ''REPORT_DOWNLOAD_FAILED'' CAT_REPORT ''DOWNLOAD_FAILED''
       [AK_USER, AK_SYSTEM] [ST_REPORT_ARTIFACT] TR_ORGANISATION True [],
     registered ''REPORT_ARTIFACT_INTEGRITY_FAILED'' CAT_REPORT ''ARTIFACT_INTEGRITY_FAILED''
       [AK_USER, AK_WORKER, AK_SYSTEM] [ST_REPORT_ARTIFACT, ST_ORGANISATION] TR_ORGANISATION True [],
     registered ''REPORT_ARTIFACT_DELETED'' CAT_REPORT ''ARTIFACT_DELETED''
       [AK_WORKER, AK_USER] [ST_REPORT_ARTIFACT] TR_PARTICIPANT False [],
     registered ''REPORT_ARTIFACT_EXPIRED'' CAT_REPORT ''ARTIFACT_EXPIRED''
       [AK_WORKER, AK_SYSTEM] [ST_REPORT_ARTIFACT] TR_PARTICIPANT False [],
     registered ''AGENT_JOB_CREATED'' CAT_AGENT ''JOB_CREATED''
       [AK_USER, AK_WORKER, AK_SYSTEM] [ST_AGENT_JOB] TR_SYSTEM_OR_ORGANISATION False [],
     registered ''AGENT_JOB_CLAIMED'' CAT_AGENT ''JOB_CLAIMED''
       [AK_WINDOWS_AGENT, AK_WORKER] [ST_AGENT_JOB] TR_SYSTEM_OR_ORGANISATION False [],
     registered ''AGENT_JOB_COMPLETED'' CAT_AGENT ''JOB_COMPLETED''
       [AK_WINDOWS_AGENT, AK_WORKER] [ST_AGENT_JOB] TR_SYSTEM_OR_ORGANISATION False [],
     registered ''AGENT_JOB_FAILED'' CAT_AGENT ''JOB_FAILED''
       [AK_WINDOWS_AGENT, AK_WORKER] [ST_AGENT_JOB] TR_SYSTEM_OR_ORGANISATION False [],
     registered ''AGENT_RESULT_AMBIGUOUS'' CAT_AGENT ''RESULT_AMBIGUOUS''
       [AK_WINDOWS_AGENT, AK_WORKER] [ST_AGENT_JOB] TR_SYSTEM_OR_ORGANISATION False [],
     registered ''AGENT_REPLAY_CONVERGED'' CAT_AGENT ''REPLAY_CONVERGED''
       [AK_WINDOWS_AGENT, AK_WORKER] [ST_AGENT_JOB] TR_SYSTEM_OR_ORGANISATION False [],
     registered ''AGENT_ARTIFACT_UPLOADED'' CAT_AGENT ''ARTIFACT_UPLOADED''
       [AK_WINDOWS_AGENT] [ST_AGENT_JOB, ST_REPORT_ARTIFACT] TR_PARTICIPANT False []]"

definition audit_events_4 :: "registered_event list" where
  "audit_events_4 =
    [registered ''AGENT_DOCUMENT_SUBMITTED'' CAT_AGENT ''DOCUMENT_SUBMITTED''
       [AK_WINDOWS_AGENT] [ST_AGENT_JOB, ST_WRITE_OPERATION] TR_PARTICIPANT False [],
     registered ''CONNECTION_CREATED'' CAT_INTEGRATION ''CONNECTION_CREATED''
       [AK_USER, AK_CLI_ADMIN] [ST_INTEGRATION_CONNECTION, ST_WB_CONNECTION, ST_OZON_CONNECTION, ST_SUZ_CONNECTION] TR_PARTICIPANT True [''integration_type'', ''connection_type'',
       ''connection_id'', ''enabled''],
     registered ''CONNECTION_UPDATED'' CAT_INTEGRATION ''CONNECTION_UPDATED''
       [AK_USER, AK_CLI_ADMIN] [ST_INTEGRATION_CONNECTION, ST_WB_CONNECTION, ST_OZON_CONNECTION, ST_SUZ_CONNECTION] TR_PARTICIPANT True [''integration_type'', ''connection_type'',
       ''connection_id'', ''changed_fields''],
     registered ''CONNECTION_ENABLED'' CAT_INTEGRATION ''CONNECTION_ENABLED''
       [AK_USER, AK_CLI_ADMIN] [ST_INTEGRATION_CONNECTION, ST_WB_CONNECTION, ST_OZON_CONNECTION, ST_SUZ_CONNECTION] TR_PARTICIPANT True [''integration_type'', ''connection_type'',
       ''connection_id''],
     registered ''CONNECTION_DISABLED'' CAT_INTEGRATION ''CONNECTION_DISABLED''
       [AK_USER, AK_CLI_ADMIN] [ST_INTEGRATION_CONNECTION, ST_WB_CONNECTION, ST_OZON_CONNECTION, ST_SUZ_CONNECTION] TR_PARTICIPANT True [''integration_type'', ''connection_type'',
       ''connection_id''],
     registered ''CONNECTION_ARCHIVED'' CAT_INTEGRATION ''CONNECTION_ARCHIVED''
       [AK_USER, AK_CLI_ADMIN] [ST_INTEGRATION_CONNECTION, ST_WB_CONNECTION, ST_OZON_CONNECTION, ST_SUZ_CONNECTION] TR_PARTICIPANT True [''integration_type'', ''connection_type'',
       ''connection_id''],
     registered ''SECRET_SET'' CAT_INTEGRATION ''SECRET_SET''
       [AK_USER, AK_CLI_ADMIN] [ST_WB_CONNECTION, ST_OZON_CONNECTION] TR_PARTICIPANT True [''integration_type'', ''connection_id'', ''new_version'',
       ''rotation_state''],
     registered ''SECRET_ROTATED'' CAT_INTEGRATION ''SECRET_ROTATED''
       [AK_USER, AK_CLI_ADMIN] [ST_WB_CONNECTION, ST_OZON_CONNECTION] TR_PARTICIPANT True [''integration_type'', ''connection_id'', ''old_version'',
       ''new_version'', ''rotation_state''],
     registered ''SECRET_REVOKED'' CAT_INTEGRATION ''SECRET_REVOKED''
       [AK_USER, AK_CLI_ADMIN] [ST_WB_CONNECTION, ST_OZON_CONNECTION] TR_PARTICIPANT True [''integration_type'', ''connection_id'', ''old_version''],
     registered ''CONNECTION_CHECK_STARTED'' CAT_INTEGRATION ''CONNECTION_CHECK_STARTED''
       [AK_USER, AK_WORKER] [ST_INTEGRATION_CONNECTION, ST_WB_CONNECTION, ST_OZON_CONNECTION, ST_SUZ_CONNECTION] TR_PARTICIPANT True [''integration_type'', ''connection_id'', ''check_kind'',
       ''reused''],
     registered ''CONNECTION_CHECK_COMPLETED'' CAT_INTEGRATION ''CONNECTION_CHECK_COMPLETED''
       [AK_USER, AK_WORKER, AK_WINDOWS_AGENT] [ST_INTEGRATION_CONNECTION, ST_WB_CONNECTION, ST_OZON_CONNECTION, ST_SUZ_CONNECTION] TR_PARTICIPANT False [''integration_type'', ''connection_id'', ''check_kind'',
       ''overall_status'', ''component_statuses'',
       ''capability_names'', ''evidence_sha256''],
     registered ''CONNECTION_CHECK_FAILED'' CAT_INTEGRATION ''CONNECTION_CHECK_FAILED''
       [AK_USER, AK_WORKER, AK_WINDOWS_AGENT] [ST_INTEGRATION_CONNECTION, ST_WB_CONNECTION, ST_OZON_CONNECTION, ST_SUZ_CONNECTION] TR_PARTICIPANT False [''integration_type'', ''connection_id'', ''check_kind'',
       ''error_code'', ''redacted_message''],
     registered ''CERTIFICATE_SELECTION_CHANGED'' CAT_INTEGRATION ''CERTIFICATE_SELECTION_CHANGED''
       [AK_USER, AK_CLI_ADMIN, AK_WINDOWS_AGENT] [ST_INTEGRATION_CONNECTION] TR_PARTICIPANT True [''connection_id'', ''certificate_thumbprint'',
       ''selection_state''],
     registered ''AGENT_BINDING_CREATED'' CAT_INTEGRATION ''AGENT_BINDING_CREATED''
       [AK_USER, AK_CLI_ADMIN] [ST_INTEGRATION_CONNECTION, ST_PARTICIPANT] TR_PARTICIPANT True [''binding_id'', ''installation_id'', ''protocol_version'',
       ''credential_version'', ''is_primary''],
     registered ''AGENT_BINDING_CHANGED'' CAT_INTEGRATION ''AGENT_BINDING_CHANGED''
       [AK_USER, AK_CLI_ADMIN, AK_WINDOWS_AGENT] [ST_INTEGRATION_CONNECTION, ST_PARTICIPANT] TR_PARTICIPANT True [''binding_id'', ''changed_fields'', ''credential_version'',
       ''is_primary'', ''state''],
     registered ''AGENT_BINDING_DISABLED'' CAT_INTEGRATION ''AGENT_BINDING_DISABLED''
       [AK_USER, AK_CLI_ADMIN] [ST_INTEGRATION_CONNECTION, ST_PARTICIPANT] TR_PARTICIPANT True [''binding_id'', ''state'']]"

definition audit_events_5 :: "registered_event list" where
  "audit_events_5 =
    [registered ''PRINT_TEMPLATE_CREATED'' CAT_PRINTING ''PRINT_TEMPLATE_CREATED''
       [AK_USER] [ST_PRINT_TEMPLATE] TR_PARTICIPANT True [''template_id'', ''template_version_id'',
       ''layout_sha256''],
     registered ''PRINT_TEMPLATE_VERSION_CREATED'' CAT_PRINTING ''PRINT_TEMPLATE_VERSION_CREATED''
       [AK_USER] [ST_PRINT_TEMPLATE] TR_PARTICIPANT True [''template_id'', ''template_version_id'',
       ''layout_sha256''],
     registered ''PRINT_TEMPLATE_ARCHIVED'' CAT_PRINTING ''PRINT_TEMPLATE_ARCHIVED''
       [AK_USER] [ST_PRINT_TEMPLATE] TR_PARTICIPANT True [''template_id'', ''template_version_id''],
     registered ''PRINT_JOB_REQUESTED'' CAT_PRINTING ''PRINT_JOB_REQUESTED''
       [AK_USER] [ST_PRINT_JOB] TR_PARTICIPANT True [''template_version_id'', ''count'',
       ''printer_profile_fingerprint'', ''print_mode'',
       ''payload_sha256''],
     registered ''PRINT_JOB_COMPLETED'' CAT_PRINTING ''PRINT_JOB_COMPLETED''
       [AK_WINDOWS_AGENT, AK_WORKER] [ST_PRINT_JOB] TR_PARTICIPANT False [''template_version_id'', ''count'',
       ''printer_profile_fingerprint'', ''print_mode'',
       ''payload_sha256''],
     registered ''PRINT_JOB_FAILED'' CAT_PRINTING ''PRINT_JOB_FAILED''
       [AK_WINDOWS_AGENT, AK_WORKER, AK_SYSTEM] [ST_PRINT_JOB] TR_PARTICIPANT False [''template_version_id'', ''count'',
       ''printer_profile_fingerprint'', ''print_mode'',
       ''payload_sha256'', ''error_code''],
     registered ''REPRINT_REQUESTED'' CAT_PRINTING ''REPRINT_REQUESTED''
       [AK_USER] [ST_PRINT_JOB] TR_PARTICIPANT True [''template_version_id'', ''count'',
       ''printer_profile_fingerprint'',
       ''original_print_event_id'', ''print_mode'',
       ''payload_sha256''],
     registered ''REPRINT_COMPLETED'' CAT_PRINTING ''REPRINT_COMPLETED''
       [AK_WINDOWS_AGENT, AK_WORKER] [ST_PRINT_JOB] TR_PARTICIPANT False [''template_version_id'', ''count'',
       ''printer_profile_fingerprint'',
       ''original_print_event_id'', ''print_mode'',
       ''payload_sha256''],
     registered ''REPRINT_FAILED'' CAT_PRINTING ''REPRINT_FAILED''
       [AK_WINDOWS_AGENT, AK_WORKER, AK_SYSTEM] [ST_PRINT_JOB] TR_PARTICIPANT False [''template_version_id'', ''count'',
       ''printer_profile_fingerprint'',
       ''original_print_event_id'', ''print_mode'',
       ''payload_sha256'', ''error_code''],
     registered ''PRINT_AGENT_KEY_REGISTERED'' CAT_PRINTING ''AGENT_KEY_REGISTERED''
       [AK_WINDOWS_AGENT] [ST_INTEGRATION_CONNECTION] TR_PARTICIPANT False [''binding_id'', ''key_fingerprint'', ''key_version'',
       ''rotation_state''],
     registered ''PRINT_AGENT_KEY_ROTATED'' CAT_PRINTING ''AGENT_KEY_ROTATED''
       [AK_WINDOWS_AGENT] [ST_INTEGRATION_CONNECTION] TR_PARTICIPANT False [''binding_id'', ''key_fingerprint'', ''key_version'',
       ''old_key_version'', ''rotation_state''],
     registered ''PRINT_AGENT_KEY_REVOKED'' CAT_PRINTING ''AGENT_KEY_REVOKED''
       [AK_WINDOWS_AGENT, AK_USER, AK_SYSTEM] [ST_INTEGRATION_CONNECTION] TR_PARTICIPANT False [''binding_id'', ''key_fingerprint'', ''key_version'',
       ''error_code''],
     registered ''PRINT_PAYLOAD_AUTHORIZED'' CAT_PRINTING ''PAYLOAD_AUTHORIZED''
       [AK_USER] [ST_PRINT_JOB] TR_PARTICIPANT True [''print_execution_id'', ''delivery_reservation_id'',
       ''print_job_item_id'', ''stored_km_item_id'',
       ''binding_id'', ''key_fingerprint'', ''key_version'',
       ''payload_sha256'', ''layout_sha256'', ''attempt_count''],
     registered ''PRINT_PAYLOAD_ISSUED'' CAT_PRINTING ''PAYLOAD_ISSUED''
       [AK_WINDOWS_AGENT] [ST_PRINT_JOB] TR_PARTICIPANT False [''print_execution_id'', ''delivery_reservation_id'',
       ''print_job_item_id'', ''binding_id'', ''key_fingerprint'',
       ''key_version'', ''payload_sha256'', ''context_sha256'',
       ''issue_count''],
     registered ''PRINT_PAYLOAD_DELIVERED'' CAT_PRINTING ''PAYLOAD_DELIVERED''
       [AK_WINDOWS_AGENT] [ST_PRINT_JOB] TR_PARTICIPANT False [''print_execution_id'', ''delivery_reservation_id'',
       ''print_job_item_id'', ''binding_id'', ''payload_sha256'',
       ''context_sha256'', ''issue_count''],
     registered ''PRINTER_DISCOVERY_REQUESTED'' CAT_PRINTING ''PRINTER_DISCOVERY_REQUESTED''
       [AK_USER] [ST_INTEGRATION_CONNECTION] TR_PARTICIPANT True [''binding_id'', ''state'', ''discovery_request_id'']]"

definition audit_events_6 :: "registered_event list" where
  "audit_events_6 =
    [registered ''PRINTER_DISCOVERY_COMPLETED'' CAT_PRINTING ''PRINTER_DISCOVERY_COMPLETED''
       [AK_WINDOWS_AGENT] [ST_INTEGRATION_CONNECTION] TR_PARTICIPANT False [''binding_id'', ''state'', ''discovery_request_id'',
       ''printer_count'', ''safe_reason_code''],
     registered ''PRINTER_PROFILE_CREATED'' CAT_PRINTING ''PRINTER_PROFILE_CREATED''
       [AK_USER] [ST_INTEGRATION_CONNECTION] TR_PARTICIPANT True [''printer_profile_id'', ''binding_id'', ''state'',
       ''capability_hash'', ''dpi_x'', ''dpi_y'',
       ''media_width_mm'', ''media_height_mm'',
       ''capability_revision''],
     registered ''PRINTER_PROFILE_UPDATED'' CAT_PRINTING ''PRINTER_PROFILE_UPDATED''
       [AK_USER] [ST_INTEGRATION_CONNECTION] TR_PARTICIPANT True [''printer_profile_id'', ''binding_id'', ''state'',
       ''capability_hash'', ''dpi_x'', ''dpi_y'',
       ''media_width_mm'', ''media_height_mm'',
       ''capability_revision''],
     registered ''PRINTER_PROFILE_DISABLED'' CAT_PRINTING ''PRINTER_PROFILE_DISABLED''
       [AK_USER] [ST_INTEGRATION_CONNECTION] TR_PARTICIPANT True [''printer_profile_id'', ''binding_id'', ''state'',
       ''capability_revision''],
     registered ''PRINTER_PROFILE_STALE'' CAT_PRINTING ''PRINTER_PROFILE_STALE''
       [AK_WINDOWS_AGENT, AK_SYSTEM] [ST_INTEGRATION_CONNECTION] TR_PARTICIPANT False [''printer_profile_id'', ''binding_id'', ''state'',
       ''capability_hash'', ''safe_reason_code''],
     registered ''PRINT_RENDER_VERIFIED'' CAT_PRINTING ''RENDER_VERIFIED''
       [AK_WINDOWS_AGENT] [ST_PRINT_JOB] TR_PARTICIPANT False [''print_execution_id'', ''print_job_item_id'',
       ''binding_id'', ''printer_profile_id'',
       ''printer_profile_fingerprint'', ''payload_sha256'',
       ''layout_sha256'', ''renderer_version'',
       ''decoder_version'', ''attempt_count''],
     registered ''PRINT_SPOOL_SUBMITTED'' CAT_PRINTING ''SPOOL_SUBMITTED''
       [AK_WINDOWS_AGENT] [ST_PRINT_JOB] TR_PARTICIPANT False [''print_execution_id'', ''print_job_item_id'',
       ''binding_id'', ''printer_profile_id'',
       ''printer_profile_fingerprint'', ''payload_sha256'',
       ''layout_sha256'', ''attempt_count'', ''safe_status''],
     registered ''PRINT_SPOOL_ACCEPTED'' CAT_PRINTING ''SPOOL_ACCEPTED''
       [AK_WINDOWS_AGENT] [ST_PRINT_JOB] TR_PARTICIPANT False [''print_execution_id'', ''print_job_item_id'',
       ''binding_id'', ''printer_profile_id'',
       ''printer_profile_fingerprint'', ''payload_sha256'',
       ''layout_sha256'', ''windows_spool_job_id'',
       ''safe_status'', ''attempt_count''],
     registered ''PRINT_EXECUTION_FAILED'' CAT_PRINTING ''EXECUTION_FAILED''
       [AK_WINDOWS_AGENT] [ST_PRINT_JOB] TR_PARTICIPANT False [''print_execution_id'', ''print_job_item_id'',
       ''binding_id'', ''printer_profile_id'',
       ''printer_profile_fingerprint'', ''payload_sha256'',
       ''layout_sha256'', ''windows_spool_job_id'',
       ''safe_status'', ''error_code'', ''attempt_count''],
     registered ''PRINT_EXECUTION_UNKNOWN'' CAT_PRINTING ''EXECUTION_UNKNOWN''
       [AK_WINDOWS_AGENT] [ST_PRINT_JOB] TR_PARTICIPANT False [''print_execution_id'', ''print_job_item_id'',
       ''binding_id'', ''printer_profile_id'',
       ''printer_profile_fingerprint'', ''payload_sha256'',
       ''layout_sha256'', ''windows_spool_job_id'',
       ''safe_status'', ''error_code'', ''attempt_count'']]"

definition audit_event_definitions :: "registered_event list" where
  "audit_event_definitions = audit_events_1 @ audit_events_2 @ audit_events_3 @ audit_events_4 @ audit_events_5 @ audit_events_6"

definition audit_registry :: "pystr \<Rightarrow> registered_event option" where
  "audit_registry t = lookup_row re_type t audit_event_definitions"

section \<open>Permission texts\<close>

fun permission_value :: "permission \<Rightarrow> pystr" where
  "permission_value IMPORTS_READ = ''imports:read''"
| "permission_value IMPORTS_CREATE = ''imports:create''"
| "permission_value CONTROL_RUN = ''control:run''"
| "permission_value CIS_READ = ''cis:read''"
| "permission_value REFERENCE_READ = ''reference:read''"
| "permission_value DOCUMENTS_READ = ''documents:read''"
| "permission_value DOCUMENTS_WRITE = ''documents:write''"
| "permission_value TURNOVER_READ = ''turnover:read''"
| "permission_value TURNOVER_WRITE = ''turnover:write''"
| "permission_value AGGREGATION_READ = ''aggregation:read''"
| "permission_value AGGREGATION_WRITE = ''aggregation:write''"
| "permission_value EDO_READ = ''edo:read''"
| "permission_value EDO_WRITE = ''edo:write''"
| "permission_value SUZ_READ = ''suz:read''"
| "permission_value SUZ_MANAGE = ''suz:manage''"
| "permission_value WB_READ = ''wb:read''"
| "permission_value OZON_READ = ''ozon:read''"
| "permission_value REPORTS_CREATE = ''reports:create''"
| "permission_value REPORTS_READ = ''reports:read''"
| "permission_value REPORTS_DOWNLOAD = ''reports:download''"
| "permission_value REPORTS_DOWNLOAD_SENSITIVE = ''reports:download_sensitive''"
| "permission_value INTEGRATIONS_READ = ''integrations:read''"
| "permission_value INTEGRATIONS_MANAGE = ''integrations:manage''"
| "permission_value MEMBERS_READ = ''members:read''"
| "permission_value MEMBERS_MANAGE = ''members:manage''"
| "permission_value ROLES_MANAGE = ''roles:manage''"
| "permission_value ORGANISATION_MANAGE = ''organisation:manage''"
| "permission_value AUDIT_READ = ''audit:read''"
| "permission_value PRINT_READ = ''print:read''"
| "permission_value PRINT_EXECUTE = ''print:execute''"
| "permission_value PRINT_TEMPLATES_MANAGE = ''print:templates_manage''"

text \<open>The snapshot of a role: \<open>sorted(permission.value for ...)\<close>.\<close>

definition role_snapshot :: "role \<Rightarrow> pystr list" where
  "role_snapshot r = sort (map permission_value (role_permissions r))"

lemma registry_type: "audit_registry t = Some e \<Longrightarrow> re_type e = t"
  unfolding audit_registry_def by (drule lookup_row_Some) simp

end
