(* ===== verification/JsonUnique.thy ===== *)
theory JsonUnique
  imports Json
begin

text \<open>
  Canonical JSON text has one reading: two values without floats have the same text only if they are
  the same up to the order of the keys of their objects. Hashes of canonical text, which identify
  operations, jobs and audit events, therefore stand for the values themselves.
\<close>

section \<open>Digits and strings\<close>

lemma takeWhile_all: "list_all p xs \<Longrightarrow> takeWhile p (xs @ ys) = xs @ takeWhile p ys"
  by (induction xs) auto

lemma stop_no_digit: "stop r \<Longrightarrow> takeWhile digit_char r = []"
  by (drule stop_cases) (auto simp: digit_char_def code_def)

lemma digits_prefix:
  assumes "list_all digit_char a" "list_all digit_char b" "stop r" "stop s" "a @ r = b @ s"
  shows "a = b \<and> r = s"
proof -
  have "takeWhile digit_char (a @ r) = a" "takeWhile digit_char (b @ s) = b"
    using assms(1-4) by (simp_all add: takeWhile_all stop_no_digit)
  with assms(5) show ?thesis by simp
qed

fun decimal_value :: "pystr \<Rightarrow> nat \<Rightarrow> nat" where
  "decimal_value [] n = n"
| "decimal_value (c # cs) n = decimal_value cs (10 * n + (code c - 48))"

lemma decimal_value_append [simp]: "decimal_value (xs @ ys) n = decimal_value ys (decimal_value xs n)"
  by (induction xs arbitrary: n) auto

lemma decimal_value_show: "decimal_value (show_nat n) 0 = n"
proof (induction n rule: show_nat.induct)
  case (1 n)
  show ?case
  proof (cases "n < 10")
    case True
    then show ?thesis by (subst show_nat.simps) simp
  next
    case False
    then have "decimal_value (show_nat n) 0 = 10 * (n div 10) + (48 + n mod 10 - 48)"
      using 1 by (subst show_nat.simps) simp
    then show ?thesis by simp
  qed
qed

lemma show_nat_inject [simp]: "show_nat m = show_nat n \<longleftrightarrow> m = n"
  by (metis decimal_value_show)

lemma show_nat_no_minus: "show_nat n \<noteq> CHR ''-'' # s"
  using show_nat_digits [of n] by (auto simp: digit_char_def code_def)

lemma int_prefix:
  assumes "show_int i @ r = show_int j @ s" and "stop r" and "stop s"
  shows "i = j \<and> r = s"
proof -
  have d: "list_all digit_char (show_nat n)" for n by (rule show_nat_digits)
  have minus: "CHR ''-'' # a \<noteq> show_nat n @ b" for a b n
    using show_nat_digit [of n] by (auto simp: digit_char_def code_def)
  show ?thesis
  proof (cases "i < 0"; cases "j < 0")
    assume "i < 0" "j < 0"
    with assms have "show_nat (nat (- i)) @ r = show_nat (nat (- j)) @ s" by (simp add: show_int_def)
    from digits_prefix [OF d d assms(2,3) this] \<open>i < 0\<close> \<open>j < 0\<close> show ?thesis
      by (auto simp: nat_eq_iff)
  next
    assume "\<not> i < 0" "\<not> j < 0"
    with assms have "show_nat (nat i) @ r = show_nat (nat j) @ s" by (simp add: show_int_def)
    from digits_prefix [OF d d assms(2,3) this] \<open>\<not> i < 0\<close> \<open>\<not> j < 0\<close> show ?thesis
      by (auto simp: nat_eq_iff)
  next
    assume "i < 0" "\<not> j < 0"
    with assms(1) minus show ?thesis by (auto simp: show_int_def)
  next
    assume "\<not> i < 0" "j < 0"
    with assms(1) minus [of "show_nat (nat (- j)) @ s" "nat i" r] show ?thesis
      by (simp add: show_int_def)
  qed
qed

text \<open>Reading back one escaped character.\<close>

lemma code_inject: "code c = code d \<longleftrightarrow> c = d"
  by (simp add: code_def)

lemma escape_char_Cons: "\<exists>h t. escape_char c = h # t \<and> h \<noteq> quote_mark"
  by (auto simp: escape_char_def quote_mark_def backslash_def)

definition nibble :: "char \<Rightarrow> nat" where
  "nibble c = (if code c < 58 then code c - 48 else code c - 87)"

lemma nibble_digit: "n < 16 \<Longrightarrow> nibble (hex_digit n) = n"
proof -
  assume "n < 16"
  then have "code (hex_digit n) = (if n < 10 then 48 + n else 87 + n)" by (simp add: hex_digit_def)
  with \<open>n < 16\<close> show ?thesis by (simp add: nibble_def)
qed

fun read_escape :: "pystr \<Rightarrow> (char \<times> pystr) option" where
  "read_escape (c # r) =
     (if c = CHR ''n'' then Some (char_of (10 :: nat), r) else if c = CHR ''r'' then Some (char_of (13 :: nat), r)
      else if c = CHR ''t'' then Some (char_of (9 :: nat), r) else if c = CHR ''b'' then Some (char_of (8 :: nat), r)
      else if c = CHR ''f'' then Some (char_of (12 :: nat), r)
      else if c = CHR ''u'' then (case r of a # b # h # l # t \<Rightarrow> Some (char_of (16 * nibble h + nibble l), t) | _ \<Rightarrow> None)
      else Some (c, r))"
| "read_escape [] = None"

fun read_char :: "pystr \<Rightarrow> (char \<times> pystr) option" where
  "read_char [] = None"
| "read_char (c # r) = (if c = backslash then read_escape r else Some (c, r))"

lemma read_char_escape: "read_char (escape_char c @ r) = Some (c, r)"
proof -
  have marks: "quote_mark \<noteq> backslash" "quote_mark \<notin> set ''nrtbfu''" "backslash \<notin> set ''nrtbfu''"
    by (simp_all add: quote_mark_def backslash_def)
  have char_back: "code c = n \<Longrightarrow> char_of n = c" for n by (metis char_of_code)
  consider "c = quote_mark \<or> c = backslash" | "code c < 32" "c \<noteq> quote_mark" "c \<noteq> backslash"
    | "\<not> code c < 32" "c \<noteq> quote_mark" "c \<noteq> backslash" by blast
  then show ?thesis
  proof cases
    case 1
    with marks show ?thesis by (auto simp: escape_char_def)
  next
    case 2
    have h: "nibble (hex_digit (code c div 16)) = code c div 16" "nibble (hex_digit (code c mod 16)) = code c mod 16"
      using 2(1) by (intro nibble_digit; simp)+
    have "char_of (16 * (code c div 16) + code c mod 16) = c" by (rule char_back) simp
    with 2 h show ?thesis by (simp add: escape_char_def char_back)
  next
    case 3
    then show ?thesis by (simp add: escape_char_def)
  qed
qed

lemma escape_char_prefix: "escape_char c @ r = escape_char d @ s \<Longrightarrow> c = d \<and> r = s"
  by (metis option.inject prod.inject read_char_escape)

lemma escaped_prefix:
  "concat (map escape_char a) @ quote_mark # r = concat (map escape_char b) @ quote_mark # s \<Longrightarrow> a = b \<and> r = s"
proof (induction a arbitrary: b)
  case Nil
  show ?case
  proof (cases b)
    case (Cons d ds)
    from escape_char_Cons [of d] Nil Cons show ?thesis by auto
  qed (use Nil in simp)
next
  case (Cons c cs)
  show ?case
  proof (cases b)
    case Nil
    from escape_char_Cons [of c] Cons.prems Nil show ?thesis by auto
  next
    case b: (Cons d ds)
    from Cons.prems b have "escape_char c @ (concat (map escape_char cs) @ quote_mark # r)
      = escape_char d @ (concat (map escape_char ds) @ quote_mark # s)" by simp
    from escape_char_prefix [OF this] Cons.IH b show ?thesis by blast
  qed
qed

lemma quote_prefix: "quote a @ r = quote b @ s \<Longrightarrow> a = b \<and> r = s"
  using escaped_prefix [of a r b s] by (simp add: quote_def)

lemma utf8_char_prefix: "utf8_char c @ r = utf8_char d @ s \<Longrightarrow> c = d \<and> r = s"
proof -
  assume a: "utf8_char c @ r = utf8_char d @ s"
  have lead: "code (char_of (192 + code x div 64) :: char) = 192 + code x div 64"
    "code (char_of (128 + code x mod 64) :: char) = 128 + code x mod 64" for x
    proof -
      have "code x div 64 < 4" using code_less [of x] by (simp add: less_mult_imp_div_less)
      moreover have "code x mod 64 < 64" by simp
      ultimately have "192 + code x div 64 < 256" "128 + code x mod 64 < 256" by linarith+
      then show "code (char_of (192 + code x div 64) :: char) = 192 + code x div 64"
        "code (char_of (128 + code x mod 64) :: char) = 128 + code x mod 64" by (simp_all only: code_char_of)
    qed
  show ?thesis
  proof (cases "code c < 128"; cases "code d < 128")
    assume "\<not> code c < 128" "\<not> code d < 128"
    with a have "(char_of (192 + code c div 64) :: char) = char_of (192 + code d div 64)"
      "(char_of (128 + code c mod 64) :: char) = char_of (128 + code d mod 64)" "r = s"
      unfolding utf8_char_def by (simp_all only: if_False append_Cons append_Nil list.inject)
    then have "code c div 64 = code d div 64" "code c mod 64 = code d mod 64" "r = s"
      using lead [of c] lead [of d] by (metis add_left_cancel)+
    then have "code c = code d" by (metis div_mult_mod_eq)
    with \<open>r = s\<close> show ?thesis by (simp add: code_inject)
  next
    assume c: "code c < 128" and d: "\<not> code d < 128"
    with a have "c = char_of (192 + code d div 64)" by (simp add: utf8_char_def)
    with c lead [of d] show ?thesis by simp
  next
    assume c: "\<not> code c < 128" and d: "code d < 128"
    with a have "d = char_of (192 + code c div 64)" by (simp add: utf8_char_def)
    with d lead [of c] show ?thesis by simp
  qed (use a in \<open>simp add: utf8_char_def\<close>)
qed

lemma utf8_char_not_Nil [simp]: "utf8_char c \<noteq> []"
  by (simp add: utf8_char_def)

lemma utf8_inject: "utf8 s = utf8 t \<longleftrightarrow> s = t"
proof
  show "utf8 s = utf8 t \<Longrightarrow> s = t"
  proof (induction s arbitrary: t)
    case Nil
    then show ?case by (cases t) (simp_all add: utf8_Cons)
  next
    case (Cons c s)
    then show ?case
      by (cases t) (auto simp: utf8_Cons dest: utf8_char_prefix)
  qed
qed simp

section \<open>Values\<close>

text \<open>A value with the keys of its objects in order.\<close>

fun sorted_json :: "json \<Rightarrow> json" where
  "sorted_json (JList xs) = JList (map sorted_json xs)"
| "sorted_json (JObj kvs) = JObj (sort_key fst (map (\<lambda>p. (fst p, sorted_json (snd p))) kvs))"
| "sorted_json JNull = JNull"
| "sorted_json (JBool b) = JBool b"
| "sorted_json (JInt i) = JInt i"
| "sorted_json (JFloat r) = JFloat r"
| "sorted_json (JStr s) = JStr s"

lemma insort_key_values:
  "insort_key fst (fst p, f (snd p)) (map (\<lambda>q. (fst q, f (snd q))) ps)
     = map (\<lambda>q. (fst q, f (snd q))) (insort_key fst p ps)"
  by (induction ps) auto

lemma sort_key_values: "sort_key fst (map (\<lambda>p. (fst p, f (snd p))) kvs) = map (\<lambda>p. (fst p, f (snd p))) (sort_key fst kvs)"
  by (induction kvs) (simp_all add: insort_key_values)

definition member :: "pystr \<times> json \<Rightarrow> pystr" where
  "member p = quote (fst p) @ '':'' @ canonical_json (snd p)"

lemma canonical_object: "canonical_json (JObj kvs) = ''{'' @ join '','' (map member (sort_key fst kvs)) @ ''}''"
  by (simp add: sort_key_values member_def [abs_def] comp_def)

lemma sorted_object: "sorted_json (JObj kvs) = JObj (map (\<lambda>p. (fst p, sorted_json (snd p))) (sort_key fst kvs))"
  by (simp add: sort_key_values)

definition one_reading :: "json \<Rightarrow> bool" where
  "one_reading a \<longleftrightarrow> (\<forall>b r s. float_free b \<longrightarrow> canonical_json a @ r = canonical_json b @ s \<longrightarrow> stop r \<longrightarrow> stop s
     \<longrightarrow> sorted_json a = sorted_json b \<and> r = s)"

text \<open>The items of an array or of an object, up to the closing mark.\<close>

fun items_text :: "('a \<Rightarrow> pystr) \<Rightarrow> char \<Rightarrow> 'a list \<Rightarrow> pystr \<Rightarrow> pystr" where
  "items_text f c [] r = c # r"
| "items_text f c (x # xs) r = CHR '','' # f x @ items_text f c xs r"

lemma items_stop: "c \<in> set '']}'' \<Longrightarrow> stop (items_text f c xs r)"
  by (cases xs) auto

lemma join_items: "join '','' (map f (x # xs)) @ c # r = f x @ items_text f c xs r"
proof -
  have "concat (map (\<lambda>y. CHR '','' # f y) xs) @ c # r = items_text f c xs r" by (induction xs) auto
  then show ?thesis by (simp add: join_def comp_def)
qed

lemma items_prefix:
  assumes c: "c \<in> set '']}''"
    and each: "\<And>x y t u. x \<in> set xs \<Longrightarrow> y \<in> set ys \<Longrightarrow> f x @ t = f y @ u \<Longrightarrow> stop t \<Longrightarrow> stop u \<Longrightarrow> g x = g y \<and> t = u"
    and eq: "items_text f c xs r = items_text f c ys s"
  shows "map g xs = map g ys \<and> r = s"
  using each eq
proof (induction xs arbitrary: ys)
  case Nil
  then show ?case using c by (cases ys) auto
next
  case (Cons x xs)
  show ?case
  proof (cases ys)
    case Nil
    with Cons.prems(2) c show ?thesis by auto
  next
    case y: (Cons y zs)
    with Cons.prems(2) have e: "f x @ items_text f c xs r = f y @ items_text f c zs s" by simp
    from Cons.prems(1) [OF _ _ e] y items_stop [OF c, of f xs r] items_stop [OF c, of f zs s] have h: "g x = g y" "items_text f c xs r = items_text f c zs s"
      by simp_all
    have "map g xs = map g zs \<and> r = s"
      by (rule Cons.IH [OF _ h(2)]) (rule Cons.prems(1), simp_all add: y)
    with h(1) y show ?thesis by simp
  qed
qed

lemma closed_prefix:
  assumes c: "c \<in> set '']}''" and heads: "\<And>x t. x \<in> set xs \<union> set ys \<Longrightarrow> f x @ t \<noteq> c # u"
      "\<And>x t. x \<in> set xs \<union> set ys \<Longrightarrow> f x @ t \<noteq> c # w"
    and each: "\<And>x y t u. x \<in> set xs \<Longrightarrow> y \<in> set ys \<Longrightarrow> f x @ t = f y @ u \<Longrightarrow> stop t \<Longrightarrow> stop u \<Longrightarrow> g x = g y \<and> t = u"
    and eq: "join '','' (map f xs) @ c # u = join '','' (map f ys) @ c # w"
  shows "map g xs = map g ys \<and> u = w"
proof (cases xs; cases ys)
  fix x xt y yt assume x: "xs = x # xt" and y: "ys = y # yt"
  with eq have e: "f x @ items_text f c xt u = f y @ items_text f c yt w" by (simp only: join_items)
  from each [OF _ _ e] x y items_stop [OF c, of f xt u] items_stop [OF c, of f yt w] have h: "g x = g y" "items_text f c xt u = items_text f c yt w" by simp_all
  have "map g xt = map g yt \<and> u = w" by (rule items_prefix [OF c _ h(2)]) (rule each, simp_all add: x y)
  with h(1) x y show ?thesis by simp
next
  fix y yt assume "xs = []" "ys = y # yt"
  with eq have "f y @ items_text f c yt w = c # u" by (simp only: join_items) (simp add: join_def)
  with heads(1) [of y] \<open>ys = y # yt\<close> show ?thesis by simp
next
  fix x xt assume "xs = x # xt" "ys = []"
  with eq have "f x @ items_text f c xt u = c # w" by (simp only: join_items) (simp add: join_def)
  with heads(2) [of x] \<open>xs = x # xt\<close> show ?thesis by simp
qed (use eq in \<open>simp add: join_def\<close>)

lemma item_heads:
  "float_free v \<Longrightarrow> c \<in> set '']}'' \<Longrightarrow> canonical_json v @ t \<noteq> c # u"
  "c \<in> set '']}'' \<Longrightarrow> member p @ t \<noteq> c # u"
proof -
  show "canonical_json v @ t \<noteq> c # u" if "float_free v" "c \<in> set '']}''"
  proof (cases v)
    case (JInt i)
    obtain d ds where "show_nat (nat \<bar>i\<bar>) = d # ds" "digit_char d" using show_nat_digit by blast
    with JInt that(2) show ?thesis by (auto simp: show_int_def digit_char_def code_def)
  qed (use that in \<open>auto simp: quote_def quote_mark_def\<close>)
  show "member p @ t \<noteq> c # u" if "c \<in> set '']}''"
    using that by (auto simp: member_def quote_def quote_mark_def)
qed

text \<open>The first character tells the kind of a value.\<close>

fun kind_of :: "json \<Rightarrow> nat" where
  "kind_of JNull = 0"
| "kind_of (JBool b) = (if b then 1 else 2)"
| "kind_of (JInt i) = 3"
| "kind_of (JFloat r) = 4"
| "kind_of (JStr s) = 5"
| "kind_of (JList xs) = 6"
| "kind_of (JObj kvs) = 7"

definition mark_of :: "char \<Rightarrow> nat" where
  "mark_of c = (if c = CHR ''n'' then 0 else if c = CHR ''t'' then 1 else if c = CHR ''f'' then 2
     else if digit_char c \<or> c = CHR ''-'' then 3 else if c = quote_mark then 5 else if c = CHR ''['' then 6 else 7)"

lemma mark_kind: "float_free v \<Longrightarrow> \<exists>c t. canonical_json v = c # t \<and> mark_of c = kind_of v"
proof (cases v)
  case (JInt i)
  obtain d ds where d: "show_nat (nat \<bar>i\<bar>) = d # ds" "digit_char d" using show_nat_digit by blast
  then have "mark_of d = 3" by (auto simp: mark_of_def digit_char_def code_def)
  moreover have "mark_of (CHR ''-'') = 3" by (simp add: mark_of_def)
  ultimately show ?thesis using JInt d by (auto simp: show_int_def)
qed (auto simp: mark_of_def digit_char_def code_def quote_def quote_mark_def)

lemma same_kind:
  assumes "float_free a" "float_free b" "canonical_json a @ r = canonical_json b @ s"
  shows "kind_of a = kind_of b"
  using mark_kind [OF assms(1)] mark_kind [OF assms(2)] assms(3) by auto

lemma one_readingI:
  assumes "\<And>b r s. float_free b \<Longrightarrow> kind_of b = kind_of a \<Longrightarrow> canonical_json a @ r = canonical_json b @ s
    \<Longrightarrow> stop r \<Longrightarrow> stop s \<Longrightarrow> sorted_json a = sorted_json b \<and> r = s" and "float_free a"
  shows "one_reading a"
  unfolding one_reading_def using assms same_kind by metis

lemma one_readingD:
  "one_reading a \<Longrightarrow> float_free b \<Longrightarrow> canonical_json a @ r = canonical_json b @ s \<Longrightarrow> stop r \<Longrightarrow> stop s
    \<Longrightarrow> sorted_json a = sorted_json b \<and> r = s"
  unfolding one_reading_def by blast

lemma one_reading_list:
  assumes "\<And>x. x \<in> set xs \<Longrightarrow> one_reading x" and "float_free (JList xs)"
  shows "one_reading (JList xs)"
proof (rule one_readingI [OF _ assms(2)])
  fix b r s assume b: "float_free b" "kind_of b = kind_of (JList xs)"
    "canonical_json (JList xs) @ r = canonical_json b @ s" "stop r" "stop s"
  then obtain ys where y: "b = JList ys" by (cases b) (auto split: if_splits)
  with b(3) have e: "join '','' (map canonical_json xs) @ CHR '']'' # r = join '','' (map canonical_json ys) @ CHR '']'' # s"
    by simp
  have heads: "\<forall>v\<in>set xs \<union> set ys. \<forall>t u. canonical_json v @ t \<noteq> CHR '']'' # u"
    using assms(2) b(1) y item_heads(1) [where c = "CHR '']''"] by auto
  have each: "sorted_json x = sorted_json z \<and> t = u"
    if "x \<in> set xs" "z \<in> set ys" "canonical_json x @ t = canonical_json z @ u" "stop t" "stop u" for x z t u
    using one_readingD [OF assms(1) [OF that(1)] _ that(3-5)] b(1) y that(2) by simp
  have "map sorted_json xs = map sorted_json ys \<and> r = s"
    by (rule closed_prefix [OF _ _ _ each e]) (use heads in auto)
  with y show "sorted_json (JList xs) = sorted_json b \<and> r = s" by simp
qed

lemma one_reading_object:
  assumes "\<And>p. p \<in> set kvs \<Longrightarrow> one_reading (snd p)" and "float_free (JObj kvs)"
  shows "one_reading (JObj kvs)"
proof (rule one_readingI [OF _ assms(2)])
  fix b r s assume b: "float_free b" "kind_of b = kind_of (JObj kvs)"
    "canonical_json (JObj kvs) @ r = canonical_json b @ s" "stop r" "stop s"
  then obtain lvs where y: "b = JObj lvs" by (cases b) (auto split: if_splits)
  let ?k = "sort_key fst kvs" and ?l = "sort_key fst lvs" and ?g = "\<lambda>p. (fst p, sorted_json (snd p))"
  from b(3) y have e: "join '','' (map member ?k) @ CHR ''}'' # r = join '','' (map member ?l) @ CHR ''}'' # s"
    unfolding canonical_object by (simp add: canonical_object del: canonical_json.simps)
  have heads: "member v @ t \<noteq> CHR ''}'' # u" for v t u
    by (rule item_heads(2)) simp
  have each: "?g x = ?g z \<and> t = u"
    if "x \<in> set ?k" "z \<in> set ?l" "member x @ t = member z @ u" "stop t" "stop u" for x z t u
  proof -
    from that(3) have "quote (fst x) @ (CHR '':'' # canonical_json (snd x) @ t) = quote (fst z) @ (CHR '':'' # canonical_json (snd z) @ u)"
      by (simp add: member_def)
    from quote_prefix [OF this] have k: "fst x = fst z" "canonical_json (snd x) @ t = canonical_json (snd z) @ u" by auto
    from that(2) b(1) y have "float_free (snd z)" by simp
    from one_readingD [OF assms(1) this k(2) that(4,5)] that(1) k(1) show ?thesis by simp
  qed
  have "map ?g ?k = map ?g ?l \<and> r = s"
    by (rule closed_prefix [OF _ _ _ each e]) (use heads in auto)
  with y show "sorted_json (JObj kvs) = sorted_json b \<and> r = s" unfolding y sorted_object by simp
qed

lemma one_reading_all: "float_free v \<Longrightarrow> one_reading v"
proof (induction v rule: sorted_json.induct)
  case (1 xs)
  then show ?case by (intro one_reading_list) auto
next
  case (2 kvs)
  then show ?case by (intro one_reading_object) auto
next
  case 3
  show ?case by (rule one_readingI) (auto split: if_splits elim: kind_of.elims)
next
  case (4 b)
  show ?case
  proof (rule one_readingI)
    fix w r s assume "float_free w" "kind_of w = kind_of (JBool b)" "canonical_json (JBool b) @ r = canonical_json w @ s"
    then show "sorted_json (JBool b) = sorted_json w \<and> r = s" by (cases w) (auto split: if_splits)
  qed simp
next
  case (5 i)
  show ?case
  proof (rule one_readingI)
    fix w r s assume "float_free w" "kind_of w = kind_of (JInt i)" "canonical_json (JInt i) @ r = canonical_json w @ s"
      "stop r" "stop s"
    then show "sorted_json (JInt i) = sorted_json w \<and> r = s" by (cases w) (auto split: if_splits dest: int_prefix)
  qed simp
next
  case (6 t)
  then show ?case by simp
next
  case (7 t)
  show ?case
  proof (rule one_readingI)
    fix w r s assume "float_free w" "kind_of w = kind_of (JStr t)" "canonical_json (JStr t) @ r = canonical_json w @ s"
    then show "sorted_json (JStr t) = sorted_json w \<and> r = s" by (cases w) (auto split: if_splits dest: quote_prefix)
  qed simp
qed

section \<open>Canonical text stands for its value\<close>

lemma canonical_json_inject:
  assumes "float_free a" and "float_free b" and "canonical_json a = canonical_json b"
  shows "sorted_json a = sorted_json b"
  using one_readingD [OF one_reading_all [OF assms(1)] assms(2), of "[]" "[]"] assms(3) by simp

lemma map_of_same_set:
  assumes "distinct (map fst xs)" and "distinct (map fst ys)" and "set xs = set ys"
  shows "map_of xs k = map_of ys k"
proof (cases "map_of ys k")
  case None
  then have "k \<notin> fst ` set xs" using assms(3) by (simp add: map_of_eq_None_iff)
  then have "map_of xs k = None" by (simp add: map_of_eq_None_iff)
  with None show ?thesis by simp
next
  case (Some v)
  then have "(k, v) \<in> set xs" using assms(3) by (simp add: map_of_SomeD)
  with assms(1) Some show ?thesis by simp
qed

lemma map_of_sort: "distinct (map fst ps) \<Longrightarrow> map_of (sort_key fst ps) k = map_of ps k" for ps :: "(pystr \<times> 'v) list"
  by (rule map_of_same_set) (simp_all add: distinct_map)

lemma map_of_sorted_values: "map_of (map (\<lambda>p. (fst p, f (snd p))) ps) k = map_option f (map_of ps k)"
  by (induction ps) auto

lemma sorted_field:
  assumes "sorted_json (JObj kvs) = sorted_json (JObj lvs)" and "distinct (map fst kvs)" and "distinct (map fst lvs)"
  shows "map_option sorted_json (map_of kvs k) = map_option sorted_json (map_of lvs k)"
proof -
  let ?f = "map (\<lambda>p. (fst p, sorted_json (snd p)))"
  have "map_of (?f (sort_key fst kvs)) k = map_of (?f (sort_key fst lvs)) k"
    using assms(1) unfolding sorted_object by simp
  then show ?thesis unfolding map_of_sorted_values map_of_sort [OF assms(2)] map_of_sort [OF assms(3)] .
qed

text \<open>Two different texts with one hash.\<close>

definition sha_collision :: "json \<Rightarrow> json \<Rightarrow> bool" where
  "sha_collision a b \<longleftrightarrow> canonical_json a \<noteq> canonical_json b
     \<and> sha256_hex (utf8 (canonical_json a)) = sha256_hex (utf8 (canonical_json b))"

lemma same_hash_same_value:
  assumes "sha256_hex (utf8 (canonical_json a)) = sha256_hex (utf8 (canonical_json b))" and "\<not> sha_collision a b"
    and "float_free a" and "float_free b"
  shows "sorted_json a = sorted_json b"
  using assms canonical_json_inject [OF assms(3,4)] by (auto simp: sha_collision_def)

end
