(* ===== verification/WebAuditValues.thy ===== *)
theory WebAuditValues
  imports WebAuditEvents WebAuthorization JsonUnique TurnoverModel
begin

text \<open>
  The values of the audit history (\<open>wbcz_web/services/audit_history.py\<close>): the canonical serialisation of
  RFC 8785 as the code writes it, pseudonyms keyed by HMAC-SHA256, and the sanitiser that redacts secrets
  and pseudonymises marking codes before metadata is stored. Metadata are JSON values; lone surrogates,
  keys that are not texts and objects of other classes do not occur in them.
\<close>

datatype audit_error =
    AuditFailure pystr
  | RegistryFailure pystr
  | SanitizationFailure pystr
  | EventKeyConflict
  | IntegrityFailure pystr
  | BadUuid
  | RowConstraint pystr
  | ScopeValue pystr

type_synonym 'a audit = "audit_error + 'a"

definition safe_integer_max :: int where
  "safe_integer_max = 9007199254740991"

section \<open>Canonical serialisation\<close>

definition utf16be :: "pystr \<Rightarrow> bytes" where
  "utf16be s = concat (map (\<lambda>c. [CHR 0x00, c]) s)"

definition not_finite :: "pystr \<Rightarrow> bool" where
  "not_finite r \<longleftrightarrow> r \<in> {''nan'', ''inf'', ''-inf''}"

definition split_once :: "char \<Rightarrow> pystr \<Rightarrow> pystr \<times> pystr" where
  "split_once c s = (takeWhile (\<lambda>x. x \<noteq> c) s, drop 1 (dropWhile (\<lambda>x. x \<noteq> c) s))"

definition rstrip_char :: "char \<Rightarrow> pystr \<Rightarrow> pystr" where
  "rstrip_char c s = rev (dropWhile (\<lambda>x. x = c) (rev s))"

text \<open>\<open>format(Decimal(raw), "f")\<close> of a mantissa and an exponent.\<close>

definition fixed_point :: "pystr \<Rightarrow> int \<Rightarrow> pystr" where
  "fixed_point mantissa e =
     (let neg = startswith mantissa ''-''; m = (if neg then tl mantissa else mantissa);
          parts = split_once (CHR ''.'') m; ds = fst parts @ snd parts; k = e - int (length (snd parts)); n = nat (- k)
      in (if neg then ''-'' else []) @
         (if 0 \<le> k then ds @ replicate (nat k) (CHR ''0'')
          else if n < length ds then take (length ds - n) ds @ ''.'' @ drop (length ds - n) ds
          else ''0.'' @ replicate (n - length ds) (CHR ''0'') @ ds))"

text \<open>
  A float is its \<open>repr\<close>, whose scientific form has one digit before the point, so the comparison of the
  absolute value with \<open>1e-6\<close> and \<open>1e21\<close> reads the exponent.
\<close>

definition jcs_float :: "pystr \<Rightarrow> pystr audit" where
  "jcs_float r =
     (if not_finite r then Inl (SanitizationFailure ''NaN/Infinity are forbidden'')
      else if r \<in> {''0.0'', ''-0.0''} then Inr ''0''
      else if CHR ''e'' \<in> set r then
        (let parts = split_once (CHR ''e'') r; e = (case int_text (snd parts) of Some i \<Rightarrow> i | None \<Rightarrow> 0) in
         if - 6 \<le> e \<and> e \<le> 20 then
           (let t = fixed_point (fst parts) e in
            Inr (if CHR ''.'' \<in> set t then rstrip_char (CHR ''.'') (rstrip_char (CHR ''0'') t) else t))
         else Inr (rstrip_char (CHR ''.'') (rstrip_char (CHR ''0'') (fst parts)) @ ''e''
                   @ (if 0 \<le> e then ''+'' else ''-'') @ show_int \<bar>e\<bar>))
      else if 2 \<le> length r \<and> drop (length r - 2) r = ''.0'' then Inr (take (length r - 2) r)
      else Inr r)"

lemma size_member [termination_simp]: "p \<in> set kvs \<Longrightarrow> size (snd p) < Suc (size_list (size_prod (\<lambda>_. 0) size) kvs)"
  by (induction kvs) (auto simp: less_Suc_eq_le trans_le_add1 trans_le_add2)

function jcs :: "json \<Rightarrow> pystr audit" where
  "jcs JNull = Inr ''null''"
| "jcs (JBool b) = Inr (if b then ''true'' else ''false'')"
| "jcs (JStr s) = Inr (quote s)"
| "jcs (JInt i) = (if safe_integer_max < \<bar>i\<bar>
     then Inl (SanitizationFailure ''unsafe JSON integer must be encoded as string'') else Inr (show_int i))"
| "jcs (JFloat r) = jcs_float r"
| "jcs (JList xs) = bind (collect jcs xs) (\<lambda>ts. Inr (''['' @ join '','' ts @ '']''))"
| "jcs (JObj kvs) = bind (collect (\<lambda>p. bind (jcs (snd p)) (\<lambda>t. Inr (quote (fst p) @ '':'' @ t)))
       (sort_key (\<lambda>p. utf16be (fst p)) kvs)) (\<lambda>ts. Inr (''{'' @ join '','' ts @ ''}''))"
  by pat_completeness auto
termination by (relation "measure size") (auto simp: size_member less_Suc_eq_le intro: size_list_estimation')

definition jcs_bytes :: "json \<Rightarrow> bytes audit" where
  "jcs_bytes v = bind (jcs v) (\<lambda>t. Inr (utf8 t))"

definition jcs_hash :: "json \<Rightarrow> pystr audit" where
  "jcs_hash v = bind (jcs_bytes v) (\<lambda>b. Inr (sha256_hex b))"

section \<open>Pseudonyms\<close>

fun unhex :: "pystr \<Rightarrow> bytes" where
  "unhex (a # b # s) = char_of (16 * hex_value a + hex_value b) # unhex s"
| "unhex _ = []"

definition xor_byte :: "nat \<Rightarrow> byte \<Rightarrow> byte" where
  "xor_byte n b = char_of (unat ((word_of_nat n :: 8 word) XOR word_of_nat (code b)))"

text \<open>\<open>hmac.new(key, message, sha256).hexdigest()\<close>: a key longer than a block is hashed first.\<close>

definition hmac_sha256_hex :: "bytes \<Rightarrow> bytes \<Rightarrow> pystr" where
  "hmac_sha256_hex key m =
     (let k = (if 64 < length key then unhex (sha256_hex key) else key);
          block = k @ replicate (64 - length k) (CHR 0x00)
      in sha256_hex (map (xor_byte 92) block @ unhex (sha256_hex (map (xor_byte 54) block @ m))))"

record pseudonymizer =
  ps_key :: "bytes option"
  ps_key_id :: pystr

text \<open>The key and its name come from the caller or from the environment.\<close>

definition pseudonymizer_init :: "bytes option \<Rightarrow> pystr option \<Rightarrow> pystr option \<Rightarrow> pystr option \<Rightarrow> pseudonymizer audit" where
  "pseudonymizer_init key key_id env_key env_key_id =
     (let k = (case key of Some b \<Rightarrow> Some b
               | None \<Rightarrow> if truthy env_key then map_option utf8 env_key else None);
          given = (if truthy key_id then the key_id else case env_key_id of Some s \<Rightarrow> s | None \<Rightarrow> ''audit-v1'') in
      if \<exists>b. k = Some b \<and> length b < 32 then Inl (AuditFailure ''audit pseudonym key must be at least 32 bytes'')
      else Inr \<lparr>ps_key = k, ps_key_id = (if strip given = [] then ''audit-v1'' else strip given)\<rparr>)"

definition pseudonym :: "pseudonymizer \<Rightarrow> pystr \<Rightarrow> pystr \<Rightarrow> pystr audit" where
  "pseudonym ps purpose v = (case ps_key ps of
     None \<Rightarrow> Inl (AuditFailure ''audit pseudonym key is required for sensitive pseudonymization'')
   | Some k \<Rightarrow> Inr (''hmac-sha256:'' @ ps_key_id ps @ '':'' @ hmac_sha256_hex k (utf8 (purpose @ '':'' @ v))))"

definition marking_pseudonym :: "pseudonymizer \<Rightarrow> pystr \<Rightarrow> pystr \<Rightarrow> pystr audit" where
  "marking_pseudonym ps org v = pseudonym ps ''marking:v1'' (org @ '':'' @ v)"

definition machine_pseudonym :: "pseudonymizer \<Rightarrow> pystr \<Rightarrow> pystr audit" where
  "machine_pseudonym ps v = pseudonym ps ''machine-principal:v1'' v"

section \<open>The sanitiser\<close>

fun occurs_in :: "pystr \<Rightarrow> pystr \<Rightarrow> bool" where
  "occurs_in p [] = (p = [])"
| "occurs_in p (c # cs) = (startswith (c # cs) p \<or> occurs_in p cs)"

definition secret_markers :: "pystr list" where
  "secret_markers = [''password'', ''passwd'', ''token'', ''authorization'', ''cookie'', ''session_token'',
     ''csrf'', ''invite_token'', ''secret'', ''api_key'', ''api-key'', ''private_key'', ''pin'', ''bearer'']"

definition marking_markers :: "pystr list" where
  "marking_markers = [''kiz'', ''cis'', ''cises'', ''sgtin'', ''km'', ''marking_code'', ''marking_identifier'', ''marking'']"

definition underscored :: "pystr \<Rightarrow> pystr" where
  "underscored s = map (\<lambda>c. if c = CHR ''-'' then CHR ''_'' else c) s"

definition secret_key :: "pystr \<Rightarrow> bool" where
  "secret_key k \<longleftrightarrow> list_ex (\<lambda>m. occurs_in (underscored m) (underscored (casefold k))) secret_markers"

definition marking_key :: "pystr \<Rightarrow> bool" where
  "marking_key k \<longleftrightarrow> list_ex (\<lambda>m. occurs_in m (underscored (casefold k))) marking_markers"

definition redacted_marking :: json where
  "redacted_marking = JStr ''[REDACTED_MARKING]''"

definition marking_text :: "pseudonymizer \<Rightarrow> pystr \<Rightarrow> json \<Rightarrow> json audit" where
  "marking_text ps org v = (case v of
     JStr s \<Rightarrow> bind (marking_pseudonym ps org s) (\<lambda>t. Inr (JStr t)) | _ \<Rightarrow> Inr redacted_marking)"

definition marking_value :: "pseudonymizer \<Rightarrow> pystr option \<Rightarrow> json \<Rightarrow> json audit" where
  "marking_value ps org v = (case org of
     None \<Rightarrow> Inr redacted_marking
   | Some o' \<Rightarrow> (case v of
       JList xs \<Rightarrow> if 100 < length xs then Inl (SanitizationFailure ''marking array exceeds limit'')
         else bind (collect (marking_text ps o') xs) (\<lambda>ys. Inr (JList ys))
     | _ \<Rightarrow> marking_text ps o' v))"

definition too_deep :: "nat \<Rightarrow> 'a audit \<Rightarrow> 'a audit" where
  "too_deep depth r = (if 8 < depth then Inl (SanitizationFailure ''audit metadata depth exceeds limit'') else r)"

function sanitize :: "pseudonymizer \<Rightarrow> pystr option \<Rightarrow> nat \<Rightarrow> json \<Rightarrow> json audit" where
  "sanitize ps org depth JNull = too_deep depth (Inr JNull)"
| "sanitize ps org depth (JBool b) = too_deep depth (Inr (JBool b))"
| "sanitize ps org depth (JInt i) =
     too_deep depth (Inr (if safe_integer_max < \<bar>i\<bar> then JStr (show_int i) else JInt i))"
| "sanitize ps org depth (JFloat r) = too_deep depth
     (if not_finite r then Inl (SanitizationFailure ''NaN/Infinity are forbidden'') else Inr (JFloat r))"
| "sanitize ps org depth (JStr s) = too_deep depth
     (if 4096 < length s then Inl (SanitizationFailure ''audit metadata string exceeds limit'') else Inr (JStr s))"
| "sanitize ps org depth (JList xs) = too_deep depth
     (if 100 < length xs then Inl (SanitizationFailure ''audit metadata array exceeds limit'')
      else bind (collect (sanitize ps org (Suc depth)) xs) (\<lambda>ys. Inr (JList ys)))"
| "sanitize ps org depth (JObj kvs) = too_deep depth
     (if 100 < length kvs then Inl (SanitizationFailure ''audit metadata object exceeds key limit'')
      else bind (collect (\<lambda>p.
        if 128 < length (fst p) then Inl (SanitizationFailure ''audit metadata key exceeds limit'')
        else if secret_key (fst p) then Inr (fst p, JStr ''[REDACTED]'')
        else if marking_key (fst p) then bind (marking_value ps org (snd p)) (\<lambda>v. Inr (fst p, v))
        else bind (sanitize ps org (Suc depth) (snd p)) (\<lambda>v. Inr (fst p, v))) kvs) (\<lambda>ps. Inr (JObj ps)))"
  by pat_completeness auto
termination by (relation "measure (\<lambda>(_, _, _, v). size v)")
  (auto simp: size_member less_Suc_eq_le intro: size_list_estimation')

text \<open>\<open>sanitize(dict(value or {}))\<close> of a mapping is a mapping; its canonical bytes are bounded.\<close>

definition sanitize_metadata :: "pseudonymizer \<Rightarrow> pystr option \<Rightarrow> (pystr \<times> json) list \<Rightarrow> (pystr \<times> json) list audit" where
  "sanitize_metadata ps org kvs =
     bind (sanitize ps org 0 (JObj kvs)) (\<lambda>v. case v of
       JObj ps \<Rightarrow> bind (jcs_bytes v) (\<lambda>b.
         if 32 * 1024 < length b then Inl (SanitizationFailure ''audit metadata exceeds 32 KiB canonical limit'')
         else Inr ps)
     | _ \<Rightarrow> Inl (SanitizationFailure ''metadata must be an object''))"

section \<open>Identifiers, hashes and times\<close>

definition audit_id :: "nat \<Rightarrow> pystr option \<Rightarrow> pystr option audit" where
  "audit_id limit v = (case v of
     None \<Rightarrow> Inr None
   | Some s \<Rightarrow> if s = [] \<or> limit < length s \<or> list_ex (\<lambda>c. code c < 32) s
       then Inl (AuditFailure ''unsafe audit identifier'') else Inr (Some s))"

definition lower_text :: "pystr \<Rightarrow> pystr" where
  "lower_text s = map (\<lambda>c. if upper_char c \<or> (192 \<le> code c \<and> code c \<le> 222 \<and> code c \<noteq> 215)
     then char_of (code c + 32) else c) s"

definition safe_hash :: "pystr option \<Rightarrow> pystr option audit" where
  "safe_hash v = (case v of
     None \<Rightarrow> Inr None
   | Some s \<Rightarrow> if length s = 64 \<and> list_all hex_char (lower_text s) then Inr (Some (lower_text s))
       else Inl (AuditFailure ''expected lowercase sha256''))"

definition canonical_uuid :: "pystr \<Rightarrow> pystr audit" where
  "canonical_uuid s = (case uuid_text s of None \<Rightarrow> Inl BadUuid | Some u \<Rightarrow> Inr u)"

definition utc_time :: "py_datetime \<Rightarrow> int audit" where
  "utc_time t = (case t of Aware us \<Rightarrow> Inr us
     | Naive _ \<Rightarrow> Inl (AuditFailure ''audit timestamps must be timezone-aware''))"

text \<open>\<open>strftime("%Y-%m-%dT%H:%M:%S.%fZ")\<close> of a time in UTC, from the year 1000 on.\<close>

definition rfc3339 :: "int \<Rightarrow> pystr" where
  "rfc3339 us = take 26 (iso_utc us) @ ''Z''"

section \<open>Canonical text without floats\<close>

lemma utf16be_Cons [simp]: "utf16be [] = []" "utf16be (c # s) = CHR 0x00 # c # utf16be s"
  by (simp_all add: utf16be_def)

lemma utf16be_le: "utf16be a \<le> utf16be b \<longleftrightarrow> a \<le> b"
proof (induction a arbitrary: b)
  case (Cons c a)
  then show ?case by (cases b) auto
qed simp

lemma insort_same_order:
  "(\<And>x y. f x \<le> f y \<longleftrightarrow> g x \<le> g y) \<Longrightarrow> insort_key f x xs = insort_key g x xs"
  by (induction xs) auto

lemma sort_same_order:
  assumes "\<And>x y. f x \<le> f y \<longleftrightarrow> g x \<le> g y"
  shows "sort_key f xs = sort_key g xs"
  by (induction xs) (simp_all add: insort_same_order [OF assms])

lemma sort_utf16be: "sort_key (\<lambda>p. utf16be (fst p)) kvs = sort_key fst kvs"
  by (rule sort_same_order) (rule utf16be_le)

lemma collect_texts:
  assumes "collect f xs = Inr ts" and "\<And>x t. x \<in> set xs \<Longrightarrow> f x = Inr t \<Longrightarrow> t = g x"
  shows "ts = map g xs"
  using assms
proof (induction xs arbitrary: ts)
  case (Cons x xs)
  then obtain y ys where "f x = Inr y" "collect f xs = Inr ys" "ts = y # ys" by (auto simp: bind_Inr_iff)
  with Cons show ?case by auto
qed simp

lemma jcs_canonical: "float_free v \<Longrightarrow> jcs v = Inr t \<Longrightarrow> t = canonical_json v"
proof (induction v arbitrary: t rule: jcs.induct)
  case (6 xs)
  then show ?case by (auto simp: bind_Inr_iff dest!: collect_texts [where g = canonical_json])
next
  case (7 kvs)
  have "ts = map member (sort_key fst kvs)"
    if "collect (\<lambda>p. bind (jcs (snd p)) (\<lambda>t. Inr (quote (fst p) @ '':'' @ t))) (sort_key fst kvs) = Inr ts" for ts
    using that
  proof (rule collect_texts)
    fix p t
    assume "p \<in> set (sort_key fst kvs)" and *: "bind (jcs (snd p)) (\<lambda>t. Inr (quote (fst p) @ '':'' @ t)) = Inr t"
    then have p: "p \<in> set kvs" by simp
    obtain u where "jcs (snd p) = Inr u" "t = quote (fst p) @ '':'' @ u" using * by (auto simp: bind_Inr_iff)
    with p 7 show "t = member p" by (auto simp: member_def sort_utf16be)
  qed
  with 7 show ?case by (auto simp: bind_Inr_iff sort_utf16be canonical_object simp del: canonical_json.simps)
qed (auto split: if_splits)

text \<open>Values whose text exists: integers a double holds exactly, and finite floats.\<close>

fun jcs_fine :: "json \<Rightarrow> bool" where
  "jcs_fine (JInt i) \<longleftrightarrow> \<bar>i\<bar> \<le> safe_integer_max"
| "jcs_fine (JFloat r) \<longleftrightarrow> \<not> not_finite r"
| "jcs_fine (JList xs) \<longleftrightarrow> (\<forall>x\<in>set xs. jcs_fine x)"
| "jcs_fine (JObj kvs) \<longleftrightarrow> (\<forall>p\<in>set kvs. jcs_fine (snd p))"
| "jcs_fine _ \<longleftrightarrow> True"

lemma jcs_fine_ok: "jcs_fine v \<Longrightarrow> ok (jcs v)"
proof (induction v rule: jcs.induct)
  case (5 r)
  then show ?case by (simp add: jcs_float_def Let_def)
next
  case (6 xs)
  then have "ok (collect jcs xs)" by (simp add: ok_collect)
  then show ?case by (auto simp: ok_bind ok_iff)
next
  case (7 kvs)
  have entry: "ok (bind (jcs (snd p)) (\<lambda>t. Inr (quote (fst p) @ '':'' @ t)))" if "p \<in> set kvs" for p
  proof -
    from that 7 have "ok (jcs (snd p))" by simp
    then show ?thesis by (auto simp: ok_iff)
  qed
  have "ok (collect (\<lambda>p. bind (jcs (snd p)) (\<lambda>t. Inr (quote (fst p) @ '':'' @ t)))
      (sort_key (\<lambda>p. utf16be (fst p)) kvs))"
    unfolding ok_collect set_sort by (intro ballI entry)
  then show ?case by (auto simp: ok_bind ok_iff)
qed auto

section \<open>What the sanitiser lets through\<close>

definition marking_hidden :: "json \<Rightarrow> bool" where
  "marking_hidden v \<longleftrightarrow> (case v of JStr s \<Rightarrow> s = ''[REDACTED_MARKING]'' \<or> startswith s ''hmac-sha256:'' | _ \<Rightarrow> False)"

fun redacted :: "json \<Rightarrow> bool" where
  "redacted (JObj kvs) \<longleftrightarrow> (\<forall>p\<in>set kvs.
     if secret_key (fst p) then snd p = JStr ''[REDACTED]''
     else if marking_key (fst p) then marking_hidden (snd p) \<or> (\<exists>xs. snd p = JList xs \<and> list_all marking_hidden xs)
     else redacted (snd p))"
| "redacted (JList xs) \<longleftrightarrow> (\<forall>x\<in>set xs. redacted x)"
| "redacted _ \<longleftrightarrow> True"

lemma too_deep_Inr [simp]: "too_deep d r = Inr v \<longleftrightarrow> d \<le> 8 \<and> r = Inr v"
  by (auto simp: too_deep_def)

lemma marking_text_hidden: "marking_text ps org v = Inr w \<Longrightarrow> marking_hidden w \<and> jcs_fine w"
  by (auto simp: marking_text_def marking_pseudonym_def pseudonym_def marking_hidden_def redacted_marking_def
      startswith_def bind_Inr_iff split: json.splits option.splits)

lemma collect_members:
  assumes "collect f xs = Inr ys" and "\<And>x y. x \<in> set xs \<Longrightarrow> f x = Inr y \<Longrightarrow> P y"
  shows "\<forall>y\<in>set ys. P y"
  using assms
proof (induction xs arbitrary: ys)
  case (Cons x xs)
  then obtain z zs where "f x = Inr z" "collect f xs = Inr zs" "ys = z # zs" by (auto simp: bind_Inr_iff)
  with Cons show ?case by auto
qed simp

lemma marking_value_hidden:
  assumes "marking_value ps org v = Inr w"
  shows "(marking_hidden w \<or> (\<exists>xs. w = JList xs \<and> list_all marking_hidden xs)) \<and> jcs_fine w"
proof (cases org)
  case None
  with assms show ?thesis by (auto simp: marking_value_def redacted_marking_def marking_hidden_def)
next
  case (Some o')
  show ?thesis
  proof (cases "\<exists>xs. v = JList xs")
    case True
    with assms Some obtain xs ys where "collect (marking_text ps o') xs = Inr ys" "w = JList ys"
      by (auto simp: marking_value_def bind_Inr_iff split: if_splits)
    moreover from this(1) have "\<forall>y\<in>set ys. marking_hidden y \<and> jcs_fine y"
      by (rule collect_members) (rule marking_text_hidden)
    ultimately show ?thesis by (auto simp: list_all_iff)
  next
    case False
    with assms Some have "marking_text ps o' v = Inr w" by (auto simp: marking_value_def split: json.splits)
    then show ?thesis by (auto dest: marking_text_hidden)
  qed
qed

text \<open>One member of an object, and the two facts the sanitiser guarantees for every value.\<close>

definition presentable :: "json \<Rightarrow> bool" where
  "presentable v \<longleftrightarrow> redacted v \<and> jcs_fine v"

definition presentable_member :: "pystr \<times> json \<Rightarrow> bool" where
  "presentable_member p \<longleftrightarrow> jcs_fine (snd p)
     \<and> (if secret_key (fst p) then snd p = JStr ''[REDACTED]''
        else if marking_key (fst p) then marking_hidden (snd p) \<or> (\<exists>xs. snd p = JList xs \<and> list_all marking_hidden xs)
        else redacted (snd p))"

lemma presentable_obj: "presentable (JObj kvs) \<longleftrightarrow> (\<forall>p\<in>set kvs. presentable_member p)"
  by (auto simp: presentable_def presentable_member_def)

lemma sanitize_presentable: "sanitize ps org depth v = Inr w \<Longrightarrow> presentable w"
proof (induction ps org depth v arbitrary: w rule: sanitize.induct)
  case (6 ps org depth xs)
  then obtain ys where ys: "collect (sanitize ps org (Suc depth)) xs = Inr ys" "w = JList ys" and n: "length xs \<le> 100"
    by (auto simp: bind_Inr_iff split: if_splits)
  from ys(1) have "\<forall>y\<in>set ys. presentable y"
    by (rule collect_members) (rule "6.IH", use n in auto)
  with ys(2) show ?case by (auto simp: presentable_def)
next
  case (7 ps org depth kvs)
  let ?f = "\<lambda>p. if 128 < length (fst p) then Inl (SanitizationFailure ''audit metadata key exceeds limit'')
        else if secret_key (fst p) then Inr (fst p, JStr ''[REDACTED]'')
        else if marking_key (fst p) then bind (marking_value ps org (snd p)) (\<lambda>v. Inr (fst p, v))
        else bind (sanitize ps org (Suc depth) (snd p)) (\<lambda>v. Inr (fst p, v))"
  from 7 obtain qs where qs: "collect ?f kvs = Inr qs" "w = JObj qs" and n: "length kvs \<le> 100"
    by (auto simp: bind_Inr_iff split: if_splits)
  from qs(1) have "\<forall>q\<in>set qs. presentable_member q"
  proof (rule collect_members)
    fix p q
    assume p: "p \<in> set kvs" and q: "?f p = Inr q"
    have "presentable (snd q)" "fst q = fst p" if "\<not> secret_key (fst p)" "\<not> marking_key (fst p)"
      using that q 7(1) [OF _ p] n by (auto simp: bind_Inr_iff split: if_splits)
    then show "presentable_member q"
      using q by (cases "secret_key (fst p)"; cases "marking_key (fst p)")
        (auto simp: presentable_member_def presentable_def bind_Inr_iff split: if_splits dest: marking_value_hidden)
  qed
  with qs(2) show ?case by (simp add: presentable_obj)
qed (auto simp: presentable_def split: if_splits)

end
