(* ===== verification/WebAuditChain.thy ===== *)
theory WebAuditChain
  imports WebAuditValues "HOL-Library.AList"
begin

text \<open>
  \<open>AuditService\<close> of \<open>wbcz_web/services/audit_history.py\<close> over the tables of
  \<open>wbcz_web/models/audit_history.py\<close>: one hash chain of events per organisation and one for the system,
  checkpoints over it, the append operation and the verification of a chain. Identifiers drawn with
  \<open>uuid4\<close> are arguments, the clock is read once per call, and a chain head is locked, so operations
  follow each other. A row is what the table stores; the columns that the hash covers are one record.
\<close>

section \<open>Tables\<close>

definition audit_format_version :: pystr where "audit_format_version = ''SELLARI_AUDIT_V1''"

definition checkpoint_format_version :: pystr where "checkpoint_format_version = ''SELLARI_AUDIT_CHECKPOINT_V1''"

definition zero_hash :: pystr where "zero_hash = replicate 64 (CHR ''0'')"

record audit_tenant =
  tn_org :: "pystr option"
  tn_participant :: "pystr option"

record trace_context =
  tr_request :: "pystr option"
  tr_correlation :: "pystr option"
  tr_causation :: "pystr option"
  tr_operation :: "pystr option"
  tr_job :: "pystr option"
  tr_key :: "pystr option"

record event_columns =
  ec_tenant :: audit_tenant
  ec_kind :: pystr
  ec_user :: "nat option"
  ec_member :: "pystr option"
  ec_role :: "pystr option"
  ec_permissions :: "pystr list option"
  ec_subject_type :: pystr
  ec_subject :: pystr
  ec_second_type :: "pystr option"
  ec_second :: "pystr option"
  ec_outcome :: pystr
  ec_decision :: pystr
  ec_trace :: trace_context
  ec_metadata :: "(pystr \<times> json) list"
  ec_evidence :: "pystr list"
  ec_before :: "pystr option"
  ec_after :: "pystr option"

record sealed_row =
  ae_id :: pystr
  ae_chain :: pystr
  ae_sequence :: int
  ae_category :: pystr
  ae_type :: pystr
  ae_action :: pystr
  ae_columns :: event_columns
  ae_previous :: pystr
  ae_hash :: pystr
  ae_format :: pystr
  ae_time :: int

record chain_head =
  ch_id :: pystr
  ch_org :: "pystr option"
  ch_sequence :: int
  ch_hash :: pystr
  ch_format :: pystr

record checkpoint_row =
  cp_id :: pystr
  cp_chain :: pystr
  cp_through :: int
  cp_head_hash :: pystr
  cp_previous :: pystr
  cp_hash :: pystr
  cp_format :: pystr
  cp_created :: int

record audit_db =
  ad_web :: web_db
  ad_heads :: "chain_head list"
  ad_events :: "sealed_row list"
  ad_checkpoints :: "checkpoint_row list"

type_synonym 'a audit_op = "(audit_db, audit_error, 'a) op"

definition audit_asks :: "(audit_db \<Rightarrow> 'a) \<Rightarrow> 'a audit_op" where
  [op_defs]: "audit_asks f d = (Inr (f d), d)"

definition audit_modify :: "(audit_db \<Rightarrow> audit_db) \<Rightarrow> unit audit_op" where
  [op_defs]: "audit_modify f d = (Inr (), f d)"

section \<open>Payloads\<close>

definition str_array :: "pystr list \<Rightarrow> json" where
  "str_array xs = JList (map JStr xs)"

definition semantic_payload :: "registered_event \<Rightarrow> event_columns \<Rightarrow> (pystr \<times> json) list" where
  "semantic_payload e c =
     [(''audit_format_version'', JStr audit_format_version),
      (''category'', JStr (audit_category_value (re_category e))),
      (''event_type'', JStr (re_type e)),
      (''action'', JStr (re_action e)),
      (''outcome'', JStr (ec_outcome c)),
      (''authorization_decision'', JStr (ec_decision c)),
      (''tenant'', JObj [(''organisation_id'', opt_str (tn_org (ec_tenant c))),
         (''participant_id'', opt_str (tn_participant (ec_tenant c)))]),
      (''actor'', JObj [(''kind'', JStr (ec_kind c)),
         (''user_id'', opt_str (map_option show_nat (ec_user c))),
         (''membership_id'', opt_str (ec_member c)), (''role'', opt_str (ec_role c)),
         (''permissions'', case ec_permissions c of None \<Rightarrow> JNull | Some ps \<Rightarrow> str_array ps)]),
      (''subject'', JObj [(''type'', JStr (ec_subject_type c)), (''id'', JStr (ec_subject c))]),
      (''secondary_subject'', JObj [(''type'', opt_str (ec_second_type c)), (''id'', opt_str (ec_second c))]),
      (''trace'', JObj [(''request_id'', opt_str (tr_request (ec_trace c))),
         (''correlation_id'', opt_str (tr_correlation (ec_trace c))),
         (''causation_id'', opt_str (tr_causation (ec_trace c))),
         (''operation_id'', opt_str (tr_operation (ec_trace c))),
         (''agent_job_id'', opt_str (tr_job (ec_trace c))),
         (''event_key'', opt_str (tr_key (ec_trace c)))]),
      (''before_sha256'', opt_str (ec_before c)),
      (''after_sha256'', opt_str (ec_after c)),
      (''evidence_hashes'', str_array (ec_evidence c)),
      (''metadata'', JObj (ec_metadata c))]"

definition canonical_payload :: "(pystr \<times> json) list \<Rightarrow> pystr \<Rightarrow> int \<Rightarrow> pystr \<Rightarrow> int \<Rightarrow> pystr \<Rightarrow> json audit" where
  "canonical_payload sem chain n i occurred previous =
     bind (canonical_uuid chain) (\<lambda>c. bind (canonical_uuid i) (\<lambda>e. Inr (JObj (
       [(''audit_format_version'', get_key ''audit_format_version'' sem),
        (''chain_id'', JStr c), (''sequence'', JStr (show_int n)), (''event_id'', JStr e),
        (''occurred_at'', JStr (rfc3339 occurred))]
       @ map (\<lambda>k. (k, get_key k sem))
           [''category'', ''event_type'', ''action'', ''outcome'', ''authorization_decision'', ''tenant'', ''actor'',
            ''subject'', ''secondary_subject'', ''trace'', ''before_sha256'', ''after_sha256'',
            ''evidence_hashes'', ''metadata'']
       @ [(''previous_event_hash'', JStr previous)]))))"

definition row_semantic :: "sealed_row \<Rightarrow> (pystr \<times> json) list audit" where
  "row_semantic r = (case audit_registry (ae_type r) of
     None \<Rightarrow> Inl (IntegrityFailure ''unknown event registry code'')
   | Some e \<Rightarrow> Inr (semantic_payload e (ae_columns r)))"

definition row_payload :: "sealed_row \<Rightarrow> json audit" where
  "row_payload r = bind (row_semantic r) (\<lambda>s.
     canonical_payload s (ae_chain r) (ae_sequence r) (ae_id r) (ae_time r) (ae_previous r))"

definition checkpoint_payload :: "pystr \<Rightarrow> pystr \<Rightarrow> int \<Rightarrow> pystr \<Rightarrow> pystr \<Rightarrow> int \<Rightarrow> json audit" where
  "checkpoint_payload i chain n head_hash previous created =
     bind (canonical_uuid i) (\<lambda>k. bind (canonical_uuid chain) (\<lambda>c. Inr (JObj
       [(''checkpoint_format_version'', JStr checkpoint_format_version), (''checkpoint_id'', JStr k),
        (''chain_id'', JStr c), (''through_sequence'', JStr (show_int n)), (''head_event_hash'', JStr head_hash),
        (''previous_checkpoint_hash'', JStr previous), (''created_at'', JStr (rfc3339 created))])))"

section \<open>Checks on an event\<close>

record actor_context =
  ac_kind :: actor_kind
  ac_user :: "nat option"
  ac_machine :: "pystr option"

record subject_ref =
  sj_type :: subject_type
  sj_id :: pystr
  sj_plain :: bool

record actor_snap =
  as_member :: "pystr option"
  as_role :: "pystr option"
  as_permissions :: "pystr list option"

definition audit_check :: "bool \<Rightarrow> pystr \<Rightarrow> unit audit" where
  "audit_check b message = (if b then Inr () else Inl (AuditFailure message))"

definition validate_tenant :: "web_db \<Rightarrow> registered_event \<Rightarrow> audit_tenant \<Rightarrow> unit audit" where
  "validate_tenant w e tn =
     (let org = tn_org tn; part = tn_participant tn; need = re_tenant e in
      if need = TR_SYSTEM then
        audit_check (org = None \<and> part = None) ''system audit event cannot have tenant scope''
      else
        bind (audit_check (need = TR_ORGANISATION \<longrightarrow> truthy org) ''organisation audit scope required'') (\<lambda>_.
        bind (audit_check (need = TR_PARTICIPANT \<longrightarrow> truthy org \<and> truthy part) ''participant audit scope required'') (\<lambda>_.
        bind (audit_check (\<not> (need = TR_SYSTEM_OR_ORGANISATION \<and> truthy part \<and> \<not> truthy org))
                ''participant sub-scope requires organisation'') (\<lambda>_.
        bind (audit_check (truthy org \<longrightarrow> find_org w (or_else org []) \<noteq> None) ''audit organisation does not exist'') (\<lambda>_.
          audit_check (truthy part \<longrightarrow> list_ex (\<lambda>p. Some (pa_id p) = part \<and> Some (pa_org p) = org) (participants w))
            ''audit participant is outside organisation'')))))"

definition actor_snapshot ::
  "pseudonymizer \<Rightarrow> web_db \<Rightarrow> registered_event \<Rightarrow> actor_context \<Rightarrow> audit_tenant \<Rightarrow> (pystr \<times> json) list
     \<Rightarrow> (actor_snap \<times> (pystr \<times> json) list) audit" where
  "actor_snapshot ps w e actor tn metadata =
     bind (audit_check (ac_kind actor \<in> set (re_actors e)) ''actor kind not allowed for registered audit event'') (\<lambda>_.
     bind (if ac_kind actor = AK_USER then (case ac_user actor of
             None \<Rightarrow> Inl (AuditFailure ''USER actor requires stable user_id'')
           | Some u \<Rightarrow>
               if truthy (tn_org tn) then (case active_membership w u (or_else (tn_org tn) []) of
                   None \<Rightarrow> Inl (AuditFailure ''USER actor lacks active organisation membership'')
                 | Some m \<Rightarrow> Inr \<lparr>as_member = Some (me_id m), as_role = Some (role_value (me_role m)),
                     as_permissions = (if re_snapshot e then Some (role_snapshot (me_role m)) else None)\<rparr>)
               else Inr \<lparr>as_member = None, as_role = None, as_permissions = (if re_snapshot e then Some [] else None)\<rparr>)
           else bind (audit_check (ac_user actor = None \<or> ac_kind actor \<in> {AK_CLI_ADMIN, AK_BOOTSTRAP})
                  ''machine/system actor cannot claim user identity'') (\<lambda>_.
             Inr \<lparr>as_member = None, as_role = None, as_permissions = None\<rparr>)) (\<lambda>snap.
     bind (if truthy (ac_machine actor)
           then bind (machine_pseudonym ps (or_else (ac_machine actor) [])) (\<lambda>h.
             Inr (AList.update ''machine_principal_hmac'' (JStr h) metadata))
           else Inr metadata) (\<lambda>m. Inr (snap, m))))"

definition subject_id :: "pseudonymizer \<Rightarrow> audit_tenant \<Rightarrow> subject_ref \<Rightarrow> pystr audit" where
  "subject_id ps tn s =
     bind (audit_id 256 (Some (sj_id s))) (\<lambda>_.
       if sj_type s \<noteq> ST_MARKING_IDENTIFIER then Inr (sj_id s)
       else bind (audit_check (truthy (tn_org tn)) ''marking subject requires organisation scope'') (\<lambda>_.
         if sj_plain s then marking_pseudonym ps (or_else (tn_org tn) []) (sj_id s)
         else bind (audit_check (startswith (sj_id s) ''hmac-sha256:'') ''marking subject must be pseudonymized'') (\<lambda>_.
           Inr (sj_id s))))"

definition metadata_schema :: "registered_event \<Rightarrow> (pystr \<times> json) list \<Rightarrow> unit audit" where
  "metadata_schema e m =
     (if \<not> set (map fst m) \<subseteq> set (re_keys e)
      then Inl (RegistryFailure ''metadata key not registered for event type'')
      else if \<not> set (re_required e) \<subseteq> set (map fst m)
      then Inl (RegistryFailure ''required audit metadata is missing'') else Inr ())"

definition safe_trace :: "trace_context \<Rightarrow> trace_context audit" where
  "safe_trace t =
     bind (audit_id 128 (tr_request t)) (\<lambda>a. bind (audit_id 128 (tr_correlation t)) (\<lambda>b.
     bind (audit_id 128 (tr_causation t)) (\<lambda>c. bind (audit_id 128 (tr_operation t)) (\<lambda>o'.
     bind (audit_id 128 (tr_job t)) (\<lambda>j. bind (audit_id 256 (tr_key t)) (\<lambda>k.
       Inr \<lparr>tr_request = a, tr_correlation = b, tr_causation = c, tr_operation = o', tr_job = j, tr_key = k\<rparr>))))))"

definition safe_evidence :: "pystr option list \<Rightarrow> pystr list audit" where
  "safe_evidence xs = bind (collect safe_hash xs) (\<lambda>ys. Inr (List.map_filter id ys))"

section \<open>Appending\<close>

text \<open>What \<open>_insert_locked\<close> is supplied; its snapshot of the actor is taken there when the caller took none.\<close>

record event_draft =
  dr_event :: registered_event
  dr_actor :: actor_context
  dr_snapshot :: "actor_snap option"
  dr_tenant :: audit_tenant
  dr_subject :: subject_ref
  dr_second :: "subject_ref option"
  dr_outcome :: audit_outcome
  dr_decision :: authz_decision
  dr_trace :: trace_context
  dr_metadata :: "(pystr \<times> json) list"
  dr_evidence :: "pystr list"
  dr_before :: "pystr option"
  dr_after :: "pystr option"

record audit_receipt =
  rt_event :: pystr
  rt_chain :: pystr
  rt_sequence :: int
  rt_hash :: pystr
  rt_previous :: pystr
  rt_converged :: bool

definition receipt_of :: "sealed_row \<Rightarrow> bool \<Rightarrow> audit_receipt" where
  "receipt_of r again = \<lparr>rt_event = ae_id r, rt_chain = ae_chain r, rt_sequence = ae_sequence r,
     rt_hash = ae_hash r, rt_previous = ae_previous r, rt_converged = again\<rparr>"

definition draft_columns :: "pseudonymizer \<Rightarrow> web_db \<Rightarrow> event_draft \<Rightarrow> event_columns audit" where
  "draft_columns ps w dr =
     bind (case dr_snapshot dr of Some s \<Rightarrow> Inr s
           | None \<Rightarrow> bind (actor_snapshot ps w (dr_event dr) (dr_actor dr) (dr_tenant dr) (dr_metadata dr))
               (\<lambda>p. Inr (fst p))) (\<lambda>snap.
     bind (subject_id ps (dr_tenant dr) (dr_subject dr)) (\<lambda>sid.
     bind (case dr_second dr of None \<Rightarrow> Inr None
           | Some s \<Rightarrow> bind (subject_id ps (dr_tenant dr) s) (\<lambda>x. Inr (Some x))) (\<lambda>second.
       Inr \<lparr>ec_tenant = dr_tenant dr, ec_kind = actor_kind_value (ac_kind (dr_actor dr)),
         ec_user = ac_user (dr_actor dr), ec_member = as_member snap, ec_role = as_role snap,
         ec_permissions = as_permissions snap, ec_subject_type = subject_type_value (sj_type (dr_subject dr)),
         ec_subject = sid, ec_second_type = map_option (\<lambda>s. subject_type_value (sj_type s)) (dr_second dr),
         ec_second = second, ec_outcome = audit_outcome_value (dr_outcome dr),
         ec_decision = authz_decision_value (dr_decision dr), ec_trace = dr_trace dr,
         ec_metadata = dr_metadata dr, ec_evidence = dr_evidence dr, ec_before = dr_before dr,
         ec_after = dr_after dr\<rparr>)))"

definition keyed_row :: "pystr \<Rightarrow> pystr option \<Rightarrow> audit_db \<Rightarrow> sealed_row option" where
  "keyed_row c k d = (if truthy k then find (\<lambda>r. ae_chain r = c \<and> tr_key (ec_trace (ae_columns r)) = k) (ad_events d)
     else None)"

text \<open>The unique constraints and foreign keys of \<open>audit_events\<close>.\<close>

definition row_refused :: "audit_db \<Rightarrow> sealed_row \<Rightarrow> bool" where
  "row_refused d r =
     (let c = ae_columns r; k = tr_key (ec_trace c); tn = ec_tenant c; w = ad_web d in
      list_ex (\<lambda>q. ae_id q = ae_id r \<or> (ae_chain q = ae_chain r \<and> (ae_sequence q = ae_sequence r
        \<or> (k \<noteq> None \<and> tr_key (ec_trace (ae_columns q)) = k)))) (ad_events d)
      \<or> \<not> (case tn_org tn of None \<Rightarrow> True | Some o' \<Rightarrow> find_org w o' \<noteq> None)
      \<or> \<not> (case tn_participant tn of None \<Rightarrow> True | Some p \<Rightarrow> tn_org tn \<noteq> None
            \<and> list_ex (\<lambda>q. pa_id q = p \<and> Some (pa_org q) = tn_org tn) (participants w))
      \<or> \<not> (case ec_user c of None \<Rightarrow> True | Some u \<Rightarrow> find_user w u \<noteq> None)
      \<or> \<not> (case ec_member c of None \<Rightarrow> True | Some m \<Rightarrow> list_ex (\<lambda>q. me_id q = m) (memberships w)))"

definition fresh_row :: "pystr \<Rightarrow> chain_head \<Rightarrow> int \<Rightarrow> registered_event \<Rightarrow> event_columns \<Rightarrow> pystr \<Rightarrow> sealed_row" where
  "fresh_row i h occurred e cols hash =
     \<lparr>ae_id = i, ae_chain = ch_id h, ae_sequence = ch_sequence h + 1,
      ae_category = audit_category_value (re_category e), ae_type = re_type e, ae_action = re_action e,
      ae_columns = cols, ae_previous = ch_hash h, ae_hash = hash, ae_format = audit_format_version,
      ae_time = occurred\<rparr>"

definition store_row :: "sealed_row \<Rightarrow> audit_db \<Rightarrow> audit_db" where
  "store_row r d =
     d\<lparr>ad_events := ad_events d @ [r],
       ad_heads := update_rows ch_id (ae_chain r) (\<lambda>h. h\<lparr>ch_sequence := ae_sequence r, ch_hash := ae_hash r\<rparr>) (ad_heads d)\<rparr>"

definition add_event :: "pystr \<Rightarrow> chain_head \<Rightarrow> int \<Rightarrow> registered_event \<Rightarrow> event_columns \<Rightarrow> sealed_row audit_op" where
  "add_event i h occurred e cols =
     seq (demand (\<not> (ch_sequence h + 1 = 1 \<and> ch_hash h \<noteq> zero_hash)) (IntegrityFailure ''audit genesis head is inconsistent'')) (\<lambda>_.
     seq (lift (canonical_payload (semantic_payload e cols) (ch_id h) (ch_sequence h + 1) i occurred (ch_hash h))) (\<lambda>payload.
     seq (lift (jcs_hash payload)) (\<lambda>hash.
     seq (audit_asks (\<lambda>d. row_refused d (fresh_row i h occurred e cols hash))) (\<lambda>refused.
     seq (demand (\<not> refused) (RowConstraint ''audit_events'')) (\<lambda>_.
     seq (audit_modify (store_row (fresh_row i h occurred e cols hash))) (\<lambda>_.
       ret (fresh_row i h occurred e cols hash)))))))"

text \<open>\<open>_insert_locked\<close> up to the checkpoint: the row that carries the event, and whether it was there already.\<close>

definition insert_audit :: "pseudonymizer \<Rightarrow> pystr \<Rightarrow> pystr \<Rightarrow> int \<Rightarrow> event_draft \<Rightarrow> (sealed_row \<times> bool) audit_op" where
  "insert_audit ps i c occurred dr =
     seq (audit_asks (\<lambda>d. draft_columns ps (ad_web d) dr)) (\<lambda>resolved.
     seq (lift resolved) (\<lambda>cols.
     seq (audit_asks (keyed_row c (tr_key (dr_trace dr)))) (\<lambda>existing. case existing of
       Some r \<Rightarrow>
         seq (lift (bind (row_semantic r) (\<lambda>s. jcs_bytes (JObj s)))) (\<lambda>stored.
         seq (lift (jcs_bytes (JObj (semantic_payload (dr_event dr) cols)))) (\<lambda>supplied.
         seq (demand (stored = supplied) EventKeyConflict) (\<lambda>_. ret (r, True))))
     | None \<Rightarrow>
         seq (audit_asks (\<lambda>d. lookup_row ch_id c (ad_heads d))) (\<lambda>head. case head of
           None \<Rightarrow> raise (AuditFailure ''could not resolve audit chain'')
         | Some h \<Rightarrow> seq (add_event i h occurred (dr_event dr) cols) (\<lambda>r. ret (r, False))))))"

text \<open>The identifiers one call may draw.\<close>

record fresh_ids =
  fr_chain :: pystr
  fr_genesis :: pystr
  fr_event :: pystr
  fr_checkpoint :: pystr
  fr_checkpoint_event :: pystr

definition no_trace :: trace_context where
  "no_trace = \<lparr>tr_request = None, tr_correlation = None, tr_causation = None, tr_operation = None, tr_job = None,
     tr_key = None\<rparr>"

definition system_draft :: "registered_event \<Rightarrow> audit_tenant \<Rightarrow> subject_ref \<Rightarrow> subject_ref option \<Rightarrow> pystr \<Rightarrow>
    (pystr \<times> json) list \<Rightarrow> pystr list \<Rightarrow> event_draft" where
  "system_draft e tn subject second key metadata evidence =
     \<lparr>dr_event = e, dr_actor = \<lparr>ac_kind = AK_SYSTEM, ac_user = None, ac_machine = None\<rparr>, dr_snapshot = None,
      dr_tenant = tn, dr_subject = subject, dr_second = second, dr_outcome = AO_SUCCESS,
      dr_decision = AZ_NOT_APPLICABLE, dr_trace = no_trace\<lparr>tr_key := Some key\<rparr>, dr_metadata = metadata,
      dr_evidence = evidence, dr_before = None, dr_after = None\<rparr>"

definition registered_named :: "pystr \<Rightarrow> registered_event" where
  "registered_named t = the (audit_registry t)"

definition append_genesis :: "pseudonymizer \<Rightarrow> fresh_ids \<Rightarrow> int \<Rightarrow> pystr \<Rightarrow> audit_tenant \<Rightarrow> unit audit_op" where
  "append_genesis ps fr now c tn =
     seq (insert_audit ps (fr_genesis fr) c now (system_draft (registered_named ''AUDIT_CHAIN_GENESIS'') tn
       \<lparr>sj_type = ST_AUDIT_CHAIN, sj_id = c, sj_plain = False\<rparr> None ''genesis:v1'' [] [])) (\<lambda>_. ret ())"

definition find_head :: "pystr option \<Rightarrow> audit_db \<Rightarrow> chain_head option" where
  "find_head org d = lookup_row ch_org org (ad_heads d)"

text \<open>\<open>ON CONFLICT DO NOTHING\<close> leaves out a head whose identifier is taken; an unknown organisation is refused.\<close>

definition create_head :: "fresh_ids \<Rightarrow> pystr option \<Rightarrow> unit audit_op" where
  "create_head fr org =
     seq (audit_asks (\<lambda>d. case org of None \<Rightarrow> True | Some o' \<Rightarrow> find_org (ad_web d) o' \<noteq> None)) (\<lambda>known.
     seq (demand known (RowConstraint ''audit_chain_heads'')) (\<lambda>_.
       audit_modify (\<lambda>d. if fr_chain fr \<in> ch_id ` set (ad_heads d) then d
         else d\<lparr>ad_heads := ad_heads d @ [\<lparr>ch_id = fr_chain fr, ch_org = org, ch_sequence = 0, ch_hash = zero_hash,
           ch_format = audit_format_version\<rparr>]\<rparr>)))"

definition settle_head :: "pseudonymizer \<Rightarrow> fresh_ids \<Rightarrow> int \<Rightarrow> audit_tenant \<Rightarrow> pystr audit_op" where
  "settle_head ps fr now tn =
     seq (audit_asks (find_head (tn_org tn))) (\<lambda>row. case row of
       None \<Rightarrow> raise (AuditFailure ''could not resolve audit chain'')
     | Some h \<Rightarrow>
         seq (demand (ch_format h = audit_format_version) (IntegrityFailure ''unsupported audit chain format'')) (\<lambda>_.
         seq (if ch_sequence h = 0 then append_genesis ps fr now (ch_id h) tn else ret ()) (\<lambda>_.
           ret (ch_id h))))"

definition audit_chain :: "pseudonymizer \<Rightarrow> fresh_ids \<Rightarrow> int \<Rightarrow> audit_tenant \<Rightarrow> pystr audit_op" where
  "audit_chain ps fr now tn =
     seq (audit_asks (find_head (tn_org tn))) (\<lambda>present.
     seq (if present = None then create_head fr (tn_org tn) else ret ()) (\<lambda>_. settle_head ps fr now tn))"

section \<open>Checkpoints\<close>

definition chain_checkpoints :: "audit_db \<Rightarrow> pystr \<Rightarrow> checkpoint_row list" where
  "chain_checkpoints d c = sort_key cp_through (filter (\<lambda>p. cp_chain p = c) (ad_checkpoints d))"

definition utc_day :: "int \<Rightarrow> int" where
  "utc_day us = us div 86400000000"

definition checkpoint_due :: "checkpoint_row list \<Rightarrow> sealed_row \<Rightarrow> bool" where
  "checkpoint_due points r \<longleftrightarrow>
     ae_sequence r mod 10000 = 0 \<or> points = [] \<or> utc_day (cp_created (last points)) < utc_day (ae_time r)"

definition checkpoint_refused :: "audit_db \<Rightarrow> checkpoint_row \<Rightarrow> bool" where
  "checkpoint_refused d p = list_ex (\<lambda>q. cp_id q = cp_id p \<or> (cp_chain q = cp_chain p \<and> cp_through q = cp_through p))
     (ad_checkpoints d)"

definition last_point_hash :: "checkpoint_row list \<Rightarrow> pystr" where
  "last_point_hash points = (if points = [] then zero_hash else cp_hash (last points))"

definition new_point :: "pystr \<Rightarrow> sealed_row \<Rightarrow> pystr \<Rightarrow> pystr \<Rightarrow> int \<Rightarrow> checkpoint_row" where
  "new_point i r previous hash now =
     \<lparr>cp_id = i, cp_chain = ae_chain r, cp_through = ae_sequence r, cp_head_hash = ae_hash r, cp_previous = previous,
      cp_hash = hash, cp_format = checkpoint_format_version, cp_created = now\<rparr>"

definition add_point :: "checkpoint_row \<Rightarrow> audit_db \<Rightarrow> audit_db" where
  "add_point p d = d\<lparr>ad_checkpoints := ad_checkpoints d @ [p]\<rparr>"

definition checkpoint_draft :: "audit_tenant \<Rightarrow> checkpoint_row \<Rightarrow> event_draft" where
  "checkpoint_draft tn p = system_draft (registered_named ''CHECKPOINT_CREATED'') tn
     \<lparr>sj_type = ST_AUDIT_CHECKPOINT, sj_id = cp_id p, sj_plain = False\<rparr>
     (Some \<lparr>sj_type = ST_AUDIT_CHAIN, sj_id = cp_chain p, sj_plain = False\<rparr>) (''checkpoint:'' @ cp_id p)
     [(''checkpoint_id'', JStr (cp_id p)), (''checkpoint_hash'', JStr (cp_hash p)),
      (''through_sequence'', JInt (cp_through p))] [cp_head_hash p]"

definition maybe_checkpoint :: "pseudonymizer \<Rightarrow> fresh_ids \<Rightarrow> int \<Rightarrow> sealed_row \<Rightarrow> audit_tenant \<Rightarrow> unit audit_op" where
  "maybe_checkpoint ps fr now r tn =
     seq (audit_asks (\<lambda>d. chain_checkpoints d (ae_chain r))) (\<lambda>points.
     if \<not> checkpoint_due points r then ret ()
     else
       seq (lift (checkpoint_payload (fr_checkpoint fr) (ae_chain r) (ae_sequence r) (ae_hash r)
                    (last_point_hash points) now)) (\<lambda>payload.
       seq (lift (jcs_hash payload)) (\<lambda>hash.
       seq (audit_asks (\<lambda>d. checkpoint_refused d (new_point (fr_checkpoint fr) r (last_point_hash points) hash now))) (\<lambda>refused.
       seq (demand (\<not> refused) (RowConstraint ''audit_checkpoints'')) (\<lambda>_.
       seq (audit_modify (add_point (new_point (fr_checkpoint fr) r (last_point_hash points) hash now))) (\<lambda>_.
       seq (insert_audit ps (fr_checkpoint_event fr) (ae_chain r) now
         (checkpoint_draft tn (new_point (fr_checkpoint fr) r (last_point_hash points) hash now))) (\<lambda>_. ret ())))))))"

section \<open>The append operation\<close>

definition insert_locked :: "pseudonymizer \<Rightarrow> fresh_ids \<Rightarrow> int \<Rightarrow> bool \<Rightarrow> pystr \<Rightarrow> int \<Rightarrow> event_draft \<Rightarrow> audit_receipt audit_op" where
  "insert_locked ps fr now checkpoints c occurred dr =
     seq (insert_audit ps (fr_event fr) c occurred dr) (\<lambda>(r, again).
     seq (if checkpoints \<and> \<not> again
            \<and> re_type (dr_event dr) \<notin> {''AUDIT_CHAIN_GENESIS'', ''LEGACY_HISTORY_IMPORTED'', ''CHECKPOINT_CREATED''}
          then maybe_checkpoint ps fr now r (dr_tenant dr) else ret ()) (\<lambda>_.
       ret (receipt_of r again)))"

record event_request =
  rq_type :: pystr
  rq_actor :: actor_context
  rq_tenant :: audit_tenant
  rq_subject :: subject_ref
  rq_outcome :: audit_outcome
  rq_decision :: authz_decision
  rq_second :: "subject_ref option"
  rq_trace :: trace_context
  rq_metadata :: "(pystr \<times> json) list"
  rq_evidence :: "pystr option list"
  rq_before :: "pystr option"
  rq_after :: "pystr option"
  rq_time :: "py_datetime option"
  rq_checkpoint :: bool

text \<open>The checks of \<open>append\<close> before it resolves the chain; the subjects it hands on are resolved.\<close>

definition resolved_subject :: "pseudonymizer \<Rightarrow> audit_tenant \<Rightarrow> subject_ref \<Rightarrow> subject_ref audit" where
  "resolved_subject ps tn s = bind (subject_id ps tn s) (\<lambda>i. Inr \<lparr>sj_type = sj_type s, sj_id = i, sj_plain = False\<rparr>)"

definition audit_draft :: "pseudonymizer \<Rightarrow> web_db \<Rightarrow> event_request \<Rightarrow> event_draft audit" where
  "audit_draft ps w q = (case audit_registry (rq_type q) of
     None \<Rightarrow> Inl (RegistryFailure ''unregistered audit event type'')
   | Some e \<Rightarrow>
       bind (validate_tenant w e (rq_tenant q)) (\<lambda>_.
       bind (if sj_type (rq_subject q) \<in> set (re_subjects e) then Inr ()
             else Inl (RegistryFailure ''subject type not allowed for event'')) (\<lambda>_.
       bind (metadata_schema e (rq_metadata q)) (\<lambda>_.
       bind (actor_snapshot ps w e (rq_actor q) (rq_tenant q) (rq_metadata q)) (\<lambda>(snap, raw).
       bind (sanitize_metadata ps (tn_org (rq_tenant q)) raw) (\<lambda>m.
       bind (resolved_subject ps (rq_tenant q) (rq_subject q)) (\<lambda>s.
       bind (case rq_second q of None \<Rightarrow> Inr None
             | Some x \<Rightarrow> bind (resolved_subject ps (rq_tenant q) x) (\<lambda>y. Inr (Some y))) (\<lambda>second.
       bind (safe_evidence (rq_evidence q)) (\<lambda>evidence.
       bind (safe_trace (rq_trace q)) (\<lambda>t.
         Inr \<lparr>dr_event = e, dr_actor = rq_actor q, dr_snapshot = Some snap, dr_tenant = rq_tenant q, dr_subject = s,
           dr_second = second, dr_outcome = rq_outcome q, dr_decision = rq_decision q, dr_trace = t, dr_metadata = m,
           dr_evidence = evidence, dr_before = None, dr_after = None\<rparr>))))))))))"

text \<open>The hashes of the states before and after are read last, when the chain exists.\<close>

definition append_event :: "pseudonymizer \<Rightarrow> fresh_ids \<Rightarrow> int \<Rightarrow> event_request \<Rightarrow> audit_receipt audit_op" where
  "append_event ps fr now q =
     seq (audit_asks (\<lambda>d. audit_draft ps (ad_web d) q)) (\<lambda>r.
     seq (lift r) (\<lambda>dr.
     seq (audit_chain ps fr now (rq_tenant q)) (\<lambda>c.
     seq (lift (safe_hash (rq_before q))) (\<lambda>before.
     seq (lift (safe_hash (rq_after q))) (\<lambda>after.
     seq (lift (case rq_time q of None \<Rightarrow> Inr now | Some t \<Rightarrow> utc_time t)) (\<lambda>occurred.
       insert_locked ps fr now (rq_checkpoint q) c occurred (dr\<lparr>dr_before := before, dr_after := after\<rparr>)))))))"

section \<open>Verification\<close>

record verification_result =
  vr_status :: pystr
  vr_chain :: pystr
  vr_from :: int
  vr_to :: int
  vr_count :: int
  vr_head_sequence :: int
  vr_head_hash :: pystr
  vr_first_invalid :: "int option"
  vr_reason :: "pystr option"
  vr_checkpoints :: pystr

definition chain_rows :: "audit_db \<Rightarrow> pystr \<Rightarrow> int \<Rightarrow> sealed_row list" where
  "chain_rows d c start = sort_key ae_sequence (filter (\<lambda>r. ae_chain r = c \<and> start \<le> ae_sequence r) (ad_events d))"

definition row_at :: "audit_db \<Rightarrow> pystr \<Rightarrow> int \<Rightarrow> sealed_row option" where
  "row_at d c n = find (\<lambda>r. ae_chain r = c \<and> ae_sequence r = n) (ad_events d)"

text \<open>What is wrong with one row, supplied the hash and the number that should come next.\<close>

definition row_fault :: "pystr \<Rightarrow> int \<Rightarrow> sealed_row \<Rightarrow> (int \<times> pystr) option audit" where
  "row_fault previous expected r =
     (if ae_format r \<noteq> audit_format_version then Inr (Some (ae_sequence r, ''unknown audit format''))
      else if audit_registry (ae_type r) = None then Inr (Some (ae_sequence r, ''unknown event registry code''))
      else if ae_sequence r \<noteq> expected then Inr (Some (expected, ''sequence gap or reorder''))
      else if ae_previous r \<noteq> previous then Inr (Some (ae_sequence r, ''previous hash mismatch''))
      else bind (row_payload r) (\<lambda>p. bind (jcs_hash p) (\<lambda>h.
        if h \<noteq> ae_hash r then Inr (Some (ae_sequence r, ''event hash mismatch''))
        else if ae_sequence r = 1 \<and> (ae_type r \<noteq> ''AUDIT_CHAIN_GENESIS'' \<or> ae_previous r \<noteq> zero_hash)
        then Inr (Some (ae_sequence r, ''invalid genesis''))
        else Inr None)))"

definition invalid_result :: "chain_head \<Rightarrow> int \<Rightarrow> int \<Rightarrow> int \<Rightarrow> int option \<Rightarrow> pystr \<Rightarrow> pystr \<Rightarrow> verification_result" where
  "invalid_result h start reached count first fault_text points =
     \<lparr>vr_status = ''INVALID'', vr_chain = ch_id h, vr_from = start, vr_to = reached, vr_count = count,
      vr_head_sequence = ch_sequence h, vr_head_hash = ch_hash h, vr_first_invalid = first, vr_reason = Some fault_text,
      vr_checkpoints = points\<rparr>"

fun verify_rows :: "chain_head \<Rightarrow> int \<Rightarrow> pystr \<Rightarrow> int \<Rightarrow> int \<Rightarrow> sealed_row list \<Rightarrow> verification_result option audit" where
  "verify_rows h start previous expected checked [] = Inr None"
| "verify_rows h start previous expected checked (r # rows) =
     bind (row_fault previous expected r) (\<lambda>fault. case fault of
       Some (n, fault_text) \<Rightarrow> Inr (Some (invalid_result h start (ae_sequence r) checked (Some n) fault_text ''UNKNOWN''))
     | None \<Rightarrow> verify_rows h start (ae_hash r) (expected + 1) (checked + 1) rows)"

definition point_fault :: "audit_db \<Rightarrow> pystr \<Rightarrow> pystr \<Rightarrow> checkpoint_row \<Rightarrow> pystr audit" where
  "point_fault d c previous p =
     (if cp_format p \<noteq> checkpoint_format_version then Inr ''unknown checkpoint format''
      else if (case row_at d c (cp_through p) of None \<Rightarrow> True | Some r \<Rightarrow> ae_hash r \<noteq> cp_head_hash p)
      then Inr ''checkpoint head event mismatch''
      else if cp_previous p \<noteq> previous then Inr ''checkpoint previous hash mismatch''
      else bind (checkpoint_payload (cp_id p) (cp_chain p) (cp_through p) (cp_head_hash p) (cp_previous p) (cp_created p))
        (\<lambda>v. bind (jcs_hash v) (\<lambda>hash. Inr (if hash \<noteq> cp_hash p then ''checkpoint hash mismatch'' else ''VALID''))))"

fun verify_points :: "audit_db \<Rightarrow> pystr \<Rightarrow> pystr \<Rightarrow> checkpoint_row list \<Rightarrow> pystr audit" where
  "verify_points d c previous [] = Inr ''VALID''"
| "verify_points d c previous (p # ps) =
     bind (point_fault d c previous p) (\<lambda>fault.
       if fault \<noteq> ''VALID'' then Inr fault else verify_points d c (cp_hash p) ps)"

definition last_sequence :: "sealed_row list \<Rightarrow> int \<Rightarrow> int" where
  "last_sequence rows otherwise = (if rows = [] then otherwise else ae_sequence (last rows))"

text \<open>The checks after the loop over the rows.\<close>

definition verify_end :: "chain_head \<Rightarrow> int \<Rightarrow> audit_db \<Rightarrow> sealed_row list \<Rightarrow> verification_result audit" where
  "verify_end h start d rows =
     (if rows \<noteq> [] \<and> ae_sequence (last rows) = ch_sequence h \<and> ae_hash (last rows) \<noteq> ch_hash h
      then Inr (invalid_result h start (ae_sequence (last rows)) (int (length rows))
        (Some (ae_sequence (last rows))) ''chain head mismatch'' ''UNKNOWN'')
      else if start = 1 \<and> ch_sequence h \<noteq> 0 \<and> (rows = [] \<or> ae_sequence (last rows) \<noteq> ch_sequence h)
      then Inr (invalid_result h start (last_sequence rows 0) (int (length rows)) (Some (ch_sequence h))
        ''tail sequence mismatch'' ''UNKNOWN'')
      else bind (verify_points d (ch_id h) zero_hash (chain_checkpoints d (ch_id h))) (\<lambda>status.
        if status \<noteq> ''VALID''
        then Inr (invalid_result h start (last_sequence rows 0) (int (length rows)) None status ''INVALID'')
        else Inr \<lparr>vr_status = ''VALID'', vr_chain = ch_id h, vr_from = start,
          vr_to = last_sequence rows (start - 1), vr_count = int (length rows),
          vr_head_sequence = ch_sequence h, vr_head_hash = ch_hash h, vr_first_invalid = None,
          vr_reason = None, vr_checkpoints = ''VALID''\<rparr>))"

text \<open>\<open>verify_chain\<close> once the head is known.\<close>

definition verify_from :: "chain_head \<Rightarrow> int \<Rightarrow> pystr option \<Rightarrow> audit_db \<Rightarrow> verification_result audit" where
  "verify_from h start supplied d =
     (let rows = chain_rows d (ch_id h) start in
      case (if start = 1 then Some zero_hash else if supplied \<noteq> None then supplied
            else map_option ae_hash (row_at d (ch_id h) (start - 1))) of
        None \<Rightarrow> Inr (invalid_result h start start 0 (Some start) ''missing previous sequence'' ''UNKNOWN'')
      | Some previous \<Rightarrow>
          bind (verify_rows h start previous start 0 rows) (\<lambda>fault. case fault of
            Some v \<Rightarrow> Inr v | None \<Rightarrow> verify_end h start d rows))"

text \<open>A call names one scope and a first number from 1 on; resolving the chain may create it.\<close>

definition verify_chain :: "pseudonymizer \<Rightarrow> fresh_ids \<Rightarrow> int \<Rightarrow> pystr option \<Rightarrow> bool \<Rightarrow> int \<Rightarrow> pystr option
    \<Rightarrow> verification_result audit_op" where
  "verify_chain ps fr now org system_scope start supplied =
     seq (demand (system_scope \<noteq> (org \<noteq> None)) (ScopeValue ''select exactly one audit chain scope'')) (\<lambda>_.
     seq (audit_chain ps fr now \<lparr>tn_org = (if system_scope then None else org), tn_participant = None\<rparr>) (\<lambda>c.
     seq (demand (1 \<le> start) (ScopeValue ''from_sequence must be >=1'')) (\<lambda>_.
     seq (audit_asks (\<lambda>d. lookup_row ch_id c (ad_heads d))) (\<lambda>head. case head of
       None \<Rightarrow> raise (AuditFailure ''could not resolve audit chain'')
     | Some h \<Rightarrow> seq (audit_asks (verify_from h start supplied)) (\<lambda>v. lift v)))))"

end
