(* ===== verification/WebAuditSeal.thy ===== *)
theory WebAuditSeal
  imports WebAuditChain
begin

text \<open>
  What the audit history guarantees: every operation keeps each chain sealed, a sealed chain verifies, and
  two chains that verify with the same head hold the same events unless two different payloads have the same
  SHA-256. What it does not guarantee: two columns outside the hash, and the tail of a partial check.
\<close>

section \<open>Weakest preconditions of operations\<close>

text \<open>What holds after an operation: \<open>Q\<close> of its result and state, \<open>E\<close> of the state when it raises.\<close>

definition wp :: "('s, 'e, 'a) op \<Rightarrow> ('a \<Rightarrow> 's \<Rightarrow> bool) \<Rightarrow> ('s \<Rightarrow> bool) \<Rightarrow> 's \<Rightarrow> bool" where
  "wp m Q E s = (case m s of (Inr x, t) \<Rightarrow> Q x t | (Inl e, t) \<Rightarrow> E t)"

lemma wp_ret [simp]: "wp (ret x) Q E = Q x"
  by (rule ext) (simp add: wp_def op_defs)

lemma wp_raise [simp]: "wp (raise e) Q E = E"
  by (rule ext) (simp add: wp_def op_defs)

lemma wp_seq [simp]: "wp (seq m f) Q E = wp m (\<lambda>x. wp (f x) Q E) E"
  by (rule ext) (auto simp: wp_def op_defs split: prod.splits sum.splits)

lemma wp_demand [simp]: "wp (demand b e) Q E = (if b then Q () else E)"
  by (rule ext) (simp add: wp_def op_defs)

lemma wp_audit_asks [simp]: "wp (audit_asks f) Q E = (\<lambda>d. Q (f d) d)"
  by (rule ext) (simp add: wp_def op_defs)

lemma wp_audit_modify [simp]: "wp (audit_modify g) Q E = (\<lambda>d. Q () (g d))"
  by (rule ext) (simp add: wp_def op_defs)

lemma wp_lift: "wp (lift r) Q E = (case r of Inl e \<Rightarrow> E | Inr x \<Rightarrow> Q x)"
  by (rule ext) (auto simp: wp_def op_defs split: sum.splits)

lemma wp_mono: "wp m Q E s \<Longrightarrow> (\<And>x t. Q x t \<Longrightarrow> Q' x t) \<Longrightarrow> (\<And>t. E t \<Longrightarrow> E' t) \<Longrightarrow> wp m Q' E' s"
  by (auto simp: wp_def split: prod.splits sum.splits)

lemma wp_true [simp]: "wp m (\<lambda>_ _. True) (\<lambda>_. True) s"
  by (simp add: wp_def split: prod.splits sum.splits)

lemma wpD: "wp m Q E s \<Longrightarrow> m s = (Inr x, t) \<Longrightarrow> Q x t" "wp m Q E s \<Longrightarrow> m s = (Inl e, t) \<Longrightarrow> E t"
  by (auto simp: wp_def)

section \<open>Linked rows\<close>

fun linked :: "pystr \<Rightarrow> int \<Rightarrow> sealed_row list \<Rightarrow> bool" where
  "linked previous n [] = True"
| "linked previous n (r # rows) = (row_fault previous n r = Inr None \<and> linked (ae_hash r) (n + 1) rows)"

definition chain_end :: "pystr \<Rightarrow> sealed_row list \<Rightarrow> pystr" where
  "chain_end previous rows = (if rows = [] then previous else ae_hash (last rows))"

lemma chain_end_simps [simp]:
  "chain_end previous [] = previous" "chain_end previous (rows @ [r]) = ae_hash r"
  by (simp_all add: chain_end_def)

lemma chain_end_Cons: "chain_end previous (r # rows) = chain_end (ae_hash r) rows"
  by (simp add: chain_end_def)

lemma linked_append:
  "linked previous n (xs @ ys) \<longleftrightarrow> linked previous n xs \<and> linked (chain_end previous xs) (n + int (length xs)) ys"
  by (induction xs arbitrary: previous n) (auto simp: chain_end_Cons ac_simps)

lemma row_fault_None:
  "row_fault previous n r = Inr None \<longleftrightarrow>
     ae_format r = audit_format_version \<and> audit_registry (ae_type r) \<noteq> None \<and> ae_sequence r = n
     \<and> ae_previous r = previous \<and> bind (row_payload r) jcs_hash = Inr (ae_hash r)
     \<and> (n = 1 \<longrightarrow> ae_type r = ''AUDIT_CHAIN_GENESIS'' \<and> previous = zero_hash)"
  by (auto simp: row_fault_def bind_Inr_iff split: if_splits)

lemma linked_sequences: "linked previous n rows \<Longrightarrow> map ae_sequence rows = map (\<lambda>i. n + int i) [0..<length rows]"
proof (induction rows arbitrary: previous n)
  case (Cons r rows)
  then have "map ae_sequence rows = map (\<lambda>i. n + 1 + int i) [0..<length rows]" "ae_sequence r = n"
    by (auto simp: row_fault_None)
  then show ?case by (simp add: upt_conv_Cons map_Suc_upt [symmetric] del: upt_Suc)
qed simp

lemma linked_nth: "linked previous n rows \<Longrightarrow> i < length rows \<Longrightarrow> ae_sequence (rows ! i) = n + int i"
  using linked_sequences [of previous n rows] by (metis (no_types, lifting) add_0 length_map nth_map nth_upt diff_zero length_upt)

lemma linked_sorted: "linked previous n rows \<Longrightarrow> sorted (map ae_sequence rows) \<and> distinct (map ae_sequence rows)"
  unfolding linked_sequences by (auto simp: linked_sequences sorted_map sorted_wrt_iff_nth_less distinct_map inj_on_def)

lemma verify_rows_None: "verify_rows h start previous n k rows = Inr None \<longleftrightarrow> linked previous n rows"
proof (induction rows arbitrary: previous n k)
  case (Cons r rows)
  then show ?case by (cases "row_fault previous n r") (auto split: option.splits)
qed simp

section \<open>Sealed chains\<close>

definition rows_of :: "audit_db \<Rightarrow> pystr \<Rightarrow> sealed_row list" where
  "rows_of d c = filter (\<lambda>r. ae_chain r = c) (ad_events d)"

definition points_of :: "audit_db \<Rightarrow> pystr \<Rightarrow> checkpoint_row list" where
  "points_of d c = filter (\<lambda>p. cp_chain p = c) (ad_checkpoints d)"

definition chain_sealed :: "audit_db \<Rightarrow> chain_head \<Rightarrow> bool" where
  "chain_sealed d h \<longleftrightarrow>
     linked zero_hash 1 (rows_of d (ch_id h)) \<and> ch_sequence h = int (length (rows_of d (ch_id h)))
     \<and> ch_hash h = chain_end zero_hash (rows_of d (ch_id h))
     \<and> sorted (map cp_through (points_of d (ch_id h))) \<and> (\<forall>p\<in>set (points_of d (ch_id h)). cp_through p \<le> ch_sequence h)
     \<and> verify_points d (ch_id h) zero_hash (points_of d (ch_id h)) = Inr ''VALID''"

definition sealed :: "audit_db \<Rightarrow> bool" where
  "sealed d \<longleftrightarrow> distinct (map ch_id (ad_heads d)) \<and> (\<forall>h\<in>set (ad_heads d). chain_sealed d h)
     \<and> (\<forall>r\<in>set (ad_events d). ae_chain r \<in> ch_id ` set (ad_heads d))
     \<and> (\<forall>p\<in>set (ad_checkpoints d). cp_chain p \<in> ch_id ` set (ad_heads d))"

lemma sort_key_sorted: "sorted (map f xs) \<Longrightarrow> sort_key f xs = xs"
  by (rule sort_key_id_if_sorted)

lemma chain_rows_all:
  assumes "linked zero_hash 1 (rows_of d c)"
  shows "chain_rows d c 1 = rows_of d c"
proof -
  have "\<forall>r\<in>set (rows_of d c). 1 \<le> ae_sequence r"
    using linked_nth [OF assms] by (auto simp: in_set_conv_nth)
  then have "filter (\<lambda>r. ae_chain r = c \<and> 1 \<le> ae_sequence r) (ad_events d) = rows_of d c"
    unfolding rows_of_def by (intro filter_cong) auto
  then show ?thesis using linked_sorted [OF assms] by (simp add: chain_rows_def sort_key_sorted)
qed

lemma chain_checkpoints_of: "sorted (map cp_through (points_of d c)) \<Longrightarrow> chain_checkpoints d c = points_of d c"
  by (simp add: chain_checkpoints_def points_of_def sort_key_sorted)

lemma sealed_verifies:
  assumes "chain_sealed d h"
  shows "\<exists>v. verify_from h 1 supplied d = Inr v \<and> vr_status v = ''VALID'' \<and> vr_count v = ch_sequence h"
proof -
  let ?rows = "rows_of d (ch_id h)"
  have linked: "linked zero_hash 1 ?rows" and n: "ch_sequence h = int (length ?rows)"
    and ending: "ch_hash h = chain_end zero_hash ?rows" and points: "sorted (map cp_through (points_of d (ch_id h)))"
      "verify_points d (ch_id h) zero_hash (points_of d (ch_id h)) = Inr ''VALID''"
    using assms by (simp_all add: chain_sealed_def)
  have last: "ae_sequence (last ?rows) = ch_sequence h" if "?rows \<noteq> []"
  proof -
    have "?rows ! (length ?rows - 1) = last ?rows" using that by (simp add: last_conv_nth)
    then show ?thesis using linked_nth [OF linked, of "length ?rows - 1"] that n by (cases "?rows") auto
  qed
  have "verify_rows h 1 zero_hash 1 0 ?rows = Inr None" using linked by (simp add: verify_rows_None)
  then show ?thesis
    using n last ending points
    by (cases "?rows = []") (auto simp: verify_from_def verify_end_def chain_rows_all [OF linked] chain_checkpoints_of Let_def chain_end_def)
qed

section \<open>Checkpoints and growing tables\<close>

lemma row_at_stays:
  "row_at d c n = Some r \<Longrightarrow> ad_events d' = ad_events d @ xs \<Longrightarrow> row_at d' c n = Some r"
proof -
  have "find p (ys @ zs) = (case find p ys of None \<Rightarrow> find p zs | Some x \<Rightarrow> Some x)" for p :: "sealed_row \<Rightarrow> bool" and ys zs
    by (induction ys) auto
  then show "row_at d c n = Some r \<Longrightarrow> ad_events d' = ad_events d @ xs \<Longrightarrow> row_at d' c n = Some r"
    by (simp add: row_at_def)
qed

lemma point_fault_stays:
  assumes "point_fault d c previous p = Inr ''VALID''" and "ad_events d' = ad_events d @ xs"
  shows "point_fault d' c previous p = Inr ''VALID''"
  using assms row_at_stays [OF _ assms(2), of c "cp_through p"]
  by (auto simp: point_fault_def split: if_splits option.splits)

lemma verify_points_Inr:
  "verify_points d c previous (p # ps) = Inr ''VALID'' \<longleftrightarrow>
     point_fault d c previous p = Inr ''VALID'' \<and> verify_points d c (cp_hash p) ps = Inr ''VALID''"
  by (auto simp: bind_Inr_iff)

lemma verify_points_stays:
  "verify_points d c previous ps = Inr ''VALID'' \<Longrightarrow> ad_events d' = ad_events d @ xs \<Longrightarrow>
     verify_points d' c previous ps = Inr ''VALID''"
proof (induction ps arbitrary: previous)
  case (Cons p ps)
  from Cons.prems(1) have *: "point_fault d c previous p = Inr ''VALID''" "verify_points d c (cp_hash p) ps = Inr ''VALID''"
    unfolding verify_points_Inr by blast+
  show ?case unfolding verify_points_Inr
    using point_fault_stays [OF *(1) Cons.prems(2)] Cons.IH [OF *(2) Cons.prems(2)] by blast
qed simp

lemma verify_points_append:
  "verify_points d c previous (ps @ [p]) = Inr ''VALID'' \<longleftrightarrow> verify_points d c previous ps = Inr ''VALID''
     \<and> point_fault d c (if ps = [] then previous else cp_hash (last ps)) p = Inr ''VALID''"
proof (induction ps arbitrary: previous)
  case Nil
  show ?case unfolding append_Nil verify_points_Inr by simp
next
  case (Cons q ps)
  show ?case unfolding append_Cons verify_points_Inr Cons.IH by auto
qed

section \<open>Inserting a row\<close>

lemma heads_insert [simp]: "map ch_id (ad_heads (store_row r d)) = map ch_id (ad_heads d)"
  unfolding store_row_def by (simp add: keys_update_rows)

lemma head_ids_insert [simp]: "ch_id ` set (ad_heads (store_row r d)) = ch_id ` set (ad_heads d)"
  by (metis heads_insert list.set_map)

lemma rows_of_insert [simp]:
  "rows_of (store_row r d) c = rows_of d c @ (if ae_chain r = c then [r] else [])"
  "points_of (store_row r d) c = points_of d c"
  "ad_events (store_row r d) = ad_events d @ [r]" "ad_checkpoints (store_row r d) = ad_checkpoints d"
  "ad_web (store_row r d) = ad_web d"
  by (auto simp: rows_of_def points_of_def store_row_def update_rows_def)

definition head_after :: "sealed_row \<Rightarrow> chain_head \<Rightarrow> chain_head" where
  "head_after r h = h\<lparr>ch_sequence := ae_sequence r, ch_hash := ae_hash r\<rparr>"

lemma head_of_id:
  "sealed d \<Longrightarrow> h \<in> set (ad_heads d) \<Longrightarrow> g \<in> set (ad_heads d) \<Longrightarrow> ch_id g = ch_id h \<Longrightarrow> g = h"
  by (auto simp: sealed_def distinct_map inj_on_def)

lemma insert_row_sealed:
  assumes d: "sealed d" and h: "h \<in> set (ad_heads d)" and chain: "ae_chain r = ch_id h"
    and fit: "row_fault (ch_hash h) (ch_sequence h + 1) r = Inr None"
  shows "sealed (store_row r d)"
proof -
  have old: "chain_sealed d g" if "g \<in> set (ad_heads d)" for g using d that by (simp add: sealed_def)
  have seq: "ae_sequence r = ch_sequence h + 1" using fit by (simp add: row_fault_None)
  have fit': "row_fault (ch_hash h) (1 + ch_sequence h) r = Inr None" using fit by (simp add: add.commute)
  have new: "chain_sealed (store_row r d) (if ch_id g = ch_id h then head_after r g else g)"
    if g: "g \<in> set (ad_heads d)" for g
  proof -
    have points: "verify_points (store_row r d) c p ps = Inr ''VALID''" if "verify_points d c p ps = Inr ''VALID''" for c p ps
      by (rule verify_points_stays [OF that]) simp
    show ?thesis
    proof (cases "ch_id g = ch_id h")
      case True
      then have [simp]: "g = h" using head_of_id [OF d h g] by simp
      have "\<forall>p\<in>set (points_of d (ch_id h)). cp_through p \<le> ae_sequence r"
        using old [OF h] seq by (fastforce simp: chain_sealed_def)
      with old [OF h] show ?thesis
        using fit' seq chain points by (auto simp: chain_sealed_def head_after_def linked_append)
    next
      case False
      with old [OF g] chain points show ?thesis by (auto simp: chain_sealed_def)
    qed
  qed
  have heads: "ad_heads (store_row r d) = map (\<lambda>g. if ch_id g = ch_id h then head_after r g else g) (ad_heads d)"
    by (simp add: store_row_def update_rows_def head_after_def chain)
  have "\<forall>g\<in>set (ad_heads (store_row r d)). chain_sealed (store_row r d) g"
  proof
    fix g
    assume "g \<in> set (ad_heads (store_row r d))"
    then obtain g' where "g' \<in> set (ad_heads d)" "g = (if ch_id g' = ch_id h then head_after r g' else g')"
      unfolding heads by auto
    then show "chain_sealed (store_row r d) g" using new [of g'] by simp
  qed
  moreover have "ae_chain r \<in> ch_id ` set (ad_heads d)" using h chain by simp
  ultimately show ?thesis using d unfolding sealed_def by simp
qed

section \<open>Operations keep every chain sealed\<close>

text \<open>The row is the last of its chain.\<close>

definition tip :: "sealed_row \<Rightarrow> audit_db \<Rightarrow> bool" where
  "tip r d \<longleftrightarrow> r \<in> set (ad_events d) \<and> (\<exists>h\<in>set (ad_heads d). ch_id h = ae_chain r \<and> ch_sequence h = ae_sequence r)"

lemma new_row_simps [simp]:
  "ae_chain (fresh_row i h occurred e cols hash) = ch_id h"
  "ae_sequence (fresh_row i h occurred e cols hash) = ch_sequence h + 1"
  "ae_hash (fresh_row i h occurred e cols hash) = hash"
  "ae_columns (fresh_row i h occurred e cols hash) = cols"
  "ae_type (fresh_row i h occurred e cols hash) = re_type e"
  by (simp_all add: fresh_row_def)

lemma row_payload_new:
  "audit_registry (re_type e) = Some e \<Longrightarrow> row_payload (fresh_row i h occurred e cols hash) =
     canonical_payload (semantic_payload e cols) (ch_id h) (ch_sequence h + 1) i occurred (ch_hash h)"
  by (simp add: row_payload_def row_semantic_def fresh_row_def)

definition registered_event_of :: "registered_event \<Rightarrow> int \<Rightarrow> bool" where
  "registered_event_of e n \<longleftrightarrow> audit_registry (re_type e) = Some e \<and> (n = 0 \<longrightarrow> re_type e = ''AUDIT_CHAIN_GENESIS'')"

lemma head_after_insert:
  assumes "h \<in> set (ad_heads d)" and "ae_chain r = ch_id h"
  shows "head_after r h \<in> set (ad_heads (store_row r d))"
proof -
  have "ad_heads (store_row r d) = map (\<lambda>g. if ch_id g = ch_id h then head_after r g else g) (ad_heads d)"
    by (simp add: store_row_def update_rows_def head_after_def assms(2))
  with assms(1) show ?thesis by force
qed

lemma add_event_wp:
  assumes d: "sealed d" and h: "h \<in> set (ad_heads d)" and e: "registered_event_of e (ch_sequence h)"
  shows "wp (add_event i h occurred e cols)
    (\<lambda>r t. \<exists>hash. r = fresh_row i h occurred e cols hash \<and> t = store_row r d \<and> sealed t \<and> tip r t) (\<lambda>t. t = d) d"
proof (cases "canonical_payload (semantic_payload e cols) (ch_id h) (ch_sequence h + 1) i occurred (ch_hash h)")
  case (Inr payload)
  show ?thesis
  proof (cases "jcs_hash payload")
    case (Inr hash)
    let ?r = "fresh_row i h occurred e cols hash"
    have reg: "audit_registry (re_type e) = Some e" using e by (simp add: registered_event_of_def)
    have "bind (row_payload ?r) jcs_hash = Inr hash"
      using \<open>canonical_payload _ _ _ _ _ _ = Inr payload\<close> Inr by (simp add: row_payload_new [OF reg])
    moreover have "ae_format ?r = audit_format_version" "ae_previous ?r = ch_hash h" by (simp_all add: fresh_row_def)
    ultimately have "row_fault (ch_hash h) (ch_sequence h + 1) ?r = Inr None"
      if "ch_sequence h + 1 = 1 \<longrightarrow> ch_hash h = zero_hash"
      using that e reg by (auto simp: row_fault_None registered_event_of_def)
    then have "sealed (store_row ?r d)" if "ch_sequence h + 1 = 1 \<longrightarrow> ch_hash h = zero_hash"
      using that insert_row_sealed [OF d h, of ?r] by simp
    moreover have "tip ?r (store_row ?r d)"
      unfolding tip_def using head_after_insert [OF h, of ?r]
      by (intro conjI bexI [of _ "head_after ?r h"]) (simp_all add: head_after_def)
    ultimately show ?thesis
      using \<open>canonical_payload _ _ _ _ _ _ = Inr payload\<close> Inr by (auto simp: add_event_def wp_lift)
  qed (use Inr in \<open>simp add: add_event_def wp_lift\<close>)
qed (simp add: add_event_def wp_lift)

lemma insert_event_wp:
  assumes d: "sealed d"
    and e: "\<And>h. h \<in> set (ad_heads d) \<Longrightarrow> ch_id h = c \<Longrightarrow> registered_event_of (dr_event dr) (ch_sequence h)"
  shows "wp (insert_audit ps i c occurred dr) (\<lambda>p t. sealed t \<and> (if snd p then t = d else tip (fst p) t \<and> ae_chain (fst p) = c
      \<and> map ch_id (ad_heads t) = map ch_id (ad_heads d) \<and> ad_web t = ad_web d)) (\<lambda>t. t = d) d"
proof (cases "draft_columns ps (ad_web d) dr")
  case (Inr cols)
  show ?thesis
  proof (cases "keyed_row c (tr_key (dr_trace dr)) d")
    case None
    show ?thesis
    proof (cases "lookup_row ch_id c (ad_heads d)")
      case (Some h)
      then have h: "h \<in> set (ad_heads d)" "ch_id h = c" by (auto dest: lookup_row_Some)
      have "wp (add_event i h occurred (dr_event dr) cols)
        (\<lambda>r t. sealed t \<and> tip r t \<and> ae_chain r = c \<and> map ch_id (ad_heads t) = map ch_id (ad_heads d) \<and> ad_web t = ad_web d)
        (\<lambda>t. t = d) d"
        by (rule wp_mono [OF add_event_wp [OF d h(1) e [OF h]]]) (auto simp: h(2))
      with Inr None Some show ?thesis by (simp add: insert_audit_def wp_lift)
    qed (use Inr None in \<open>simp add: insert_audit_def wp_lift\<close>)
  next
    case (Some r)
    with Inr d show ?thesis by (simp add: insert_audit_def wp_lift split: sum.splits)
  qed
qed (simp add: insert_audit_def wp_lift)

lemmas registry_defs = audit_registry_def audit_event_definitions_def audit_events_1_def registered_def

lemma genesis_registered: "registered_event_of (registered_named ''AUDIT_CHAIN_GENESIS'') n"
  by (simp add: registered_event_of_def registered_named_def registry_defs)

lemma checkpoint_registered: "n \<noteq> 0 \<Longrightarrow> registered_event_of (registered_named ''CHECKPOINT_CREATED'') n"
  by (simp add: registered_event_of_def registered_named_def registry_defs)

lemma sealed_head: "sealed d \<Longrightarrow> h \<in> set (ad_heads d) \<Longrightarrow> chain_sealed d h"
  by (simp add: sealed_def)

lemma find_unique: "x \<in> set xs \<Longrightarrow> P x \<Longrightarrow> \<forall>y\<in>set xs. P y \<longrightarrow> y = x \<Longrightarrow> find P xs = Some x"
  by (induction xs) (simp, metis find.simps(2) list.set_intros(1) set_ConsD list.set_intros(2))

lemma row_at_present:
  assumes "sealed d" and r: "r \<in> set (ad_events d)"
  shows "row_at d (ae_chain r) (ae_sequence r) = Some r"
proof -
  obtain h where h: "h \<in> set (ad_heads d)" "ch_id h = ae_chain r" using assms by (force simp: sealed_def)
  have "linked zero_hash 1 (rows_of d (ae_chain r))"
    using sealed_head [OF assms(1) h(1)] h(2) by (simp add: chain_sealed_def)
  then have inj: "inj_on ae_sequence (set (rows_of d (ae_chain r)))"
    using linked_sorted by (metis distinct_map)
  have rows: "q \<in> set (rows_of d (ae_chain r)) \<longleftrightarrow> q \<in> set (ad_events d) \<and> ae_chain q = ae_chain r" for q
    by (auto simp: rows_of_def)
  show ?thesis unfolding row_at_def
  proof (rule find_unique [OF r])
    show "\<forall>q\<in>set (ad_events d). ae_chain q = ae_chain r \<and> ae_sequence q = ae_sequence r \<longrightarrow> q = r"
    proof (intro ballI impI)
      fix q
      assume "q \<in> set (ad_events d)" "ae_chain q = ae_chain r \<and> ae_sequence q = ae_sequence r"
      with rows [of q] rows [of r] r show "q = r" by (intro inj_onD [OF inj]) blast+
    qed
  qed simp
qed

lemma tip_head:
  assumes "sealed d" and "tip r d"
  obtains h where "h \<in> set (ad_heads d)" "ch_id h = ae_chain r" "ch_sequence h = ae_sequence r" "0 < ch_sequence h"
proof -
  obtain h where h: "h \<in> set (ad_heads d)" "ch_id h = ae_chain r" "ch_sequence h = ae_sequence r"
    and r: "r \<in> set (ad_events d)" using assms(2) by (auto simp: tip_def)
  then have "rows_of d (ch_id h) \<noteq> []" by (auto simp: rows_of_def filter_empty_conv)
  with h sealed_head [OF assms(1) h(1)] have "0 < ch_sequence h" by (simp add: chain_sealed_def)
  with h show ?thesis by (rule that)
qed

lemma add_point_simps [simp]:
  "rows_of (add_point p d) c = rows_of d c" "ad_heads (add_point p d) = ad_heads d"
  "ad_events (add_point p d) = ad_events d" "ad_web (add_point p d) = ad_web d"
  "points_of (add_point p d) c = points_of d c @ (if cp_chain p = c then [p] else [])"
  "ad_checkpoints (add_point p d) = ad_checkpoints d @ [p]" "tip r (add_point p d) = tip r d"
  by (simp_all add: add_point_def rows_of_def points_of_def tip_def)

lemma add_point_sealed:
  assumes d: "sealed d" and r: "tip r d" and p: "cp_chain p = ae_chain r" "cp_through p = ae_sequence r"
      "cp_head_hash p = ae_hash r" "cp_format p = checkpoint_format_version"
    and previous: "cp_previous p = (if points_of d (ae_chain r) = [] then zero_hash
      else cp_hash (last (points_of d (ae_chain r))))"
    and hash: "bind (checkpoint_payload (cp_id p) (cp_chain p) (cp_through p) (cp_head_hash p) (cp_previous p) (cp_created p))
      jcs_hash = Inr (cp_hash p)"
  shows "sealed (add_point p d)"
proof -
  have stays: "verify_points (add_point p d) c q ps = Inr ''VALID''" if "verify_points d c q ps = Inr ''VALID''" for c q ps
    by (rule verify_points_stays [OF that, of _ "[]"]) simp
  have "row_at d (ae_chain r) (ae_sequence r) = Some r" using row_at_present [OF d] r by (simp add: tip_def)
  then have fine: "point_fault d (ae_chain r) (cp_previous p) p = Inr ''VALID''"
    using p hash by (auto simp: point_fault_def bind_Inr_iff)
  have "chain_sealed (add_point p d) h" if h: "h \<in> set (ad_heads d)" for h
  proof (cases "ch_id h = ae_chain r")
    case True
    obtain g where g: "g \<in> set (ad_heads d)" "ch_id g = ae_chain r" "ch_sequence g = ae_sequence r"
      using tip_head [OF d r] by metis
    then have "g = h" using head_of_id [OF d h] True by simp
    with g have n: "ch_sequence h = ae_sequence r" by simp
    have "verify_points d (ae_chain r) zero_hash (points_of d (ae_chain r) @ [p]) = Inr ''VALID''"
      unfolding verify_points_append using sealed_head [OF d h] True fine previous by (simp add: chain_sealed_def)
    from stays [OF this] show ?thesis
      using sealed_head [OF d h] True n p by (auto simp: chain_sealed_def sorted_append)
  next
    case False
    with sealed_head [OF d h] p stays show ?thesis by (auto simp: chain_sealed_def)
  qed
  moreover have "ae_chain r \<in> ch_id ` set (ad_heads d)" using r by (metis tip_def image_eqI)
  ultimately show ?thesis using d p by (simp add: sealed_def)
qed

lemma maybe_checkpoint_wp:
  assumes d: "sealed d" and r: "tip r d"
  shows "wp (maybe_checkpoint ps fr now r tn) (\<lambda>_ t. sealed t) sealed d"
proof (cases "checkpoint_due (chain_checkpoints d (ae_chain r)) r")
  case False
  with d show ?thesis by (simp add: maybe_checkpoint_def)
next
  case True
  obtain h where h: "h \<in> set (ad_heads d)" "ch_id h = ae_chain r" "0 < ch_sequence h"
    using tip_head [OF d r] by metis
  have points: "chain_checkpoints d (ae_chain r) = points_of d (ae_chain r)"
    using sealed_head [OF d h(1)] h(2) by (simp add: chain_sealed_def chain_checkpoints_of)
  let ?previous = "last_point_hash (points_of d (ae_chain r))"
  let ?payload = "checkpoint_payload (fr_checkpoint fr) (ae_chain r) (ae_sequence r) (ae_hash r) ?previous now"
  show ?thesis
  proof (cases ?payload)
    case payload: (Inr v)
    show ?thesis
    proof (cases "jcs_hash v")
      case hash: (Inr hash)
      let ?p = "new_point (fr_checkpoint fr) r ?previous hash now"
      have sealed: "sealed (add_point ?p d)"
        by (rule add_point_sealed [OF d r]) (use payload hash in \<open>simp_all add: new_point_def last_point_hash_def\<close>)
      have "registered_event_of (registered_named ''CHECKPOINT_CREATED'') (ch_sequence g)"
        if "g \<in> set (ad_heads (add_point ?p d))" "ch_id g = ae_chain r" for g
        using that h head_of_id [OF d h(1), of g] by (intro checkpoint_registered) simp
      then have "wp (insert_audit ps i (ae_chain r) now (checkpoint_draft tn ?p)) (\<lambda>_. sealed) sealed (add_point ?p d)" for i
        by (intro wp_mono [OF insert_event_wp [OF sealed]]) (use sealed in \<open>auto simp: checkpoint_draft_def system_draft_def\<close>)
      with True d points payload hash show ?thesis by (simp add: maybe_checkpoint_def wp_lift)
    qed (use True d points payload in \<open>simp add: maybe_checkpoint_def wp_lift\<close>)
  qed (use True d points in \<open>simp add: maybe_checkpoint_def wp_lift\<close>)
qed

lemma insert_locked_wp:
  assumes d: "sealed d"
    and e: "\<And>h. h \<in> set (ad_heads d) \<Longrightarrow> ch_id h = c \<Longrightarrow> registered_event_of (dr_event dr) (ch_sequence h)"
  shows "wp (insert_locked ps fr now checkpoints c occurred dr) (\<lambda>_. sealed) sealed d"
  unfolding insert_locked_def wp_seq
  by (rule wp_mono [OF insert_event_wp [OF d e]]) (use d in \<open>auto split: prod.splits if_splits intro: maybe_checkpoint_wp\<close>)

section \<open>Resolving a chain\<close>

definition opened :: "audit_db \<Rightarrow> pystr \<Rightarrow> bool" where
  "opened d c \<longleftrightarrow> sealed d \<and> (\<exists>h\<in>set (ad_heads d). ch_id h = c \<and> 0 < ch_sequence h)"

lemma tip_opened: "sealed d \<Longrightarrow> tip r d \<Longrightarrow> ae_chain r = c \<Longrightarrow> opened d c"
  unfolding opened_def using tip_head [of d r] by metis

lemma create_head_wp:
  assumes d: "sealed d"
  shows "wp (create_head fr org) (\<lambda>_. sealed) sealed d"
proof -
  let ?h = "\<lparr>ch_id = fr_chain fr, ch_org = org, ch_sequence = 0, ch_hash = zero_hash, ch_format = audit_format_version\<rparr>"
  have "sealed (d\<lparr>ad_heads := ad_heads d @ [?h]\<rparr>)" if new: "fr_chain fr \<notin> ch_id ` set (ad_heads d)"
  proof -
    have others: "\<forall>r\<in>set (ad_events d). ae_chain r \<noteq> fr_chain fr" "\<forall>p\<in>set (ad_checkpoints d). cp_chain p \<noteq> fr_chain fr"
      using d new unfolding sealed_def by metis+
    have "rows_of d (fr_chain fr) = []" "points_of d (fr_chain fr) = []"
      using others by (auto simp: rows_of_def points_of_def filter_empty_conv)
    moreover have "chain_sealed (d\<lparr>ad_heads := hs\<rparr>) g = chain_sealed d g" for g hs
    proof -
      have "point_fault (d\<lparr>ad_heads := hs\<rparr>) = point_fault d"
        by (intro ext) (simp add: point_fault_def row_at_def)
      then have "verify_points (d\<lparr>ad_heads := hs\<rparr>) c q ps = verify_points d c q ps" for c q ps
        by (induction ps arbitrary: q) (simp_all cong: if_cong)
      then show ?thesis by (simp add: chain_sealed_def rows_of_def points_of_def)
    qed
    ultimately show ?thesis using d new by (auto simp: sealed_def chain_sealed_def)
  qed
  with d show ?thesis by (simp add: create_head_def)
qed

lemma append_genesis_wp:
  assumes d: "sealed d" and h: "h \<in> set (ad_heads d)" and zero: "ch_sequence h = 0"
  shows "wp (append_genesis ps fr now (ch_id h) tn) (\<lambda>_ t. opened t (ch_id h)) sealed d"
proof -
  have "rows_of d (ch_id h) = []" using sealed_head [OF d h] zero by (simp add: chain_sealed_def)
  then have fresh: "keyed_row (ch_id h) k d = None" for k
    by (auto simp: keyed_row_def rows_of_def find_None_iff filter_empty_conv)
  let ?dr = "system_draft (registered_named ''AUDIT_CHAIN_GENESIS'') tn
       \<lparr>sj_type = ST_AUDIT_CHAIN, sj_id = ch_id h, sj_plain = False\<rparr> None ''genesis:v1'' [] []"
  have "wp (insert_audit ps (fr_genesis fr) (ch_id h) now ?dr) (\<lambda>p _. \<not> snd p) (\<lambda>_. True) d"
    using fresh by (simp add: insert_audit_def wp_lift split: sum.splits option.splits)
  moreover have "wp (insert_audit ps (fr_genesis fr) (ch_id h) now ?dr) (\<lambda>p t. sealed t \<and> (if snd p then t = d
      else tip (fst p) t \<and> ae_chain (fst p) = ch_id h \<and> map ch_id (ad_heads t) = map ch_id (ad_heads d) \<and> ad_web t = ad_web d))
      (\<lambda>t. t = d) d"
    by (rule insert_event_wp [OF d]) (simp add: system_draft_def genesis_registered)
  ultimately show ?thesis
    using d by (auto simp: append_genesis_def wp_def split: prod.splits sum.splits intro: tip_opened)
qed

lemma settle_head_wp:
  assumes d: "sealed d"
  shows "wp (settle_head ps fr now tn) (\<lambda>c t. opened t c) sealed d"
proof (cases "find_head (tn_org tn) d")
  case (Some h)
  then have h: "h \<in> set (ad_heads d)" by (auto simp: find_head_def dest: lookup_row_Some)
  then have "0 \<le> ch_sequence h" using sealed_head [OF d h] by (simp add: chain_sealed_def)
  with h d Some append_genesis_wp [OF d h] show ?thesis by (auto simp: settle_head_def opened_def)
qed (use d in \<open>simp add: settle_head_def\<close>)

lemma audit_chain_wp:
  assumes d: "sealed d"
  shows "wp (audit_chain ps fr now tn) (\<lambda>c t. opened t c) sealed d"
  using d settle_head_wp by (auto simp: audit_chain_def intro: wp_mono [OF create_head_wp])

lemma append_event_wp:
  assumes d: "sealed d"
  shows "wp (append_event ps fr now q) (\<lambda>_. sealed) sealed d"
proof (cases "audit_draft ps (ad_web d) q")
  case (Inr dr)
  then have reg: "audit_registry (re_type (dr_event dr)) = Some (dr_event dr)"
    by (auto simp: audit_draft_def bind_Inr_iff registry_type split: option.splits prod.splits if_splits)
  have insert: "wp (insert_locked ps fr now k c occurred (dr\<lparr>dr_before := b, dr_after := a\<rparr>)) (\<lambda>_. sealed) sealed t"
    if o: "opened t c" for k c occurred b a t
  proof (rule insert_locked_wp)
    show t: "sealed t" using o by (simp add: opened_def)
    fix g
    assume "g \<in> set (ad_heads t)" "ch_id g = c"
    moreover obtain h where "h \<in> set (ad_heads t)" "ch_id h = c" "0 < ch_sequence h" using o by (auto simp: opened_def)
    ultimately have "0 < ch_sequence g" using head_of_id [OF t] by metis
    then show "registered_event_of (dr_event (dr\<lparr>dr_before := b, dr_after := a\<rparr>)) (ch_sequence g)"
      using reg by (simp add: registered_event_of_def)
  qed
  have "wp (audit_chain ps fr now (rq_tenant q)) (\<lambda>c. wp (seq (lift (safe_hash (rq_before q))) (\<lambda>before.
     seq (lift (safe_hash (rq_after q))) (\<lambda>after.
     seq (lift (case rq_time q of None \<Rightarrow> Inr now | Some t \<Rightarrow> utc_time t)) (\<lambda>occurred.
       insert_locked ps fr now (rq_checkpoint q) c occurred (dr\<lparr>dr_before := before, dr_after := after\<rparr>)))))
     (\<lambda>_. sealed) sealed) sealed d"
    by (rule wp_mono [OF audit_chain_wp [OF d]])
      (auto simp: wp_lift opened_def insert split: sum.splits intro: insert)
  with Inr show ?thesis by (simp add: append_event_def wp_lift)
qed (use d in \<open>simp add: append_event_def wp_lift\<close>)

lemma verify_chain_wp:
  assumes d: "sealed d"
  shows "wp (verify_chain ps fr now org sys 1 supplied)
    (\<lambda>v t. sealed t \<and> vr_status v = ''VALID'') sealed d"
proof -
  have "wp (case lookup_row ch_id c (ad_heads t) of None \<Rightarrow> raise (AuditFailure ''could not resolve audit chain'')
     | Some h \<Rightarrow> seq (audit_asks (verify_from h 1 supplied)) (\<lambda>v. lift v)) (\<lambda>v t. sealed t \<and> vr_status v = ''VALID'') sealed t"
    if t: "sealed t" for c t
  proof (cases "lookup_row ch_id c (ad_heads t)")
    case (Some h)
    then have "h \<in> set (ad_heads t)" by (auto dest: lookup_row_Some)
    from sealed_verifies [OF sealed_head [OF t this], of supplied] Some t show ?thesis by (auto simp: wp_lift)
  qed (use t in simp)
  then have "wp (audit_chain ps fr now tn) (\<lambda>c. wp (seq (audit_asks (\<lambda>d. lookup_row ch_id c (ad_heads d))) (\<lambda>head. case head of
       None \<Rightarrow> raise (AuditFailure ''could not resolve audit chain'')
     | Some h \<Rightarrow> seq (audit_asks (verify_from h 1 supplied)) (\<lambda>v. lift v))) (\<lambda>v t. sealed t \<and> vr_status v = ''VALID'') sealed) sealed d" for tn
    by (intro wp_mono [OF audit_chain_wp [OF d]]) (simp_all add: opened_def)
  with d show ?thesis by (simp add: verify_chain_def)
qed

section \<open>What a hash stands for\<close>

definition payload_names :: "pystr list" where
  "payload_names = [''audit_format_version'', ''chain_id'', ''sequence'', ''event_id'', ''occurred_at'', ''category'',
     ''event_type'', ''action'', ''outcome'', ''authorization_decision'', ''tenant'', ''actor'', ''subject'',
     ''secondary_subject'', ''trace'', ''before_sha256'', ''after_sha256'', ''evidence_hashes'', ''metadata'',
     ''previous_event_hash'']"

definition tenant_values :: "audit_tenant \<Rightarrow> json list" where
  "tenant_values t = [opt_str (tn_org t), opt_str (tn_participant t)]"

definition actor_values :: "event_columns \<Rightarrow> json list" where
  "actor_values s = [JStr (ec_kind s), opt_str (map_option show_nat (ec_user s)), opt_str (ec_member s), opt_str (ec_role s),
     case ec_permissions s of None \<Rightarrow> JNull | Some ps \<Rightarrow> str_array ps]"

definition trace_values :: "trace_context \<Rightarrow> json list" where
  "trace_values t = [opt_str (tr_request t), opt_str (tr_correlation t), opt_str (tr_causation t), opt_str (tr_operation t),
     opt_str (tr_job t), opt_str (tr_key t)]"

definition payload_values :: "registered_event \<Rightarrow> sealed_row \<Rightarrow> pystr \<Rightarrow> pystr \<Rightarrow> json list" where
  "payload_values e r c i = (let s = ae_columns r in
     [JStr audit_format_version, JStr c, JStr (show_int (ae_sequence r)), JStr i, JStr (rfc3339 (ae_time r)),
      JStr (audit_category_value (re_category e)), JStr (re_type e), JStr (re_action e), JStr (ec_outcome s),
      JStr (ec_decision s),
      JObj (zip [''organisation_id'', ''participant_id''] (tenant_values (ec_tenant s))),
      JObj (zip [''kind'', ''user_id'', ''membership_id'', ''role'', ''permissions''] (actor_values s)),
      JObj (zip [''type'', ''id''] [JStr (ec_subject_type s), JStr (ec_subject s)]),
      JObj (zip [''type'', ''id''] [opt_str (ec_second_type s), opt_str (ec_second s)]),
      JObj (zip [''request_id'', ''correlation_id'', ''causation_id'', ''operation_id'', ''agent_job_id'', ''event_key'']
         (trace_values (ec_trace s))),
      opt_str (ec_before s), opt_str (ec_after s), str_array (ec_evidence s), JObj (ec_metadata s),
      JStr (ae_previous r)])"

lemma row_payload_values:
  assumes "row_payload r = Inr p"
  obtains e c i where "audit_registry (ae_type r) = Some e" "uuid_text (ae_chain r) = Some c" "uuid_text (ae_id r) = Some i"
    "p = JObj (zip payload_names (payload_values e r c i))"
proof -
  obtain e where e: "audit_registry (ae_type r) = Some e"
    using assms by (auto simp: row_payload_def row_semantic_def split: option.splits)
  with assms obtain c i where "uuid_text (ae_chain r) = Some c" "uuid_text (ae_id r) = Some i"
    "p = JObj (zip payload_names (payload_values e r c i))"
    by (auto simp: row_payload_def row_semantic_def canonical_payload_def canonical_uuid_def bind_Inr_iff
        semantic_payload_def payload_values_def payload_names_def tenant_values_def actor_values_def trace_values_def
        get_key_def Let_def split: option.splits)
  with e show ?thesis by (rule that)
qed

lemma object_values:
  assumes "sorted_json (JObj (zip ks vs)) = sorted_json (JObj (zip ks ws))" and "distinct ks"
    and "length vs = length ks" and "length ws = length ks"
  shows "map sorted_json vs = map sorted_json ws"
proof (rule nth_equalityI)
  fix n
  assume "n < length (map sorted_json vs)"
  then have n: "n < length ks" using assms(3) by simp
  have at: "map_of (zip ks us) (ks ! n) = Some (us ! n)" if "length us = length ks" for us :: "json list"
    using that n assms(2) by (simp add: map_of_zip_nth)
  have "map_option sorted_json (map_of (zip ks vs) (ks ! n)) = map_option sorted_json (map_of (zip ks ws) (ks ! n))"
    by (rule sorted_field [OF assms(1)]) (use assms(2-4) in simp_all)
  then show "map sorted_json vs ! n = map sorted_json ws ! n" using n assms(3,4) by (simp add: at)
qed (use assms in simp)

lemma opt_str_inject [simp]: "opt_str a = opt_str b \<longleftrightarrow> a = b"
  by (cases a; cases b) (simp_all add: opt_str_def)

lemma sorted_opt_str [simp]: "sorted_json (opt_str a) = opt_str a" "sorted_json (str_array xs) = str_array xs"
  by (simp_all add: opt_str_def str_array_def split: option.splits)

lemma str_array_inject [simp]: "str_array a = str_array b \<longleftrightarrow> a = b" "str_array a \<noteq> JNull" "JNull \<noteq> str_array a"
  by (auto simp: str_array_def inj_map_eq_map inj_def)

lemma show_int_inject [simp]: "show_int i = show_int j \<longleftrightarrow> i = j"
  using int_prefix [of i "[]" j "[]"] by auto

lemma show_nat_option [simp]: "map_option show_nat a = map_option show_nat b \<longleftrightarrow> a = b"
  by (cases a; cases b) simp_all

text \<open>
  What the hash of a row stands for: every column but the category and the action, identifiers up to the
  spelling of a UUID, metadata up to the order of keys, and the time as it is written.
\<close>

definition audited :: "sealed_row \<Rightarrow> sealed_row \<times> json \<times> pystr option \<times> pystr option \<times> pystr" where
  "audited r =
     (r\<lparr>ae_id := [], ae_chain := [], ae_category := [], ae_action := [], ae_time := 0,
        ae_columns := (ae_columns r)\<lparr>ec_metadata := []\<rparr>\<rparr>,
      sorted_json (JObj (ec_metadata (ae_columns r))), uuid_text (ae_chain r), uuid_text (ae_id r), rfc3339 (ae_time r))"

definition no_floats :: "sealed_row \<Rightarrow> bool" where
  "no_floats r \<longleftrightarrow> float_free (JObj (ec_metadata (ae_columns r)))"

definition payload_collision :: "sealed_row \<Rightarrow> sealed_row \<Rightarrow> bool" where
  "payload_collision r s = (case (row_payload r, row_payload s) of (Inr p, Inr q) \<Rightarrow> sha_collision p q | _ \<Rightarrow> False)"

lemma same_payload_audited:
  assumes r: "row_payload r = Inr p" "ae_format r = audit_format_version"
    and s: "row_payload s = Inr q" "ae_format s = audit_format_version"
    and same: "sorted_json p = sorted_json q" and hash: "ae_hash r = ae_hash s"
  shows "audited r = audited s"
proof -
  obtain e c i where r': "audit_registry (ae_type r) = Some e" "uuid_text (ae_chain r) = Some c" "uuid_text (ae_id r) = Some i"
    "p = JObj (zip payload_names (payload_values e r c i))" using row_payload_values [OF r(1)] .
  obtain e' c' i' where s': "audit_registry (ae_type s) = Some e'" "uuid_text (ae_chain s) = Some c'" "uuid_text (ae_id s) = Some i'"
    "q = JObj (zip payload_names (payload_values e' s c' i'))" using row_payload_values [OF s(1)] .
  let ?a = "ae_columns r" and ?b = "ae_columns s"
  note [simp del] = sorted_json.simps(2)
  have "map sorted_json (payload_values e r c i) = map sorted_json (payload_values e' s c' i')"
    by (rule object_values [of payload_names])
      (use same r'(4) s'(4) in \<open>simp_all add: payload_values_def payload_names_def Let_def del: zip_Cons_Cons\<close>)
  note fields = this [unfolded payload_values_def Let_def, simplified]
  have "map sorted_json (tenant_values (ec_tenant ?a)) = map sorted_json (tenant_values (ec_tenant ?b))"
    by (rule object_values [of "[''organisation_id'', ''participant_id'']"]) (use fields in \<open>simp_all add: tenant_values_def\<close>)
  then have tenant: "ec_tenant ?a = ec_tenant ?b" by (simp add: tenant_values_def)
  have "map sorted_json (actor_values ?a) = map sorted_json (actor_values ?b)"
    by (rule object_values [of "[''kind'', ''user_id'', ''membership_id'', ''role'', ''permissions'']"])
      (use fields in \<open>simp_all add: actor_values_def\<close>)
  then have actor: "ec_kind ?a = ec_kind ?b" "ec_user ?a = ec_user ?b" "ec_member ?a = ec_member ?b" "ec_role ?a = ec_role ?b"
    "ec_permissions ?a = ec_permissions ?b"
    by (auto simp: actor_values_def split: option.splits)
  have "map sorted_json [JStr (ec_subject_type ?a), JStr (ec_subject ?a)] = map sorted_json [JStr (ec_subject_type ?b), JStr (ec_subject ?b)]"
    by (rule object_values [of "[''type'', ''id'']"]) (use fields in simp_all)
  then have subject: "ec_subject_type ?a = ec_subject_type ?b" "ec_subject ?a = ec_subject ?b" by simp_all
  have "map sorted_json [opt_str (ec_second_type ?a), opt_str (ec_second ?a)] = map sorted_json [opt_str (ec_second_type ?b), opt_str (ec_second ?b)]"
    by (rule object_values [of "[''type'', ''id'']"]) (use fields in simp_all)
  then have second: "ec_second_type ?a = ec_second_type ?b" "ec_second ?a = ec_second ?b" by simp_all
  have "map sorted_json (trace_values (ec_trace ?a)) = map sorted_json (trace_values (ec_trace ?b))"
    by (rule object_values [of "[''request_id'', ''correlation_id'', ''causation_id'', ''operation_id'', ''agent_job_id'', ''event_key'']"])
      (use fields in \<open>simp_all add: trace_values_def\<close>)
  then have trace: "ec_trace ?a = ec_trace ?b" by (simp add: trace_values_def)
  have "?a\<lparr>ec_metadata := []\<rparr> = ?b\<lparr>ec_metadata := []\<rparr>"
    using fields tenant actor subject second trace by (intro event_columns.equality) simp_all
  moreover have "ae_type r = ae_type s" using fields registry_type [OF r'(1)] registry_type [OF s'(1)] by simp
  ultimately show ?thesis
    unfolding audited_def Let_def using fields r' s' r(2) s(2) hash
    by (intro prod_eqI sealed_row.equality) simp_all
qed

lemma audited_previous: "ae_previous (fst (audited r)) = ae_previous r"
  by (simp add: audited_def)

lemma same_end_same_rows:
  assumes "linked zero_hash 1 xs" and "linked zero_hash 1 ys" and "length xs = length ys"
    and "chain_end zero_hash xs = chain_end zero_hash ys" and "\<forall>r\<in>set xs \<union> set ys. no_floats r"
  shows "map audited xs = map audited ys \<or> (\<exists>r\<in>set xs. \<exists>s\<in>set ys. payload_collision r s)"
  using assms
proof (induction xs arbitrary: ys rule: rev_induct)
  case (snoc r xs)
  then obtain zs s where ys: "ys = zs @ [s]" by (cases ys rule: rev_cases) auto
  note l = snoc.prems [unfolded ys linked_append]
  have fit: "row_fault (chain_end zero_hash xs) (1 + int (length xs)) r = Inr None"
    "row_fault (chain_end zero_hash zs) (1 + int (length zs)) s = Inr None"
    using l(1,2) by simp_all
  obtain p q where p: "row_payload r = Inr p" "jcs_hash p = Inr (ae_hash r)" and q: "row_payload s = Inr q" "jcs_hash q = Inr (ae_hash s)"
    using fit by (auto simp: row_fault_None bind_Inr_iff)
  have hash: "ae_hash r = ae_hash s" using l(4) by simp
  have free: "float_free v" if "row_payload x = Inr v" "no_floats x" for x v
    using that by (auto elim!: row_payload_values simp: no_floats_def payload_values_def payload_names_def tenant_values_def
        actor_values_def trace_values_def str_array_def Let_def split: option.splits)
  have "no_floats r" "no_floats s" using l(5) by simp_all
  have "sha256_hex (utf8 (canonical_json v)) = h" if "float_free v" "jcs_hash v = Inr h" for v h
    using that jcs_canonical [OF that(1)] by (auto simp: jcs_hash_def jcs_bytes_def bind_Inr_iff)
  then have "sha256_hex (utf8 (canonical_json p)) = sha256_hex (utf8 (canonical_json q))"
    using p q hash free \<open>no_floats r\<close> \<open>no_floats s\<close> by metis
  then have "sorted_json p = sorted_json q \<or> payload_collision r s"
    using same_hash_same_value [of p q] free p(1) q(1) \<open>no_floats r\<close> \<open>no_floats s\<close> by (auto simp: payload_collision_def)
  then show ?case
  proof
    assume "sorted_json p = sorted_json q"
    then have last: "audited r = audited s"
      using same_payload_audited [OF p(1) _ q(1)] fit hash by (simp add: row_fault_None)
    then have "ae_previous r = ae_previous s" by (metis audited_previous)
    then have "chain_end zero_hash xs = chain_end zero_hash zs" using fit by (simp add: row_fault_None)
    with snoc.IH [of zs] l last show ?thesis by (auto simp: ys)
  qed (auto simp: ys)
qed simp

end
