(* ===== verification/WebAuditTheorems.thy ===== *)
theory WebAuditTheorems
  imports WebAuditSeal
begin

text \<open>
  The theorems on the audit history, their common lemmas, and a small history to apply them to.
\<close>

section \<open>What verification says\<close>

lemma verify_rows_invalid: "verify_rows h start previous n k rows = Inr (Some v) \<Longrightarrow> vr_status v = ''INVALID''"
proof (induction rows arbitrary: previous n k)
  case (Cons r rows)
  then show ?case by (auto simp: bind_Inr_iff invalid_result_def split: option.splits prod.splits)
qed simp

lemma verified_linked:
  assumes v: "verify_from h 1 supplied d = Inr v" "vr_status v = ''VALID''" and n: "ch_sequence h \<noteq> 0"
  defines "rows \<equiv> chain_rows d (ch_id h) 1"
  shows "linked zero_hash 1 rows" "rows \<noteq> []" "ae_sequence (last rows) = ch_sequence h" "ae_hash (last rows) = ch_hash h"
proof -
  obtain fault where fault: "verify_rows h 1 zero_hash 1 0 rows = Inr fault"
    using v by (auto simp: verify_from_def rows_def Let_def bind_Inr_iff)
  have "fault = None"
    using v fault verify_rows_invalid by (cases fault) (auto simp: verify_from_def rows_def Let_def)
  with fault show "linked zero_hash 1 rows" by (simp add: verify_rows_None)
  have "rows \<noteq> [] \<and> ae_sequence (last rows) = ch_sequence h \<and> ae_hash (last rows) = ch_hash h"
    using v n fault \<open>fault = None\<close>
    by (auto simp: verify_from_def verify_end_def rows_def [symmetric] Let_def invalid_result_def split: if_splits)
  then show "rows \<noteq> []" "ae_sequence (last rows) = ch_sequence h" "ae_hash (last rows) = ch_hash h" by blast+
qed

lemma linked_length:
  "linked previous 1 rows \<Longrightarrow> rows \<noteq> [] \<Longrightarrow> int (length rows) = ae_sequence (last rows)"
  using linked_nth [of previous 1 rows "length rows - 1"] by (cases rows) (auto simp: last_conv_nth)

section \<open>Histories\<close>

definition no_history :: "web_db \<Rightarrow> audit_db" where
  "no_history w = \<lparr>ad_web = w, ad_heads = [], ad_events = [], ad_checkpoints = []\<rparr>"

text \<open>What changes a database: an append, a verification that creates its chain, and the other tables.\<close>

inductive audit_step :: "audit_db \<Rightarrow> audit_db \<Rightarrow> bool" where
  step_append: "append_event ps fr now q d = (r, t) \<Longrightarrow> audit_step d t"
| step_resolve: "audit_chain ps fr now tn d = (c, t) \<Longrightarrow> audit_step d t"
| step_web: "audit_step d (d\<lparr>ad_web := w\<rparr>)"

lemma sealed_web: "sealed (d\<lparr>ad_web := w\<rparr>) = sealed d"
proof -
  have "point_fault (d\<lparr>ad_web := w\<rparr>) = point_fault d" by (intro ext) (simp add: point_fault_def row_at_def)
  then have "verify_points (d\<lparr>ad_web := w\<rparr>) c q ps = verify_points d c q ps" for c q ps
    by (induction ps arbitrary: q) (simp_all cong: if_cong)
  then show ?thesis by (simp add: sealed_def chain_sealed_def rows_of_def points_of_def)
qed

lemma wp_state: "wp m (\<lambda>_. P) P s \<Longrightarrow> m s = (r, t) \<Longrightarrow> P t"
  by (cases r) (auto simp: wp_def)

lemma audit_step_sealed: "audit_step d t \<Longrightarrow> sealed d \<Longrightarrow> sealed t"
proof (induction rule: audit_step.induct)
  case (step_append ps fr now q d r t)
  from wp_state [OF append_event_wp [OF step_append(2)] step_append(1)] show ?case .
next
  case (step_resolve ps fr now tn d c t)
  have "wp (audit_chain ps fr now tn) (\<lambda>_. sealed) sealed d"
    by (rule wp_mono [OF audit_chain_wp [OF step_resolve(2)]]) (simp_all add: opened_def)
  from wp_state [OF this step_resolve(1)] show ?case .
qed (simp add: sealed_web)

lemma no_history_sealed: "sealed (no_history w)"
  by (simp add: sealed_def no_history_def)

lemma history_sealed: "audit_step\<^sup>*\<^sup>* (no_history w) d \<Longrightarrow> sealed d"
  by (induction rule: rtranclp_induct) (auto intro: no_history_sealed audit_step_sealed)

section \<open>A small history\<close>

definition demo_pseudonyms :: pseudonymizer where
  "demo_pseudonyms = \<lparr>ps_key = None, ps_key_id = ''audit-v1''\<rparr>"

definition demo_uuid :: "pystr \<Rightarrow> pystr" where
  "demo_uuid x = ''00000000-0000-4000-8000-00000000000'' @ x"

definition demo_fresh :: fresh_ids where
  "demo_fresh = \<lparr>fr_chain = demo_uuid ''1'', fr_genesis = demo_uuid ''2'', fr_event = demo_uuid ''3'',
     fr_checkpoint = demo_uuid ''4'', fr_checkpoint_event = demo_uuid ''5''\<rparr>"

definition demo_login_event :: event_request where
  "demo_login_event = \<lparr>rq_type = ''LOGIN_SUCCESS'', rq_actor = \<lparr>ac_kind = AK_USER, ac_user = Some 1, ac_machine = None\<rparr>,
     rq_tenant = \<lparr>tn_org = None, tn_participant = None\<rparr>,
     rq_subject = \<lparr>sj_type = ST_SESSION, sj_id = ''s1'', sj_plain = False\<rparr>, rq_outcome = AO_SUCCESS,
     rq_decision = AZ_NOT_APPLICABLE, rq_second = None, rq_trace = no_trace\<lparr>tr_key := Some ''login''\<rparr>, rq_metadata = [],
     rq_evidence = [], rq_before = None, rq_after = None, rq_time = None, rq_checkpoint = False\<rparr>"

lemma demo_uuids:
  "uuid_text (demo_uuid ''1'') = Some (demo_uuid ''1'')" "uuid_text (demo_uuid ''2'') = Some (demo_uuid ''2'')"
  "uuid_text (demo_uuid ''3'') = Some (demo_uuid ''3'')"
  by (simp_all add: demo_uuid_def uuid_text_def Let_def int_base16_def strip_def space_char_def startswith_def any_hex_def
      hex_char_def digit_char_def code_def hex_value_def hex_pad_def hex_digit_def upt_rec char_of_eq_iff)

lemma jcs_fine_parts [simp]: "jcs_fine (opt_str v)" "jcs_fine (str_array xs)"
  by (auto simp: opt_str_def str_array_def split: option.splits)

lemma jcs_fine_payload:
  assumes "jcs_fine (JObj (ec_metadata cols))" and "canonical_payload (semantic_payload e cols) c n i occurred previous = Inr p"
  shows "jcs_fine p"
proof -
  obtain x y where "p = JObj (zip payload_names (payload_values e (fresh_row i \<lparr>ch_id = c, ch_org = None,
      ch_sequence = n - 1, ch_hash = previous, ch_format = []\<rparr> occurred e cols []) x y))"
    using assms(2) by (auto simp: canonical_payload_def canonical_uuid_def bind_Inr_iff semantic_payload_def payload_values_def
        payload_names_def tenant_values_def actor_values_def trace_values_def fresh_row_def get_key_def Let_def split: option.splits)
  then show ?thesis
    using assms(1) by (simp add: payload_values_def payload_names_def tenant_values_def actor_values_def trace_values_def Let_def
        fresh_row_def split: option.split)
qed

lemma add_event_run:
  assumes "ch_sequence h + 1 = 1 \<longrightarrow> ch_hash h = zero_hash" and "uuid_text (ch_id h) = Some c" and "uuid_text i = Some j"
    and "jcs_fine (JObj (ec_metadata cols))" and "\<And>hash. \<not> row_refused d (fresh_row i h occurred e cols hash)"
  shows "\<exists>hash. add_event i h occurred e cols d
    = (Inr (fresh_row i h occurred e cols hash), store_row (fresh_row i h occurred e cols hash) d)"
proof -
  obtain p where p: "canonical_payload (semantic_payload e cols) (ch_id h) (ch_sequence h + 1) i occurred (ch_hash h) = Inr p"
    using assms(2,3) by (simp add: canonical_payload_def canonical_uuid_def)
  from jcs_fine_payload [OF assms(4) p] have "jcs_fine p" .
  then obtain t where "jcs p = Inr t" using jcs_fine_ok by (auto simp: ok_iff)
  with p assms(1,5) show ?thesis
    by (intro exI [of _ "sha256_hex (utf8 t)"]) (simp add: add_event_def jcs_hash_def jcs_bytes_def op_defs)
qed

lemma demo_event: "audit_registry ''LOGIN_SUCCESS'' = Some (registered ''LOGIN_SUCCESS'' CAT_SECURITY ''LOGIN'' [AK_USER] [ST_SESSION] TR_SYSTEM False [])"
  by (simp add: registry_defs)

definition demo_draft :: event_draft where
  "demo_draft = \<lparr>dr_event = registered ''LOGIN_SUCCESS'' CAT_SECURITY ''LOGIN'' [AK_USER] [ST_SESSION] TR_SYSTEM False [],
     dr_actor = rq_actor demo_login_event,
     dr_snapshot = Some \<lparr>as_member = None, as_role = None, as_permissions = None\<rparr>,
     dr_tenant = rq_tenant demo_login_event, dr_subject = rq_subject demo_login_event, dr_second = None,
     dr_outcome = AO_SUCCESS, dr_decision = AZ_NOT_APPLICABLE, dr_trace = rq_trace demo_login_event, dr_metadata = [],
     dr_evidence = [], dr_before = None, dr_after = None\<rparr>"

lemma demo_drafted: "audit_draft ps w demo_login_event = Inr demo_draft"
  by (simp add: audit_draft_def demo_login_event_def demo_event demo_draft_def validate_tenant_def audit_check_def metadata_schema_def
      actor_snapshot_def sanitize_metadata_def too_deep_def jcs_bytes_def resolved_subject_def subject_id_def safe_evidence_def
      safe_trace_def audit_id_def no_trace_def registered_def map_filter_simps code_def join_def utf8_Cons utf8_char_def)

lemma insert_audit_run:
  assumes "draft_columns ps (ad_web d) dr = Inr cols" and "keyed_row c (tr_key (dr_trace dr)) d = None"
    and "lookup_row ch_id c (ad_heads d) = Some h" and "ch_sequence h + 1 = 1 \<longrightarrow> ch_hash h = zero_hash"
    and "uuid_text (ch_id h) = Some c'" and "uuid_text i = Some j" and "jcs_fine (JObj (ec_metadata cols))"
    and "\<And>hash. \<not> row_refused d (fresh_row i h occurred (dr_event dr) cols hash)"
  shows "\<exists>hash. insert_audit ps i c occurred dr d = (Inr (fresh_row i h occurred (dr_event dr) cols hash, False),
     store_row (fresh_row i h occurred (dr_event dr) cols hash) d)"
  using assms(1-3) add_event_run [OF assms(4-8)] by (auto simp: insert_audit_def op_defs)

definition demo_head :: chain_head where
  "demo_head = \<lparr>ch_id = demo_uuid ''1'', ch_org = None, ch_sequence = 0, ch_hash = zero_hash, ch_format = audit_format_version\<rparr>"

definition demo_opened :: audit_db where
  "demo_opened = (no_history demo_web)\<lparr>ad_heads := [demo_head]\<rparr>"

definition demo_genesis :: event_draft where
  "demo_genesis = system_draft (registered_named ''AUDIT_CHAIN_GENESIS'') \<lparr>tn_org = None, tn_participant = None\<rparr>
     \<lparr>sj_type = ST_AUDIT_CHAIN, sj_id = demo_uuid ''1'', sj_plain = False\<rparr> None ''genesis:v1'' [] []"

definition demo_columns_of :: "event_draft \<Rightarrow> pystr \<Rightarrow> nat option \<Rightarrow> event_columns" where
  "demo_columns_of dr i u = \<lparr>ec_tenant = \<lparr>tn_org = None, tn_participant = None\<rparr>, ec_kind = actor_kind_value (ac_kind (dr_actor dr)),
     ec_user = u, ec_member = None, ec_role = None, ec_permissions = None,
     ec_subject_type = subject_type_value (sj_type (dr_subject dr)), ec_subject = i, ec_second_type = None, ec_second = None,
     ec_outcome = ''SUCCESS'', ec_decision = ''NOT_APPLICABLE'', ec_trace = dr_trace dr, ec_metadata = [], ec_evidence = [],
     ec_before = None, ec_after = None\<rparr>"

lemma demo_columns_found:
  "draft_columns ps w demo_genesis = Inr (demo_columns_of demo_genesis (demo_uuid ''1'') None)"
  "draft_columns ps w demo_draft = Inr (demo_columns_of demo_draft ''s1'' (Some 1))"
  by (simp_all add: draft_columns_def demo_genesis_def demo_draft_def demo_login_event_def system_draft_def registered_named_def registry_defs
      actor_snapshot_def audit_check_def subject_id_def audit_id_def demo_uuid_def code_def demo_columns_of_def)

lemma demo_genesis_run:
  "\<exists>r t. audit_chain ps demo_fresh 0 \<lparr>tn_org = None, tn_participant = None\<rparr> (no_history demo_web) = (Inr (demo_uuid ''1''), t)
     \<and> t = store_row r demo_opened \<and> ae_chain r = demo_uuid ''1'' \<and> ae_sequence r = 1 \<and> ae_id r = demo_uuid ''2''
     \<and> tr_key (ec_trace (ae_columns r)) = Some ''genesis:v1'' \<and> ec_metadata (ae_columns r) = []"
proof -
  let ?cols = "demo_columns_of demo_genesis (demo_uuid ''1'') None"
  have "\<exists>hash. insert_audit ps (demo_uuid ''2'') (demo_uuid ''1'') 0 demo_genesis demo_opened
      = (Inr (fresh_row (demo_uuid ''2'') demo_head 0 (dr_event demo_genesis) ?cols hash, False),
         store_row (fresh_row (demo_uuid ''2'') demo_head 0 (dr_event demo_genesis) ?cols hash) demo_opened)"
    by (rule insert_audit_run) (simp_all add: demo_columns_found demo_opened_def demo_head_def no_history_def keyed_row_def demo_uuids
        demo_columns_of_def row_refused_def fresh_row_def)
  then obtain hash where run: "insert_audit ps (demo_uuid ''2'') (demo_uuid ''1'') 0 demo_genesis demo_opened
      = (Inr (fresh_row (demo_uuid ''2'') demo_head 0 (dr_event demo_genesis) ?cols hash, False),
         store_row (fresh_row (demo_uuid ''2'') demo_head 0 (dr_event demo_genesis) ?cols hash) demo_opened)" by blast
  have "create_head demo_fresh None (no_history demo_web) = (Inr (), demo_opened)"
    by (simp add: create_head_def op_defs no_history_def demo_opened_def demo_head_def demo_fresh_def)
  with run have "audit_chain ps demo_fresh 0 \<lparr>tn_org = None, tn_participant = None\<rparr> (no_history demo_web)
      = (Inr (demo_uuid ''1''), store_row (fresh_row (demo_uuid ''2'') demo_head 0 (dr_event demo_genesis) ?cols hash) demo_opened)"
    by (simp add: audit_chain_def settle_head_def op_defs find_head_def no_history_def demo_opened_def demo_head_def append_genesis_def
        demo_genesis_def demo_fresh_def)
  then show ?thesis
    by (auto simp: demo_head_def demo_columns_of_def demo_genesis_def system_draft_def no_trace_def fresh_row_def)
qed

lemma demo_login_fields:
  "rq_tenant demo_login_event = \<lparr>tn_org = None, tn_participant = None\<rparr>" "rq_before demo_login_event = None"
  "rq_after demo_login_event = None" "rq_time demo_login_event = None" "\<not> rq_checkpoint demo_login_event"
  "fr_event demo_fresh = demo_uuid ''3''"
  by (simp_all add: demo_login_event_def demo_fresh_def)

lemma demo_login_run:
  "\<exists>r g q t. append_event ps demo_fresh 0 demo_login_event (no_history demo_web) = (Inr r, t)
     \<and> t = store_row q (store_row g demo_opened) \<and> ae_sequence g = 1 \<and> ae_sequence q = 2
     \<and> ae_chain g = demo_uuid ''1'' \<and> ae_chain q = demo_uuid ''1'' \<and> rt_converged r = False
     \<and> ec_metadata (ae_columns q) = [] \<and> ec_metadata (ae_columns g) = []"
proof -
  obtain g where g: "audit_chain ps demo_fresh 0 \<lparr>tn_org = None, tn_participant = None\<rparr> (no_history demo_web)
      = (Inr (demo_uuid ''1''), store_row g demo_opened)" "ae_chain g = demo_uuid ''1''" "ae_sequence g = 1"
      "ae_id g = demo_uuid ''2''" "tr_key (ec_trace (ae_columns g)) = Some ''genesis:v1''" "ec_metadata (ae_columns g) = []"
    using demo_genesis_run by blast
  let ?d = "store_row g demo_opened" and ?cols = "demo_columns_of demo_draft ''s1'' (Some 1)"
  have "\<exists>hash. insert_audit ps (demo_uuid ''3'') (demo_uuid ''1'') 0 demo_draft ?d
      = (Inr (fresh_row (demo_uuid ''3'') (head_after g demo_head) 0 (dr_event demo_draft) ?cols hash, False),
         store_row (fresh_row (demo_uuid ''3'') (head_after g demo_head) 0 (dr_event demo_draft) ?cols hash) ?d)"
  proof (rule insert_audit_run [where h = "head_after g demo_head"])
    have d: "ad_heads ?d = [head_after g demo_head]" "ad_events ?d = [g]" "ad_web ?d = demo_web"
      using g by (simp_all add: demo_opened_def store_row_def update_rows_def demo_head_def head_after_def no_history_def)
    show "draft_columns ps (ad_web ?d) demo_draft = Inr ?cols" by (rule demo_columns_found(2))
    show "keyed_row (demo_uuid ''1'') (tr_key (dr_trace demo_draft)) ?d = None"
      using g d by (simp add: keyed_row_def demo_draft_def demo_login_event_def)
    show "\<not> row_refused ?d (fresh_row (demo_uuid ''3'') (head_after g demo_head) 0 (dr_event demo_draft) ?cols hash)" for hash
      using g d by (simp add: row_refused_def fresh_row_def demo_columns_of_def demo_draft_def demo_login_event_def head_after_def
        demo_head_def demo_uuid_def find_user_def demo_web_def demo_user_def)
  qed (use g in \<open>simp_all add: store_row_def update_rows_def demo_opened_def demo_head_def head_after_def demo_uuids
      demo_columns_of_def\<close>)
  then obtain hash where "insert_audit ps (demo_uuid ''3'') (demo_uuid ''1'') 0 demo_draft ?d
      = (Inr (fresh_row (demo_uuid ''3'') (head_after g demo_head) 0 (dr_event demo_draft) ?cols hash, False),
         store_row (fresh_row (demo_uuid ''3'') (head_after g demo_head) 0 (dr_event demo_draft) ?cols hash) ?d)" by blast
  moreover have "demo_draft\<lparr>dr_before := None, dr_after := None\<rparr> = demo_draft" by (simp add: demo_draft_def)
  ultimately have "append_event ps demo_fresh 0 demo_login_event (no_history demo_web)
      = (Inr (receipt_of (fresh_row (demo_uuid ''3'') (head_after g demo_head) 0 (dr_event demo_draft) ?cols hash) False),
         store_row (fresh_row (demo_uuid ''3'') (head_after g demo_head) 0 (dr_event demo_draft) ?cols hash) ?d)"
    using g(1) by (simp add: append_event_def op_defs demo_drafted demo_login_fields safe_hash_def insert_locked_def)
  moreover have "ae_sequence q = 2" "ae_chain q = demo_uuid ''1''" "ec_metadata (ae_columns q) = []" "rt_converged (receipt_of q False) = False"
    if "q = fresh_row (demo_uuid ''3'') (head_after g demo_head) 0 (dr_event demo_draft) ?cols hash" for q
    using g by (simp_all add: that head_after_def demo_head_def receipt_of_def demo_columns_of_def)
  ultimately show ?thesis using g by blast
qed

section \<open>Theorems\<close>

text \<open>Whatever events were appended, whether the calls succeeded or raised, every chain of the history
  passes its full verification, with as many events as its head says.\<close>

theorem appended_history_verifies:
  assumes "audit_step\<^sup>*\<^sup>* (no_history w) d" and "h \<in> set (ad_heads d)"
  shows "\<exists>v. verify_from h 1 supplied d = Inr v \<and> vr_status v = ''VALID'' \<and> vr_count v = ch_sequence h"
  using sealed_verifies [OF sealed_head [OF history_sealed [OF assms(1)] assms(2)]] .

theorem appended_history_verifies_witness:
  "\<exists>d h. audit_step\<^sup>*\<^sup>* (no_history demo_web) d \<and> h \<in> set (ad_heads d) \<and> ch_sequence h = 2
     \<and> (\<exists>v. verify_from h 1 None d = Inr v \<and> vr_status v = ''VALID'' \<and> vr_count v = 2)"
proof -
  obtain r g q t where run: "append_event demo_pseudonyms demo_fresh 0 demo_login_event (no_history demo_web) = (Inr r, t)"
    and t: "t = store_row q (store_row g demo_opened)" and q: "ae_sequence q = 2" "ae_chain q = demo_uuid ''1''"
    using demo_login_run by blast
  have step: "audit_step\<^sup>*\<^sup>* (no_history demo_web) t" using run by (blast intro: step_append)
  have "\<exists>h\<in>set (ad_heads t). ch_sequence h = 2"
    using q by (simp add: t store_row_def update_rows_def demo_opened_def demo_head_def)
  then obtain h where h: "h \<in> set (ad_heads t)" "ch_sequence h = 2" by blast
  from appended_history_verifies [OF step h(1), of None] step h show ?thesis by auto
qed

text \<open>Two chains that both pass the full verification and have the same head hold the same events, one
  by one, in every column the hash covers, unless two of their events have different payloads with one
  SHA-256.\<close>

theorem same_head_same_history:
  assumes "verify_from h 1 given_hash d = Inr v" and "vr_status v = ''VALID''"
    and "verify_from h' 1 given_hash' d' = Inr v'" and "vr_status v' = ''VALID''"
    and "ch_sequence h = ch_sequence h'" and "ch_hash h = ch_hash h'" and "ch_sequence h \<noteq> 0"
    and "\<forall>r \<in> set (ad_events d) \<union> set (ad_events d'). no_floats r"
  shows "map audited (chain_rows d (ch_id h) 1) = map audited (chain_rows d' (ch_id h') 1)
    \<or> (\<exists>r\<in>set (chain_rows d (ch_id h) 1). \<exists>s\<in>set (chain_rows d' (ch_id h') 1). payload_collision r s)"
proof -
  let ?xs = "chain_rows d (ch_id h) 1" and ?ys = "chain_rows d' (ch_id h') 1"
  have n': "ch_sequence h' \<noteq> 0" using assms(5,7) by simp
  note x = verified_linked [OF assms(1,2,7)] and y = verified_linked [OF assms(3,4) n']
  show ?thesis
  proof (rule same_end_same_rows [OF x(1) y(1)])
    show "length ?xs = length ?ys"
      using linked_length [OF x(1,2)] linked_length [OF y(1,2)] x(3) y(3) assms(5) by simp
    show "chain_end zero_hash ?xs = chain_end zero_hash ?ys" using x(2,4) y(2,4) assms(6) by (simp add: chain_end_def)
    show "\<forall>r\<in>set ?xs \<union> set ?ys. no_floats r" using assms(8) by (auto simp: chain_rows_def)
  qed
qed

theorem same_head_same_history_witness:
  "\<exists>d h v. verify_from h 1 None d = Inr v \<and> vr_status v = ''VALID'' \<and> ch_sequence h = 2 \<and> (\<forall>r\<in>set (ad_events d). no_floats r)
     \<and> (map audited (chain_rows d (ch_id h) 1) = map audited (chain_rows d (ch_id h) 1)
        \<or> (\<exists>r\<in>set (chain_rows d (ch_id h) 1). \<exists>s\<in>set (chain_rows d (ch_id h) 1). payload_collision r s))"
proof -
  obtain r g q t where run: "append_event demo_pseudonyms demo_fresh 0 demo_login_event (no_history demo_web) = (Inr r, t)"
    and t: "t = store_row q (store_row g demo_opened)" and q: "ae_sequence q = 2" "ae_chain q = demo_uuid ''1''"
      "ec_metadata (ae_columns q) = []" "ec_metadata (ae_columns g) = []"
    using demo_login_run by blast
  have sealed: "sealed t" using history_sealed run by (blast intro: step_append)
  have "\<exists>h\<in>set (ad_heads t). ch_sequence h = 2"
    using q by (simp add: t store_row_def update_rows_def demo_opened_def demo_head_def)
  then obtain h where h: "h \<in> set (ad_heads t)" "ch_sequence h = 2" by blast
  obtain v where v: "verify_from h 1 None t = Inr v" "vr_status v = ''VALID''"
    using sealed_verifies [OF sealed_head [OF sealed h(1)]] by blast
  have free: "\<forall>r\<in>set (ad_events t). no_floats r"
    using q by (simp add: t demo_opened_def no_history_def no_floats_def)
  have "ch_sequence h \<noteq> 0" using h by simp
  with same_head_same_history [OF v v refl refl this] free v h show ?thesis by (metis Un_iff)
qed

section \<open>Rows that differ only in the columns no hash covers\<close>

definition relabel :: "(sealed_row \<Rightarrow> pystr) \<Rightarrow> (sealed_row \<Rightarrow> pystr) \<Rightarrow> sealed_row \<Rightarrow> sealed_row" where
  "relabel cat act r = r\<lparr>ae_category := cat r, ae_action := act r\<rparr>"

lemma relabel_simps [simp]:
  "ae_chain (relabel cat act r) = ae_chain r" "ae_sequence (relabel cat act r) = ae_sequence r"
  "ae_hash (relabel cat act r) = ae_hash r" "ae_id (relabel cat act r) = ae_id r" "ae_type (relabel cat act r) = ae_type r"
  "ae_columns (relabel cat act r) = ae_columns r" "ae_previous (relabel cat act r) = ae_previous r"
  "ae_format (relabel cat act r) = ae_format r" "ae_time (relabel cat act r) = ae_time r"
  by (simp_all add: relabel_def)

lemma row_fault_relabel [simp]: "row_fault previous n (relabel cat act r) = row_fault previous n r"
proof -
  have payload: "row_payload (relabel cat act r) = row_payload r"
    unfolding row_payload_def row_semantic_def relabel_simps ..
  show ?thesis unfolding row_fault_def relabel_simps payload ..
qed

lemma insort_key_map: "(\<And>x. k (f x) = k x) \<Longrightarrow> insort_key k (f x) (map f xs) = map f (insort_key k x xs)"
  by (induction xs) auto

lemma sort_key_map: "(\<And>x. k (f x) = k x) \<Longrightarrow> sort_key k (map f xs) = map f (sort_key k xs)"
  by (induction xs) (auto simp: insort_key_map)

lemma find_map_same: "(\<And>x. P (f x) = P x) \<Longrightarrow> find P (map f xs) = map_option f (find P xs)"
  by (induction xs) auto

lemma verify_rows_relabel: "verify_rows h start previous n k (map (relabel cat act) rows) = verify_rows h start previous n k rows"
proof (induction rows arbitrary: previous n k)
  case (Cons r rows)
  show ?case
  proof (cases "row_fault previous n r")
    case (Inr fault)
    then show ?thesis using Cons by (cases fault) auto
  qed simp
qed simp

lemma last_sequence_relabel: "last_sequence (map (relabel cat act) rows) n = last_sequence rows n"
  by (simp add: last_sequence_def last_map)

lemma verify_end_map:
  assumes "verify_points d' (ch_id h) zero_hash (chain_checkpoints d' (ch_id h)) = verify_points d (ch_id h) zero_hash (chain_checkpoints d (ch_id h))"
  shows "verify_end h start d' (map (relabel cat act) rows) = verify_end h start d rows"
  unfolding verify_end_def assms length_map last_sequence_relabel by (cases "rows = []") (simp_all add: last_map)

text \<open>Changing the category and the action that the table stores for any events is not noticed by any
  verification: the payload takes both from the registry.\<close>

theorem relabelled_history_verifies:
  "verify_from h start given_hash (d\<lparr>ad_events := map (relabel cat act) (ad_events d)\<rparr>) = verify_from h start given_hash d"
proof -
  let ?d = "d\<lparr>ad_events := map (relabel cat act) (ad_events d)\<rparr>"
  have rows: "chain_rows ?d c n = map (relabel cat act) (chain_rows d c n)" for c n
    by (simp add: chain_rows_def filter_map comp_def sort_key_map)
  have row: "row_at ?d c n = map_option (relabel cat act) (row_at d c n)" for c n
    by (simp add: row_at_def find_map_same)
  have "point_fault ?d = point_fault d" by (intro ext) (auto simp: point_fault_def row split: option.splits)
  then have "verify_points ?d c q ps = verify_points d c q ps" for c q ps
    by (induction ps arbitrary: q) (simp_all cong: if_cong)
  then have "verify_points ?d (ch_id h) zero_hash (chain_checkpoints ?d (ch_id h)) = verify_points d (ch_id h) zero_hash (chain_checkpoints d (ch_id h))"
    by (simp add: chain_checkpoints_def)
  note ending = verify_end_map [OF this]
  have "map_option ae_hash (row_at ?d c n) = map_option ae_hash (row_at d c n)" for c n
    by (simp add: row option.map_comp comp_def)
  then show ?thesis unfolding verify_from_def Let_def rows verify_rows_relabel ending by simp
qed

section \<open>What metadata a history keeps\<close>

definition clean :: "audit_db \<Rightarrow> bool" where
  "clean d \<longleftrightarrow> (\<forall>r\<in>set (ad_events d). redacted (JObj (ec_metadata (ae_columns r))))"

lemma draft_metadata: "draft_columns ps w dr = Inr cols \<Longrightarrow> ec_metadata cols = dr_metadata dr"
  by (auto simp: draft_columns_def bind_Inr_iff split: option.splits)

lemma insert_audit_clean:
  assumes "clean d" and "redacted (JObj (dr_metadata dr))"
  shows "wp (insert_audit ps i c occurred dr) (\<lambda>_. clean) clean d"
  using assms draft_metadata
  by (auto simp: insert_audit_def add_event_def wp_lift clean_def simp del: redacted.simps split: sum.splits option.splits)

lemma maybe_checkpoint_clean:
  assumes "clean d"
  shows "wp (maybe_checkpoint ps fr now r tn) (\<lambda>_. clean) clean d"
proof -
  have keys: "\<not> secret_key k \<and> \<not> marking_key k" if "k \<in> {''checkpoint_id'', ''checkpoint_hash'', ''through_sequence''}" for k
    using that by (elim insertE) (simp_all, code_simp+)
  have "redacted (JObj (dr_metadata (checkpoint_draft tn p)))" for p
    using keys by (simp add: checkpoint_draft_def system_draft_def)
  moreover have "clean (add_point p d)" for p using assms by (simp add: clean_def)
  ultimately show ?thesis
    using assms insert_audit_clean by (auto simp: maybe_checkpoint_def wp_lift split: sum.splits)
qed

lemma insert_locked_clean:
  assumes "clean d" and "redacted (JObj (dr_metadata dr))"
  shows "wp (insert_locked ps fr now checkpoints c occurred dr) (\<lambda>_. clean) clean d"
  unfolding insert_locked_def wp_seq
  by (rule wp_mono [OF insert_audit_clean [OF assms]]) (auto split: prod.splits if_splits intro: maybe_checkpoint_clean)

lemma settle_head_clean: "clean d \<Longrightarrow> wp (settle_head ps fr now tn) (\<lambda>_. clean) clean d"
  using insert_audit_clean by (auto simp: settle_head_def append_genesis_def system_draft_def split: option.splits)

lemma audit_chain_clean:
  assumes d: "clean d"
  shows "wp (audit_chain ps fr now tn) (\<lambda>_. clean) clean d"
proof -
  have "wp (create_head fr (tn_org tn)) (\<lambda>_. clean) clean d" using d by (simp add: create_head_def clean_def)
  then show ?thesis using d settle_head_clean by (auto simp: audit_chain_def intro: wp_mono)
qed

lemma audit_draft_presentable: "audit_draft ps w q = Inr dr \<Longrightarrow> presentable (JObj (dr_metadata dr))"
proof -
  have "presentable (JObj m)" if made: "sanitize_metadata ps org kvs = Inr m" for org kvs m
  proof -
    obtain v where v: "sanitize ps org 0 (JObj kvs) = Inr v"
      using made by (auto simp: sanitize_metadata_def bind_Inr_iff simp del: sanitize.simps)
    with made have "v = JObj m"
      by (cases v) (auto simp: sanitize_metadata_def bind_Inr_iff simp del: sanitize.simps split: if_splits)
    with sanitize_presentable [OF v] show ?thesis by simp
  qed
  then show "audit_draft ps w q = Inr dr \<Longrightarrow> presentable (JObj (dr_metadata dr))"
    by (auto simp: audit_draft_def bind_Inr_iff split: option.splits prod.splits if_splits)
qed

lemma audit_draft_clean: "audit_draft ps w q = Inr dr \<Longrightarrow> redacted (JObj (dr_metadata dr))"
  using audit_draft_presentable presentable_def by blast

lemma append_event_clean:
  assumes d: "clean d"
  shows "wp (append_event ps fr now q) (\<lambda>_. clean) clean d"
proof (cases "audit_draft ps (ad_web d) q")
  case (Inr dr)
  have "redacted (JObj (dr_metadata (dr\<lparr>dr_before := b, dr_after := a\<rparr>)))" for a b
    using audit_draft_clean [OF Inr] by (simp del: redacted.simps)
  then have insert: "wp (insert_locked ps fr now k c occurred (dr\<lparr>dr_before := b, dr_after := a\<rparr>)) (\<lambda>_. clean) clean t"
    if "clean t" for k c occurred b a t
    using insert_locked_clean [OF that] by blast
  have "wp (audit_chain ps fr now (rq_tenant q)) (\<lambda>c. wp (seq (lift (safe_hash (rq_before q))) (\<lambda>before.
     seq (lift (safe_hash (rq_after q))) (\<lambda>after.
     seq (lift (case rq_time q of None \<Rightarrow> Inr now | Some t \<Rightarrow> utc_time t)) (\<lambda>occurred.
       insert_locked ps fr now (rq_checkpoint q) c occurred (dr\<lparr>dr_before := before, dr_after := after\<rparr>)))))
     (\<lambda>_. clean) clean) clean d"
    by (rule wp_mono [OF audit_chain_clean [OF d]]) (auto simp: wp_lift insert split: sum.splits)
  with Inr show ?thesis by (simp add: append_event_def wp_lift)
qed (use d in \<open>simp add: append_event_def wp_lift\<close>)

lemma audit_step_clean: "audit_step d t \<Longrightarrow> clean d \<Longrightarrow> clean t"
proof (induction rule: audit_step.induct)
  case (step_append ps fr now q d r t)
  from wp_state [OF append_event_clean [OF step_append(2)] step_append(1)] show ?case .
next
  case (step_resolve ps fr now tn d c t)
  from wp_state [OF audit_chain_clean [OF step_resolve(2)] step_resolve(1)] show ?case .
qed (simp add: clean_def)

text \<open>In every event of every history, at any depth of its metadata, the value under a key that names a
  secret is the redaction mark, and a value under a key that names a marking code is a pseudonym or the
  redaction mark.\<close>

theorem history_metadata_is_redacted:
  assumes "audit_step\<^sup>*\<^sup>* (no_history w) d" and "r \<in> set (ad_events d)"
  shows "redacted (JObj (ec_metadata (ae_columns r)))"
proof -
  from assms(1) have "clean d"
  proof (induction rule: rtranclp_induct)
    case base
    show ?case by (simp add: clean_def no_history_def)
  qed (rule audit_step_clean)
  with assms(2) show ?thesis unfolding clean_def by blast
qed

theorem history_metadata_is_redacted_witness:
  "\<exists>d r. audit_step\<^sup>*\<^sup>* (no_history demo_web) d \<and> r \<in> set (ad_events d) \<and> redacted (JObj (ec_metadata (ae_columns r)))"
proof -
  obtain r g q t where run: "append_event demo_pseudonyms demo_fresh 0 demo_login_event (no_history demo_web) = (Inr r, t)"
    and t: "t = store_row q (store_row g demo_opened)"
    using demo_login_run by blast
  have step: "audit_step\<^sup>*\<^sup>* (no_history demo_web) t" using run by (blast intro: step_append)
  have "q \<in> set (ad_events t)" by (simp add: t)
  from history_metadata_is_redacted [OF step this] step this show ?thesis by blast
qed

section \<open>Operations only add to a history\<close>

definition head_key :: "chain_head \<Rightarrow> pystr \<times> pystr option \<times> pystr" where
  "head_key h = (ch_id h, ch_org h, ch_format h)"

definition grown :: "audit_db \<Rightarrow> audit_db \<Rightarrow> bool" where
  "grown d t \<longleftrightarrow> ad_web t = ad_web d \<and> map head_key (ad_heads t) = map head_key (ad_heads d)
     \<and> (\<exists>xs. ad_events t = ad_events d @ xs)"

lemma grown_refl [simp]: "grown d d"
  by (simp add: grown_def)

lemma grown_trans: "grown d t \<Longrightarrow> grown t u \<Longrightarrow> grown d u"
  by (auto simp: grown_def)

lemma grown_web: "grown d t \<Longrightarrow> ad_web t = ad_web d"
  by (simp add: grown_def)

lemma grown_store [simp]: "grown d (store_row r d)"
  by (auto simp: grown_def store_row_def update_rows_def head_key_def)

lemma grown_point [simp]: "grown d (add_point p d)"
  by (auto simp: grown_def)

lemma lookup_head:
  "map head_key hs = map head_key gs \<Longrightarrow> lookup_row ch_org org hs = Some h \<Longrightarrow>
     \<exists>g. lookup_row ch_org org gs = Some g \<and> ch_id g = ch_id h \<and> ch_format g = ch_format h"
proof (induction hs arbitrary: gs)
  case (Cons x hs)
  then obtain y ys where "gs = y # ys" "head_key y = head_key x" "map head_key ys = map head_key hs" by (cases gs) auto
  with Cons show ?case by (auto simp: head_key_def split: if_splits)
qed simp

lemma find_append: "find P (xs @ ys) = (case find P xs of None \<Rightarrow> find P ys | Some x \<Rightarrow> Some x)"
  by (induction xs) auto

lemma keyed_row_grown: "keyed_row c k d = Some r \<Longrightarrow> grown d t \<Longrightarrow> keyed_row c k t = Some r"
  by (auto simp: keyed_row_def grown_def find_append split: if_splits)

lemma draft_trace: "draft_columns ps w dr = Inr cols \<Longrightarrow> ec_trace cols = dr_trace dr"
  by (auto simp: draft_columns_def bind_Inr_iff split: option.splits)

definition carries :: "sealed_row \<Rightarrow> registered_event \<Rightarrow> event_columns \<Rightarrow> bool" where
  "carries r e cols \<longleftrightarrow> bind (row_semantic r) (\<lambda>s. jcs_bytes (JObj s)) = jcs_bytes (JObj (semantic_payload e cols))"

lemma add_event_grown:
  assumes "audit_registry (re_type e) = Some e" and "tr_key (ec_trace cols) = k" and "keyed_row (ch_id h) k d = None"
  shows "wp (add_event i h occurred e cols) (\<lambda>r t. grown d t \<and> carries r e cols \<and> ae_chain r = ch_id h
    \<and> (truthy k \<longrightarrow> keyed_row (ch_id h) k t = Some r)) (grown d) d"
proof -
  have "carries (fresh_row i h occurred e cols hash) e cols" for hash
    using assms(1) by (simp add: carries_def row_semantic_def)
  moreover have "keyed_row (ch_id h) k (store_row (fresh_row i h occurred e cols hash) d) = Some (fresh_row i h occurred e cols hash)"
    if "truthy k" for hash
    using that assms(2,3) by (simp add: keyed_row_def find_append)
  ultimately show ?thesis by (auto simp: add_event_def wp_lift split: sum.splits)
qed

lemma insert_audit_grown:
  assumes "audit_registry (re_type (dr_event dr)) = Some (dr_event dr)"
  shows "wp (insert_audit ps i c occurred dr) (\<lambda>p t. grown d t \<and> (\<exists>cols. draft_columns ps (ad_web d) dr = Inr cols
      \<and> carries (fst p) (dr_event dr) cols)
      \<and> (truthy (tr_key (dr_trace dr)) \<longrightarrow> keyed_row c (tr_key (dr_trace dr)) t = Some (fst p))) (grown d) d"
proof (cases "draft_columns ps (ad_web d) dr")
  case (Inr cols)
  show ?thesis
  proof (cases "keyed_row c (tr_key (dr_trace dr)) d")
    case None
    have "wp (add_event i h occurred (dr_event dr) cols) (\<lambda>r t. grown d t \<and> carries r (dr_event dr) cols
        \<and> (truthy (tr_key (dr_trace dr)) \<longrightarrow> keyed_row c (tr_key (dr_trace dr)) t = Some r)) (grown d) d"
      if "lookup_row ch_id c (ad_heads d) = Some h" for h
    proof -
      have "ch_id h = c" using lookup_row_Some [OF that] by simp
      then show ?thesis
        using add_event_grown [OF assms, of cols "tr_key (dr_trace dr)" h d i occurred] None draft_trace [OF Inr]
        by (auto elim!: wp_mono)
    qed
    with Inr None show ?thesis by (auto simp: insert_audit_def wp_lift split: option.splits)
  next
    case (Some r)
    with Inr show ?thesis by (auto simp: insert_audit_def wp_lift carries_def split: sum.splits)
  qed
qed (simp add: insert_audit_def wp_lift)

lemma registered_names:
  "audit_registry (re_type (registered_named ''AUDIT_CHAIN_GENESIS'')) = Some (registered_named ''AUDIT_CHAIN_GENESIS'')"
  "audit_registry (re_type (registered_named ''CHECKPOINT_CREATED'')) = Some (registered_named ''CHECKPOINT_CREATED'')"
  using genesis_registered [of 1] checkpoint_registered [of 1] by (simp_all add: registered_event_of_def)

lemma maybe_checkpoint_grown: "wp (maybe_checkpoint ps fr now r tn) (\<lambda>_. grown d) (grown d) d"
proof -
  have "wp (insert_audit ps i c occurred (checkpoint_draft tn p)) (\<lambda>_. grown d) (grown d) (add_point q d)" for i c occurred p q
    by (rule wp_mono [OF insert_audit_grown])
      (auto simp: checkpoint_draft_def system_draft_def registered_names intro: grown_trans [OF grown_point])
  then show ?thesis by (auto simp: maybe_checkpoint_def wp_lift split: sum.splits)
qed

lemma append_genesis_grown: "wp (append_genesis ps fr now c tn) (\<lambda>_. grown d) (grown d) d"
proof -
  have "wp (insert_audit ps i c now (system_draft (registered_named ''AUDIT_CHAIN_GENESIS'') tn s None k [] [])) (\<lambda>_. grown d) (grown d) d"
    for i s k
    by (rule wp_mono [OF insert_audit_grown]) (auto simp: system_draft_def registered_names)
  then show ?thesis by (simp add: append_genesis_def)
qed

definition settled :: "pystr option \<Rightarrow> pystr \<Rightarrow> audit_db \<Rightarrow> bool" where
  "settled org c d \<longleftrightarrow> (\<exists>h. find_head org d = Some h \<and> ch_id h = c \<and> ch_format h = audit_format_version)"

lemma settled_grown: "settled org c d \<Longrightarrow> grown d t \<Longrightarrow> settled org c t"
  unfolding settled_def find_head_def grown_def using lookup_head [of "ad_heads d" "ad_heads t" org] by metis

lemma create_head_web: "wp (create_head fr org) (\<lambda>_ t. ad_web t = ad_web d) (\<lambda>_. True) d"
  by (simp add: create_head_def)

lemma audit_chain_settled:
  "wp (audit_chain ps fr now tn) (\<lambda>c t. settled (tn_org tn) c t \<and> ad_web t = ad_web d) (\<lambda>_. True) d"
proof -
  have settle: "wp (settle_head ps fr now tn) (\<lambda>c t. settled (tn_org tn) c t \<and> ad_web t = ad_web d) (\<lambda>_. True) u"
    if web: "ad_web u = ad_web d" for u
  proof (cases "find_head (tn_org tn) u")
    case (Some h)
    have "wp (append_genesis ps fr now (ch_id h) tn) (\<lambda>_ t. settled (tn_org tn) (ch_id h) t \<and> ad_web t = ad_web d) (\<lambda>_. True) u"
      if "ch_format h = audit_format_version"
    proof (rule wp_mono [OF append_genesis_grown])
      have here: "settled (tn_org tn) (ch_id h) u" using that Some by (simp add: settled_def)
      show "settled (tn_org tn) (ch_id h) t \<and> ad_web t = ad_web d" if "grown u t" for t
        using settled_grown [OF here that] grown_web [OF that] web by simp
    qed simp
    with Some web show ?thesis by (simp add: settle_head_def settled_def [of _ _ u])
  qed (simp add: settle_head_def)
  then show ?thesis
    by (auto simp: audit_chain_def intro: wp_mono [OF create_head_web])
qed

text \<open>An event with a key is found under its key from then on.\<close>

definition recorded :: "pseudonymizer \<Rightarrow> web_db \<Rightarrow> pystr \<Rightarrow> event_draft \<Rightarrow> sealed_row \<Rightarrow> audit_db \<Rightarrow> bool" where
  "recorded ps w c dr r t \<longleftrightarrow> (\<exists>cols. draft_columns ps w dr = Inr cols \<and> carries r (dr_event dr) cols)
     \<and> keyed_row c (tr_key (dr_trace dr)) t = Some r"

lemma insert_locked_grown:
  assumes "audit_registry (re_type (dr_event dr)) = Some (dr_event dr)" and "truthy (tr_key (dr_trace dr))"
  shows "wp (insert_locked ps fr now checkpoints c occurred dr)
    (\<lambda>x t. grown d t \<and> (\<exists>r again. x = receipt_of r again \<and> recorded ps (ad_web d) c dr r t)) (grown d) d"
  unfolding insert_locked_def wp_seq
proof (rule wp_mono [OF insert_audit_grown [OF assms(1)]])
  fix p :: "sealed_row \<times> bool" and t
  assume *: "grown d t \<and> (\<exists>cols. draft_columns ps (ad_web d) dr = Inr cols \<and> carries (fst p) (dr_event dr) cols)
    \<and> (truthy (tr_key (dr_trace dr)) \<longrightarrow> keyed_row c (tr_key (dr_trace dr)) t = Some (fst p))"
  obtain r again where p: "p = (r, again)" by (cases p)
  have rec: "grown d u \<and> recorded ps (ad_web d) c dr r u" if "grown t u" for u
  proof
    show "grown d u" using * that by (blast intro: grown_trans)
    have "keyed_row c (tr_key (dr_trace dr)) t = Some r" using * assms(2) by (simp add: p)
    from keyed_row_grown [OF this that] * show "recorded ps (ad_web d) c dr r u" by (simp add: recorded_def p)
  qed
  have "wp (maybe_checkpoint ps fr now r (dr_tenant dr)) (\<lambda>_ u. grown d u \<and> (\<exists>q b. receipt_of r again = receipt_of q b
      \<and> recorded ps (ad_web d) c dr q u)) (grown d) t"
    by (rule wp_mono [OF maybe_checkpoint_grown]) (use rec in blast)+
  then show "wp ((\<lambda>(r, again). seq (if checkpoints \<and> \<not> again
            \<and> re_type (dr_event dr) \<notin> {''AUDIT_CHAIN_GENESIS'', ''LEGACY_HISTORY_IMPORTED'', ''CHECKPOINT_CREATED''}
          then maybe_checkpoint ps fr now r (dr_tenant dr) else ret ()) (\<lambda>_. ret (receipt_of r again))) p)
      (\<lambda>x t. grown d t \<and> (\<exists>r again. x = receipt_of r again \<and> recorded ps (ad_web d) c dr r t)) (grown d) t"
    using rec [OF grown_refl] by (auto simp: p)
qed simp

lemma semantic_fine: "jcs_fine (JObj (ec_metadata cols)) \<Longrightarrow> jcs_fine (JObj (semantic_payload e cols))"
  by (simp add: semantic_payload_def split: option.split)

lemma recorded_again:
  assumes "recorded ps (ad_web t) c dr r t" and "jcs_fine (JObj (dr_metadata dr))"
  shows "insert_locked ps fr now checkpoints c occurred dr t = (Inr (receipt_of r True), t)"
proof -
  obtain cols where cols: "draft_columns ps (ad_web t) dr = Inr cols" "carries r (dr_event dr) cols"
    and row: "keyed_row c (tr_key (dr_trace dr)) t = Some r" using assms(1) by (auto simp: recorded_def)
  have "jcs_fine (JObj (semantic_payload (dr_event dr) cols))"
    using assms(2) draft_metadata [OF cols(1)] by (intro semantic_fine) simp
  then obtain b where "jcs_bytes (JObj (semantic_payload (dr_event dr) cols)) = Inr b"
    using jcs_fine_ok by (fastforce simp: ok_iff jcs_bytes_def simp del: jcs.simps)
  with cols row show ?thesis by (simp add: insert_locked_def insert_audit_def op_defs carries_def)
qed

lemma safe_trace_same: "safe_trace x = Inr y \<Longrightarrow> y = x"
  by (auto simp: safe_trace_def audit_id_def bind_Inr_iff split: option.splits if_splits)

lemma audit_draft_trace: "audit_draft ps w q = Inr dr \<Longrightarrow> dr_trace dr = rq_trace q"
  by (auto simp: audit_draft_def bind_Inr_iff safe_trace_same split: option.splits prod.splits if_splits)

lemma settled_chain:
  assumes "settled (tn_org tn) c t" and "opened t c"
  shows "audit_chain ps fr now tn t = (Inr c, t)"
proof -
  obtain h where h: "find_head (tn_org tn) t = Some h" "ch_id h = c" "ch_format h = audit_format_version"
    using assms(1) by (auto simp: settled_def)
  then have "h \<in> set (ad_heads t)" by (auto simp: find_head_def dest: lookup_row_Some)
  moreover obtain g where "g \<in> set (ad_heads t)" "ch_id g = c" "0 < ch_sequence g" "sealed t"
    using assms(2) by (auto simp: opened_def)
  ultimately have "0 < ch_sequence h" using head_of_id h(2) by metis
  with h show ?thesis by (simp add: audit_chain_def settle_head_def op_defs)
qed

lemma opened_grown:
  assumes "opened d c" and "sealed t" and "grown d t"
  shows "opened t c"
proof -
  obtain h where h: "h \<in> set (ad_heads d)" "ch_id h = c" "0 < ch_sequence h" "sealed d" using assms(1) by (auto simp: opened_def)
  have "rows_of d c \<noteq> []" using sealed_head [OF h(4,1)] h by (auto simp: chain_sealed_def)
  then have rows: "rows_of t c \<noteq> []" using assms(3) by (auto simp: grown_def rows_of_def)
  have keys: "map ch_id hs = map fst (map head_key hs)" for hs by (simp add: head_key_def)
  have "map head_key (ad_heads t) = map head_key (ad_heads d)" using assms(3) by (simp add: grown_def)
  then have "map ch_id (ad_heads t) = map ch_id (ad_heads d)" by (metis keys)
  with h have "c \<in> ch_id ` set (ad_heads t)" by (metis image_eqI list.set_map)
  then obtain g where "g \<in> set (ad_heads t)" "ch_id g = c" by blast
  with sealed_head [OF assms(2) this(1)] rows assms(2) show ?thesis by (auto simp: opened_def chain_sealed_def)
qed

lemma append_event_recorded:
  assumes d: "sealed d" and dr: "audit_draft ps (ad_web d) q = Inr dr" and key: "truthy (tr_key (rq_trace q))"
    and run: "append_event ps fr now q d = (Inr x, t)"
  obtains c a b r again where "settled (tn_org (rq_tenant q)) c t" "opened t c" "ad_web t = ad_web d"
    "safe_hash (rq_before q) = Inr b" "safe_hash (rq_after q) = Inr a" "ok (case rq_time q of None \<Rightarrow> Inr now | Some z \<Rightarrow> utc_time z)"
    "x = receipt_of r again" "recorded ps (ad_web t) c (dr\<lparr>dr_before := b, dr_after := a\<rparr>) r t"
proof -
  obtain c u where chain: "audit_chain ps fr now (rq_tenant q) d = (Inr c, u)"
    using run dr by (auto simp: append_event_def op_defs split: prod.splits sum.splits)
  with run dr obtain a b occurred where parts: "safe_hash (rq_before q) = Inr b" "safe_hash (rq_after q) = Inr a"
      "(case rq_time q of None \<Rightarrow> Inr now | Some z \<Rightarrow> utc_time z) = Inr occurred"
    and locked: "insert_locked ps fr now (rq_checkpoint q) c occurred (dr\<lparr>dr_before := b, dr_after := a\<rparr>) u = (Inr x, t)"
    by (auto simp: append_event_def op_defs split: sum.splits)
  have u: "opened u c" using wpD(1) [OF audit_chain_wp [OF d] chain] .
  have su: "settled (tn_org (rq_tenant q)) c u" "ad_web u = ad_web d"
    using wpD(1) [OF audit_chain_settled chain] by auto
  let ?dr = "dr\<lparr>dr_before := b, dr_after := a\<rparr>"
  have reg: "audit_registry (re_type (dr_event ?dr)) = Some (dr_event ?dr)"
    using dr by (auto simp: audit_draft_def bind_Inr_iff registry_type split: option.splits prod.splits if_splits)
  have "truthy (tr_key (dr_trace ?dr))" using key audit_draft_trace [OF dr] by simp
  from wpD(1) [OF insert_locked_grown [OF reg this] locked]
  obtain r again where grown: "grown u t" and rec: "x = receipt_of r again" "recorded ps (ad_web u) c ?dr r t" by blast
  have "sealed t" using wpD(1) [OF append_event_wp [OF d] run] .
  from opened_grown [OF u this grown] settled_grown [OF su(1) grown] su(2) grown_web [OF grown] parts rec show ?thesis
    by (intro that [of c b a r again]) simp_all
qed

text \<open>Appending an event that names an event key a second time changes nothing and answers with the first
  receipt, marked as converged, whatever identifiers and time the second call draws.\<close>

theorem append_again_converges:
  assumes "audit_step\<^sup>*\<^sup>* (no_history w) d" and "append_event ps fr now q d = (Inr x, t)" and "truthy (tr_key (rq_trace q))"
  shows "append_event ps fr' now' q t = (Inr (x\<lparr>rt_converged := True\<rparr>), t)"
proof -
  have d: "sealed d" by (rule history_sealed [OF assms(1)])
  obtain dr where dr: "audit_draft ps (ad_web d) q = Inr dr"
    using assms(2) by (auto simp: append_event_def op_defs split: sum.splits)
  obtain c a b r again where t: "settled (tn_org (rq_tenant q)) c t" "opened t c" "ad_web t = ad_web d"
    and parts: "safe_hash (rq_before q) = Inr b" "safe_hash (rq_after q) = Inr a" "ok (case rq_time q of None \<Rightarrow> Inr now | Some z \<Rightarrow> utc_time z)"
    and rec: "x = receipt_of r again" "recorded ps (ad_web t) c (dr\<lparr>dr_before := b, dr_after := a\<rparr>) r t"
    using append_event_recorded [OF d dr assms(3,2)] .
  obtain occurred where "(case rq_time q of None \<Rightarrow> Inr now' | Some z \<Rightarrow> utc_time z) = Inr occurred"
    using parts(3) by (auto simp: ok_iff split: option.splits)
  moreover have "jcs_fine (JObj (dr_metadata (dr\<lparr>dr_before := b, dr_after := a\<rparr>)))"
    using audit_draft_presentable [OF dr] by (simp add: presentable_def)
  note recorded_again [OF rec(2) this]
  moreover have "x\<lparr>rt_converged := True\<rparr> = receipt_of r True" by (simp add: rec(1) receipt_of_def)
  ultimately show ?thesis
    using dr t(3) parts(1,2) settled_chain [OF t(1,2)] by (simp add: append_event_def op_defs)
qed

theorem append_again_converges_witness:
  "\<exists>x t. append_event demo_pseudonyms demo_fresh 0 demo_login_event (no_history demo_web) = (Inr x, t) \<and> \<not> rt_converged x
     \<and> append_event demo_pseudonyms demo_fresh 5 demo_login_event t = (Inr (x\<lparr>rt_converged := True\<rparr>), t)"
proof -
  obtain x g q t where run: "append_event demo_pseudonyms demo_fresh 0 demo_login_event (no_history demo_web) = (Inr x, t)"
    and new: "rt_converged x = False"
    using demo_login_run by blast
  have "truthy (tr_key (rq_trace demo_login_event))" by (simp add: demo_login_event_def)
  from append_again_converges [OF rtranclp.rtrancl_refl run this] run new show ?thesis by blast
qed

section \<open>A removed tail\<close>

definition without_tail :: "pystr \<Rightarrow> int \<Rightarrow> audit_db \<Rightarrow> audit_db" where
  "without_tail c start d = d\<lparr>ad_events := filter (\<lambda>r. \<not> (ae_chain r = c \<and> start \<le> ae_sequence r)) (ad_events d)\<rparr>"

lemma find_filter: "(\<And>x. P x \<Longrightarrow> Q x) \<Longrightarrow> find P (filter Q xs) = find P xs"
  by (induction xs) auto

lemma row_at_without: "n < start \<Longrightarrow> row_at (without_tail c start d) c n = row_at d c n"
  by (auto simp: row_at_def without_tail_def intro: find_filter)

lemma point_fault_without:
  "cp_through p < start \<Longrightarrow> point_fault (without_tail c start d) c previous p = point_fault d c previous p"
  by (simp add: point_fault_def row_at_without)

lemma verify_points_without:
  "\<forall>p\<in>set ps. cp_through p < start \<Longrightarrow> verify_points (without_tail c start d) c previous ps = verify_points d c previous ps"
  by (induction ps arbitrary: previous) (simp_all add: point_fault_without cong: if_cong)

lemma linked_prefix: "linked previous n rows \<Longrightarrow> filter (\<lambda>r. ae_sequence r < k) rows = take (nat (k - n)) rows"
proof (induction rows arbitrary: previous n)
  case (Cons r rows)
  then have "ae_sequence r = n" "filter (\<lambda>r. ae_sequence r < k) rows = take (nat (k - (n + 1))) rows"
    by (auto simp: row_fault_None)
  moreover have "nat (k - n) = Suc (nat (k - (n + 1)))" if "n < k" using that by simp
  ultimately show ?case by (cases "n < k") auto
qed simp

text \<open>When the events from some number on were deleted, a verification that starts at that number says
  \<open>VALID\<close> although the head counts the deleted events; the verification from the first event says
  \<open>INVALID\<close>.\<close>

theorem removed_tail_passes_partial_check:
  assumes "audit_step\<^sup>*\<^sup>* (no_history w) d" and "h \<in> set (ad_heads d)" and "1 < start" and "start \<le> ch_sequence h"
    and "\<forall>p\<in>set (ad_checkpoints d). cp_chain p = ch_id h \<longrightarrow> cp_through p < start"
  shows "(\<exists>v. verify_from h start None (without_tail (ch_id h) start d) = Inr v \<and> vr_status v = ''VALID''
      \<and> vr_to v < vr_head_sequence v)
    \<and> (\<exists>v. verify_from h 1 None (without_tail (ch_id h) start d) = Inr v \<and> vr_status v = ''INVALID'')"
proof -
  let ?t = "without_tail (ch_id h) start d" and ?c = "ch_id h"
  have d: "sealed d" by (rule history_sealed [OF assms(1)])
  note chain = sealed_head [OF d assms(2), unfolded chain_sealed_def]
  let ?rows = "rows_of d ?c"
  have len: "start \<le> int (length ?rows)" using chain assms(4) by simp
  have rows: "rows_of ?t ?c = take (nat (start - 1)) ?rows"
  proof -
    have "rows_of ?t ?c = filter (\<lambda>r. ae_sequence r < start) ?rows"
      by (auto simp: rows_of_def without_tail_def intro!: filter_cong)
    then show ?thesis using linked_prefix [of zero_hash 1 ?rows start] chain by simp
  qed
  have empty: "chain_rows ?t ?c start = []" by (simp add: chain_rows_def without_tail_def filter_empty_conv)
  let ?r = "?rows ! nat (start - 2)"
  have r: "?r \<in> set (ad_events d)" "ae_chain ?r = ?c" "ae_sequence ?r = start - 1"
    using len assms(3) chain linked_nth [of zero_hash 1 ?rows "nat (start - 2)"] nth_mem [of "nat (start - 2)" ?rows]
    by (auto simp: rows_of_def)
  have prior: "row_at ?t ?c (start - 1) = Some ?r"
    using row_at_present [OF d r(1)] r by (simp add: row_at_without)
  have points: "verify_points ?t ?c zero_hash (chain_checkpoints ?t ?c) = Inr ''VALID''"
  proof -
    have "chain_checkpoints ?t ?c = points_of d ?c"
      using chain chain_checkpoints_of [of d ?c] by (simp add: chain_checkpoints_def without_tail_def)
    moreover have "\<forall>p\<in>set (points_of d ?c). cp_through p < start" using assms(5) by (simp add: points_of_def)
    ultimately show ?thesis using chain by (simp add: verify_points_without)
  qed
  have "\<exists>v. verify_from h start None ?t = Inr v \<and> vr_status v = ''VALID'' \<and> vr_to v < vr_head_sequence v"
    using assms(3,4) empty prior points by (auto simp: verify_from_def verify_end_def last_sequence_def)
  moreover have "\<exists>v. verify_from h 1 None ?t = Inr v \<and> vr_status v = ''INVALID''"
  proof -
    have linked: "linked zero_hash 1 (rows_of ?t ?c)"
      using chain linked_append [of zero_hash 1 "take (nat (start - 1)) ?rows" "drop (nat (start - 1)) ?rows"] by (simp add: rows)
    have ne: "rows_of ?t ?c \<noteq> []" and n: "int (length (rows_of ?t ?c)) = start - 1" using len assms(3) by (auto simp: rows)
    have "ae_sequence (last (rows_of ?t ?c)) = start - 1" using linked_length [OF linked ne] n by simp
    moreover have "verify_rows h 1 zero_hash 1 0 (rows_of ?t ?c) = Inr None" using linked by (simp add: verify_rows_None)
    ultimately show ?thesis using assms(3,4) ne linked
      by (auto simp: Let_def verify_from_def verify_end_def chain_rows_all invalid_result_def)
  qed
  ultimately show ?thesis by blast
qed

theorem removed_tail_passes_partial_check_witness:
  "\<exists>d h. audit_step\<^sup>*\<^sup>* (no_history demo_web) d \<and> h \<in> set (ad_heads d) \<and> ch_sequence h = 2
     \<and> (\<exists>v. verify_from h 2 None (without_tail (ch_id h) 2 d) = Inr v \<and> vr_status v = ''VALID'' \<and> vr_to v < vr_head_sequence v)
     \<and> (\<exists>v. verify_from h 1 None (without_tail (ch_id h) 2 d) = Inr v \<and> vr_status v = ''INVALID'')"
proof -
  obtain r g q t where run: "append_event demo_pseudonyms demo_fresh 0 demo_login_event (no_history demo_web) = (Inr r, t)"
    and t: "t = store_row q (store_row g demo_opened)" and q: "ae_sequence q = 2" "ae_chain q = demo_uuid ''1''"
    using demo_login_run by blast
  have step: "audit_step\<^sup>*\<^sup>* (no_history demo_web) t" using run by (blast intro: step_append)
  have "\<exists>h\<in>set (ad_heads t). ch_sequence h = 2"
    using q by (simp add: t store_row_def update_rows_def demo_opened_def demo_head_def)
  then obtain h where h: "h \<in> set (ad_heads t)" "ch_sequence h = 2" by blast
  have "ad_checkpoints t = []" by (simp add: t demo_opened_def no_history_def)
  with removed_tail_passes_partial_check [OF step h(1), of 2] step h show ?thesis by auto
qed

end
