(* ===== verification/Spec2Isabelle.thy ===== *)
theory Spec2Isabelle
  imports AgentBroker AggregationReconcile TurnoverChecks PrintRuntime WebBootstrap EventServices
    DocumentAssembler InventoryAnswers WebAuditTheorems
begin

text \<open>
  The program connects a marketplace seller (Wildberries) with the Russian marking system. A server
  imports the seller's sales and returns, decides what has to be reported about each marked item,
  freezes the exact document, and hands jobs to a Windows agent that owns the signing certificate, the
  only way to the marking API, and the label printer. Around it a web application keeps accounts,
  organisations and their members. The development models the parts whose mistakes cannot be taken back:
  a document sent twice or about another item, a label printed twice, a user acting outside the own
  organisation. File names below are under \<^verbatim>\<open>src/src/\<close>.

  \<^bold>\<open>Shared theories.\<close> Prelude: code that may raise as a sum, transactions over a
  database value, operations that keep their effects when they raise, tables with a key column, and two
  contracts as locales (a life cycle that only moves forward, a guard that lets an effect happen once).
  PyText, Codecs, Json: Python strings (eight-bit code points), UTF-8, strict Base64, SHA-256, canonical
  JSON and a recogniser of what \<open>json.loads\<close> accepts, with their round trips. Models: the
  data of \<open>wbcz/models.py\<close>.

  \<^bold>\<open>From a workbook to a decision.\<close> WbParser (\<open>wb_parser.py\<close>) parses
  rows; EventStore and EventInvariants (\<open>event_store.py\<close>, \<open>audit.py\<close>) are the
  SQLite tables, their transactions as one step relation and the invariant of every reachable database;
  EventServices (\<open>service.py\<close>, \<open>status_verifier.py\<close>,
  \<open>submission.py\<close>) import, dry run and tracking; ControlEngine
  (\<open>control_engine.py\<close>) the decision; DocumentAssembler
  (\<open>document_assembler.py\<close>) the document of an event. Theorems: imports are idempotent, a
  preview is over the current history, a final status stays, what is parsed survives the store, the
  frozen bytes name the event's code, price and day.

  \<^bold>\<open>Writing to the marking system.\<close> WriteAdapter, WriteStore, WriteInvariants,
  WritePipeline (\<open>write_pipeline.py\<close>): the state machine of one operation, its table with
  an append-only audit, the invariant over any interleaving of transactions, and the pipeline: at most
  one create is sent for an operation, of the frozen bytes, and success needs a reconciliation.
  AggregationModel, AggregationChecks, AggregationTree, AggregationReconcile
  (\<open>aggregation.py\<close>): packaging documents, preconditions over fresh snapshots, the bounded
  walk of the aggregate tree, and when a change is confirmed. TurnoverText, TurnoverModel,
  TurnoverDocuments, TurnoverChecks (\<open>turnover.py\<close>): the twelve turnover documents, their
  preconditions and postconditions.

  \<^bold>\<open>The agent.\<close> AgentJobs, AgentStore, AgentExecutor, AgentBroker
  (\<open>windows_agent.py\<close>, \<open>windows_agent_runtime.py\<close>): validation of jobs, the
  outbox of the server and the replay guard of the agent, execution, and the answer the broker applies
  to the write operation. ReadPayloads holds what the read jobs share, with the contract of their
  validators as a locale; InventoryReads and InventoryAnswers (\<open>cis_inventory.py\<close>) the
  payloads, request specifications and allow-list of the read jobs and the parsers of their answers.
  PrintSpooler, PrintControl, PrintStore, PrintRuntime (\<open>physical_printing.py\<close>): the GDI
  spooler, signed messages, the durable print evidence and the execution of a print, at most one spool
  job for each.

  \<^bold>\<open>The web application.\<close> WebSecurity (\<open>wbcz_web/models/security.py\<close>),
  WebAuthorization, WebMembership, WebBootstrap (\<open>services/authorization.py\<close>,
  \<open>tenant.py\<close>, \<open>registration.py\<close>), WebLogin (\<open>services/auth.py\<close>):
  the scope of a request, roles and invitations, login with its throttle. Theorems: exactly when a
  request is authorised, an organisation keeps its owner, nobody is raised except by an owner, the wrong
  passwords compared between two right ones are bounded. The audit history
  (\<open>services/audit_history.py\<close>) is in WebAuditEvents (the registry of events),
  WebAuditValues (canonical serialisation, pseudonyms, sanitiser), WebAuditChain (append, checkpoints,
  verification) and WebAuditSeal, with JsonUnique for the canonical text; WebAuditTheorems shows that
  what append builds verifies, that two histories with the same head are the same as far as it is hashed
  (or SHA-256 collides), that no marking code stays in a row, and the columns the hash leaves out.

  \<^bold>\<open>How code becomes definitions.\<close> A class with state is a record passed along; a
  transaction is a function that gives an error and no new state, or an answer and the new state; an
  operation that keeps effects when it raises returns both. Interleavings of processes are steps of
  inductive relations. Raises are values. Integers of Python are \<open>int\<close>; the words of
  SHA-256 and of the device mode are 32-bit words. Loops are recursion over their list; the walk of the
  aggregate tree carries a depth bound, and its theorem says that a bound of at least the number of
  codes cuts nothing; the JSON recogniser has fuel twice the length of the input and two, which its
  lemmas show to suffice for every text the program writes, finite floats included. A float is the text
  of its \<open>repr\<close>. A string holds code points below 256: texts in Cyrillic that the program
  only copies are arguments or shortened in messages.

  \<^bold>\<open>Arguments of the model.\<close> What is not under \<open>src/\<close>, or is the
  machine: clocks, fresh identifiers, the HTTP transport and its answers, the signing certificate, the
  Windows spooler, the label renderer, Argon2, the date parser and \<open>repr\<close> of the standard
  library. Hypotheses about them are in the statements, and each such theorem has a witness at concrete
  values.

  \<^bold>\<open>Not modelled.\<close> HTTP routing and HTML (\<open>wbcz_web/main.py\<close>,
  \<open>api\<close>, \<open>wbcz_ui\<close>), SQLAlchemy declarations and migrations, command lines,
  COM and certificate access: input and output around the services. The drawing of labels and the
  discovery of printers. Reading the ZIP archive of a workbook. Redaction by regular expressions. The
  services over PostgreSQL that are not named above (\<open>integration_settings\<close>,
  \<open>reports\<close>, \<open>printing\<close>, \<open>workspace\<close>) and the sealer of rows
  older than the audit history, whose logic is mostly queries; the manifest lists each with its reason.
\<close>

end
